(* ===== verification/Bench_Prelude.thy ===== *)
theory Bench_Prelude
  imports Complex_Main "HOL-Library.AList" "HOL-Library.Char_ord"
    "HOL-Library.List_Lexorder" "HOL-Library.Product_Lexorder" "HOL-Library.Multiset"
begin

text \<open>
  Shared vocabulary of the development: Python values as the harness sees them once a JSON
  document is decoded, the coercions the sources call on them (\<open>int\<close>, \<open>float\<close>, \<open>str\<close>,
  truthiness, \<open>dict.get\<close>), the exceptions those raise, the string operations the sources use,
  and the generic lemmas on association lists, sums and sorted lists the components share.

  Conventions.  A Python \<open>dict\<close> with string keys is an association list in insertion order:
  \<open>AList.update\<close> overwrites in place or appends, as \<open>d[k] = v\<close> does, and \<open>map_of\<close> is
  \<open>d.get(k)\<close>.  A Python \<open>float\<close> is a real number: rounding, infinities and NaN are not
  modelled.  A Python \<open>str\<close> is a list of characters, taken to be ASCII.
\<close>

named_theorems result_simps \<open>elimination of the result monad\<close>
named_theorems alist_simps \<open>totals and keys of association lists\<close>

section \<open>Results: a value or a raised exception\<close>

datatype py_exc =
    PyTypeError
  | PyValueError
  | PyKeyError string
  | PyAttributeError
  | PyRuntimeError string
  | PyFileExistsError
  | PyFileNotFoundError
  | PyOSError
  | PyIndexError

text \<open>Sequencing: the second computation runs only when the first did not raise.\<close>

definition bind_result :: "'e + 'a \<Rightarrow> ('a \<Rightarrow> 'e + 'b) \<Rightarrow> 'e + 'b" where
  "bind_result m f = (case m of Inl e \<Rightarrow> Inl e | Inr x \<Rightarrow> f x)"

lemma bind_result_simps [simp]:
  "bind_result (Inl e) f = Inl e"
  "bind_result (Inr x) f = f x"
  by (simp_all add: bind_result_def)

text \<open>Evaluating a chain of binds head first: the rest is left alone until its argument is known.\<close>

lemma bind_result_weak: "m = m' \<Longrightarrow> bind_result m f = bind_result m' f"
  by simp

text \<open>Likewise for a look-up: the list is not simplified before the key is found.\<close>

lemma map_of_weak: "k = k' \<Longrightarrow> map_of d k = map_of d k'"
  by simp

lemmas lookup_simps = map_of_Cons_code list.inject list.distinct char.inject simp_thms if_True if_False

lemma bind_result_eq_Inr [result_simps]:
  "bind_result m f = Inr y \<longleftrightarrow> (\<exists>x. m = Inr x \<and> f x = Inr y)"
  by (cases m) auto

lemma bind_result_eq_Inl [result_simps]:
  "bind_result m f = Inl e \<longleftrightarrow> m = Inl e \<or> (\<exists>x. m = Inr x \<and> f x = Inl e)"
  by (cases m) auto

lemma bind_result_assoc: "bind_result (bind_result m f) g = bind_result m (\<lambda>x. bind_result (f x) g)"
  by (cases m) auto

text \<open>A list comprehension whose element expression may raise: the first exception wins.\<close>

fun map_result :: "('a \<Rightarrow> 'e + 'b) \<Rightarrow> 'a list \<Rightarrow> 'e + 'b list" where
  "map_result f [] = Inr []"
| "map_result f (x # xs) =
     bind_result (f x) (\<lambda>y. bind_result (map_result f xs) (\<lambda>ys. Inr (y # ys)))"

lemma map_result_length: "map_result f xs = Inr ys \<Longrightarrow> length ys = length xs"
  by (induction xs arbitrary: ys) (auto simp: result_simps)

lemma map_result_Inr:
  "(\<And>x. x \<in> set xs \<Longrightarrow> f x = Inr (g x)) \<Longrightarrow> map_result f xs = Inr (map g xs)"
  by (induction xs) auto

lemma map_result_map: "map_result f (map g xs) = map_result (\<lambda>x. f (g x)) xs"
  by (induction xs) auto

lemma map_result_id:
  "(\<And>x. x \<in> set xs \<Longrightarrow> f (g x) = Inr x) \<Longrightarrow> map_result f (map g xs) = Inr xs"
  by (simp add: map_result_map map_result_Inr [where g = "\<lambda>x. x"])

text \<open>\<open>value or default\<close> on an optional value.\<close>

definition opt_or :: "'a option \<Rightarrow> 'a \<Rightarrow> 'a" where
  "opt_or v d = (case v of None \<Rightarrow> d | Some x \<Rightarrow> x)"

lemma opt_or_simps [simp]: "opt_or None d = d" "opt_or (Some x) d = x"
  by (simp_all add: opt_or_def)

section \<open>Strings\<close>

definition char_code :: "char \<Rightarrow> nat" where
  "char_code c = of_char c"

definition is_space :: "char \<Rightarrow> bool" where
  "is_space c \<longleftrightarrow> (let n = char_code c in 9 \<le> n \<and> n \<le> 13 \<or> 28 \<le> n \<and> n \<le> 32)"

definition is_digit :: "char \<Rightarrow> bool" where
  "is_digit c \<longleftrightarrow> 48 \<le> char_code c \<and> char_code c \<le> 57"

definition lower_char :: "char \<Rightarrow> char" where
  "lower_char c = (let n = char_code c in if 65 \<le> n \<and> n \<le> 90 then char_of (n + 32) else c)"

definition lower :: "string \<Rightarrow> string" where
  "lower s = map lower_char s"

definition lstrip :: "string \<Rightarrow> string" where
  "lstrip s = dropWhile is_space s"

definition rstrip :: "string \<Rightarrow> string" where
  "rstrip s = rev (dropWhile is_space (rev s))"

definition strip :: "string \<Rightarrow> string" where
  "strip s = rstrip (lstrip s)"

fun starts_with :: "string \<Rightarrow> string \<Rightarrow> bool" where
  "starts_with s [] = True"
| "starts_with [] (p # ps) = False"
| "starts_with (c # s) (p # ps) = (c = p \<and> starts_with s ps)"

text \<open>\<open>pat in s\<close>.\<close>

fun contains :: "string \<Rightarrow> string \<Rightarrow> bool" where
  "contains [] pat = (pat = [])"
| "contains (c # s) pat = (starts_with (c # s) pat \<or> contains s pat)"

text \<open>\<open>s.split()\<close>: maximal runs of non-space characters.\<close>

fun split_ws_acc :: "string \<Rightarrow> string \<Rightarrow> string list" where
  "split_ws_acc acc [] = (if acc = [] then [] else [rev acc])"
| "split_ws_acc acc (c # s) =
     (if is_space c then (if acc = [] then split_ws_acc [] s else rev acc # split_ws_acc [] s)
      else split_ws_acc (c # acc) s)"

definition split_ws :: "string \<Rightarrow> string list" where
  "split_ws s = split_ws_acc [] s"

text \<open>\<open>sep.join(parts)\<close>.\<close>

fun join :: "string \<Rightarrow> string list \<Rightarrow> string" where
  "join sep [] = []"
| "join sep [x] = x"
| "join sep (x # xs) = x @ sep @ join sep xs"

text \<open>\<open>s.partition(c)\<close> for a single character: text before, whether found, text after.\<close>

definition partition_char :: "char \<Rightarrow> string \<Rightarrow> string \<times> bool \<times> string" where
  "partition_char c s =
     (let a = takeWhile (\<lambda>x. x \<noteq> c) s; r = dropWhile (\<lambda>x. x \<noteq> c) s
      in case r of [] \<Rightarrow> (s, False, []) | _ # r' \<Rightarrow> (a, True, r'))"

text \<open>\<open>s.rsplit(c, 1)[-1]\<close>: what follows the last \<open>c\<close>, the whole string when there is none.\<close>

definition after_last :: "char \<Rightarrow> string \<Rightarrow> string" where
  "after_last c s = rev (takeWhile (\<lambda>x. x \<noteq> c) (rev s))"

definition is_digit_string :: "string \<Rightarrow> bool" where
  "is_digit_string s \<longleftrightarrow> s \<noteq> [] \<and> list_all is_digit s"

definition digits_value :: "string \<Rightarrow> nat" where
  "digits_value s = foldl (\<lambda>n c. 10 * n + (char_code c - 48)) 0 s"

definition split_sign :: "string \<Rightarrow> bool \<times> string" where
  "split_sign s = (case s of [] \<Rightarrow> (False, []) | c # r \<Rightarrow>
     if c = CHR ''-'' then (True, r) else if c = CHR ''+'' then (False, r) else (False, s))"

text \<open>\<open>int(text)\<close> in base ten; \<open>None\<close> is \<open>ValueError\<close> (underscore separators are not modelled).\<close>

definition int_of_string :: "string \<Rightarrow> int option" where
  "int_of_string s =
     (let (neg, d) = split_sign (strip s)
      in if is_digit_string d
         then Some (if neg then - int (digits_value d) else int (digits_value d)) else None)"

text \<open>\<open>float(text)\<close> for decimal literals with an optional exponent; the spellings of
  infinity and NaN are not modelled and count as \<open>ValueError\<close>.\<close>

definition exponent_of_string :: "string \<Rightarrow> real option" where
  "exponent_of_string s = (case s of
      [] \<Rightarrow> Some 1
    | e # r \<Rightarrow>
        if lower_char e \<noteq> CHR ''e'' then None
        else (let (neg, d) = split_sign r
              in if is_digit_string d
                 then Some (if neg then 1 / 10 ^ digits_value d else 10 ^ digits_value d)
                 else None))"

definition float_of_string :: "string \<Rightarrow> real option" where
  "float_of_string s =
     (let (neg, t) = split_sign (strip s);
          ip = takeWhile is_digit t; r = dropWhile is_digit t;
          (fp, r') = (case r of c # q \<Rightarrow> if c = CHR ''.'' then (takeWhile is_digit q, dropWhile is_digit q)
                                        else ([], r)
                              | [] \<Rightarrow> ([], []))
      in if ip = [] \<and> fp = [] then None
         else (case exponent_of_string r' of None \<Rightarrow> None
               | Some x \<Rightarrow>
                  (let m = (real (digits_value ip) + real (digits_value fp) / 10 ^ length fp) * x
                   in Some (if neg then - m else m))))"

fun digits_of_nat :: "nat \<Rightarrow> string" where
  "digits_of_nat n =
     (if n < 10 then [char_of (48 + n)] else digits_of_nat (n div 10) @ [char_of (48 + n mod 10)])"

declare digits_of_nat.simps [simp del]

definition string_of_int :: "int \<Rightarrow> string" where
  "string_of_int i = (if i < 0 then CHR ''-'' # digits_of_nat (nat (- i)) else digits_of_nat (nat i))"

lemma starts_with_append: "starts_with (p @ s) p"
  by (induction p) auto

lemma starts_with_iff: "starts_with s p \<longleftrightarrow> (\<exists>r. s = p @ r)"
proof (induction s p rule: starts_with.induct)
  case (3 c s p ps)
  then show ?case by auto
qed auto

lemma contains_iff: "contains s pat \<longleftrightarrow> (\<exists>a b. s = a @ pat @ b)"
proof (induction s)
  case Nil
  then show ?case by auto
next
  case (Cons c s)
  have "(\<exists>a b. c # s = a @ pat @ b) \<longleftrightarrow>
      (\<exists>b. c # s = pat @ b) \<or> (\<exists>a b. s = a @ pat @ b)"
    by (metis append_Cons append_Nil list.exhaust list.inject)
  with Cons show ?case by (simp add: starts_with_iff)
qed

lemma lstrip_Nil [simp]: "lstrip [] = []" and rstrip_Nil [simp]: "rstrip [] = []"
  and strip_Nil [simp]: "strip [] = []"
  by (simp_all add: lstrip_def rstrip_def strip_def)

lemma rstrip_idem [simp]: "rstrip (rstrip s) = rstrip s"
  by (simp add: rstrip_def)

lemma dropWhile_rev_dropWhile:
  "dropWhile P xs = xs \<Longrightarrow> dropWhile P (rev (dropWhile Q (rev xs))) = rev (dropWhile Q (rev xs))"
proof -
  assume a: "dropWhile P xs = xs"
  obtain ys where ys: "xs = rev (dropWhile Q (rev xs)) @ ys"
    by (metis rev_append rev_rev_ident takeWhile_dropWhile_id)
  show ?thesis
  proof (cases "rev (dropWhile Q (rev xs))")
    case Nil
    then show ?thesis by (metis dropWhile.simps(1))
  next
    case (Cons z zs)
    with ys have "xs = z # zs @ ys" by simp
    with a have "\<not> P z"
      by (metis dropWhile.simps(2) impossible_Cons length_dropWhile_le)
    with Cons show ?thesis by simp
  qed
qed

lemma strip_idem [simp]: "strip (strip s) = strip s"
proof -
  have "lstrip (lstrip s) = lstrip s" by (simp add: lstrip_def)
  then have "lstrip (strip s) = strip s"
    using dropWhile_rev_dropWhile [of is_space "lstrip s" is_space]
    by (simp add: strip_def rstrip_def lstrip_def)
  then show ?thesis by (simp add: strip_def)
qed

section \<open>Python values\<close>

datatype pyval =
    PNone
  | PBool bool
  | PInt int
  | PFloat real
  | PStr string
  | PList "pyval list"
  | PDict "(string \<times> pyval) list"

type_synonym pydict = "(string \<times> pyval) list"

fun truthy :: "pyval \<Rightarrow> bool" where
  "truthy PNone = False"
| "truthy (PBool b) = b"
| "truthy (PInt i) = (i \<noteq> 0)"
| "truthy (PFloat x) = (x \<noteq> 0)"
| "truthy (PStr s) = (s \<noteq> [])"
| "truthy (PList xs) = (xs \<noteq> [])"
| "truthy (PDict d) = (d \<noteq> [])"

text \<open>\<open>d.get(k)\<close> and \<open>d.get(k, default)\<close>; \<open>d[k]\<close> raises \<open>KeyError\<close>.\<close>

definition dget :: "pydict \<Rightarrow> string \<Rightarrow> pyval" where
  "dget d k = opt_or (map_of d k) PNone"

definition dget_default :: "pydict \<Rightarrow> string \<Rightarrow> pyval \<Rightarrow> pyval" where
  "dget_default d k v = opt_or (map_of d k) v"

definition dget_item :: "pydict \<Rightarrow> string \<Rightarrow> py_exc + pyval" where
  "dget_item d k = (case map_of d k of None \<Rightarrow> Inl (PyKeyError k) | Some v \<Rightarrow> Inr v)"

text \<open>\<open>float(v)\<close> truncates towards zero under \<open>int\<close>.\<close>

definition trunc_real :: "real \<Rightarrow> int" where
  "trunc_real x = (if 0 \<le> x then \<lfloor>x\<rfloor> else \<lceil>x\<rceil>)"

fun py_int :: "pyval \<Rightarrow> py_exc + int" where
  "py_int (PBool b) = Inr (if b then 1 else 0)"
| "py_int (PInt i) = Inr i"
| "py_int (PFloat x) = Inr (trunc_real x)"
| "py_int (PStr s) = (case int_of_string s of None \<Rightarrow> Inl PyValueError | Some i \<Rightarrow> Inr i)"
| "py_int _ = Inl PyTypeError"

fun py_float :: "pyval \<Rightarrow> py_exc + real" where
  "py_float (PBool b) = Inr (if b then 1 else 0)"
| "py_float (PInt i) = Inr (of_int i)"
| "py_float (PFloat x) = Inr x"
| "py_float (PStr s) = (case float_of_string s of None \<Rightarrow> Inl PyValueError | Some x \<Rightarrow> Inr x)"
| "py_float _ = Inl PyTypeError"

text \<open>
  \<open>str(v)\<close>.  The text CPython gives a float, a list or a dict is a parameter \<open>rp\<close> of every
  definition that can meet one.
\<close>

fun py_str :: "(pyval \<Rightarrow> string) \<Rightarrow> pyval \<Rightarrow> string" where
  "py_str rp PNone = ''None''"
| "py_str rp (PBool b) = (if b then ''True'' else ''False'')"
| "py_str rp (PInt i) = string_of_int i"
| "py_str rp (PStr s) = s"
| "py_str rp v = rp v"

text \<open>\<open>isinstance(v, (int, float)) and not isinstance(v, bool)\<close>.\<close>

fun is_number :: "pyval \<Rightarrow> bool" where
  "is_number (PInt i) = True"
| "is_number (PFloat x) = True"
| "is_number _ = False"

fun is_str :: "pyval \<Rightarrow> bool" where
  "is_str (PStr s) = True"
| "is_str _ = False"

fun is_dict :: "pyval \<Rightarrow> bool" where
  "is_dict (PDict d) = True"
| "is_dict _ = False"

fun is_list :: "pyval \<Rightarrow> bool" where
  "is_list (PList xs) = True"
| "is_list _ = False"

fun is_bool :: "pyval \<Rightarrow> bool" where
  "is_bool (PBool b) = True"
| "is_bool _ = False"

text \<open>The entries of a value used as a mapping, none for any other value.\<close>

fun dict_or_empty :: "pyval \<Rightarrow> pydict" where
  "dict_or_empty (PDict d) = d"
| "dict_or_empty _ = []"

fun str_or_empty :: "pyval \<Rightarrow> string" where
  "str_or_empty (PStr s) = s"
| "str_or_empty _ = []"

text \<open>Optional fields on the wire: \<open>None\<close> is \<open>null\<close>.\<close>

definition of_opt :: "('a \<Rightarrow> pyval) \<Rightarrow> 'a option \<Rightarrow> pyval" where
  "of_opt f v = (case v of None \<Rightarrow> PNone | Some x \<Rightarrow> f x)"

lemma of_opt_simps [simp]: "of_opt f None = PNone" "of_opt f (Some x) = f x"
  by (simp_all add: of_opt_def)

lemma dget_Cons [simp]: "dget ((k, v) # d) k' = (if k' = k then v else dget d k')"
  by (simp add: dget_def)

lemma dget_Nil [simp]: "dget [] k = PNone"
  by (simp add: dget_def)

lemma dget_item_Cons [simp]: "dget_item ((k, v) # d) k' = (if k' = k then Inr v else dget_item d k')"
  by (simp add: dget_item_def)

lemma dget_item_Nil [simp]: "dget_item [] k = Inl (PyKeyError k)"
  by (simp add: dget_item_def)

lemma dget_default_Cons [simp]:
  "dget_default ((k, v) # d) k' w = (if k' = k then v else dget_default d k' w)"
  by (simp add: dget_default_def)

lemma dget_default_Nil [simp]: "dget_default [] k w = w"
  by (simp add: dget_default_def)

lemma trunc_real_of_int [simp]: "trunc_real (of_int i) = i"
  by (simp add: trunc_real_def)

section \<open>Association lists\<close>

definition alist_total :: "('k \<times> real) list \<Rightarrow> real" where
  "alist_total xs = sum_list (map snd xs)"

lemma alist_total_simps [simp, alist_simps]:
  "alist_total [] = 0"
  "alist_total (p # xs) = snd p + alist_total xs"
  by (simp_all add: alist_total_def)

lemma alist_total_append [alist_simps]: "alist_total (xs @ ys) = alist_total xs + alist_total ys"
  by (induction xs) auto

lemma alist_total_nonneg: "(\<forall>p \<in> set xs. 0 \<le> snd p) \<Longrightarrow> 0 \<le> alist_total xs"
  by (induction xs) auto

lemma alist_total_update [alist_simps]:
  "alist_total (AList.update k v xs) = alist_total xs + v - opt_or (map_of xs k) 0"
  by (induction xs) auto

lemma AList_delete_absent: "k \<notin> fst ` set xs \<Longrightarrow> AList.delete k xs = xs"
  by (induction xs) auto

lemma alist_total_delete [alist_simps]:
  "distinct (map fst xs) \<Longrightarrow> alist_total (AList.delete k xs) = alist_total xs - opt_or (map_of xs k) 0"
proof (induction xs)
  case Nil
  then show ?case by simp
next
  case (Cons p xs)
  then show ?case by (cases "fst p = k") (auto simp: AList_delete_absent)
qed

lemma set_AList_update: "p \<in> set (AList.update k v xs) \<Longrightarrow> p = (k, v) \<or> p \<in> set xs"
  by (induction xs) (auto split: if_splits)

lemma map_of_AList_update [alist_simps]:
  "map_of (AList.update k v xs) j = (if j = k then Some v else map_of xs j)"
  by (simp add: update_conv)

lemma map_of_AList_delete [alist_simps]:
  "map_of (AList.delete k xs) j = (if j = k then None else map_of xs j)"
  by (simp add: delete_conv)

lemma distinct_AList_update [alist_simps]:
  "distinct (map fst xs) \<Longrightarrow> distinct (map fst (AList.update k v xs))"
  by (rule distinct_update)

lemma distinct_AList_delete [alist_simps]:
  "distinct (map fst xs) \<Longrightarrow> distinct (map fst (AList.delete k xs))"
  by (rule distinct_delete)

lemma nonneg_AList_update [alist_simps]:
  "\<forall>p \<in> set xs. 0 \<le> snd p \<Longrightarrow> 0 \<le> (v::real) \<Longrightarrow> \<forall>p \<in> set (AList.update k v xs). 0 \<le> snd p"
  by (auto dest!: set_AList_update)

lemma nonneg_AList_delete [alist_simps]:
  "\<forall>p \<in> set xs. 0 \<le> (snd p :: real) \<Longrightarrow> \<forall>p \<in> set (AList.delete k xs). 0 \<le> snd p"
  by (auto simp: AList.delete_eq)

section \<open>Sorting and counting\<close>

text \<open>\<open>sorted(set(xs))\<close>.\<close>

definition sorted_set :: "'a::linorder list \<Rightarrow> 'a list" where
  "sorted_set xs = sort (remdups xs)"

lemma sorted_sorted_set [simp]: "sorted (sorted_set xs)"
  by (simp add: sorted_set_def)

lemma set_sorted_set [simp]: "set (sorted_set xs) = set xs"
  by (simp add: sorted_set_def)

lemma distinct_sorted_set [simp]: "distinct (sorted_set xs)"
  by (simp add: sorted_set_def)

lemma sorted_set_cong: "set xs = set ys \<Longrightarrow> sorted_set xs = sorted_set ys"
  by (simp add: sorted_distinct_set_unique)

text \<open>\<open>sum(1 for x in xs if p(x))\<close>.\<close>

definition count_if :: "('a \<Rightarrow> bool) \<Rightarrow> 'a list \<Rightarrow> nat" where
  "count_if p xs = length (filter p xs)"

lemma count_if_simps [simp]:
  "count_if p [] = 0"
  "count_if p (x # xs) = (if p x then Suc (count_if p xs) else count_if p xs)"
  by (simp_all add: count_if_def)

lemma count_if_le: "count_if p xs \<le> length xs"
  by (simp add: count_if_def)

lemma count_if_compl: "count_if p xs + count_if (\<lambda>x. \<not> p x) xs = length xs"
  by (induction xs) auto

lemma count_if_append: "count_if p (xs @ ys) = count_if p xs + count_if p ys"
  by (simp add: count_if_def)

end
