(* ===== verification/Budget_Interface.thy ===== *)
theory Budget_Interface
  imports Bench_Prelude
begin

text \<open>
  The interface the proxy server relies on when it spends: a budget authority holds a
  reservation under a request id and later settles it with a proven cost, a derived cost or not
  at all (the hold is then kept as spent).  The locale states what a provider promises; the
  lemmas inside it are what any client that interleaves admissions and settlements may rely on.
  \<open>Budget_Ledger\<close> interprets it on the model of \<open>BudgetLedger\<close>.
\<close>

text \<open>The three settlements of \<open>ProxyServer._finalize_reservation\<close>.\<close>

datatype settlement = Actual real | Derived real | Retained

text \<open>What the settlement charges, given the amount held.\<close>

fun charge :: "settlement \<Rightarrow> real \<Rightarrow> real" where
  "charge (Actual x) h = max 0 x"
| "charge (Derived x) h = max 0 x"
| "charge Retained h = h"

datatype budget_event = Admit string real | Finish string settlement

text \<open>A history of calls on the authority: a refused admission changes nothing.\<close>

fun budget_run ::
  "('s \<Rightarrow> string \<Rightarrow> real \<Rightarrow> 'e + 's) \<Rightarrow> ('s \<Rightarrow> string \<Rightarrow> settlement \<Rightarrow> 's) \<Rightarrow> 's \<Rightarrow> budget_event list \<Rightarrow> 's"
where
  "budget_run reserve settle s [] = s"
| "budget_run reserve settle s (Admit k a # es) =
     (case reserve s k a of
        Inl _ \<Rightarrow> budget_run reserve settle s es
      | Inr s' \<Rightarrow> budget_run reserve settle s' es)"
| "budget_run reserve settle s (Finish k c # es) =
     budget_run reserve settle (settle s k c) es"

text \<open>
  A disciplined history: an id is admitted only while nothing is held under it, and what is
  charged at settlement does not pass what was held.
\<close>

fun disciplined ::
  "('s \<Rightarrow> string \<Rightarrow> real \<Rightarrow> 'e + 's) \<Rightarrow> ('s \<Rightarrow> string \<Rightarrow> settlement \<Rightarrow> 's)
    \<Rightarrow> ('s \<Rightarrow> string \<Rightarrow> real option) \<Rightarrow> 's \<Rightarrow> budget_event list \<Rightarrow> bool"
where
  "disciplined reserve settle held s [] = True"
| "disciplined reserve settle held s (Admit k a # es) =
     (held s k = None \<and>
      (case reserve s k a of
         Inl _ \<Rightarrow> disciplined reserve settle held s es
       | Inr s' \<Rightarrow> disciplined reserve settle held s' es))"
| "disciplined reserve settle held s (Finish k c # es) =
     ((\<exists>h. held s k = Some h \<and> charge c h \<le> h) \<and>
      disciplined reserve settle held (settle s k c) es)"

locale budget_authority =
  fixes reserve :: "'s \<Rightarrow> string \<Rightarrow> real \<Rightarrow> 'e + 's"
    and settle :: "'s \<Rightarrow> string \<Rightarrow> settlement \<Rightarrow> 's"
    and held :: "'s \<Rightarrow> string \<Rightarrow> real option"
    and total :: "'s \<Rightarrow> real"
    and cap :: "'s \<Rightarrow> real"
    and enforcing :: "'s \<Rightarrow> bool"
    and ok :: "'s \<Rightarrow> bool"
  assumes reserve_ok: "ok s \<Longrightarrow> reserve s k a = Inr s' \<Longrightarrow> ok s'"
    and reserve_frame: "reserve s k a = Inr s' \<Longrightarrow> cap s' = cap s \<and> enforcing s' = enforcing s"
    and reserve_held: "reserve s k a = Inr s' \<Longrightarrow>
          held s' j = (if j = k then Some (max 0 a) else held s j)"
    and reserve_total: "reserve s k a = Inr s' \<Longrightarrow> total s' = total s + max 0 a - opt_or (held s k) 0"
    and reserve_bound: "enforcing s \<Longrightarrow> reserve s k a = Inr s' \<Longrightarrow> total s + max 0 a \<le> cap s"
    and settle_ok: "ok s \<Longrightarrow> ok (settle s k c)"
    and settle_frame: "cap (settle s k c) = cap s \<and> enforcing (settle s k c) = enforcing s"
    and settle_held: "ok s \<Longrightarrow> held (settle s k c) j = (if j = k then None else held s j)"
    and settle_total: "ok s \<Longrightarrow>
          total (settle s k c) = total s - opt_or (held s k) 0 + charge c (opt_or (held s k) 0)"
begin

text \<open>The authority's own state stays well formed along any history.\<close>

lemma run_ok: "ok s \<Longrightarrow> ok (budget_run reserve settle s es)"
proof (induction es arbitrary: s)
  case Nil
  then show ?case by simp
next
  case (Cons e es)
  then show ?case
    by (cases e) (auto split: sum.splits intro: reserve_ok settle_ok)
qed

lemma run_frame:
  "cap (budget_run reserve settle s es) = cap s \<and> enforcing (budget_run reserve settle s es) = enforcing s"
proof (induction es arbitrary: s)
  case Nil
  then show ?case by simp
next
  case (Cons e es)
  then show ?case
    by (cases e) (auto split: sum.splits simp: settle_frame dest: reserve_frame)
qed

text \<open>The safety law: along a disciplined history the total never passes the cap.\<close>

lemma run_within_cap:
  assumes "ok s" and "enforcing s" and "total s \<le> cap s"
    and "disciplined reserve settle held s es"
  shows "total (budget_run reserve settle s es) \<le> cap s"
  using assms
proof (induction es arbitrary: s)
  case Nil
  then show ?case by simp
next
  case (Cons e es)
  show ?case
  proof (cases e)
    case (Admit k a)
    show ?thesis
    proof (cases "reserve s k a")
      case (Inl x)
      with Cons Admit show ?thesis by simp
    next
      case (Inr s')
      from Cons.prems Admit Inr have fresh: "held s k = None"
        and d: "disciplined reserve settle held s' es" by auto
      from Inr have fr: "cap s' = cap s" "enforcing s' = enforcing s" by (auto dest: reserve_frame)
      from Inr fresh have "total s' = total s + max 0 a" by (simp add: reserve_total)
      with reserve_bound [OF Cons.prems(2) Inr] have "total s' \<le> cap s'" by (simp add: fr)
      with Cons.IH [of s'] reserve_ok [OF Cons.prems(1) Inr] Cons.prems(2) d fr
      show ?thesis by (simp add: Admit Inr)
    qed
  next
    case (Finish k c)
    from Cons.prems Finish obtain h where h: "held s k = Some h" "charge c h \<le> h"
      and d: "disciplined reserve settle held (settle s k c) es" by auto
    from h Cons.prems have "total (settle s k c) \<le> cap s" by (simp add: settle_total)
    with Cons.IH [of "settle s k c"] settle_ok [OF Cons.prems(1)] Cons.prems(2) d
    show ?thesis by (simp add: Finish settle_frame)
  qed
qed

text \<open>An admission settled at once leaves nothing held and charges exactly the settlement.\<close>

lemma admit_settle:
  assumes "ok s" and "held s k = None" and "reserve s k a = Inr s'"
  shows "total (settle s' k c) = total s + charge c (max 0 a)"
    and "held (settle s' k c) j = held s j"
proof -
  from assms have ok': "ok s'" by (blast intro: reserve_ok)
  from assms(3) have h: "held s' k = Some (max 0 a)" by (simp add: reserve_held)
  from assms have "total s' = total s + max 0 a" by (simp add: reserve_total)
  with settle_total [OF ok'] h show "total (settle s' k c) = total s + charge c (max 0 a)" by simp
  from settle_held [OF ok'] assms show "held (settle s' k c) j = held s j"
    by (simp add: reserve_held)
qed

text \<open>
  Two holds under one id: the second admission replaces the first, whose amount leaves the total
  without having been charged.
\<close>

lemma readmit_drops_hold:
  assumes "held s k = Some h" and "reserve s k a = Inr s'"
  shows "total s' = total s + max 0 a - h"
  using reserve_total [OF assms(2)] assms(1) by simp

end

end
