(* ===== verification/Proxy_Policy.thy ===== *)
theory Proxy_Policy
  imports Bench_Prelude
begin

text \<open>
  The pure policy half of \<open>wevibe_bench/adapters/openrouter_proxy.py\<close>: the proxy's errors,
  the provider profiles and their registry, request shaping (\<open>apply_policy\<close>), the reservation
  bound (\<open>input_token_upper_bound\<close>, \<open>worst_case_usd\<close>), the billed estimate
  (\<open>derived_cost_breakdown_usd\<close>) and the live-pricing gate.  The byte length CPython's
  \<open>json.dumps\<close> gives a value is the parameter \<open>js\<close> of the token bound.
\<close>

section \<open>Constants and errors\<close>

definition PROTECTED_BODY_FIELDS :: "string list" where
  "PROTECTED_BODY_FIELDS = [''provider'']"

definition ABSOLUTE_MAX_USD :: real where "ABSOLUTE_MAX_USD = 12"
definition RESERVATION_SAFETY_FACTOR :: real where "RESERVATION_SAFETY_FACTOR = 11 / 10"
definition FEE_RATE :: real where "FEE_RATE = 6 / 100"
definition FLAT_FEE_USD :: real where "FLAT_FEE_USD = 1 / 1000"
definition PER_MESSAGE_OVERHEAD_TOKENS :: int where "PER_MESSAGE_OVERHEAD_TOKENS = 16"
definition CHECKPOINT_SCHEMA_VERSION :: int where "CHECKPOINT_SCHEMA_VERSION = 2"

definition ORCAROUTER_PRICING_VERSION_PIN :: string where
  "ORCAROUTER_PRICING_VERSION_PIN = ''c58e194db3f6a20e7d41b8c9e2f05a17''"
definition ORCAROUTER_ANCHOR_MODEL :: string where
  "ORCAROUTER_ANCHOR_MODEL = ''openai/gpt-4o-mini''"
definition ORCAROUTER_ANCHOR_INPUT_USD_PER_1M :: real where
  "ORCAROUTER_ANCHOR_INPUT_USD_PER_1M = 15 / 100"
definition ORCAROUTER_ANCHOR_OUTPUT_USD_PER_1M :: real where
  "ORCAROUTER_ANCHOR_OUTPUT_USD_PER_1M = 60 / 100"
definition PRICING_ANCHOR_ABS_TOL_USD :: real where
  "PRICING_ANCHOR_ABS_TOL_USD = 1 / 1000000"

datatype proxy_error =
    CredentialError
  | UnknownModelError
  | ProfileBlockedError string
  | ProtectedFieldError string
  | ModelMismatchError
  | BudgetExceededError
  | PolicyMismatchError string
  | PricingGateError string
  | PyExc py_exc

text \<open>\<open>exc.reason\<close>, for the errors that carry one.\<close>

fun error_reason :: "proxy_error \<Rightarrow> string" where
  "error_reason CredentialError = ''credential_error''"
| "error_reason UnknownModelError = ''unknown_model''"
| "error_reason (ProfileBlockedError r) = r"
| "error_reason (ProtectedFieldError r) = r"
| "error_reason ModelMismatchError = ''model_mismatch''"
| "error_reason BudgetExceededError = ''budget_exceeded''"
| "error_reason (PolicyMismatchError r) = r"
| "error_reason (PricingGateError _) = []"
| "error_reason (PyExc _) = []"

text \<open>A Python exception surfacing in proxy code.\<close>

definition lift_exc :: "py_exc + 'a \<Rightarrow> proxy_error + 'a" where
  "lift_exc m = (case m of Inl e \<Rightarrow> Inl (PyExc e) | Inr x \<Rightarrow> Inr x)"

lemma lift_exc_simps [simp]:
  "lift_exc (Inl e) = Inl (PyExc e)"
  "lift_exc (Inr x) = Inr x"
  by (simp_all add: lift_exc_def)

lemma lift_exc_eq_Inr [result_simps]: "lift_exc m = Inr x \<longleftrightarrow> m = Inr x"
  by (cases m) auto

section \<open>Provider profiles\<close>

type_synonym pricing = "(string \<times> real) list"

record provider_profile =
  pf_name :: string
  model_id :: string
  provider_object :: "pydict option"
  pricing_row :: "pricing option"
  max_output_tokens :: int
  max_reasoning_tokens :: int
  upstream :: string
  authorized :: bool
  pin_constraints :: "pydict option"
  expected_upstream_model :: "string option"
  expected_upstream_key_fp :: "string option"

definition runnable_reason :: "provider_profile \<Rightarrow> string option" where
  "runnable_reason p =
     (if upstream p = ''openrouter'' \<and> provider_object p = None then Some ''provider_pin_missing''
      else if pricing_row p = None then Some ''pricing_missing''
      else if \<not> authorized p then Some ''not_authorized''
      else None)"

definition normalize_model_selector :: "string \<Rightarrow> string" where
  "normalize_model_selector sel =
     (if starts_with sel ''openrouter/'' then drop 11 sel else sel)"

text \<open>\<open>DEFAULT_PROFILES\<close>: the keyword defaults of the dataclass are those of \<open>base_profile\<close>.\<close>

definition base_profile :: "string \<Rightarrow> string \<Rightarrow> provider_profile" where
  "base_profile n m = \<lparr>pf_name = n, model_id = m, provider_object = None, pricing_row = None,
     max_output_tokens = 32768, max_reasoning_tokens = 8192, upstream = ''openrouter'',
     authorized = False, pin_constraints = None, expected_upstream_model = None,
     expected_upstream_key_fp = None\<rparr>"

definition live_pin :: "string list \<Rightarrow> real \<Rightarrow> real \<Rightarrow> string \<Rightarrow> pydict" where
  "live_pin quants inp out notes =
     [(''min_max_completion_tokens'', PInt 32768), (''uptime_tier'', PStr ''Normal''),
      (''quant_preference'', PList (map PStr quants)),
      (''price_sanity_per_m'', PDict [(''in'', PFloat inp), (''out'', PFloat out)]),
      (''notes'', PStr notes)]"

definition DEFAULT_PROFILES :: "(string \<times> provider_profile) list" where
  "DEFAULT_PROFILES =
    [(''glm'', (base_profile ''glm'' ''z-ai/glm-5.2'')
        \<lparr>upstream := ''orcarouter'', expected_upstream_model := Some ''glm-5.2''\<rparr>),
     (''mimo'', (base_profile ''mimo'' ''xiaomi/mimo-v2.5-pro'')
        \<lparr>pin_constraints := Some (live_pin [''fp8''] (435 / 1000) (87 / 100)
           ''Resolve live; prefer xiaomi or atlascloud fp8 endpoints.'')\<rparr>),
     (''mimo25'', (base_profile ''mimo25'' ''xiaomi/mimo-v2.5'')
        \<lparr>pin_constraints := Some (live_pin [''fp8''] (105 / 1000) (28 / 100)
           ''Resolve live; prefer xiaomi or atlascloud fp8 endpoints.'')\<rparr>),
     (''hy3'', (base_profile ''hy3'' ''tencent/hy3'')
        \<lparr>upstream := ''orcarouter'', expected_upstream_model := Some ''hy3-preview''\<rparr>),
     (''kimicode'', (base_profile ''kimicode'' ''kimi/kimi-k2.7-code'')
        \<lparr>upstream := ''orcarouter'', expected_upstream_model := Some ''kimi-k2.7-code''\<rparr>),
     (''kimik3'', (base_profile ''kimik3'' ''kimi/kimi-k3'')
        \<lparr>upstream := ''orcarouter'', expected_upstream_model := Some ''kimi-k3''\<rparr>),
     (''minimax'', (base_profile ''minimax'' ''minimax/minimax-m3'')
        \<lparr>upstream := ''orcarouter'', expected_upstream_model := Some ''minimax-m3''\<rparr>),
     (''ring'', (base_profile ''ring'' ''inclusionai/ring-2.6-1t'')
        \<lparr>pin_constraints := Some (live_pin [''any''] (75 / 1000) (625 / 1000)
           ''Floor-anchor probe candidate; quantization unconfirmed, any Normal-tier endpoint.'')\<rparr>),
     (''opus'', (base_profile ''opus'' ''anthropic/claude-opus-4.8'')
        \<lparr>provider_object := Some [(''order'', PList [PStr ''anthropic'']),
           (''only'', PList [PStr ''anthropic'']), (''allow_fallbacks'', PBool False),
           (''require_parameters'', PBool True)]\<rparr>),
     (''bigpickle'', (base_profile ''bigpickle'' ''opencode/big-pickle'')
        \<lparr>upstream := ''opencode'', expected_upstream_model := Some ''big-pickle'',
          expected_upstream_key_fp := Some ''b5ce6e5e''\<rparr>)]"

text \<open>\<open>ProfileRegistry\<close>: the constructor copies the dict; lookups do not change it.\<close>

type_synonym profile_registry = "(string \<times> provider_profile) list"

definition resolve_by_model :: "profile_registry \<Rightarrow> string \<Rightarrow> proxy_error + provider_profile" where
  "resolve_by_model reg selector =
     (case find (\<lambda>p. model_id p = normalize_model_selector selector) (map snd reg) of
        Some p \<Rightarrow> Inr p
      | None \<Rightarrow> Inl UnknownModelError)"

definition registry_get :: "profile_registry \<Rightarrow> string \<Rightarrow> proxy_error + provider_profile" where
  "registry_get reg n =
     (case map_of reg n of Some p \<Rightarrow> Inr p | None \<Rightarrow> Inl (PyExc (PyKeyError n)))"

section \<open>Request shaping\<close>

text \<open>\<open>normalize_model_selector(client_body.get("model", ""))\<close>: a model that is not a string
  has no \<open>startswith\<close>.\<close>

definition request_model :: "pydict \<Rightarrow> proxy_error + string" where
  "request_model body =
     (case dget_default body ''model'' (PStr []) of
        PStr s \<Rightarrow> Inr (normalize_model_selector s)
      | _ \<Rightarrow> Inl (PyExc PyAttributeError))"

definition remove_prefix :: "string \<Rightarrow> string \<Rightarrow> string" where
  "remove_prefix s p = (if starts_with s p then drop (length p) s else s)"

definition route_body :: "pydict \<Rightarrow> provider_profile \<Rightarrow> proxy_error + pydict" where
  "route_body body p =
     (if upstream p = ''openrouter'' then
        (case provider_object p of
           None \<Rightarrow> Inl (ProfileBlockedError ''provider_pin_missing'')
         | Some obj \<Rightarrow> Inr (AList.update ''provider'' (PDict obj) body))
      else if upstream p = ''opencode'' then
        Inr (AList.update ''model'' (PStr (remove_prefix (model_id p) ''opencode/'')) body)
      else Inr body)"

text \<open>\<open>isinstance(v, int) and v > 0\<close> admits \<open>True\<close>; \<open>min(True, cap)\<close> is \<open>True\<close> unless the cap
  is smaller.\<close>

definition clamp_max_tokens :: "pyval \<Rightarrow> int \<Rightarrow> pyval" where
  "clamp_max_tokens v cap =
     (case v of
        PInt i \<Rightarrow> if 0 < i then PInt (min i cap) else PInt cap
      | PBool b \<Rightarrow> if b then (if cap < 1 then PInt cap else PBool True) else PInt cap
      | _ \<Rightarrow> PInt cap)"

definition add_usage_option :: "pydict \<Rightarrow> pydict" where
  "add_usage_option body =
     (case dget body ''stream_options'' of
        PNone \<Rightarrow> AList.update ''stream_options'' (PDict [(''include_usage'', PBool True)]) body
      | PDict so \<Rightarrow>
          (if ''include_usage'' \<notin> fst ` set so
           then AList.update ''stream_options'' (PDict (AList.update ''include_usage'' (PBool True) so)) body
           else body)
      | _ \<Rightarrow> body)"

definition apply_policy :: "pydict \<Rightarrow> provider_profile \<Rightarrow> int \<Rightarrow> proxy_error + pydict" where
  "apply_policy client_body p max_tokens_cap =
     (case find (\<lambda>f. f \<in> fst ` set client_body) PROTECTED_BODY_FIELDS of
        Some f \<Rightarrow> Inl (ProtectedFieldError f)
      | None \<Rightarrow>
          bind_result (request_model client_body) (\<lambda>model.
            if model \<noteq> model_id p then Inl ModelMismatchError
            else bind_result (route_body client_body p) (\<lambda>body.
              let body = AList.update ''max_tokens''
                           (clamp_max_tokens (dget body ''max_tokens'') max_tokens_cap) body
              in Inr (if upstream p = ''orcarouter'' \<and> truthy (dget body ''stream'')
                      then add_usage_option body else body))))"

section \<open>The reservation bound and the billed estimate\<close>

text \<open>\<open>len(v)\<close>.\<close>

fun py_len :: "pyval \<Rightarrow> py_exc + int" where
  "py_len (PStr s) = Inr (int (length s))"
| "py_len (PList xs) = Inr (int (length xs))"
| "py_len (PDict d) = Inr (int (length d))"
| "py_len _ = Inl PyTypeError"

definition input_token_upper_bound :: "(pyval \<Rightarrow> nat) \<Rightarrow> pydict \<Rightarrow> proxy_error + int" where
  "input_token_upper_bound js body =
     (let messages = dget_default body ''messages'' (PList []);
          tools = dget_default body ''tools'' (PList [])
      in bind_result (lift_exc (py_len messages)) (\<lambda>n.
           Inr (int (js messages + js tools) + PER_MESSAGE_OVERHEAD_TOKENS * n)))"

definition price_item :: "pricing \<Rightarrow> string \<Rightarrow> proxy_error + real" where
  "price_item pr k = (case map_of pr k of None \<Rightarrow> Inl (PyExc (PyKeyError k)) | Some x \<Rightarrow> Inr x)"

definition worst_case_usd :: "int \<Rightarrow> provider_profile \<Rightarrow> int \<Rightarrow> int \<Rightarrow> proxy_error + real" where
  "worst_case_usd input_tokens_ub p max_tokens_cap cached_input_tokens_ub =
     (case pricing_row p of
        None \<Rightarrow> Inl (ProfileBlockedError ''pricing_missing'')
      | Some pr \<Rightarrow>
          bind_result (price_item pr ''input'') (\<lambda>input_price.
            let fresh_price = max input_price (opt_or (map_of pr ''cache_write'') input_price);
                cached_price = min (opt_or (map_of pr ''cache_read'') fresh_price) fresh_price;
                cached_tokens = max 0 (min cached_input_tokens_ub input_tokens_ub);
                fresh_tokens = input_tokens_ub - cached_tokens;
                cost_in = (of_int cached_tokens * cached_price + of_int fresh_tokens * fresh_price)
                            / 1000000
            in bind_result (price_item pr ''output'') (\<lambda>output_price.
                 let cost_out = of_int (max_tokens_cap + max_reasoning_tokens p) * output_price / 1000000;
                     subtotal = cost_in + cost_out
                 in Inr (subtotal * (1 + FEE_RATE) * RESERVATION_SAFETY_FACTOR + FLAT_FEE_USD))))"

fun as_int :: "pyval \<Rightarrow> int" where
  "as_int (PInt i) = i"
| "as_int (PFloat x) = trunc_real x"
| "as_int _ = 0"

record cost_breakdown =
  total_usd :: real
  uncached_input_usd :: real
  cache_read_usd :: real
  cache_write_usd :: real
  output_usd :: real
  uncached_input_tokens :: real
  cached_prompt_tokens :: real
  cache_write_prompt_tokens :: real
  completion_tokens_billed :: real
  input_rate_per_1m :: real
  cache_read_rate_per_1m :: real
  cache_write_rate_per_1m :: real
  output_rate_per_1m :: real

definition derived_cost_breakdown_usd ::
  "int \<Rightarrow> int \<Rightarrow> int \<Rightarrow> int \<Rightarrow> pricing \<Rightarrow> proxy_error + cost_breakdown" where
  "derived_cost_breakdown_usd prompt_tokens cached_tokens completion_tokens cache_write_tokens pr =
     (if pr = [] then Inl (PyExc PyValueError)
      else
        let prompt_n = max 0 prompt_tokens; cached_n = max 0 cached_tokens;
            completion_n = max 0 completion_tokens; cache_write_n = max 0 cache_write_tokens
        in bind_result (price_item pr ''input'') (\<lambda>input_rate.
             let cache_read_rate = opt_or (map_of pr ''cache_read'') input_rate;
                 cache_write_rate = opt_or (map_of pr ''cache_write'') input_rate
             in bind_result (price_item pr ''output'') (\<lambda>output_rate.
                  let cached_prompt = min prompt_n cached_n;
                      uncached_prompt = max 0 (prompt_n - cached_prompt);
                      cache_write_prompt = min uncached_prompt cache_write_n;
                      uncached_input_prompt = max 0 (uncached_prompt - cache_write_prompt);
                      uncached_usd = of_int uncached_input_prompt * input_rate / 1000000;
                      read_usd = of_int cached_prompt * cache_read_rate / 1000000;
                      write_usd = of_int cache_write_prompt * cache_write_rate / 1000000;
                      out_usd = of_int completion_n * output_rate / 1000000
                  in Inr \<lparr>total_usd = uncached_usd + read_usd + write_usd + out_usd,
                          uncached_input_usd = uncached_usd, cache_read_usd = read_usd,
                          cache_write_usd = write_usd, output_usd = out_usd,
                          uncached_input_tokens = of_int uncached_input_prompt,
                          cached_prompt_tokens = of_int cached_prompt,
                          cache_write_prompt_tokens = of_int cache_write_prompt,
                          completion_tokens_billed = of_int completion_n,
                          input_rate_per_1m = input_rate,
                          cache_read_rate_per_1m = cache_read_rate,
                          cache_write_rate_per_1m = cache_write_rate,
                          output_rate_per_1m = output_rate\<rparr>)))"

definition derived_cost_usd ::
  "int \<Rightarrow> int \<Rightarrow> int \<Rightarrow> int \<Rightarrow> pricing \<Rightarrow> proxy_error + real" where
  "derived_cost_usd prompt_tokens cached_tokens completion_tokens cache_write_tokens pr =
     bind_result (derived_cost_breakdown_usd prompt_tokens cached_tokens completion_tokens
                    cache_write_tokens pr)
       (\<lambda>b. Inr (total_usd b))"

section \<open>What a shaped request is known to hold\<close>

lemma dget_update [simp]: "dget (AList.update k v d) j = (if j = k then v else dget d j)"
  by (simp add: dget_def map_of_AList_update)

lemma clamp_max_tokens_bounds:
  "1 \<le> cap \<Longrightarrow> \<exists>n. py_int (clamp_max_tokens v cap) = Inr n \<and> 1 \<le> n \<and> n \<le> cap"
  by (cases v) (auto simp: clamp_max_tokens_def)

lemma map_of_add_usage_option:
  "k \<noteq> ''stream_options'' \<Longrightarrow> map_of (add_usage_option body) k = map_of body k"
  by (auto simp: add_usage_option_def map_of_AList_update split: pyval.splits)

lemma dget_add_usage_option:
  "k \<noteq> ''stream_options'' \<Longrightarrow> dget (add_usage_option body) k = dget body k"
  by (simp add: dget_def map_of_add_usage_option)

lemma route_body_cases:
  assumes "route_body body p = Inr out"
  shows "\<And>k. k \<noteq> ''provider'' \<Longrightarrow> k \<noteq> ''model'' \<Longrightarrow> map_of out k = map_of body k"
    and "upstream p = ''openrouter'' \<Longrightarrow> \<exists>obj. provider_object p = Some obj \<and> dget out ''provider'' = PDict obj"
    and "upstream p \<noteq> ''openrouter'' \<Longrightarrow> map_of out ''provider'' = map_of body ''provider''"
  using assms by (auto simp: route_body_def map_of_AList_update split: if_splits option.splits)

lemma apply_policy_cases:
  assumes "apply_policy body p cap = Inr out"
  obtains mid where "''provider'' \<notin> fst ` set body" and "request_model body = Inr (model_id p)"
    and "route_body body p = Inr mid"
    and "out = (let b = AList.update ''max_tokens'' (clamp_max_tokens (dget mid ''max_tokens'') cap) mid
                in if upstream p = ''orcarouter'' \<and> truthy (dget b ''stream'') then add_usage_option b else b)"
  using assms
  by (auto simp: apply_policy_def PROTECTED_BODY_FIELDS_def result_simps Let_def
      split: option.splits if_splits)

lemma apply_policy_enforces_profile_parts:
  assumes "apply_policy body p cap = Inr out" and "1 \<le> cap"
  shows "''provider'' \<notin> fst ` set body" and "request_model body = Inr (model_id p)"
    and "\<exists>n. py_int (dget out ''max_tokens'') = Inr n \<and> 1 \<le> n \<and> n \<le> cap"
    and "if upstream p = ''openrouter''
         then \<exists>obj. provider_object p = Some obj \<and> dget out ''provider'' = PDict obj
         else map_of out ''provider'' = None"
    and "k \<notin> {''provider'', ''model'', ''max_tokens'', ''stream_options''} \<Longrightarrow> map_of out k = map_of body k"
proof -
  from assms(1) obtain mid where np: "''provider'' \<notin> fst ` set body"
    and rm: "request_model body = Inr (model_id p)" and mid: "route_body body p = Inr mid"
    and out: "out = (let b = AList.update ''max_tokens'' (clamp_max_tokens (dget mid ''max_tokens'') cap) mid
                in if upstream p = ''orcarouter'' \<and> truthy (dget b ''stream'') then add_usage_option b else b)"
    by (rule apply_policy_cases)
  show "''provider'' \<notin> fst ` set body" and "request_model body = Inr (model_id p)" by fact+
  show "\<exists>n. py_int (dget out ''max_tokens'') = Inr n \<and> 1 \<le> n \<and> n \<le> cap"
    using clamp_max_tokens_bounds [OF assms(2)] by (simp add: out Let_def dget_add_usage_option)
  have prov: "map_of out ''provider'' = map_of mid ''provider''"
    by (simp add: out Let_def map_of_add_usage_option map_of_AList_update)
  from np have "map_of body ''provider'' = None" by (simp add: map_of_eq_None_iff)
  with prov route_body_cases(2,3) [OF mid]
  show "if upstream p = ''openrouter''
         then \<exists>obj. provider_object p = Some obj \<and> dget out ''provider'' = PDict obj
         else map_of out ''provider'' = None"
    by (auto simp: dget_def)
  assume "k \<notin> {''provider'', ''model'', ''max_tokens'', ''stream_options''}"
  then show "map_of out k = map_of body k"
    using route_body_cases(1) [OF mid]
    by (simp add: out Let_def map_of_add_usage_option map_of_AList_update)
qed


text \<open>A request the policy lets through cannot escape it: the client did not choose a provider,
  its model selector names the profile's model, the forwarded token limit lies between one and the
  cap, on OpenRouter the forwarded provider is the profile's pinned one, and apart from provider,
  model, token limit and stream options every field is forwarded as the client wrote it.\<close>

theorem apply_policy_enforces_profile:
  assumes "apply_policy body p cap = Inr out" and "1 \<le> cap"
  shows "(''provider'' \<notin> fst ` set body)
     \<and> (request_model body = Inr (model_id p))
     \<and> (\<exists>n. py_int (dget out ''max_tokens'') = Inr n \<and> 1 \<le> n \<and> n \<le> cap)
     \<and> (if upstream p = ''openrouter''
         then \<exists>obj. provider_object p = Some obj \<and> dget out ''provider'' = PDict obj
         else map_of out ''provider'' = None)
     \<and> (k \<notin> {''provider'', ''model'', ''max_tokens'', ''stream_options''} \<longrightarrow>
      map_of out k = map_of body k)"
  by (intro conjI impI apply_policy_enforces_profile_parts [OF assms])

definition sample_profile :: provider_profile where
  "sample_profile = (base_profile ''opus'' ''anthropic/claude-opus-4.8'')
     \<lparr>provider_object := Some [(''order'', PList [PStr ''anthropic''])],
      pricing_row := Some [(''input'', 3), (''output'', 15), (''cache_read'', 3 / 10)],
      authorized := True\<rparr>"

definition sample_body :: pydict where
  "sample_body = [(''model'', PStr ''openrouter/anthropic/claude-opus-4.8''),
     (''messages'', PList [PStr ''hi'']), (''max_tokens'', PInt 999999), (''temperature'', PInt 0)]"

lemma sample_apply_policy:
  "apply_policy sample_body sample_profile 4096 =
     Inr [(''model'', PStr ''openrouter/anthropic/claude-opus-4.8''),
          (''messages'', PList [PStr ''hi'']), (''max_tokens'', PInt 4096), (''temperature'', PInt 0),
          (''provider'', PDict [(''order'', PList [PStr ''anthropic''])])]"
  by (simp add: apply_policy_def sample_body_def sample_profile_def base_profile_def
      PROTECTED_BODY_FIELDS_def request_model_def normalize_model_selector_def route_body_def
      clamp_max_tokens_def Let_def)

theorem apply_policy_enforces_profile_witness:
  "let out = AList.update ''max_tokens'' (PInt 4096) sample_body
         @ [(''provider'', PDict [(''order'', PList [PStr ''anthropic''])])]
   in (\<exists>n. py_int (dget out ''max_tokens'') = Inr n \<and> 1 \<le> n \<and> n \<le> 4096) \<and>
      map_of out ''temperature'' = Some (PInt 0)"
proof -
  have "apply_policy sample_body sample_profile 4096 =
      Inr (AList.update ''max_tokens'' (PInt 4096) sample_body
           @ [(''provider'', PDict [(''order'', PList [PStr ''anthropic''])])])"
    unfolding sample_apply_policy by (simp add: sample_body_def)
  from apply_policy_enforces_profile [OF this, of "''temperature''"] show ?thesis
    by (simp add: Let_def sample_body_def)
qed

section \<open>The derived cost\<close>

lemma price_item_Inr [simp]: "price_item pr k = Inr x \<longleftrightarrow> map_of pr k = Some x"
  by (auto simp: price_item_def split: option.splits)

lemma derived_breakdown_cases:
  assumes "derived_cost_breakdown_usd pt ct ot wt pr = Inr b"
  shows "uncached_input_tokens b + cached_prompt_tokens b + cache_write_prompt_tokens b = of_int (max 0 pt)"
    and "0 \<le> uncached_input_tokens b \<and> 0 \<le> cached_prompt_tokens b \<and> 0 \<le> cache_write_prompt_tokens b"
    and "completion_tokens_billed b = of_int (max 0 ot)"
    and "cached_prompt_tokens b = of_int (min (max 0 pt) (max 0 ct))"
    and "map_of pr ''input'' = Some (input_rate_per_1m b)"
    and "map_of pr ''output'' = Some (output_rate_per_1m b)"
    and "cache_read_rate_per_1m b = opt_or (map_of pr ''cache_read'') (input_rate_per_1m b)"
    and "cache_write_rate_per_1m b = opt_or (map_of pr ''cache_write'') (input_rate_per_1m b)"
    and "total_usd b = (uncached_input_tokens b * input_rate_per_1m b
           + cached_prompt_tokens b * cache_read_rate_per_1m b
           + cache_write_prompt_tokens b * cache_write_rate_per_1m b
           + completion_tokens_billed b * output_rate_per_1m b) / 1000000"
proof -
  define pn cn wn where "pn = max 0 pt" and "cn = max 0 ct" and "wn = max 0 wt"
  define un where "un = max 0 (pn - min pn cn)"
  define fn where "fn = max 0 (un - min un wn)"
  from assms obtain ip op where ip: "map_of pr ''input'' = Some ip" and op: "map_of pr ''output'' = Some op"
    by (auto simp: derived_cost_breakdown_usd_def result_simps Let_def split: if_splits)
  have b: "b = \<lparr>total_usd = of_int fn * ip / 1000000
         + of_int (min pn cn) * opt_or (map_of pr ''cache_read'') ip / 1000000
         + of_int (min un wn) * opt_or (map_of pr ''cache_write'') ip / 1000000
         + of_int (max 0 ot) * op / 1000000,
       uncached_input_usd = of_int fn * ip / 1000000,
       cache_read_usd = of_int (min pn cn) * opt_or (map_of pr ''cache_read'') ip / 1000000,
       cache_write_usd = of_int (min un wn) * opt_or (map_of pr ''cache_write'') ip / 1000000,
       output_usd = of_int (max 0 ot) * op / 1000000,
       uncached_input_tokens = of_int fn, cached_prompt_tokens = of_int (min pn cn),
       cache_write_prompt_tokens = of_int (min un wn), completion_tokens_billed = of_int (max 0 ot),
       input_rate_per_1m = ip, cache_read_rate_per_1m = opt_or (map_of pr ''cache_read'') ip,
       cache_write_rate_per_1m = opt_or (map_of pr ''cache_write'') ip, output_rate_per_1m = op\<rparr>"
    unfolding pn_def cn_def wn_def un_def fn_def
    using assms ip op
    by (simp add: derived_cost_breakdown_usd_def price_item_def Let_def split: if_split_asm cong: bind_result_weak)
  have nn: "0 \<le> pn" "0 \<le> cn" "0 \<le> wn" by (simp_all add: pn_def cn_def wn_def)
  then have "fn + min pn cn + min un wn = pn" "0 \<le> fn" "0 \<le> min pn cn" "0 \<le> min un wn"
    by (auto simp: fn_def un_def)
  then show "uncached_input_tokens b + cached_prompt_tokens b + cache_write_prompt_tokens b = of_int (max 0 pt)"
    and "0 \<le> uncached_input_tokens b \<and> 0 \<le> cached_prompt_tokens b \<and> 0 \<le> cache_write_prompt_tokens b"
    by (simp_all add: b flip: of_int_add pn_def)
  show "cached_prompt_tokens b = of_int (min (max 0 pt) (max 0 ct))" by (simp add: b pn_def cn_def)
  show "completion_tokens_billed b = of_int (max 0 ot)"
    and "map_of pr ''input'' = Some (input_rate_per_1m b)"
    and "map_of pr ''output'' = Some (output_rate_per_1m b)"
    and "cache_read_rate_per_1m b = opt_or (map_of pr ''cache_read'') (input_rate_per_1m b)"
    and "cache_write_rate_per_1m b = opt_or (map_of pr ''cache_write'') (input_rate_per_1m b)"
    by (simp_all add: b ip op)
  show "total_usd b = (uncached_input_tokens b * input_rate_per_1m b
           + cached_prompt_tokens b * cache_read_rate_per_1m b
           + cache_write_prompt_tokens b * cache_write_rate_per_1m b
           + completion_tokens_billed b * output_rate_per_1m b) / 1000000"
    by (simp add: b add_divide_distrib)
qed

lemma derived_cost_partitions_prompt_parts:
  assumes "derived_cost_breakdown_usd pt ct ot wt pr = Inr b"
  shows "uncached_input_tokens b + cached_prompt_tokens b + cache_write_prompt_tokens b
           = of_int (max 0 pt)"
    and "0 \<le> uncached_input_tokens b \<and> 0 \<le> cached_prompt_tokens b \<and> 0 \<le> cache_write_prompt_tokens b"
    and "1000000 * total_usd b =
           uncached_input_tokens b * the (map_of pr ''input'')
           + cached_prompt_tokens b * opt_or (map_of pr ''cache_read'') (the (map_of pr ''input''))
           + cache_write_prompt_tokens b * opt_or (map_of pr ''cache_write'') (the (map_of pr ''input''))
           + of_int (max 0 ot) * the (map_of pr ''output'')"
proof -
  note b = derived_breakdown_cases [OF assms]
  show "uncached_input_tokens b + cached_prompt_tokens b + cache_write_prompt_tokens b = of_int (max 0 pt)"
    by (rule b(1))
  show "0 \<le> uncached_input_tokens b \<and> 0 \<le> cached_prompt_tokens b \<and> 0 \<le> cache_write_prompt_tokens b"
    by (rule b(2))
  show "1000000 * total_usd b =
           uncached_input_tokens b * the (map_of pr ''input'')
           + cached_prompt_tokens b * opt_or (map_of pr ''cache_read'') (the (map_of pr ''input''))
           + cache_write_prompt_tokens b * opt_or (map_of pr ''cache_write'') (the (map_of pr ''input''))
           + of_int (max 0 ot) * the (map_of pr ''output'')"
    unfolding b(9) b(5) b(6) b(7) b(8) b(3) option.sel by simp
qed


text \<open>The billed estimate bills every prompt token exactly once: fresh, cache-read and
  cache-write tokens are non-negative and add up to the prompt, and the total is what each class
  costs at its own authorised rate (a missing cache rate falling back to the input rate).\<close>

theorem derived_cost_partitions_prompt:
  assumes "derived_cost_breakdown_usd pt ct ot wt pr = Inr b"
  shows "(uncached_input_tokens b + cached_prompt_tokens b + cache_write_prompt_tokens b
           = of_int (max 0 pt))
     \<and> (0 \<le> uncached_input_tokens b \<and> 0 \<le> cached_prompt_tokens b \<and> 0 \<le> cache_write_prompt_tokens b)
     \<and> (1000000 * total_usd b =
           uncached_input_tokens b * the (map_of pr ''input'')
           + cached_prompt_tokens b * opt_or (map_of pr ''cache_read'') (the (map_of pr ''input''))
           + cache_write_prompt_tokens b * opt_or (map_of pr ''cache_write'') (the (map_of pr ''input''))
           + of_int (max 0 ot) * the (map_of pr ''output''))"
  using derived_cost_partitions_prompt_parts [OF assms] by blast

lemma sample_breakdown:
  "derived_cost_breakdown_usd 1000 400 50 100 [(''input'', 3), (''output'', 15), (''cache_read'', 3 / 10)]
     = Inr \<lparr>total_usd = 267 / 100000, uncached_input_usd = 15 / 10000, cache_read_usd = 12 / 100000,
            cache_write_usd = 3 / 10000, output_usd = 75 / 100000, uncached_input_tokens = 500,
            cached_prompt_tokens = 400, cache_write_prompt_tokens = 100,
            completion_tokens_billed = 50, input_rate_per_1m = 3, cache_read_rate_per_1m = 3 / 10,
            cache_write_rate_per_1m = 3, output_rate_per_1m = 15\<rparr>"
  by (simp add: derived_cost_breakdown_usd_def price_item_def Let_def)

theorem derived_cost_partitions_prompt_witness:
  "(500::real) + 400 + 100 = of_int (max 0 1000)"
  using derived_cost_partitions_prompt [OF sample_breakdown] by simp

section \<open>The reservation bound\<close>

definition prices_nonneg :: "pricing \<Rightarrow> bool" where
  "prices_nonneg pr \<longleftrightarrow> list_all (\<lambda>p. 0 \<le> snd p) pr"

lemma prices_nonnegD: "prices_nonneg pr \<Longrightarrow> map_of pr k = Some x \<Longrightarrow> 0 \<le> x"
  by (force simp: prices_nonneg_def list_all_iff dest: map_of_SomeD)

lemma worst_case_cases:
  assumes "worst_case_usd ub p cap cub = Inr w"
  obtains pr ip op where "pricing_row p = Some pr" and "map_of pr ''input'' = Some ip"
    and "map_of pr ''output'' = Some op"
    and "w = (let fp = max ip (opt_or (map_of pr ''cache_write'') ip);
                  cp = min (opt_or (map_of pr ''cache_read'') fp) fp;
                  c = max 0 (min cub ub)
              in ((of_int c * cp + of_int (ub - c) * fp) / 1000000
                  + of_int (cap + max_reasoning_tokens p) * op / 1000000)
                 * (1 + FEE_RATE) * RESERVATION_SAFETY_FACTOR + FLAT_FEE_USD)"
  using assms by (auto simp: worst_case_usd_def result_simps Let_def split: option.splits)

text \<open>
  The input side: \<open>c\<close> tokens reserved at the cached price and \<open>f\<close> at the fresh one cover any
  split of fewer tokens with at most \<open>f\<close> of them fresh.
\<close>

lemma reserved_input_covers:
  fixes c f x u cp fp cr :: real
  assumes "x + u \<le> c + f" and "u \<le> f" and "0 \<le> x" and "0 \<le> cr" and "cr \<le> cp" and "cp \<le> fp"
  shows "x * cr + u * fp \<le> c * cp + f * fp"
proof -
  have "x * cr \<le> x * cp" using assms by (simp add: mult_left_mono)
  moreover have "x * cp \<le> (c + (f - u)) * cp"
    using assms by (intro mult_right_mono) auto
  moreover have "(f - u) * cp \<le> (f - u) * fp" using assms by (intro mult_left_mono) auto
  ultimately show ?thesis by (simp add: algebra_simps)
qed

text \<open>C8. The reservation is an upper bound of the bill: with non-negative prices and a cache-read
  price no dearer than fresh input, whatever usage the upstream reports, as long as the prompt is
  within the token bound, the completion within the output window, and no more prompt tokens miss
  the cache than were reserved at the fresh price, the derived cost is below the reservation.\<close>

theorem reservation_covers_derived_cost:
  assumes "worst_case_usd ub p cap cub = Inr w" and "pricing_row p = Some pr"
    and "derived_cost_usd pt ct ot wt pr = Inr d"
    and "prices_nonneg pr" and "0 \<le> ub" and "0 \<le> cap + max_reasoning_tokens p"
    and "opt_or (map_of pr ''cache_read'') 0 \<le> opt_or (map_of pr ''input'') 0"
    and "pt \<le> ub" and "ot \<le> cap + max_reasoning_tokens p"
    and "pt - ct \<le> ub - max 0 (min cub ub)" and "0 \<le> ct"
  shows "d < w"
proof -
  obtain pr' ip op where pr': "pricing_row p = Some pr'" and ip': "map_of pr' ''input'' = Some ip"
    and op': "map_of pr' ''output'' = Some op"
    and w': "w = (let fp = max ip (opt_or (map_of pr' ''cache_write'') ip);
                  cp = min (opt_or (map_of pr' ''cache_read'') fp) fp;
                  c = max 0 (min cub ub)
              in ((of_int c * cp + of_int (ub - c) * fp) / 1000000
                  + of_int (cap + max_reasoning_tokens p) * op / 1000000)
                 * (1 + FEE_RATE) * RESERVATION_SAFETY_FACTOR + FLAT_FEE_USD)"
    by (rule worst_case_cases [OF assms(1)])
  from pr' assms(2) have "pr' = pr" by simp
  note ip = ip' [unfolded this] and op = op' [unfolded this] and w = w' [unfolded this]
  from assms(3) obtain b where b: "derived_cost_breakdown_usd pt ct ot wt pr = Inr b" and d: "d = total_usd b"
    by (auto simp: derived_cost_usd_def result_simps)
  note bc = derived_breakdown_cases [OF b]
  define fp where "fp = max ip (opt_or (map_of pr ''cache_write'') ip)"
  define cp where "cp = min (opt_or (map_of pr ''cache_read'') fp) fp"
  define c where "c = max 0 (min cub ub)"
  define cr where "cr = opt_or (map_of pr ''cache_read'') ip"
  define wr where "wr = opt_or (map_of pr ''cache_write'') ip"
  let ?u = "uncached_input_tokens b" and ?x = "cached_prompt_tokens b" and ?v = "cache_write_prompt_tokens b"
  let ?o = "of_int (max 0 ot) :: real" and ?O = "of_int (cap + max_reasoning_tokens p) :: real"
  from ip bc(5) have rate: "input_rate_per_1m b = ip" by simp
  from op bc(6) have orate: "output_rate_per_1m b = op" by simp
  have ip0: "0 \<le> ip" and op0: "0 \<le> op" using ip op prices_nonnegD [OF assms(4)] by auto
  have wr: "0 \<le> wr" "wr \<le> fp" "ip \<le> fp"
    using ip0 prices_nonnegD [OF assms(4), of "''cache_write''"]
    by (auto simp: wr_def fp_def opt_or_def split: option.splits)
  have cr: "0 \<le> cr" "cr \<le> cp"
    using ip0 ip assms(7) wr prices_nonnegD [OF assms(4), of "''cache_read''"]
    by (auto simp: cr_def cp_def opt_or_def split: option.splits)
  have cf: "cp \<le> fp" by (simp add: cp_def)
  have fresh: "?u + ?v \<le> of_int (ub - c)"
  proof -
    have "?u + ?v = of_int (max 0 pt - min (max 0 pt) (max 0 ct))" using bc(1,4) by simp
    moreover have "max 0 pt - min (max 0 pt) (max 0 ct) \<le> ub - c"
      using assms(5,8,10,11) by (auto simp: c_def)
    ultimately show ?thesis by simp
  qed
  have all: "?x + (?u + ?v) \<le> of_int c + of_int (ub - c)"
    using bc(1) assms(5,8) by simp
  have "?u * ip + ?v * wr \<le> (?u + ?v) * fp"
    using wr bc(2) by (simp add: distrib_right add_mono mult_left_mono)
  with reserved_input_covers [OF all fresh _ cr cf] bc(2)
  have inp: "?u * ip + ?x * cr + ?v * wr \<le> of_int c * cp + of_int (ub - c) * fp" by linarith
  have out: "?o * op \<le> ?O * op"
    using assms(6,9) op0 by (intro mult_right_mono) auto
  define S where "S = (of_int c * cp + of_int (ub - c) * fp) / 1000000 + ?O * op / 1000000"
  have dS: "d \<le> S" using inp out bc(3,7,8,9)
    by (simp add: d S_def rate orate cr_def wr_def add_divide_distrib)
  have d0: "0 \<le> d"
    using bc(2) ip0 op0 cr(1) wr(1) unfolding d bc(9) bc(3) bc(7) bc(8) rate orate
    by (simp add: cr_def wr_def)
  have "w = S * (1 + FEE_RATE) * RESERVATION_SAFETY_FACTOR + FLAT_FEE_USD"
    by (simp add: w Let_def S_def fp_def cp_def c_def)
  then have "w = S * (1166 / 1000) + 1 / 1000"
    by (simp add: FEE_RATE_def RESERVATION_SAFETY_FACTOR_def FLAT_FEE_USD_def)
  with dS d0 show "d < w" by simp
qed

lemma sample_derived:
  "derived_cost_usd 1000 400 50 100 [(''input'', 3), (''output'', 15), (''cache_read'', 3 / 10)]
     = Inr (267 / 100000)"
  by (simp add: derived_cost_usd_def sample_breakdown)

lemma sample_worst_case:
  "worst_case_usd 2000 sample_profile 4096 300 = Inr (22196866 / 100000000)"
  by (simp add: worst_case_usd_def sample_profile_def base_profile_def price_item_def Let_def
      FEE_RATE_def RESERVATION_SAFETY_FACTOR_def FLAT_FEE_USD_def)

theorem reservation_covers_derived_cost_witness: "267 / 100000 < (22196866 / 100000000 :: real)"
  by (rule reservation_covers_derived_cost [OF sample_worst_case _ sample_derived])
    (simp_all add: sample_profile_def base_profile_def prices_nonneg_def)

text \<open>No profile ships runnable: each of the ten default profiles is blocked with a stated reason
  until a provider pin, a price row and an authorisation are supplied, and each leaves at least 24k
  visible completion tokens beyond its reasoning window.\<close>

theorem default_profiles_blocked_with_headroom:
  "list_all (\<lambda>(n, p). pf_name p = n \<and> runnable_reason p \<noteq> None \<and>
     24000 \<le> max_output_tokens p - max_reasoning_tokens p) DEFAULT_PROFILES"
  by (simp add: DEFAULT_PROFILES_def base_profile_def runnable_reason_def)

end
