(* ===== verification/Budget_Ledger.thy ===== *)
theory Budget_Ledger
  imports Budget_Interface Proxy_Policy
begin

text \<open>
  \<open>BudgetLedger\<close> of \<open>wevibe_bench/adapters/openrouter_proxy.py\<close>: the hard-ceiling budget
  authority, its checkpoint on disk and its recovery after a crash.  Every operation that changes
  the ledger writes the checkpoint before it returns; the file is the field \<open>lg_checkpoint\<close>.
  The decoded document is taken to be the value that was encoded, and writes are taken to
  succeed.  The wall clock is the parameter \<open>now\<close>.
\<close>

section \<open>State and checkpoint\<close>

datatype checkpoint_file = NoFile | BadFile | JsonFile pyval

record ledger =
  lg_run_id :: string
  lg_model_id :: string
  lg_profile_name :: string
  lg_hard_cap :: real
  lg_operational_target :: "real option"
  lg_reject_on_equality :: bool
  lg_watch_only :: bool
  lg_accrued_actual :: real
  lg_accrued_derived :: real
  lg_committed_unproven :: real
  lg_outstanding :: "(string \<times> real) list"
  lg_checkpoint :: checkpoint_file

definition ledger_payload :: "string \<Rightarrow> ledger \<Rightarrow> pydict" where
  "ledger_payload now l =
     [(''schema_version'', PInt CHECKPOINT_SCHEMA_VERSION),
      (''run_id'', PStr (lg_run_id l)),
      (''model_id'', PStr (lg_model_id l)),
      (''profile_name'', PStr (lg_profile_name l)),
      (''hard_cap_usd'', PFloat (lg_hard_cap l)),
      (''accrued_actual_usd'', PFloat (lg_accrued_actual l)),
      (''accrued_derived_usd'', PFloat (lg_accrued_derived l)),
      (''committed_unproven_usd'', PFloat (lg_committed_unproven l)),
      (''outstanding'', PDict (map (\<lambda>(k, x). (k, PFloat x)) (lg_outstanding l))),
      (''updated_at'', PStr now)]"

definition persist :: "string \<Rightarrow> ledger \<Rightarrow> ledger" where
  "persist now l = l\<lparr>lg_checkpoint := JsonFile (PDict (ledger_payload now l))\<rparr>"

definition ledger_binding :: "ledger \<Rightarrow> string \<times> string \<times> string \<times> real" where
  "ledger_binding l = (lg_run_id l, lg_model_id l, lg_profile_name l, lg_hard_cap l)"

definition float_field :: "pydict \<Rightarrow> string \<Rightarrow> proxy_error + real" where
  "float_field d k = lift_exc (py_float (dget_default d k (PFloat 0)))"

definition load_outstanding :: "pydict \<Rightarrow> proxy_error + (string \<times> real) list" where
  "load_outstanding d =
     map_result (\<lambda>(k, v). bind_result (lift_exc (py_float v)) (\<lambda>x. Inr (k, max 0 x))) d"

definition load_checkpoint :: "(pyval \<Rightarrow> string) \<Rightarrow> ledger \<Rightarrow> proxy_error + ledger" where
  "load_checkpoint rp l =
     (case lg_checkpoint l of
        JsonFile (PDict d) \<Rightarrow>
          bind_result (lift_exc (py_int (dget_default d ''schema_version'' (PInt 0)))) (\<lambda>ver.
            if ver \<noteq> 1 \<and> ver \<noteq> CHECKPOINT_SCHEMA_VERSION
            then Inl (PolicyMismatchError ''checkpoint_schema_mismatch'')
            else bind_result (float_field d ''hard_cap_usd'') (\<lambda>cap.
              if (py_str rp (dget_default d ''run_id'' (PStr [])),
                  py_str rp (dget_default d ''model_id'' (PStr [])),
                  py_str rp (dget_default d ''profile_name'' (PStr [])), cap) \<noteq> ledger_binding l
              then Inl (PolicyMismatchError ''policy_mismatch'')
              else (case dget_default d ''outstanding'' (PDict []) of
                  PDict out \<Rightarrow>
                    bind_result (float_field d ''accrued_actual_usd'') (\<lambda>act.
                    bind_result (if ver = 1 then Inr 0 else float_field d ''accrued_derived_usd'') (\<lambda>der.
                    bind_result (float_field d ''committed_unproven_usd'') (\<lambda>unp.
                    bind_result (load_outstanding out) (\<lambda>outs.
                      Inr (l\<lparr>lg_accrued_actual := max 0 act, lg_accrued_derived := max 0 der,
                             lg_committed_unproven := max 0 unp, lg_outstanding := outs\<rparr>)))))
                | _ \<Rightarrow> Inl (PolicyMismatchError ''checkpoint_invalid''))))
      | _ \<Rightarrow> Inl (PolicyMismatchError ''checkpoint_invalid''))"

text \<open>\<open>BudgetLedger(...)\<close> over the file found at \<open>checkpoint_path\<close>.\<close>

definition ledger_new ::
  "(pyval \<Rightarrow> string) \<Rightarrow> string \<Rightarrow> string \<Rightarrow> string \<Rightarrow> string \<Rightarrow> real \<Rightarrow> checkpoint_file \<Rightarrow> real option
     \<Rightarrow> bool \<Rightarrow> bool \<Rightarrow> proxy_error + ledger" where
  "ledger_new rp now run_id mdl profile hard_cap_usd file target reject_eq watch =
     (let l = \<lparr>lg_run_id = run_id, lg_model_id = mdl, lg_profile_name = profile,
               lg_hard_cap = min hard_cap_usd ABSOLUTE_MAX_USD, lg_operational_target = target,
               lg_reject_on_equality = reject_eq, lg_watch_only = watch,
               lg_accrued_actual = 0, lg_accrued_derived = 0, lg_committed_unproven = 0,
               lg_outstanding = [], lg_checkpoint = file\<rparr>
      in if file \<noteq> NoFile then load_checkpoint rp l else Inr (persist now l))"

section \<open>Operations\<close>

definition outstanding_total :: "ledger \<Rightarrow> real" where
  "outstanding_total l = alist_total (lg_outstanding l)"

text \<open>Everything that counts against the cap.\<close>

definition committed_usd :: "ledger \<Rightarrow> real" where
  "committed_usd l =
     lg_accrued_actual l + lg_accrued_derived l + lg_committed_unproven l + outstanding_total l"

definition reserve :: "string \<Rightarrow> ledger \<Rightarrow> string \<Rightarrow> real \<Rightarrow> proxy_error + ledger" where
  "reserve now l req_id amount =
     (let reservation = max 0 amount;
          projected = lg_accrued_actual l + lg_accrued_derived l + lg_committed_unproven l
                        + outstanding_total l + reservation;
          over = (if lg_reject_on_equality l then lg_hard_cap l \<le> projected
                  else lg_hard_cap l < projected)
      in if over \<and> \<not> lg_watch_only l then Inl BudgetExceededError
         else Inr (persist now
                (l\<lparr>lg_outstanding := AList.update req_id reservation (lg_outstanding l)\<rparr>)))"

definition settle_actual :: "string \<Rightarrow> ledger \<Rightarrow> string \<Rightarrow> real \<Rightarrow> ledger" where
  "settle_actual now l req_id actual_usd =
     persist now (l\<lparr>lg_outstanding := AList.delete req_id (lg_outstanding l),
                    lg_accrued_actual := lg_accrued_actual l + max 0 actual_usd\<rparr>)"

definition settle_derived :: "string \<Rightarrow> ledger \<Rightarrow> string \<Rightarrow> real \<Rightarrow> ledger" where
  "settle_derived now l req_id derived_usd =
     persist now (l\<lparr>lg_outstanding := AList.delete req_id (lg_outstanding l),
                    lg_accrued_derived := lg_accrued_derived l + max 0 derived_usd\<rparr>)"

definition retain_unproven :: "string \<Rightarrow> ledger \<Rightarrow> string \<Rightarrow> ledger" where
  "retain_unproven now l req_id =
     (let amount = opt_or (map_of (lg_outstanding l) req_id) 0
      in persist now (l\<lparr>lg_outstanding := AList.delete req_id (lg_outstanding l),
                        lg_committed_unproven := lg_committed_unproven l + max 0 amount\<rparr>))"

definition remaining :: "ledger \<Rightarrow> real" where
  "remaining l = lg_hard_cap l - lg_accrued_actual l - lg_accrued_derived l
                   - lg_committed_unproven l - outstanding_total l"

record budget_snapshot =
  bs_accrued :: real
  bs_accrued_derived :: real
  bs_committed_unproven :: real
  bs_outstanding_total :: real
  bs_remaining :: real
  bs_hard_cap :: real

definition snapshot :: "ledger \<Rightarrow> budget_snapshot" where
  "snapshot l = \<lparr>bs_accrued = lg_accrued_actual l, bs_accrued_derived = lg_accrued_derived l,
     bs_committed_unproven = lg_committed_unproven l, bs_outstanding_total = outstanding_total l,
     bs_remaining = lg_hard_cap l - lg_accrued_actual l - lg_accrued_derived l
                      - lg_committed_unproven l - outstanding_total l,
     bs_hard_cap = lg_hard_cap l\<rparr>"

fun settle :: "string \<Rightarrow> ledger \<Rightarrow> string \<Rightarrow> settlement \<Rightarrow> ledger" where
  "settle now l k (Actual x) = settle_actual now l k x"
| "settle now l k (Derived x) = settle_derived now l k x"
| "settle now l k Retained = retain_unproven now l k"

section \<open>Invariant and frame\<close>

text \<open>
  The ledger is well formed when nothing in it is negative, ids are distinct and the checkpoint on
  disk is the encoding of the state in memory.
\<close>

definition ledger_ok :: "ledger \<Rightarrow> bool" where
  "ledger_ok l \<longleftrightarrow>
     0 \<le> lg_accrued_actual l \<and> 0 \<le> lg_accrued_derived l \<and> 0 \<le> lg_committed_unproven l \<and>
     distinct (map fst (lg_outstanding l)) \<and> (\<forall>p \<in> set (lg_outstanding l). 0 \<le> snd p) \<and>
     (\<exists>now. lg_checkpoint l = JsonFile (PDict (ledger_payload now l)))"

definition held :: "ledger \<Rightarrow> string \<Rightarrow> real option" where
  "held l k = map_of (lg_outstanding l) k"

lemma persist_sel [simp]:
  "lg_run_id (persist now l) = lg_run_id l"
  "lg_model_id (persist now l) = lg_model_id l"
  "lg_profile_name (persist now l) = lg_profile_name l"
  "lg_hard_cap (persist now l) = lg_hard_cap l"
  "lg_watch_only (persist now l) = lg_watch_only l"
  "lg_reject_on_equality (persist now l) = lg_reject_on_equality l"
  "lg_operational_target (persist now l) = lg_operational_target l"
  "lg_accrued_actual (persist now l) = lg_accrued_actual l"
  "lg_accrued_derived (persist now l) = lg_accrued_derived l"
  "lg_committed_unproven (persist now l) = lg_committed_unproven l"
  "lg_outstanding (persist now l) = lg_outstanding l"
  "committed_usd (persist now l) = committed_usd l"
  "held (persist now l) = held l"
  by (simp_all add: persist_def committed_usd_def outstanding_total_def held_def fun_eq_iff)

lemma ledger_payload_checkpoint [simp]:
  "ledger_payload now (l\<lparr>lg_checkpoint := f\<rparr>) = ledger_payload now l"
  by (simp add: ledger_payload_def)

lemma ledger_ok_persist [simp]:
  "ledger_ok (persist now l) \<longleftrightarrow>
     0 \<le> lg_accrued_actual l \<and> 0 \<le> lg_accrued_derived l \<and> 0 \<le> lg_committed_unproven l \<and>
     distinct (map fst (lg_outstanding l)) \<and> (\<forall>p \<in> set (lg_outstanding l). 0 \<le> snd p)"
  by (auto simp: ledger_ok_def persist_def)

lemma ledger_ok_distinct: "ledger_ok l \<Longrightarrow> distinct (map fst (lg_outstanding l))"
  by (simp add: ledger_ok_def)

lemma ledger_ok_held_nonneg: "ledger_ok l \<Longrightarrow> held l k = Some h \<Longrightarrow> 0 \<le> h"
  by (auto simp: ledger_ok_def held_def dest!: map_of_SomeD)

lemmas ledger_op_defs = settle_actual_def settle_derived_def retain_unproven_def

lemma reserve_cases:
  "reserve now l k a = Inr l' \<Longrightarrow>
     l' = persist now (l\<lparr>lg_outstanding := AList.update k (max 0 a) (lg_outstanding l)\<rparr>) \<and>
     (\<not> lg_watch_only l \<longrightarrow> committed_usd l + max 0 a \<le> lg_hard_cap l)"
  by (auto simp: reserve_def Let_def committed_usd_def split: if_splits)

lemma reserve_ledger_ok: "ledger_ok l \<Longrightarrow> reserve now l k a = Inr l' \<Longrightarrow> ledger_ok l'"
proof -
  assume ok: "ledger_ok l" and r: "reserve now l k a = Inr l'"
  from ok have "distinct (map fst (AList.update k (max 0 a) (lg_outstanding l)))"
    and "\<forall>p \<in> set (AList.update k (max 0 a) (lg_outstanding l)). 0 \<le> snd p"
    by (auto simp: ledger_ok_def intro: distinct_AList_update dest!: set_AList_update)
  with ok reserve_cases [OF r] show ?thesis by (simp add: ledger_ok_def [of l])
qed

lemma settle_ledger_ok: "ledger_ok l \<Longrightarrow> ledger_ok (settle now l k c)"
proof -
  assume ok: "ledger_ok l"
  then have "\<forall>p \<in> set (lg_outstanding l). 0 \<le> snd p" by (simp add: ledger_ok_def)
  then have "\<forall>p \<in> set (AList.delete k (lg_outstanding l)). 0 \<le> snd p" by (rule nonneg_AList_delete)
  moreover have "distinct (map fst (AList.delete k (lg_outstanding l)))"
    using ledger_ok_distinct [OF ok] by (rule distinct_AList_delete)
  moreover note ok
  ultimately show ?thesis by (cases c) (simp_all add: ledger_op_defs Let_def ledger_ok_def [of l])
qed

lemma settle_committed:
  "ledger_ok l \<Longrightarrow> committed_usd (settle now l k c) =
     committed_usd l - opt_or (held l k) 0 + charge c (opt_or (held l k) 0)"
proof -
  assume ok: "ledger_ok l"
  have nn: "0 \<le> opt_or (held l k) 0"
    using ledger_ok_held_nonneg [OF ok, of k] by (cases "held l k") auto
  show ?thesis
  proof (cases c)
    case Retained
    with nn show ?thesis
      by (simp add: retain_unproven_def Let_def committed_usd_def outstanding_total_def held_def
          alist_total_delete [OF ledger_ok_distinct [OF ok]])
  qed (simp_all add: ledger_op_defs committed_usd_def outstanding_total_def held_def
      alist_total_delete [OF ledger_ok_distinct [OF ok]])
qed

text \<open>The ledger is a budget authority, whatever the clock reads.\<close>

interpretation ledger_auth: budget_authority "reserve now" "settle now" held committed_usd
    lg_hard_cap "\<lambda>l. \<not> lg_watch_only l" ledger_ok for now
proof unfold_locales
  fix l l' :: ledger and k j :: string and a :: real and c :: settlement
  show "ledger_ok l \<Longrightarrow> reserve now l k a = Inr l' \<Longrightarrow> ledger_ok l'" by (rule reserve_ledger_ok)
  show "reserve now l k a = Inr l' \<Longrightarrow>
      lg_hard_cap l' = lg_hard_cap l \<and> (\<not> lg_watch_only l') = (\<not> lg_watch_only l)"
    by (drule reserve_cases) simp
  show "reserve now l k a = Inr l' \<Longrightarrow>
      held l' j = (if j = k then Some (max 0 a) else held l j)"
    by (drule reserve_cases) (simp add: held_def map_of_AList_update)
  show "reserve now l k a = Inr l' \<Longrightarrow>
      committed_usd l' = committed_usd l + max 0 a - opt_or (held l k) 0"
    by (drule reserve_cases)
      (simp add: committed_usd_def outstanding_total_def held_def alist_total_update)
  show "\<not> lg_watch_only l \<Longrightarrow> reserve now l k a = Inr l' \<Longrightarrow>
      committed_usd l + max 0 a \<le> lg_hard_cap l"
    by (drule reserve_cases) simp
  show "ledger_ok l \<Longrightarrow> ledger_ok (settle now l k c)" by (rule settle_ledger_ok)
  show "lg_hard_cap (settle now l k c) = lg_hard_cap l \<and>
      (\<not> lg_watch_only (settle now l k c)) = (\<not> lg_watch_only l)"
    by (cases c) (simp_all add: ledger_op_defs Let_def)
  show "ledger_ok l \<Longrightarrow> held (settle now l k c) j = (if j = k then None else held l j)"
    by (cases c) (simp_all add: ledger_op_defs Let_def held_def map_of_AList_delete)
  show "ledger_ok l \<Longrightarrow> committed_usd (settle now l k c) =
      committed_usd l - opt_or (held l k) 0 + charge c (opt_or (held l k) 0)"
    by (rule settle_committed)
qed

section \<open>The ceiling\<close>

text \<open>C1. The hard ceiling.  Open a ledger on a fresh checkpoint path with any requested cap (watch
  mode off) and drive it by any interleaved sequence of reservations and settlements in which an id
  is reserved only while nothing is held under it and no settlement charges more than the
  reservation it closes: then accrued, derived, unproven and outstanding spend together never
  pass the requested cap, and never pass 12 USD.\<close>

theorem budget_never_exceeds_cap:
  assumes "ledger_new rp now run_id mdl profile cap NoFile target req_eq False = Inr l" and "0 \<le> cap"
    and "disciplined (reserve now) (settle now) held l es"
  shows "committed_usd (budget_run (reserve now) (settle now) l es) \<le> min cap 12"
proof -
  from assms(1) have l: "ledger_ok l" "\<not> lg_watch_only l" "committed_usd l = 0"
    "lg_hard_cap l = min cap ABSOLUTE_MAX_USD"
    by (auto simp: ledger_new_def Let_def committed_usd_def outstanding_total_def alist_total_def)
  with assms(2) have "committed_usd l \<le> lg_hard_cap l" by (simp add: ABSOLUTE_MAX_USD_def)
  from ledger_auth.run_within_cap [OF l(1,2) this assms(3)]
    ledger_auth.run_frame [of now l es] l(4)
  show ?thesis by (simp add: ABSOLUTE_MAX_USD_def)
qed

definition sample_ledger :: ledger where
  "sample_ledger = persist ''t''
     \<lparr>lg_run_id = ''r'', lg_model_id = ''m'', lg_profile_name = ''p'', lg_hard_cap = 5,
      lg_operational_target = None, lg_reject_on_equality = False, lg_watch_only = False,
      lg_accrued_actual = 0, lg_accrued_derived = 0, lg_committed_unproven = 0,
      lg_outstanding = [], lg_checkpoint = NoFile\<rparr>"

lemma sample_ledger_new:
  "ledger_new rp ''t'' ''r'' ''m'' ''p'' 5 NoFile None False False = Inr sample_ledger"
  by (simp add: ledger_new_def sample_ledger_def ABSOLUTE_MAX_USD_def Let_def)

definition sample_events :: "budget_event list" where
  "sample_events = [Admit ''a'' 2, Admit ''b'' 2, Admit ''c'' 2, Finish ''a'' (Derived 1),
     Finish ''b'' Retained]"

lemma sample_disciplined:
  "disciplined (reserve ''t'') (settle ''t'') held sample_ledger sample_events"
  by (simp add: sample_events_def sample_ledger_def reserve_def outstanding_total_def held_def
      ledger_op_defs Let_def persist_def)

lemma sample_ledger_ok: "ledger_ok sample_ledger"
  by (simp add: sample_ledger_def)

theorem budget_never_exceeds_cap_witness:
  "committed_usd (budget_run (reserve ''t'') (settle ''t'') sample_ledger sample_events) \<le> 5"
  using budget_never_exceeds_cap [OF sample_ledger_new [of "\<lambda>_. []"] _ sample_disciplined] by simp

text \<open>Admission is exact: outside watch mode a reservation is refused precisely when what is
  already committed plus the reservation passes the cap (or reaches it, when equality is to be
  rejected), a refusal leaves no trace, and in watch mode nothing is ever refused.\<close>

theorem reserve_admits_exactly_under_cap:
  "(\<exists>l'. reserve now l k a = Inr l') \<longleftrightarrow>
     lg_watch_only l \<or> committed_usd l + max 0 a < lg_hard_cap l \<or>
     (committed_usd l + max 0 a = lg_hard_cap l \<and> \<not> lg_reject_on_equality l)"
  by (auto simp: reserve_def Let_def committed_usd_def)

lemma snapshot_conserves_cap_parts:
  assumes "s = snapshot (budget_run (reserve now) (settle now) l es)"
  shows "bs_remaining s + bs_accrued s + bs_accrued_derived s + bs_committed_unproven s
           + bs_outstanding_total s = lg_hard_cap l"
    and "\<lbrakk>ledger_ok l; \<not> lg_watch_only l; committed_usd l \<le> lg_hard_cap l;
           disciplined (reserve now) (settle now) held l es\<rbrakk> \<Longrightarrow> 0 \<le> bs_remaining s"
proof -
  let ?l = "budget_run (reserve now) (settle now) l es"
  have cap: "lg_hard_cap ?l = lg_hard_cap l" using ledger_auth.run_frame by blast
  then show "bs_remaining s + bs_accrued s + bs_accrued_derived s + bs_committed_unproven s
           + bs_outstanding_total s = lg_hard_cap l"
    by (simp add: assms snapshot_def)
  assume "ledger_ok l" "\<not> lg_watch_only l" "committed_usd l \<le> lg_hard_cap l"
    "disciplined (reserve now) (settle now) held l es"
  then have "committed_usd ?l \<le> lg_hard_cap l" by (rule ledger_auth.run_within_cap)
  with cap show "0 \<le> bs_remaining s" by (simp add: assms snapshot_def committed_usd_def)
qed


text \<open>The four quantities of a budget snapshot account for the whole cap: what remains plus
  actual, derived, unproven and outstanding spend is the cap, after any history; and the remaining
  budget an enforcing ledger reports after a disciplined history is never negative.\<close>

theorem snapshot_conserves_cap:
  assumes "s = snapshot (budget_run (reserve now) (settle now) l es)"
  shows "(bs_remaining s + bs_accrued s + bs_accrued_derived s + bs_committed_unproven s
           + bs_outstanding_total s = lg_hard_cap l)
     \<and> (ledger_ok l \<longrightarrow>
      \<not> lg_watch_only l \<longrightarrow>
      committed_usd l \<le> lg_hard_cap l \<longrightarrow>
      disciplined (reserve now) (settle now) held l es \<longrightarrow>
      0 \<le> bs_remaining s)"
  using snapshot_conserves_cap_parts [OF assms] by blast

theorem snapshot_conserves_cap_witness:
  "let s = snapshot (budget_run (reserve ''t'') (settle ''t'') sample_ledger sample_events)
   in bs_remaining s + bs_accrued s + bs_accrued_derived s + bs_committed_unproven s
        + bs_outstanding_total s = 5 \<and> 0 \<le> bs_remaining s"
proof -
  have "\<not> lg_watch_only sample_ledger" "lg_hard_cap sample_ledger = 5"
    "committed_usd sample_ledger \<le> lg_hard_cap sample_ledger"
    by (simp_all add: sample_ledger_def committed_usd_def outstanding_total_def alist_total_def)
  then show ?thesis
    using snapshot_conserves_cap [OF refl, where now = "''t''" and l = sample_ledger and es = sample_events]
      sample_ledger_ok sample_disciplined by (simp add: Let_def)
qed

section \<open>Crash recovery\<close>

lemma load_outstanding_payload:
  "\<forall>p \<in> set xs. 0 \<le> snd p \<Longrightarrow> load_outstanding (map (\<lambda>(k, x). (k, PFloat x)) xs) = Inr xs"
  by (induction xs) (auto simp: load_outstanding_def)

lemma load_checkpoint_payload:
  assumes "ledger_ok l" and "lg_checkpoint l0 = lg_checkpoint l"
    and "ledger_binding l0 = ledger_binding l"
  shows "load_checkpoint rp l0 = Inr (l0\<lparr>lg_accrued_actual := lg_accrued_actual l,
     lg_accrued_derived := lg_accrued_derived l, lg_committed_unproven := lg_committed_unproven l,
     lg_outstanding := lg_outstanding l\<rparr>)"
proof -
  from assms(1) obtain now where f: "lg_checkpoint l = JsonFile (PDict (ledger_payload now l))"
    by (auto simp: ledger_ok_def)
  have "load_outstanding (map (\<lambda>(k, x). (k, PFloat x)) (lg_outstanding l)) = Inr (lg_outstanding l)"
    using assms(1) by (intro load_outstanding_payload) (simp add: ledger_ok_def)
  with assms f show ?thesis
    by (simp add: load_checkpoint_def ledger_payload_def float_field_def ledger_binding_def
        CHECKPOINT_SCHEMA_VERSION_def ledger_ok_def)
qed

text \<open>C5. Nothing is lost in a crash.  Stop the process after any history of reservations and
  settlements (disciplined or not) and construct the ledger again with the same run, model,
  profile and cap over the checkpoint left on disk: the ledger that comes back has exactly the
  accrued, derived, unproven and outstanding spend of the one that died.\<close>

theorem crash_recovers_every_hold:
  assumes "ledger_ok l" and "l1 = budget_run (reserve now) (settle now) l es"
    and "lg_hard_cap l \<le> ABSOLUTE_MAX_USD"
  shows "ledger_new rp now' (lg_run_id l1) (lg_model_id l1) (lg_profile_name l1) (lg_hard_cap l1)
           (lg_checkpoint l1) (lg_operational_target l1) (lg_reject_on_equality l1)
           (lg_watch_only l1) = Inr l1"
proof -
  from assms(1,2) have ok: "ledger_ok l1" by (simp add: ledger_auth.run_ok)
  from assms(2,3) have cap: "lg_hard_cap l1 \<le> ABSOLUTE_MAX_USD"
    using ledger_auth.run_frame [of now l es] by simp
  from ok have "lg_checkpoint l1 \<noteq> NoFile" by (auto simp: ledger_ok_def)
  with cap show ?thesis
    by (simp add: ledger_new_def Let_def ledger_binding_def load_checkpoint_payload [OF ok])
qed

theorem crash_recovers_every_hold_witness:
  "let l1 = budget_run (reserve ''t'') (settle ''t'') sample_ledger [Admit ''a'' 2, Admit ''a'' 1]
   in ledger_new (\<lambda>_. []) ''u'' (lg_run_id l1) (lg_model_id l1) (lg_profile_name l1) (lg_hard_cap l1)
        (lg_checkpoint l1) (lg_operational_target l1) (lg_reject_on_equality l1)
        (lg_watch_only l1) = Inr l1"
  unfolding Let_def
  by (rule crash_recovers_every_hold [OF sample_ledger_ok refl])
    (simp add: sample_ledger_def ABSOLUTE_MAX_USD_def)

text \<open>A checkpoint is never adopted by another run: a ledger constructed over an existing file
  either refuses it or comes back bound to the very run, model, profile and effective cap written
  in the file, with no negative balance whatever the file holds.\<close>

theorem checkpoint_adopted_only_under_same_binding:
  assumes "ledger_new rp now run_id mdl profile cap file target req_eq watch = Inr l"
    and "file \<noteq> NoFile"
  shows "\<exists>d. file = JsonFile (PDict d) \<and>
     py_str rp (dget_default d ''run_id'' (PStr [])) = run_id \<and>
     py_str rp (dget_default d ''model_id'' (PStr [])) = mdl \<and>
     py_str rp (dget_default d ''profile_name'' (PStr [])) = profile \<and>
     py_float (dget_default d ''hard_cap_usd'' (PFloat 0)) = Inr (min cap ABSOLUTE_MAX_USD) \<and>
     0 \<le> lg_accrued_actual l \<and> 0 \<le> lg_accrued_derived l \<and> 0 \<le> lg_committed_unproven l"
proof -
  from assms obtain d where "file = JsonFile (PDict d)"
    by (auto simp: ledger_new_def load_checkpoint_def Let_def split: checkpoint_file.splits pyval.splits)
  with assms show ?thesis
    by (auto simp: ledger_new_def load_checkpoint_def Let_def ledger_binding_def float_field_def
        result_simps split: if_splits pyval.splits)
qed

theorem checkpoint_adopted_only_under_same_binding_witness:
  "\<exists>d. lg_checkpoint sample_ledger = JsonFile (PDict d) \<and>
     py_str (\<lambda>_. []) (dget_default d ''run_id'' (PStr [])) = ''r''"
proof -
  have "ledger_new (\<lambda>_. []) ''u'' ''r'' ''m'' ''p'' 5 (lg_checkpoint sample_ledger) None False False
      = Inr sample_ledger"
    using load_checkpoint_payload [OF sample_ledger_ok, of _ "\<lambda>_. []"]
    by (simp add: ledger_new_def Let_def ledger_binding_def ABSOLUTE_MAX_USD_def
        sample_ledger_def persist_def ledger_payload_def)
  from checkpoint_adopted_only_under_same_binding [OF this]
  show ?thesis by (auto simp: sample_ledger_def persist_def)
qed

text \<open>A reused request id loses a reservation: reserving under an id that already holds an
  amount replaces that amount, so the earlier hold leaves the committed total although its request
  was never settled.\<close>

theorem reused_id_drops_earlier_hold:
  assumes "held l k = Some h" and "reserve now l k a = Inr l'"
  shows "committed_usd l' = committed_usd l + max 0 a - h"
  using assms by (rule ledger_auth.readmit_drops_hold)

theorem reused_id_drops_earlier_hold_witness:
  "\<exists>l'. reserve ''t'' (sample_ledger\<lparr>lg_outstanding := [(''a'', 3)]\<rparr>) ''a'' 1 = Inr l' \<and>
     committed_usd l' = 1"
proof -
  let ?l = "sample_ledger\<lparr>lg_outstanding := [(''a'', 3)]\<rparr>"
  have "held ?l ''a'' = Some 3" by (simp add: held_def)
  moreover obtain l' where l': "reserve ''t'' ?l ''a'' 1 = Inr l'"
    by (simp add: reserve_def sample_ledger_def outstanding_total_def alist_total_def persist_def)
  moreover have "committed_usd ?l = 3"
    by (simp add: sample_ledger_def committed_usd_def outstanding_total_def alist_total_def persist_def)
  ultimately show ?thesis using reused_id_drops_earlier_hold [of ?l "''a''" 3 "''t''" 1 l'] by auto
qed

end
