(* ===== verification/Proxy_Server.thy ===== *)
theory Proxy_Server
  imports Budget_Ledger
begin

text \<open>
  The request path of \<open>wevibe_bench/adapters/openrouter_proxy_server.py\<close>: authentication,
  policy, reservation, forwarding, the stream relay and the settlement of every reservation, first
  as the handler \<open>handle_post\<close> one request at a time, then as a step relation in which the
  handlers of concurrent requests interleave.  Decoded JSON (\<open>pc_jl\<close>), the length of encoded JSON
  (\<open>pc_js\<close>) and CPython's text of floats and containers (\<open>pc_rp\<close>) are parameters; log lines and
  response headers are not modelled.
\<close>

section \<open>Evidence in an upstream payload\<close>

definition append_unique :: "string list \<Rightarrow> string \<Rightarrow> string list" where
  "append_unique dst value =
     (let item = strip value in if item \<noteq> [] \<and> item \<notin> set dst then dst @ [item] else dst)"

definition append_strs :: "string list \<Rightarrow> pyval \<Rightarrow> string list" where
  "append_strs dst v =
     (case v of PList xs \<Rightarrow> foldl append_unique dst (map str_or_empty (filter is_str xs)) | _ \<Rightarrow> dst)"

definition append_str :: "string list \<Rightarrow> pyval \<Rightarrow> string list" where
  "append_str dst v = (case v of PStr s \<Rightarrow> append_unique dst s | _ \<Rightarrow> dst)"

fun provider_evidence :: "pyval \<Rightarrow> string list \<times> string list" where
  "provider_evidence (PStr s) = (append_unique [] s, [])"
| "provider_evidence (PList xs) = (append_strs [] (PList xs), [])"
| "provider_evidence (PDict d) =
     (let named = foldl (\<lambda>dst k. append_str dst (dget d k)) [] [''slug'', ''name'', ''provider''];
          slugs = foldl (\<lambda>dst k. append_strs dst (dget d k)) named [''only'', ''order'']
      in (slugs, append_strs [] (dget d ''quantizations'')))"
| "provider_evidence _ = ([], [])"

record usage_evidence =
  ue_completion_tokens :: int
  ue_reasoning_tokens :: int
  ue_cost :: "real option"
  ue_prompt_tokens :: int
  ue_cached_tokens :: int
  ue_cache_write_tokens :: int

fun as_float_or_none :: "pyval \<Rightarrow> real option" where
  "as_float_or_none (PInt i) = Some (of_int i)"
| "as_float_or_none (PFloat x) = Some x"
| "as_float_or_none _ = None"

fun usage_of :: "pyval \<Rightarrow> usage_evidence" where
  "usage_of (PDict u) =
     \<lparr>ue_completion_tokens = as_int (dget u ''completion_tokens''),
      ue_reasoning_tokens =
        as_int (dget (dict_or_empty (dget u ''completion_tokens_details'')) ''reasoning_tokens''),
      ue_cost = as_float_or_none (dget u ''cost''),
      ue_prompt_tokens = as_int (dget u ''prompt_tokens''),
      ue_cached_tokens =
        as_int (dget (dict_or_empty (dget u ''prompt_tokens_details'')) ''cached_tokens''),
      ue_cache_write_tokens =
        as_int (dget (dict_or_empty (dget u ''prompt_tokens_details'')) ''cache_write_tokens'')\<rparr>"
| "usage_of _ = \<lparr>ue_completion_tokens = 0, ue_reasoning_tokens = 0, ue_cost = None,
      ue_prompt_tokens = 0, ue_cached_tokens = 0, ue_cache_write_tokens = 0\<rparr>"

definition parse_sse_data_json :: "(string \<Rightarrow> pyval option) \<Rightarrow> string \<Rightarrow> pydict option" where
  "parse_sse_data_json jl line =
     (let text = strip line
      in if \<not> starts_with text ''data:'' then None
         else (let payload = strip (drop 5 text)
               in if payload = [] \<or> payload = ''[DONE]'' then None
                  else (case jl payload of Some (PDict d) \<Rightarrow> Some d | _ \<Rightarrow> None)))"

definition parse_json_object :: "(string \<Rightarrow> pyval option) \<Rightarrow> string \<Rightarrow> pydict" where
  "parse_json_object jl raw =
     (if raw = [] then [] else (case jl raw of Some (PDict d) \<Rightarrow> d | _ \<Rightarrow> []))"

text \<open>\<open>auth_header.strip().split(" ", 1)\<close> must give two parts.\<close>

definition parse_bearer_token :: "string \<Rightarrow> string" where
  "parse_bearer_token auth_header =
     (let (scheme, found, token) = partition_char CHR '' '' (strip auth_header)
      in if \<not> found \<or> lower (strip scheme) \<noteq> ''bearer'' then [] else strip token)"

section \<open>The proxy's state\<close>

record proxy_config =
  pc_registry :: profile_registry
  pc_profile_name :: string
  pc_run_token :: string
  pc_max_tokens_cap :: int
  pc_js :: "pyval \<Rightarrow> nat"
  pc_jl :: "string \<Rightarrow> pyval option"
  pc_rp :: "pyval \<Rightarrow> string"

record proxy_state =
  px_ledger :: ledger
  px_ordinal :: int
  px_proven_billed_ub :: int
  px_identity_mismatch :: "string option"

definition next_ordinal :: "proxy_state \<Rightarrow> int \<times> proxy_state" where
  "next_ordinal px = (px_ordinal px, px\<lparr>px_ordinal := px_ordinal px + 1\<rparr>)"

definition cached_input_ub :: "proxy_state \<Rightarrow> int \<Rightarrow> int" where
  "cached_input_ub px in_tokens_ub = min in_tokens_ub (px_proven_billed_ub px)"

definition record_proven_billed_input_ub :: "proxy_state \<Rightarrow> int \<Rightarrow> proxy_state" where
  "record_proven_billed_input_ub px in_tokens_ub =
     (if px_proven_billed_ub px < in_tokens_ub then px\<lparr>px_proven_billed_ub := in_tokens_ub\<rparr> else px)"

definition check_upstream_identity :: "proxy_state \<Rightarrow> provider_profile \<Rightarrow> string \<Rightarrow> proxy_state" where
  "check_upstream_identity px p model_evidence =
     (let expected = opt_or (expected_upstream_model p) []; observed = strip model_evidence
      in if expected = [] \<or> observed = [] then px
         else if observed = expected then px
         else (case px_identity_mismatch px of
                 None \<Rightarrow> px\<lparr>px_identity_mismatch := Some observed\<rparr>
               | Some _ \<Rightarrow> px))"

section \<open>Settlement\<close>

definition has_authorized_pricing :: "provider_profile \<Rightarrow> bool" where
  "has_authorized_pricing p \<longleftrightarrow> authorized p \<and>
     (case pricing_row p of None \<Rightarrow> False
      | Some pr \<Rightarrow> pr \<noteq> [] \<and> map_of pr ''input'' \<noteq> None \<and> map_of pr ''output'' \<noteq> None
                  \<and> map_of pr ''cache_read'' \<noteq> None)"

definition settle_px :: "string \<Rightarrow> proxy_state \<Rightarrow> string \<Rightarrow> settlement \<Rightarrow> proxy_state" where
  "settle_px now px trace_id c = px\<lparr>px_ledger := settle now (px_ledger px) trace_id c\<rparr>"

text \<open>Which settlement the evidence supports.\<close>

definition settlement_for :: "provider_profile \<Rightarrow> real option \<Rightarrow> usage_evidence \<Rightarrow> settlement" where
  "settlement_for p proven_cost usage =
     (case proven_cost of
        Some x \<Rightarrow> Actual x
      | None \<Rightarrow>
          if has_authorized_pricing p \<and> (0 < ue_prompt_tokens usage \<or> 0 < ue_completion_tokens usage)
          then (case derived_cost_breakdown_usd (ue_prompt_tokens usage) (ue_cached_tokens usage)
                       (ue_completion_tokens usage) (ue_cache_write_tokens usage)
                       (opt_or (pricing_row p) []) of
                  Inr b \<Rightarrow> Derived (total_usd b)
                | Inl _ \<Rightarrow> Retained)
          else Retained)"

fun settle_state_name :: "settlement \<Rightarrow> string" where
  "settle_state_name (Actual _) = ''actual''"
| "settle_state_name (Derived _) = ''derived''"
| "settle_state_name Retained = ''retained_unproven''"

definition finalize_reservation ::
  "string \<Rightarrow> proxy_state \<Rightarrow> bool \<Rightarrow> string \<Rightarrow> real option \<Rightarrow> provider_profile \<Rightarrow> usage_evidence \<Rightarrow> int
     \<Rightarrow> proxy_state \<times> string" where
  "finalize_reservation now px reserved trace_id proven_cost p usage billed_input_ub =
     (if \<not> reserved then (px, ''none'')
      else
        let c = settlement_for p proven_cost usage; px' = settle_px now px trace_id c
        in (case c of Retained \<Rightarrow> px' | _ \<Rightarrow> record_proven_billed_input_ub px' billed_input_ub,
            settle_state_name c))"

section \<open>Admission\<close>

datatype request_body = BadContentLength | BadJson | JsonBody pyval

record proxy_request =
  rq_path :: string
  rq_authorization :: string
  rq_trace_header :: string
  rq_uuid :: string
  rq_body :: request_body

record in_flight =
  fl_trace :: string
  fl_profile :: provider_profile
  fl_body :: pydict
  fl_in_ub :: int
  fl_cached_ub :: int
  fl_reserved_usd :: real
  fl_model :: string

datatype refusal = Refused int string

definition trace_id_of :: "proxy_request \<Rightarrow> string" where
  "trace_id_of rq = (let t = strip (rq_trace_header rq) in if t \<noteq> [] then t else rq_uuid rq)"

fun policy_refusal :: "proxy_error \<Rightarrow> refusal" where
  "policy_refusal (ProtectedFieldError r) = Refused 400 r"
| "policy_refusal ModelMismatchError = Refused 400 (error_reason ModelMismatchError)"
| "policy_refusal UnknownModelError = Refused 400 (error_reason UnknownModelError)"
| "policy_refusal (ProfileBlockedError r) = Refused 403 r"
| "policy_refusal _ = Refused 502 ''upstream_failure''"

text \<open>Steps 5 and 6 of the handler: bound, price and reserve a shaped request.\<close>

definition reserve_request ::
  "proxy_config \<Rightarrow> string \<Rightarrow> proxy_state \<Rightarrow> string \<Rightarrow> provider_profile \<Rightarrow> pydict \<Rightarrow> string
     \<Rightarrow> proxy_state \<times> (refusal + in_flight)" where
  "reserve_request cfg now px trace_id p body model_evidence =
     (case input_token_upper_bound (pc_js cfg) body of
        Inl _ \<Rightarrow> (px, Inl (Refused 502 ''upstream_failure''))
      | Inr in_ub \<Rightarrow>
          let cached = cached_input_ub px in_ub
          in (case worst_case_usd in_ub p (pc_max_tokens_cap cfg) cached of
                Inl _ \<Rightarrow> (px, Inl (Refused 502 ''upstream_failure''))
              | Inr usd \<Rightarrow>
                  (case reserve now (px_ledger px) trace_id usd of
                     Inl e \<Rightarrow> (px, Inl (Refused 402 (error_reason e)))
                   | Inr l \<Rightarrow> (px\<lparr>px_ledger := l\<rparr>,
                        Inr \<lparr>fl_trace = trace_id, fl_profile = p, fl_body = body, fl_in_ub = in_ub,
                             fl_cached_ub = cached, fl_reserved_usd = usd,
                             fl_model = model_evidence\<rparr>))))"

text \<open>Steps 1 to 6.\<close>

definition admit :: "proxy_config \<Rightarrow> string \<Rightarrow> proxy_state \<Rightarrow> proxy_request \<Rightarrow> proxy_state \<times> (refusal + in_flight)"
where
  "admit cfg now px rq =
     (if rq_path rq \<noteq> ''/api/v1/chat/completions'' then (px, Inl (Refused 404 ''not_found''))
      else
        let token = parse_bearer_token (rq_authorization rq)
        in if token = [] \<or> token \<noteq> pc_run_token cfg then (px, Inl (Refused 401 ''invalid_api_key''))
        else (case rq_body rq of
            JsonBody (PDict client_body) \<Rightarrow>
              let (_, px) = next_ordinal px; trace_id = trace_id_of rq;
                  m0 = (let m = dget_default client_body ''model'' (PStr [])
                        in if truthy m then py_str (pc_rp cfg) m else [])
              in (case registry_get (pc_registry cfg) (pc_profile_name cfg) of
                    Inl _ \<Rightarrow> (px, Inl (Refused 502 ''upstream_failure''))
                  | Inr p \<Rightarrow>
                      if px_identity_mismatch px \<noteq> None then (px, Inl (Refused 503 ''identity_mismatch''))
                      else (case runnable_reason p of
                          Some blocked \<Rightarrow> (px, Inl (Refused 403 blocked))
                        | None \<Rightarrow>
                            (case apply_policy client_body p (pc_max_tokens_cap cfg) of
                               Inl e \<Rightarrow> (px, Inl (policy_refusal e))
                             | Inr body \<Rightarrow>
                                 let m = dget_default body ''model'' (PStr m0)
                                 in reserve_request cfg now px trace_id p body
                                      (if truthy m then py_str (pc_rp cfg) m else m0))))
          | _ \<Rightarrow> (px, Inl (Refused 400 ''bad_json''))))"

section \<open>The upstream's answer\<close>

text \<open>\<open>ur_lines\<close> are the lines the stream yields before it ends or its iterator raises.\<close>

record upstream_response =
  ur_status :: int
  ur_body :: "string option"
  ur_lines :: "string list option"

record relay_state =
  rl_model :: string
  rl_slugs :: "string list"
  rl_quants :: "string list"
  rl_out_tokens :: int
  rl_reasoning_tokens :: int
  rl_prompt_tokens :: int
  rl_cached_tokens :: int
  rl_proven_cost :: "real option"
  rl_relayed :: nat
  rl_connected :: bool
  rl_written :: "string list"

definition relay_start :: "in_flight \<Rightarrow> bool \<Rightarrow> relay_state" where
  "relay_start fl headers_ok =
     \<lparr>rl_model = fl_model fl, rl_slugs = fst (provider_evidence (dget (fl_body fl) ''provider'')),
      rl_quants = snd (provider_evidence (dget (fl_body fl) ''provider'')), rl_out_tokens = 0,
      rl_reasoning_tokens = 0, rl_prompt_tokens = 0, rl_cached_tokens = 0, rl_proven_cost = None,
      rl_relayed = 0, rl_connected = headers_ok, rl_written = []\<rparr>"

definition keep_nonzero :: "int \<Rightarrow> int \<Rightarrow> int" where
  "keep_nonzero new old = (if new \<noteq> 0 then new else old)"

definition relay_usage :: "usage_evidence \<Rightarrow> relay_state \<Rightarrow> relay_state" where
  "relay_usage ev rl =
     rl\<lparr>rl_out_tokens := keep_nonzero (ue_completion_tokens ev) (rl_out_tokens rl),
        rl_reasoning_tokens := keep_nonzero (ue_reasoning_tokens ev) (rl_reasoning_tokens rl),
        rl_prompt_tokens := keep_nonzero (ue_prompt_tokens ev) (rl_prompt_tokens rl),
        rl_cached_tokens := keep_nonzero (ue_cached_tokens ev) (rl_cached_tokens rl),
        rl_proven_cost := (case ue_cost ev of None \<Rightarrow> rl_proven_cost rl | Some x \<Rightarrow> Some x)\<rparr>"

definition note_payload ::
  "provider_profile \<Rightarrow> pydict \<Rightarrow> proxy_state \<times> relay_state \<Rightarrow> proxy_state \<times> relay_state" where
  "note_payload p payload s =
     (let (px, rl) = s;
          (px, rl) = (case dget payload ''model'' of
                        PStr m \<Rightarrow> (check_upstream_identity px p m, rl\<lparr>rl_model := m\<rparr>)
                      | _ \<Rightarrow> (px, rl));
          rl = (if dget payload ''provider'' = PNone then rl
                else rl\<lparr>rl_slugs := fst (provider_evidence (dget payload ''provider'')),
                        rl_quants := snd (provider_evidence (dget payload ''provider''))\<rparr>)
      in (px, relay_usage (usage_of (dget payload ''usage'')) rl))"

text \<open>One turn of the relay loop; \<open>write_ok\<close> says whether the write to the client would succeed.\<close>

definition relay_line ::
  "proxy_config \<Rightarrow> provider_profile \<Rightarrow> string \<times> bool \<Rightarrow> proxy_state \<times> relay_state \<Rightarrow> proxy_state \<times> relay_state"
where
  "relay_line cfg p lw s =
     (let (line, write_ok) = lw; (px, rl) = s;
          rl = rl\<lparr>rl_relayed := rl_relayed rl + 1\<rparr>;
          (px, rl) = (case parse_sse_data_json (pc_jl cfg) line of
                        None \<Rightarrow> (px, rl) | Some payload \<Rightarrow> note_payload p payload (px, rl))
      in (px, if rl_connected rl
              then (if write_ok then rl\<lparr>rl_written := rl_written rl @ [line]\<rparr>
                    else rl\<lparr>rl_connected := False\<rparr>)
              else rl))"

definition stream_usage :: "relay_state \<Rightarrow> usage_evidence" where
  "stream_usage rl =
     \<lparr>ue_completion_tokens = rl_out_tokens rl, ue_reasoning_tokens = rl_reasoning_tokens rl,
      ue_cost = rl_proven_cost rl, ue_prompt_tokens = rl_prompt_tokens rl,
      ue_cached_tokens = rl_cached_tokens rl, ue_cache_write_tokens = 0\<rparr>"

definition finish_stream :: "string \<Rightarrow> proxy_state \<Rightarrow> in_flight \<Rightarrow> relay_state \<Rightarrow> proxy_state \<times> string" where
  "finish_stream now px fl rl =
     finalize_reservation now px True (fl_trace fl) (rl_proven_cost rl) (fl_profile fl)
       (stream_usage rl) (fl_in_ub fl)"

definition note_reply :: "proxy_config \<Rightarrow> proxy_state \<Rightarrow> in_flight \<Rightarrow> pydict \<Rightarrow> proxy_state" where
  "note_reply cfg px fl payload =
     (case dget payload ''model'' of
        PStr m \<Rightarrow> check_upstream_identity px (fl_profile fl) m | _ \<Rightarrow> px)"

definition finish_reply ::
  "proxy_config \<Rightarrow> string \<Rightarrow> proxy_state \<Rightarrow> in_flight \<Rightarrow> string \<Rightarrow> proxy_state \<times> string" where
  "finish_reply cfg now px fl response_body =
     (let payload = parse_json_object (pc_jl cfg) response_body; ev = usage_of (dget payload ''usage'')
      in finalize_reservation now (note_reply cfg px fl payload) True (fl_trace fl) (ue_cost ev)
           (fl_profile fl) ev (fl_in_ub fl))"

definition stream_flag :: "in_flight \<Rightarrow> bool" where
  "stream_flag fl = truthy (dget (fl_body fl) ''stream'')"

definition response_lines :: "upstream_response \<Rightarrow> string list" where
  "response_lines r = (case ur_lines r of Some ls \<Rightarrow> ls
     | None \<Rightarrow> (case ur_body r of None \<Rightarrow> [] | Some b \<Rightarrow> [b]))"

record outcome =
  oc_status :: int
  oc_code :: string
  oc_settle_state :: string
  oc_written :: "string list"

text \<open>
  \<open>_handle_post\<close> on one request: \<open>reply\<close> is what the transport returns for the forwarded body
  (\<open>None\<close> when it raises) and \<open>client_ok\<close> says which writes to the client succeed, the headers
  being write 0.
\<close>

definition handle_post ::
  "proxy_config \<Rightarrow> string \<Rightarrow> (pydict \<Rightarrow> upstream_response option) \<Rightarrow> (nat \<Rightarrow> bool) \<Rightarrow> proxy_state
     \<Rightarrow> proxy_request \<Rightarrow> proxy_state \<times> outcome" where
  "handle_post cfg now reply client_ok px rq =
     (case admit cfg now px rq of
        (px, Inl (Refused st code)) \<Rightarrow>
          (px, \<lparr>oc_status = st, oc_code = code, oc_settle_state = ''none'', oc_written = []\<rparr>)
      | (px, Inr fl) \<Rightarrow>
          (case reply (fl_body fl) of
             None \<Rightarrow> (settle_px now px (fl_trace fl) Retained,
                \<lparr>oc_status = 502, oc_code = ''upstream_failure'',
                 oc_settle_state = ''retained_unproven'', oc_written = []\<rparr>)
           | Some r \<Rightarrow>
               if stream_flag fl then
                 let lines = response_lines r;
                     (px, rl) = fold (relay_line cfg (fl_profile fl))
                                  (zip lines (map (\<lambda>i. client_ok (Suc i)) [0..<length lines]))
                                  (px, relay_start fl (client_ok 0));
                     (px, st) = finish_stream now px fl rl
                 in (px, \<lparr>oc_status = ur_status r, oc_code = [], oc_settle_state = st,
                          oc_written = rl_written rl\<rparr>)
               else
                 let body = opt_or (ur_body r) [];
                     (px, st) = finish_reply cfg now px fl body
                 in (px, \<lparr>oc_status = (if client_ok 0 then ur_status r else 502),
                          oc_code = (if client_ok 0 then [] else ''upstream_failure''),
                          oc_settle_state = st,
                          oc_written = (if client_ok 0 \<and> body \<noteq> [] then [body] else [])\<rparr>)))"

section \<open>Frames\<close>

lemma check_identity_frame [simp]:
  "px_ledger (check_upstream_identity px p m) = px_ledger px"
  "px_proven_billed_ub (check_upstream_identity px p m) = px_proven_billed_ub px"
  "px_ordinal (check_upstream_identity px p m) = px_ordinal px"
  by (simp_all add: check_upstream_identity_def Let_def split: option.splits)

lemma check_identity_tripped:
  "px_identity_mismatch px = Some x \<Longrightarrow> check_upstream_identity px p m = px"
  by (simp add: check_upstream_identity_def Let_def)

lemma record_ub_frame [simp]:
  "px_ledger (record_proven_billed_input_ub px n) = px_ledger px"
  "px_identity_mismatch (record_proven_billed_input_ub px n) = px_identity_mismatch px"
  by (simp_all add: record_proven_billed_input_ub_def)

lemma settle_px_frame [simp]:
  "px_ledger (settle_px now px k c) = settle now (px_ledger px) k c"
  "px_identity_mismatch (settle_px now px k c) = px_identity_mismatch px"
  by (simp_all add: settle_px_def)

lemma note_reply_frame [simp]: "px_ledger (note_reply cfg px fl d) = px_ledger px"
  by (simp add: note_reply_def split: pyval.splits)

lemma finalize_frame:
  assumes "finalize_reservation now px True k cost p u n = (px', st)"
  shows "px_ledger px' = settle now (px_ledger px) k (settlement_for p cost u)"
    and "st = settle_state_name (settlement_for p cost u)"
    and "px_identity_mismatch px' = px_identity_mismatch px"
  using assms by (auto simp: finalize_reservation_def Let_def split: settlement.splits)

lemma note_payload_frame:
  assumes "note_payload p d (px, rl) = (px', rl')"
  shows "px_ledger px' = px_ledger px" and "px_proven_billed_ub px' = px_proven_billed_ub px"
    and "px_identity_mismatch px = Some x \<Longrightarrow> px_identity_mismatch px' = Some x"
    and "rl_written rl' = rl_written rl" and "rl_connected rl' = rl_connected rl"
  using assms
  by (auto simp: note_payload_def Let_def relay_usage_def check_identity_tripped split: pyval.splits if_splits)

lemma relay_line_frame:
  assumes "relay_line cfg p lw (px, rl) = (px', rl')"
  shows "px_ledger px' = px_ledger px" and "px_proven_billed_ub px' = px_proven_billed_ub px"
    and "px_identity_mismatch px = Some x \<Longrightarrow> px_identity_mismatch px' = Some x"
  using assms
  by (auto simp: relay_line_def Let_def split: prod.splits option.splits if_splits dest: note_payload_frame)

lemma relay_fold_frame:
  assumes "fold (relay_line cfg p) lws (px, rl) = (px', rl')"
  shows "px_ledger px' = px_ledger px"
  using assms
proof (induction lws arbitrary: px rl)
  case Nil
  then show ?case by simp
next
  case (Cons lw lws)
  obtain px1 rl1 where "relay_line cfg p lw (px, rl) = (px1, rl1)" by fastforce
  with Cons show ?case by (auto dest: relay_line_frame(1))
qed

lemma reserve_request_Inl:
  "reserve_request cfg now px t p b m = (px', Inl r) \<Longrightarrow> px' = px"
  by (auto simp: reserve_request_def Let_def split: sum.splits)

lemma reserve_request_Inr:
  assumes "reserve_request cfg now px t p b m = (px', Inr fl)"
  shows "reserve now (px_ledger px) t (fl_reserved_usd fl) = Inr (px_ledger px')"
    and "px_identity_mismatch px' = px_identity_mismatch px"
    and "fl_trace fl = t" and "fl_profile fl = p" and "fl_body fl = b"
    and "worst_case_usd (fl_in_ub fl) p (pc_max_tokens_cap cfg) (fl_cached_ub fl) = Inr (fl_reserved_usd fl)"
  using assms by (auto simp: reserve_request_def Let_def split: sum.splits)

lemma admit_Inl:
  assumes "admit cfg now px rq = (px', Inl r)"
  shows "px_ledger px' = px_ledger px" and "px_identity_mismatch px' = px_identity_mismatch px"
    and "px_proven_billed_ub px' = px_proven_billed_ub px"
  using assms
  by (auto simp: admit_def Let_def next_ordinal_def split: if_splits request_body.splits pyval.splits
      sum.splits option.splits dest!: reserve_request_Inl)

lemma admit_Inr_request:
  assumes "admit cfg now px rq = (px', Inr fl)"
  shows "\<exists>d p b m. rq_body rq = JsonBody (PDict d) \<and> px_identity_mismatch px = None \<and>
     parse_bearer_token (rq_authorization rq) = pc_run_token cfg \<and>
     registry_get (pc_registry cfg) (pc_profile_name cfg) = Inr p \<and> runnable_reason p = None \<and>
     apply_policy d p (pc_max_tokens_cap cfg) = Inr b \<and>
     reserve_request cfg now (px\<lparr>px_ordinal := px_ordinal px + 1\<rparr>) (trace_id_of rq) p b m = (px', Inr fl)"
  using assms
  by (simp add: admit_def Let_def next_ordinal_def split: if_split_asm request_body.split_asm
      pyval.split_asm sum.split_asm option.split_asm) blast+

lemma admit_Inr:
  assumes "admit cfg now px rq = (px', Inr fl)"
  shows "reserve now (px_ledger px) (fl_trace fl) (fl_reserved_usd fl) = Inr (px_ledger px')"
    and "px_identity_mismatch px = None" and "px_identity_mismatch px' = None"
    and "fl_trace fl = trace_id_of rq"
    and "parse_bearer_token (rq_authorization rq) = pc_run_token cfg"
    and "registry_get (pc_registry cfg) (pc_profile_name cfg) = Inr (fl_profile fl)"
    and "runnable_reason (fl_profile fl) = None"
    and "\<exists>d. rq_body rq = JsonBody (PDict d) \<and>
           apply_policy d (fl_profile fl) (pc_max_tokens_cap cfg) = Inr (fl_body fl)"
    and "worst_case_usd (fl_in_ub fl) (fl_profile fl) (pc_max_tokens_cap cfg) (fl_cached_ub fl)
           = Inr (fl_reserved_usd fl)"
proof -
  from admit_Inr_request [OF assms] obtain d p b m where
    *: "rq_body rq = JsonBody (PDict d)" "px_identity_mismatch px = None"
      "parse_bearer_token (rq_authorization rq) = pc_run_token cfg"
      "registry_get (pc_registry cfg) (pc_profile_name cfg) = Inr p" "runnable_reason p = None"
      "apply_policy d p (pc_max_tokens_cap cfg) = Inr b"
    and r: "reserve_request cfg now (px\<lparr>px_ordinal := px_ordinal px + 1\<rparr>) (trace_id_of rq) p b m
              = (px', Inr fl)"
    by blast
  note rr = reserve_request_Inr [OF r]
  from rr(1,3) show "reserve now (px_ledger px) (fl_trace fl) (fl_reserved_usd fl) = Inr (px_ledger px')"
    by simp
  from * rr show "px_identity_mismatch px = None" and "px_identity_mismatch px' = None"
    and "fl_trace fl = trace_id_of rq"
    and "parse_bearer_token (rq_authorization rq) = pc_run_token cfg"
    and "registry_get (pc_registry cfg) (pc_profile_name cfg) = Inr (fl_profile fl)"
    and "runnable_reason (fl_profile fl) = None"
    and "\<exists>d. rq_body rq = JsonBody (PDict d) \<and>
           apply_policy d (fl_profile fl) (pc_max_tokens_cap cfg) = Inr (fl_body fl)"
    and "worst_case_usd (fl_in_ub fl) (fl_profile fl) (pc_max_tokens_cap cfg) (fl_cached_ub fl)
           = Inr (fl_reserved_usd fl)"
    by simp_all
qed

text \<open>A proxy over one authorised profile, and a request it admits.\<close>

definition sample_cfg :: proxy_config where
  "sample_cfg = \<lparr>pc_registry = [(''opus'', sample_profile)], pc_profile_name = ''opus'',
     pc_run_token = ''tok'', pc_max_tokens_cap = 4096, pc_js = (\<lambda>_. 10),
     pc_jl = (\<lambda>s. if s = ''m'' then Some (PDict [(''model'', PStr ''other'')]) else None),
     pc_rp = (\<lambda>_. [])\<rparr>"

definition sample_px :: proxy_state where
  "sample_px = \<lparr>px_ledger = sample_ledger, px_ordinal = 1, px_proven_billed_ub = 0,
     px_identity_mismatch = None\<rparr>"

definition sample_rq :: proxy_request where
  "sample_rq = \<lparr>rq_path = ''/api/v1/chat/completions'', rq_authorization = ''Bearer tok'',
     rq_trace_header = [], rq_uuid = ''u1'', rq_body = JsonBody (PDict sample_body)\<rparr>"

definition sample_flight :: in_flight where
  "sample_flight = \<lparr>fl_trace = ''u1'', fl_profile = sample_profile,
     fl_body = AList.update ''max_tokens'' (PInt 4096) sample_body
         @ [(''provider'', PDict [(''order'', PList [PStr ''anthropic''])])],
     fl_in_ub = 36, fl_cached_ub = 0, fl_reserved_usd = 216043048 / 1000000000,
     fl_model = ''openrouter/anthropic/claude-opus-4.8''\<rparr>"

lemma sample_bearer: "parse_bearer_token ''Bearer tok'' = ''tok''"
  by code_simp

lemma sample_reserve_request:
  "reserve_request sample_cfg ''t'' (sample_px\<lparr>px_ordinal := 2\<rparr>) ''u1'' sample_profile
       (fl_body sample_flight) (fl_model sample_flight) =
     (sample_px\<lparr>px_ordinal := 2, px_ledger := persist ''t''
        (sample_ledger\<lparr>lg_outstanding := [(''u1'', 216043048 / 1000000000)]\<rparr>)\<rparr>, Inr sample_flight)"
  by (simp add: reserve_request_def sample_cfg_def sample_px_def sample_flight_def
      input_token_upper_bound_def sample_body_def PER_MESSAGE_OVERHEAD_TOKENS_def cached_input_ub_def
      worst_case_usd_def sample_profile_def base_profile_def price_item_def FEE_RATE_def
      RESERVATION_SAFETY_FACTOR_def FLAT_FEE_USD_def reserve_def outstanding_total_def
      alist_total_def sample_ledger_def persist_def Let_def)

lemma sample_admit:
  "admit sample_cfg ''t'' sample_px sample_rq =
     (sample_px\<lparr>px_ordinal := 2, px_ledger := persist ''t''
        (sample_ledger\<lparr>lg_outstanding := [(''u1'', 216043048 / 1000000000)]\<rparr>)\<rparr>, Inr sample_flight)"
proof -
  have pol: "apply_policy sample_body sample_profile 4096 = Inr (fl_body sample_flight)"
    unfolding sample_apply_policy by (simp add: sample_flight_def sample_body_def)
  have m: "dget_default sample_body ''model'' (PStr []) = PStr (fl_model sample_flight)"
    "dget_default (fl_body sample_flight) ''model'' v = PStr (fl_model sample_flight)" for v
    by (simp_all add: sample_body_def sample_flight_def)
  have nz: "fl_model sample_flight \<noteq> []" by (simp add: sample_flight_def)
  have cfg: "pc_run_token sample_cfg = ''tok''" "pc_max_tokens_cap sample_cfg = 4096"
    "registry_get (pc_registry sample_cfg) (pc_profile_name sample_cfg) = Inr sample_profile"
    "runnable_reason sample_profile = None" "trace_id_of sample_rq = ''u1''"
    "px_identity_mismatch (sample_px\<lparr>px_ordinal := 2\<rparr>) = None" "px_ordinal sample_px = 1"
    by (simp_all add: sample_cfg_def registry_get_def sample_profile_def base_profile_def
        runnable_reason_def trace_id_of_def sample_rq_def Let_def sample_px_def)
  have rq: "rq_path sample_rq = ''/api/v1/chat/completions''" "rq_authorization sample_rq = ''Bearer tok''"
    "rq_body sample_rq = JsonBody (PDict sample_body)" by (simp_all add: sample_rq_def)
  show ?thesis
    by (simp add: admit_def rq sample_bearer cfg next_ordinal_def Let_def pol m nz
        sample_reserve_request)
qed

section \<open>One request at a time\<close>

lemma handle_post_cases:
  assumes "handle_post cfg now reply client_ok px rq = (px2, oc)"
  obtains (refused) px1 st code where "admit cfg now px rq = (px1, Inl (Refused st code))"
      "px2 = px1" "oc_settle_state oc = ''none''" "oc_status oc = st"
  | (settled) px1 fl c where "admit cfg now px rq = (px1, Inr fl)"
      "px_ledger px2 = settle now (px_ledger px1) (fl_trace fl) c"
      "oc_settle_state oc = settle_state_name c"
      "reply (fl_body fl) = None \<Longrightarrow> c = Retained \<and> oc_status oc = 502"
proof (cases "admit cfg now px rq")
  case (Pair px1 r)
  show thesis
  proof (cases r)
    case (Inl rf)
    with Pair assms refused show thesis by (cases rf) (auto simp: handle_post_def)
  next
    case (Inr fl)
    note adm = Pair [unfolded Inr]
    show thesis
    proof (cases "reply (fl_body fl)")
      case None
      with assms adm settled [OF adm, of Retained] show thesis by (auto simp: handle_post_def)
    next
      case (Some u)
      show thesis
      proof (cases "stream_flag fl")
        case True
        let ?lws = "zip (response_lines u) (map (\<lambda>i. client_ok (Suc i)) [0..<length (response_lines u)])"
        obtain px3 rl where f: "fold (relay_line cfg (fl_profile fl)) ?lws (px1, relay_start fl (client_ok 0)) = (px3, rl)"
          by fastforce
        obtain px4 st where e: "finish_stream now px3 fl rl = (px4, st)" by fastforce
        from assms adm Some True f e have "px2 = px4" "oc_settle_state oc = st"
          by (auto simp: handle_post_def Let_def)
        with finalize_frame(1,2) [OF e [unfolded finish_stream_def]] relay_fold_frame [OF f]
        show thesis using settled [OF adm] Some by simp
      next
        case False
        obtain px4 st where e: "finish_reply cfg now px1 fl (opt_or (ur_body u) []) = (px4, st)" by fastforce
        from assms adm Some False e have "px2 = px4" "oc_settle_state oc = st"
          by (auto simp: handle_post_def Let_def)
        with finalize_frame(1,2) [OF e [unfolded finish_reply_def Let_def]]
        show thesis using settled [OF adm] Some by simp
      qed
    qed
  qed
qed

text \<open>C6. Exactly one settlement per reservation: a refused request leaves the ledger as it was; an
  admitted one, whatever the upstream answers (an error, garbage, a broken stream) and whatever
  becomes of the client, ends in precisely one of the three settlements, after which nothing is held
  under its id and every other hold is untouched.\<close>

theorem handle_post_settles_exactly_once:
  assumes "handle_post cfg now reply client_ok px rq = (px2, oc)" and "ledger_ok (px_ledger px)"
  shows "if oc_settle_state oc = ''none'' then px_ledger px2 = px_ledger px
         else (\<exists>usd l c. reserve now (px_ledger px) (trace_id_of rq) usd = Inr l \<and>
                 px_ledger px2 = settle now l (trace_id_of rq) c \<and>
                 oc_settle_state oc = settle_state_name c) \<and>
              ledger_ok (px_ledger px2) \<and>
              (\<forall>j. held (px_ledger px2) j
                     = (if j = trace_id_of rq then None else held (px_ledger px) j))"
  using assms(1)
proof (cases rule: handle_post_cases)
  case (refused px1 st code)
  then show ?thesis by (simp add: admit_Inl(1))
next
  case (settled px1 fl c)
  note a = admit_Inr(1,4) [OF settled(1)]
  have ok: "ledger_ok (px_ledger px1)" using ledger_auth.reserve_ok [OF assms(2) a(1)] .
  have "settle_state_name c \<noteq> ''none''" by (cases c) simp_all
  moreover have "ledger_ok (px_ledger px2)" using ledger_auth.settle_ok [OF ok] settled(2) by simp
  moreover have "\<forall>j. held (px_ledger px2) j
      = (if j = trace_id_of rq then None else held (px_ledger px) j)"
    using ledger_auth.settle_held [OF ok] ledger_auth.reserve_held [OF a(1)] settled(2) a(2) by simp
  ultimately show ?thesis using settled a by auto
qed

theorem handle_post_settles_exactly_once_witness:
  "let (px2, oc) = handle_post sample_cfg ''t'' (\<lambda>_. None) (\<lambda>_. True) sample_px sample_rq
   in held (px_ledger px2) ''u1'' = None \<and> ledger_ok (px_ledger px2)"
proof -
  obtain px2 oc where h: "handle_post sample_cfg ''t'' (\<lambda>_. None) (\<lambda>_. True) sample_px sample_rq = (px2, oc)"
    by fastforce
  have st: "oc_settle_state oc = ''retained_unproven''"
    using h by (auto simp: handle_post_def sample_admit)
  have "trace_id_of sample_rq = ''u1''" by (simp add: trace_id_of_def sample_rq_def)
  moreover have "ledger_ok (px_ledger sample_px)" by (simp add: sample_px_def sample_ledger_ok)
  ultimately show ?thesis
    using handle_post_settles_exactly_once [OF h] st by (simp add: h)
qed

lemma transport_failure_keeps_reservation_parts:
  assumes "admit cfg now px rq = (px1, Inr fl)" and "reply (fl_body fl) = None"
    and "handle_post cfg now reply client_ok px rq = (px2, oc)"
    and "ledger_ok (px_ledger px)" and "held (px_ledger px) (trace_id_of rq) = None"
  shows "oc_status oc = 502" and "oc_settle_state oc = ''retained_unproven''"
    and "committed_usd (px_ledger px2) = committed_usd (px_ledger px) + max 0 (fl_reserved_usd fl)"
proof -
  note a = admit_Inr(1,4) [OF assms(1)]
  from assms(1-3) have px2: "px_ledger px2 = settle now (px_ledger px1) (fl_trace fl) Retained"
    and oc: "oc_status oc = 502" "oc_settle_state oc = ''retained_unproven''"
    by (auto simp: handle_post_def)
  show "oc_status oc = 502" and "oc_settle_state oc = ''retained_unproven''" by (fact oc)+
  show "committed_usd (px_ledger px2) = committed_usd (px_ledger px) + max 0 (fl_reserved_usd fl)"
    using ledger_auth.admit_settle(1) [OF assms(4) _ a(1), where c = Retained] assms(5) a(2)
    by (simp add: px2)
qed


text \<open>Fail closed: when the transport fails after a request was admitted, the client gets 502 and
  the whole reservation stays committed as unproven spend, on top of everything committed before.\<close>

theorem transport_failure_keeps_reservation:
  assumes "admit cfg now px rq = (px1, Inr fl)" and "reply (fl_body fl) = None"
    and "handle_post cfg now reply client_ok px rq = (px2, oc)"
    and "ledger_ok (px_ledger px)" and "held (px_ledger px) (trace_id_of rq) = None"
  shows "(oc_status oc = 502)
     \<and> (oc_settle_state oc = ''retained_unproven'')
     \<and> (committed_usd (px_ledger px2) = committed_usd (px_ledger px) + max 0 (fl_reserved_usd fl))"
  using transport_failure_keeps_reservation_parts [OF assms] by blast

theorem transport_failure_keeps_reservation_witness:
  "committed_usd (px_ledger (fst (handle_post sample_cfg ''t'' (\<lambda>_. None) (\<lambda>_. True) sample_px sample_rq)))
     = 216043048 / 1000000000"
proof -
  obtain px2 oc where h: "handle_post sample_cfg ''t'' (\<lambda>_. None) (\<lambda>_. True) sample_px sample_rq = (px2, oc)"
    by fastforce
  have "ledger_ok (px_ledger sample_px)" "held (px_ledger sample_px) (trace_id_of sample_rq) = None"
    "committed_usd (px_ledger sample_px) = 0"
    by (simp_all add: sample_px_def sample_ledger_ok sample_ledger_def held_def committed_usd_def
        outstanding_total_def alist_total_def)
  with transport_failure_keeps_reservation [OF sample_admit refl h] show ?thesis
    by (simp add: h sample_flight_def)
qed

lemma unauthenticated_request_has_no_effect_parts:
  assumes "parse_bearer_token (rq_authorization rq) \<noteq> pc_run_token cfg"
  shows "fst (handle_post cfg now reply client_ok px rq) = px"
    and "oc_status (snd (handle_post cfg now reply client_ok px rq))
           = (if rq_path rq = ''/api/v1/chat/completions'' then 401 else 404)"
  using assms by (simp_all add: handle_post_def admit_def Let_def)


text \<open>Without the run token nothing happens: a request whose bearer token is not exactly the
  run token is answered 401 (404 off the chat path) and leaves the whole proxy state as it was.\<close>

theorem unauthenticated_request_has_no_effect:
  assumes "parse_bearer_token (rq_authorization rq) \<noteq> pc_run_token cfg"
  shows "(fst (handle_post cfg now reply client_ok px rq) = px)
     \<and> (oc_status (snd (handle_post cfg now reply client_ok px rq))
           = (if rq_path rq = ''/api/v1/chat/completions'' then 401 else 404))"
  using unauthenticated_request_has_no_effect_parts [OF assms] by blast

theorem unauthenticated_request_has_no_effect_witness:
  "fst (handle_post (sample_cfg\<lparr>pc_run_token := ''x''\<rparr>) ''t'' (\<lambda>_. None) (\<lambda>_. True) sample_px sample_rq)
     = sample_px"
proof -
  have "parse_bearer_token (rq_authorization sample_rq) \<noteq> pc_run_token (sample_cfg\<lparr>pc_run_token := ''x''\<rparr>)"
    by (simp add: sample_rq_def sample_bearer)
  from unauthenticated_request_has_no_effect [OF this] show ?thesis by blast
qed

lemma identity_trip_is_absorbing_parts:
  assumes "px_identity_mismatch px = Some m"
  shows "px_identity_mismatch (fst (handle_post cfg now reply client_ok px rq)) = Some m"
    and "px_ledger (fst (handle_post cfg now reply client_ok px rq)) = px_ledger px"
    and "rq_body rq = JsonBody (PDict d) \<Longrightarrow> rq_path rq = ''/api/v1/chat/completions'' \<Longrightarrow>
         parse_bearer_token (rq_authorization rq) = pc_run_token cfg \<Longrightarrow> pc_run_token cfg \<noteq> [] \<Longrightarrow>
         registry_get (pc_registry cfg) (pc_profile_name cfg) = Inr p \<Longrightarrow>
         oc_status (snd (handle_post cfg now reply client_ok px rq)) = 503"
proof -
  obtain px1 r where adm: "admit cfg now px rq = (px1, r)" by fastforce
  from assms admit_Inr(2) [of cfg now px rq px1] adm obtain rf where r: "r = Inl rf"
    by (cases r) auto
  obtain st code where rf: "rf = Refused st code" by (cases rf)
  from adm r rf have "fst (handle_post cfg now reply client_ok px rq) = px1"
    by (simp add: handle_post_def)
  with admit_Inl [OF adm [unfolded r]] assms
  show "px_identity_mismatch (fst (handle_post cfg now reply client_ok px rq)) = Some m"
    and "px_ledger (fst (handle_post cfg now reply client_ok px rq)) = px_ledger px" by auto
  show "rq_body rq = JsonBody (PDict d) \<Longrightarrow> rq_path rq = ''/api/v1/chat/completions'' \<Longrightarrow>
         parse_bearer_token (rq_authorization rq) = pc_run_token cfg \<Longrightarrow> pc_run_token cfg \<noteq> [] \<Longrightarrow>
         registry_get (pc_registry cfg) (pc_profile_name cfg) = Inr p \<Longrightarrow>
         oc_status (snd (handle_post cfg now reply client_ok px rq)) = 503"
    using assms by (simp add: handle_post_def admit_def Let_def next_ordinal_def)
qed


text \<open>The identity switch is one-way: once the upstream has answered with another model than the
  profile pins, every later authenticated well-formed request is refused with 503 and neither the
  ledger nor the recorded mismatch ever changes again.\<close>

theorem identity_trip_is_absorbing:
  assumes "px_identity_mismatch px = Some m"
  shows "(px_identity_mismatch (fst (handle_post cfg now reply client_ok px rq)) = Some m)
     \<and> (px_ledger (fst (handle_post cfg now reply client_ok px rq)) = px_ledger px)
     \<and> (rq_body rq = JsonBody (PDict d) \<longrightarrow>
      rq_path rq = ''/api/v1/chat/completions'' \<longrightarrow>
      parse_bearer_token (rq_authorization rq) = pc_run_token cfg \<longrightarrow>
      pc_run_token cfg \<noteq> [] \<longrightarrow>
      registry_get (pc_registry cfg) (pc_profile_name cfg) = Inr p \<longrightarrow>
      oc_status (snd (handle_post cfg now reply client_ok px rq)) = 503)"
  using identity_trip_is_absorbing_parts [OF assms] by blast

theorem identity_trip_is_absorbing_witness:
  "oc_status (snd (handle_post sample_cfg ''t'' (\<lambda>_. None) (\<lambda>_. True)
     (sample_px\<lparr>px_identity_mismatch := Some ''other''\<rparr>) sample_rq)) = 503"
proof -
  have "px_identity_mismatch (sample_px\<lparr>px_identity_mismatch := Some ''other''\<rparr>) = Some ''other''" by simp
  from identity_trip_is_absorbing [OF this, of sample_cfg "''t''" "\<lambda>_. None" "\<lambda>_. True" sample_rq
      sample_body sample_profile]
  show ?thesis by (simp add: sample_rq_def sample_bearer sample_cfg_def registry_get_def)
qed

end
