(* ===== verification/Pricing_Gate.thy ===== *)
theory Pricing_Gate
  imports Proxy_Policy
begin

text \<open>
  The live-pricing gate of \<open>wevibe_bench/adapters/openrouter_proxy.py\<close>
  (\<open>_derive_orcarouter_row_prices\<close>, \<open>verify_orcarouter_pricing_gate\<close>): the proxy derives spend
  from a published table only after the table's version pin, its neutral ratios, its anchor row
  and the row of the profile's model have been checked.  \<open>rp\<close> is CPython's text of floats and
  containers under \<open>str\<close>.  What the lemmas show: which rows and rates an accepted payload is
  known to hold.
\<close>

section \<open>The gate\<close>

fun number_value :: "pyval \<Rightarrow> real" where
  "number_value (PInt i) = of_int i"
| "number_value (PFloat x) = x"
| "number_value _ = 0"

record row_prices =
  rp_input :: real
  rp_output :: real
  rp_cache_read :: "real option"

definition derive_orcarouter_row_prices :: "pydict \<Rightarrow> real \<Rightarrow> proxy_error + row_prices" where
  "derive_orcarouter_row_prices row ratio =
     (let model_ratio = dget row ''model_ratio''; completion_ratio = dget row ''completion_ratio''
      in if \<not> is_number model_ratio \<or> \<not> is_number completion_ratio
         then Inl (PricingGateError ''row ratios must be numeric'')
         else
           let input_usd = number_value model_ratio * 2 * ratio;
               output_usd = input_usd * number_value completion_ratio;
               cache_ratio = dget row ''cache_ratio''
           in if cache_ratio = PNone
              then Inr \<lparr>rp_input = input_usd, rp_output = output_usd, rp_cache_read = None\<rparr>
              else if \<not> is_number cache_ratio
              then Inl (PricingGateError ''cache_ratio must be numeric'')
              else Inr \<lparr>rp_input = input_usd, rp_output = output_usd,
                        rp_cache_read = Some (input_usd * number_value cache_ratio)\<rparr>)"

text \<open>\<open>v in (None, 1, 1.0)\<close>: \<open>True == 1\<close> in Python.\<close>

fun is_neutral_scalar :: "pyval \<Rightarrow> bool" where
  "is_neutral_scalar PNone = True"
| "is_neutral_scalar (PInt i) = (i = 1)"
| "is_neutral_scalar (PFloat x) = (x = 1)"
| "is_neutral_scalar (PBool b) = b"
| "is_neutral_scalar _ = False"

fun discounts_neutral :: "pyval \<Rightarrow> bool" where
  "discounts_neutral PNone = True"
| "discounts_neutral (PList xs) = (xs = [])"
| "discounts_neutral (PDict d) = (d = [])"
| "discounts_neutral _ = False"

fun group_ratio_neutral :: "pyval \<Rightarrow> bool" where
  "group_ratio_neutral (PInt i) = (i = 1)"
| "group_ratio_neutral (PFloat x) = (x = 1)"
| "group_ratio_neutral (PDict d) = list_all (\<lambda>(k, v). is_number v \<and> number_value v = 1) d"
| "group_ratio_neutral _ = False"

text \<open>The scalar an admitted \<open>effective_group_ratio\<close> stands for.\<close>

fun effective_ratio :: "pyval \<Rightarrow> real" where
  "effective_ratio (PInt i) = of_int i"
| "effective_ratio (PFloat x) = x"
| "effective_ratio (PBool b) = (if b then 1 else 0)"
| "effective_ratio _ = 1"

text \<open>\<open>row.get("model_name") == name\<close> over the dict rows, first match wins.\<close>

fun find_row :: "(pydict \<Rightarrow> bool) \<Rightarrow> pyval list \<Rightarrow> pydict option" where
  "find_row p [] = None"
| "find_row p (PDict d # rows) = (if p d then Some d else find_row p rows)"
| "find_row p (_ # rows) = find_row p rows"

definition within_tolerance :: "real \<Rightarrow> real \<Rightarrow> bool" where
  "within_tolerance x y \<longleftrightarrow> \<bar>x - y\<bar> \<le> PRICING_ANCHOR_ABS_TOL_USD"

definition check_anchor :: "pyval list \<Rightarrow> real \<Rightarrow> proxy_error + unit" where
  "check_anchor rows ratio =
     (case find_row (\<lambda>r. dget r ''model_name'' = PStr ORCAROUTER_ANCHOR_MODEL) rows of
        None \<Rightarrow> Inl (PricingGateError ''missing anchor model'')
      | Some row \<Rightarrow>
          bind_result (derive_orcarouter_row_prices row ratio) (\<lambda>pr.
            if \<not> within_tolerance (rp_input pr) ORCAROUTER_ANCHOR_INPUT_USD_PER_1M
            then Inl (PricingGateError ''anchor input derivation mismatch'')
            else if \<not> within_tolerance (rp_output pr) ORCAROUTER_ANCHOR_OUTPUT_USD_PER_1M
            then Inl (PricingGateError ''anchor output derivation mismatch'')
            else Inr ()))"

definition check_model_row ::
  "(pyval \<Rightarrow> string) \<Rightarrow> pyval list \<Rightarrow> real \<Rightarrow> string \<Rightarrow> pyval \<Rightarrow> proxy_error + unit" where
  "check_model_row rp rows ratio expected_model expected_pricing =
     (let ex = dict_or_empty expected_pricing
      in if expected_model = [] then Inl (PricingGateError ''profile model required'')
         else if \<not> list_all (\<lambda>k. is_number (dget ex k)) [''input'', ''output'', ''cache_read'']
         then Inl (PricingGateError ''expected pricing key missing/invalid'')
         else
           case find_row (\<lambda>r. strip (py_str rp (dget_default r ''model_name'' (PStr []))) = expected_model) rows of
             None \<Rightarrow> Inl (PricingGateError ''missing row for model'')
           | Some row \<Rightarrow>
               bind_result (derive_orcarouter_row_prices row ratio) (\<lambda>pr.
                 case rp_cache_read pr of
                   None \<Rightarrow> Inl (PricingGateError ''missing cache_ratio row'')
                 | Some cr \<Rightarrow>
                     if within_tolerance (rp_input pr) (number_value (dget ex ''input''))
                        \<and> within_tolerance (rp_output pr) (number_value (dget ex ''output''))
                        \<and> within_tolerance cr (number_value (dget ex ''cache_read''))
                     then Inr () else Inl (PricingGateError ''row mismatch'')))"

definition verify_orcarouter_pricing_gate ::
  "(pyval \<Rightarrow> string) \<Rightarrow> pyval \<Rightarrow> string option \<Rightarrow> pyval \<Rightarrow> proxy_error + unit" where
  "verify_orcarouter_pricing_gate rp payload profile_model expected_pricing =
     (case payload of
        PDict d \<Rightarrow>
          (if dget d ''pricing_version'' \<noteq> PStr ORCAROUTER_PRICING_VERSION_PIN
           then Inl (PricingGateError ''pricing_version pin mismatch'')
           else if \<not> discounts_neutral (dget d ''model_discounts'')
           then Inl (PricingGateError ''model_discounts must be neutral'')
           else if \<not> is_neutral_scalar (dget d ''workspace_discount'')
           then Inl (PricingGateError ''workspace_discount must be neutral'')
           else if \<not> is_neutral_scalar (dget d ''effective_group_ratio'')
           then Inl (PricingGateError ''effective_group_ratio must be neutral'')
           else if \<not> group_ratio_neutral (dget_default d ''group_ratio'' (PFloat 1))
           then Inl (PricingGateError ''group_ratio must be neutral'')
           else
             case dget d ''data'' of
               PList rows \<Rightarrow>
                 (let ratio = effective_ratio (dget d ''effective_group_ratio'')
                  in bind_result (check_anchor rows ratio) (\<lambda>_.
                       if expected_pricing = PNone then Inr ()
                       else check_model_row rp rows ratio (strip (opt_or profile_model []))
                              expected_pricing))
             | _ \<Rightarrow> Inl (PricingGateError ''data must be a list''))
      | _ \<Rightarrow> Inl (PricingGateError ''payload must be a JSON object''))"

section \<open>What an accepted payload is known to hold\<close>

lemma neutral_ratio_one: "is_neutral_scalar v \<Longrightarrow> effective_ratio v = 1"
  by (cases v) auto

lemma find_row_Some: "find_row p rows = Some d \<Longrightarrow> PDict d \<in> set rows \<and> p d"
  by (induction p rows rule: find_row.induct) (auto split: if_splits)

lemma check_model_rowD:
  assumes "check_model_row rp rows ratio m ex = Inr ()"
  obtains row pr cr where "PDict row \<in> set rows"
    and "strip (py_str rp (dget_default row ''model_name'' (PStr []))) = m"
    and "derive_orcarouter_row_prices row ratio = Inr pr" and "rp_cache_read pr = Some cr"
    and "within_tolerance (rp_input pr) (number_value (dget (dict_or_empty ex) ''input''))"
    and "within_tolerance (rp_output pr) (number_value (dget (dict_or_empty ex) ''output''))"
    and "within_tolerance cr (number_value (dget (dict_or_empty ex) ''cache_read''))"
  using assms
  by (auto simp: check_model_row_def result_simps Let_def
      split: if_splits option.splits dest!: find_row_Some)

lemma derive_row_prices_cases:
  "derive_orcarouter_row_prices row ratio = Inr pr \<Longrightarrow>
     rp_input pr = number_value (dget row ''model_ratio'') * 2 * ratio
   \<and> rp_output pr = rp_input pr * number_value (dget row ''completion_ratio'')
   \<and> (\<forall>cr. rp_cache_read pr = Some cr \<longrightarrow> cr = rp_input pr * number_value (dget row ''cache_ratio''))"
  by (auto simp: derive_orcarouter_row_prices_def Let_def split: if_splits)

lemma gate_ratio_and_rows:
  assumes "verify_orcarouter_pricing_gate rp (PDict d) m ex = Inr ()"
  obtains rows where "dget d ''data'' = PList rows"
    and "effective_ratio (dget d ''effective_group_ratio'') = 1"
    and "dget d ''pricing_version'' = PStr ORCAROUTER_PRICING_VERSION_PIN"
    and "check_anchor rows 1 = Inr ()"
    and "ex \<noteq> PNone \<Longrightarrow> check_model_row rp rows 1 (strip (opt_or m [])) ex = Inr ()"
proof -
  from assms have "\<exists>rows. dget d ''data'' = PList rows \<and>
      effective_ratio (dget d ''effective_group_ratio'') = 1 \<and>
      dget d ''pricing_version'' = PStr ORCAROUTER_PRICING_VERSION_PIN \<and>
      check_anchor rows 1 = Inr () \<and>
      (ex \<noteq> PNone \<longrightarrow> check_model_row rp rows 1 (strip (opt_or m [])) ex = Inr ())"
    by (auto simp: verify_orcarouter_pricing_gate_def result_simps Let_def neutral_ratio_one
        split: if_splits pyval.splits)
  with that show thesis by blast
qed

text \<open>When the gate accepts a table for a profile's authorised prices, the table holds a row
  for exactly that model whose derived input, output and cache-read rates (ratio times two, with
  no workspace or group discount) are each within the published tolerance of the authorised
  price: spend is never derived from an unverified or discounted row.\<close>

theorem gate_accepts_only_matching_rows:
  assumes "verify_orcarouter_pricing_gate rp (PDict d) m ex = Inr ()" and "ex \<noteq> PNone"
  shows "\<exists>rows row. dget d ''data'' = PList rows \<and> PDict row \<in> set rows \<and>
     strip (py_str rp (dget_default row ''model_name'' (PStr []))) = strip (opt_or m []) \<and>
     (let inp = number_value (dget row ''model_ratio'') * 2;
          ex' = dict_or_empty ex
      in within_tolerance inp (number_value (dget ex' ''input'')) \<and>
         within_tolerance (inp * number_value (dget row ''completion_ratio''))
            (number_value (dget ex' ''output'')) \<and>
         within_tolerance (inp * number_value (dget row ''cache_ratio''))
            (number_value (dget ex' ''cache_read'')))"
proof -
  from assms obtain rows where rows: "dget d ''data'' = PList rows"
    and chk: "check_model_row rp rows 1 (strip (opt_or m [])) ex = Inr ()"
    by (auto elim: gate_ratio_and_rows)
  from chk obtain row pr cr where row: "PDict row \<in> set rows"
    "strip (py_str rp (dget_default row ''model_name'' (PStr []))) = strip (opt_or m [])"
    "derive_orcarouter_row_prices row 1 = Inr pr" "rp_cache_read pr = Some cr"
    and tol: "within_tolerance (rp_input pr) (number_value (dget (dict_or_empty ex) ''input''))"
    "within_tolerance (rp_output pr) (number_value (dget (dict_or_empty ex) ''output''))"
    "within_tolerance cr (number_value (dget (dict_or_empty ex) ''cache_read''))"
    by (rule check_model_rowD)
  from derive_row_prices_cases [OF row(3)] row(4)
  have "rp_input pr = number_value (dget row ''model_ratio'') * 2"
    and "rp_output pr = rp_input pr * number_value (dget row ''completion_ratio'')"
    and "cr = rp_input pr * number_value (dget row ''cache_ratio'')"
    by auto
  with rows row(1,2) tol show ?thesis by (auto simp: Let_def)
qed

text \<open>A payload the gate accepts: the anchor at its published price and the row of one profile.\<close>

definition sample_payload :: pydict where
  "sample_payload =
     [(''pricing_version'', PStr ORCAROUTER_PRICING_VERSION_PIN),
      (''data'', PList
        [PDict [(''model_name'', PStr ''openai/gpt-4o-mini''), (''model_ratio'', PFloat (75 / 1000)),
                (''completion_ratio'', PInt 4)],
         PDict [(''model_name'', PStr ''kimi/kimi-k3''), (''model_ratio'', PFloat (3 / 2)),
                (''completion_ratio'', PInt 5), (''cache_ratio'', PFloat (1 / 10))]])]"

definition sample_expected :: pyval where
  "sample_expected = PDict [(''input'', PInt 3), (''output'', PInt 15), (''cache_read'', PFloat (3 / 10))]"

lemma sample_gate_ok:
  "verify_orcarouter_pricing_gate rp (PDict sample_payload) (Some ''kimi/kimi-k3'') sample_expected = Inr ()"
  by (simp add: verify_orcarouter_pricing_gate_def sample_payload_def sample_expected_def
      check_anchor_def check_model_row_def derive_orcarouter_row_prices_def within_tolerance_def
      ORCAROUTER_PRICING_VERSION_PIN_def ORCAROUTER_ANCHOR_MODEL_def
      ORCAROUTER_ANCHOR_INPUT_USD_PER_1M_def ORCAROUTER_ANCHOR_OUTPUT_USD_PER_1M_def
      PRICING_ANCHOR_ABS_TOL_USD_def strip_def lstrip_def rstrip_def is_space_def char_code_def
      Let_def abs_real_def)

theorem gate_accepts_only_matching_rows_witness:
  "\<exists>rows row. dget sample_payload ''data'' = PList rows \<and> PDict row \<in> set rows \<and>
     strip (py_str (\<lambda>_. []) (dget_default row ''model_name'' (PStr []))) = ''kimi/kimi-k3''"
proof -
  have "strip (opt_or (Some ''kimi/kimi-k3'') []) = ''kimi/kimi-k3''"
    by (simp add: strip_def lstrip_def rstrip_def is_space_def char_code_def Let_def)
  with gate_accepts_only_matching_rows [OF sample_gate_ok [of "\<lambda>_. []"]] show ?thesis
    by (auto simp: sample_expected_def)
qed

end
