(* ===== verification/Proxy_Startup.thy ===== *)
theory Proxy_Startup
  imports Proxy_Server Pricing_Gate
begin

text \<open>
  How the proxy comes up (\<open>main\<close> of \<open>openrouter_proxy_server.py\<close>, \<open>load_upstream_key\<close> and the
  field guard of \<open>ProxyLogger\<close>): argument checks, the provider pin, the upstream credential, the
  key-fingerprint assertion, authorisation with live prices and the pricing gate.  The SHA-256
  fingerprint (\<open>fp\<close>), the credential file, the fetched pricing table, the minted run token and the
  checkpoint found on disk are parameters; argparse's own parsing, the token file and the socket
  are not modelled.
\<close>

section \<open>Credentials and the log guard\<close>

definition UPSTREAM_CHAT_COMPLETIONS_URLS :: "(string \<times> string) list" where
  "UPSTREAM_CHAT_COMPLETIONS_URLS =
    [(''openrouter'', ''https://openrouter.ai/api/v1/chat/completions''),
     (''opencode'', ''https://opencode.ai/zen/v1/chat/completions''),
     (''orcarouter'', ''https://www.orcarouter.ai/v1/chat/completions'')]"

definition load_upstream_key :: "string \<Rightarrow> checkpoint_file \<Rightarrow> proxy_error + string" where
  "load_upstream_key provider_id auth =
     (let provider = strip provider_id
      in if provider = [] then Inl CredentialError
         else (case auth of
             JsonFile (PDict data) \<Rightarrow>
               (case dget data provider of
                  PDict entry \<Rightarrow>
                    (case dget entry ''key'' of
                       PStr k \<Rightarrow> if strip k = [] then Inl CredentialError else Inr (strip k)
                     | _ \<Rightarrow> Inl CredentialError)
                | _ \<Rightarrow> Inl CredentialError)
           | _ \<Rightarrow> Inl CredentialError))"

definition FORBIDDEN_FIELDS :: "string list" where
  "FORBIDDEN_FIELDS = [''messages'', ''body'', ''prompt'', ''response'', ''authorization'',
     ''api_key'', ''key'']"

text \<open>\<open>ProxyLogger.event\<close>: the fields of the line in key order, or \<open>ValueError\<close>.\<close>

definition log_event :: "pydict \<Rightarrow> proxy_error + pydict" where
  "log_event fs =
     (if \<exists>f \<in> set fs. lower (fst f) \<in> set FORBIDDEN_FIELDS then Inl (PyExc PyValueError)
      else Inr (sort_key fst fs))"

definition assert_expected_upstream_key_fp :: "provider_profile \<Rightarrow> string \<Rightarrow> proxy_error + unit" where
  "assert_expected_upstream_key_fp p key_fp =
     (case expected_upstream_key_fp p of
        None \<Rightarrow> Inr ()
      | Some e \<Rightarrow> if strip e = strip key_fp then Inr ()
                  else Inl (PyExc (PyRuntimeError ''UPSTREAM KEY FINGERPRINT MISMATCH'')))"

section \<open>Arguments\<close>

record proxy_args =
  pa_run_id :: string
  pa_model :: string
  pa_profile :: string
  pa_provider_order :: "string option"
  pa_provider_quant :: "string option"
  pa_cap_usd :: real
  pa_target_usd :: "real option"
  pa_max_output_tokens :: int
  pa_authorize :: bool
  pa_pricing_input :: "real option"
  pa_pricing_output :: "real option"
  pa_pricing_cache_read :: "real option"
  pa_pricing_cache_write :: "real option"
  pa_reject_on_equality :: bool
  pa_no_hard_cap :: bool

datatype startup =
    UsageError string
  | StartupRaise proxy_error
  | GateFailed
  | Serving proxy_config ledger string

definition bad_price :: "real option \<Rightarrow> bool" where
  "bad_price v = (case v of None \<Rightarrow> True | Some x \<Rightarrow> x < 0)"

definition check_args :: "proxy_args \<Rightarrow> string option" where
  "check_args a =
     (if pa_cap_usd a \<le> 0 then Some ''--cap-usd''
      else if (case pa_target_usd a of None \<Rightarrow> False | Some t \<Rightarrow> t \<le> 0) then Some ''--target-usd''
      else if pa_max_output_tokens a \<le> 0 then Some ''--max-output-tokens''
      else if pa_authorize a \<and> (bad_price (pa_pricing_input a) \<or> bad_price (pa_pricing_output a)
                \<or> bad_price (pa_pricing_cache_read a))
      then Some ''--authorize''
      else None)"

text \<open>\<open>--provider-order\<close> and \<open>--provider-quant\<close>: the pin of an OpenRouter profile.\<close>

definition pin_profile :: "proxy_args \<Rightarrow> provider_profile \<Rightarrow> string + provider_profile" where
  "pin_profile a p =
     (if upstream p \<noteq> ''openrouter'' then
        (if pa_provider_order a \<noteq> None then Inl ''--provider-order''
         else if pa_provider_quant a \<noteq> None then Inl ''--provider-quant''
         else Inr p)
      else if provider_object p = None then
        (let slug = strip (opt_or (pa_provider_order a) [])
         in if slug = [] then Inl ''--provider-order''
            else
              let obj = [(''order'', PList [PStr slug]), (''only'', PList [PStr slug]),
                         (''allow_fallbacks'', PBool False), (''require_parameters'', PBool True)]
              in (case pa_provider_quant a of
                    None \<Rightarrow> Inr (p\<lparr>provider_object := Some obj\<rparr>)
                  | Some q \<Rightarrow>
                      if strip q = [] then Inl ''--provider-quant''
                      else Inr (p\<lparr>provider_object :=
                             Some (AList.update ''quantizations'' (PList [PStr (strip q)]) obj)\<rparr>)))
      else if pa_provider_order a \<noteq> None then Inl ''--provider-order''
      else if pa_provider_quant a \<noteq> None then Inl ''--provider-quant''
      else Inr p)"

definition authorized_pricing :: "proxy_args \<Rightarrow> pricing" where
  "authorized_pricing a =
     [(''input'', opt_or (pa_pricing_input a) 0), (''output'', opt_or (pa_pricing_output a) 0),
      (''cache_read'', opt_or (pa_pricing_cache_read a) 0)]
     @ (case pa_pricing_cache_write a of None \<Rightarrow> [] | Some w \<Rightarrow> [(''cache_write'', w)])"

definition authorize_profile :: "proxy_args \<Rightarrow> provider_profile \<Rightarrow> provider_profile" where
  "authorize_profile a p =
     (if pa_authorize a then p\<lparr>pricing_row := Some (authorized_pricing a), authorized := True\<rparr> else p)"

definition pricing_value :: "pricing \<Rightarrow> pyval" where
  "pricing_value pr = PDict (map (\<lambda>(k, x). (k, PFloat x)) pr)"

text \<open>The gate runs for authorised orcarouter profiles; \<open>fetched\<close> is what the fetch gave.\<close>

definition gate_passes ::
  "(pyval \<Rightarrow> string) \<Rightarrow> proxy_args \<Rightarrow> provider_profile \<Rightarrow> proxy_error + pydict \<Rightarrow> bool" where
  "gate_passes rp a p fetched \<longleftrightarrow>
     pa_authorize a \<and> upstream p = ''orcarouter'' \<longrightarrow>
     (case fetched of
        Inl _ \<Rightarrow> False
      | Inr payload \<Rightarrow> verify_orcarouter_pricing_gate rp (PDict payload) (Some (model_id p))
                        (pricing_value (opt_or (pricing_row p) [])) = Inr ())"

definition proxy_main ::
  "(pyval \<Rightarrow> string) \<Rightarrow> (pyval \<Rightarrow> nat) \<Rightarrow> (string \<Rightarrow> pyval option) \<Rightarrow> (string \<Rightarrow> string) \<Rightarrow> string
     \<Rightarrow> string \<Rightarrow> checkpoint_file \<Rightarrow> checkpoint_file \<Rightarrow> proxy_error + pydict \<Rightarrow> proxy_args \<Rightarrow> startup" where
  "proxy_main rp js jl fp now run_token auth checkpoint fetched a =
     (case check_args a of Some m \<Rightarrow> UsageError m | None \<Rightarrow>
      (case map_of DEFAULT_PROFILES (pa_profile a) of None \<Rightarrow> UsageError ''--profile'' | Some p0 \<Rightarrow>
       (case pin_profile a p0 of Inl m \<Rightarrow> UsageError m | Inr p1 \<Rightarrow>
        (case map_of UPSTREAM_CHAT_COMPLETIONS_URLS (upstream p1) of None \<Rightarrow> UsageError ''upstream''
         | Some url \<Rightarrow>
         (case load_upstream_key (upstream p1) auth of Inl _ \<Rightarrow> UsageError ''credential'' | Inr key \<Rightarrow>
           let p = authorize_profile a p1
           in (case assert_expected_upstream_key_fp p (fp key) of Inl e \<Rightarrow> StartupRaise e | Inr _ \<Rightarrow>
             if normalize_model_selector (pa_model a) \<noteq> model_id p then UsageError ''--model''
             else (case ledger_new rp now (pa_run_id a) (normalize_model_selector (pa_model a))
                          (pa_profile a) (pa_cap_usd a) checkpoint (pa_target_usd a)
                          (pa_reject_on_equality a) (pa_no_hard_cap a) of
                 Inl e \<Rightarrow> StartupRaise e
               | Inr l \<Rightarrow>
                   if \<not> gate_passes rp a p fetched then GateFailed
                   else Serving
                     \<lparr>pc_registry = AList.update (pa_profile a) p DEFAULT_PROFILES,
                      pc_profile_name = pa_profile a, pc_run_token = run_token,
                      pc_max_tokens_cap = pa_max_output_tokens a, pc_js = js, pc_jl = jl, pc_rp = rp\<rparr>
                     l url)))))))"

section \<open>What a serving proxy is known to hold\<close>

lemma default_profiles_upstream:
  "map_of DEFAULT_PROFILES n = Some p \<Longrightarrow> pf_name p = n \<and> \<not> authorized p \<and> pricing_row p = None"
  by (auto simp: DEFAULT_PROFILES_def base_profile_def split: if_splits)

lemma pin_profile_keeps:
  assumes "pin_profile a p = Inr q"
  shows "upstream q = upstream p" and "model_id q = model_id p" and "authorized q = authorized p"
    and "pricing_row q = pricing_row p" and "expected_upstream_key_fp q = expected_upstream_key_fp p"
    and "upstream p = ''openrouter'' \<Longrightarrow> provider_object q \<noteq> None"
  using assms by (auto simp: pin_profile_def Let_def split: if_splits option.splits)

lemma authorize_profile_sel [simp]:
  "upstream (authorize_profile a p) = upstream p"
  "model_id (authorize_profile a p) = model_id p"
  "provider_object (authorize_profile a p) = provider_object p"
  "expected_upstream_key_fp (authorize_profile a p) = expected_upstream_key_fp p"
  by (simp_all add: authorize_profile_def)

lemma proxy_main_Serving:
  assumes "proxy_main rp js jl fp now tok auth ck fetched a = Serving cfg l url"
  obtains p0 p1 p key where "check_args a = None" and "map_of DEFAULT_PROFILES (pa_profile a) = Some p0"
    and "pin_profile a p0 = Inr p1" and "p = authorize_profile a p1"
    and "load_upstream_key (upstream p) auth = Inr key"
    and "assert_expected_upstream_key_fp p (fp key) = Inr ()"
    and "normalize_model_selector (pa_model a) = model_id p"
    and "ledger_new rp now (pa_run_id a) (model_id p) (pa_profile a) (pa_cap_usd a) ck
           (pa_target_usd a) (pa_reject_on_equality a) (pa_no_hard_cap a) = Inr l"
    and "gate_passes rp a p fetched"
    and "registry_get (pc_registry cfg) (pc_profile_name cfg) = Inr p"
    and "pc_max_tokens_cap cfg = pa_max_output_tokens a"
    and "map_of UPSTREAM_CHAT_COMPLETIONS_URLS (upstream p) = Some url"
proof -
  from assms obtain p0 p1 key where *: "check_args a = None"
      "map_of DEFAULT_PROFILES (pa_profile a) = Some p0" "pin_profile a p0 = Inr p1"
      "load_upstream_key (upstream p1) auth = Inr key"
      "assert_expected_upstream_key_fp (authorize_profile a p1) (fp key) = Inr ()"
      "normalize_model_selector (pa_model a) = model_id p1"
      "ledger_new rp now (pa_run_id a) (model_id p1) (pa_profile a) (pa_cap_usd a) ck
           (pa_target_usd a) (pa_reject_on_equality a) (pa_no_hard_cap a) = Inr l"
      "gate_passes rp a (authorize_profile a p1) fetched"
      "map_of UPSTREAM_CHAT_COMPLETIONS_URLS (upstream p1) = Some url"
    and cfg: "cfg = \<lparr>pc_registry = AList.update (pa_profile a) (authorize_profile a p1) DEFAULT_PROFILES,
                      pc_profile_name = pa_profile a, pc_run_token = tok,
                      pc_max_tokens_cap = pa_max_output_tokens a, pc_js = js, pc_jl = jl, pc_rp = rp\<rparr>"
    unfolding proxy_main_def
    by (simp add: Let_def split: option.split_asm sum.split_asm if_split_asm)
  show thesis
    by (rule that [of p0 p1 "authorize_profile a p1" key])
      (use * in \<open>simp_all add: cfg registry_get_def map_of_AList_update\<close>)
qed


definition sample_args :: proxy_args where
  "sample_args = \<lparr>pa_run_id = ''r'', pa_model = ''openrouter/anthropic/claude-opus-4.8'',
     pa_profile = ''opus'', pa_provider_order = None, pa_provider_quant = None, pa_cap_usd = 5,
     pa_target_usd = None, pa_max_output_tokens = 4096, pa_authorize = True,
     pa_pricing_input = Some 3, pa_pricing_output = Some 15, pa_pricing_cache_read = Some 0,
     pa_pricing_cache_write = None, pa_reject_on_equality = False, pa_no_hard_cap = False\<rparr>"

lemma sample_startup:
  "\<exists>cfg l url. proxy_main rp js jl fp now tok
     (JsonFile (PDict [(''openrouter'', PDict [(''key'', PStr ''sk'')])])) NoFile fetched sample_args
     = Serving cfg l url"
proof -
  have s: "strip ''openrouter'' = ''openrouter''" "strip ''sk'' = ''sk''" by code_simp+
  show ?thesis
    by (simp add: proxy_main_def sample_args_def check_args_def bad_price_def DEFAULT_PROFILES_def
        base_profile_def pin_profile_def UPSTREAM_CHAT_COMPLETIONS_URLS_def load_upstream_key_def s
        authorize_profile_def assert_expected_upstream_key_fp_def normalize_model_selector_def
        ledger_new_def gate_passes_def Let_def)
qed


lemma log_event_rejects_secret_fields_parts:
  "log_event fs = (if list_ex (\<lambda>f. lower (fst f) \<in> set FORBIDDEN_FIELDS) fs
     then Inl (PyExc PyValueError) else Inr (sort_key fst fs))"
  "log_event fs = Inr line \<Longrightarrow> mset line = mset fs \<and> sorted (map fst line) \<and>
     (''api_key'', v) \<notin> set line \<and> (''Authorization'', v) \<notin> set line"
proof -
  show "log_event fs = (if list_ex (\<lambda>f. lower (fst f) \<in> set FORBIDDEN_FIELDS) fs
     then Inl (PyExc PyValueError) else Inr (sort_key fst fs))"
    by (auto simp: log_event_def list_ex_iff)
  have "lower ''api_key'' = ''api_key''" "lower ''Authorization'' = ''authorization''" by code_simp+
  then show "log_event fs = Inr line \<Longrightarrow> mset line = mset fs \<and> sorted (map fst line) \<and>
     (''api_key'', v) \<notin> set line \<and> (''Authorization'', v) \<notin> set line"
    by (force simp: log_event_def FORBIDDEN_FIELDS_def split: if_splits)
qed


text \<open>No secret or content field reaches the log: a line is written only if none of its field
  names is, in any letter case, one of the forbidden ones, and then it carries exactly the given
  fields in key order.\<close>

theorem log_event_rejects_secret_fields:
  "(log_event fs = (if list_ex (\<lambda>f. lower (fst f) \<in> set FORBIDDEN_FIELDS) fs
     then Inl (PyExc PyValueError) else Inr (sort_key fst fs)))
     \<and> (log_event fs = Inr line \<longrightarrow>
      (mset line = mset fs \<and> sorted (map fst line) \<and>
     (''api_key'', v) \<notin> set line \<and> (''Authorization'', v) \<notin> set line))"
  using log_event_rejects_secret_fields_parts by blast

theorem log_event_rejects_secret_fields_witness:
  "(''api_key'', PNone) \<notin> set [(''status'', PInt 200)]"
proof -
  have "lower ''status'' = ''status''" by code_simp
  then have "log_event [(''status'', PInt 200)] = Inr [(''status'', PInt 200)]"
    by (simp add: log_event_def FORBIDDEN_FIELDS_def)
  from log_event_rejects_secret_fields [of "[(''status'', PInt 200)]" "[(''status'', PInt 200)]" PNone] this
  show ?thesis by blast
qed

end
