(* ===== verification/Proxy_Concurrency.thy ===== *)
theory Proxy_Concurrency
  imports Proxy_Server "HOL-Library.Transitive_Closure_Table"
begin

text \<open>
  The proxy as a \<open>ThreadingHTTPServer\<close> runs it: one handler thread per request, interleaved at
  the points where they touch shared state (the ledger under its lock, the identity switch, the
  proven-billed prefix).  A configuration is the shared state and the admitted requests still in
  flight, each with what its relay has collected.  The sequential handler refines the step relation.
\<close>

type_synonym flight = "in_flight \<times> relay_state"
type_synonym proxy_conf = "proxy_state \<times> flight list"

section \<open>The client does not matter\<close>

text \<open>Two relay states that differ only in what the client received.\<close>

definition same_evidence :: "relay_state \<Rightarrow> relay_state \<Rightarrow> bool" where
  "same_evidence r1 r2 \<longleftrightarrow> r1\<lparr>rl_connected := True, rl_written := []\<rparr> = r2\<lparr>rl_connected := True, rl_written := []\<rparr>"

lemma same_evidence_iff:
  "same_evidence r1 r2 \<longleftrightarrow>
     rl_model r1 = rl_model r2 \<and> rl_slugs r1 = rl_slugs r2 \<and> rl_quants r1 = rl_quants r2 \<and>
     rl_out_tokens r1 = rl_out_tokens r2 \<and> rl_reasoning_tokens r1 = rl_reasoning_tokens r2 \<and>
     rl_prompt_tokens r1 = rl_prompt_tokens r2 \<and> rl_cached_tokens r1 = rl_cached_tokens r2 \<and>
     rl_proven_cost r1 = rl_proven_cost r2 \<and> rl_relayed r1 = rl_relayed r2"
  by (cases r1; cases r2) (auto simp: same_evidence_def)

lemma same_evidenceD:
  assumes "same_evidence r1 r2"
  shows "stream_usage r1 = stream_usage r2" and "rl_proven_cost r1 = rl_proven_cost r2"
  using assms by (simp_all add: same_evidence_iff stream_usage_def)

lemma note_payload_split:
  "note_payload p d (px, rl) =
     (case dget d ''model'' of PStr m \<Rightarrow> check_upstream_identity px p m | _ \<Rightarrow> px,
      relay_usage (usage_of (dget d ''usage''))
        (let rl = (case dget d ''model'' of PStr m \<Rightarrow> rl\<lparr>rl_model := m\<rparr> | _ \<Rightarrow> rl)
         in if dget d ''provider'' = PNone then rl
            else rl\<lparr>rl_slugs := fst (provider_evidence (dget d ''provider'')),
                    rl_quants := snd (provider_evidence (dget d ''provider''))\<rparr>))"
  by (simp add: note_payload_def Let_def split: pyval.split)

lemma relay_usage_same: "same_evidence r1 r2 \<Longrightarrow> same_evidence (relay_usage u r1) (relay_usage u r2)"
  by (simp add: same_evidence_iff relay_usage_def split: option.split)

lemma note_payload_same:
  assumes "same_evidence r1 r2"
  shows "fst (note_payload p d (px, r1)) = fst (note_payload p d (px, r2))"
    and "same_evidence (snd (note_payload p d (px, r1))) (snd (note_payload p d (px, r2)))"
proof -
  show "fst (note_payload p d (px, r1)) = fst (note_payload p d (px, r2))"
    by (simp add: note_payload_split)
  show "same_evidence (snd (note_payload p d (px, r1))) (snd (note_payload p d (px, r2)))"
    unfolding note_payload_split snd_conv
    by (rule relay_usage_same) (use assms in \<open>simp add: same_evidence_iff Let_def split: pyval.split\<close>)
qed

definition relay_payload ::
  "proxy_config \<Rightarrow> provider_profile \<Rightarrow> string \<Rightarrow> proxy_state \<times> relay_state \<Rightarrow> proxy_state \<times> relay_state" where
  "relay_payload cfg p l s =
     (case parse_sse_data_json (pc_jl cfg) l of None \<Rightarrow> s | Some d \<Rightarrow> note_payload p d s)"

definition relay_write :: "string \<Rightarrow> bool \<Rightarrow> relay_state \<Rightarrow> relay_state" where
  "relay_write l b rl =
     (if rl_connected rl
      then (if b then rl\<lparr>rl_written := rl_written rl @ [l]\<rparr> else rl\<lparr>rl_connected := False\<rparr>) else rl)"

lemma relay_line_split:
  "relay_line cfg p (l, b) (px, rl) =
     apsnd (relay_write l b) (relay_payload cfg p l (px, rl\<lparr>rl_relayed := Suc (rl_relayed rl)\<rparr>))"
  by (cases "relay_payload cfg p l (px, rl\<lparr>rl_relayed := Suc (rl_relayed rl)\<rparr>)")
    (simp add: relay_line_def relay_payload_def relay_write_def Let_def)

lemma relay_write_same: "same_evidence (relay_write l b q) q"
  by (simp add: relay_write_def same_evidence_iff)

lemma same_evidence_trans: "same_evidence a b \<Longrightarrow> same_evidence b c \<Longrightarrow> same_evidence a c"
  and same_evidence_sym: "same_evidence a b \<Longrightarrow> same_evidence b a"
  by (simp_all add: same_evidence_def)

lemma relay_payload_same:
  assumes "same_evidence r1 r2"
  shows "fst (relay_payload cfg p l (px, r1)) = fst (relay_payload cfg p l (px, r2))"
    and "same_evidence (snd (relay_payload cfg p l (px, r1))) (snd (relay_payload cfg p l (px, r2)))"
  using note_payload_same [OF assms] assms by (simp_all add: relay_payload_def split: option.split)

lemma relay_line_same:
  assumes "same_evidence r1 r2"
  shows "fst (relay_line cfg p (l, b1) (px, r1)) = fst (relay_line cfg p (l, b2) (px, r2))"
    and "same_evidence (snd (relay_line cfg p (l, b1) (px, r1))) (snd (relay_line cfg p (l, b2) (px, r2)))"
proof -
  have "same_evidence (r1\<lparr>rl_relayed := Suc (rl_relayed r1)\<rparr>) (r2\<lparr>rl_relayed := Suc (rl_relayed r2)\<rparr>)"
    using assms by (simp add: same_evidence_iff)
  note * = relay_payload_same [OF this, of cfg p l px]
  then show "fst (relay_line cfg p (l, b1) (px, r1)) = fst (relay_line cfg p (l, b2) (px, r2))"
    by (simp add: relay_line_split)
  from * show "same_evidence (snd (relay_line cfg p (l, b1) (px, r1))) (snd (relay_line cfg p (l, b2) (px, r2)))"
    by (simp add: relay_line_split)
      (blast intro: same_evidence_trans relay_write_same same_evidence_sym)
qed

lemma relay_fold_same:
  assumes "same_evidence r1 r2" and "length b1 = length ls" and "length b2 = length ls"
  shows "fst (fold (relay_line cfg p) (zip ls b1) (px, r1)) = fst (fold (relay_line cfg p) (zip ls b2) (px, r2))
    \<and> same_evidence (snd (fold (relay_line cfg p) (zip ls b1) (px, r1)))
                    (snd (fold (relay_line cfg p) (zip ls b2) (px, r2)))"
  using assms
proof (induction ls arbitrary: b1 b2 px r1 r2)
  case Nil
  then show ?case by simp
next
  case (Cons l ls)
  from Cons.prems obtain x xs y ys where b: "b1 = x # xs" "b2 = y # ys"
    by (metis length_Suc_conv)
  obtain px1 q1 px2 q2 where q: "relay_line cfg p (l, x) (px, r1) = (px1, q1)"
      "relay_line cfg p (l, y) (px, r2) = (px2, q2)" by fastforce
  with relay_line_same [OF Cons.prems(1), of cfg p l x px y] have "px1 = px2" "same_evidence q1 q2" by simp_all
  with Cons.IH [of q1 q2 xs ys px1] Cons.prems q show ?case by (simp add: b)
qed

lemma relay_start_same: "same_evidence (relay_start fl a) (relay_start fl b)"
  by (simp add: relay_start_def same_evidence_def)

lemma settlement_independent_of_client_parts:
  "fst (handle_post cfg now reply ok1 px rq) = fst (handle_post cfg now reply ok2 px rq)"
  "oc_settle_state (snd (handle_post cfg now reply ok1 px rq))
     = oc_settle_state (snd (handle_post cfg now reply ok2 px rq))"
proof -
  have "fst (handle_post cfg now reply ok1 px rq) = fst (handle_post cfg now reply ok2 px rq) \<and>
    oc_settle_state (snd (handle_post cfg now reply ok1 px rq))
     = oc_settle_state (snd (handle_post cfg now reply ok2 px rq))"
  proof (cases "admit cfg now px rq")
    case (Pair px1 r)
    show ?thesis
    proof (cases r)
      case (Inl rf)
      with Pair show ?thesis by (cases rf) (simp add: handle_post_def)
    next
      case (Inr fl)
      show ?thesis
      proof (cases "reply (fl_body fl)")
        case None
        with Pair Inr show ?thesis by (simp add: handle_post_def)
      next
        case (Some u)
        let ?ls = "response_lines u"
        let ?b = "\<lambda>ok :: nat \<Rightarrow> bool. map (\<lambda>i. ok (Suc i)) [0..<length ?ls]"
        let ?F = "\<lambda>ok. fold (relay_line cfg (fl_profile fl)) (zip ?ls (?b ok)) (px1, relay_start fl (ok 0))"
        obtain px2 rl2 px3 rl3 where F: "?F ok1 = (px2, rl2)" "?F ok2 = (px3, rl3)" by fastforce
        with relay_fold_same [OF relay_start_same, of "?b ok1" ?ls "?b ok2" cfg "fl_profile fl" px1 fl "ok1 0" "ok2 0"]
        have "px2 = px3" "same_evidence rl2 rl3" by simp_all
        then have "finish_stream now px2 fl rl2 = finish_stream now px3 fl rl3"
          by (simp add: finish_stream_def same_evidenceD)
        with Pair Inr Some F show ?thesis
          by (simp add: handle_post_def Let_def split: prod.split)
      qed
    qed
  qed
  then show "fst (handle_post cfg now reply ok1 px rq) = fst (handle_post cfg now reply ok2 px rq)"
    and "oc_settle_state (snd (handle_post cfg now reply ok1 px rq))
     = oc_settle_state (snd (handle_post cfg now reply ok2 px rq))" by blast+
qed


text \<open>A client cannot change what is billed by going away: whichever writes to the client fail and
  whenever the connection breaks, the upstream is drained to the end and the proxy reaches the same
  state (ledger, identity switch, proven prefix) with the same settlement.\<close>

theorem settlement_independent_of_client:
  "(fst (handle_post cfg now reply ok1 px rq) = fst (handle_post cfg now reply ok2 px rq))
     \<and> (oc_settle_state (snd (handle_post cfg now reply ok1 px rq))
     = oc_settle_state (snd (handle_post cfg now reply ok2 px rq)))"
  using settlement_independent_of_client_parts by blast

section \<open>Interleaved handlers\<close>

inductive proxy_step :: "proxy_config \<Rightarrow> proxy_conf \<Rightarrow> proxy_conf \<Rightarrow> bool" for cfg where
  refuse: "admit cfg now px rq = (px', Inl r) \<Longrightarrow> proxy_step cfg (px, fs) (px', fs)"
| start: "admit cfg now px rq = (px', Inr fl) \<Longrightarrow>
    proxy_step cfg (px, fs) (px', fs @ [(fl, relay_start fl ok)])"
| relay: "stream_flag fl \<Longrightarrow> relay_line cfg (fl_profile fl) lw (px, rl) = (px', rl') \<Longrightarrow>
    proxy_step cfg (px, as @ (fl, rl) # bs) (px', as @ (fl, rl') # bs)"
| stream_end: "stream_flag fl \<Longrightarrow> finish_stream now px fl rl = (px', st) \<Longrightarrow>
    proxy_step cfg (px, as @ (fl, rl) # bs) (px', as @ bs)"
| reply_end: "\<not> stream_flag fl \<Longrightarrow> finish_reply cfg now px fl body = (px', st) \<Longrightarrow>
    proxy_step cfg (px, as @ (fl, rl) # bs) (px', as @ bs)"
| fail: "px' = settle_px now px (fl_trace fl) Retained \<Longrightarrow>
    proxy_step cfg (px, as @ (fl, rl) # bs) (px', as @ bs)"

inductive_cases proxy_stepE [elim]: "proxy_step cfg c c'"

text \<open>What a step does to the ledger: nothing, one reservation, or one settlement.\<close>

lemma proxy_step_ledger:
  assumes "proxy_step cfg (px, fs) (px', fs')"
  obtains (quiet) "px_ledger px' = px_ledger px" "map (\<lambda>f. fst f) fs' = map (\<lambda>f. fst f) fs"
  | (admitted) now fl rl where "fs' = fs @ [(fl, rl)]"
      "reserve now (px_ledger px) (fl_trace fl) (fl_reserved_usd fl) = Inr (px_ledger px')"
  | (settled) now as fl rl bs c where "fs = as @ (fl, rl) # bs" "fs' = as @ bs"
      "px_ledger px' = settle now (px_ledger px) (fl_trace fl) c"
  using assms
proof cases
  case (refuse now rq r)
  with quiet show thesis by (simp add: admit_Inl(1))
next
  case (start now rq fl ok)
  with admitted show thesis by (blast dest: admit_Inr(1))
next
  case (relay fl lw rl rl' as bs)
  with quiet show thesis by (simp add: relay_line_frame(1))
next
  case (stream_end fl now rl st as bs)
  from settled [OF stream_end(1,2) finalize_frame(1) [OF stream_end(4) [unfolded finish_stream_def]]]
  show thesis .
next
  case (reply_end fl now body st as rl bs)
  from finalize_frame(1) [OF reply_end(4) [unfolded finish_reply_def Let_def]] reply_end(1,2)
  show thesis using settled by (metis note_reply_frame)
next
  case (fail now fl as rl bs)
  from settled [OF fail(1,2), of now Retained] fail(3) show thesis by simp
qed

section \<open>Executions\<close>

text \<open>Executions all of whose steps meet a side condition.\<close>

inductive proxy_path ::
  "proxy_config \<Rightarrow> (proxy_conf \<Rightarrow> proxy_conf \<Rightarrow> bool) \<Rightarrow> proxy_conf \<Rightarrow> proxy_conf \<Rightarrow> bool" for cfg Q where
  path_refl: "proxy_path cfg Q c c"
| path_step: "proxy_path cfg Q a b \<Longrightarrow> proxy_step cfg b c \<Longrightarrow> Q b c \<Longrightarrow> proxy_path cfg Q a c"

abbreviation any_step :: "proxy_conf \<Rightarrow> proxy_conf \<Rightarrow> bool" where
  "any_step \<equiv> \<lambda>_ _. True"

lemma path_trans: "proxy_path cfg Q b c \<Longrightarrow> proxy_path cfg Q a b \<Longrightarrow> proxy_path cfg Q a c"
  by (induction rule: proxy_path.induct) (auto intro: proxy_path.intros)

lemma path_invariant:
  assumes "proxy_path cfg Q a b" and "I a"
    and "\<And>b c. I b \<Longrightarrow> proxy_step cfg b c \<Longrightarrow> Q b c \<Longrightarrow> I c"
  shows "I b"
  using assms by (induction rule: proxy_path.induct) auto

definition traces :: "flight list \<Rightarrow> string list" where
  "traces fs = map (\<lambda>f. fl_trace (fst f)) fs"

lemma traces_simps [simp]:
  "traces [] = []"
  "traces (f # fs) = fl_trace (fst f) # traces fs"
  "traces (as @ bs) = traces as @ traces bs"
  by (simp_all add: traces_def)

lemma traces_cong: "map (\<lambda>f. fst f) fs' = map (\<lambda>f. fst f) fs \<Longrightarrow> traces fs' = traces fs"
  by (metis (no_types, lifting) list.map_comp map_map traces_def comp_def map_eq_conv)

text \<open>Every hold on the ledger belongs to a request in flight, or was there at the start.\<close>

definition holds_owned :: "string set \<Rightarrow> proxy_conf \<Rightarrow> bool" where
  "holds_owned H c \<longleftrightarrow> ledger_ok (px_ledger (fst c)) \<and>
     (\<forall>k. held (px_ledger (fst c)) k \<noteq> None \<longrightarrow> k \<in> H \<union> set (traces (snd c)))"

lemma holds_owned_step:
  assumes "holds_owned H c" and "proxy_step cfg c c'"
  shows "holds_owned H c'"
proof -
  obtain px fs px' fs' where c: "c = (px, fs)" "c' = (px', fs')" by (cases c; cases c') auto
  from assms(1) have ok: "ledger_ok (px_ledger px)"
    and own: "\<And>k. held (px_ledger px) k \<noteq> None \<Longrightarrow> k \<in> H \<union> set (traces fs)"
    by (auto simp: holds_owned_def c)
  from assms(2) [unfolded c] show ?thesis
  proof (cases rule: proxy_step_ledger)
    case quiet
    with ok own traces_cong [OF quiet(2)] show ?thesis by (simp add: holds_owned_def c)
  next
    case (admitted now fl rl)
    with ok own show ?thesis
      by (auto simp: holds_owned_def c ledger_auth.reserve_held [OF admitted(2)]
          intro: ledger_auth.reserve_ok)
  next
    case (settled now as fl rl bs st)
    with own show ?thesis
      by (auto simp: holds_owned_def c ledger_auth.settle_held [OF ok] ledger_auth.settle_ok [OF ok]
          split: if_splits)
  qed
qed

lemma no_reservation_leaks_parts:
  assumes "proxy_path cfg any_step (px, []) (px', fs)"
    and "ledger_ok (px_ledger px)" and "lg_outstanding (px_ledger px) = []"
  shows "set (map fst (lg_outstanding (px_ledger px'))) \<subseteq> set (traces fs)"
    and "fs = [] \<Longrightarrow> outstanding_total (px_ledger px') = 0"
proof -
  have "holds_owned {} (px, [])" using assms(2,3) by (simp add: holds_owned_def held_def)
  with assms(1) have "holds_owned {} (px', fs)"
    by (rule path_invariant) (rule holds_owned_step)
  then show "set (map fst (lg_outstanding (px_ledger px'))) \<subseteq> set (traces fs)"
    by (auto simp: holds_owned_def held_def map_of_eq_None_iff image_iff)
  then show "fs = [] \<Longrightarrow> outstanding_total (px_ledger px') = 0"
    by (simp add: outstanding_total_def)
qed




text \<open>
  Executions in which no client reuses the id of a request in flight.  Then every request in
  flight is backed by its own reservation.
\<close>

definition fresh_ids :: "proxy_conf \<Rightarrow> proxy_conf \<Rightarrow> bool" where
  "fresh_ids c c' \<longleftrightarrow> distinct (traces (snd c'))"

definition flights_backed :: "proxy_conf \<Rightarrow> bool" where
  "flights_backed c \<longleftrightarrow> distinct (traces (snd c)) \<and> ledger_ok (px_ledger (fst c)) \<and>
     (\<forall>(fl, rl) \<in> set (snd c). held (px_ledger (fst c)) (fl_trace fl) = Some (max 0 (fl_reserved_usd fl)))"

lemma in_traces: "(fl, rl) \<in> set fs \<Longrightarrow> fl_trace fl \<in> set (traces fs)"
  by (force simp: traces_def)

lemma flights_backed_step:
  assumes "flights_backed c" and "proxy_step cfg c c'" and "fresh_ids c c'"
  shows "flights_backed c'"
proof -
  obtain px fs px' fs' where c: "c = (px, fs)" "c' = (px', fs')" by (cases c; cases c') auto
  from assms(1) have d: "distinct (traces fs)" and ok: "ledger_ok (px_ledger px)"
    and b: "\<And>fl rl. (fl, rl) \<in> set fs \<Longrightarrow>
      held (px_ledger px) (fl_trace fl) = Some (max 0 (fl_reserved_usd fl))"
    by (auto simp: flights_backed_def c)
  from assms(3) have d': "distinct (traces fs')" by (simp add: fresh_ids_def c)
  from assms(2) [unfolded c] show ?thesis
  proof (cases rule: proxy_step_ledger)
    case quiet
    have "(fl, rl) \<in> set fs' \<Longrightarrow> \<exists>rl'. (fl, rl') \<in> set fs" for fl rl
    proof -
      assume "(fl, rl) \<in> set fs'"
      then have "fl \<in> fst ` set fs'" by force
      with arg_cong [OF quiet(2), of set] have "fl \<in> fst ` set fs" by simp
      then show ?thesis by force
    qed
    with b have "\<And>fl rl. (fl, rl) \<in> set fs' \<Longrightarrow>
        held (px_ledger px) (fl_trace fl) = Some (max 0 (fl_reserved_usd fl))" by blast
    with d' ok quiet(1) show ?thesis by (auto simp: flights_backed_def c)
  next
    case (admitted now fl rl)
    have "(a, r) \<in> set fs \<Longrightarrow> fl_trace a \<noteq> fl_trace fl" for a r
      using in_traces [of a r fs] d' admitted(1) by auto
    with admitted(1) b d' ok ledger_auth.reserve_ok [OF ok admitted(2)] show ?thesis
      by (auto simp: flights_backed_def c ledger_auth.reserve_held [OF admitted(2)])
  next
    case (settled now as fl rl bs st)
    have "(a, r) \<in> set (as @ bs) \<Longrightarrow> fl_trace a \<noteq> fl_trace fl" for a r
      using in_traces [of a r "as @ bs"] d settled(1) by auto
    then have "(a, r) \<in> set fs' \<Longrightarrow> held (px_ledger px') (fl_trace a) = Some (max 0 (fl_reserved_usd a))" for a r
      using b [of a r] settled by (auto simp: ledger_auth.settle_held [OF ok])
    moreover have "ledger_ok (px_ledger px')" using ledger_auth.settle_ok [OF ok] settled(3) by simp
    ultimately show ?thesis using d' by (auto simp: flights_backed_def c)
  qed
qed

definition charged :: "ledger \<Rightarrow> real" where
  "charged l = lg_accrued_actual l + lg_accrued_derived l + lg_committed_unproven l"

text \<open>A step after which no settled request was charged more than it had reserved.\<close>

definition within_reservation :: "proxy_conf \<Rightarrow> proxy_conf \<Rightarrow> bool" where
  "within_reservation c c' \<longleftrightarrow> distinct (traces (snd c')) \<and>
     (\<forall>as fl rl bs. snd c = as @ (fl, rl) # bs \<longrightarrow> snd c' = as @ bs \<longrightarrow>
        charged (px_ledger (fst c')) \<le> charged (px_ledger (fst c)) + max 0 (fl_reserved_usd fl))"

definition under_cap :: "proxy_conf \<Rightarrow> bool" where
  "under_cap c \<longleftrightarrow> flights_backed c \<and> \<not> lg_watch_only (px_ledger (fst c)) \<and>
     committed_usd (px_ledger (fst c)) \<le> lg_hard_cap (px_ledger (fst c))"

lemma charged_settle:
  assumes "ledger_ok l" and "held l k = Some h"
  shows "charged (settle now l k c) = charged l + charge c h"
  using ledger_ok_held_nonneg [OF assms] assms(2)
  by (cases c) (simp_all add: ledger_op_defs charged_def held_def)

lemma under_cap_step:
  assumes "under_cap c" and "proxy_step cfg c c'" and "within_reservation c c'"
  shows "under_cap c'"
proof -
  obtain px fs px' fs' where c: "c = (px, fs)" "c' = (px', fs')" by (cases c; cases c') auto
  have fb: "flights_backed c'"
    using flights_backed_step [of c cfg c'] assms by (auto simp: under_cap_def fresh_ids_def within_reservation_def)
  from assms(1) have ok: "ledger_ok (px_ledger px)" and w: "\<not> lg_watch_only (px_ledger px)"
    and cap: "committed_usd (px_ledger px) \<le> lg_hard_cap (px_ledger px)"
    by (auto simp: under_cap_def flights_backed_def c)
  from assms(2) [unfolded c] show ?thesis
  proof (cases rule: proxy_step_ledger)
    case quiet
    with fb w cap show ?thesis by (simp add: under_cap_def c)
  next
    case (admitted now fl rl)
    note r = admitted(2)
    have "0 \<le> opt_or (held (px_ledger px) (fl_trace fl)) 0"
      using ledger_ok_held_nonneg [OF ok] by (auto simp: opt_or_def split: option.split)
    with ledger_auth.reserve_total [OF r] ledger_auth.reserve_bound [OF w r]
      ledger_auth.reserve_frame [OF r] fb w
    show ?thesis by (simp add: under_cap_def c)
  next
    case (settled now as fl rl bs st)
    have h: "held (px_ledger px) (fl_trace fl) = Some (max 0 (fl_reserved_usd fl))"
      using assms(1) settled(1) by (auto simp: under_cap_def flights_backed_def c)
    from assms(3) settled have "charged (px_ledger px') \<le> charged (px_ledger px) + max 0 (fl_reserved_usd fl)"
      by (auto simp: within_reservation_def c)
    with charged_settle [OF ok h] settled(3) have "charge st (max 0 (fl_reserved_usd fl)) \<le> max 0 (fl_reserved_usd fl)"
      by simp
    with ledger_auth.settle_total [OF ok, of now "fl_trace fl" st] h cap
    have "committed_usd (px_ledger px') \<le> lg_hard_cap (px_ledger px)" by (simp add: settled(3))
    with ledger_auth.settle_frame [of now "px_ledger px" "fl_trace fl" st] fb w settled(3)
    show ?thesis by (simp add: under_cap_def c)
  qed
qed

lemma concurrent_spend_within_cap_parts:
  assumes "proxy_path cfg within_reservation (px, []) (px', fs)"
    and "ledger_ok (px_ledger px)" and "\<not> lg_watch_only (px_ledger px)"
    and "committed_usd (px_ledger px) \<le> lg_hard_cap (px_ledger px)"
  shows "committed_usd (px_ledger px') \<le> lg_hard_cap (px_ledger px')"
    and "(fl, rl) \<in> set fs \<Longrightarrow>
      held (px_ledger px') (fl_trace fl) = Some (max 0 (fl_reserved_usd fl))"
proof -
  have "under_cap (px, [])" using assms by (simp add: under_cap_def flights_backed_def)
  with assms(1) have u: "under_cap (px', fs)" by (rule path_invariant) (rule under_cap_step)
  then show "committed_usd (px_ledger px') \<le> lg_hard_cap (px_ledger px')" by (simp add: under_cap_def)
  from u show "(fl, rl) \<in> set fs \<Longrightarrow>
      held (px_ledger px') (fl_trace fl) = Some (max 0 (fl_reserved_usd fl))"
    by (auto simp: under_cap_def flights_backed_def)
qed




section \<open>The sequential handler is one of the interleavings\<close>

lemma relay_fold_path:
  assumes "stream_flag fl"
  shows "proxy_path cfg any_step (px, fs @ [(fl, rl)])
    (fst (fold (relay_line cfg (fl_profile fl)) lws (px, rl)),
     fs @ [(fl, snd (fold (relay_line cfg (fl_profile fl)) lws (px, rl)))])"
proof (induction lws arbitrary: px rl)
  case Nil
  then show ?case by (simp add: path_refl)
next
  case (Cons lw lws)
  obtain px1 rl1 where r: "relay_line cfg (fl_profile fl) lw (px, rl) = (px1, rl1)" by fastforce
  from path_step [OF path_refl proxy_step.relay [OF assms r, where as = fs and bs = "[]"] TrueI]
  have "proxy_path cfg any_step (px, fs @ [(fl, rl)]) (px1, fs @ [(fl, rl1)])" .
  from path_trans [OF Cons.IH [of px1 rl1] this] show ?case by (simp add: r)
qed

text \<open>C40. Refinement: handling one request from start to finish is an execution of the interleaved
  model that leaves every other request in flight where it was.\<close>

theorem handle_post_refines_steps:
  "proxy_path cfg any_step (px, fs) (fst (handle_post cfg now reply client_ok px rq), fs)"
proof (cases "admit cfg now px rq")
  case (Pair px1 r)
  show ?thesis
  proof (cases r)
    case (Inl rf)
    with Pair proxy_step.refuse [of cfg now px rq px1 rf fs] show ?thesis
      by (cases rf) (auto simp: handle_post_def intro: path_step path_refl)
  next
    case (Inr fl)
    have s: "proxy_path cfg any_step (px, fs) (px1, fs @ [(fl, relay_start fl ok)])" for ok
      using Pair Inr by (blast intro: path_step path_refl proxy_step.start)
    show ?thesis
    proof (cases "reply (fl_body fl)")
      case None
      with Pair Inr proxy_step.fail [OF refl, of cfg px1 fs fl "relay_start fl True" "[]" now]
      show ?thesis by (auto simp: handle_post_def intro: path_step [OF s [of True]])
    next
      case (Some u)
      show ?thesis
      proof (cases "stream_flag fl")
        case True
        let ?F = "fold (relay_line cfg (fl_profile fl))
            (zip (response_lines u) (map (\<lambda>i. client_ok (Suc i)) [0..<length (response_lines u)]))
            (px1, relay_start fl (client_ok 0))"
        obtain px3 rl where F: "?F = (px3, rl)" by fastforce
        obtain px4 st where e: "finish_stream now px3 fl rl = (px4, st)" by fastforce
        have "proxy_path cfg any_step (px, fs) (px3, fs @ [(fl, rl)])"
          using path_trans [OF relay_fold_path [OF True] s] F by (metis fst_conv snd_conv)
        from path_step [OF this proxy_step.stream_end [OF True e, of cfg fs "[]", simplified] TrueI]
        show ?thesis using Pair Inr Some True F e by (simp add: handle_post_def Let_def)
      next
        case False
        obtain px4 st where e: "finish_reply cfg now px1 fl (opt_or (ur_body u) []) = (px4, st)" by fastforce
        from path_step [OF s [of True] proxy_step.reply_end [OF False e, of fs _ "[]", simplified] TrueI]
        show ?thesis using Pair Inr Some False e by (simp add: handle_post_def Let_def)
      qed
    qed
  qed
qed

end
