(* ===== verification/Checkpoint_Codec.thy ===== *)
theory Checkpoint_Codec
  imports Bench_Prelude
begin

text \<open>
  The interface between what the harness keeps in memory and what it writes to disk: an encoder
  into JSON objects, a decoder that may raise, and the values that survive the trip.  The lemmas
  lift a codec to lists (arrays of objects, as in the manifest).  The decoded document is taken
  to be the encoded one; the order of keys, which the sources never observe, is kept.
\<close>

locale checkpoint_codec =
  fixes enc :: "'a \<Rightarrow> pydict"
    and dec :: "pydict \<Rightarrow> py_exc + 'a"
    and wf :: "'a \<Rightarrow> bool"
  assumes dec_enc: "wf x \<Longrightarrow> dec (enc x) = Inr x"
begin

lemma enc_inj: "wf x \<Longrightarrow> wf y \<Longrightarrow> enc x = enc y \<Longrightarrow> x = y"
  by (metis dec_enc sum.inject(2))

lemma dec_enc_list: "list_all wf xs \<Longrightarrow> map_result dec (map enc xs) = Inr xs"
  by (rule map_result_id) (auto simp: list_all_iff dec_enc)

lemma enc_list_inj: "list_all wf xs \<Longrightarrow> list_all wf ys \<Longrightarrow> map enc xs = map enc ys \<Longrightarrow> xs = ys"
  using dec_enc_list by (metis sum.inject(2))

end

section \<open>Coercions shared by the decoders\<close>

definition opt_int :: "pyval \<Rightarrow> py_exc + int option" where
  "opt_int v = (if v = PNone then Inr None else bind_result (py_int v) (\<lambda>i. Inr (Some i)))"

definition opt_float :: "pyval \<Rightarrow> py_exc + real option" where
  "opt_float v = (if v = PNone then Inr None else bind_result (py_float v) (\<lambda>x. Inr (Some x)))"

definition opt_bool :: "pyval \<Rightarrow> bool option" where
  "opt_bool v = (if v = PNone then None else Some (truthy v))"

definition opt_string :: "(pyval \<Rightarrow> string) \<Rightarrow> pyval \<Rightarrow> string option" where
  "opt_string rp v = (if v = PNone then None else Some (py_str rp v))"

text \<open>\<open>_enum_value\<close> of a decoded value: there are no enum members in JSON.\<close>

definition enum_value :: "(pyval \<Rightarrow> string) \<Rightarrow> pyval \<Rightarrow> string" where
  "enum_value rp v = (if v = PNone then [] else py_str rp v)"

definition string_list :: "(pyval \<Rightarrow> string) \<Rightarrow> pyval \<Rightarrow> string list" where
  "string_list rp v = (case v of PList xs \<Rightarrow> map (py_str rp) xs | _ \<Rightarrow> [])"

definition dict_list :: "pyval \<Rightarrow> pydict list" where
  "dict_list v = (case v of PList xs \<Rightarrow> map dict_or_empty (filter is_dict xs) | _ \<Rightarrow> [])"

lemma opt_int_of_opt [simp]: "opt_int (of_opt PInt v) = Inr v"
  by (cases v) (simp_all add: opt_int_def)

lemma opt_float_of_opt [simp]: "opt_float (of_opt PFloat v) = Inr v"
  by (cases v) (simp_all add: opt_float_def)

lemma opt_bool_of_opt [simp]: "opt_bool (of_opt PBool v) = v"
  by (cases v) (simp_all add: opt_bool_def)

lemma opt_string_of_opt [simp]: "opt_string rp (of_opt PStr v) = v"
  by (cases v) (simp_all add: opt_string_def)

lemma enum_value_PStr [simp]: "enum_value rp (PStr s) = s"
  by (simp add: enum_value_def)

lemma string_list_PList [simp]: "string_list rp (PList (map PStr xs)) = xs"
  and string_list_PNone [simp]: "string_list rp PNone = []"
  by (simp_all add: string_list_def comp_def)

lemma dict_list_PList [simp]: "dict_list (PList (map PDict ds)) = ds"
  by (induction ds) (simp_all add: dict_list_def)

end
