(* ===== verification/Cumulative_Types.thy ===== *)
theory Cumulative_Types
  imports Checkpoint_Codec
begin

text \<open>
  The leaf types of \<open>wevibe_bench/cumulative/types.py\<close>: session phases and their order, roster
  entries, scheduled sessions, walk-gate verdicts and session records, with their JSON forms.
  \<open>rp\<close> is CPython's text of floats and containers under \<open>str\<close>.  Fields the decoders copy without
  a coercion are kept as decoded values.
\<close>

section \<open>Phases\<close>

datatype session_phase = PREPARE_FIXTURE | RUN_SESSION | HALTED_ON_GATE | DONE

fun phase_value :: "session_phase \<Rightarrow> string" where
  "phase_value PREPARE_FIXTURE = ''PREPARE_FIXTURE''"
| "phase_value RUN_SESSION = ''RUN_SESSION''"
| "phase_value HALTED_ON_GATE = ''HALTED_ON_GATE''"
| "phase_value DONE = ''DONE''"

text \<open>\<open>SessionPhase(text)\<close>; \<open>None\<close> is \<open>ValueError\<close>.\<close>

definition phase_of_string :: "string \<Rightarrow> session_phase option" where
  "phase_of_string s = find (\<lambda>p. phase_value p = s) [PREPARE_FIXTURE, RUN_SESSION, HALTED_ON_GATE, DONE]"

lemma phase_of_string_value [simp]: "phase_of_string (phase_value p) = Some p"
  by (cases p) (simp_all add: phase_of_string_def)

lemma phase_of_string_Some: "phase_of_string s = Some p \<longleftrightarrow> s = phase_value p"
proof
  assume "phase_of_string s = Some p"
  then show "s = phase_value p" unfolding phase_of_string_def find_Some_iff by blast
qed simp

definition PHASE_ORDER :: "session_phase list" where
  "PHASE_ORDER = [PREPARE_FIXTURE, RUN_SESSION, DONE]"

fun index_of :: "'a \<Rightarrow> 'a list \<Rightarrow> nat option" where
  "index_of x [] = None"
| "index_of x (y # ys) = (if x = y then Some 0 else map_option Suc (index_of x ys))"

definition next_phase :: "session_phase \<Rightarrow> session_phase option" where
  "next_phase p = (case index_of p PHASE_ORDER of
      None \<Rightarrow> None
    | Some i \<Rightarrow> if length PHASE_ORDER \<le> i + 1 then None else Some (PHASE_ORDER ! (i + 1)))"

text \<open>How far a session has come: the order in which a session passes its phases.\<close>

fun phase_rank :: "session_phase \<Rightarrow> nat" where
  "phase_rank PREPARE_FIXTURE = 0"
| "phase_rank RUN_SESSION = 1"
| "phase_rank HALTED_ON_GATE = 2"
| "phase_rank DONE = 3"

lemma phase_rank_inj: "phase_rank p = phase_rank q \<Longrightarrow> p = q"
  by (cases p; cases q) simp_all

instantiation session_phase :: linorder
begin

definition less_eq_session_phase :: "session_phase \<Rightarrow> session_phase \<Rightarrow> bool" where
  "less_eq_session_phase p q \<longleftrightarrow> phase_rank p \<le> phase_rank q"

definition less_session_phase :: "session_phase \<Rightarrow> session_phase \<Rightarrow> bool" where
  "less_session_phase p q \<longleftrightarrow> phase_rank p < phase_rank q"

instance
  by standard (auto simp: less_eq_session_phase_def less_session_phase_def dest: phase_rank_inj)

end

lemma next_phase_increases: "next_phase p = Some q \<Longrightarrow> p < q"
  by (cases p) (auto simp: next_phase_def PHASE_ORDER_def less_session_phase_def)

section \<open>Roster and schedule\<close>

record roster_entry =
  re_model :: string
  re_role :: string
  re_provider_pin :: string
  re_config_identity :: pydict

definition roster_entry_to_dict :: "roster_entry \<Rightarrow> pydict" where
  "roster_entry_to_dict e =
     [(''model'', PStr (re_model e)), (''role'', PStr (re_role e)),
      (''provider_pin'', PStr (re_provider_pin e)), (''config_identity'', PDict (re_config_identity e))]"

definition roster_entry_from_dict :: "(pyval \<Rightarrow> string) \<Rightarrow> pydict \<Rightarrow> py_exc + roster_entry" where
  "roster_entry_from_dict rp d =
     bind_result (dget_item d ''model'') (\<lambda>m.
     bind_result (dget_item d ''role'') (\<lambda>r.
       Inr \<lparr>re_model = py_str rp m, re_role = py_str rp r,
            re_provider_pin = py_str rp (dget_default d ''provider_pin'' (PStr [])),
            re_config_identity = dict_or_empty (dget d ''config_identity'')\<rparr>))"

record scheduled_session =
  sc_sequence_index :: int
  sc_model :: string
  sc_provider_pin :: string
  sc_memory_mode :: string
  sc_phase_group :: string
  sc_roster_index :: int

definition scheduled_to_dict :: "scheduled_session \<Rightarrow> pydict" where
  "scheduled_to_dict s =
     [(''sequence_index'', PInt (sc_sequence_index s)), (''model'', PStr (sc_model s)),
      (''provider_pin'', PStr (sc_provider_pin s)), (''memory_mode'', PStr (sc_memory_mode s)),
      (''phase_group'', PStr (sc_phase_group s)), (''roster_index'', PInt (sc_roster_index s))]"

definition scheduled_from_dict :: "(pyval \<Rightarrow> string) \<Rightarrow> pydict \<Rightarrow> py_exc + scheduled_session" where
  "scheduled_from_dict rp d =
     bind_result (bind_result (dget_item d ''sequence_index'') py_int) (\<lambda>i.
     bind_result (dget_item d ''model'') (\<lambda>m.
     bind_result (dget_item d ''memory_mode'') (\<lambda>mm.
     bind_result (dget_item d ''phase_group'') (\<lambda>pg.
     bind_result (bind_result (dget_item d ''roster_index'') py_int) (\<lambda>ri.
       Inr \<lparr>sc_sequence_index = i, sc_model = py_str rp m,
            sc_provider_pin = py_str rp (dget_default d ''provider_pin'' (PStr [])),
            sc_memory_mode = py_str rp mm, sc_phase_group = enum_value rp pg,
            sc_roster_index = ri\<rparr>)))))"

section \<open>Walk gates\<close>

record walk_gate =
  wg_ordinal :: int
  wg_gate :: string
  wg_verdict :: string
  wg_evidence :: pydict
  wg_stops_walk :: bool
  wg_expected :: "string list"
  wg_observed :: "string list"

text \<open>The constructor with its \<open>__post_init__\<close>.\<close>

definition mk_walk_gate ::
  "int \<Rightarrow> string \<Rightarrow> string \<Rightarrow> pydict \<Rightarrow> bool \<Rightarrow> string list \<Rightarrow> string list \<Rightarrow> walk_gate" where
  "mk_walk_gate ordinal gate verdict evidence stops expected observed =
     \<lparr>wg_ordinal = ordinal, wg_gate = gate, wg_verdict = verdict, wg_evidence = evidence,
      wg_stops_walk = (if verdict = ''fail'' \<and> \<not> stops then True
                       else if verdict = ''not-evaluated'' \<and> stops then False else stops),
      wg_expected = expected, wg_observed = observed\<rparr>"

definition walk_gate_ok :: "walk_gate \<Rightarrow> bool" where
  "walk_gate_ok g \<longleftrightarrow> (wg_verdict g = ''fail'' \<longrightarrow> wg_stops_walk g) \<and>
     (wg_verdict g = ''not-evaluated'' \<longrightarrow> \<not> wg_stops_walk g)"

definition walk_gate_to_dict :: "walk_gate \<Rightarrow> pydict" where
  "walk_gate_to_dict g =
     [(''ordinal'', PInt (wg_ordinal g)), (''gate'', PStr (wg_gate g)),
      (''verdict'', PStr (wg_verdict g)), (''evidence'', PDict (wg_evidence g)),
      (''stops_walk'', PBool (wg_stops_walk g)),
      (''expected_producer_model_ids'', PList (map PStr (wg_expected g))),
      (''observed_producer_model_ids'', PList (map PStr (wg_observed g)))]"

definition walk_gate_from_dict :: "(pyval \<Rightarrow> string) \<Rightarrow> pydict \<Rightarrow> py_exc + walk_gate" where
  "walk_gate_from_dict rp d =
     bind_result (bind_result (dget_item d ''ordinal'') py_int) (\<lambda>i.
     bind_result (dget_item d ''gate'') (\<lambda>g.
     bind_result (dget_item d ''verdict'') (\<lambda>v.
       Inr (mk_walk_gate i (enum_value rp g) (enum_value rp v) (dict_or_empty (dget d ''evidence''))
              (truthy (dget_default d ''stops_walk'' (PBool False)))
              (string_list rp (dget d ''expected_producer_model_ids''))
              (string_list rp (dget d ''observed_producer_model_ids''))))))"

definition walk_gate_not_evaluated :: "int \<Rightarrow> string \<Rightarrow> pydict \<Rightarrow> walk_gate" where
  "walk_gate_not_evaluated ordinal gate evidence =
     mk_walk_gate ordinal gate ''not-evaluated'' evidence False [] []"

text \<open>\<open>{**record.to_dict(), "ordinal": n, "gate": g}\<close> read back.\<close>

definition renumber_gate :: "(pyval \<Rightarrow> string) \<Rightarrow> int \<Rightarrow> string \<Rightarrow> walk_gate option \<Rightarrow> py_exc + walk_gate" where
  "renumber_gate rp n gate w =
     (let d = (case w of None \<Rightarrow> [] | Some g \<Rightarrow> walk_gate_to_dict g);
          v = (case w of None \<Rightarrow> ''not-evaluated'' | Some g \<Rightarrow> wg_verdict g)
      in walk_gate_from_dict rp (AList.update ''verdict'' (PStr v)
           (AList.update ''gate'' (PStr gate) (AList.update ''ordinal'' (PInt n) d))))"

definition records_for_ordered_gates ::
  "(pyval \<Rightarrow> string) \<Rightarrow> walk_gate \<Rightarrow> walk_gate option \<Rightarrow> walk_gate option
     \<Rightarrow> py_exc + walk_gate \<times> walk_gate \<times> walk_gate" where
  "records_for_ordered_gates rp injection work lift =
     bind_result (renumber_gate rp 1 ''injection'' (Some injection)) (\<lambda>g1.
       if wg_verdict g1 \<noteq> ''pass''
       then Inr (g1, walk_gate_not_evaluated 2 ''work'' [], walk_gate_not_evaluated 3 ''lift'' [])
       else bind_result (renumber_gate rp 2 ''work'' work) (\<lambda>g2.
         if wg_verdict g2 \<noteq> ''pass''
         then Inr (g1, g2, walk_gate_not_evaluated 3 ''lift'' [])
         else bind_result (renumber_gate rp 3 ''lift'' lift) (\<lambda>g3. Inr (g1, g2, g3))))"

lemma mk_walk_gate_ok [simp]: "walk_gate_ok (mk_walk_gate i g v e s ex ob)"
  by (simp add: walk_gate_ok_def mk_walk_gate_def)

lemma mk_walk_gate_sel [simp]:
  "wg_ordinal (mk_walk_gate i g v e s ex ob) = i" "wg_gate (mk_walk_gate i g v e s ex ob) = g"
  "wg_verdict (mk_walk_gate i g v e s ex ob) = v" "wg_evidence (mk_walk_gate i g v e s ex ob) = e"
  by (simp_all add: mk_walk_gate_def)

lemma mk_walk_gate_id:
  "walk_gate_ok g \<Longrightarrow> mk_walk_gate (wg_ordinal g) (wg_gate g) (wg_verdict g) (wg_evidence g)
     (wg_stops_walk g) (wg_expected g) (wg_observed g) = g"
  by (cases g) (auto simp: walk_gate_ok_def mk_walk_gate_def)

lemma renumber_gate_eq:
  "renumber_gate rp n gate w = Inr (case w of
      None \<Rightarrow> mk_walk_gate n gate ''not-evaluated'' [] False [] []
    | Some g \<Rightarrow> mk_walk_gate n gate (wg_verdict g) (wg_evidence g) (wg_stops_walk g)
                 (wg_expected g) (wg_observed g))"
  by (cases w) (simp_all add: renumber_gate_def walk_gate_from_dict_def walk_gate_to_dict_def
      Let_def)

text \<open>Gates are evaluated in order: whatever three verdicts are offered, the walk is recorded as
  gates 1 (injection), 2 (work) and 3 (lift); work counts as evaluated only when injection passed
  and lift only when both passed; a failing gate stops the walk and an unevaluated one never does.\<close>

theorem ordered_gates_short_circuit:
  "\<exists>g1 g2 g3. records_for_ordered_gates rp injection work lift = Inr (g1, g2, g3) \<and>
     map wg_ordinal [g1, g2, g3] = [1, 2, 3] \<and>
     map wg_gate [g1, g2, g3] = [''injection'', ''work'', ''lift''] \<and>
     wg_verdict g1 = wg_verdict injection \<and>
     wg_verdict g2 = (if wg_verdict injection = ''pass'' then
        (case work of None \<Rightarrow> ''not-evaluated'' | Some w \<Rightarrow> wg_verdict w) else ''not-evaluated'') \<and>
     wg_verdict g3 = (if wg_verdict injection = ''pass'' \<and> wg_verdict g2 = ''pass'' then
        (case lift of None \<Rightarrow> ''not-evaluated'' | Some l \<Rightarrow> wg_verdict l) else ''not-evaluated'') \<and>
     list_all walk_gate_ok [g1, g2, g3]"
  by (auto simp: records_for_ordered_gates_def renumber_gate_eq walk_gate_not_evaluated_def
      split: option.splits)

section \<open>Session records\<close>

record session_record =
  sr_sequence_index :: int
  sr_model :: string
  sr_provider_pin :: string
  sr_memory_mode :: string
  sr_phase_group :: string
  sr_phase :: string
  sr_run_id :: pyval
  sr_run_label :: pyval
  sr_session_id :: pyval
  sr_org_id :: pyval
  sr_extraction_job_id :: pyval
  sr_session_fp :: pyval
  sr_candidate_refs :: "pydict list"
  sr_extraction_candidate_count :: "int option"
  sr_progress :: "pydict option"
  sr_walk_gates :: "walk_gate list"
  sr_decision_applied :: bool
  sr_corpus_delta :: "int option"
  sr_complete_gate :: bool
  sr_extracted_from :: bool
  sr_retry_count :: int
  sr_resume_marker :: pyval
  sr_error :: pyval
  sr_started_at :: pyval
  sr_updated_at :: pyval

text \<open>The constructor's defaults.\<close>

definition new_session_record ::
  "int \<Rightarrow> string \<Rightarrow> string \<Rightarrow> string \<Rightarrow> string \<Rightarrow> string \<Rightarrow> pyval \<Rightarrow> session_record" where
  "new_session_record i m pin mode grp ph org =
     \<lparr>sr_sequence_index = i, sr_model = m, sr_provider_pin = pin, sr_memory_mode = mode,
      sr_phase_group = grp, sr_phase = ph, sr_run_id = PNone, sr_run_label = PNone,
      sr_session_id = PNone, sr_org_id = org, sr_extraction_job_id = PNone, sr_session_fp = PNone,
      sr_candidate_refs = [], sr_extraction_candidate_count = None, sr_progress = None,
      sr_walk_gates = [], sr_decision_applied = False, sr_corpus_delta = None,
      sr_complete_gate = False, sr_extracted_from = False, sr_retry_count = 0,
      sr_resume_marker = PNone, sr_error = PNone, sr_started_at = PNone, sr_updated_at = PNone\<rparr>"

definition session_record_to_dict :: "session_record \<Rightarrow> pydict" where
  "session_record_to_dict r =
     [(''sequence_index'', PInt (sr_sequence_index r)), (''model'', PStr (sr_model r)),
      (''provider_pin'', PStr (sr_provider_pin r)), (''memory_mode'', PStr (sr_memory_mode r)),
      (''phase_group'', PStr (sr_phase_group r)), (''phase'', PStr (sr_phase r)),
      (''run_id'', sr_run_id r), (''run_label'', sr_run_label r), (''session_id'', sr_session_id r),
      (''org_id'', sr_org_id r), (''extraction_job_id'', sr_extraction_job_id r),
      (''session_fp'', sr_session_fp r),
      (''candidate_refs'', PList (map PDict (sr_candidate_refs r))),
      (''extraction_candidate_count'', of_opt PInt (sr_extraction_candidate_count r)),
      (''progress'', of_opt PDict (sr_progress r)),
      (''walk_gates'', PList (map (\<lambda>g. PDict (walk_gate_to_dict g)) (sr_walk_gates r))),
      (''decision_applied'', PBool (sr_decision_applied r)),
      (''corpus_delta'', of_opt PInt (sr_corpus_delta r)),
      (''complete_gate'', PBool (sr_complete_gate r)),
      (''extracted_from'', PBool (sr_extracted_from r)),
      (''retry_count'', PInt (sr_retry_count r)), (''resume_marker'', sr_resume_marker r),
      (''error'', sr_error r), (''started_at'', sr_started_at r), (''updated_at'', sr_updated_at r)]"

text \<open>\<open>for gate in d.get("walk_gates", []) if isinstance(gate, Mapping)\<close>; a value that is not
  iterable raises \<open>TypeError\<close>.\<close>

definition walk_gates_from :: "(pyval \<Rightarrow> string) \<Rightarrow> pyval \<Rightarrow> py_exc + walk_gate list" where
  "walk_gates_from rp v =
     (case v of
        PList xs \<Rightarrow> map_result (walk_gate_from_dict rp) (map dict_or_empty (filter is_dict xs))
      | PStr _ \<Rightarrow> Inr []
      | PDict _ \<Rightarrow> Inr []
      | _ \<Rightarrow> Inl PyTypeError)"

definition session_record_from_dict :: "(pyval \<Rightarrow> string) \<Rightarrow> pydict \<Rightarrow> py_exc + session_record" where
  "session_record_from_dict rp d =
     bind_result (walk_gates_from rp (dget_default d ''walk_gates'' (PList []))) (\<lambda>gates.
     bind_result (bind_result (dget_item d ''sequence_index'') py_int) (\<lambda>i.
     bind_result (dget_item d ''model'') (\<lambda>m.
     bind_result (opt_int (dget d ''extraction_candidate_count'')) (\<lambda>ecc.
     bind_result (opt_int (dget d ''corpus_delta'')) (\<lambda>cd.
     bind_result (py_int (dget_default d ''retry_count'' (PInt 0))) (\<lambda>rc.
       Inr \<lparr>sr_sequence_index = i, sr_model = py_str rp m,
            sr_provider_pin = py_str rp (dget_default d ''provider_pin'' (PStr [])),
            sr_memory_mode = py_str rp (dget_default d ''memory_mode'' (PStr ''off'')),
            sr_phase_group = enum_value rp (dget_default d ''phase_group'' (PStr ''off_baseline'')),
            sr_phase = enum_value rp (dget_default d ''phase'' (PStr (phase_value PREPARE_FIXTURE))),
            sr_run_id = dget d ''run_id'', sr_run_label = dget d ''run_label'',
            sr_session_id = dget d ''session_id'', sr_org_id = dget d ''org_id'',
            sr_extraction_job_id = dget d ''extraction_job_id'',
            sr_session_fp = dget d ''session_fp'',
            sr_candidate_refs = dict_list (dget d ''candidate_refs''),
            sr_extraction_candidate_count = ecc,
            sr_progress = (case dget d ''progress'' of PDict p \<Rightarrow> Some p | _ \<Rightarrow> None),
            sr_walk_gates = gates,
            sr_decision_applied = truthy (dget_default d ''decision_applied'' (PBool False)),
            sr_corpus_delta = cd,
            sr_complete_gate = truthy (dget_default d ''complete_gate'' (PBool False)),
            sr_extracted_from = truthy (dget_default d ''extracted_from'' (PBool False)),
            sr_retry_count = rc, sr_resume_marker = dget d ''resume_marker'',
            sr_error = dget d ''error'', sr_started_at = dget d ''started_at'',
            sr_updated_at = dget d ''updated_at''\<rparr>))))))"

definition session_record_ok :: "session_record \<Rightarrow> bool" where
  "session_record_ok r \<longleftrightarrow> list_all walk_gate_ok (sr_walk_gates r)"

definition set_phase :: "string \<Rightarrow> session_phase \<Rightarrow> session_record \<Rightarrow> session_record" where
  "set_phase now p r = r\<lparr>sr_phase := phase_value p, sr_updated_at := PStr now\<rparr>"

section \<open>The codecs\<close>

lemma walk_gates_from_PList [simp]:
  "walk_gates_from rp (PList (map (\<lambda>g. PDict (f g)) gs)) = map_result (walk_gate_from_dict rp) (map f gs)"
  by (simp add: walk_gates_from_def filter_map comp_def)

interpretation roster_codec: checkpoint_codec roster_entry_to_dict "roster_entry_from_dict rp" "\<lambda>_. True" for rp
  by unfold_locales (simp add: roster_entry_to_dict_def roster_entry_from_dict_def)

interpretation scheduled_codec: checkpoint_codec scheduled_to_dict "scheduled_from_dict rp" "\<lambda>_. True" for rp
  by unfold_locales (simp add: scheduled_to_dict_def scheduled_from_dict_def)

interpretation gate_codec: checkpoint_codec walk_gate_to_dict "walk_gate_from_dict rp" walk_gate_ok for rp
proof
  fix g
  assume "walk_gate_ok g"
  then show "walk_gate_from_dict rp (walk_gate_to_dict g) = Inr g"
    by (simp add: walk_gate_to_dict_def walk_gate_from_dict_def mk_walk_gate_id)
qed

lemma session_record_reads:
  "map_of (session_record_to_dict r) ''sequence_index'' = Some (PInt (sr_sequence_index r))"
  "map_of (session_record_to_dict r) ''model'' = Some (PStr (sr_model r))"
  "map_of (session_record_to_dict r) ''provider_pin'' = Some (PStr (sr_provider_pin r))"
  "map_of (session_record_to_dict r) ''memory_mode'' = Some (PStr (sr_memory_mode r))"
  "map_of (session_record_to_dict r) ''phase_group'' = Some (PStr (sr_phase_group r))"
  "map_of (session_record_to_dict r) ''phase'' = Some (PStr (sr_phase r))"
  "map_of (session_record_to_dict r) ''run_id'' = Some (sr_run_id r)"
  "map_of (session_record_to_dict r) ''run_label'' = Some (sr_run_label r)"
  "map_of (session_record_to_dict r) ''session_id'' = Some (sr_session_id r)"
  "map_of (session_record_to_dict r) ''org_id'' = Some (sr_org_id r)"
  "map_of (session_record_to_dict r) ''extraction_job_id'' = Some (sr_extraction_job_id r)"
  "map_of (session_record_to_dict r) ''session_fp'' = Some (sr_session_fp r)"
  "map_of (session_record_to_dict r) ''candidate_refs'' = Some (PList (map PDict (sr_candidate_refs r)))"
  "map_of (session_record_to_dict r) ''extraction_candidate_count'' = Some (of_opt PInt (sr_extraction_candidate_count r))"
  "map_of (session_record_to_dict r) ''progress'' = Some (of_opt PDict (sr_progress r))"
  "map_of (session_record_to_dict r) ''walk_gates'' = Some (PList (map (\<lambda>g. PDict (walk_gate_to_dict g)) (sr_walk_gates r)))"
  "map_of (session_record_to_dict r) ''decision_applied'' = Some (PBool (sr_decision_applied r))"
  "map_of (session_record_to_dict r) ''corpus_delta'' = Some (of_opt PInt (sr_corpus_delta r))"
  "map_of (session_record_to_dict r) ''complete_gate'' = Some (PBool (sr_complete_gate r))"
  "map_of (session_record_to_dict r) ''extracted_from'' = Some (PBool (sr_extracted_from r))"
  "map_of (session_record_to_dict r) ''retry_count'' = Some (PInt (sr_retry_count r))"
  "map_of (session_record_to_dict r) ''resume_marker'' = Some (sr_resume_marker r)"
  "map_of (session_record_to_dict r) ''error'' = Some (sr_error r)"
  "map_of (session_record_to_dict r) ''started_at'' = Some (sr_started_at r)"
  "map_of (session_record_to_dict r) ''updated_at'' = Some (sr_updated_at r)"
  unfolding session_record_to_dict_def by (simp_all only: lookup_simps cong: map_of_weak if_weak_cong)

interpretation record_codec: checkpoint_codec session_record_to_dict "session_record_from_dict rp"
    session_record_ok for rp
proof
  fix r
  assume "session_record_ok r"
  then have "map_result (walk_gate_from_dict rp) (map walk_gate_to_dict (sr_walk_gates r))
      = Inr (sr_walk_gates r)"
    by (simp add: session_record_ok_def gate_codec.dec_enc_list)
  then show "session_record_from_dict rp (session_record_to_dict r) = Inr r"
    by (cases "sr_progress r")
      (simp_all add: session_record_reads session_record_from_dict_def dget_def dget_default_def dget_item_def
        cong: bind_result_weak)
qed

text \<open>A session record survives its checkpoint: reading back what was written gives the same
  record, gates and optional telemetry included, for every record whose gates were built by their
  constructor.\<close>

theorem session_record_round_trip:
  assumes "list_all walk_gate_ok (sr_walk_gates r)"
  shows "session_record_from_dict rp (session_record_to_dict r) = Inr r"
  using record_codec.dec_enc [of r rp] assms by (simp add: session_record_ok_def)

theorem session_record_round_trip_witness:
  "let r = (new_session_record 3 ''m'' ''p'' ''on'' ''on'' ''RUN_SESSION'' (PStr ''o''))
             \<lparr>sr_walk_gates := [mk_walk_gate 1 ''injection'' ''fail'' [] False [''a''] []],
              sr_corpus_delta := Some (-2)\<rparr>
   in session_record_from_dict (\<lambda>_. []) (session_record_to_dict r) = Inr r"
  unfolding Let_def by (rule session_record_round_trip) simp

end
