(* ===== verification/Cumulative_Manifest.thy ===== *)
theory Cumulative_Manifest
  imports Cumulative_Types
begin

text \<open>
  The schedule (\<open>wevibe_bench/cumulative/ordering.py\<close>) and the durable manifest
  (\<open>wevibe_bench/cumulative/manifest.py\<close>) of a cumulative campaign.  The SHA-256 roster hash
  (\<open>rh\<close>) and the seeded generator (\<open>draw seed hash slot size\<close>, the slot-th \<open>randrange(size)\<close>) are
  parameters.  Manifest documents are decoded JSON objects; the atomic write replaces the document
  on disk as a whole.
\<close>

section \<open>Ordering\<close>

definition build_off_order :: "roster_entry list \<Rightarrow> py_exc + scheduled_session list" where
  "build_off_order roster =
     (if roster = [] then Inl PyValueError
      else Inr (map (\<lambda>(i, e). \<lparr>sc_sequence_index = int i, sc_model = re_model e,
                  sc_provider_pin = re_provider_pin e, sc_memory_mode = ''off'',
                  sc_phase_group = ''off_baseline'', sc_roster_index = int i\<rparr>)
                (enumerate 0 roster)))"

definition on_session :: "roster_entry list \<Rightarrow> int \<Rightarrow> nat \<Rightarrow> nat \<Rightarrow> scheduled_session" where
  "on_session roster start_index slot i =
     \<lparr>sc_sequence_index = start_index + int slot, sc_model = re_model (roster ! i),
      sc_provider_pin = re_provider_pin (roster ! i), sc_memory_mode = ''on'',
      sc_phase_group = ''on'', sc_roster_index = int i\<rparr>"

text \<open>\<open>{entry.model: index ...}\<close>: the last entry of a model wins.\<close>

definition roster_index_by_model :: "roster_entry list \<Rightarrow> string \<Rightarrow> nat option" where
  "roster_index_by_model roster m =
     map_of (rev (map (\<lambda>(i, e). (re_model e, i)) (enumerate 0 roster))) m"

fun explicit_sessions ::
  "roster_entry list \<Rightarrow> int \<Rightarrow> nat \<Rightarrow> string list \<Rightarrow> py_exc + scheduled_session list" where
  "explicit_sessions roster start_index slot [] = Inr []"
| "explicit_sessions roster start_index slot (m # ms) =
     (case roster_index_by_model roster m of
        None \<Rightarrow> Inl PyValueError
      | Some i \<Rightarrow> bind_result (explicit_sessions roster start_index (Suc slot) ms)
          (\<lambda>ss. Inr (on_session roster start_index slot i # ss)))"

type_synonym seeded_draw = "int \<Rightarrow> string \<Rightarrow> nat \<Rightarrow> nat \<Rightarrow> nat"

definition build_on_order ::
  "seeded_draw \<Rightarrow> roster_entry list \<Rightarrow> int \<Rightarrow> string \<Rightarrow> int \<Rightarrow> int \<Rightarrow> string list option
     \<Rightarrow> py_exc + scheduled_session list" where
  "build_on_order draw roster seed roster_hash budget start_index explicit_order =
     (if roster = [] then Inl PyValueError
      else if budget < 0 then Inl PyValueError
      else (case explicit_order of
          Some ms \<Rightarrow> explicit_sessions roster start_index 0 ms
        | None \<Rightarrow> Inr (map (\<lambda>slot. on_session roster start_index slot
                               (draw seed roster_hash slot (length roster))) [0..<nat budget])))"

definition build_schedule ::
  "seeded_draw \<Rightarrow> roster_entry list \<Rightarrow> int \<Rightarrow> string \<Rightarrow> int \<Rightarrow> py_exc + scheduled_session list" where
  "build_schedule draw roster seed roster_hash on_budget =
     (if roster = [] then Inl PyValueError
      else if on_budget < 0 then Inl PyValueError
      else bind_result (build_off_order roster) (\<lambda>off_order.
           bind_result (build_on_order draw roster seed roster_hash on_budget (int (length off_order)) None)
             (\<lambda>on_order. Inr (off_order @ on_order))))"

text \<open>What the generator is documented to do: \<open>randrange(n)\<close> lies below \<open>n\<close>.\<close>

definition draws_below :: "seeded_draw \<Rightarrow> bool" where
  "draws_below draw \<longleftrightarrow> (\<forall>seed h slot n. 0 < n \<longrightarrow> draw seed h slot n < n)"

lemma build_off_order_nth:
  assumes "build_off_order roster = Inr s"
  shows "length s = length roster"
    and "i < length roster \<Longrightarrow> s ! i = \<lparr>sc_sequence_index = int i, sc_model = re_model (roster ! i),
       sc_provider_pin = re_provider_pin (roster ! i), sc_memory_mode = ''off'',
       sc_phase_group = ''off_baseline'', sc_roster_index = int i\<rparr>"
  using assms by (auto simp: build_off_order_def nth_enumerate_eq split: if_splits)

lemma build_schedule_split:
  assumes "build_schedule draw roster seed h budget = Inr s"
  obtains off where "build_off_order roster = Inr off" and "roster \<noteq> []"
    and "s = off @ map (\<lambda>slot. on_session roster (int (length off)) slot
                        (draw seed h slot (length roster))) [0..<nat budget]"
  using assms by (auto simp: build_schedule_def build_on_order_def result_simps split: if_splits)

lemma build_schedule_indices:
  assumes "build_schedule draw roster seed h budget = Inr s"
  shows "map sc_sequence_index s = map int [0..<length s]"
proof -
  from assms obtain off where off: "build_off_order roster = Inr off"
    and s: "s = off @ map (\<lambda>slot. on_session roster (int (length off)) slot
                        (draw seed h slot (length roster))) [0..<nat budget]"
    by (rule build_schedule_split)
  note o = build_off_order_nth [OF off]
  show ?thesis
    by (intro nth_equalityI) (auto simp: s o nth_append on_session_def)
qed

lemma schedule_shape_parts:
  assumes "build_schedule draw roster seed h budget = Inr s" and "draws_below draw"
  shows "length s = length roster + nat budget"
    and "map sc_sequence_index s = map int [0..<length s]"
    and "map sc_model (take (length roster) s) = map re_model roster"
    and "i < length s \<Longrightarrow> sc_memory_mode (s ! i) = (if i < length roster then ''off'' else ''on'')"
    and "x \<in> set s \<Longrightarrow> \<exists>e \<in> set roster. sc_model x = re_model e \<and> sc_provider_pin x = re_provider_pin e"
proof -
  from assms(1) obtain off where off: "build_off_order roster = Inr off" and ne: "roster \<noteq> []"
    and s: "s = off @ map (\<lambda>slot. on_session roster (int (length off)) slot
                        (draw seed h slot (length roster))) [0..<nat budget]"
    by (rule build_schedule_split)
  note o = build_off_order_nth [OF off]
  show len: "length s = length roster + nat budget" by (simp add: s o)
  have nth: "i < length s \<Longrightarrow> s ! i = (if i < length roster then off ! i else
      on_session roster (int (length roster)) (i - length roster)
        (draw seed h (i - length roster) (length roster)))" for i
    using len by (simp add: s o nth_append)
  show "map sc_sequence_index s = map int [0..<length s]"
    by (rule build_schedule_indices [OF assms(1)])
  show "map sc_model (take (length roster) s) = map re_model roster"
    using len by (intro nth_equalityI) (auto simp: nth o)
  show "i < length s \<Longrightarrow> sc_memory_mode (s ! i) = (if i < length roster then ''off'' else ''on'')"
    by (simp add: nth o on_session_def)
  show "x \<in> set s \<Longrightarrow> \<exists>e \<in> set roster. sc_model x = re_model e \<and> sc_provider_pin x = re_provider_pin e"
    using assms(2) ne len
    by (auto simp: in_set_conv_nth [of x] nth o on_session_def draws_below_def)
      (metis length_greater_0_conv nth_mem)+
qed


text \<open>The schedule of a campaign: every roster model runs once without memory, in roster order,
  before any session with memory; then exactly the budgeted number of memory sessions follow, each
  of a roster entry; positions are numbered consecutively from zero; and the same seed and roster
  give the same schedule.\<close>

theorem schedule_shape:
  assumes "build_schedule draw roster seed h budget = Inr s" and "draws_below draw"
  shows "(length s = length roster + nat budget)
     \<and> (map sc_sequence_index s = map int [0..<length s])
     \<and> (map sc_model (take (length roster) s) = map re_model roster)
     \<and> (i < length s \<longrightarrow>
      sc_memory_mode (s ! i) = (if i < length roster then ''off'' else ''on''))
     \<and> (x \<in> set s \<longrightarrow>
      (\<exists>e \<in> set roster. sc_model x = re_model e \<and> sc_provider_pin x = re_provider_pin e))"
  using schedule_shape_parts [OF assms] by blast

definition sample_roster :: "roster_entry list" where
  "sample_roster = [\<lparr>re_model = ''a'', re_role = ''r'', re_provider_pin = ''p'', re_config_identity = []\<rparr>,
                    \<lparr>re_model = ''b'', re_role = ''r'', re_provider_pin = ''q'', re_config_identity = []\<rparr>]"

definition sample_draw :: seeded_draw where
  "sample_draw seed h slot n = (slot + 1) mod n"

theorem schedule_shape_witness:
  "\<exists>s. build_schedule sample_draw sample_roster 7 ''h'' 3 = Inr s \<and> length s = 5
     \<and> map sc_model (take 2 s) = [''a'', ''b'']"
proof -
  obtain s where s: "build_schedule sample_draw sample_roster 7 ''h'' 3 = Inr s"
    by (simp add: build_schedule_def build_off_order_def build_on_order_def sample_roster_def)
  have "draws_below sample_draw" by (simp add: draws_below_def sample_draw_def)
  from schedule_shape [OF s this] s show ?thesis by (simp add: sample_roster_def numeral_2_eq_2)
qed

section \<open>The manifest\<close>

definition CUMULATIVE_SCHEMA_VERSION :: int where "CUMULATIVE_SCHEMA_VERSION = 1"

record cumulative_manifest =
  cm_created_at :: string
  cm_task :: string
  cm_org_id :: string
  cm_roster :: "roster_entry list"
  cm_roster_hash :: string
  cm_seed :: int
  cm_config_fingerprint :: string
  cm_schedule :: "scheduled_session list"
  cm_session_records :: "session_record list"
  cm_current_index :: int
  cm_updated_at :: string
  cm_schema_version :: int
  cm_run_context :: "pydict option"
  cm_chunk_plan_hash :: string

definition manifest_to_dict :: "cumulative_manifest \<Rightarrow> pydict" where
  "manifest_to_dict m =
     [(''schema_version'', PInt (cm_schema_version m)), (''created_at'', PStr (cm_created_at m)),
      (''task'', PStr (cm_task m)), (''org_id'', PStr (cm_org_id m)),
      (''roster'', PList (map PDict (map roster_entry_to_dict (cm_roster m)))),
      (''roster_hash'', PStr (cm_roster_hash m)), (''seed'', PInt (cm_seed m)),
      (''config_fingerprint'', PStr (cm_config_fingerprint m)),
      (''schedule'', PList (map PDict (map scheduled_to_dict (cm_schedule m)))),
      (''session_records'', PList (map PDict (map session_record_to_dict (cm_session_records m)))),
      (''current_index'', PInt (cm_current_index m)), (''updated_at'', PStr (cm_updated_at m)),
      (''run_context'', of_opt PDict (cm_run_context m)),
      (''chunk_plan_hash'', PStr (cm_chunk_plan_hash m))]"

text \<open>\<open>_mapping_list\<close>: an array of objects or \<open>ValueError\<close>.\<close>

definition mapping_list :: "pyval \<Rightarrow> py_exc + pydict list" where
  "mapping_list v =
     (case v of
        PList xs \<Rightarrow> if list_all is_dict xs then Inr (map dict_or_empty xs) else Inl PyValueError
      | _ \<Rightarrow> Inl PyValueError)"

definition str_item :: "(pyval \<Rightarrow> string) \<Rightarrow> pydict \<Rightarrow> string \<Rightarrow> py_exc + string" where
  "str_item rp d k = bind_result (dget_item d k) (\<lambda>v. Inr (py_str rp v))"

definition int_item :: "pydict \<Rightarrow> string \<Rightarrow> py_exc + int" where
  "int_item d k = bind_result (dget_item d k) py_int"

definition manifest_from_dict :: "(pyval \<Rightarrow> string) \<Rightarrow> pydict \<Rightarrow> py_exc + cumulative_manifest" where
  "manifest_from_dict rp d =
     bind_result (bind_result (dget_item d ''roster'') mapping_list) (\<lambda>roster_data.
     bind_result (bind_result (dget_item d ''schedule'') mapping_list) (\<lambda>schedule_data.
     bind_result (bind_result (dget_item d ''session_records'') mapping_list) (\<lambda>records_data.
     bind_result (int_item d ''schema_version'') (\<lambda>ver.
     bind_result (str_item rp d ''created_at'') (\<lambda>created.
     bind_result (str_item rp d ''task'') (\<lambda>task.
     bind_result (str_item rp d ''org_id'') (\<lambda>org.
     bind_result (map_result (roster_entry_from_dict rp) roster_data) (\<lambda>roster.
     bind_result (str_item rp d ''roster_hash'') (\<lambda>rhash.
     bind_result (int_item d ''seed'') (\<lambda>seed.
     bind_result (str_item rp d ''config_fingerprint'') (\<lambda>cfp.
     bind_result (map_result (scheduled_from_dict rp) schedule_data) (\<lambda>sched.
     bind_result (map_result (session_record_from_dict rp) records_data) (\<lambda>recs.
     bind_result (int_item d ''current_index'') (\<lambda>idx.
     bind_result (str_item rp d ''updated_at'') (\<lambda>updated.
       Inr \<lparr>cm_created_at = created, cm_task = task, cm_org_id = org, cm_roster = roster,
            cm_roster_hash = rhash, cm_seed = seed, cm_config_fingerprint = cfp,
            cm_schedule = sched, cm_session_records = recs, cm_current_index = idx,
            cm_updated_at = updated, cm_schema_version = ver,
            cm_run_context = (case dget d ''run_context'' of PDict c \<Rightarrow> Some c | _ \<Rightarrow> None),
            cm_chunk_plan_hash = (let v = dget d ''chunk_plan_hash''
                                  in if truthy v then py_str rp v else [])\<rparr>)))))))))))))))"

definition manifest_ok :: "cumulative_manifest \<Rightarrow> bool" where
  "manifest_ok m \<longleftrightarrow> list_all session_record_ok (cm_session_records m)"

lemma mapping_list_PList [simp]: "mapping_list (PList (map PDict ds)) = Inr ds"
  by (simp add: mapping_list_def list_all_iff comp_def)

interpretation manifest_codec: checkpoint_codec manifest_to_dict "manifest_from_dict rp" manifest_ok for rp
proof
  fix m
  assume "manifest_ok m"
  then have "map_result (session_record_from_dict rp) (map session_record_to_dict (cm_session_records m))
      = Inr (cm_session_records m)"
    by (simp only: manifest_ok_def record_codec.dec_enc_list)
  moreover have "map_result (roster_entry_from_dict rp) (map roster_entry_to_dict (cm_roster m)) = Inr (cm_roster m)"
    "map_result (scheduled_from_dict rp) (map scheduled_to_dict (cm_schedule m)) = Inr (cm_schedule m)"
    by (simp_all add: roster_codec.dec_enc_list scheduled_codec.dec_enc_list list_all_iff del: map_map)
  ultimately show "manifest_from_dict rp (manifest_to_dict m) = Inr m"
    by (cases "cm_run_context m"; cases "cm_chunk_plan_hash m")
      (simp_all add: manifest_from_dict_def manifest_to_dict_def str_item_def int_item_def Let_def
        del: map_map)
qed

definition validate_or_fail ::
  "(roster_entry list \<Rightarrow> string) \<Rightarrow> cumulative_manifest \<Rightarrow> roster_entry list \<Rightarrow> int \<Rightarrow> string \<Rightarrow> string
     \<Rightarrow> py_exc + unit" where
  "validate_or_fail rh m roster seed task chunk_plan_hash =
     (if cm_schema_version m \<noteq> CUMULATIVE_SCHEMA_VERSION then Inl PyValueError
      else if cm_roster_hash m \<noteq> rh roster then Inl PyValueError
      else if cm_seed m \<noteq> seed then Inl PyValueError
      else if cm_task m \<noteq> task then Inl PyValueError
      else if cm_chunk_plan_hash m \<noteq> chunk_plan_hash then Inl PyValueError
      else Inr ())"

text \<open>\<open>load\<close> of the document found at the path.\<close>

definition load_manifest :: "(pyval \<Rightarrow> string) \<Rightarrow> pyval \<Rightarrow> py_exc + cumulative_manifest" where
  "load_manifest rp v = (case v of PDict d \<Rightarrow> manifest_from_dict rp d | _ \<Rightarrow> Inl PyValueError)"

text \<open>The manifest and what the path then holds.\<close>

definition resume_or_create ::
  "(pyval \<Rightarrow> string) \<Rightarrow> (roster_entry list \<Rightarrow> string) \<Rightarrow> string \<Rightarrow> pyval option \<Rightarrow> roster_entry list \<Rightarrow> int
     \<Rightarrow> string \<Rightarrow> string \<Rightarrow> string \<Rightarrow> scheduled_session list \<Rightarrow> pydict option \<Rightarrow> string
     \<Rightarrow> py_exc + cumulative_manifest \<times> pyval" where
  "resume_or_create rp rh now disk roster seed task org_id cfp schedule ctx chunk_plan_hash =
     (case disk of
        Some v \<Rightarrow>
          bind_result (load_manifest rp v) (\<lambda>m.
          bind_result (validate_or_fail rh m roster seed task chunk_plan_hash) (\<lambda>_. Inr (m, v)))
      | None \<Rightarrow>
          let m = \<lparr>cm_created_at = now, cm_task = task, cm_org_id = org_id, cm_roster = roster,
                   cm_roster_hash = rh roster, cm_seed = seed, cm_config_fingerprint = cfp,
                   cm_schedule = schedule, cm_session_records = [], cm_current_index = 0,
                   cm_updated_at = now, cm_schema_version = CUMULATIVE_SCHEMA_VERSION,
                   cm_run_context = ctx, cm_chunk_plan_hash = chunk_plan_hash\<rparr>
          in Inr (m, PDict (manifest_to_dict m)))"

end
