(* ===== verification/Cumulative_Sequencer.thy ===== *)
theory Cumulative_Sequencer
  imports Cumulative_Manifest
begin

text \<open>
  The phase machine of \<open>wevibe_bench/cumulative/sequencer.py\<close>: construction and resume, one turn
  of \<open>step_until_done\<close>, its loop, and the histories a campaign can have when the process may die
  at any moment and be started again from the checkpoint.  The injected \<open>SessionRunner\<close> is a
  parameter: its two calls may raise, and may change the session they are given; the telemetry it
  returns is passed on as the progress object \<open>progress_from_cell_result(...).to_dict()\<close>.  The
  standings attached to the done state are the subject of \<open>Run_Artifacts\<close>.
\<close>

record runner =
  rn_prepare :: "session_record \<Rightarrow> py_exc + session_record"
  rn_run :: "session_record \<Rightarrow> py_exc + session_record \<times> pydict"

record seq_state =
  sq_manifest :: cumulative_manifest
  sq_disk :: pyval

record halted_on_gate =
  hg_sequence_index :: int
  hg_ordinal :: int
  hg_model :: string
  hg_gate :: string
  hg_verdict :: string
  hg_evidence :: pydict
  hg_expected :: "string list"
  hg_observed :: "string list"

datatype seq_outcome = DoneState | Halted halted_on_gate

text \<open>One turn of the loop: go on, return, or raise (the checkpoint stays on disk).\<close>

datatype seq_result = Continue seq_state | Return seq_state seq_outcome | Raised seq_state py_exc

section \<open>Operations\<close>

definition checkpoint :: "string \<Rightarrow> seq_state \<Rightarrow> seq_state" where
  "checkpoint now st =
     (let m = (sq_manifest st)\<lparr>cm_updated_at := now\<rparr>
      in st\<lparr>sq_manifest := m, sq_disk := PDict (manifest_to_dict m)\<rparr>)"

definition current_session :: "cumulative_manifest \<Rightarrow> py_exc + session_record option" where
  "current_session m =
     (let i = cm_current_index m
      in if i < 0 then Inl PyValueError
         else if int (length (cm_session_records m)) \<le> i then Inr None
         else Inr (Some (cm_session_records m ! nat i)))"

definition first_stopping_walk_gate :: "session_record \<Rightarrow> walk_gate option" where
  "first_stopping_walk_gate r = find (\<lambda>g. wg_verdict g = ''fail'' \<and> wg_stops_walk g) (sr_walk_gates r)"

definition halted_descriptor :: "session_record \<Rightarrow> py_exc + halted_on_gate" where
  "halted_descriptor r =
     (case first_stopping_walk_gate r of
        None \<Rightarrow> Inl PyValueError
      | Some g \<Rightarrow> Inr \<lparr>hg_sequence_index = sr_sequence_index r, hg_ordinal = wg_ordinal g,
           hg_model = sr_model r, hg_gate = wg_gate g, hg_verdict = wg_verdict g,
           hg_evidence = wg_evidence g, hg_expected = wg_expected g, hg_observed = wg_observed g\<rparr>)"

text \<open>The session objects are shared with the manifest: writing a field writes the entry.\<close>

definition put_record :: "int \<Rightarrow> session_record \<Rightarrow> seq_state \<Rightarrow> seq_state" where
  "put_record i r st =
     st\<lparr>sq_manifest := (sq_manifest st)
          \<lparr>cm_session_records := (cm_session_records (sq_manifest st))[nat i := r]\<rparr>\<rparr>"

definition advance_to_next_session :: "string \<Rightarrow> session_record \<Rightarrow> seq_state \<Rightarrow> seq_result" where
  "advance_to_next_session now session st =
     (let m = sq_manifest st
      in if cm_current_index m = sr_sequence_index session then
           let i = cm_current_index m + 1; st = st\<lparr>sq_manifest := m\<lparr>cm_current_index := i\<rparr>\<rparr>
           in if i < int (length (cm_session_records m)) then
                let nxt = (cm_session_records m ! nat i)\<lparr>sr_org_id := PStr (cm_org_id m)\<rparr>
                in (case phase_of_string (sr_phase nxt) of
                      None \<Rightarrow> Raised (put_record i nxt st) PyValueError
                    | Some p \<Rightarrow> Continue (checkpoint now (put_record i
                        (if p \<noteq> PREPARE_FIXTURE then set_phase now PREPARE_FIXTURE nxt else nxt) st)))
              else Continue (checkpoint now st)
         else if cm_current_index m \<noteq> sr_sequence_index session + 1 then Raised st PyValueError
         else Continue st)"

text \<open>The \<open>RUN_SESSION\<close> branch up to its checkpoint: a halting gate, or a completed session.\<close>

definition run_to_checkpoint ::
  "runner \<Rightarrow> string \<Rightarrow> session_record \<Rightarrow> seq_state \<Rightarrow> py_exc + session_record \<times> seq_state \<times> bool" where
  "run_to_checkpoint rn now session st =
     (let i = cm_current_index (sq_manifest st);
          session = (if sr_started_at session = PNone then session\<lparr>sr_started_at := PStr now\<rparr> else session)
      in bind_result (rn_run rn session) (\<lambda>(session, progress).
           let session = session\<lparr>sr_progress := Some progress\<rparr>
           in if first_stopping_walk_gate session \<noteq> None then
                let session = set_phase now HALTED_ON_GATE session
                in Inr (session, checkpoint now (put_record i session st), True)
              else
                let session = set_phase now DONE (session\<lparr>sr_complete_gate := True\<rparr>)
                in Inr (session, checkpoint now (put_record i session st), False)))"

definition seq_step :: "runner \<Rightarrow> string \<Rightarrow> seq_state \<Rightarrow> seq_result" where
  "seq_step rn now st =
     (case current_session (sq_manifest st) of
        Inl e \<Rightarrow> Raised st e
      | Inr None \<Rightarrow> Return st DoneState
      | Inr (Some session) \<Rightarrow>
          (case phase_of_string (sr_phase session) of
             None \<Rightarrow> Raised st PyValueError
           | Some HALTED_ON_GATE \<Rightarrow>
               (case halted_descriptor session of
                  Inl e \<Rightarrow> Raised st e | Inr h \<Rightarrow> Return st (Halted h))
           | Some DONE \<Rightarrow> advance_to_next_session now session st
           | Some PREPARE_FIXTURE \<Rightarrow>
               (case rn_prepare rn (session\<lparr>sr_org_id := PStr (cm_org_id (sq_manifest st))\<rparr>) of
                  Inl e \<Rightarrow> Raised st e
                | Inr session \<Rightarrow>
                    Continue (checkpoint now (put_record (cm_current_index (sq_manifest st))
                      (set_phase now RUN_SESSION session) st)))
           | Some RUN_SESSION \<Rightarrow>
               (case run_to_checkpoint rn now session st of
                  Inl e \<Rightarrow> Raised st e
                | Inr (session, st, True) \<Rightarrow>
                    (case halted_descriptor session of
                       Inl e \<Rightarrow> Raised st e | Inr h \<Rightarrow> Return st (Halted h))
                | Inr (session, st, False) \<Rightarrow> advance_to_next_session now session st)))"

text \<open>The loop, with the \<open>k\<close>-th turn using the runner as it behaves then; \<open>None\<close> is out of fuel.\<close>

fun step_until_done :: "(nat \<Rightarrow> runner) \<Rightarrow> string \<Rightarrow> nat \<Rightarrow> seq_state \<Rightarrow> seq_result option" where
  "step_until_done rns now 0 st = None"
| "step_until_done rns now (Suc fuel) st =
     (case seq_step (rns fuel) now st of
        Continue st' \<Rightarrow> step_until_done rns now fuel st'
      | r \<Rightarrow> Some r)"

lemma find_SomeD: "find P xs = Some x \<Longrightarrow> x \<in> set xs \<and> P x"
  by (auto simp: find_Some_iff)

section \<open>Construction and resume\<close>

definition fresh_records :: "string \<Rightarrow> scheduled_session list \<Rightarrow> session_record list" where
  "fresh_records org_id schedule =
     map (\<lambda>s. new_session_record (sc_sequence_index s) (sc_model s) (sc_provider_pin s)
            (sc_memory_mode s) (sc_phase_group s) (phase_value PREPARE_FIXTURE) (PStr org_id)) schedule"

record campaign_plan =
  cp_roster :: "roster_entry list"
  cp_seed :: int
  cp_task :: string
  cp_org_id :: string
  cp_config_fingerprint :: string
  cp_on_budget :: int
  cp_run_context :: "pydict option"
  cp_chunk_plan_hash :: string

definition sequencer_new ::
  "(pyval \<Rightarrow> string) \<Rightarrow> (roster_entry list \<Rightarrow> string) \<Rightarrow> seeded_draw \<Rightarrow> string \<Rightarrow> campaign_plan
     \<Rightarrow> pyval option \<Rightarrow> py_exc + seq_state" where
  "sequencer_new rp rh draw now plan disk =
     bind_result (build_schedule draw (cp_roster plan) (cp_seed plan) (rh (cp_roster plan))
                    (cp_on_budget plan)) (\<lambda>schedule.
     bind_result (resume_or_create rp rh now disk (cp_roster plan) (cp_seed plan) (cp_task plan)
                    (cp_org_id plan) (cp_config_fingerprint plan) schedule (cp_run_context plan)
                    (cp_chunk_plan_hash plan)) (\<lambda>(m, disk).
       if cm_org_id m \<noteq> cp_org_id plan then Inl PyValueError
       else if cm_config_fingerprint m \<noteq> cp_config_fingerprint plan then Inl PyValueError
       else if map scheduled_to_dict (cm_schedule m) \<noteq> map scheduled_to_dict schedule then Inl PyValueError
       else
         let st = \<lparr>sq_manifest = m, sq_disk = disk\<rparr>;
             st = (if cm_session_records m = [] then
                     checkpoint now (st\<lparr>sq_manifest := m\<lparr>cm_session_records :=
                         fresh_records (cp_org_id plan) (cm_schedule m), cm_current_index := 0\<rparr>\<rparr>)
                   else st)
         in if cm_current_index (sq_manifest st) < 0 then Inl PyValueError
            else if int (length (cm_session_records (sq_manifest st))) < cm_current_index (sq_manifest st)
            then Inl PyValueError
            else Inr st))"

section \<open>The invariant\<close>

text \<open>
  A campaign is on track when its records are numbered by position, everything before the current
  index is done with its gate complete, everything after it is still to be prepared, and a halted
  session carries the gate that stopped it.
\<close>

definition records_on_track :: "session_record list \<Rightarrow> nat \<Rightarrow> bool" where
  "records_on_track rs k \<longleftrightarrow> k \<le> length rs \<and>
     (\<forall>i < length rs. sr_sequence_index (rs ! i) = int i \<and> session_record_ok (rs ! i) \<and>
        (\<exists>p. sr_phase (rs ! i) = phase_value p \<and>
           (p = HALTED_ON_GATE \<longrightarrow> first_stopping_walk_gate (rs ! i) \<noteq> None) \<and>
           (p = DONE \<longrightarrow> sr_complete_gate (rs ! i)) \<and>
           (i < k \<longrightarrow> p = DONE) \<and> (k < i \<longrightarrow> p = PREPARE_FIXTURE)))"

definition on_track :: "cumulative_manifest \<Rightarrow> bool" where
  "on_track m \<longleftrightarrow> 0 \<le> cm_current_index m \<and>
     records_on_track (cm_session_records m) (nat (cm_current_index m))"

text \<open>What a runner must not do: renumber a session, or build a gate outside its constructor.\<close>

definition runner_ok :: "runner \<Rightarrow> bool" where
  "runner_ok rn \<longleftrightarrow>
     (\<forall>r r'. rn_prepare rn r = Inr r' \<longrightarrow> session_record_ok r \<longrightarrow>
        sr_sequence_index r' = sr_sequence_index r \<and> session_record_ok r') \<and>
     (\<forall>r r' p. rn_run rn r = Inr (r', p) \<longrightarrow> session_record_ok r \<longrightarrow>
        sr_sequence_index r' = sr_sequence_index r \<and> session_record_ok r')"

definition seq_inv :: "seq_state \<Rightarrow> bool" where
  "seq_inv st \<longleftrightarrow> on_track (sq_manifest st) \<and> sq_disk st = PDict (manifest_to_dict (sq_manifest st))"

lemma record_ok_sel [simp]:
  "session_record_ok (r\<lparr>sr_org_id := v\<rparr>) = session_record_ok r"
  "session_record_ok (r\<lparr>sr_started_at := v\<rparr>) = session_record_ok r"
  "session_record_ok (r\<lparr>sr_progress := pr\<rparr>) = session_record_ok r"
  "session_record_ok (r\<lparr>sr_complete_gate := b\<rparr>) = session_record_ok r"
  "session_record_ok (set_phase now p r) = session_record_ok r"
  by (simp_all add: session_record_ok_def set_phase_def)

lemma set_phase_sel [simp]:
  "sr_sequence_index (set_phase now p r) = sr_sequence_index r"
  "sr_phase (set_phase now p r) = phase_value p"
  "sr_complete_gate (set_phase now p r) = sr_complete_gate r"
  "first_stopping_walk_gate (set_phase now p r) = first_stopping_walk_gate r"
  by (simp_all add: set_phase_def first_stopping_walk_gate_def)

lemma gate_sel [simp]:
  "first_stopping_walk_gate (r\<lparr>sr_progress := pr\<rparr>) = first_stopping_walk_gate r"
  "first_stopping_walk_gate (r\<lparr>sr_complete_gate := b\<rparr>) = first_stopping_walk_gate r"
  "first_stopping_walk_gate (r\<lparr>sr_org_id := v\<rparr>) = first_stopping_walk_gate r"
  by (simp_all add: first_stopping_walk_gate_def)

lemma phase_value_inj [simp]: "phase_value p = phase_value q \<longleftrightarrow> p = q"
  by (metis phase_of_string_value option.inject)

lemma on_trackD:
  assumes "on_track m" and "i < length (cm_session_records m)"
  shows "sr_sequence_index (cm_session_records m ! i) = int i"
    and "session_record_ok (cm_session_records m ! i)"
    and "\<exists>p. sr_phase (cm_session_records m ! i) = phase_value p \<and>
           (p = HALTED_ON_GATE \<longrightarrow> first_stopping_walk_gate (cm_session_records m ! i) \<noteq> None) \<and>
           (p = DONE \<longrightarrow> sr_complete_gate (cm_session_records m ! i)) \<and>
           (i < nat (cm_current_index m) \<longrightarrow> p = DONE) \<and>
           (nat (cm_current_index m) < i \<longrightarrow> p = PREPARE_FIXTURE)"
  using assms by (auto simp: on_track_def records_on_track_def)

lemma on_track_manifest_ok: "on_track m \<Longrightarrow> manifest_ok m"
  by (auto simp: on_track_def records_on_track_def manifest_ok_def list_all_length)

lemma records_on_track_update:
  assumes "records_on_track rs k" and "k < length rs" and "sr_sequence_index r = int k"
    and "session_record_ok r" and "sr_phase r = phase_value p"
    and "p = HALTED_ON_GATE \<Longrightarrow> first_stopping_walk_gate r \<noteq> None"
    and "p = DONE \<Longrightarrow> sr_complete_gate r"
  shows "records_on_track (rs[k := r]) k"
  using assms by (auto simp: records_on_track_def nth_list_update)

lemma records_on_track_advance:
  assumes "records_on_track rs k" and "k < length rs" and "sr_phase (rs ! k) = phase_value DONE"
  shows "records_on_track rs (Suc k)"
  unfolding records_on_track_def
proof (intro conjI allI impI)
  show "Suc k \<le> length rs" using assms(2) by simp
  fix i
  assume i: "i < length rs"
  with assms(1) obtain p where p: "sr_sequence_index (rs ! i) = int i" "session_record_ok (rs ! i)"
    "sr_phase (rs ! i) = phase_value p" "p = HALTED_ON_GATE \<longrightarrow> first_stopping_walk_gate (rs ! i) \<noteq> None"
    "p = DONE \<longrightarrow> sr_complete_gate (rs ! i)" "i < k \<longrightarrow> p = DONE" "k < i \<longrightarrow> p = PREPARE_FIXTURE"
    unfolding records_on_track_def by blast
  then show "sr_sequence_index (rs ! i) = int i" and "session_record_ok (rs ! i)" by blast+
  have "i < Suc k \<longrightarrow> p = DONE" using p(3,6) assms(3) by (metis less_SucE phase_value_inj)
  moreover have "Suc k < i \<longrightarrow> p = PREPARE_FIXTURE" using p(7) by simp
  ultimately show "\<exists>p. sr_phase (rs ! i) = phase_value p \<and>
      (p = HALTED_ON_GATE \<longrightarrow> first_stopping_walk_gate (rs ! i) \<noteq> None) \<and>
      (p = DONE \<longrightarrow> sr_complete_gate (rs ! i)) \<and>
      (i < Suc k \<longrightarrow> p = DONE) \<and> (Suc k < i \<longrightarrow> p = PREPARE_FIXTURE)"
    using p by blast
qed

lemma checkpoint_sel [simp]:
  "cm_session_records (sq_manifest (checkpoint now st)) = cm_session_records (sq_manifest st)"
  "cm_current_index (sq_manifest (checkpoint now st)) = cm_current_index (sq_manifest st)"
  "cm_org_id (sq_manifest (checkpoint now st)) = cm_org_id (sq_manifest st)"
  "on_track (sq_manifest (checkpoint now st)) = on_track (sq_manifest st)"
  "seq_inv (checkpoint now st) = on_track (sq_manifest st)"
  by (simp_all add: checkpoint_def Let_def on_track_def seq_inv_def)

lemma put_record_sel [simp]:
  "cm_session_records (sq_manifest (put_record i r st)) = (cm_session_records (sq_manifest st))[nat i := r]"
  "cm_current_index (sq_manifest (put_record i r st)) = cm_current_index (sq_manifest st)"
  "sq_disk (put_record i r st) = sq_disk st"
  by (simp_all add: put_record_def)

lemma current_session_cases:
  assumes "on_track m"
  obtains (finished) "current_session m = Inr None"
      "cm_current_index m = int (length (cm_session_records m))"
  | (running) k where "current_session m = Inr (Some (cm_session_records m ! k))"
      "cm_current_index m = int k" "k < length (cm_session_records m)"
proof (cases "nat (cm_current_index m) < length (cm_session_records m)")
  case True
  with assms running [of "nat (cm_current_index m)"] show thesis
    by (auto simp: current_session_def on_track_def Let_def)
next
  case False
  with assms finished show thesis
    by (auto simp: current_session_def on_track_def records_on_track_def Let_def)
qed

section \<open>Steps keep the campaign on track\<close>

lemma run_to_checkpoint_inv:
  assumes "on_track (sq_manifest st)" and "cm_current_index (sq_manifest st) = int k"
    and "k < length (cm_session_records (sq_manifest st))" and "runner_ok rn"
    and "run_to_checkpoint rn now (cm_session_records (sq_manifest st) ! k) st = Inr (s, st', h)"
  shows "seq_inv st'" and "cm_current_index (sq_manifest st') = int k"
    and "cm_session_records (sq_manifest st') = (cm_session_records (sq_manifest st))[k := s]"
    and "sr_phase s = phase_value (if h then HALTED_ON_GATE else DONE)"
    and "sr_sequence_index s = int k" and "h = (first_stopping_walk_gate s \<noteq> None)"
    and "cm_org_id (sq_manifest st') = cm_org_id (sq_manifest st)"
proof -
  let ?rs = "cm_session_records (sq_manifest st)"
  define r0 where "r0 = (if sr_started_at (?rs ! k) = PNone then (?rs ! k)\<lparr>sr_started_at := PStr now\<rparr> else ?rs ! k)"
  note tr = on_trackD [OF assms(1,3)]
  from assms(5) obtain r1 p where r1: "rn_run rn r0 = Inr (r1, p)" and
    cases: "h = (first_stopping_walk_gate r1 \<noteq> None)"
      "s = set_phase now (if h then HALTED_ON_GATE else DONE)
             (if h then r1\<lparr>sr_progress := Some p\<rparr> else r1\<lparr>sr_progress := Some p, sr_complete_gate := True\<rparr>)"
      "st' = checkpoint now (put_record (int k) s st)"
    by (auto simp: run_to_checkpoint_def Let_def r0_def assms(2) result_simps split: if_split_asm)
  have r0: "session_record_ok r0" "sr_sequence_index r0 = int k" using tr by (simp_all add: r0_def)
  with r1 assms(4) have r1ok: "session_record_ok r1" "sr_sequence_index r1 = int k"
    unfolding runner_ok_def by metis+
  show idx: "cm_current_index (sq_manifest st') = int k" by (simp add: cases assms(2))
  show recs: "cm_session_records (sq_manifest st') = ?rs[k := s]" by (simp add: cases)
  show ph: "sr_phase s = phase_value (if h then HALTED_ON_GATE else DONE)" by (simp add: cases)
  show sq: "sr_sequence_index s = int k" by (simp add: cases r1ok)
  show g: "h = (first_stopping_walk_gate s \<noteq> None)" by (simp add: cases)
  show "cm_org_id (sq_manifest st') = cm_org_id (sq_manifest st)" by (simp add: cases put_record_def)
  have "records_on_track (?rs[k := s]) k"
    using assms(1,2,3) sq ph g r1ok
    by (intro records_on_track_update [where p = "if h then HALTED_ON_GATE else DONE"])
      (auto simp: on_track_def cases)
  then have "on_track (sq_manifest (put_record (int k) s st))" using assms(2) by (simp add: on_track_def)
  then show "seq_inv st'" by (simp add: cases)
qed

lemma advance_inv:
  assumes "on_track (sq_manifest st)" and "cm_current_index (sq_manifest st) = int k"
    and "k < length (cm_session_records (sq_manifest st))"
    and "sr_phase (cm_session_records (sq_manifest st) ! k) = phase_value DONE"
    and "sr_sequence_index r = int k"
  obtains st' where "advance_to_next_session now r st = Continue st'" and "seq_inv st'"
    and "cm_current_index (sq_manifest st') = int (Suc k)"
    and "length (cm_session_records (sq_manifest st')) = length (cm_session_records (sq_manifest st))"
    and "\<And>i. i \<le> k \<Longrightarrow> cm_session_records (sq_manifest st') ! i = cm_session_records (sq_manifest st) ! i"
    and "Suc k < length (cm_session_records (sq_manifest st)) \<Longrightarrow>
      sr_phase (cm_session_records (sq_manifest st') ! Suc k) = phase_value PREPARE_FIXTURE"
proof -
  let ?m = "sq_manifest st"
  let ?rs = "cm_session_records ?m"
  define st1 where "st1 = st\<lparr>sq_manifest := ?m\<lparr>cm_current_index := int (Suc k)\<rparr>\<rparr>"
  have adv: "records_on_track ?rs (Suc k)"
    using records_on_track_advance [of ?rs k] assms(1-4) by (simp add: on_track_def)
  show thesis
  proof (cases "Suc k < length ?rs")
    case False
    have "advance_to_next_session now r st = Continue (checkpoint now st1)"
      using False assms(2,5) by (simp add: advance_to_next_session_def Let_def st1_def add.commute)
    moreover have "on_track (sq_manifest st1)" using adv by (simp add: on_track_def st1_def nat_add_distrib)
    ultimately show thesis using False by (intro that [of "checkpoint now st1"]) (simp_all add: st1_def)
  next
    case True
    define nxt where "nxt = (?rs ! Suc k)\<lparr>sr_org_id := PStr (cm_org_id ?m)\<rparr>"
    have ph: "sr_phase nxt = phase_value PREPARE_FIXTURE"
      using on_trackD(3) [OF assms(1) True] assms(2) by (auto simp: nxt_def)
    define st2 where "st2 = checkpoint now (put_record (int (Suc k)) nxt st1)"
    have step: "advance_to_next_session now r st = Continue st2"
      using True assms(2,5) ph phase_of_string_value [of PREPARE_FIXTURE]
      by (simp add: advance_to_next_session_def Let_def st1_def st2_def nxt_def add.commute nat_add_distrib)
    have "sr_sequence_index nxt = int (Suc k)" "session_record_ok nxt"
      using on_trackD(1,2) [OF assms(1) True] by (simp_all add: nxt_def)
    with adv True ph have "records_on_track (?rs[Suc k := nxt]) (Suc k)"
      by (intro records_on_track_update [where p = PREPARE_FIXTURE]) simp_all
    then have "on_track (sq_manifest (put_record (int (Suc k)) nxt st1))"
      by (simp add: on_track_def st1_def nat_add_distrib)
    with step True ph show thesis
      by (intro that [of st2]) (simp_all add: st2_def st1_def nat_add_distrib)
  qed
qed

lemma prepare_inv:
  assumes "on_track (sq_manifest st)" and "cm_current_index (sq_manifest st) = int k"
    and "k < length (cm_session_records (sq_manifest st))" and "runner_ok rn"
    and "rn_prepare rn ((cm_session_records (sq_manifest st) ! k)\<lparr>sr_org_id := v\<rparr>) = Inr r"
  shows "seq_inv (checkpoint now (put_record (int k) (set_phase now RUN_SESSION r) st))"
proof -
  note tr = on_trackD [OF assms(1,3)]
  have "sr_sequence_index r = int k" "session_record_ok r"
    using assms(4,5) tr(1,2) unfolding runner_ok_def by (metis record_ok_sel(1) session_record.select_convs(1) session_record.surjective session_record.update_convs(10))+
  then have "records_on_track ((cm_session_records (sq_manifest st))[k := set_phase now RUN_SESSION r]) k"
    using assms(1-3) by (intro records_on_track_update [where p = RUN_SESSION]) (simp_all add: on_track_def)
  then show ?thesis using assms(2) by (simp add: on_track_def)
qed

text \<open>All that a turn of the loop can do to a campaign on track.\<close>

lemma seq_step_cases:
  assumes "seq_inv st" and "runner_ok rn"
  obtains (finished) "seq_step rn now st = Return st DoneState"
      "cm_current_index (sq_manifest st) = int (length (cm_session_records (sq_manifest st)))"
  | (raised) e where "seq_step rn now st = Raised st e"
  | (already_halted) k h where "seq_step rn now st = Return st (Halted h)"
      "cm_current_index (sq_manifest st) = int k" "k < length (cm_session_records (sq_manifest st))"
      "halted_descriptor (cm_session_records (sq_manifest st) ! k) = Inr h"
      "sr_phase (cm_session_records (sq_manifest st) ! k) = phase_value HALTED_ON_GATE"
  | (prepared) k r where "seq_step rn now st = Continue (checkpoint now (put_record (int k) r st))"
      "cm_current_index (sq_manifest st) = int k" "k < length (cm_session_records (sq_manifest st))"
      "sr_phase (cm_session_records (sq_manifest st) ! k) = phase_value PREPARE_FIXTURE"
      "sr_phase r = phase_value RUN_SESSION"
      "seq_inv (checkpoint now (put_record (int k) r st))"
  | (halts) k s st1 h where "seq_step rn now st = Return st1 (Halted h)"
      "cm_current_index (sq_manifest st) = int k" "k < length (cm_session_records (sq_manifest st))"
      "sr_phase (cm_session_records (sq_manifest st) ! k) = phase_value RUN_SESSION"
      "run_to_checkpoint rn now (cm_session_records (sq_manifest st) ! k) st = Inr (s, st1, True)"
      "halted_descriptor s = Inr h"
  | (completes) k s st1 st2 where "seq_step rn now st = Continue st2"
      "cm_current_index (sq_manifest st) = int k" "k < length (cm_session_records (sq_manifest st))"
      "sr_phase (cm_session_records (sq_manifest st) ! k) = phase_value RUN_SESSION"
      "run_to_checkpoint rn now (cm_session_records (sq_manifest st) ! k) st = Inr (s, st1, False)"
      "advance_to_next_session now s st1 = Continue st2"
  | (advances) k st2 where "seq_step rn now st = Continue st2"
      "cm_current_index (sq_manifest st) = int k" "k < length (cm_session_records (sq_manifest st))"
      "sr_phase (cm_session_records (sq_manifest st) ! k) = phase_value DONE"
      "advance_to_next_session now (cm_session_records (sq_manifest st) ! k) st = Continue st2"
proof -
  from assms(1) have tr: "on_track (sq_manifest st)" by (simp add: seq_inv_def)
  from tr show thesis
  proof (cases rule: current_session_cases)
    case finished
    with that(1) show thesis by (simp add: seq_step_def)
  next
    case (running k)
    let ?r = "cm_session_records (sq_manifest st) ! k"
    obtain p where p: "sr_phase ?r = phase_value p"
      and halt: "p = HALTED_ON_GATE \<Longrightarrow> first_stopping_walk_gate ?r \<noteq> None"
      using on_trackD(3) [OF tr running(3)] by blast
    have ps: "phase_of_string (sr_phase ?r) = Some p" by (simp add: p)
    show thesis
    proof (cases p)
      case PREPARE_FIXTURE
      show thesis
      proof (cases "rn_prepare rn (?r\<lparr>sr_org_id := PStr (cm_org_id (sq_manifest st))\<rparr>)")
        case (Inl e)
        with running ps PREPARE_FIXTURE raised show thesis by (simp add: seq_step_def)
      next
        case (Inr r)
        from prepare_inv [OF tr running(2,3) assms(2) this] running ps p PREPARE_FIXTURE Inr show thesis
          by (intro prepared [of k "set_phase now RUN_SESSION r"]) (simp_all add: seq_step_def)
      qed
    next
      case RUN_SESSION
      show thesis
      proof (cases "run_to_checkpoint rn now ?r st")
        case (Inl e)
        with running ps RUN_SESSION raised show thesis by (simp add: seq_step_def)
      next
        case (Inr x)
        obtain s st1 h where x: "x = (s, st1, h)" by (cases x)
        note rc = run_to_checkpoint_inv [OF tr running(2,3) assms(2) Inr [unfolded x]]
        show thesis
        proof (cases h)
          case True
          with rc(6) obtain g where "first_stopping_walk_gate s = Some g" by auto
          then obtain d where d: "halted_descriptor s = Inr d" by (simp add: halted_descriptor_def)
          with running ps p RUN_SESSION Inr x True show thesis
            by (intro halts [of st1 d k s]) (simp_all add: seq_step_def)
        next
          case False
          from rc(1) have "on_track (sq_manifest st1)" by (simp add: seq_inv_def)
          then obtain st2 where "advance_to_next_session now s st1 = Continue st2"
            by (rule advance_inv [of st1 k s now]) (use rc running(3) False in simp_all)
          with running ps p RUN_SESSION Inr x False show thesis
            by (intro completes [of st2 k s st1]) (simp_all add: seq_step_def)
        qed
      qed
    next
      case HALTED_ON_GATE
      with halt obtain g where "first_stopping_walk_gate ?r = Some g" by auto
      then obtain d where "halted_descriptor ?r = Inr d" by (simp add: halted_descriptor_def)
      with running ps p HALTED_ON_GATE show thesis
        by (intro already_halted [of d k]) (simp_all add: seq_step_def)
    next
      case DONE
      obtain st2 where "advance_to_next_session now ?r st = Continue st2"
        by (rule advance_inv [OF tr running(2,3), of ?r now]) (use p DONE on_trackD(1) [OF tr running(3)] in simp_all)
      with running ps p DONE show thesis
        by (intro advances [of st2 k]) (simp_all add: seq_step_def)
    qed
  qed
qed

section \<open>A campaign of one session\<close>

definition sample_manifest :: cumulative_manifest where
  "sample_manifest = \<lparr>cm_created_at = ''t'', cm_task = ''k'', cm_org_id = ''o'',
     cm_roster = take 1 sample_roster, cm_roster_hash = ''h'', cm_seed = 7, cm_config_fingerprint = ''c'',
     cm_schedule = [\<lparr>sc_sequence_index = 0, sc_model = ''a'', sc_provider_pin = ''p'',
        sc_memory_mode = ''off'', sc_phase_group = ''off_baseline'', sc_roster_index = 0\<rparr>],
     cm_session_records = [new_session_record 0 ''a'' ''p'' ''off'' ''off_baseline''
        (phase_value PREPARE_FIXTURE) (PStr ''o'')],
     cm_current_index = 0, cm_updated_at = ''t'', cm_schema_version = 1, cm_run_context = None,
     cm_chunk_plan_hash = []\<rparr>"

definition sample_seq :: seq_state where
  "sample_seq = \<lparr>sq_manifest = sample_manifest, sq_disk = PDict (manifest_to_dict sample_manifest)\<rparr>"

definition sample_plan :: campaign_plan where
  "sample_plan = \<lparr>cp_roster = take 1 sample_roster, cp_seed = 7, cp_task = ''k'', cp_org_id = ''o'',
     cp_config_fingerprint = ''c'', cp_on_budget = 0, cp_run_context = None, cp_chunk_plan_hash = []\<rparr>"

definition sample_runner :: runner where
  "sample_runner = \<lparr>rn_prepare = Inr, rn_run = (\<lambda>r. Inr (r, [(''turns'', PInt 3)]))\<rparr>"

definition failing_runner :: runner where
  "failing_runner = sample_runner\<lparr>rn_run := (\<lambda>r.
     Inr (r\<lparr>sr_walk_gates := [mk_walk_gate 1 ''injection'' ''fail'' [] True [] []]\<rparr>, []))\<rparr>"

lemma sample_seq_inv: "seq_inv sample_seq"
  by (auto simp: seq_inv_def sample_seq_def on_track_def records_on_track_def sample_manifest_def
      new_session_record_def session_record_ok_def intro!: exI [of _ PREPARE_FIXTURE])

lemma sample_runner_ok: "runner_ok sample_runner" "runner_ok failing_runner"
  by (simp_all add: runner_ok_def sample_runner_def failing_runner_def session_record_ok_def)

lemmas sequencer_run_defs = seq_step_def current_session_def run_to_checkpoint_def
  first_stopping_walk_gate_def advance_to_next_session_def put_record_def checkpoint_def set_phase_def
  phase_of_string_def halted_descriptor_def

lemma sample_runs_to_done:
  "\<exists>st'. step_until_done (\<lambda>_. sample_runner) ''u'' 3 sample_seq = Some (Return st' DoneState)"
  by (simp add: numeral_3_eq_3 sequencer_run_defs sample_seq_def sample_manifest_def sample_runner_def
      new_session_record_def Let_def)

lemma failing_run_halts:
  "\<exists>st' h. step_until_done (\<lambda>_. failing_runner) ''u'' 3 sample_seq = Some (Return st' (Halted h))"
  by (simp add: numeral_3_eq_3 sequencer_run_defs sample_seq_def sample_manifest_def sample_runner_def
      failing_runner_def mk_walk_gate_def new_session_record_def Let_def)

lemma sample_restart:
  "sequencer_new rp (\<lambda>_. ''h'') sample_draw ''v'' sample_plan (Some (sq_disk sample_seq)) = Inr sample_seq"
proof -
  have "manifest_ok sample_manifest"
    using on_track_manifest_ok sample_seq_inv by (simp add: seq_inv_def sample_seq_def)
  then have l: "load_manifest rp (sq_disk sample_seq) = Inr sample_manifest"
    by (simp add: load_manifest_def sample_seq_def manifest_codec.dec_enc)
  show ?thesis
    unfolding sequencer_new_def resume_or_create_def option.case l
    by (simp add: sample_plan_def build_schedule_def build_off_order_def build_on_order_def
        sample_roster_def validate_or_fail_def CUMULATIVE_SCHEMA_VERSION_def sample_manifest_def
        sample_seq_def Let_def)
qed

section \<open>Termination and results of the loop\<close>

definition work_left :: "seq_state \<Rightarrow> nat" where
  "work_left st =
     (let rs = cm_session_records (sq_manifest st); k = nat (cm_current_index (sq_manifest st))
      in 2 * (length rs - k)
           - (if k < length rs \<and> sr_phase (rs ! k) \<noteq> phase_value PREPARE_FIXTURE then 1 else 0))"

lemma work_left_advance:
  assumes "cm_current_index (sq_manifest st) = int k" and "k < length (cm_session_records (sq_manifest st))"
    and "cm_current_index (sq_manifest st') = int (Suc k)"
    and "length (cm_session_records (sq_manifest st')) = length (cm_session_records (sq_manifest st))"
  shows "work_left st' < work_left st"
proof -
  have "work_left st' \<le> 2 * (length (cm_session_records (sq_manifest st)) - Suc k)"
    using assms(3,4) unfolding work_left_def Let_def by (simp add: nat_add_distrib)
  moreover have "2 * (length (cm_session_records (sq_manifest st)) - k) - 1 \<le> work_left st"
    using assms(1) unfolding work_left_def Let_def by simp
  ultimately show ?thesis using assms(2) by linarith
qed

lemma seq_step_Continue:
  assumes "seq_inv st" and "runner_ok rn" and "seq_step rn now st = Continue st'"
  shows "seq_inv st'" and "work_left st' < work_left st"
    and "cm_current_index (sq_manifest st) \<le> cm_current_index (sq_manifest st')"
    and "length (cm_session_records (sq_manifest st')) = length (cm_session_records (sq_manifest st))"
    and "i < length (cm_session_records (sq_manifest st)) \<Longrightarrow>
      sr_phase (cm_session_records (sq_manifest st) ! i) = phase_value DONE \<Longrightarrow>
      cm_session_records (sq_manifest st') ! i = cm_session_records (sq_manifest st) ! i"
proof -
  let ?rs = "cm_session_records (sq_manifest st)" and ?rs' = "cm_session_records (sq_manifest st')"
  let ?k = "nat (cm_current_index (sq_manifest st))"
  from assms(1) have tr: "on_track (sq_manifest st)" by (simp add: seq_inv_def)
  have done_le: "i < length ?rs \<Longrightarrow> sr_phase (?rs ! i) = phase_value DONE \<Longrightarrow> i \<le> ?k" for i
    using on_trackD(3) [OF tr, of i] by (metis linorder_not_less phase_value_inj session_phase.distinct(5))
  have "seq_inv st' \<and> work_left st' < work_left st \<and>
      cm_current_index (sq_manifest st) \<le> cm_current_index (sq_manifest st') \<and>
      length ?rs' = length ?rs \<and>
      (\<forall>i < length ?rs. sr_phase (?rs ! i) = phase_value DONE \<longrightarrow> ?rs' ! i = ?rs ! i)"
    using assms(1,2)
  proof (cases rule: seq_step_cases [where now = now])
    case (prepared k r)
    with assms(3) have st': "st' = checkpoint now (put_record (int k) r st)" by simp
    have "?rs ! i \<noteq> ?rs ! k" if "sr_phase (?rs ! i) = phase_value DONE" for i
      using that prepared(4) by (metis phase_value_inj session_phase.distinct(5))
    then have "\<forall>i < length ?rs. sr_phase (?rs ! i) = phase_value DONE \<longrightarrow> ?rs' ! i = ?rs ! i"
      by (metis st' checkpoint_sel(1) nat_int nth_list_update_neq put_record_sel(1))
    then show ?thesis
      using prepared(2-6) phase_value_inj [of RUN_SESSION PREPARE_FIXTURE]
      by (simp add: st' work_left_def Let_def del: phase_value.simps)
  next
    case (completes k s st1 st2)
    note rc = run_to_checkpoint_inv [OF tr completes(2,3) assms(2) completes(5)]
    from rc(1) have tr1: "on_track (sq_manifest st1)" by (simp add: seq_inv_def)
    from rc completes(3) have d: "sr_phase (cm_session_records (sq_manifest st1) ! k) = phase_value DONE"
      and kl: "k < length (cm_session_records (sq_manifest st1))" by simp_all
    from assms(3) completes(1,6) have adv: "advance_to_next_session now s st1 = Continue st'" by simp
    obtain st3 where a: "advance_to_next_session now s st1 = Continue st3" "seq_inv st3"
      "cm_current_index (sq_manifest st3) = int (Suc k)"
      "length (cm_session_records (sq_manifest st3)) = length (cm_session_records (sq_manifest st1))"
      "\<And>i. i \<le> k \<Longrightarrow> cm_session_records (sq_manifest st3) ! i = cm_session_records (sq_manifest st1) ! i"
      "Suc k < length (cm_session_records (sq_manifest st1)) \<Longrightarrow>
        sr_phase (cm_session_records (sq_manifest st3) ! Suc k) = phase_value PREPARE_FIXTURE"
      by (rule advance_inv [OF tr1 rc(2) kl d rc(5), of now]) (rule that; blast)
    have st3: "st3 = st'" using a(1) adv by simp
    have len: "length ?rs' = length ?rs" using a(4) rc(3) by (simp add: st3)
    have "\<forall>i < length ?rs. sr_phase (?rs ! i) = phase_value DONE \<longrightarrow> ?rs' ! i = ?rs ! i"
    proof (intro allI impI)
      fix i
      assume i: "i < length ?rs" "sr_phase (?rs ! i) = phase_value DONE"
      with done_le completes(2) have "i \<le> k" by force
      moreover have "i \<noteq> k" using i(2) completes(4) phase_value_inj [of DONE RUN_SESSION] by auto
      ultimately show "?rs' ! i = ?rs ! i" using a(5) rc(3) by (simp add: st3)
    qed
    moreover have "work_left st' < work_left st"
      using a(3,6) rc(3) by (intro work_left_advance [OF completes(2,3)]) (simp_all add: st3 len)
    ultimately show ?thesis using a(2,3) len completes(2) by (simp add: st3)
  next
    case (advances k st2)
    from assms(3) advances(1,5) have adv: "advance_to_next_session now (?rs ! k) st = Continue st'" by simp
    obtain st3 where a: "advance_to_next_session now (?rs ! k) st = Continue st3" "seq_inv st3"
      "cm_current_index (sq_manifest st3) = int (Suc k)" "length (cm_session_records (sq_manifest st3)) = length ?rs"
      "\<And>i. i \<le> k \<Longrightarrow> cm_session_records (sq_manifest st3) ! i = ?rs ! i"
      "Suc k < length ?rs \<Longrightarrow>
        sr_phase (cm_session_records (sq_manifest st3) ! Suc k) = phase_value PREPARE_FIXTURE"
      by (rule advance_inv [OF tr advances(2-4) on_trackD(1) [OF tr advances(3)], of now])
        (rule that; blast)
    have st3: "st3 = st'" using a(1) adv by simp
    have "\<forall>i < length ?rs. sr_phase (?rs ! i) = phase_value DONE \<longrightarrow> ?rs' ! i = ?rs ! i"
      using done_le advances(2) a(5) by (force simp: st3)
    moreover have "work_left st' < work_left st"
      using a(3,4,6) by (intro work_left_advance [OF advances(2,3)]) (simp_all add: st3)
    ultimately show ?thesis using a(2-4) advances(2) by (simp add: st3)
  qed (use assms(3) in simp_all)
  then show "seq_inv st'" and "work_left st' < work_left st"
    and "cm_current_index (sq_manifest st) \<le> cm_current_index (sq_manifest st')"
    and "length ?rs' = length ?rs"
    and "i < length ?rs \<Longrightarrow> sr_phase (?rs ! i) = phase_value DONE \<Longrightarrow> ?rs' ! i = ?rs ! i"
    by blast+
qed

lemma step_until_done_terminates:
  assumes "seq_inv st" and "\<And>k. runner_ok (rns k)" and "work_left st < fuel"
  shows "step_until_done rns now fuel st \<noteq> None"
  using assms(1,3)
proof (induction fuel arbitrary: st)
  case 0
  then show ?case by simp
next
  case (Suc fuel)
  show ?case
  proof (cases "seq_step (rns fuel) now st")
    case (Continue st')
    with Suc.IH [of st'] Suc.prems seq_step_Continue(1,2) [OF Suc.prems(1) assms(2) Continue]
    show ?thesis by simp
  qed simp_all
qed

text \<open>C10. A campaign always comes to an end: from any state on track, with at most two turns per
  remaining session and one more, the loop returns or raises; it never runs on.\<close>

theorem campaign_terminates:
  assumes "seq_inv st" and "\<And>k. runner_ok (rns k)"
    and "2 * length (cm_session_records (sq_manifest st)) < fuel"
  shows "\<exists>r. step_until_done rns now fuel st = Some r \<and> (\<forall>st'. r \<noteq> Continue st')"
proof -
  have "work_left st < fuel" using assms(3) by (simp add: work_left_def Let_def)
  with step_until_done_terminates [OF assms(1), of rns fuel now] assms(2) obtain r where r: "step_until_done rns now fuel st = Some r"
    by blast
  have "step_until_done rns now n s = Some r \<Longrightarrow> \<forall>st'. r \<noteq> Continue st'" for n s
    by (induction n arbitrary: s) (auto split: seq_result.splits)
  with r show ?thesis by blast
qed

theorem campaign_terminates_witness:
  "\<exists>r. step_until_done (\<lambda>_. sample_runner) ''u'' 3 sample_seq = Some r \<and> (\<forall>st'. r \<noteq> Continue st')"
  by (rule campaign_terminates [OF sample_seq_inv sample_runner_ok(1)])
    (simp add: sample_seq_def sample_manifest_def)

lemma step_until_done_results:
  assumes "seq_inv st" and "\<And>k. runner_ok (rns k)" and "step_until_done rns now fuel st = Some r"
  shows "\<exists>st0 rn. seq_inv st0 \<and> runner_ok rn \<and> seq_step rn now st0 = r \<and>
     length (cm_session_records (sq_manifest st0)) = length (cm_session_records (sq_manifest st))"
  using assms(1,3)
proof (induction fuel arbitrary: st)
  case 0
  then show ?case by simp
next
  case (Suc fuel)
  show ?case
  proof (cases "seq_step (rns fuel) now st")
    case (Continue st')
    note c = seq_step_Continue(1,4) [OF Suc.prems(1) assms(2) Continue]
    from Suc.IH [OF c(1)] Suc.prems(2) Continue c(2) show ?thesis by simp
  qed (use Suc.prems assms(2) in auto)
qed

lemma campaign_result_sound_parts:
  assumes "seq_inv st" and "\<And>k. runner_ok (rns k)"
    and "step_until_done rns now fuel st = Some (Return st' oc)"
  shows "sq_disk st' = PDict (manifest_to_dict (sq_manifest st'))"
    and "oc = DoneState \<Longrightarrow> r \<in> set (cm_session_records (sq_manifest st')) \<Longrightarrow>
      sr_phase r = phase_value DONE \<and> sr_complete_gate r"
    and "oc = Halted h \<Longrightarrow> \<exists>k < length (cm_session_records (sq_manifest st')).
      let rs = cm_session_records (sq_manifest st') in
      hg_sequence_index h = int k \<and> hg_verdict h = ''fail'' \<and>
      sr_phase (rs ! k) = phase_value HALTED_ON_GATE \<and>
      (\<exists>g \<in> set (sr_walk_gates (rs ! k)). wg_stops_walk g \<and> wg_verdict g = ''fail'' \<and>
         wg_gate g = hg_gate h \<and> wg_ordinal g = hg_ordinal h) \<and>
      (\<forall>i < k. sr_phase (rs ! i) = phase_value DONE) \<and>
      (\<forall>i < length rs. k < i \<longrightarrow> sr_phase (rs ! i) = phase_value PREPARE_FIXTURE)"
proof -
  from step_until_done_results [OF assms] obtain st0 rn where inv0: "seq_inv st0" and rn: "runner_ok rn"
    and step: "seq_step rn now st0 = Return st' oc" by blast
  have tr0: "on_track (sq_manifest st0)" using inv0 by (simp add: seq_inv_def)
  have halted: "\<exists>k < length (cm_session_records (sq_manifest s)).
      let rs = cm_session_records (sq_manifest s) in
      hg_sequence_index h = int k \<and> hg_verdict h = ''fail'' \<and>
      sr_phase (rs ! k) = phase_value HALTED_ON_GATE \<and>
      (\<exists>g \<in> set (sr_walk_gates (rs ! k)). wg_stops_walk g \<and> wg_verdict g = ''fail'' \<and>
         wg_gate g = hg_gate h \<and> wg_ordinal g = hg_ordinal h) \<and>
      (\<forall>i < k. sr_phase (rs ! i) = phase_value DONE) \<and>
      (\<forall>i < length rs. k < i \<longrightarrow> sr_phase (rs ! i) = phase_value PREPARE_FIXTURE)"
    if s: "seq_inv s" "cm_current_index (sq_manifest s) = int k" "k < length (cm_session_records (sq_manifest s))"
      "sr_phase (cm_session_records (sq_manifest s) ! k) = phase_value HALTED_ON_GATE"
      "halted_descriptor (cm_session_records (sq_manifest s) ! k) = Inr h" for s k h
  proof -
    from s(1) have tr: "on_track (sq_manifest s)" by (simp add: seq_inv_def)
    from s(5) obtain g where g: "g \<in> set (sr_walk_gates (cm_session_records (sq_manifest s) ! k))"
      "wg_verdict g = ''fail''" "wg_stops_walk g" "wg_gate g = hg_gate h" "wg_ordinal g = hg_ordinal h"
      "hg_verdict h = ''fail''"
      "hg_sequence_index h = sr_sequence_index (cm_session_records (sq_manifest s) ! k)"
      by (auto simp: halted_descriptor_def first_stopping_walk_gate_def split: option.splits
          dest!: find_SomeD)
    have "i < k \<Longrightarrow> sr_phase (cm_session_records (sq_manifest s) ! i) = phase_value DONE" for i
      using on_trackD(3) [OF tr, of i] s(2,3) by force
    moreover have "i < length (cm_session_records (sq_manifest s)) \<Longrightarrow> k < i \<Longrightarrow>
        sr_phase (cm_session_records (sq_manifest s) ! i) = phase_value PREPARE_FIXTURE" for i
      using on_trackD(3) [OF tr, of i] s(2) by force
    ultimately show ?thesis
      using s(3,4) g on_trackD(1) [OF tr s(3)] by (intro exI [of _ k]) (auto simp: Let_def)
  qed
  from inv0 rn show "sq_disk st' = PDict (manifest_to_dict (sq_manifest st'))"
  proof (cases rule: seq_step_cases [where now = now])
    case (halts k s st1 h)
    from run_to_checkpoint_inv(1) [OF tr0 halts(2,3) rn halts(5)] halts(1) step
    show ?thesis by (simp add: seq_inv_def)
  qed (use step inv0 in \<open>simp_all add: seq_inv_def\<close>)
  show "oc = DoneState \<Longrightarrow> r \<in> set (cm_session_records (sq_manifest st')) \<Longrightarrow>
      sr_phase r = phase_value DONE \<and> sr_complete_gate r"
  proof -
    assume "oc = DoneState" and r: "r \<in> set (cm_session_records (sq_manifest st'))"
    from inv0 rn this(1) step have "st' = st0"
      "cm_current_index (sq_manifest st0) = int (length (cm_session_records (sq_manifest st0)))"
      by (cases rule: seq_step_cases [where now = now]; simp)+
    with r on_trackD(3) [OF tr0] show ?thesis by (force simp: in_set_conv_nth)
  qed
  show "oc = Halted h \<Longrightarrow> \<exists>k < length (cm_session_records (sq_manifest st')).
      let rs = cm_session_records (sq_manifest st') in
      hg_sequence_index h = int k \<and> hg_verdict h = ''fail'' \<and>
      sr_phase (rs ! k) = phase_value HALTED_ON_GATE \<and>
      (\<exists>g \<in> set (sr_walk_gates (rs ! k)). wg_stops_walk g \<and> wg_verdict g = ''fail'' \<and>
         wg_gate g = hg_gate h \<and> wg_ordinal g = hg_ordinal h) \<and>
      (\<forall>i < k. sr_phase (rs ! i) = phase_value DONE) \<and>
      (\<forall>i < length rs. k < i \<longrightarrow> sr_phase (rs ! i) = phase_value PREPARE_FIXTURE)"
  proof -
    assume oc: "oc = Halted h"
    from inv0 rn show ?thesis
    proof (cases rule: seq_step_cases [where now = now])
      case (already_halted k h')
      with step oc halted [OF inv0, of k h] show ?thesis by simp
    next
      case (halts k s st1 h')
      note rc = run_to_checkpoint_inv [OF tr0 halts(2,3) rn halts(5)]
      have "st' = st1" "h' = h" using halts(1) step oc by simp_all
      with halted [OF rc(1,2), of h] rc(3,4) halts(3,6) show ?thesis by simp
    qed (use step oc in simp_all)
  qed
qed


text \<open>C9. What a returned campaign means: done means every session ran to completion with its gate
  complete; halted means the current session is checkpointed as halted with exactly the failing,
  walk-stopping gate that is described, every session before it is done and none after it was
  started; and the checkpoint on disk is the manifest in memory.\<close>

theorem campaign_result_sound:
  assumes "seq_inv st" and "\<And>k. runner_ok (rns k)"
    and "step_until_done rns now fuel st = Some (Return st' oc)"
  shows "(sq_disk st' = PDict (manifest_to_dict (sq_manifest st')))
     \<and> (oc = DoneState \<longrightarrow>
      r \<in> set (cm_session_records (sq_manifest st')) \<longrightarrow>
      (sr_phase r = phase_value DONE \<and> sr_complete_gate r))
     \<and> (oc = Halted h \<longrightarrow>
      (\<exists>k < length (cm_session_records (sq_manifest st')).
      let rs = cm_session_records (sq_manifest st') in
      hg_sequence_index h = int k \<and> hg_verdict h = ''fail'' \<and>
      sr_phase (rs ! k) = phase_value HALTED_ON_GATE \<and>
      (\<exists>g \<in> set (sr_walk_gates (rs ! k)). wg_stops_walk g \<and> wg_verdict g = ''fail'' \<and>
         wg_gate g = hg_gate h \<and> wg_ordinal g = hg_ordinal h) \<and>
      (\<forall>i < k. sr_phase (rs ! i) = phase_value DONE) \<and>
      (\<forall>i < length rs. k < i \<longrightarrow> sr_phase (rs ! i) = phase_value PREPARE_FIXTURE)))"
  using campaign_result_sound_parts [OF assms] by blast

theorem campaign_result_sound_witness:
  "\<exists>st' h. step_until_done (\<lambda>_. failing_runner) ''u'' 3 sample_seq = Some (Return st' (Halted h)) \<and>
     hg_verdict h = ''fail'' \<and> sq_disk st' = PDict (manifest_to_dict (sq_manifest st'))"
proof -
  obtain st' h where r: "step_until_done (\<lambda>_. failing_runner) ''u'' 3 sample_seq = Some (Return st' (Halted h))"
    using failing_run_halts by blast
  from campaign_result_sound [OF sample_seq_inv sample_runner_ok(2) r, where h = h] r
  show ?thesis by (auto simp: Let_def)
qed

section \<open>Resume\<close>

lemma fresh_records_on_track:
  assumes "map sc_sequence_index schedule = map int [0..<length schedule]"
  shows "records_on_track (fresh_records org schedule) 0"
proof -
  have "i < length schedule \<Longrightarrow> sc_sequence_index (schedule ! i) = int i" for i
    using arg_cong [OF assms, of "\<lambda>xs. xs ! i"] by simp
  then show ?thesis
    by (auto simp: records_on_track_def fresh_records_def new_session_record_def session_record_ok_def
        intro!: exI [of _ PREPARE_FIXTURE])
qed

text \<open>What the constructor does with a document it accepts.\<close>

lemma sequencer_new_cases:
  assumes "sequencer_new rp rh draw now plan disk = Inr st"
  obtains schedule m v where
    "build_schedule draw (cp_roster plan) (cp_seed plan) (rh (cp_roster plan)) (cp_on_budget plan) = Inr schedule"
    "resume_or_create rp rh now disk (cp_roster plan) (cp_seed plan) (cp_task plan) (cp_org_id plan)
       (cp_config_fingerprint plan) schedule (cp_run_context plan) (cp_chunk_plan_hash plan) = Inr (m, v)"
    "cm_org_id m = cp_org_id plan" "cm_config_fingerprint m = cp_config_fingerprint plan"
    "cm_schedule m = schedule"
    "st = (if cm_session_records m = [] then
             checkpoint now \<lparr>sq_manifest = m\<lparr>cm_session_records :=
               fresh_records (cp_org_id plan) schedule, cm_current_index := 0\<rparr>, sq_disk = v\<rparr>
           else \<lparr>sq_manifest = m, sq_disk = v\<rparr>)"
proof -
  from assms obtain schedule m v where *:
    "build_schedule draw (cp_roster plan) (cp_seed plan) (rh (cp_roster plan)) (cp_on_budget plan) = Inr schedule"
    "resume_or_create rp rh now disk (cp_roster plan) (cp_seed plan) (cp_task plan) (cp_org_id plan)
       (cp_config_fingerprint plan) schedule (cp_run_context plan) (cp_chunk_plan_hash plan) = Inr (m, v)"
    "cm_org_id m = cp_org_id plan" "cm_config_fingerprint m = cp_config_fingerprint plan"
    "map scheduled_to_dict (cm_schedule m) = map scheduled_to_dict schedule"
    "st = (if cm_session_records m = [] then
             checkpoint now \<lparr>sq_manifest = m\<lparr>cm_session_records :=
               fresh_records (cp_org_id plan) (cm_schedule m), cm_current_index := 0\<rparr>, sq_disk = v\<rparr>
           else \<lparr>sq_manifest = m, sq_disk = v\<rparr>)"
    by (auto simp: sequencer_new_def result_simps Let_def split: if_split_asm)
  have "cm_schedule m = schedule"
    by (rule scheduled_codec.enc_list_inj) (use *(5) in \<open>simp_all add: list_all_iff\<close>)
  with * show thesis by (intro that [of schedule m v]) simp_all
qed

lemma resume_manifest:
  assumes "on_track m" and "sequencer_new rp rh draw now plan (Some (PDict (manifest_to_dict m))) = Inr st"
  shows "seq_inv st" and "cm_current_index (sq_manifest st) = cm_current_index m"
    and "cm_session_records m \<noteq> [] \<Longrightarrow> st = \<lparr>sq_manifest = m, sq_disk = PDict (manifest_to_dict m)\<rparr>"
proof -
  from assms(2) obtain schedule m' v where b:
    "build_schedule draw (cp_roster plan) (cp_seed plan) (rh (cp_roster plan)) (cp_on_budget plan) = Inr schedule"
    and r: "resume_or_create rp rh now (Some (PDict (manifest_to_dict m))) (cp_roster plan) (cp_seed plan)
       (cp_task plan) (cp_org_id plan) (cp_config_fingerprint plan) schedule (cp_run_context plan)
       (cp_chunk_plan_hash plan) = Inr (m', v)"
    and st: "st = (if cm_session_records m' = [] then
             checkpoint now \<lparr>sq_manifest = m'\<lparr>cm_session_records :=
               fresh_records (cp_org_id plan) schedule, cm_current_index := 0\<rparr>, sq_disk = v\<rparr>
           else \<lparr>sq_manifest = m', sq_disk = v\<rparr>)"
    by (rule sequencer_new_cases)
  have "manifest_from_dict rp (manifest_to_dict m) = Inr m"
    using manifest_codec.dec_enc on_track_manifest_ok [OF assms(1)] by blast
  with r have m': "m' = m" and v: "v = PDict (manifest_to_dict m)"
    by (auto simp: resume_or_create_def load_manifest_def result_simps)
  show "cm_session_records m \<noteq> [] \<Longrightarrow> st = \<lparr>sq_manifest = m, sq_disk = PDict (manifest_to_dict m)\<rparr>"
    by (simp add: st m' v)
  have empty: "cm_session_records m = [] \<Longrightarrow> cm_current_index m = 0"
    using assms(1) by (simp add: on_track_def records_on_track_def)
  then show "cm_current_index (sq_manifest st) = cm_current_index m" by (simp add: st m')
  show "seq_inv st"
    using assms(1) fresh_records_on_track [OF build_schedule_indices [OF b]]
    by (simp add: st m' v seq_inv_def [of "\<lparr>sq_manifest = _, sq_disk = _\<rparr>"] on_track_def)
qed

lemma resume_is_exact_and_guarded_parts:
  assumes "sequencer_new rp rh draw now plan (Some disk) = Inr st"
  shows "seq_inv st0 \<Longrightarrow> disk = sq_disk st0 \<Longrightarrow> cm_session_records (sq_manifest st0) \<noteq> [] \<Longrightarrow> st = st0"
    and "\<exists>m schedule. load_manifest rp disk = Inr m \<and>
      build_schedule draw (cp_roster plan) (cp_seed plan) (rh (cp_roster plan)) (cp_on_budget plan) = Inr schedule \<and>
      cm_schema_version m = CUMULATIVE_SCHEMA_VERSION \<and> cm_roster_hash m = rh (cp_roster plan) \<and>
      cm_seed m = cp_seed plan \<and> cm_task m = cp_task plan \<and>
      cm_chunk_plan_hash m = cp_chunk_plan_hash plan \<and> cm_org_id m = cp_org_id plan \<and>
      cm_config_fingerprint m = cp_config_fingerprint plan \<and> cm_schedule m = schedule"
proof -
  show "seq_inv st0 \<Longrightarrow> disk = sq_disk st0 \<Longrightarrow> cm_session_records (sq_manifest st0) \<noteq> [] \<Longrightarrow> st = st0"
    using resume_manifest(3) [of "sq_manifest st0"] assms by (cases st0) (simp add: seq_inv_def)
  from assms obtain schedule m v where
    "build_schedule draw (cp_roster plan) (cp_seed plan) (rh (cp_roster plan)) (cp_on_budget plan) = Inr schedule"
    "resume_or_create rp rh now (Some disk) (cp_roster plan) (cp_seed plan) (cp_task plan) (cp_org_id plan)
       (cp_config_fingerprint plan) schedule (cp_run_context plan) (cp_chunk_plan_hash plan) = Inr (m, v)"
    "cm_org_id m = cp_org_id plan" "cm_config_fingerprint m = cp_config_fingerprint plan"
    "cm_schedule m = schedule"
    by (rule sequencer_new_cases)
  then show "\<exists>m schedule. load_manifest rp disk = Inr m \<and>
      build_schedule draw (cp_roster plan) (cp_seed plan) (rh (cp_roster plan)) (cp_on_budget plan) = Inr schedule \<and>
      cm_schema_version m = CUMULATIVE_SCHEMA_VERSION \<and> cm_roster_hash m = rh (cp_roster plan) \<and>
      cm_seed m = cp_seed plan \<and> cm_task m = cp_task plan \<and>
      cm_chunk_plan_hash m = cp_chunk_plan_hash plan \<and> cm_org_id m = cp_org_id plan \<and>
      cm_config_fingerprint m = cp_config_fingerprint plan \<and> cm_schedule m = schedule"
    by (auto simp: resume_or_create_def validate_or_fail_def result_simps split: if_split_asm)
qed




section \<open>Histories with crashes\<close>

text \<open>
  A campaign's history: turns of the loop, deaths of the process (in the middle of a turn, after
  the first of its two checkpoints, included) and restarts from the checkpoint on disk.
\<close>

inductive campaign_path ::
  "(pyval \<Rightarrow> string) \<Rightarrow> (roster_entry list \<Rightarrow> string) \<Rightarrow> seeded_draw \<Rightarrow> campaign_plan
     \<Rightarrow> seq_state \<Rightarrow> seq_state \<Rightarrow> bool" for rp rh draw plan where
  path_start: "campaign_path rp rh draw plan a a"
| path_turn: "campaign_path rp rh draw plan a b \<Longrightarrow> runner_ok rn \<Longrightarrow>
    seq_step rn now b = Continue c \<or> seq_step rn now b = Return c oc \<or> seq_step rn now b = Raised c e \<Longrightarrow>
    campaign_path rp rh draw plan a c"
| path_die_after_checkpoint: "campaign_path rp rh draw plan a b \<Longrightarrow> runner_ok rn \<Longrightarrow>
    current_session (sq_manifest b) = Inr (Some r) \<Longrightarrow> sr_phase r = phase_value RUN_SESSION \<Longrightarrow>
    run_to_checkpoint rn now r b = Inr (s, c, h) \<Longrightarrow> campaign_path rp rh draw plan a c"
| path_restart: "campaign_path rp rh draw plan a b \<Longrightarrow>
    sequencer_new rp rh draw now plan (Some (sq_disk b)) = Inr c \<Longrightarrow> campaign_path rp rh draw plan a c"

inductive_cases campaign_pathE: "campaign_path rp rh draw plan a b"

text \<open>The order in which states of one campaign follow each other.\<close>

definition extends :: "seq_state \<Rightarrow> seq_state \<Rightarrow> bool" where
  "extends a b \<longleftrightarrow>
     cm_current_index (sq_manifest a) \<le> cm_current_index (sq_manifest b) \<and>
     length (cm_session_records (sq_manifest a)) \<le> length (cm_session_records (sq_manifest b)) \<and>
     (\<forall>i < length (cm_session_records (sq_manifest a)).
        sr_phase (cm_session_records (sq_manifest a) ! i) = phase_value DONE \<longrightarrow>
        cm_session_records (sq_manifest b) ! i = cm_session_records (sq_manifest a) ! i)"

lemma extends_refl: "extends a a"
  by (simp add: extends_def)

lemma extends_trans:
  assumes "extends a b" and "extends b c"
  shows "extends a c"
proof -
  from assms have "cm_current_index (sq_manifest a) \<le> cm_current_index (sq_manifest c)"
    "length (cm_session_records (sq_manifest a)) \<le> length (cm_session_records (sq_manifest c))"
    by (auto simp: extends_def)
  moreover have "cm_session_records (sq_manifest c) ! i = cm_session_records (sq_manifest a) ! i"
    if "i < length (cm_session_records (sq_manifest a))"
      "sr_phase (cm_session_records (sq_manifest a) ! i) = phase_value DONE" for i
    using that assms unfolding extends_def by (metis order_less_le_trans)
  ultimately show ?thesis by (simp add: extends_def)
qed

lemma run_to_checkpoint_extends:
  assumes "seq_inv b" and "runner_ok rn" and "cm_current_index (sq_manifest b) = int k"
    and "k < length (cm_session_records (sq_manifest b))"
    and "sr_phase (cm_session_records (sq_manifest b) ! k) = phase_value RUN_SESSION"
    and "run_to_checkpoint rn now (cm_session_records (sq_manifest b) ! k) b = Inr (s, c, h)"
  shows "seq_inv c \<and> extends b c"
proof -
  from assms(1) have "on_track (sq_manifest b)" by (simp add: seq_inv_def)
  note rc = run_to_checkpoint_inv [OF this assms(3,4,2,6)]
  have "cm_session_records (sq_manifest c) ! i = cm_session_records (sq_manifest b) ! i"
    if "sr_phase (cm_session_records (sq_manifest b) ! i) = phase_value DONE" for i
    using that rc(3) assms(5) phase_value_inj [of DONE RUN_SESSION] by (cases "i = k") auto
  with rc assms(3) show ?thesis by (simp add: extends_def)
qed

lemma turn_extends:
  assumes "seq_inv b" and "runner_ok rn"
    and "seq_step rn now b = Continue c \<or> seq_step rn now b = Return c oc \<or> seq_step rn now b = Raised c e"
  shows "seq_inv c \<and> extends b c"
proof (cases "seq_step rn now b = Continue c")
  case True
  from seq_step_Continue [OF assms(1,2) this] show ?thesis by (simp add: extends_def)
next
  case False
  from assms(1,2) show ?thesis
  proof (cases rule: seq_step_cases [where now = now])
    case (halts k s st1 h)
    from run_to_checkpoint_extends [OF assms(1,2) halts(2-5)] halts(1) assms(3) show ?thesis by simp
  qed (use assms False in \<open>simp_all add: extends_refl\<close>)
qed

lemma completed_sessions_are_final_parts:
  assumes "campaign_path rp rh draw plan a b" and "seq_inv a"
  shows "seq_inv b" and "cm_current_index (sq_manifest a) \<le> cm_current_index (sq_manifest b)"
    and "i < length (cm_session_records (sq_manifest a)) \<Longrightarrow>
      sr_phase (cm_session_records (sq_manifest a) ! i) = phase_value DONE \<Longrightarrow>
      cm_session_records (sq_manifest b) ! i = cm_session_records (sq_manifest a) ! i"
proof -
  from assms have "seq_inv b \<and> extends a b"
  proof (induction rule: campaign_path.induct)
    case (path_start a)
    then show ?case by (simp add: extends_refl)
  next
    case (path_turn a b rn now c oc e)
    with turn_extends [of b rn now c oc e] show ?case by (blast intro: extends_trans)
  next
    case (path_die_after_checkpoint a b rn r now s c h)
    then have inv: "seq_inv b" "extends a b" by blast+
    then have "on_track (sq_manifest b)" by (simp add: seq_inv_def)
    then obtain k where k: "cm_current_index (sq_manifest b) = int k"
      "k < length (cm_session_records (sq_manifest b))" "r = cm_session_records (sq_manifest b) ! k"
      using path_die_after_checkpoint(3) by (cases rule: current_session_cases) auto
    from run_to_checkpoint_extends [OF inv(1) path_die_after_checkpoint(2) k(1,2)] inv(2)
      path_die_after_checkpoint(4,5) k(3)
    show ?case by (blast intro: extends_trans)
  next
    case (path_restart a b now c)
    then have inv: "seq_inv b" "extends a b" by blast+
    then have tr: "on_track (sq_manifest b)" and d: "sq_disk b = PDict (manifest_to_dict (sq_manifest b))"
      by (simp_all add: seq_inv_def)
    note r = resume_manifest [OF tr path_restart(2) [unfolded d]]
    have "extends b c"
      using r(2,3) by (cases "cm_session_records (sq_manifest b) = []") (simp_all add: extends_def)
    with r(1) inv show ?case by (blast intro: extends_trans)
  qed
  then show "seq_inv b" and "cm_current_index (sq_manifest a) \<le> cm_current_index (sq_manifest b)"
    and "i < length (cm_session_records (sq_manifest a)) \<Longrightarrow>
      sr_phase (cm_session_records (sq_manifest a) ! i) = phase_value DONE \<Longrightarrow>
      cm_session_records (sq_manifest b) ! i = cm_session_records (sq_manifest a) ! i"
    by (auto simp: extends_def)
qed


text \<open>C3. Completed sessions are final: whatever the process does or wherever it dies, in every history
  of a campaign the current index never moves back, and a session once checkpointed as done is
  never run again, its record, telemetry and gates staying exactly as they were.\<close>

theorem completed_sessions_are_final:
  assumes "campaign_path rp rh draw plan a b" and "seq_inv a"
  shows "(seq_inv b)
     \<and> (cm_current_index (sq_manifest a) \<le> cm_current_index (sq_manifest b))
     \<and> (i < length (cm_session_records (sq_manifest a)) \<longrightarrow>
      sr_phase (cm_session_records (sq_manifest a) ! i) = phase_value DONE \<longrightarrow>
      cm_session_records (sq_manifest b) ! i = cm_session_records (sq_manifest a) ! i)"
  using completed_sessions_are_final_parts [OF assms] by blast

theorem completed_sessions_are_final_witness:
  "\<exists>st. campaign_path (\<lambda>_. []) (\<lambda>_. ''h'') sample_draw sample_plan sample_seq st \<and> seq_inv st"
  using completed_sessions_are_final [OF path_restart [OF path_start sample_restart] sample_seq_inv]
    path_restart [OF path_start sample_restart] by blast

end
