(* ===== verification/Progress_Vector.thy ===== *)
theory Progress_Vector
  imports Cumulative_Types
begin

text \<open>
  \<open>ProgressVector\<close> of \<open>wevibe_bench/cumulative/types.py\<close> with its normalisation of missing
  telemetry, its JSON form, and \<open>progress_from_cell_result\<close> of \<open>progress.py\<close>, which maps the
  telemetry of a cell (taken as a mapping) into it.  \<open>None\<close> means that a figure is unavailable,
  never that it is zero.
\<close>

section \<open>Missing telemetry\<close>

definition CONSTRUCTION_DEFERRED_TELEMETRY_SEAMS :: "string list" where
  "CONSTRUCTION_DEFERRED_TELEMETRY_SEAMS =
    [''consumer_injected_count'', ''extraction_candidate_count'', ''accepted_count'',
     ''rejected_count'', ''http_429_count'', ''http_402_count'', ''retry_count'',
     ''upstream_error_count'', ''wall_near_timeout'']"

definition ON_ONLY_TELEMETRY_SEAMS :: "string list" where
  "ON_ONLY_TELEMETRY_SEAMS =
    [''injected_count'', ''injected_block_chars'', ''injected_block_est_tokens'',
     ''recall_fired_total'', ''recall_returned_total'', ''recall_returned_count_sum'',
     ''no_keywords_count'', ''served_attempted'', ''served_failed'', ''served_confirmed'',
     ''consumer_injected_count'', ''extraction_candidate_count'', ''accepted_count'',
     ''rejected_count'']"

text \<open>Append what a condition admits and is not there yet.\<close>

definition add_new :: "(string \<Rightarrow> bool) \<Rightarrow> string list \<Rightarrow> string \<Rightarrow> string list" where
  "add_new admits acc x = (if admits x \<and> x \<notin> set acc then acc @ [x] else acc)"

text \<open>\<open>_normalize_missing_telemetry_seams\<close>; \<open>unavailable\<close> lists the seam names in order, each with
  whether its value is \<open>None\<close>.  \<open>MISSING_TELEMETRY_SEAMS\<close> is empty in the source.\<close>

definition normalize_seams :: "string list \<Rightarrow> (string \<times> bool) list \<Rightarrow> string list \<Rightarrow> string list" where
  "normalize_seams provided seam_values excluded =
     foldl (add_new (\<lambda>s. s \<notin> set excluded))
       (foldl (add_new (\<lambda>s. s \<noteq> [] \<and> s \<notin> set excluded)) [] (map strip provided))
       (map fst (filter snd seam_values))"

section \<open>The vector\<close>

record progress_vector =
  pv_problems_before :: "int option"
  pv_problems_after :: "int option"
  pv_resolved_count :: "int option"
  pv_remaining_count :: "int option"
  pv_full_green :: bool
  pv_attempts_to_green :: "int option"
  pv_turns :: int
  pv_input_tokens :: int
  pv_output_tokens :: int
  pv_total_tokens :: int
  pv_wall_seconds :: real
  pv_wall_cost_usd :: real
  pv_injected_count :: "int option"
  pv_injected_block_chars :: "int option"
  pv_injected_block_est_tokens :: "int option"
  pv_recall_fired_total :: "int option"
  pv_recall_returned_total :: "int option"
  pv_recall_returned_count_sum :: "int option"
  pv_no_keywords_count :: "int option"
  pv_served_attempted :: "int option"
  pv_served_failed :: "int option"
  pv_served_confirmed :: "int option"
  pv_recall_return_rate :: "real option"
  pv_inject_yield :: "real option"
  pv_serve_success_rate :: "real option"
  pv_consumer_injected_count :: "int option"
  pv_extraction_candidate_count :: "int option"
  pv_accepted_count :: "int option"
  pv_rejected_count :: "int option"
  pv_rejected_reasons :: "string list"
  pv_memory_mode :: string
  pv_termination_reason :: string
  pv_failed_gates :: "string list"
  pv_tool_calls :: "int option"
  pv_test_invocations :: "int option"
  pv_agentic_cycles :: "int option"
  pv_http_429_count :: "int option"
  pv_http_402_count :: "int option"
  pv_retry_count :: "int option"
  pv_upstream_error_count :: "int option"
  pv_max_request_ms :: "int option"
  pv_median_request_ms :: "int option"
  pv_wall_near_timeout :: "bool option"
  pv_worker_image_id :: "string option"
  pv_worker_image_created :: "string option"
  pv_missing_telemetry_seams :: "string list"

definition seam_values :: "progress_vector \<Rightarrow> (string \<times> bool) list" where
  "seam_values p =
    [(''problems_before'', pv_problems_before p = None),
     (''problems_after'', pv_problems_after p = None),
     (''resolved_count'', pv_resolved_count p = None),
     (''remaining_count'', pv_remaining_count p = None),
     (''attempts_to_green'', pv_attempts_to_green p = None),
     (''injected_count'', pv_injected_count p = None),
     (''injected_block_chars'', pv_injected_block_chars p = None),
     (''injected_block_est_tokens'', pv_injected_block_est_tokens p = None),
     (''recall_fired_total'', pv_recall_fired_total p = None),
     (''recall_returned_total'', pv_recall_returned_total p = None),
     (''recall_returned_count_sum'', pv_recall_returned_count_sum p = None),
     (''no_keywords_count'', pv_no_keywords_count p = None),
     (''served_attempted'', pv_served_attempted p = None),
     (''served_failed'', pv_served_failed p = None),
     (''served_confirmed'', pv_served_confirmed p = None),
     (''consumer_injected_count'', pv_consumer_injected_count p = None),
     (''extraction_candidate_count'', pv_extraction_candidate_count p = None),
     (''accepted_count'', pv_accepted_count p = None),
     (''rejected_count'', pv_rejected_count p = None), (''tool_calls'', pv_tool_calls p = None),
     (''test_invocations'', pv_test_invocations p = None),
     (''agentic_cycles'', pv_agentic_cycles p = None),
     (''http_429_count'', pv_http_429_count p = None),
     (''http_402_count'', pv_http_402_count p = None), (''retry_count'', pv_retry_count p = None),
     (''upstream_error_count'', pv_upstream_error_count p = None),
     (''wall_near_timeout'', pv_wall_near_timeout p = None)]"

text \<open>The seams that never apply to a run without memory.\<close>

definition inapplicable_seams :: "progress_vector \<Rightarrow> string list" where
  "inapplicable_seams p = (if pv_injected_count p = None then ON_ONLY_TELEMETRY_SEAMS else [])"

text \<open>\<open>__post_init__\<close>, run by every construction.\<close>

definition pv_post_init :: "progress_vector \<Rightarrow> progress_vector" where
  "pv_post_init p = p\<lparr>pv_missing_telemetry_seams :=
     normalize_seams (pv_missing_telemetry_seams p) (seam_values p)
       (CONSTRUCTION_DEFERRED_TELEMETRY_SEAMS @ inapplicable_seams p)\<rparr>"

definition progress_to_dict :: "progress_vector \<Rightarrow> pydict" where
  "progress_to_dict p =
    [(''problems_before'', of_opt PInt (pv_problems_before p)),
     (''problems_after'', of_opt PInt (pv_problems_after p)),
     (''resolved_count'', of_opt PInt (pv_resolved_count p)),
     (''remaining_count'', of_opt PInt (pv_remaining_count p)),
     (''full_green'', PBool (pv_full_green p)),
     (''attempts_to_green'', of_opt PInt (pv_attempts_to_green p)),
     (''turns'', PInt (pv_turns p)),
     (''input_tokens'', PInt (pv_input_tokens p)),
     (''output_tokens'', PInt (pv_output_tokens p)),
     (''total_tokens'', PInt (pv_total_tokens p)),
     (''wall_seconds'', PFloat (pv_wall_seconds p)),
     (''wall_cost_usd'', PFloat (pv_wall_cost_usd p)),
     (''injected_count'', of_opt PInt (pv_injected_count p)),
     (''injected_block_chars'', of_opt PInt (pv_injected_block_chars p)),
     (''injected_block_est_tokens'', of_opt PInt (pv_injected_block_est_tokens p)),
     (''recall_fired_total'', of_opt PInt (pv_recall_fired_total p)),
     (''recall_returned_total'', of_opt PInt (pv_recall_returned_total p)),
     (''recall_returned_count_sum'', of_opt PInt (pv_recall_returned_count_sum p)),
     (''no_keywords_count'', of_opt PInt (pv_no_keywords_count p)),
     (''served_attempted'', of_opt PInt (pv_served_attempted p)),
     (''served_failed'', of_opt PInt (pv_served_failed p)),
     (''served_confirmed'', of_opt PInt (pv_served_confirmed p)),
     (''recall_return_rate'', of_opt PFloat (pv_recall_return_rate p)),
     (''inject_yield'', of_opt PFloat (pv_inject_yield p)),
     (''serve_success_rate'', of_opt PFloat (pv_serve_success_rate p)),
     (''consumer_injected_count'', of_opt PInt (pv_consumer_injected_count p)),
     (''extraction_candidate_count'', of_opt PInt (pv_extraction_candidate_count p)),
     (''accepted_count'', of_opt PInt (pv_accepted_count p)),
     (''rejected_count'', of_opt PInt (pv_rejected_count p)),
     (''rejected_reasons'', PList (map PStr (pv_rejected_reasons p))),
     (''memory_mode'', PStr (pv_memory_mode p)),
     (''termination_reason'', PStr (pv_termination_reason p)),
     (''failed_gates'', PList (map PStr (pv_failed_gates p))),
     (''tool_calls'', of_opt PInt (pv_tool_calls p)),
     (''test_invocations'', of_opt PInt (pv_test_invocations p)),
     (''agentic_cycles'', of_opt PInt (pv_agentic_cycles p)),
     (''http_429_count'', of_opt PInt (pv_http_429_count p)),
     (''http_402_count'', of_opt PInt (pv_http_402_count p)),
     (''retry_count'', of_opt PInt (pv_retry_count p)),
     (''upstream_error_count'', of_opt PInt (pv_upstream_error_count p)),
     (''max_request_ms'', of_opt PInt (pv_max_request_ms p)),
     (''median_request_ms'', of_opt PInt (pv_median_request_ms p)),
     (''wall_near_timeout'', of_opt PBool (pv_wall_near_timeout p)),
     (''worker_image_id'', of_opt PStr (pv_worker_image_id p)),
     (''worker_image_created'', of_opt PStr (pv_worker_image_created p)),
     (''missing_telemetry_seams'', PList (map PStr (normalize_seams (pv_missing_telemetry_seams p) (seam_values p) (inapplicable_seams p))))]"

definition progress_from_dict :: "(pyval \<Rightarrow> string) \<Rightarrow> pydict \<Rightarrow> py_exc + progress_vector" where
  "progress_from_dict rp d =
     bind_result (opt_int (dget d ''problems_before'')) (\<lambda>x_problems_before.
     bind_result (opt_int (dget d ''problems_after'')) (\<lambda>x_problems_after.
     bind_result (opt_int (dget d ''resolved_count'')) (\<lambda>x_resolved_count.
     bind_result (opt_int (dget d ''remaining_count'')) (\<lambda>x_remaining_count.
     bind_result (opt_int (dget d ''attempts_to_green'')) (\<lambda>x_attempts_to_green.
     bind_result (py_int (dget_default d ''turns'' (PInt 0))) (\<lambda>x_turns.
     bind_result (py_int (dget_default d ''input_tokens'' (PInt 0))) (\<lambda>x_input_tokens.
     bind_result (py_int (dget_default d ''output_tokens'' (PInt 0))) (\<lambda>x_output_tokens.
     bind_result (py_int (dget_default d ''total_tokens'' (PInt 0))) (\<lambda>x_total_tokens.
     bind_result (py_float (dget_default d ''wall_seconds'' (PFloat 0))) (\<lambda>x_wall_seconds.
     bind_result (py_float (dget_default d ''wall_cost_usd'' (PFloat 0))) (\<lambda>x_wall_cost_usd.
     bind_result (opt_int (dget d ''injected_count'')) (\<lambda>x_injected_count.
     bind_result (opt_int (dget d ''injected_block_chars'')) (\<lambda>x_injected_block_chars.
     bind_result (opt_int (dget d ''injected_block_est_tokens'')) (\<lambda>x_injected_block_est_tokens.
     bind_result (opt_int (dget d ''recall_fired_total'')) (\<lambda>x_recall_fired_total.
     bind_result (opt_int (dget d ''recall_returned_total'')) (\<lambda>x_recall_returned_total.
     bind_result (opt_int (dget d ''recall_returned_count_sum'')) (\<lambda>x_recall_returned_count_sum.
     bind_result (opt_int (dget d ''no_keywords_count'')) (\<lambda>x_no_keywords_count.
     bind_result (opt_int (dget d ''served_attempted'')) (\<lambda>x_served_attempted.
     bind_result (opt_int (dget d ''served_failed'')) (\<lambda>x_served_failed.
     bind_result (opt_int (dget d ''served_confirmed'')) (\<lambda>x_served_confirmed.
     bind_result (opt_float (dget d ''recall_return_rate'')) (\<lambda>x_recall_return_rate.
     bind_result (opt_float (dget d ''inject_yield'')) (\<lambda>x_inject_yield.
     bind_result (opt_float (dget d ''serve_success_rate'')) (\<lambda>x_serve_success_rate.
     bind_result (opt_int (dget d ''consumer_injected_count'')) (\<lambda>x_consumer_injected_count.
     bind_result (opt_int (dget d ''extraction_candidate_count'')) (\<lambda>x_extraction_candidate_count.
     bind_result (opt_int (dget d ''accepted_count'')) (\<lambda>x_accepted_count.
     bind_result (opt_int (dget d ''rejected_count'')) (\<lambda>x_rejected_count.
     bind_result (opt_int (dget d ''tool_calls'')) (\<lambda>x_tool_calls.
     bind_result (opt_int (dget d ''test_invocations'')) (\<lambda>x_test_invocations.
     bind_result (opt_int (dget d ''agentic_cycles'')) (\<lambda>x_agentic_cycles.
     bind_result (opt_int (dget d ''http_429_count'')) (\<lambda>x_http_429_count.
     bind_result (opt_int (dget d ''http_402_count'')) (\<lambda>x_http_402_count.
     bind_result (opt_int (dget d ''retry_count'')) (\<lambda>x_retry_count.
     bind_result (opt_int (dget d ''upstream_error_count'')) (\<lambda>x_upstream_error_count.
     bind_result (opt_int (dget d ''max_request_ms'')) (\<lambda>x_max_request_ms.
     bind_result (opt_int (dget d ''median_request_ms'')) (\<lambda>x_median_request_ms.
       Inr (pv_post_init \<lparr>pv_problems_before = x_problems_before, pv_problems_after = x_problems_after,
            pv_resolved_count = x_resolved_count, pv_remaining_count = x_remaining_count,
            pv_full_green = truthy (dget_default d ''full_green'' (PBool False)),
            pv_attempts_to_green = x_attempts_to_green, pv_turns = x_turns,
            pv_input_tokens = x_input_tokens, pv_output_tokens = x_output_tokens,
            pv_total_tokens = x_total_tokens, pv_wall_seconds = x_wall_seconds,
            pv_wall_cost_usd = x_wall_cost_usd, pv_injected_count = x_injected_count,
            pv_injected_block_chars = x_injected_block_chars,
            pv_injected_block_est_tokens = x_injected_block_est_tokens,
            pv_recall_fired_total = x_recall_fired_total,
            pv_recall_returned_total = x_recall_returned_total,
            pv_recall_returned_count_sum = x_recall_returned_count_sum,
            pv_no_keywords_count = x_no_keywords_count, pv_served_attempted = x_served_attempted,
            pv_served_failed = x_served_failed, pv_served_confirmed = x_served_confirmed,
            pv_recall_return_rate = x_recall_return_rate, pv_inject_yield = x_inject_yield,
            pv_serve_success_rate = x_serve_success_rate,
            pv_consumer_injected_count = x_consumer_injected_count,
            pv_extraction_candidate_count = x_extraction_candidate_count,
            pv_accepted_count = x_accepted_count, pv_rejected_count = x_rejected_count,
            pv_rejected_reasons = string_list rp (dget d ''rejected_reasons''),
            pv_memory_mode = py_str rp (dget_default d ''memory_mode'' (PStr [])),
            pv_termination_reason = py_str rp (dget_default d ''termination_reason'' (PStr [])),
            pv_failed_gates = string_list rp (dget d ''failed_gates''),
            pv_tool_calls = x_tool_calls, pv_test_invocations = x_test_invocations,
            pv_agentic_cycles = x_agentic_cycles, pv_http_429_count = x_http_429_count,
            pv_http_402_count = x_http_402_count, pv_retry_count = x_retry_count,
            pv_upstream_error_count = x_upstream_error_count, pv_max_request_ms = x_max_request_ms,
            pv_median_request_ms = x_median_request_ms,
            pv_wall_near_timeout = opt_bool (dget d ''wall_near_timeout''),
            pv_worker_image_id = opt_string rp (dget d ''worker_image_id''),
            pv_worker_image_created = opt_string rp (dget d ''worker_image_created''),
            pv_missing_telemetry_seams = string_list rp (dget d ''missing_telemetry_seams'')\<rparr>))))))))))))))))))))))))))))))))))))))"

section \<open>Round trip\<close>

lemma foldl_add_new:
  assumes "distinct xs"
  shows "foldl (add_new admits) acc xs = acc @ filter (\<lambda>x. admits x \<and> x \<notin> set acc) xs"
  using assms
proof (induction xs arbitrary: acc)
  case Nil
  then show ?case by simp
next
  case (Cons x xs)
  then have "x \<notin> set xs" and d: "distinct xs" by simp_all
  then have "filter (\<lambda>y. admits y \<and> y \<notin> set (add_new admits acc x)) xs = filter (\<lambda>y. admits y \<and> y \<notin> set acc) xs"
    by (intro filter_cong) (auto simp: add_new_def)
  with Cons.IH [OF d, of "add_new admits acc x"] show ?case by (simp add: add_new_def)
qed

lemma foldl_add_new_props:
  "distinct acc \<Longrightarrow> distinct (foldl (add_new admits) acc xs)"
  "set (foldl (add_new admits) acc xs) = set acc \<union> {x \<in> set xs. admits x}"
  by (induction xs arbitrary: acc) (auto simp: add_new_def)

text \<open>A list of seams as the constructor leaves it.\<close>

definition seams_normal :: "progress_vector \<Rightarrow> bool" where
  "seams_normal p \<longleftrightarrow> pv_post_init p = p"

lemma seam_names_distinct: "distinct (map fst (filter snd (seam_values p)))"
  by (rule distinct_map_filter) (simp add: seam_values_def)

lemma seam_names_ok:
  assumes "s \<in> set (map fst (filter snd (seam_values p)))"
  shows "strip s = s" and "s \<noteq> []"
proof -
  have "list_all (\<lambda>n. strip n = n \<and> n \<noteq> []) (map fst (seam_values p))"
    unfolding seam_values_def list.map fst_conv by code_simp
  moreover from assms have "s \<in> set (map fst (seam_values p))" by auto
  ultimately show "strip s = s" and "s \<noteq> []" by (auto simp: list_all_iff)
qed

text \<open>
  Writing adds the deferred seams that are unavailable; reading drops them again.  This needs of
  the seam names only that they are distinct, stripped and not empty.
\<close>

lemma normalize_seams_filter:
  assumes "distinct xs" and "distinct ys" and "\<forall>x \<in> set xs. strip x = x"
    and "ys = map fst (filter snd vs)"
  shows "normalize_seams xs vs ex = filter (\<lambda>s. s \<noteq> [] \<and> s \<notin> set ex) xs
    @ filter (\<lambda>s. s \<notin> set ex \<and> s \<notin> set (filter (\<lambda>s. s \<noteq> [] \<and> s \<notin> set ex) xs)) ys"
proof -
  have "map strip xs = xs" using assms(3) by (intro map_idI) blast
  then show ?thesis
    unfolding normalize_seams_def assms(4) [symmetric]
    by (simp only: foldl_add_new [OF assms(1)] foldl_add_new [OF assms(2)]
        append_Nil list.set(1) empty_iff not_False_eq_True simp_thms)
qed

lemma normalize_seams_props:
  assumes "ys = map fst (filter snd vs)" and "\<forall>y \<in> set ys. strip y = y \<and> y \<noteq> []"
    and "S = normalize_seams provided vs ex"
  shows "distinct S" and "\<forall>s \<in> set S. strip s = s"
    and "\<And>s. s \<in> set S \<Longrightarrow> s \<noteq> [] \<and> s \<notin> set ex"
    and "\<And>s. s \<in> set ys \<Longrightarrow> s \<notin> set ex \<Longrightarrow> s \<in> set S"
proof -
  have set_S: "set S = {x \<in> strip ` set provided. x \<noteq> [] \<and> x \<notin> set ex} \<union> {x \<in> set ys. x \<notin> set ex}"
    unfolding assms(1,3) normalize_seams_def foldl_add_new_props(2) by simp
  show "distinct S"
    unfolding assms(3) normalize_seams_def by (intro foldl_add_new_props(1)) simp
  show "\<forall>s \<in> set S. strip s = s"
  proof
    fix s assume "s \<in> set S"
    then consider x where "s = strip x" | "s \<in> set ys" unfolding set_S by blast
    then show "strip s = s" using assms(2) by cases (simp_all add: strip_idem)
  qed
  show "s \<noteq> [] \<and> s \<notin> set ex" if "s \<in> set S" for s using that assms(2) unfolding set_S by blast
  show "s \<in> set S" if "s \<in> set ys" "s \<notin> set ex" for s using that unfolding set_S by blast
qed

lemma normalize_twice:
  assumes ys: "ys = map fst (filter snd vs)" and d: "distinct ys"
    and ok: "\<forall>y \<in> set ys. strip y = y \<and> y \<noteq> []"
    and S: "S = normalize_seams provided vs (D @ E)"
  shows "normalize_seams (normalize_seams S vs E) vs (D @ E) = S"
proof -
  note props = normalize_seams_props [OF ys ok S]
  define X where "X = filter (\<lambda>s. s \<notin> set E \<and> s \<notin> set S) ys"
  have "filter (\<lambda>s. s \<noteq> [] \<and> s \<notin> set E) S = S" using props(3) by (intro filter_True) simp
  with normalize_seams_filter [OF props(1) d props(2) ys] have T: "normalize_seams S vs E = S @ X"
    by (simp only: X_def)
  have dX: "distinct (S @ X)" using props(1) d unfolding X_def by (simp add: disjoint_iff)
  have sX: "\<forall>s \<in> set (S @ X). strip s = s"
    using props(2) ok unfolding X_def by auto
  have "filter (\<lambda>s. s \<noteq> [] \<and> s \<notin> set (D @ E)) S = S" using props(3) by (intro filter_True) blast
  moreover have "filter (\<lambda>s. s \<noteq> [] \<and> s \<notin> set (D @ E)) X = []"
    using props(4) unfolding X_def filter_empty_conv by auto
  moreover have "filter (\<lambda>s. s \<notin> set (D @ E) \<and> s \<notin> set S) ys = []"
    using props(4) unfolding filter_empty_conv by blast
  ultimately show ?thesis
    unfolding T normalize_seams_filter [OF dX d sX ys]
    by (simp only: filter_append append_Nil2)
qed

lemma normalize_idem:
  assumes ys: "ys = map fst (filter snd vs)" and d: "distinct ys"
    and ok: "\<forall>y \<in> set ys. strip y = y \<and> y \<noteq> []"
    and S: "S = normalize_seams provided vs E"
  shows "normalize_seams S vs E = S"
proof -
  note props = normalize_seams_props [OF ys ok S]
  have "filter (\<lambda>s. s \<noteq> [] \<and> s \<notin> set E) S = S" using props(3) by (intro filter_True) blast
  moreover have "filter (\<lambda>s. s \<notin> set E \<and> s \<notin> set S) ys = []"
    using props(4) unfolding filter_empty_conv by blast
  ultimately show ?thesis
    unfolding normalize_seams_filter [OF props(1) d props(2) ys] by (simp only: append_Nil2)
qed

lemma seam_values_seams [simp]:
  "seam_values (p\<lparr>pv_missing_telemetry_seams := xs\<rparr>) = seam_values p"
  "inapplicable_seams (p\<lparr>pv_missing_telemetry_seams := xs\<rparr>) = inapplicable_seams p"
  by (simp_all add: seam_values_def inapplicable_seams_def)

lemma pv_post_init_seams:
  "pv_post_init (p\<lparr>pv_missing_telemetry_seams := xs\<rparr>)
   = p\<lparr>pv_missing_telemetry_seams := normalize_seams xs (seam_values p)
       (CONSTRUCTION_DEFERRED_TELEMETRY_SEAMS @ inapplicable_seams p)\<rparr>"
  unfolding pv_post_init_def seam_values_seams by simp

lemma post_init_to_dict_seams:
  assumes "seams_normal p"
  shows "pv_post_init (p\<lparr>pv_missing_telemetry_seams :=
     normalize_seams (pv_missing_telemetry_seams p) (seam_values p) (inapplicable_seams p)\<rparr>) = p"
proof -
  have "pv_missing_telemetry_seams (pv_post_init p) = pv_missing_telemetry_seams p"
    using assms by (simp add: seams_normal_def)
  then have S: "pv_missing_telemetry_seams p = normalize_seams (pv_missing_telemetry_seams p)
      (seam_values p) (CONSTRUCTION_DEFERRED_TELEMETRY_SEAMS @ inapplicable_seams p)"
    by (simp add: pv_post_init_def)
  have "normalize_seams (normalize_seams (pv_missing_telemetry_seams p) (seam_values p) (inapplicable_seams p))
      (seam_values p) (CONSTRUCTION_DEFERRED_TELEMETRY_SEAMS @ inapplicable_seams p)
    = pv_missing_telemetry_seams p"
    by (rule normalize_twice [OF refl seam_names_distinct [of p] _ S])
      (intro ballI conjI seam_names_ok; assumption)
  then show ?thesis unfolding pv_post_init_seams by simp
qed

lemma progress_to_dict_reads:
  "map_of (progress_to_dict p) ''problems_before'' = Some (of_opt PInt (pv_problems_before p))"
  "map_of (progress_to_dict p) ''problems_after'' = Some (of_opt PInt (pv_problems_after p))"
  "map_of (progress_to_dict p) ''resolved_count'' = Some (of_opt PInt (pv_resolved_count p))"
  "map_of (progress_to_dict p) ''remaining_count'' = Some (of_opt PInt (pv_remaining_count p))"
  "map_of (progress_to_dict p) ''full_green'' = Some (PBool (pv_full_green p))"
  "map_of (progress_to_dict p) ''attempts_to_green'' = Some (of_opt PInt (pv_attempts_to_green p))"
  "map_of (progress_to_dict p) ''turns'' = Some (PInt (pv_turns p))"
  "map_of (progress_to_dict p) ''input_tokens'' = Some (PInt (pv_input_tokens p))"
  "map_of (progress_to_dict p) ''output_tokens'' = Some (PInt (pv_output_tokens p))"
  "map_of (progress_to_dict p) ''total_tokens'' = Some (PInt (pv_total_tokens p))"
  "map_of (progress_to_dict p) ''wall_seconds'' = Some (PFloat (pv_wall_seconds p))"
  "map_of (progress_to_dict p) ''wall_cost_usd'' = Some (PFloat (pv_wall_cost_usd p))"
  "map_of (progress_to_dict p) ''injected_count'' = Some (of_opt PInt (pv_injected_count p))"
  "map_of (progress_to_dict p) ''injected_block_chars'' = Some (of_opt PInt (pv_injected_block_chars p))"
  "map_of (progress_to_dict p) ''injected_block_est_tokens'' = Some (of_opt PInt (pv_injected_block_est_tokens p))"
  "map_of (progress_to_dict p) ''recall_fired_total'' = Some (of_opt PInt (pv_recall_fired_total p))"
  "map_of (progress_to_dict p) ''recall_returned_total'' = Some (of_opt PInt (pv_recall_returned_total p))"
  "map_of (progress_to_dict p) ''recall_returned_count_sum'' = Some (of_opt PInt (pv_recall_returned_count_sum p))"
  "map_of (progress_to_dict p) ''no_keywords_count'' = Some (of_opt PInt (pv_no_keywords_count p))"
  "map_of (progress_to_dict p) ''served_attempted'' = Some (of_opt PInt (pv_served_attempted p))"
  "map_of (progress_to_dict p) ''served_failed'' = Some (of_opt PInt (pv_served_failed p))"
  "map_of (progress_to_dict p) ''served_confirmed'' = Some (of_opt PInt (pv_served_confirmed p))"
  "map_of (progress_to_dict p) ''recall_return_rate'' = Some (of_opt PFloat (pv_recall_return_rate p))"
  "map_of (progress_to_dict p) ''inject_yield'' = Some (of_opt PFloat (pv_inject_yield p))"
  "map_of (progress_to_dict p) ''serve_success_rate'' = Some (of_opt PFloat (pv_serve_success_rate p))"
  "map_of (progress_to_dict p) ''consumer_injected_count'' = Some (of_opt PInt (pv_consumer_injected_count p))"
  "map_of (progress_to_dict p) ''extraction_candidate_count'' = Some (of_opt PInt (pv_extraction_candidate_count p))"
  "map_of (progress_to_dict p) ''accepted_count'' = Some (of_opt PInt (pv_accepted_count p))"
  "map_of (progress_to_dict p) ''rejected_count'' = Some (of_opt PInt (pv_rejected_count p))"
  "map_of (progress_to_dict p) ''rejected_reasons'' = Some (PList (map PStr (pv_rejected_reasons p)))"
  "map_of (progress_to_dict p) ''memory_mode'' = Some (PStr (pv_memory_mode p))"
  "map_of (progress_to_dict p) ''termination_reason'' = Some (PStr (pv_termination_reason p))"
  "map_of (progress_to_dict p) ''failed_gates'' = Some (PList (map PStr (pv_failed_gates p)))"
  "map_of (progress_to_dict p) ''tool_calls'' = Some (of_opt PInt (pv_tool_calls p))"
  "map_of (progress_to_dict p) ''test_invocations'' = Some (of_opt PInt (pv_test_invocations p))"
  "map_of (progress_to_dict p) ''agentic_cycles'' = Some (of_opt PInt (pv_agentic_cycles p))"
  "map_of (progress_to_dict p) ''http_429_count'' = Some (of_opt PInt (pv_http_429_count p))"
  "map_of (progress_to_dict p) ''http_402_count'' = Some (of_opt PInt (pv_http_402_count p))"
  "map_of (progress_to_dict p) ''retry_count'' = Some (of_opt PInt (pv_retry_count p))"
  "map_of (progress_to_dict p) ''upstream_error_count'' = Some (of_opt PInt (pv_upstream_error_count p))"
  "map_of (progress_to_dict p) ''max_request_ms'' = Some (of_opt PInt (pv_max_request_ms p))"
  "map_of (progress_to_dict p) ''median_request_ms'' = Some (of_opt PInt (pv_median_request_ms p))"
  "map_of (progress_to_dict p) ''wall_near_timeout'' = Some (of_opt PBool (pv_wall_near_timeout p))"
  "map_of (progress_to_dict p) ''worker_image_id'' = Some (of_opt PStr (pv_worker_image_id p))"
  "map_of (progress_to_dict p) ''worker_image_created'' = Some (of_opt PStr (pv_worker_image_created p))"
  "map_of (progress_to_dict p) ''missing_telemetry_seams'' = Some (PList (map PStr (normalize_seams (pv_missing_telemetry_seams p) (seam_values p) (inapplicable_seams p))))"
  unfolding progress_to_dict_def by (simp_all only: lookup_simps cong: map_of_weak if_weak_cong)

lemma progress_from_to_dict:
  "progress_from_dict rp (progress_to_dict p) = Inr (pv_post_init (p\<lparr>pv_missing_telemetry_seams :=
     normalize_seams (pv_missing_telemetry_seams p) (seam_values p) (inapplicable_seams p)\<rparr>))"
proof -
  note reads = dget_def dget_default_def progress_to_dict_reads
  show ?thesis
    unfolding progress_from_dict_def by (cases p) (simp add: reads cong: bind_result_weak)
qed

interpretation progress_codec: checkpoint_codec progress_to_dict "progress_from_dict rp" seams_normal for rp
  by unfold_locales (simp add: progress_from_to_dict post_init_to_dict_seams)

section \<open>From the telemetry of a cell\<close>

text \<open>\<open>_field\<close>: \<open>None\<close> is the source's \<open>_MISSING\<close>.  Only mappings have the fields read here.\<close>

definition cell_field :: "pyval \<Rightarrow> string \<Rightarrow> pyval option" where
  "cell_field v name = (case v of PDict d \<Rightarrow> map_of d name | _ \<Rightarrow> None)"

definition present :: "pyval option \<Rightarrow> pyval option" where
  "present v = (if v = Some PNone then None else v)"

text \<open>\<open>_optional_int\<close>\<close>

definition signless :: "string \<Rightarrow> string" where
  "signless t = (if hd t = CHR ''+'' \<or> hd t = CHR ''-'' then tl t else t)"

definition optional_int :: "pyval option \<Rightarrow> int option" where
  "optional_int v = (case present v of
     None \<Rightarrow> None
   | Some (PBool _) \<Rightarrow> None
   | Some (PInt i) \<Rightarrow> Some i
   | Some (PStr s) \<Rightarrow>
       (let t = strip s in
        if t = [] then None
        else if is_digit_string (signless t) then int_of_string t else None)
   | Some (PFloat x) \<Rightarrow> (if x = of_int \<lfloor>x\<rfloor> then Some \<lfloor>x\<rfloor> else None)
   | Some _ \<Rightarrow> None)"

definition int_or_default :: "pyval option \<Rightarrow> int \<Rightarrow> int" where
  "int_or_default v d = (case optional_int v of None \<Rightarrow> d | Some i \<Rightarrow> i)"

definition float_or_default :: "pyval option \<Rightarrow> real \<Rightarrow> real" where
  "float_or_default v d = (case present v of
     None \<Rightarrow> d
   | Some (PBool _) \<Rightarrow> d
   | Some w \<Rightarrow> (case py_float w of Inr x \<Rightarrow> x | Inl _ \<Rightarrow> d))"

definition bool_or_default :: "pyval option \<Rightarrow> bool \<Rightarrow> bool" where
  "bool_or_default v d = (case present v of None \<Rightarrow> d | Some w \<Rightarrow> truthy w)"

definition str_or_default :: "(pyval \<Rightarrow> string) \<Rightarrow> pyval option \<Rightarrow> string \<Rightarrow> string" where
  "str_or_default rp v d = (case present v of None \<Rightarrow> d | Some w \<Rightarrow> py_str rp w)"

definition optional_str :: "(pyval \<Rightarrow> string) \<Rightarrow> pyval option \<Rightarrow> string option" where
  "optional_str rp v = map_option (py_str rp) (present v)"

definition str_list :: "(pyval \<Rightarrow> string) \<Rightarrow> pyval option \<Rightarrow> string list" where
  "str_list rp v = (case v of Some (PList xs) \<Rightarrow> map (py_str rp) xs | _ \<Rightarrow> [])"

definition problems_after_from_result :: "pyval \<Rightarrow> int option" where
  "problems_after_from_result r = (case present (cell_field r ''problems_final'') of
     None \<Rightarrow> None
   | Some (PList xs) \<Rightarrow> Some (int (length xs))
   | Some v \<Rightarrow> optional_int (Some v))"

text \<open>\<open>_contention_fields\<close> and \<open>_worker_image_fields\<close> set fields of the vector under construction;
  without a \<open>contention\<close> block its counters keep their default, \<open>None\<close>.\<close>

definition contention_fields :: "pyval \<Rightarrow> progress_vector \<Rightarrow> progress_vector" where
  "contention_fields r p = (case present (cell_field r ''contention'') of
     None \<Rightarrow> p
   | Some c \<Rightarrow> p
      \<lparr>pv_http_429_count := Some (int_or_default (cell_field c ''http_429_count'') 0),
       pv_http_402_count := Some (int_or_default (cell_field c ''http_402_count'') 0),
       pv_retry_count := Some (int_or_default (cell_field c ''retry_count'') 0),
       pv_upstream_error_count := Some (int_or_default (cell_field c ''upstream_error_count'') 0),
       pv_max_request_ms := optional_int (cell_field c ''max_request_ms''),
       pv_median_request_ms := optional_int (cell_field c ''median_request_ms''),
       pv_wall_near_timeout := Some (bool_or_default (cell_field c ''wall_near_timeout'') False)\<rparr>)"

definition worker_image_fields :: "(pyval \<Rightarrow> string) \<Rightarrow> pyval \<Rightarrow> progress_vector \<Rightarrow> progress_vector" where
  "worker_image_fields rp r p = (case present (cell_field r ''worker_image_fingerprint'') of
     None \<Rightarrow> p\<lparr>pv_worker_image_id := None, pv_worker_image_created := None\<rparr>
   | Some f \<Rightarrow> p\<lparr>pv_worker_image_id := optional_str rp (cell_field f ''image_id''),
                 pv_worker_image_created := optional_str rp (cell_field f ''created'')\<rparr>)"

definition ratio :: "int option \<Rightarrow> int option \<Rightarrow> real option" where
  "ratio num den = (case num of None \<Rightarrow> None
   | Some n \<Rightarrow> (case den of None \<Rightarrow> None
     | Some d \<Rightarrow> (if 0 < d then Some (of_int n / of_int d) else None)))"

definition total_tokens_value :: "pyval \<Rightarrow> pyval \<Rightarrow> pyval option" where
  "total_tokens_value r c = (case cell_field r ''total_tokens'' of
     None \<Rightarrow> (if c \<noteq> PNone then cell_field c ''total_tokens'' else None)
   | Some v \<Rightarrow> Some v)"

definition progress_from_cell_result :: "(pyval \<Rightarrow> string) \<Rightarrow> pyval \<Rightarrow> pyval \<Rightarrow> progress_vector" where
  "progress_from_cell_result rp r c =
    (let input_tokens = int_or_default (cell_field r ''input_tokens'') 0;
         output_tokens = int_or_default (cell_field r ''output_tokens'') 0;
         total_tokens = int_or_default (total_tokens_value r c) (input_tokens + output_tokens);
         before = optional_int (cell_field r ''problems_before'');
         after = problems_after_from_result r;
         resolved = (case (before, after) of (Some b, Some a) \<Rightarrow> Some (b - a) | _ \<Rightarrow> None);
         fired = optional_int (cell_field r ''recall_fired_total'');
         returned = optional_int (cell_field r ''recall_returned_total'');
         returned_sum = optional_int (cell_field r ''recall_returned_count_sum'');
         attempted = optional_int (cell_field r ''served_attempted'');
         confirmed = optional_int (cell_field r ''served_confirmed'');
         injected = (case optional_int (cell_field r ''injected_count'') of
             Some i \<Rightarrow> Some i | None \<Rightarrow> optional_int (cell_field c ''injection_count''))
     in pv_post_init (contention_fields r (worker_image_fields rp r
       \<lparr>pv_problems_before = before, pv_problems_after = after,
        pv_resolved_count = resolved, pv_remaining_count = after,
        pv_full_green = bool_or_default (cell_field r ''conformed'') False,
        pv_attempts_to_green = optional_int (cell_field r ''attempts_to_green''),
        pv_turns = int_or_default (cell_field r ''turns'') 0,
        pv_input_tokens = input_tokens, pv_output_tokens = output_tokens,
        pv_total_tokens = total_tokens,
        pv_wall_seconds = float_or_default (cell_field r ''wall_seconds'') 0,
        pv_wall_cost_usd = float_or_default (cell_field r ''wall_cost_usd'') 0,
        pv_injected_count = injected,
        pv_injected_block_chars = optional_int (cell_field r ''injected_block_chars''),
        pv_injected_block_est_tokens = optional_int (cell_field r ''injected_block_est_tokens''),
        pv_recall_fired_total = fired, pv_recall_returned_total = returned,
        pv_recall_returned_count_sum = returned_sum,
        pv_no_keywords_count = optional_int (cell_field r ''no_keywords_count''),
        pv_served_attempted = attempted,
        pv_served_failed = optional_int (cell_field r ''served_failed''),
        pv_served_confirmed = confirmed,
        pv_recall_return_rate = ratio returned fired,
        pv_inject_yield = ratio injected returned_sum,
        pv_serve_success_rate = ratio confirmed attempted,
        pv_consumer_injected_count = None,
        pv_extraction_candidate_count = None, pv_accepted_count = None,
        pv_rejected_count = None, pv_rejected_reasons = [],
        pv_memory_mode = str_or_default rp (cell_field r ''memory_mode'') [],
        pv_termination_reason = str_or_default rp (cell_field r ''termination_reason'') [],
        pv_failed_gates = str_list rp (cell_field r ''failed_gates''),
        pv_tool_calls = optional_int (cell_field r ''tool_calls''),
        pv_test_invocations = optional_int (cell_field r ''test_invocations''),
        pv_agentic_cycles = optional_int (cell_field r ''agentic_cycles''),
        pv_http_429_count = None, pv_http_402_count = None, pv_retry_count = None,
        pv_upstream_error_count = None, pv_max_request_ms = None, pv_median_request_ms = None,
        pv_wall_near_timeout = None, pv_worker_image_id = None, pv_worker_image_created = None,
        pv_missing_telemetry_seams = []\<rparr>)))"

section \<open>What a cell's vector says\<close>

lemma seams_normal_post_init: "seams_normal (pv_post_init p)"
proof -
  let ?ex = "CONSTRUCTION_DEFERRED_TELEMETRY_SEAMS @ inapplicable_seams p"
  have "normalize_seams (normalize_seams (pv_missing_telemetry_seams p) (seam_values p) ?ex) (seam_values p) ?ex
    = normalize_seams (pv_missing_telemetry_seams p) (seam_values p) ?ex"
    by (rule normalize_idem [OF refl seam_names_distinct [of p] _ refl])
      (intro ballI conjI seam_names_ok; assumption)
  then show ?thesis
    unfolding seams_normal_def pv_post_init_def [of p] pv_post_init_seams by simp
qed

lemma seams_of_post_init:
  assumes "pv_missing_telemetry_seams p = []"
  shows "s \<in> set (pv_missing_telemetry_seams (pv_post_init p)) \<longleftrightarrow>
    (s, True) \<in> set (seam_values p) \<and> s \<notin> set CONSTRUCTION_DEFERRED_TELEMETRY_SEAMS
      \<and> s \<notin> set (inapplicable_seams p)"
proof -
  have "s \<in> set (map fst (filter snd vs)) \<longleftrightarrow> (s, True) \<in> set vs" for vs :: "(string \<times> bool) list"
    by force
  then show ?thesis
    unfolding pv_post_init_def normalize_seams_def
    by (simp add: assms foldl_add_new_props(2) del: set_map)
qed

lemma fields_of_blocks [simp]:
  "pv_missing_telemetry_seams (contention_fields r p) = pv_missing_telemetry_seams p"
  "pv_missing_telemetry_seams (worker_image_fields rp r p) = pv_missing_telemetry_seams p"
  by (simp_all add: contention_fields_def worker_image_fields_def split: option.split)

text \<open>The telemetry of a cell survives its checkpoint: whatever the cell reported, the vector built
  from it is read back from its JSON form unchanged, although writing lists more missing seams than
  the constructor keeps.\<close>

theorem cell_progress_round_trip:
  "progress_from_dict rp (progress_to_dict (progress_from_cell_result rp r c))
   = Inr (progress_from_cell_result rp r c)"
  unfolding progress_from_cell_result_def Let_def
  by (rule progress_codec.dec_enc) (rule seams_normal_post_init)

text \<open>Unavailable is not zero: the vector of a cell lists as missing exactly the figures that are
  \<open>None\<close>, apart from those filled in later and, when nothing could be injected, those that only a
  run with memory has.\<close>

theorem missing_seams_are_exactly_the_unavailable:
  "s \<in> set (pv_missing_telemetry_seams (progress_from_cell_result rp r c)) \<longleftrightarrow>
     (s, True) \<in> set (seam_values (progress_from_cell_result rp r c))
     \<and> s \<notin> set CONSTRUCTION_DEFERRED_TELEMETRY_SEAMS
     \<and> s \<notin> set (inapplicable_seams (progress_from_cell_result rp r c))"
proof -
  have sv: "seam_values (pv_post_init p) = seam_values p"
    and ia: "inapplicable_seams (pv_post_init p) = inapplicable_seams p" for p
    by (simp_all add: pv_post_init_def)
  show ?thesis
    unfolding progress_from_cell_result_def Let_def sv ia
    by (rule seams_of_post_init) simp
qed

end
