(* ===== verification/Convergence_Trend.thy ===== *)
theory Convergence_Trend
  imports Progress_Vector
begin

text \<open>
  \<open>wevibe_bench/cumulative/convergence.py\<close>: the trend derived, on read, from the progress that the
  session records carry.  The fingerprint of a session id and the hash of the canonical points are
  SHA-256 of the standard library: the parameters \<open>fp\<close> and \<open>hash8\<close>.
\<close>

section \<open>Points\<close>

definition CONVERGENCE_SCHEMA_VERSION :: int where
  "CONVERGENCE_SCHEMA_VERSION = 1"

text \<open>\<open>_coerce_optional_int\<close>: a JSON value, so neither bytes nor a foreign integer type.\<close>

definition coerce_optional_int :: "pyval \<Rightarrow> int option" where
  "coerce_optional_int v = (case v of
     PInt i \<Rightarrow> Some i
   | PFloat x \<Rightarrow> (if x = of_int \<lfloor>x\<rfloor> then Some \<lfloor>x\<rfloor> else None)
   | _ \<Rightarrow> None)"

definition coerce_int :: "pyval \<Rightarrow> int \<Rightarrow> int" where
  "coerce_int v d = (case coerce_optional_int v of None \<Rightarrow> d | Some i \<Rightarrow> i)"

definition coerce_float :: "pyval \<Rightarrow> real \<Rightarrow> real" where
  "coerce_float v d = (case v of PInt i \<Rightarrow> of_int i | PFloat x \<Rightarrow> x | _ \<Rightarrow> d)"

text \<open>\<open>bool(x) if isinstance(x, bool) else False\<close>\<close>

definition strict_bool :: "pyval \<Rightarrow> bool" where
  "strict_bool v = (case v of PBool b \<Rightarrow> b | _ \<Rightarrow> False)"

text \<open>\<open>str(v or "")\<close>\<close>

definition str_or_blank :: "(pyval \<Rightarrow> string) \<Rightarrow> pyval \<Rightarrow> string" where
  "str_or_blank rp v = (if truthy v then py_str rp v else [])"

text \<open>What the trend reads of a record; \<open>_ScoredSession\<close> has just these fields.\<close>

record scored_session =
  ss_sequence_index :: int
  ss_session_fp :: pyval
  ss_session_id :: pyval
  ss_progress :: "pydict option"

definition of_session_record :: "session_record \<Rightarrow> scored_session" where
  "of_session_record r = \<lparr>ss_sequence_index = sr_sequence_index r, ss_session_fp = sr_session_fp r,
     ss_session_id = sr_session_id r, ss_progress = sr_progress r\<rparr>"

record convergence_point =
  pt_sequence_index :: int
  pt_session_fp :: string
  pt_problems_before :: "int option"
  pt_problems_after :: "int option"
  pt_resolved_count :: "int option"
  pt_remaining_count :: "int option"
  pt_full_green :: bool
  pt_attempts_to_green :: "int option"
  pt_turns :: int
  pt_total_tokens :: int
  pt_wall_seconds :: real
  pt_wall_cost_usd :: real
  pt_tool_calls :: "int option"
  pt_test_invocations :: "int option"
  pt_agentic_cycles :: "int option"

definition point_fp :: "(pyval \<Rightarrow> string) \<Rightarrow> (string \<Rightarrow> string) \<Rightarrow> scored_session \<Rightarrow> string" where
  "point_fp rp fp r =
    (let session_fp = strip (str_or_blank rp (ss_session_fp r));
         session_id = strip (str_or_blank rp (ss_session_id r))
     in if session_fp \<noteq> [] then session_fp
        else if session_id \<noteq> [] then fp session_id else ''none'')"

definition point_of_progress :: "int \<Rightarrow> string \<Rightarrow> pydict \<Rightarrow> convergence_point" where
  "point_of_progress i f p =
     \<lparr>pt_sequence_index = i, pt_session_fp = f,
      pt_problems_before = coerce_optional_int (dget p ''problems_before''),
      pt_problems_after = coerce_optional_int (dget p ''problems_after''),
      pt_resolved_count = coerce_optional_int (dget p ''resolved_count''),
      pt_remaining_count = coerce_optional_int (dget p ''remaining_count''),
      pt_full_green = strict_bool (dget_default p ''full_green'' (PBool False)),
      pt_attempts_to_green = coerce_optional_int (dget p ''attempts_to_green''),
      pt_turns = coerce_int (dget p ''turns'') 0,
      pt_total_tokens = coerce_int (dget p ''total_tokens'') 0,
      pt_wall_seconds = coerce_float (dget p ''wall_seconds'') 0,
      pt_wall_cost_usd = coerce_float (dget p ''wall_cost_usd'') 0,
      pt_tool_calls = coerce_optional_int (dget p ''tool_calls''),
      pt_test_invocations = coerce_optional_int (dget p ''test_invocations''),
      pt_agentic_cycles = coerce_optional_int (dget p ''agentic_cycles'')\<rparr>"

definition point_from_record ::
  "(pyval \<Rightarrow> string) \<Rightarrow> (string \<Rightarrow> string) \<Rightarrow> scored_session \<Rightarrow> convergence_point option" where
  "point_from_record rp fp r =
     map_option (point_of_progress (ss_sequence_index r) (point_fp rp fp r)) (ss_progress r)"

definition point_to_dict :: "convergence_point \<Rightarrow> pydict" where
  "point_to_dict p =
     [(''sequence_index'', PInt (pt_sequence_index p)), (''session_fp'', PStr (pt_session_fp p)),
      (''problems_before'', of_opt PInt (pt_problems_before p)),
      (''problems_after'', of_opt PInt (pt_problems_after p)),
      (''resolved_count'', of_opt PInt (pt_resolved_count p)),
      (''remaining_count'', of_opt PInt (pt_remaining_count p)),
      (''full_green'', PBool (pt_full_green p)),
      (''attempts_to_green'', of_opt PInt (pt_attempts_to_green p)),
      (''turns'', PInt (pt_turns p)), (''total_tokens'', PInt (pt_total_tokens p)),
      (''wall_seconds'', PFloat (pt_wall_seconds p)),
      (''wall_cost_usd'', PFloat (pt_wall_cost_usd p)),
      (''tool_calls'', of_opt PInt (pt_tool_calls p)),
      (''test_invocations'', of_opt PInt (pt_test_invocations p)),
      (''agentic_cycles'', of_opt PInt (pt_agentic_cycles p))]"

section \<open>The trend\<close>

record convergence_trend =
  ct_schema_version :: int
  ct_points :: "convergence_point list"
  ct_sessions_completed :: nat
  ct_sessions_green :: nat
  ct_resolved_total :: "int option"
  ct_tokens_total :: int
  ct_wall_seconds_total :: real
  ct_wall_cost_usd_total :: real

definition trend_hash :: "(pydict list \<Rightarrow> string) \<Rightarrow> convergence_trend \<Rightarrow> string" where
  "trend_hash hash8 t = hash8 (map point_to_dict (ct_points t))"

definition trend_to_dict :: "(pydict list \<Rightarrow> string) \<Rightarrow> convergence_trend \<Rightarrow> pydict" where
  "trend_to_dict hash8 t =
     [(''schema_version'', PInt (ct_schema_version t)),
      (''points'', PList (map (\<lambda>p. PDict (point_to_dict p)) (ct_points t))),
      (''sessions_completed'', PInt (int (ct_sessions_completed t))),
      (''sessions_green'', PInt (int (ct_sessions_green t))),
      (''resolved_total'', of_opt PInt (ct_resolved_total t)),
      (''tokens_total'', PInt (ct_tokens_total t)),
      (''wall_seconds_total'', PFloat (ct_wall_seconds_total t)),
      (''wall_cost_usd_total'', PFloat (ct_wall_cost_usd_total t)),
      (''trend_hash'', PStr (trend_hash hash8 t))]"

definition build_convergence_trend ::
  "(pyval \<Rightarrow> string) \<Rightarrow> (string \<Rightarrow> string) \<Rightarrow> scored_session list \<Rightarrow> convergence_trend" where
  "build_convergence_trend rp fp records =
    (let points = sort_key pt_sequence_index (List.map_filter (point_from_record rp fp) records);
         resolved_values = List.map_filter pt_resolved_count points
     in \<lparr>ct_schema_version = CONVERGENCE_SCHEMA_VERSION, ct_points = points,
         ct_sessions_completed = length points,
         ct_sessions_green = count_if pt_full_green points,
         ct_resolved_total = (if resolved_values \<noteq> [] then Some (sum_list resolved_values) else None),
         ct_tokens_total = sum_list (map pt_total_tokens points),
         ct_wall_seconds_total = sum_list (map pt_wall_seconds points),
         ct_wall_cost_usd_total = sum_list (map pt_wall_cost_usd points)\<rparr>)"

section \<open>Properties\<close>

lemma coerce_optional_int_of_opt [simp]: "coerce_optional_int (of_opt PInt v) = v"
  by (cases v) (simp_all add: coerce_optional_int_def)

lemma coerce_PInt [simp]: "coerce_int (PInt i) d = i" and coerce_PFloat [simp]: "coerce_float (PFloat x) e = x"
  by (simp_all add: coerce_int_def coerce_optional_int_def coerce_float_def)

lemma strict_bool_PBool [simp]: "strict_bool (PBool b) = b"
  by (simp add: strict_bool_def)

lemma point_from_record_Some:
  "point_from_record rp fp r = Some p \<longleftrightarrow>
     (\<exists>d. ss_progress r = Some d \<and> p = point_of_progress (ss_sequence_index r) (point_fp rp fp r) d)"
  by (auto simp: point_from_record_def)

lemma point_index [simp]: "pt_sequence_index (point_of_progress i f d) = i"
  by (simp add: point_of_progress_def)

lemma set_map_filter: "set (List.map_filter f xs) = {y. \<exists>x \<in> set xs. f x = Some y}"
  by (force simp: List.map_filter_def)

lemma map_filter_simps2:
  "List.map_filter f [] = []"
  "List.map_filter f (x # xs) = (case f x of None \<Rightarrow> List.map_filter f xs | Some y \<Rightarrow> y # List.map_filter f xs)"
  by (simp_all add: List.map_filter_simps)

lemma mset_map_filter_cong: "mset xs = mset ys \<Longrightarrow> mset (List.map_filter f xs) = mset (List.map_filter f ys)"
  unfolding List.map_filter_def by (metis mset_filter mset_map)

lemma length_map_filter: "length (List.map_filter f xs) = count_if (\<lambda>x. f x \<noteq> None) xs"
  by (induction xs) (simp_all add: map_filter_simps2 split: option.split)

lemma indices_map_filter:
  "map pt_sequence_index (List.map_filter (point_from_record rp fp) rs)
   = map ss_sequence_index (filter (\<lambda>r. ss_progress r \<noteq> None) rs)"
  by (induction rs) (auto simp: map_filter_simps2 point_from_record_def split: option.split)

lemma set_singleton_distinct: "set xs = {k} \<Longrightarrow> distinct xs \<Longrightarrow> xs = [k]"
proof -
  assume "set xs = {k}" and "distinct xs"
  then have "length xs = 1" using distinct_card [of xs] by simp
  with \<open>set xs = {k}\<close> show "xs = [k]" by (cases xs) auto
qed

lemma sort_key_unique_keys:
  assumes "mset xs = mset ys" and "distinct (map f xs)"
  shows "sort_key f xs = sort_key f ys"
proof (rule properties_for_sort_key)
  show "mset (sort_key f ys) = mset xs" using assms(1) by simp
  have inj: "inj_on f (set xs)" and dx: "distinct xs" using assms(2) by (simp_all add: distinct_map)
  have dy: "distinct ys" using mset_eq_imp_distinct_iff [OF assms(1)] dx by blast
  have sy: "set ys = set xs" using mset_eq_setD [OF assms(1)] by simp
  show "filter (\<lambda>x. f k = f x) (sort_key f ys) = filter (\<lambda>x. f k = f x) xs" if "k \<in> set (sort_key f ys)" for k
  proof -
    have k: "k \<in> set xs" using that sy by simp
    have only: "filter (\<lambda>x. f k = f x) zs = [k]" if "distinct zs" "set zs = set xs" for zs
    proof -
      have "set (filter (\<lambda>x. f k = f x) zs) = {k}"
        using that(2) k inj by (auto dest: inj_onD)
      moreover have "distinct (filter (\<lambda>x. f k = f x) zs)" using that(1) by simp
      ultimately show ?thesis using set_singleton_distinct by metis
    qed
    show ?thesis using only [of "sort_key f ys"] only [of xs] dx dy sy by simp
  qed
  show "sorted (map f (sort_key f ys))" by simp
qed

lemma points_order_independent:
  assumes "mset rs = mset rs'" and "distinct (map ss_sequence_index (filter (\<lambda>r. ss_progress r \<noteq> None) rs))"
  shows "build_convergence_trend rp fp rs = build_convergence_trend rp fp rs'"
proof -
  have "sort_key pt_sequence_index (List.map_filter (point_from_record rp fp) rs)
      = sort_key pt_sequence_index (List.map_filter (point_from_record rp fp) rs')"
    using assms by (intro sort_key_unique_keys mset_map_filter_cong) (simp_all only: indices_map_filter)
  then show ?thesis unfolding build_convergence_trend_def by (simp only: Let_def)
qed

text \<open>The trend does not depend on the order in which the records were checkpointed: two lists
  of the same records give the same trend, when no two scored records share a sequence index.\<close>

theorem trend_order_independent:
  assumes "mset rs = mset rs'"
    and "distinct (map sr_sequence_index (filter (\<lambda>r. sr_progress r \<noteq> None) rs))"
  shows "build_convergence_trend rp fp (map of_session_record rs)
       = build_convergence_trend rp fp (map of_session_record rs')"
  using assms
  by (intro points_order_independent)
    (simp_all add: filter_map comp_def of_session_record_def)

theorem trend_order_independent_witness:
  "let a = (new_session_record 1 ''m'' [] ''on'' ''on'' ''RECORD'' PNone)\<lparr>sr_progress := Some [(''full_green'', PBool True)]\<rparr>;
       b = (new_session_record 0 ''m'' [] ''on'' ''on'' ''RECORD'' PNone)\<lparr>sr_progress := Some [(''turns'', PInt 4)]\<rparr>
   in build_convergence_trend (\<lambda>_. []) (\<lambda>_. []) (map of_session_record [a, b])
    = build_convergence_trend (\<lambda>_. []) (\<lambda>_. []) (map of_session_record [b, a])
    \<and> ct_sessions_green (build_convergence_trend (\<lambda>_. []) (\<lambda>_. []) (map of_session_record [a, b])) = 1"
  unfolding Let_def
  by (rule conjI, rule trend_order_independent)
    (simp_all add: new_session_record_def of_session_record_def build_convergence_trend_def
      point_from_record_def map_filter_simps2 point_of_progress_def strict_bool_def Let_def)

lemma trend_counts:
  "ct_sessions_completed (build_convergence_trend rp fp rs) = count_if (\<lambda>r. ss_progress r \<noteq> None) rs"
  by (simp add: build_convergence_trend_def Let_def length_map_filter point_from_record_def)

lemma trend_points_set:
  "p \<in> set (ct_points (build_convergence_trend rp fp rs)) \<longleftrightarrow>
     (\<exists>r \<in> set rs. point_from_record rp fp r = Some p)"
  by (simp add: build_convergence_trend_def Let_def set_map_filter)

lemma trend_green: 
  "ct_sessions_green (build_convergence_trend rp fp rs)
   = count_if (\<lambda>r. case point_from_record rp fp r of None \<Rightarrow> False | Some p \<Rightarrow> pt_full_green p) rs"
proof -
  have "count_if q (sort_key f xs) = count_if q xs" for q and f :: "convergence_point \<Rightarrow> int" and xs
    by (metis count_if_def mset_filter mset_sort size_mset)
  moreover have "count_if q (List.map_filter f xs) = count_if (\<lambda>r. case f r of None \<Rightarrow> False | Some p \<Rightarrow> q p) xs"
    for q :: "convergence_point \<Rightarrow> bool" and f :: "scored_session \<Rightarrow> convergence_point option" and xs
    by (induction xs) (simp_all add: map_filter_simps2 split: option.split)
  ultimately show ?thesis by (simp add: build_convergence_trend_def Let_def)
qed

text \<open>What a session measured is what the trend shows of it: when the record of a session carries
  the JSON form of its progress vector, its point has the vector's figures, an unavailable figure
  staying unavailable; a record without progress contributes nothing, and the resolved total is
  unavailable exactly when no scored session has one.\<close>

theorem trend_reads_back_progress:
  "(\<exists>f. point_from_record rp fp (of_session_record (r\<lparr>sr_progress := Some (progress_to_dict v)\<rparr>))
      = Some \<lparr>pt_sequence_index = sr_sequence_index r, pt_session_fp = f,
          pt_problems_before = pv_problems_before v, pt_problems_after = pv_problems_after v,
          pt_resolved_count = pv_resolved_count v, pt_remaining_count = pv_remaining_count v,
          pt_full_green = pv_full_green v, pt_attempts_to_green = pv_attempts_to_green v,
          pt_turns = pv_turns v, pt_total_tokens = pv_total_tokens v,
          pt_wall_seconds = pv_wall_seconds v, pt_wall_cost_usd = pv_wall_cost_usd v,
          pt_tool_calls = pv_tool_calls v, pt_test_invocations = pv_test_invocations v,
          pt_agentic_cycles = pv_agentic_cycles v\<rparr>)
   \<and> ct_sessions_completed (build_convergence_trend rp fp (map of_session_record rs))
       = count_if (\<lambda>r. sr_progress r \<noteq> None) rs
   \<and> (ct_resolved_total (build_convergence_trend rp fp ss) = None
       \<longleftrightarrow> {p \<in> set (ct_points (build_convergence_trend rp fp ss)). pt_resolved_count p \<noteq> None} = {})"
proof (intro conjI)
  show "ct_sessions_completed (build_convergence_trend rp fp (map of_session_record rs))
       = count_if (\<lambda>r. sr_progress r \<noteq> None) rs"
    by (simp add: trend_counts of_session_record_def count_if_def filter_map comp_def)
  let ?t = "build_convergence_trend rp fp ss"
  have "List.map_filter pt_resolved_count ps = [] \<longleftrightarrow> {p \<in> set ps. pt_resolved_count p \<noteq> None} = {}" for ps
    by (induction ps) (auto simp: map_filter_simps2 split: option.split)
  from this [of "ct_points ?t"]
  show "ct_resolved_total ?t = None \<longleftrightarrow> {p \<in> set (ct_points ?t). pt_resolved_count p \<noteq> None} = {}"
    by (simp add: build_convergence_trend_def Let_def del: Collect_empty_eq)
qed (simp add: of_session_record_def point_from_record_def point_of_progress_def progress_to_dict_reads
  dget_def dget_default_def)

end
