(* ===== verification/Run_Artifacts.thy ===== *)
theory Run_Artifacts
  imports Convergence_Trend
begin

text \<open>
  \<open>wevibe_bench/cumulative/run_artifacts.py\<close>: the write-once run manifest, the append-only status
  stream (a text file, kept here as its characters) and the scorecard built from the two.  The JSON
  text of a record and the decoding of a line are the standard library's: the parameters \<open>dumps\<close>
  and \<open>loads\<close>, of which a lemma assumes only that one record's text is one line that decodes to it.
\<close>

definition RUN_ARTIFACTS_SCHEMA_VERSION :: int where
  "RUN_ARTIFACTS_SCHEMA_VERSION = 1"

section \<open>The run manifest\<close>

record run_manifest =
  rm_schema_version :: int
  rm_run_id :: string
  rm_created_at :: string
  rm_served_model :: pyval
  rm_requested_model :: pyval
  rm_memory_mode :: string
  rm_org_id :: string
  rm_source_commit :: pyval
  rm_worker_image_fingerprint :: pyval
  rm_seed :: pyval
  rm_template_hash :: pyval
  rm_roster_fingerprint :: pyval

definition run_manifest_to_dict :: "run_manifest \<Rightarrow> pydict" where
  "run_manifest_to_dict m =
     [(''schema_version'', PInt (rm_schema_version m)), (''run_id'', PStr (rm_run_id m)),
      (''created_at'', PStr (rm_created_at m)), (''served_model'', rm_served_model m),
      (''requested_model'', rm_requested_model m), (''memory_mode'', PStr (rm_memory_mode m)),
      (''org_id'', PStr (rm_org_id m)), (''source_commit'', rm_source_commit m),
      (''worker_image_fingerprint'', rm_worker_image_fingerprint m), (''seed'', rm_seed m),
      (''template_hash'', rm_template_hash m), (''roster_fingerprint'', rm_roster_fingerprint m)]"

definition run_manifest_from_dict :: "(pyval \<Rightarrow> string) \<Rightarrow> pydict \<Rightarrow> py_exc + run_manifest" where
  "run_manifest_from_dict rp d =
     bind_result (py_int (dget_default d ''schema_version'' (PInt RUN_ARTIFACTS_SCHEMA_VERSION))) (\<lambda>v.
       Inr \<lparr>rm_schema_version = v,
            rm_run_id = py_str rp (dget_default d ''run_id'' (PStr [])),
            rm_created_at = py_str rp (dget_default d ''created_at'' (PStr [])),
            rm_served_model = dget d ''served_model'',
            rm_requested_model = dget d ''requested_model'',
            rm_memory_mode = py_str rp (dget_default d ''memory_mode'' (PStr [])),
            rm_org_id = py_str rp (dget_default d ''org_id'' (PStr [])),
            rm_source_commit = dget d ''source_commit'',
            rm_worker_image_fingerprint = dget d ''worker_image_fingerprint'',
            rm_seed = dget d ''seed'', rm_template_hash = dget d ''template_hash'',
            rm_roster_fingerprint = dget d ''roster_fingerprint''\<rparr>)"

text \<open>
  The file, \<open>None\<close> when it does not exist, holds one JSON document.  The write goes to a temporary
  file that replaces the target; when the operating system refuses any step of it (\<open>io_ok\<close> is
  false) the temporary file is removed and the exception raised, the target untouched.
\<close>

definition write_run_manifest ::
  "bool \<Rightarrow> run_manifest \<Rightarrow> pyval option \<Rightarrow> (py_exc + run_manifest) \<times> pyval option" where
  "write_run_manifest io_ok m file =
     (if file \<noteq> None then (Inl PyFileExistsError, file)
      else if \<not> io_ok then (Inl PyOSError, file)
      else (Inr m, Some (PDict (run_manifest_to_dict m))))"

definition load_run_manifest :: "(pyval \<Rightarrow> string) \<Rightarrow> pyval option \<Rightarrow> py_exc + run_manifest" where
  "load_run_manifest rp file =
     (case file of
        None \<Rightarrow> Inl PyFileNotFoundError
      | Some (PDict d) \<Rightarrow> run_manifest_from_dict rp d
      | Some _ \<Rightarrow> Inl PyValueError)"

interpretation run_manifest_codec: checkpoint_codec run_manifest_to_dict "run_manifest_from_dict rp" "\<lambda>_. True" for rp
  by unfold_locales (simp add: run_manifest_to_dict_def run_manifest_from_dict_def)

text \<open>A run's attempts to publish its identity, each with whether the disk obeyed.\<close>

definition write_attempts :: "(bool \<times> run_manifest) list \<Rightarrow> pyval option \<Rightarrow> pyval option" where
  "write_attempts ws file = foldl (\<lambda>f (ok, m). snd (write_run_manifest ok m f)) file ws"

lemma write_attempts_kept: "write_attempts ws (Some doc) = Some doc"
  by (induction ws) (auto simp: write_attempts_def write_run_manifest_def)

lemma write_attempts_first:
  "write_attempts ws None =
     (case filter fst ws of [] \<Rightarrow> None | (_, m) # _ \<Rightarrow> Some (PDict (run_manifest_to_dict m)))"
proof (induction ws)
  case Nil
  then show ?case by (simp add: write_attempts_def)
next
  case (Cons w ws)
  obtain ok m where w: "w = (ok, m)" by (cases w)
  have "write_attempts (w # ws) None = write_attempts ws (snd (write_run_manifest ok m None))"
    by (simp add: write_attempts_def w)
  then show ?case using Cons by (cases ok) (simp_all add: w write_run_manifest_def write_attempts_kept)
qed

section \<open>The status stream\<close>

definition is_line_break :: "char \<Rightarrow> bool" where
  "is_line_break c \<longleftrightarrow> c = CHR 0x0A \<or> c = CHR 0x0D"

text \<open>Reading a text file line by line (any of the three line ends); the break itself is dropped, as
  \<open>strip\<close> would drop it.\<close>

fun lines_of :: "string \<Rightarrow> string list" where
  "lines_of [] = []"
| "lines_of (c # cs) =
     (if is_line_break c then [] # lines_of cs
      else case lines_of cs of [] \<Rightarrow> [[c]]
           | l # ls \<Rightarrow> (c # l) # ls)"

text \<open>\<open>StatusStream.append\<close>: the file is opened in append mode, so its text is only ever extended.  A
  crash before the write is complete leaves a prefix of the line (\<open>torn_append\<close>).\<close>

definition stream_append :: "(pydict \<Rightarrow> string) \<Rightarrow> pydict \<Rightarrow> string option \<Rightarrow> string option" where
  "stream_append dumps r stream = Some (opt_or stream [] @ dumps r @ [CHR 0x0A])"

definition torn_append :: "(pydict \<Rightarrow> string) \<Rightarrow> nat \<Rightarrow> pydict \<Rightarrow> string option \<Rightarrow> string option" where
  "torn_append dumps k r stream = Some (opt_or stream [] @ take k (dumps r))"

definition parse_line :: "(string \<Rightarrow> pyval option) \<Rightarrow> string \<Rightarrow> pydict option" where
  "parse_line loads raw =
     (let line = strip raw in
      if line = [] then None
      else case loads line of Some (PDict d) \<Rightarrow> Some d | _ \<Rightarrow> None)"

definition stream_records :: "(string \<Rightarrow> pyval option) \<Rightarrow> string option \<Rightarrow> pydict list" where
  "stream_records loads stream =
     (case stream of None \<Rightarrow> [] | Some chars \<Rightarrow> List.map_filter (parse_line loads) (lines_of chars))"

text \<open>A stream whose last line is complete, and a record whose text is one line that decodes to it.\<close>

definition clean_stream :: "string option \<Rightarrow> bool" where
  "clean_stream stream \<longleftrightarrow> (case stream of None \<Rightarrow> True | Some chars \<Rightarrow> chars = [] \<or> last chars = CHR 0x0A)"

definition one_line :: "(pydict \<Rightarrow> string) \<Rightarrow> (string \<Rightarrow> pyval option) \<Rightarrow> pydict \<Rightarrow> bool" where
  "one_line dumps loads r \<longleftrightarrow>
     list_all (\<lambda>c. \<not> is_line_break c) (dumps r) \<and> strip (dumps r) = dumps r \<and> dumps r \<noteq> []
     \<and> loads (dumps r) = Some (PDict r)"

lemma newline_breaks [simp]: "is_line_break (CHR 0x0A)"
  by (simp add: is_line_break_def)

lemma lines_of_one: "list_all (\<lambda>c. \<not> is_line_break c) l \<Longrightarrow> lines_of (l @ [CHR 0x0A]) = [l]"
  by (induction l) simp_all

lemma lines_of_fragment: "list_all (\<lambda>c. \<not> is_line_break c) l \<Longrightarrow> lines_of l = (if l = [] then [] else [l])"
  by (induction l) auto

lemma lines_of_break: "lines_of (s @ CHR 0x0A # t) = lines_of (s @ [CHR 0x0A]) @ lines_of t"
proof (induction s)
  case Nil
  then show ?case by simp
next
  case (Cons c s)
  have "lines_of (s @ [CHR 0x0A]) \<noteq> []" by (induction s) (auto split: list.split)
  then obtain l ls where "lines_of (s @ [CHR 0x0A]) = l # ls" by (meson list.exhaust)
  with Cons show ?case by simp
qed

lemma lines_of_clean:
  assumes "clean_stream (Some chars)"
  shows "lines_of (chars @ t) = lines_of chars @ lines_of t"
proof (cases "chars = []")
  case False
  with assms obtain s where "chars = s @ [CHR 0x0A]"
    by (cases chars rule: rev_cases) (simp_all add: clean_stream_def)
  then show ?thesis using lines_of_break [of s t] by simp
qed simp

lemma map_filter_append: "List.map_filter f (xs @ ys) = List.map_filter f xs @ List.map_filter f ys"
  by (simp add: List.map_filter_def)

lemma stream_records_extended:
  assumes "clean_stream stream"
  shows "stream_records loads (Some (opt_or stream [] @ t))
       = stream_records loads stream @ List.map_filter (parse_line loads) (lines_of t)"
  using assms
  by (cases stream) (simp_all add: stream_records_def opt_or_def lines_of_clean map_filter_append)

lemma parse_line_dumps: "one_line dumps loads r \<Longrightarrow> parse_line loads (dumps r) = Some r"
  by (simp add: one_line_def parse_line_def)

lemma clean_append: "clean_stream (stream_append dumps r stream)"
  by (simp add: clean_stream_def stream_append_def)

lemma append_records:
  assumes "clean_stream stream" and "one_line dumps loads r"
  shows "stream_records loads (stream_append dumps r stream) = stream_records loads stream @ [r]"
proof -
  have "lines_of (dumps r @ [CHR 0x0A]) = [dumps r]"
    using assms(2) by (intro lines_of_one) (simp add: one_line_def)
  then show ?thesis
    unfolding stream_append_def stream_records_extended [OF assms(1)]
    by (simp add: parse_line_dumps [OF assms(2)] map_filter_simps2)
qed

lemma stream_of_appends_parts:
  assumes "clean_stream stream" and "list_all (one_line dumps loads) rs"
  shows "clean_stream (foldl (\<lambda>f r. stream_append dumps r f) stream rs)
    \<and> stream_records loads (foldl (\<lambda>f r. stream_append dumps r f) stream rs) = stream_records loads stream @ rs"
  using assms by (induction rs arbitrary: stream) (simp_all add: append_records clean_append)

definition sample_dumps :: "pydict \<Rightarrow> string" where
  "sample_dumps r = (if r = [] then ''{}'' else ''{seq:1}'')"

definition sample_loads :: "string \<Rightarrow> pyval option" where
  "sample_loads l = (if l = ''{}'' then Some (PDict [])
     else if l = ''{seq:1}'' then Some (PDict [(''seq'', PInt 1)]) else None)"

text \<open>Appending is what the reader sees: after any sequence of complete appends to a stream whose
  last line is complete, the parsed records are those it had followed by the appended ones, in order
  and nothing else; and a crash during a further append, at any point where the text written so far is not yet a
  document, changes no parsed record.\<close>

theorem appended_records_are_read_back:
  assumes "clean_stream stream" and "list_all (one_line dumps loads) rs"
    and "list_all (\<lambda>c. \<not> is_line_break c) (dumps r)"
    and "loads (strip (take k (dumps r))) = None"
  shows "stream_records loads (torn_append dumps k r (foldl (\<lambda>f r. stream_append dumps r f) stream rs))
         = stream_records loads stream @ rs"
proof -
  let ?f = "foldl (\<lambda>f r. stream_append dumps r f) stream rs"
  have clean: "clean_stream ?f" and recs: "stream_records loads ?f = stream_records loads stream @ rs"
    using stream_of_appends_parts [OF assms(1,2)] by blast+
  have "list_all (\<lambda>c. \<not> is_line_break c) (take k (dumps r))"
    using assms(3) by (auto simp: list_all_iff dest: in_set_takeD)
  then have "List.map_filter (parse_line loads) (lines_of (take k (dumps r))) = []"
    using assms(4) by (simp add: lines_of_fragment map_filter_simps2 parse_line_def Let_def)
  then show ?thesis
    unfolding torn_append_def stream_records_extended [OF clean] by (simp add: recs)
qed

theorem appended_records_are_read_back_witness:
  "stream_records sample_loads (torn_append sample_dumps 3 [(''seq'', PInt 1)]
      (foldl (\<lambda>f r. stream_append sample_dumps r f) None [[], [(''seq'', PInt 1)]]))
    = [[], [(''seq'', PInt 1)]]"
proof -
  have "list_all (one_line sample_dumps sample_loads) [[], [(''seq'', PInt 1)]]"
    "list_all (\<lambda>c. \<not> is_line_break c) (sample_dumps [(''seq'', PInt 1)])"
    "sample_loads (strip (take 3 (sample_dumps [(''seq'', PInt 1)]))) = None"
    unfolding one_line_def is_line_break_def by code_simp+
  from appended_records_are_read_back [OF _ this, of None] show ?thesis
    by (simp add: clean_stream_def stream_records_def)
qed

text \<open>A crash in the middle of an append costs the next record as well: the fragment has no line
  end, the next append continues its line, and when the joined text is not a document, neither the
  torn nor the next, completely written, record is ever read.\<close>

theorem torn_append_swallows_next_record:
  assumes "clean_stream stream"
    and "list_all (\<lambda>c. \<not> is_line_break c) (dumps r)" and "list_all (\<lambda>c. \<not> is_line_break c) (dumps r')"
    and "loads (strip (take k (dumps r) @ dumps r')) = None"
  shows "stream_records loads (stream_append dumps r' (torn_append dumps k r stream)) = stream_records loads stream"
proof -
  have "list_all (\<lambda>c. \<not> is_line_break c) (take k (dumps r) @ dumps r')"
    using assms(2,3) by (auto simp: list_all_iff dest: in_set_takeD)
  then have "List.map_filter (parse_line loads) (lines_of ((take k (dumps r) @ dumps r') @ [CHR 0x0A])) = []"
    using assms(4) by (subst lines_of_one) (simp_all add: map_filter_simps2 parse_line_def Let_def)
  then show ?thesis
    using stream_records_extended [OF assms(1), of loads "(take k (dumps r) @ dumps r') @ [CHR 0x0A]"]
    by (simp add: stream_append_def torn_append_def opt_or_def)
qed

theorem torn_append_swallows_next_record_witness:
  "stream_records sample_loads (stream_append sample_dumps [(''seq'', PInt 1)] (torn_append sample_dumps 3 [(''seq'', PInt 1)] None)) = []
   \<and> stream_records sample_loads (stream_append sample_dumps [(''seq'', PInt 1)] None) = [[(''seq'', PInt 1)]]"
proof
  have *: "list_all (\<lambda>c. \<not> is_line_break c) (sample_dumps [(''seq'', PInt 1)])"
    "sample_loads (strip (take 3 (sample_dumps [(''seq'', PInt 1)]) @ sample_dumps [(''seq'', PInt 1)])) = None"
    unfolding is_line_break_def by code_simp+
  from torn_append_swallows_next_record [where stream = None and dumps = sample_dumps and loads = sample_loads
      and r = "[(''seq'', PInt 1)]" and r' = "[(''seq'', PInt 1)]" and k = 3, OF _ *(1) *(1) *(2)]
  show "stream_records sample_loads (stream_append sample_dumps [(''seq'', PInt 1)] (torn_append sample_dumps 3 [(''seq'', PInt 1)] None)) = []"
    by (simp add: clean_stream_def stream_records_def [of _ None])
  have "one_line sample_dumps sample_loads [(''seq'', PInt 1)]"
    unfolding one_line_def is_line_break_def by code_simp
  then show "stream_records sample_loads (stream_append sample_dumps [(''seq'', PInt 1)] None) = [[(''seq'', PInt 1)]]"
    using append_records [of None sample_dumps sample_loads] by (simp add: clean_stream_def stream_records_def [of _ None])
qed

section \<open>The scorecard\<close>

text \<open>\<open>int(v or 0)\<close>\<close>

definition int_or_zero :: "pyval \<Rightarrow> py_exc + int" where
  "int_or_zero v = (if truthy v then py_int v else Inr 0)"

text \<open>The last selected record of each sequence index, in the order in which the indices first occur: a
  Python dict keyed by \<open>int(record["sequence_index"])\<close>.\<close>

fun collect_last :: "(pydict \<Rightarrow> bool) \<Rightarrow> pydict list \<Rightarrow> (int \<times> pydict) list \<Rightarrow> py_exc + (int \<times> pydict) list" where
  "collect_last sel [] acc = Inr acc"
| "collect_last sel (r # rs) acc =
     (if sel r \<and> dget r ''sequence_index'' \<noteq> PNone
      then bind_result (py_int (dget r ''sequence_index''))
             (\<lambda>i. collect_last sel rs (AList.update i r acc))
      else collect_last sel rs acc)"

definition is_unverified_delivery :: "pydict \<Rightarrow> bool" where
  "is_unverified_delivery r \<longleftrightarrow>
     dget r ''type'' = PStr ''delivery'' \<and> dget r ''delivery_state'' = PStr ''unverified''"

definition is_attempt :: "pydict \<Rightarrow> bool" where
  "is_attempt r \<longleftrightarrow> dget r ''type'' = PStr ''attempt'' \<and> is_dict (dget r ''progress'')"

definition terminal_full_green :: "pydict \<Rightarrow> bool" where
  "terminal_full_green r = (case dget r ''progress'' of
     PDict p \<Rightarrow> strict_bool (dget_default p ''full_green'' (PBool False))
   | _ \<Rightarrow> False)"

definition truncation_signal :: "(pyval \<Rightarrow> string) \<Rightarrow> pydict \<Rightarrow> py_exc + bool" where
  "truncation_signal rp r =
     (if str_or_blank rp (dget r ''terminal_reason'') = ''transport_incomplete'' then Inr True
      else bind_result (int_or_zero (dget r ''length_truncations'')) (\<lambda>n. if n > 0 then Inr True
      else bind_result (int_or_zero (dget r ''truncated_turns'')) (\<lambda>n. if n > 0 then Inr True
      else bind_result (int_or_zero (dget r ''observation_lost_turns'')) (\<lambda>n. Inr (n > 0)))))"

fun collect_void :: "(pyval \<Rightarrow> string) \<Rightarrow> (int \<times> pydict) list \<Rightarrow> py_exc + (int \<times> pydict) list" where
  "collect_void rp [] = Inr []"
| "collect_void rp ((i, r) # best) =
     (if terminal_full_green r then collect_void rp best
      else bind_result (truncation_signal rp r) (\<lambda>t.
           bind_result (collect_void rp best) (\<lambda>vs. Inr (if t then (i, r) # vs else vs))))"

definition has_key :: "'k \<Rightarrow> ('k \<times> 'v) list \<Rightarrow> bool" where
  "has_key k xs \<longleftrightarrow> map_of xs k \<noteq> None"

text \<open>The scored cells; the index of a record kept under \<open>i\<close> is \<open>i\<close>.\<close>

definition scored_session_of :: "(pyval \<Rightarrow> string) \<Rightarrow> int \<times> pydict \<Rightarrow> scored_session" where
  "scored_session_of rp = (\<lambda>(i, r).
     \<lparr>ss_sequence_index = i, ss_session_fp = PStr (str_or_blank rp (dget r ''session_fp'')),
      ss_session_id = dget r ''session_id'',
      ss_progress = Some (dict_or_empty (dget r ''progress''))\<rparr>)"

definition session_full_green :: "scored_session \<Rightarrow> bool" where
  "session_full_green s = (case ss_progress s of None \<Rightarrow> False
     | Some p \<Rightarrow> strict_bool (dget_default p ''full_green'' (PBool False)))"

record scorecard =
  sc_schema_version :: int
  sc_manifest :: run_manifest
  sc_convergence :: convergence_trend
  sc_stream_records :: nat
  sc_scored_sessions :: nat
  sc_scored_pass :: nat
  sc_scored_fail :: nat
  sc_not_scored :: "(int \<times> string \<times> string) list"
  sc_void_instrument :: "(int \<times> string \<times> string) list"

definition score_records ::
  "(pyval \<Rightarrow> string) \<Rightarrow> (string \<Rightarrow> string) \<Rightarrow> run_manifest \<Rightarrow> pydict list \<Rightarrow> py_exc + scorecard" where
  "score_records rp fp m records =
     bind_result (collect_last is_unverified_delivery records []) (\<lambda>not_scored.
     bind_result (collect_last is_attempt records []) (\<lambda>best.
     bind_result (collect_void rp best) (\<lambda>void.
       let scored = map (scored_session_of rp)
             (filter (\<lambda>(i, r). \<not> has_key i not_scored \<and> \<not> has_key i void) best);
           pass = count_if session_full_green scored
       in Inr \<lparr>sc_schema_version = RUN_ARTIFACTS_SCHEMA_VERSION, sc_manifest = m,
            sc_convergence = build_convergence_trend rp fp scored,
            sc_stream_records = length records, sc_scored_sessions = length scored,
            sc_scored_pass = pass, sc_scored_fail = length scored - pass,
            sc_not_scored = map (\<lambda>(i, r). (i, str_or_blank rp (dget r ''memory_mode''),
                str_or_blank rp (dget r ''not_scored_reason''))) not_scored,
            sc_void_instrument = map (\<lambda>(i, r). (i, str_or_blank rp (dget r ''memory_mode''),
                ''provider_truncation'')) void\<rparr>)))"

definition build_scorecard ::
  "(pyval \<Rightarrow> string) \<Rightarrow> (string \<Rightarrow> string) \<Rightarrow> (string \<Rightarrow> pyval option) \<Rightarrow> pyval option \<Rightarrow> string option
   \<Rightarrow> py_exc + scorecard" where
  "build_scorecard rp fp loads manifest_file stream =
     bind_result (load_run_manifest rp manifest_file) (\<lambda>m.
       score_records rp fp m (stream_records loads stream))"

section \<open>What the scorecard says\<close>

text \<open>The cell a record belongs to, and the last selected record of a cell.\<close>

definition record_index :: "pydict \<Rightarrow> int option" where
  "record_index r = (case py_int (dget r ''sequence_index'') of Inr i \<Rightarrow> Some i | Inl _ \<Rightarrow> None)"

definition last_record :: "(pydict \<Rightarrow> bool) \<Rightarrow> pydict list \<Rightarrow> int \<Rightarrow> pydict option" where
  "last_record sel rs i =
     (let xs = filter (\<lambda>r. sel r \<and> record_index r = Some i) rs
      in if xs = [] then None else Some (last xs))"

lemma last_record_Cons:
  "last_record sel (r # rs) i = (case last_record sel rs i of Some x \<Rightarrow> Some x
     | None \<Rightarrow> (if sel r \<and> record_index r = Some i then Some r else None))"
  by (simp add: last_record_def Let_def)

lemma last_record_Nil [simp]: "last_record sel [] i = None"
  by (simp add: last_record_def)

lemma collect_last_eq:
  "collect_last sel rs acc = Inr m \<Longrightarrow>
   map_of m i = (case last_record sel rs i of Some x \<Rightarrow> Some x | None \<Rightarrow> map_of acc i)"
proof (induction sel rs acc rule: collect_last.induct)
  case (1 sel acc)
  then show ?case by simp
next
  case (2 sel r rs acc)
  show ?case
  proof (cases "sel r \<and> dget r ''sequence_index'' \<noteq> PNone")
    case True
    with 2(3) obtain j where j: "py_int (dget r ''sequence_index'') = Inr j"
      and rest: "collect_last sel rs (AList.update j r acc) = Inr m"
      by (cases "py_int (dget r ''sequence_index'')") simp_all
    have "record_index r = Some j" by (simp add: record_index_def j)
    then show ?thesis
      using 2(1) [OF True rest] True
      by (simp add: last_record_Cons map_of_AList_update split: option.split)
  next
    case False
    then have "\<not> (sel r \<and> record_index r = Some i)" by (auto simp: record_index_def)
    moreover from False 2(3) have rest: "collect_last sel rs acc = Inr m" by auto
    ultimately show ?thesis
      using 2(2) [OF False rest] by (auto simp: last_record_Cons split: option.split)
  qed
qed

lemma collect_last_distinct:
  "collect_last sel rs acc = Inr m \<Longrightarrow> distinct (map fst acc) \<Longrightarrow> distinct (map fst m)"
proof (induction sel rs acc rule: collect_last.induct)
  case (2 sel r rs acc)
  then show ?case
    by (cases "py_int (dget r ''sequence_index'')")
      (auto simp: distinct_AList_update split: if_splits)
qed simp

lemma collect_void_filter:
  "collect_void rp best = Inr vs \<Longrightarrow>
     vs = filter (\<lambda>(i, r). \<not> terminal_full_green r \<and> truncation_signal rp r = Inr True) best
     \<and> (\<forall>(i, r) \<in> set best. terminal_full_green r \<or> truncation_signal rp r \<in> {Inr True, Inr False})"
proof (induction best arbitrary: vs)
  case Nil
  then show ?case by simp
next
  case (Cons b best)
  obtain i r where b: "b = (i, r)" by (cases b)
  show ?case
  proof (cases "terminal_full_green r")
    case True
    with Cons b show ?thesis by simp
  next
    case False
    with Cons.prems b obtain t ws where t: "truncation_signal rp r = Inr t"
      and ws: "collect_void rp best = Inr ws" and vs: "vs = (if t then b # ws else ws)"
      by (cases "truncation_signal rp r"; cases "collect_void rp best") auto
    show ?thesis using Cons.IH [OF ws] by (cases t) (simp_all add: False t vs b)
  qed
qed

text \<open>What a successful scorecard was built from.\<close>

lemma build_scorecard_elim:
  assumes "build_scorecard rp fp loads mf stream = Inr sc"
  obtains m delivery best void scored where
    "collect_last is_unverified_delivery (stream_records loads stream) [] = Inr delivery"
    "collect_last is_attempt (stream_records loads stream) [] = Inr best"
    "void = filter (\<lambda>(i, r). \<not> terminal_full_green r \<and> truncation_signal rp r = Inr True) best"
    "\<forall>(i, r) \<in> set best. terminal_full_green r \<or> truncation_signal rp r \<in> {Inr True, Inr False}"
    "scored = filter (\<lambda>(i, r). \<not> has_key i delivery \<and> \<not> has_key i void) best"
    "sc_convergence sc = build_convergence_trend rp fp (map (scored_session_of rp) scored)"
    "sc_scored_sessions sc = length scored"
    "sc_scored_pass sc = count_if session_full_green (map (scored_session_of rp) scored)"
    "sc_scored_fail sc = sc_scored_sessions sc - sc_scored_pass sc"
    "map fst (sc_not_scored sc) = map fst delivery"
    "map fst (sc_void_instrument sc) = map fst void"
    "load_run_manifest rp mf = Inr m" "sc_manifest sc = m"
proof -
  let ?rs = "stream_records loads stream"
  from assms obtain m where m: "load_run_manifest rp mf = Inr m" and s: "score_records rp fp m ?rs = Inr sc"
    unfolding build_scorecard_def by (cases "load_run_manifest rp mf") simp_all
  from s obtain delivery best where d: "collect_last is_unverified_delivery ?rs [] = Inr delivery"
    and b: "collect_last is_attempt ?rs [] = Inr best"
    unfolding score_records_def
    by (cases "collect_last is_unverified_delivery ?rs []"; cases "collect_last is_attempt ?rs []") simp_all
  from s obtain void where v: "collect_void rp best = Inr void"
    unfolding score_records_def d b bind_result_simps by (cases "collect_void rp best") simp_all
  note void = collect_void_filter [OF v]
  have fst_map: "map fst (map (\<lambda>(i, r). (i, g r, h r)) xs) = map fst xs" for g h and xs :: "(int \<times> pydict) list"
    by (induction xs) auto
  show thesis
  proof (rule that [OF d b conjunct1 [OF void] conjunct2 [OF void] refl _ _ _ _ _ _ m])
  qed (use s in \<open>auto simp: score_records_def d b v Let_def fst_map\<close>)
qed

lemma map_of_distinct_mem: "distinct (map fst xs) \<Longrightarrow> (k, v) \<in> set xs \<longleftrightarrow> map_of xs k = Some v"
  by (auto dest: map_of_SomeD)

lemma point_of_scored:
  "point_from_record rp fp (scored_session_of rp (i, r)) = Some p \<Longrightarrow>
     pt_sequence_index p = i \<and> pt_full_green p = session_full_green (scored_session_of rp (i, r))"
  by (auto simp: scored_session_of_def point_from_record_def point_of_progress_def session_full_green_def)

lemma session_green_of_attempt:
  "is_attempt r \<Longrightarrow> session_full_green (scored_session_of rp (i, r)) = terminal_full_green r"
  by (cases "dget r ''progress''")
    (auto simp: is_attempt_def scored_session_of_def session_full_green_def terminal_full_green_def)

lemma last_record_sel: "last_record sel rs i = Some r \<Longrightarrow> sel r \<and> r \<in> set rs \<and> record_index r = Some i"
  using last_in_set [of "filter (\<lambda>r. sel r \<and> record_index r = Some i) rs"]
  by (auto simp: last_record_def Let_def split: if_splits)

lemma scorecard_counts_parts:
  assumes "build_scorecard rp fp loads mf stream = Inr sc"
  shows "sc_scored_pass sc + sc_scored_fail sc = sc_scored_sessions sc"
    and "sc_scored_sessions sc = ct_sessions_completed (sc_convergence sc)"
    and "sc_scored_pass sc = ct_sessions_green (sc_convergence sc)"
    and "load_run_manifest rp mf = Inr (sc_manifest sc)"
proof -
  obtain m delivery best void scored where
    conv: "sc_convergence sc = build_convergence_trend rp fp (map (scored_session_of rp) scored)"
    and n: "sc_scored_sessions sc = length scored"
    and pass: "sc_scored_pass sc = count_if session_full_green (map (scored_session_of rp) scored)"
    and fail: "sc_scored_fail sc = sc_scored_sessions sc - sc_scored_pass sc"
    and m: "load_run_manifest rp mf = Inr m" "sc_manifest sc = m"
    by (rule build_scorecard_elim [OF assms]) (rule that; assumption)
  show "sc_scored_pass sc + sc_scored_fail sc = sc_scored_sessions sc"
    using count_if_le [of session_full_green "map (scored_session_of rp) scored"]
    by (simp add: fail n pass)
  have progress: "ss_progress (scored_session_of rp c) \<noteq> None" for c
    by (cases c) (simp add: scored_session_of_def)
  have all: "count_if (\<lambda>r. ss_progress r \<noteq> None) (map (scored_session_of rp) cs) = length cs" for cs
    by (induction cs) (simp_all add: progress del: not_None_eq)
  show "sc_scored_sessions sc = ct_sessions_completed (sc_convergence sc)"
    unfolding conv trend_counts n all ..
  have green: "(case point_from_record rp fp (scored_session_of rp c) of None \<Rightarrow> False | Some p \<Rightarrow> pt_full_green p)
      = session_full_green (scored_session_of rp c)" for c
    using progress [of c] point_of_scored [of rp fp "fst c" "snd c"]
    by (auto simp: point_from_record_def)
  have "count_if (\<lambda>r. case point_from_record rp fp r of None \<Rightarrow> False | Some p \<Rightarrow> pt_full_green p)
      (map (scored_session_of rp) cs) = count_if session_full_green (map (scored_session_of rp) cs)" for cs
    by (induction cs) (simp_all add: green)
  then show "sc_scored_pass sc = ct_sessions_green (sc_convergence sc)"
    unfolding conv trend_green pass by simp
  show "load_run_manifest rp mf = Inr (sc_manifest sc)" using m by simp
qed

lemma scored_cells:
  assumes "build_scorecard rp fp loads mf stream = Inr sc"
  shows "i \<in> pt_sequence_index ` set (ct_points (sc_convergence sc)) \<longleftrightarrow>
      last_record is_attempt (stream_records loads stream) i \<noteq> None
      \<and> i \<notin> fst ` set (sc_not_scored sc) \<and> i \<notin> fst ` set (sc_void_instrument sc)"
    and "i \<in> fst ` set (sc_not_scored sc) \<longleftrightarrow>
      last_record is_unverified_delivery (stream_records loads stream) i \<noteq> None"
    and "i \<in> fst ` set (sc_void_instrument sc) \<longleftrightarrow>
      (\<exists>r. last_record is_attempt (stream_records loads stream) i = Some r
         \<and> \<not> terminal_full_green r \<and> truncation_signal rp r = Inr True)"
    and "p \<in> set (ct_points (sc_convergence sc)) \<Longrightarrow>
      \<exists>r. last_record is_attempt (stream_records loads stream) (pt_sequence_index p) = Some r
        \<and> pt_full_green p = terminal_full_green r
        \<and> (terminal_full_green r \<or> truncation_signal rp r = Inr False)"
proof -
  let ?rs = "stream_records loads stream"
  obtain m delivery best void scored where
    d: "collect_last is_unverified_delivery ?rs [] = Inr delivery"
    and b: "collect_last is_attempt ?rs [] = Inr best"
    and v: "void = filter (\<lambda>(i, r). \<not> terminal_full_green r \<and> truncation_signal rp r = Inr True) best"
    and ok: "\<forall>(i, r) \<in> set best. terminal_full_green r \<or> truncation_signal rp r \<in> {Inr True, Inr False}"
    and sc: "scored = filter (\<lambda>(i, r). \<not> has_key i delivery \<and> \<not> has_key i void) best"
    and conv: "sc_convergence sc = build_convergence_trend rp fp (map (scored_session_of rp) scored)"
    and ns: "map fst (sc_not_scored sc) = map fst delivery"
    and vi: "map fst (sc_void_instrument sc) = map fst void"
    by (rule build_scorecard_elim [OF assms]) (rule that; assumption)
  have distinct: "distinct (map fst best)" using collect_last_distinct [OF b] by simp
  have mem: "(j, r) \<in> set best \<longleftrightarrow> last_record is_attempt ?rs j = Some r" for j r
    using collect_last_eq [OF b, of j] by (simp add: map_of_distinct_mem [OF distinct] split: option.split)
  have keys: "fst ` set (sc_not_scored sc) = fst ` set delivery" "fst ` set (sc_void_instrument sc) = fst ` set void"
    using ns vi by (metis list.set_map)+
  have has: "has_key j xs \<longleftrightarrow> j \<in> fst ` set xs" for j and xs :: "(int \<times> pydict) list"
    by (simp add: has_key_def map_of_eq_None_iff)
  show "i \<in> fst ` set (sc_not_scored sc) \<longleftrightarrow> last_record is_unverified_delivery ?rs i \<noteq> None"
    using collect_last_eq [OF d, of i] unfolding keys
    by (metis has has_key_def map_of.simps(1) option.case_eq_if option.collapse)
  show "i \<in> fst ` set (sc_void_instrument sc) \<longleftrightarrow>
      (\<exists>r. last_record is_attempt ?rs i = Some r \<and> \<not> terminal_full_green r \<and> truncation_signal rp r = Inr True)"
    unfolding keys v by (force simp flip: mem)
  have point: "p \<in> set (ct_points (sc_convergence sc)) \<longleftrightarrow>
      (\<exists>j r. (j, r) \<in> set scored \<and> point_from_record rp fp (scored_session_of rp (j, r)) = Some p)" for p
    unfolding conv trend_points_set by force
  have point_ex: "\<exists>p. point_from_record rp fp (scored_session_of rp c) = Some p" for c
    by (cases c) (simp add: scored_session_of_def point_from_record_def)
  have "i \<in> pt_sequence_index ` set (ct_points (sc_convergence sc)) \<longleftrightarrow> (\<exists>r. (i, r) \<in> set scored)"
    using point point_ex point_of_scored by (smt (verit) image_iff)
  then show "i \<in> pt_sequence_index ` set (ct_points (sc_convergence sc)) \<longleftrightarrow>
      last_record is_attempt ?rs i \<noteq> None
      \<and> i \<notin> fst ` set (sc_not_scored sc) \<and> i \<notin> fst ` set (sc_void_instrument sc)"
    unfolding keys sc by (auto simp: has mem)
  show "\<exists>r. last_record is_attempt ?rs (pt_sequence_index p) = Some r
        \<and> pt_full_green p = terminal_full_green r
        \<and> (terminal_full_green r \<or> truncation_signal rp r = Inr False)"
    if "p \<in> set (ct_points (sc_convergence sc))"
  proof -
    from that obtain j r where s: "(j, r) \<in> set scored"
      and p: "point_from_record rp fp (scored_session_of rp (j, r)) = Some p" unfolding point by blast
    from s have best: "(j, r) \<in> set best" and "\<not> has_key j void" unfolding sc by auto
    then have "(j, r) \<notin> set void" unfolding has by force
    with best ok have signal: "terminal_full_green r \<or> truncation_signal rp r = Inr False"
      unfolding v by auto
    from best have last: "last_record is_attempt ?rs j = Some r" by (simp add: mem)
    from last_record_sel [OF this] have "is_attempt r" by blast
    with point_of_scored [OF p] last signal show ?thesis by (auto simp: session_green_of_attempt)
  qed
qed

text \<open>The counts of a scorecard are one bookkeeping: passes and failures add up to the scored
  sessions, which are the sessions of the convergence trend, and the passes are its green ones.\<close>

theorem scorecard_counts_agree:
  assumes "build_scorecard rp fp loads mf stream = Inr sc"
  shows "sc_scored_pass sc + sc_scored_fail sc = sc_scored_sessions sc
    \<and> sc_scored_sessions sc = ct_sessions_completed (sc_convergence sc)
    \<and> sc_scored_pass sc = ct_sessions_green (sc_convergence sc)
    \<and> load_run_manifest rp mf = Inr (sc_manifest sc)"
  using scorecard_counts_parts [OF assms] by blast

text \<open>A stream of six records over four cells: a pass, a failure, a truncated failure and a cell whose
  delivery was never verified.\<close>

definition sample_cell :: "char \<Rightarrow> pydict" where
  "sample_cell c =
     (if c = CHR ''a'' then [(''type'', PStr ''attempt''), (''sequence_index'', PInt 0),
          (''progress'', PDict [(''full_green'', PBool True)])]
      else if c = CHR ''b'' then [(''type'', PStr ''attempt''), (''sequence_index'', PInt 1),
          (''length_truncations'', PInt 2), (''progress'', PDict [])]
      else if c = CHR ''c'' then [(''type'', PStr ''attempt''), (''sequence_index'', PInt 1),
          (''progress'', PDict [(''full_green'', PBool False)])]
      else if c = CHR ''d'' then [(''type'', PStr ''attempt''), (''sequence_index'', PInt 2),
          (''truncated_turns'', PInt 1), (''progress'', PDict [])]
      else if c = CHR ''e'' then [(''type'', PStr ''attempt''), (''sequence_index'', PInt 3),
          (''progress'', PDict [(''full_green'', PBool True)])]
      else [(''type'', PStr ''delivery''), (''sequence_index'', PInt 3),
          (''delivery_state'', PStr ''unverified'')])"

definition sample_line :: "string \<Rightarrow> pyval option" where
  "sample_line l = (if l = [] then None else Some (PDict (sample_cell (hd l))))"

definition sample_stream :: string where
  "sample_stream = concat (map (\<lambda>c. [c, CHR 0x0A]) ''abcdef'')"

lemma sample_scorecard:
  obtains sc where "build_scorecard (\<lambda>_. []) (\<lambda>_. []) sample_line (Some (PDict [])) (Some sample_stream) = Inr sc"
    "fst ` set (sc_not_scored sc) = {3}" "fst ` set (sc_void_instrument sc) = {2}"
    "sc_scored_pass sc = 1" "sc_scored_sessions sc = 2"
proof -
  obtain m where m: "load_run_manifest (\<lambda>_. []) (Some (PDict [])) = Inr m"
    by (simp add: load_run_manifest_def run_manifest_from_dict_def RUN_ARTIFACTS_SCHEMA_VERSION_def)
  have r: "stream_records sample_line (Some sample_stream) = map sample_cell ''abcdef''"
    by code_simp
  have d: "collect_last is_unverified_delivery (map sample_cell ''abcdef'') [] = Inr [(3, sample_cell CHR ''f'')]"
    by code_simp
  have b: "collect_last is_attempt (map sample_cell ''abcdef'') []
    = Inr [(0, sample_cell CHR ''a''), (1, sample_cell CHR ''c''), (2, sample_cell CHR ''d''), (3, sample_cell CHR ''e'')]"
    by code_simp
  have v: "collect_void (\<lambda>_. []) [(0, sample_cell CHR ''a''), (1, sample_cell CHR ''c''), (2, sample_cell CHR ''d''),
    (3, sample_cell CHR ''e'')] = Inr [(2, sample_cell CHR ''d'')]"
    by code_simp
  let ?scored = "filter (\<lambda>(i, r). \<not> has_key i [(3::int, sample_cell CHR ''f'')] \<and> \<not> has_key i [(2, sample_cell CHR ''d'')])
    [(0, sample_cell CHR ''a''), (1, sample_cell CHR ''c''), (2, sample_cell CHR ''d''), (3, sample_cell CHR ''e'')]"
  have n: "length ?scored = 2" by (simp add: has_key_def)
  have pass: "count_if session_full_green (map (scored_session_of (\<lambda>_. [])) ?scored) = 1"
    by code_simp
  have eq: "build_scorecard (\<lambda>_. []) (\<lambda>_. []) sample_line (Some (PDict [])) (Some sample_stream) =
    Inr (let scored = ?scored in \<lparr>sc_schema_version = RUN_ARTIFACTS_SCHEMA_VERSION, sc_manifest = m,
            sc_convergence = build_convergence_trend (\<lambda>_. []) (\<lambda>_. []) (map (scored_session_of (\<lambda>_. [])) scored),
            sc_stream_records = 6, sc_scored_sessions = 2,
            sc_scored_pass = 1, sc_scored_fail = 1,
            sc_not_scored = map (\<lambda>(i, r). (i, str_or_blank (\<lambda>_. []) (dget r ''memory_mode''),
                str_or_blank (\<lambda>_. []) (dget r ''not_scored_reason''))) [(3, sample_cell CHR ''f'')],
            sc_void_instrument = map (\<lambda>(i, r). (i, str_or_blank (\<lambda>_. []) (dget r ''memory_mode''),
                ''provider_truncation'')) [(2, sample_cell CHR ''d'')]\<rparr>)"
    unfolding build_scorecard_def m r score_records_def d b v bind_result_simps Let_def length_map n pass
    by simp
  show ?thesis by (rule that [OF eq]) (simp_all add: Let_def)
qed

theorem scorecard_counts_agree_witness:
  "\<exists>sc. build_scorecard (\<lambda>_. []) (\<lambda>_. []) sample_line (Some (PDict [])) (Some sample_stream) = Inr sc
     \<and> sc_scored_fail sc = 1 \<and> ct_sessions_completed (sc_convergence sc) = 2"
proof -
  obtain sc where sc: "build_scorecard (\<lambda>_. []) (\<lambda>_. []) sample_line (Some (PDict [])) (Some sample_stream) = Inr sc"
    "sc_scored_pass sc = 1" "sc_scored_sessions sc = 2" by (rule sample_scorecard)
  from scorecard_counts_agree [OF sc(1)] sc show ?thesis by auto
qed

text \<open>Every cell has an outcome, and only verified and observed cells are scored: a cell with an
  attempt is scored unless its delivery was recorded as unverified or its last attempt, not green, carries
  a truncation signal, and exactly those two reasons take it out of the score.\<close>

theorem every_cell_has_an_outcome:
  assumes "build_scorecard rp fp loads mf stream = Inr sc"
  shows "(i \<in> pt_sequence_index ` set (ct_points (sc_convergence sc)) \<longleftrightarrow>
      last_record is_attempt (stream_records loads stream) i \<noteq> None
      \<and> i \<notin> fst ` set (sc_not_scored sc) \<and> i \<notin> fst ` set (sc_void_instrument sc))
    \<and> (i \<in> fst ` set (sc_not_scored sc) \<longleftrightarrow>
      last_record is_unverified_delivery (stream_records loads stream) i \<noteq> None)
    \<and> (i \<in> fst ` set (sc_void_instrument sc) \<longleftrightarrow>
      (\<exists>r. last_record is_attempt (stream_records loads stream) i = Some r
         \<and> \<not> terminal_full_green r \<and> truncation_signal rp r = Inr True))"
  by (rule conjI [OF scored_cells(1) [OF assms] conjI [OF scored_cells(2) [OF assms] scored_cells(3) [OF assms]]])

theorem every_cell_has_an_outcome_witness:
  "\<exists>sc. build_scorecard (\<lambda>_. []) (\<lambda>_. []) sample_line (Some (PDict [])) (Some sample_stream) = Inr sc
     \<and> 2 \<notin> pt_sequence_index ` set (ct_points (sc_convergence sc))
     \<and> 1 \<in> pt_sequence_index ` set (ct_points (sc_convergence sc))"
proof -
  obtain sc where sc: "build_scorecard (\<lambda>_. []) (\<lambda>_. []) sample_line (Some (PDict [])) (Some sample_stream) = Inr sc"
    and ns: "fst ` set (sc_not_scored sc) = {3}" and vi: "fst ` set (sc_void_instrument sc) = {2}"
    by (rule sample_scorecard)
  have "last_record is_attempt (stream_records sample_line (Some sample_stream)) 1 = Some (sample_cell CHR ''c'')"
    by code_simp
  with every_cell_has_an_outcome [OF sc(1), of 1] every_cell_has_an_outcome [OF sc(1), of 2] sc(1)
  show ?thesis unfolding ns vi by auto
qed

text \<open>A failure on the scorecard is the model's: the last attempt of the cell was not green, its
  stream was neither truncated nor lost, whatever earlier attempts saw, and no delivery of the cell was
  recorded as unverified.\<close>

theorem scored_failure_is_genuine:
  assumes "build_scorecard rp fp loads mf stream = Inr sc"
    and "p \<in> set (ct_points (sc_convergence sc))" and "\<not> pt_full_green p"
  shows "\<exists>r. last_record is_attempt (stream_records loads stream) (pt_sequence_index p) = Some r
     \<and> \<not> terminal_full_green r \<and> truncation_signal rp r = Inr False
     \<and> str_or_blank rp (dget r ''terminal_reason'') \<noteq> ''transport_incomplete''
     \<and> last_record is_unverified_delivery (stream_records loads stream) (pt_sequence_index p) = None"
proof -
  from scored_cells(4) [OF assms(1,2)] assms(3) obtain r where
    r: "last_record is_attempt (stream_records loads stream) (pt_sequence_index p) = Some r"
      "\<not> terminal_full_green r" "truncation_signal rp r = Inr False" by auto
  from r(3) have "str_or_blank rp (dget r ''terminal_reason'') \<noteq> ''transport_incomplete''"
    by (auto simp: truncation_signal_def)
  moreover have "last_record is_unverified_delivery (stream_records loads stream) (pt_sequence_index p) = None"
    using scored_cells(1,2) [OF assms(1)] assms(2) by blast
  ultimately show ?thesis using r by blast
qed

theorem scored_failure_is_genuine_witness:
  "\<exists>sc p. build_scorecard (\<lambda>_. []) (\<lambda>_. []) sample_line (Some (PDict [])) (Some sample_stream) = Inr sc
     \<and> p \<in> set (ct_points (sc_convergence sc))
     \<and> (\<exists>r. last_record is_attempt (stream_records sample_line (Some sample_stream)) (pt_sequence_index p) = Some r
          \<and> truncation_signal (\<lambda>_. []) r = Inr False)"
proof -
  obtain sc where sc: "build_scorecard (\<lambda>_. []) (\<lambda>_. []) sample_line (Some (PDict [])) (Some sample_stream) = Inr sc"
    and ns: "fst ` set (sc_not_scored sc) = {3}" and vi: "fst ` set (sc_void_instrument sc) = {2}"
    by (rule sample_scorecard)
  have last: "last_record is_attempt (stream_records sample_line (Some sample_stream)) 1 = Some (sample_cell CHR ''c'')"
    by code_simp
  have red: "\<not> terminal_full_green (sample_cell CHR ''c'')" by code_simp
  from scored_cells(1) [OF sc(1), of 1] last obtain p where
    p: "p \<in> set (ct_points (sc_convergence sc))" "pt_sequence_index p = 1" unfolding ns vi by auto
  from scored_cells(4) [OF sc(1) p(1)] last red have "\<not> pt_full_green p" by (simp add: p(2))
  from scored_failure_is_genuine [OF sc(1) p(1) this] sc(1) p(1) show ?thesis by blast
qed

text \<open>A run keeps the identity it was first given: whatever is written afterwards, and however
  often the disk refuses, the manifest that is loaded is the one of the first write that
  succeeded, exactly as it was written.\<close>

theorem run_identity_never_drifts:
  "load_run_manifest rp (write_attempts ws None) =
     (case filter fst ws of [] \<Rightarrow> Inl PyFileNotFoundError | (_, m) # _ \<Rightarrow> Inr m)
   \<and> (write_attempts ws None = None
      \<or> fst (write_run_manifest ok m (write_attempts ws None)) = Inl PyFileExistsError)"
  by (auto simp: write_attempts_first load_run_manifest_def run_manifest_codec.dec_enc
      write_run_manifest_def split: list.split)

end
