(* ===== verification/Worker_Events.thy ===== *)
theory Worker_Events
  imports Bench_Prelude
begin

text \<open>
  The metering of one worker process: \<open>BackgammonRunner._run_opencode\<close> of
  \<open>wevibe_bench/adapters/backgammon.py\<close> reads the process's standard output, one JSON event per
  line, and keeps a state under a lock; this theory has that state, the reader's step per line,
  what is closed when the process has ended, and the poll that may kill it.  SHA-256
  fingerprints are the parameter \<open>fp\<close>, decoding of a line \<open>loads\<close> and the text of floats and
  containers \<open>rp\<close>.  Correlation counters that only go into evidence files are left out.
\<close>

section \<open>Reading values\<close>

text \<open>\<open>_to_int\<close>\<close>

definition to_int :: "pyval \<Rightarrow> int" where
  "to_int v = (if v = PNone then 0 else case py_int v of Inl _ \<Rightarrow> 0 | Inr i \<Rightarrow> i)"

text \<open>\<open>d.get(k) if isinstance(d.get(k), dict) else {}\<close>\<close>

definition sub_dict :: "pydict \<Rightarrow> string \<Rightarrow> pydict" where
  "sub_dict d k = dict_or_empty (dget d k)"

text \<open>\<open>float(x) if isinstance(x, (int, float)) else 0.0\<close>\<close>

definition cost_value :: "pyval \<Rightarrow> real" where
  "cost_value v = (case v of PBool b \<Rightarrow> (if b then 1 else 0) | PInt i \<Rightarrow> of_int i | PFloat x \<Rightarrow> x | _ \<Rightarrow> 0)"

definition step_wall_seconds :: "pyval \<Rightarrow> pyval \<Rightarrow> real option" where
  "step_wall_seconds open_ts close_ts =
     (if open_ts = PNone \<or> close_ts = PNone then None
      else case (py_float close_ts, py_float open_ts) of
             (Inr c, Inr b) \<Rightarrow> (let delta = (c - b) / 1000 in if 0 \<le> delta then Some delta else None)
           | _ \<Rightarrow> None)"

section \<open>Classification of events\<close>

definition LOOP_GUARD_SIGNATURES :: "string list" where
  "LOOP_GUARD_SIGNATURES = [''relay_loop_detected'', ''generation loop detected'']"

definition TRANSPORT_ERROR_SIGNATURES :: "(string \<times> string) list" where
  "TRANSPORT_ERROR_SIGNATURES =
    [(''stream_finalize_timeout'', ''did not finalize''),
     (''stream_incomplete'', ''stream incomplete''),
     (''idle_timeout'', ''idle timeout''),
     (''provider_error'', ''provider returned error''),
     (''unexpected_server_error'', ''unexpected server error''),
     (''corrupted_thought_signature'', ''corrupted thought signature'')]"

definition TRUNCATED_STEP_FINISH_REASONS :: "string list" where
  "TRUNCATED_STEP_FINISH_REASONS = [''unknown'', ''stream-incomplete'']"

definition NORMAL_STEP_FINISH_REASONS :: "string list" where
  "NORMAL_STEP_FINISH_REASONS = [''stop'', ''tool-calls'', ''tool_calls'', ''length'']"

definition FILE_WRITE_TOOL_NAMES :: "string list" where
  "FILE_WRITE_TOOL_NAMES = [''write'', ''edit'', ''apply_patch'', ''multi_edit'']"

definition line_indicates_budget_stop :: "string \<Rightarrow> bool" where
  "line_indicates_budget_stop s =
     (let l = lower s in
      contains l ''budget_exceeded'' \<or> contains l ''insufficient_quota''
      \<or> contains l (''statuscode'' @ [CHR 0x22] @ '':402'') \<or> contains l ''status code: 402''
      \<or> contains l ''status=402'' \<or> contains l ''reservation would exceed hard cap'')"

definition error_data :: "pydict \<Rightarrow> pydict" where
  "error_data event = sub_dict (sub_dict event ''error'') ''data''"

definition classify_transport_error :: "(pyval \<Rightarrow> string) \<Rightarrow> pydict \<Rightarrow> string option" where
  "classify_transport_error rp event =
     (let message = py_str rp (dget_default (error_data event) ''message'' (PStr []));
          haystack = lower message
      in if list_ex (contains haystack) LOOP_GUARD_SIGNATURES then Some ''loop_guard''
         else case find (\<lambda>(_, sig). contains haystack sig) TRANSPORT_ERROR_SIGNATURES of
                Some (code, _) \<Rightarrow> Some code
              | None \<Rightarrow> (if strip message \<noteq> [] then Some ''generic_error'' else None))"

definition text_or_none :: "string \<Rightarrow> string" where
  "text_or_none s = (if s = [] then ''none'' else s)"

text \<open>The \<open>error\<close> object of the decoded response body, empty when there is none.\<close>

definition body_error :: "(string \<Rightarrow> pyval option) \<Rightarrow> string \<Rightarrow> pydict option" where
  "body_error loads body =
     (if body = [] then None
      else case loads body of Some (PDict d) \<Rightarrow> Some (sub_dict d ''error'') | _ \<Rightarrow> None)"

definition budget_stop_signature_from_event ::
  "(pyval \<Rightarrow> string) \<Rightarrow> (string \<Rightarrow> string) \<Rightarrow> (string \<Rightarrow> pyval option) \<Rightarrow> pydict \<Rightarrow> string option" where
  "budget_stop_signature_from_event rp fp loads event =
     (if lower (strip (py_str rp (dget_default event ''type'' (PStr [])))) \<noteq> ''error'' then None
      else
        let data = error_data event;
            status = to_int (dget data ''statusCode'');
            message = py_str rp (dget_default data ''message'' (PStr []));
            body = py_str rp (dget_default data ''responseBody'' (PStr []));
            err = body_error loads body;
            text_of = (\<lambda>k. case err of None \<Rightarrow> [] | Some e \<Rightarrow> py_str rp (dget_default e k (PStr [])));
            error_type = strip (text_of ''type'');
            error_code = strip (text_of ''code'');
            message = (if message = [] then text_of ''message'' else message);
            haystack = lower (join '' '' [message, body, error_type, error_code])
        in if status = 402 \<or> contains haystack ''budget_exceeded'' \<or> contains haystack ''insufficient_quota''
           then Some (''status_code='' @ (if status = 0 then ''none'' else string_of_int status)
                @ '' error_type='' @ text_or_none error_type @ '' error_code='' @ text_or_none error_code
                @ '' message_fp='' @ fp message @ '' body_fp='' @ fp body)
           else None)"

section \<open>The state\<close>

record turn_anomaly =
  ta_phase :: string
  ta_turn_index :: int
  ta_terminal :: string
  ta_reason :: string
  ta_tool_uses :: int
  ta_file_writes :: int
  ta_input_tokens :: int
  ta_output_tokens :: int
  ta_reasoning_tokens :: int
  ta_cost_usd :: real
  ta_tokens_unmetered :: bool
  ta_wall_seconds :: "real option"
  ta_retried :: bool
  ta_retry_kind :: "string option"
  ta_session_id :: "string option"

record worker_state =
  ws_session_id :: "string option"
  ws_turns :: int
  ws_sum_output :: int
  ws_sum_reasoning :: int
  ws_max_input :: int
  ws_sum_cost :: real
  ws_completed_at :: "real option"
  ws_budget_stop_detected :: bool
  ws_budget_stop_signature :: "string option"
  ws_truncations :: int
  ws_zero_tool_turns :: int
  ws_terminal_zero_tool_turn :: bool
  ws_active_tool_uses :: int
  ws_active_file_writes :: int
  ws_active_step_index :: int
  ws_active_step_open :: bool
  ws_active_step_open_ts :: pyval
  ws_turn_anomalies :: "turn_anomaly list"
  ws_unretried_anomaly :: "nat option"
  ws_unmetered_turns :: int
  ws_unmetered_turn_wall_s :: real

definition worker_init :: "string option \<Rightarrow> worker_state" where
  "worker_init fallback_session_id =
     \<lparr>ws_session_id = fallback_session_id, ws_turns = 0, ws_sum_output = 0, ws_sum_reasoning = 0,
      ws_max_input = 0, ws_sum_cost = 0, ws_completed_at = None, ws_budget_stop_detected = False,
      ws_budget_stop_signature = None, ws_truncations = 0, ws_zero_tool_turns = 0,
      ws_terminal_zero_tool_turn = False, ws_active_tool_uses = 0, ws_active_file_writes = 0,
      ws_active_step_index = 0, ws_active_step_open = False, ws_active_step_open_ts = PNone,
      ws_turn_anomalies = [], ws_unretried_anomaly = None, ws_unmetered_turns = 0,
      ws_unmetered_turn_wall_s = 0\<rparr>"

text \<open>\<open>_append_turn_anomaly\<close>; every call of the reader passes the counters of the open step.\<close>

definition new_anomaly ::
  "worker_state \<Rightarrow> string \<Rightarrow> string \<Rightarrow> string \<Rightarrow> int \<times> int \<times> int \<Rightarrow> real \<Rightarrow> bool \<Rightarrow> real option \<Rightarrow> turn_anomaly" where
  "new_anomaly s phase terminal reason toks cost unmetered wall =
     (let (inp, out, rsn) = toks in
      \<lparr>ta_phase = phase, ta_turn_index = ws_active_step_index s, ta_terminal = terminal,
       ta_reason = reason, ta_tool_uses = ws_active_tool_uses s,
       ta_file_writes = ws_active_file_writes s, ta_input_tokens = inp, ta_output_tokens = out,
       ta_reasoning_tokens = rsn, ta_cost_usd = cost, ta_tokens_unmetered = unmetered,
       ta_wall_seconds = wall, ta_retried = False, ta_retry_kind = None,
       ta_session_id = ws_session_id s\<rparr>)"

definition append_anomaly :: "turn_anomaly \<Rightarrow> worker_state \<Rightarrow> worker_state" where
  "append_anomaly a s =
     (let s = s\<lparr>ws_turn_anomalies := ws_turn_anomalies s @ [a],
                ws_unretried_anomaly := Some (length (ws_turn_anomalies s))\<rparr>
      in if ta_tokens_unmetered a
         then s\<lparr>ws_unmetered_turns := ws_unmetered_turns s + 1,
                ws_unmetered_turn_wall_s := ws_unmetered_turn_wall_s s + opt_or (ta_wall_seconds a) 0\<rparr>
         else s)"

definition mark_anomaly_retried :: "string \<Rightarrow> worker_state \<Rightarrow> worker_state" where
  "mark_anomaly_retried kind s = (case ws_unretried_anomaly s of
     None \<Rightarrow> s
   | Some i \<Rightarrow>
       s\<lparr>ws_turn_anomalies := (if i < length (ws_turn_anomalies s)
            then (ws_turn_anomalies s)[i := (ws_turn_anomalies s ! i)\<lparr>ta_retried := True, ta_retry_kind := Some kind\<rparr>]
            else ws_turn_anomalies s),
         ws_unretried_anomaly := None\<rparr>)"

definition note_budget_stop :: "string \<Rightarrow> worker_state \<Rightarrow> worker_state" where
  "note_budget_stop sig s =
     s\<lparr>ws_budget_stop_detected := True,
       ws_budget_stop_signature :=
         (if opt_or (ws_budget_stop_signature s) [] = [] then Some sig else ws_budget_stop_signature s)\<rparr>"

section \<open>One event\<close>

definition note_session :: "(pyval \<Rightarrow> string) \<Rightarrow> pydict \<Rightarrow> worker_state \<Rightarrow> worker_state" where
  "note_session rp event s =
     (let sid = dget event ''sessionID'' in
      if truthy sid \<and> opt_or (ws_session_id s) [] = [] then s\<lparr>ws_session_id := Some (py_str rp sid)\<rparr> else s)"

definition on_error ::
  "(pyval \<Rightarrow> string) \<Rightarrow> (string \<Rightarrow> string) \<Rightarrow> (string \<Rightarrow> pyval option) \<Rightarrow> string \<Rightarrow> pydict \<Rightarrow> worker_state \<Rightarrow> worker_state" where
  "on_error rp fp loads phase event s =
     (case budget_stop_signature_from_event rp fp loads event of
        Some sig \<Rightarrow> note_budget_stop sig s
      | None \<Rightarrow>
          let reason = classify_transport_error rp event;
              terminal = (if reason = Some ''loop_guard'' then ''guard_abort'' else ''transport_error'');
              wall = step_wall_seconds (ws_active_step_open_ts s) (dget event ''timestamp'');
              a = new_anomaly s phase terminal (opt_or reason ''error_event'') (0, 0, 0) 0 True wall
          in (append_anomaly a s)
               \<lparr>ws_active_step_open := False, ws_active_step_open_ts := PNone,
                ws_active_tool_uses := 0, ws_active_file_writes := 0\<rparr>)"

definition on_step_start :: "pydict \<Rightarrow> worker_state \<Rightarrow> worker_state" where
  "on_step_start event s =
     mark_anomaly_retried ''client_auto''
       (s\<lparr>ws_completed_at := None, ws_active_tool_uses := 0, ws_active_file_writes := 0,
          ws_active_step_index := ws_active_step_index s + 1, ws_active_step_open := True,
          ws_active_step_open_ts := dget event ''timestamp'', ws_terminal_zero_tool_turn := False\<rparr>)"

definition tool_name :: "(pyval \<Rightarrow> string) \<Rightarrow> pydict \<Rightarrow> string" where
  "tool_name rp event =
     (let part = sub_dict event ''part'';
          name = (if is_str (dget part ''tool'') then dget part ''tool'' else dget part ''name'')
      in lower (strip (py_str rp name)))"

definition on_tool_use :: "(pyval \<Rightarrow> string) \<Rightarrow> pydict \<Rightarrow> worker_state \<Rightarrow> worker_state" where
  "on_tool_use rp event s =
     s\<lparr>ws_active_tool_uses := ws_active_tool_uses s + 1,
       ws_active_file_writes := ws_active_file_writes s
         + (if tool_name rp event \<in> set FILE_WRITE_TOOL_NAMES then 1 else 0)\<rparr>"

text \<open>The usage of a \<open>step_finish\<close>.\<close>

definition usage_of_step :: "pydict \<Rightarrow> int \<times> int \<times> int" where
  "usage_of_step event =
     (let tokens = sub_dict (sub_dict event ''part'') ''tokens''
      in (max 0 (to_int (dget tokens ''input'')), max 0 (to_int (dget tokens ''output'')),
          max 0 (to_int (dget tokens ''reasoning''))))"

definition reason_in :: "pyval \<Rightarrow> string list \<Rightarrow> bool" where
  "reason_in v names = (case v of PStr r \<Rightarrow> r \<in> set names | _ \<Rightarrow> False)"

text \<open>A reader that raises has left the state as it was at that moment: the left result carries it.  A
  \<open>reason\<close> that is a list or a dict cannot be looked up in a set.\<close>

type_synonym reading = "(py_exc \<times> worker_state) + worker_state"

definition on_step_finish ::
  "(pyval \<Rightarrow> string) \<Rightarrow> string \<Rightarrow> real \<Rightarrow> pydict \<Rightarrow> worker_state \<Rightarrow> reading" where
  "on_step_finish rp phase now event s =
     (let part = sub_dict event ''part'';
          reason = dget part ''reason'';
          (inp, out, rsn) = usage_of_step event;
          cost = cost_value (dget part ''cost'');
          open_ts = ws_active_step_open_ts s;
          wall = step_wall_seconds open_ts (dget event ''timestamp'');
          s = s\<lparr>ws_turns := ws_turns s + 1, ws_sum_output := ws_sum_output s + out,
                ws_sum_reasoning := ws_sum_reasoning s + rsn, ws_sum_cost := ws_sum_cost s + cost,
                ws_max_input := max (ws_max_input s) inp,
                ws_active_step_open := False, ws_active_step_open_ts := PNone\<rparr>;
          s = (if reason = PStr ''stop'' then s\<lparr>ws_completed_at := Some now\<rparr>
               else if reason = PStr ''length'' then s\<lparr>ws_truncations := ws_truncations s + 1\<rparr>
               else s)
      in if is_list reason \<or> is_dict reason then Inl (PyTypeError, s)
         else
           let reset = (\<lambda>s. s\<lparr>ws_active_tool_uses := 0, ws_active_file_writes := 0\<rparr>)
           in if reason_in reason TRUNCATED_STEP_FINISH_REASONS then
                Inr (reset ((append_anomaly
                       (new_anomaly s phase ''truncated_no_signal'' (py_str rp reason) (inp, out, rsn) cost
                          (inp = 0 \<and> out = 0 \<and> rsn = 0) wall) s)
                       \<lparr>ws_terminal_zero_tool_turn := False\<rparr>))
              else
                let idle = (ws_active_tool_uses s = 0 \<and> ws_active_file_writes s = 0);
                    s = (if reason_in reason NORMAL_STEP_FINISH_REASONS then s
                         else append_anomaly
                           (new_anomaly s phase ''unclassified_finish'' (py_str rp reason) (inp, out, rsn) cost
                              False wall) s)
                in Inr (reset (s\<lparr>ws_zero_tool_turns := ws_zero_tool_turns s + (if idle then 1 else 0),
                                  ws_terminal_zero_tool_turn := idle\<rparr>)))"

definition worker_event ::
  "(pyval \<Rightarrow> string) \<Rightarrow> (string \<Rightarrow> string) \<Rightarrow> (string \<Rightarrow> pyval option) \<Rightarrow> string \<Rightarrow> real \<Rightarrow> pydict \<Rightarrow> worker_state
     \<Rightarrow> reading" where
  "worker_event rp fp loads phase now event s =
     (let kind = dget event ''type''; s = note_session rp event s
      in if kind = PStr ''error'' then Inr (on_error rp fp loads phase event s)
         else if kind = PStr ''step_start'' then Inr (on_step_start event s)
         else if kind = PStr ''tool_use'' then Inr (on_tool_use rp event s)
         else if kind = PStr ''step_finish'' then on_step_finish rp phase now event s
         else Inr s)"

section \<open>The streams\<close>

text \<open>A line that is not JSON may still announce a budget stop; a JSON value that is not an object
  has no \<open>get\<close>.\<close>

definition worker_line ::
  "(pyval \<Rightarrow> string) \<Rightarrow> (string \<Rightarrow> string) \<Rightarrow> (string \<Rightarrow> pyval option) \<Rightarrow> string \<Rightarrow> real \<Rightarrow> string \<Rightarrow> worker_state
     \<Rightarrow> reading" where
  "worker_line rp fp loads phase now line s =
     (case loads line of
        None \<Rightarrow> Inr (if line_indicates_budget_stop line
                     then note_budget_stop (''stdout_line_fp='' @ fp line) s else s)
      | Some (PDict event) \<Rightarrow> worker_event rp fp loads phase now event s
      | Some _ \<Rightarrow> Inl (PyAttributeError, s))"

text \<open>The reader thread: an exception ends it, the rest of the output is read by nobody.  The second
  result says whether the end of the output was reached.\<close>

fun stdout_reader ::
  "(pyval \<Rightarrow> string) \<Rightarrow> (string \<Rightarrow> string) \<Rightarrow> (string \<Rightarrow> pyval option) \<Rightarrow> string \<Rightarrow> (real \<times> string) list \<Rightarrow> worker_state
     \<Rightarrow> worker_state \<times> bool" where
  "stdout_reader rp fp loads phase [] s = (s, True)"
| "stdout_reader rp fp loads phase ((now, line) # lines) s =
     (case worker_line rp fp loads phase now line s of
        Inl (_, s') \<Rightarrow> (s', False)
      | Inr s' \<Rightarrow> stdout_reader rp fp loads phase lines s')"

definition stderr_reader :: "(string \<Rightarrow> string) \<Rightarrow> string list \<Rightarrow> worker_state \<Rightarrow> worker_state" where
  "stderr_reader fp lines s =
     fold (\<lambda>l s. if line_indicates_budget_stop l then note_budget_stop (''stderr_line_fp='' @ fp l) s else s)
       lines s"

text \<open>The step still open when the process has gone; its wall clock ends at \<open>now_ms\<close>.\<close>

definition close_open_step :: "string \<Rightarrow> int \<Rightarrow> worker_state \<Rightarrow> worker_state" where
  "close_open_step phase now_ms s =
     (if ws_active_step_open_ts s = PNone then s
      else
        let wall = step_wall_seconds (ws_active_step_open_ts s) (PInt now_ms);
            s = s\<lparr>ws_turns := ws_turns s + 1\<rparr>
        in (append_anomaly
              (new_anomaly s phase ''stream_died_open'' ''no_terminal_signal'' (0, 0, 0) 0 True wall) s)
             \<lparr>ws_active_step_open_ts := PNone, ws_active_tool_uses := 0, ws_active_file_writes := 0,
              ws_terminal_zero_tool_turn := False\<rparr>)"

section \<open>The poll\<close>

definition HARNESS_LIMIT_REASONS :: "string list" where
  "HARNESS_LIMIT_REASONS = [''run_timeout'', ''max_steps_per_attempt'', ''token_cap'']"

datatype poll = Exited int | Idle_After_Stop | Kill string | Wait

definition poll_worker ::
  "int \<Rightarrow> int \<Rightarrow> int \<Rightarrow> int option \<Rightarrow> int option \<Rightarrow> real \<Rightarrow> real \<Rightarrow> worker_state \<Rightarrow> poll" where
  "poll_worker grace_s timeout_s token_cap max_steps rc elapsed now s =
     (case rc of
        Some code \<Rightarrow> Exited code
      | None \<Rightarrow>
          if (case ws_completed_at s of None \<Rightarrow> False | Some t \<Rightarrow> of_int grace_s \<le> now - t) then Idle_After_Stop
          else if of_int timeout_s < elapsed then Kill ''run_timeout''
          else if (case max_steps of None \<Rightarrow> False | Some m \<Rightarrow> m < ws_turns s) then Kill ''max_steps_per_attempt''
          else if token_cap < ws_sum_output s + ws_sum_reasoning s + ws_max_input s then Kill ''token_cap''
          else Wait)"

section \<open>The result\<close>

record run_stats =
  rs_input_tokens :: int
  rs_output_tokens :: int
  rs_reasoning_tokens :: int
  rs_turns :: int
  rs_session_id :: "string option"
  rs_killed_reason :: "string option"
  rs_exit_code :: "int option"
  rs_cost_usd :: real
  rs_budget_stop_detected :: bool
  rs_budget_stop_signature :: "string option"
  rs_truncations :: int
  rs_zero_tool_turns :: int
  rs_terminal_zero_tool_turn :: bool
  rs_zero_tool_resumes :: int
  rs_zero_tool_turn_honest_fail :: bool
  rs_resume_count :: int
  rs_turn_anomalies :: "turn_anomaly list"
  rs_unmetered_turns :: int
  rs_unmetered_turn_wall_s :: real

text \<open>The last 120 lines of standard error are searched once more as one text.\<close>

definition stderr_tail :: "string list \<Rightarrow> string list" where
  "stderr_tail lines = drop (length lines - 120) lines"

definition run_stats_of ::
  "(string \<Rightarrow> string) \<Rightarrow> string list \<Rightarrow> string option \<Rightarrow> int option \<Rightarrow> worker_state \<Rightarrow> run_stats" where
  "run_stats_of fp err killed exit_code s =
     (let blob = join [CHR 0x0A] (stderr_tail err);
          late = (\<not> ws_budget_stop_detected s \<and> err \<noteq> [] \<and> line_indicates_budget_stop blob)
      in \<lparr>rs_input_tokens = ws_max_input s, rs_output_tokens = ws_sum_output s,
          rs_reasoning_tokens = ws_sum_reasoning s, rs_turns = ws_turns s,
          rs_session_id = ws_session_id s, rs_killed_reason = killed, rs_exit_code = exit_code,
          rs_cost_usd = ws_sum_cost s,
          rs_budget_stop_detected = (ws_budget_stop_detected s \<or> late),
          rs_budget_stop_signature =
            (if late then Some (''stderr_tail_fp='' @ fp blob) else ws_budget_stop_signature s),
          rs_truncations = ws_truncations s, rs_zero_tool_turns = ws_zero_tool_turns s,
          rs_terminal_zero_tool_turn = ws_terminal_zero_tool_turn s, rs_zero_tool_resumes = 0,
          rs_zero_tool_turn_honest_fail = False, rs_resume_count = 0,
          rs_turn_anomalies = ws_turn_anomalies s, rs_unmetered_turns = ws_unmetered_turns s,
          rs_unmetered_turn_wall_s = ws_unmetered_turn_wall_s s\<rparr>)"

text \<open>One process, from its output to its figures.  The two readers run side by side; the flag and
  all figures but the first signature are the same in any order.\<close>

definition run_opencode ::
  "(pyval \<Rightarrow> string) \<Rightarrow> (string \<Rightarrow> string) \<Rightarrow> (string \<Rightarrow> pyval option) \<Rightarrow> string \<Rightarrow> string option \<Rightarrow> (real \<times> string) list
     \<Rightarrow> string list \<Rightarrow> string option \<Rightarrow> int option \<Rightarrow> int \<Rightarrow> run_stats" where
  "run_opencode rp fp loads phase fallback_session_id out err killed exit_code now_ms =
     run_stats_of fp err killed exit_code
       (close_open_step phase now_ms
          (stderr_reader fp err (fst (stdout_reader rp fp loads phase out (worker_init fallback_session_id)))))"

section \<open>A reference for the meter\<close>

definition kind_is :: "string \<Rightarrow> pydict \<Rightarrow> bool" where
  "kind_is k e \<longleftrightarrow> dget e ''type'' = PStr k"

definition finish_reason :: "pydict \<Rightarrow> pyval" where
  "finish_reason e = dget (sub_dict e ''part'') ''reason''"

definition event_ok :: "pydict \<Rightarrow> bool" where
  "event_ok e \<longleftrightarrow> kind_is ''step_finish'' e \<longrightarrow> \<not> is_list (finish_reason e) \<and> \<not> is_dict (finish_reason e)"

definition decoded :: "(string \<Rightarrow> pyval option) \<Rightarrow> (real \<times> string) list \<Rightarrow> pydict list \<Rightarrow> bool" where
  "decoded loads lines es \<longleftrightarrow> map (\<lambda>(_, l). loads l) lines = map (\<lambda>e. Some (PDict e)) es"

abbreviation finishes :: "pydict list \<Rightarrow> pydict list" where
  "finishes es \<equiv> filter (kind_is ''step_finish'') es"

text \<open>An error event that is not a budget stop ends the open step.\<close>

definition ends_by_error :: "(pyval \<Rightarrow> string) \<Rightarrow> (string \<Rightarrow> string) \<Rightarrow> (string \<Rightarrow> pyval option) \<Rightarrow> pydict \<Rightarrow> bool" where
  "ends_by_error rp fp loads e \<longleftrightarrow>
     kind_is ''error'' e \<and> budget_stop_signature_from_event rp fp loads e = None"

text \<open>How an event ends a turn anomalously, if it does.\<close>

definition event_terminal ::
  "(pyval \<Rightarrow> string) \<Rightarrow> (string \<Rightarrow> string) \<Rightarrow> (string \<Rightarrow> pyval option) \<Rightarrow> pydict \<Rightarrow> string option" where
  "event_terminal rp fp loads e =
     (if ends_by_error rp fp loads e
      then Some (if classify_transport_error rp e = Some ''loop_guard'' then ''guard_abort'' else ''transport_error'')
      else if kind_is ''step_finish'' e \<and> reason_in (finish_reason e) TRUNCATED_STEP_FINISH_REASONS
      then Some ''truncated_no_signal''
      else if kind_is ''step_finish'' e \<and> \<not> reason_in (finish_reason e) NORMAL_STEP_FINISH_REASONS
      then Some ''unclassified_finish''
      else None)"

text \<open>The time stamp of the step that is open after the events, \<open>None\<close> when none is.\<close>

definition open_after ::
  "(pyval \<Rightarrow> string) \<Rightarrow> (string \<Rightarrow> string) \<Rightarrow> (string \<Rightarrow> pyval option) \<Rightarrow> pydict list \<Rightarrow> pyval" where
  "open_after rp fp loads es =
     foldl (\<lambda>ts e. if kind_is ''step_start'' e then dget e ''timestamp''
                   else if kind_is ''step_finish'' e \<or> ends_by_error rp fp loads e then PNone else ts) PNone es"

lemma reasons_disjoint:
  "reason_in v TRUNCATED_STEP_FINISH_REASONS \<Longrightarrow> \<not> reason_in v NORMAL_STEP_FINISH_REASONS"
  "reason_in v TRUNCATED_STEP_FINISH_REASONS \<Longrightarrow> v \<noteq> PStr ''stop'' \<and> v \<noteq> PStr ''length''"
  by (auto simp: reason_in_def TRUNCATED_STEP_FINISH_REASONS_def NORMAL_STEP_FINISH_REASONS_def
      split: pyval.splits)

section \<open>One event against the reference\<close>

lemma append_anomaly_sel [simp]:
  "ws_turns (append_anomaly a s) = ws_turns s"
  "ws_sum_output (append_anomaly a s) = ws_sum_output s"
  "ws_sum_reasoning (append_anomaly a s) = ws_sum_reasoning s"
  "ws_max_input (append_anomaly a s) = ws_max_input s"
  "ws_sum_cost (append_anomaly a s) = ws_sum_cost s"
  "ws_truncations (append_anomaly a s) = ws_truncations s"
  "ws_active_step_open_ts (append_anomaly a s) = ws_active_step_open_ts s"
  "ws_turn_anomalies (append_anomaly a s) = ws_turn_anomalies s @ [a]"
  "ws_unretried_anomaly (append_anomaly a s) = Some (length (ws_turn_anomalies s))"
  "ws_unmetered_turns (append_anomaly a s) = ws_unmetered_turns s + (if ta_tokens_unmetered a then 1 else 0)"
  by (simp_all add: append_anomaly_def Let_def)

lemma mark_retried_sel [simp]:
  "ws_turns (mark_anomaly_retried k s) = ws_turns s"
  "ws_sum_output (mark_anomaly_retried k s) = ws_sum_output s"
  "ws_sum_reasoning (mark_anomaly_retried k s) = ws_sum_reasoning s"
  "ws_max_input (mark_anomaly_retried k s) = ws_max_input s"
  "ws_sum_cost (mark_anomaly_retried k s) = ws_sum_cost s"
  "ws_truncations (mark_anomaly_retried k s) = ws_truncations s"
  "ws_active_step_open_ts (mark_anomaly_retried k s) = ws_active_step_open_ts s"
  "ws_unmetered_turns (mark_anomaly_retried k s) = ws_unmetered_turns s"
  "ws_unretried_anomaly (mark_anomaly_retried k s) = None"
  by (simp_all add: mark_anomaly_retried_def split: option.split)

lemma note_budget_sel [simp]:
  "ws_turns (note_budget_stop k s) = ws_turns s"
  "ws_sum_output (note_budget_stop k s) = ws_sum_output s"
  "ws_sum_reasoning (note_budget_stop k s) = ws_sum_reasoning s"
  "ws_max_input (note_budget_stop k s) = ws_max_input s"
  "ws_sum_cost (note_budget_stop k s) = ws_sum_cost s"
  "ws_truncations (note_budget_stop k s) = ws_truncations s"
  "ws_active_step_open_ts (note_budget_stop k s) = ws_active_step_open_ts s"
  "ws_turn_anomalies (note_budget_stop k s) = ws_turn_anomalies s"
  "ws_unretried_anomaly (note_budget_stop k s) = ws_unretried_anomaly s"
  "ws_unmetered_turns (note_budget_stop k s) = ws_unmetered_turns s"
  by (simp_all add: note_budget_stop_def)

lemma note_session_sel [simp]:
  "ws_turns (note_session rp e s) = ws_turns s"
  "ws_sum_output (note_session rp e s) = ws_sum_output s"
  "ws_sum_reasoning (note_session rp e s) = ws_sum_reasoning s"
  "ws_max_input (note_session rp e s) = ws_max_input s"
  "ws_sum_cost (note_session rp e s) = ws_sum_cost s"
  "ws_truncations (note_session rp e s) = ws_truncations s"
  "ws_active_step_open_ts (note_session rp e s) = ws_active_step_open_ts s"
  "ws_turn_anomalies (note_session rp e s) = ws_turn_anomalies s"
  "ws_unretried_anomaly (note_session rp e s) = ws_unretried_anomaly s"
  "ws_unmetered_turns (note_session rp e s) = ws_unmetered_turns s"
  by (simp_all add: note_session_def Let_def)

lemma mark_retried_terminals:
  "map ta_terminal (ws_turn_anomalies (mark_anomaly_retried k s)) = map ta_terminal (ws_turn_anomalies s)"
  "map ta_tokens_unmetered (ws_turn_anomalies (mark_anomaly_retried k s)) = map ta_tokens_unmetered (ws_turn_anomalies s)"
  by (auto simp: mark_anomaly_retried_def map_update list_update_id split: option.split)
    (metis list_update_id nth_map)+

text \<open>The figures of the meter, as one value.\<close>

definition meter :: "worker_state \<Rightarrow> int \<times> int \<times> int \<times> int \<times> real \<times> int" where
  "meter s = (ws_turns s, ws_sum_output s, ws_sum_reasoning s, ws_max_input s, ws_sum_cost s, ws_truncations s)"

definition meter_event :: "pydict \<Rightarrow> int \<times> int \<times> int \<times> int \<times> real \<times> int \<Rightarrow> int \<times> int \<times> int \<times> int \<times> real \<times> int" where
  "meter_event e = (\<lambda>(t, out, rsn, inp, c, tr).
     if kind_is ''step_finish'' e
     then (t + 1, out + fst (snd (usage_of_step e)), rsn + snd (snd (usage_of_step e)),
           max inp (fst (usage_of_step e)), c + cost_value (dget (sub_dict e ''part'') ''cost''),
           tr + (if finish_reason e = PStr ''length'' then 1 else 0))
     else (t, out, rsn, inp, c, tr))"

lemma on_step_finish_effect:
  assumes "\<not> is_list (finish_reason e)" and "\<not> is_dict (finish_reason e)" and "kind_is ''step_finish'' e"
  obtains s' where "on_step_finish rp phase now e s = Inr s'" "meter s' = meter_event e (meter s)"
    "ws_active_step_open_ts s' = PNone"
    "map ta_terminal (ws_turn_anomalies s') = map ta_terminal (ws_turn_anomalies s)
       @ (if reason_in (finish_reason e) TRUNCATED_STEP_FINISH_REASONS then [''truncated_no_signal'']
          else if reason_in (finish_reason e) NORMAL_STEP_FINISH_REASONS then [] else [''unclassified_finish''])"
    "ws_unmetered_turns s' - int (count_if ta_tokens_unmetered (ws_turn_anomalies s'))
     = ws_unmetered_turns s - int (count_if ta_tokens_unmetered (ws_turn_anomalies s))"
proof -
  obtain inp out rsn where u: "usage_of_step e = (inp, out, rsn)" by (cases "usage_of_step e")
  show ?thesis
    by (rule that [OF sum.collapse(2) [symmetric]];
        use assms reasons_disjoint(2) [of "finish_reason e"] in
        \<open>simp add: on_step_finish_def Let_def u meter_def meter_event_def new_anomaly_def count_if_append flip: finish_reason_def\<close>)
qed

lemma kinds_disjoint: "kind_is k e \<Longrightarrow> kind_is k' e \<Longrightarrow> k = k'"
  by (simp add: kind_is_def)

lemma worker_event_kinds:
  "kind_is ''error'' e \<Longrightarrow> worker_event rp fp loads phase now e s
     = Inr (on_error rp fp loads phase e (note_session rp e s))"
  "kind_is ''step_start'' e \<Longrightarrow> worker_event rp fp loads phase now e s = Inr (on_step_start e (note_session rp e s))"
  "kind_is ''tool_use'' e \<Longrightarrow> worker_event rp fp loads phase now e s = Inr (on_tool_use rp e (note_session rp e s))"
  "kind_is ''step_finish'' e \<Longrightarrow> worker_event rp fp loads phase now e s
     = on_step_finish rp phase now e (note_session rp e s)"
  "\<not> kind_is ''error'' e \<Longrightarrow> \<not> kind_is ''step_start'' e \<Longrightarrow> \<not> kind_is ''tool_use'' e \<Longrightarrow>
     \<not> kind_is ''step_finish'' e \<Longrightarrow> worker_event rp fp loads phase now e s = Inr (note_session rp e s)"
  by (simp_all add: worker_event_def Let_def kind_is_def)

definition opened_by ::
  "(pyval \<Rightarrow> string) \<Rightarrow> (string \<Rightarrow> string) \<Rightarrow> (string \<Rightarrow> pyval option) \<Rightarrow> pyval \<Rightarrow> pydict \<Rightarrow> pyval" where
  "opened_by rp fp loads ts e =
     (if kind_is ''step_start'' e then dget e ''timestamp''
      else if kind_is ''step_finish'' e \<or> ends_by_error rp fp loads e then PNone else ts)"

definition unmetered_gap :: "worker_state \<Rightarrow> int" where
  "unmetered_gap s = ws_unmetered_turns s - int (count_if ta_tokens_unmetered (ws_turn_anomalies s))"

definition tracks ::
  "(pyval \<Rightarrow> string) \<Rightarrow> (string \<Rightarrow> string) \<Rightarrow> (string \<Rightarrow> pyval option) \<Rightarrow> pydict \<Rightarrow> worker_state \<Rightarrow> worker_state \<Rightarrow> bool" where
  "tracks rp fp loads e s s' \<longleftrightarrow>
     meter s' = meter_event e (meter s)
     \<and> ws_active_step_open_ts s' = opened_by rp fp loads (ws_active_step_open_ts s) e
     \<and> map ta_terminal (ws_turn_anomalies s') = map ta_terminal (ws_turn_anomalies s)
         @ (case event_terminal rp fp loads e of None \<Rightarrow> [] | Some t \<Rightarrow> [t])
     \<and> unmetered_gap s' = unmetered_gap s"

lemma count_if_as_map: "count_if p xs = count_if id (map p xs)"
  by (simp add: count_if_def filter_map)

lemma count_if_map: "map p xs = map p ys \<Longrightarrow> count_if p xs = count_if p ys"
  using count_if_as_map [of p xs] count_if_as_map [of p ys] by simp

lemma worker_event_tracks:
  assumes "event_ok e"
  shows "\<exists>s'. worker_event rp fp loads phase now e s = Inr s' \<and> tracks rp fp loads e s s'"
proof -
  let ?s = "note_session rp e s"
  have noted: "meter ?s = meter s" "unmetered_gap ?s = unmetered_gap s" by (simp_all add: meter_def unmetered_gap_def)
  consider (error) "kind_is ''error'' e" | (start) "kind_is ''step_start'' e" | (tool) "kind_is ''tool_use'' e"
    | (finish) "kind_is ''step_finish'' e"
    | (other) "\<not> kind_is ''error'' e" "\<not> kind_is ''step_start'' e" "\<not> kind_is ''tool_use'' e" "\<not> kind_is ''step_finish'' e"
    by blast
  then show ?thesis
  proof cases
    case error
    then have k: "\<not> kind_is ''step_start'' e" "\<not> kind_is ''step_finish'' e" by (auto simp: kind_is_def)
    show ?thesis
      unfolding worker_event_kinds(1) [OF error]
      using error k noted
      by (cases "budget_stop_signature_from_event rp fp loads e")
        (simp_all add: tracks_def on_error_def Let_def meter_def meter_event_def opened_by_def ends_by_error_def
          event_terminal_def unmetered_gap_def new_anomaly_def count_if_append)
  next
    case start
    then have k: "\<not> kind_is ''error'' e" "\<not> kind_is ''step_finish'' e" by (auto simp: kind_is_def)
    show ?thesis
      unfolding worker_event_kinds(2) [OF start]
      using start k noted
      by (simp add: tracks_def on_step_start_def meter_def meter_event_def opened_by_def ends_by_error_def
          event_terminal_def unmetered_gap_def mark_retried_terminals count_if_map [OF mark_retried_terminals(2)])
  next
    case tool
    then have k: "\<not> kind_is ''error'' e" "\<not> kind_is ''step_finish'' e" "\<not> kind_is ''step_start'' e"
      by (auto simp: kind_is_def)
    show ?thesis
      unfolding worker_event_kinds(3) [OF tool]
      using tool k noted
      by (simp add: tracks_def on_tool_use_def meter_def meter_event_def opened_by_def ends_by_error_def
          event_terminal_def unmetered_gap_def)
  next
    case finish
    then have k: "\<not> kind_is ''error'' e" "\<not> kind_is ''step_start'' e" by (auto simp: kind_is_def)
    from assms finish have "\<not> is_list (finish_reason e)" "\<not> is_dict (finish_reason e)"
      by (simp_all add: event_ok_def)
    from on_step_finish_effect [OF this finish, of rp phase now ?s] obtain s' where
      s': "on_step_finish rp phase now e ?s = Inr s'" "meter s' = meter_event e (meter ?s)"
        "ws_active_step_open_ts s' = PNone"
        "map ta_terminal (ws_turn_anomalies s') = map ta_terminal (ws_turn_anomalies ?s)
          @ (if reason_in (finish_reason e) TRUNCATED_STEP_FINISH_REASONS then [''truncated_no_signal'']
             else if reason_in (finish_reason e) NORMAL_STEP_FINISH_REASONS then [] else [''unclassified_finish''])"
        "ws_unmetered_turns s' - int (count_if ta_tokens_unmetered (ws_turn_anomalies s'))
          = ws_unmetered_turns ?s - int (count_if ta_tokens_unmetered (ws_turn_anomalies ?s))" by blast
    have "tracks rp fp loads e s s'"
      using s'(2-5) k finish noted
      by (simp add: tracks_def opened_by_def ends_by_error_def event_terminal_def unmetered_gap_def)
    with s'(1) show ?thesis unfolding worker_event_kinds(4) [OF finish] by blast
  next
    case other
    then show ?thesis
      unfolding worker_event_kinds(5) [OF other] using noted
      by (simp add: tracks_def meter_event_def opened_by_def ends_by_error_def event_terminal_def
          split: prod.split)
  qed
qed

section \<open>A whole run against the reference\<close>

lemma stdout_reader_tracks:
  assumes "decoded loads lines es" and "list_all event_ok es"
  shows "snd (stdout_reader rp fp loads phase lines s)
    \<and> meter (fst (stdout_reader rp fp loads phase lines s)) = fold meter_event es (meter s)
    \<and> ws_active_step_open_ts (fst (stdout_reader rp fp loads phase lines s))
        = foldl (opened_by rp fp loads) (ws_active_step_open_ts s) es
    \<and> map ta_terminal (ws_turn_anomalies (fst (stdout_reader rp fp loads phase lines s)))
        = map ta_terminal (ws_turn_anomalies s) @ List.map_filter (event_terminal rp fp loads) es
    \<and> unmetered_gap (fst (stdout_reader rp fp loads phase lines s)) = unmetered_gap s"
  using assms
proof (induction es arbitrary: lines s)
  case Nil
  then have "lines = []" by (simp add: decoded_def)
  then show ?case by (simp add: List.map_filter_def)
next
  case (Cons e es)
  then obtain now l rest where lines: "lines = (now, l) # rest" and l: "loads l = Some (PDict e)"
    and rest: "decoded loads rest es" by (cases lines) (auto simp: decoded_def)
  from Cons.prems(2) have "event_ok e" and ok: "list_all event_ok es" by simp_all
  from worker_event_tracks [OF this(1)] obtain s' where
    s': "worker_event rp fp loads phase now e s = Inr s'" and t: "tracks rp fp loads e s s'" by blast
  have run: "stdout_reader rp fp loads phase lines s = stdout_reader rp fp loads phase rest s'"
    by (simp add: lines worker_line_def l s')
  show ?case
    unfolding run using Cons.IH [OF rest ok, of s'] t
    by (simp add: tracks_def List.map_filter_simps split: option.split)
qed

lemma stderr_reader_sel [simp]:
  "meter (stderr_reader fp ls s) = meter s"
  "ws_active_step_open_ts (stderr_reader fp ls s) = ws_active_step_open_ts s"
  "ws_turn_anomalies (stderr_reader fp ls s) = ws_turn_anomalies s"
  "unmetered_gap (stderr_reader fp ls s) = unmetered_gap s"
  unfolding stderr_reader_def
  by (induction ls arbitrary: s) (simp_all add: meter_def unmetered_gap_def)

text \<open>The sums of the reference.\<close>

lemma fold_meter_event:
  "fold meter_event es (t, out, rsn, inp, c, tr) =
    (t + int (length (finishes es)),
     out + sum_list (map (\<lambda>e. fst (snd (usage_of_step e))) (finishes es)),
     rsn + sum_list (map (\<lambda>e. snd (snd (usage_of_step e))) (finishes es)),
     foldl max inp (map (\<lambda>e. fst (usage_of_step e)) (finishes es)),
     c + sum_list (map (\<lambda>e. cost_value (dget (sub_dict e ''part'') ''cost'')) (finishes es)),
     tr + int (count_if (\<lambda>e. finish_reason e = PStr ''length'') (finishes es)))"
  by (induction es arbitrary: t out rsn inp c tr) (simp_all add: meter_event_def)

lemma worker_init_sel:
  "meter (worker_init sid) = (0, 0, 0, 0, 0, 0)" "ws_active_step_open_ts (worker_init sid) = PNone"
  "ws_turn_anomalies (worker_init sid) = []" "unmetered_gap (worker_init sid) = 0"
  by (simp_all add: worker_init_def meter_def unmetered_gap_def)

lemma open_after_opened: "open_after rp fp loads es = foldl (opened_by rp fp loads) PNone es"
  unfolding open_after_def opened_by_def by (rule refl)

definition sample_event_of :: "string \<Rightarrow> pyval option" where
  "sample_event_of l =
     (if l = ''s'' then Some (PDict [(''type'', PStr ''step_start''), (''timestamp'', PInt 5)])
      else if l = ''f'' then Some (PDict [(''type'', PStr ''step_finish''), (''part'', PDict
         [(''reason'', PStr ''stop''), (''tokens'', PDict [(''input'', PInt 7), (''output'', PInt 3)]), (''cost'', PInt 2)])])
      else if l = ''n'' then Some (PInt 4) else None)"

lemma sample_decoded:
  "\<exists>es. decoded sample_event_of [(0, ''s''), (1, ''f''), (2, ''s'')] es \<and> list_all event_ok es
     \<and> length (finishes es) = 1 \<and> open_after rp fp loads es = PInt 5
     \<and> List.map_filter (event_terminal rp fp loads) es = []"
proof -
  let ?s = "[(''type'', PStr ''step_start''), (''timestamp'', PInt 5)]"
  let ?f = "[(''type'', PStr ''step_finish''), (''part'', PDict
         [(''reason'', PStr ''stop''), (''tokens'', PDict [(''input'', PInt 7), (''output'', PInt 3)]), (''cost'', PInt 2)])]"
  have "decoded sample_event_of [(0, ''s''), (1, ''f''), (2, ''s'')] [?s, ?f, ?s]"
    by (simp add: decoded_def sample_event_of_def)
  moreover have "list_all event_ok [?s, ?f, ?s]"
    by (simp add: event_ok_def kind_is_def finish_reason_def sub_dict_def)
  moreover have "length (finishes [?s, ?f, ?s]) = 1" by (simp add: kind_is_def)
  moreover have "open_after rp fp loads [?s, ?f, ?s] = PInt 5"
    by (simp add: open_after_def kind_is_def)
  moreover have "List.map_filter (event_terminal rp fp loads) [?s, ?f, ?s] = []"
    by (simp add: List.map_filter_simps event_terminal_def ends_by_error_def kind_is_def finish_reason_def
        sub_dict_def reason_in_def TRUNCATED_STEP_FINISH_REASONS_def NORMAL_STEP_FINISH_REASONS_def)
  ultimately show ?thesis by blast
qed

text \<open>C13. The meter is exact: of a worker whose every line is an event, the figures are those of its
  \<open>step_finish\<close> events (one turn each, output and reasoning tokens and cost summed, the input the
  largest seen, truncations the turns cut at the length limit), and one more turn when it died
  in a step whose start carried a time stamp.\<close>

theorem worker_meter_is_exact:
  assumes "decoded loads out es" and "list_all event_ok es"
  shows "rs_turns (run_opencode rp fp loads phase sid out err killed code now_ms)
       = int (length (finishes es)) + (if open_after rp fp loads es \<noteq> PNone then 1 else 0)
   \<and> rs_output_tokens (run_opencode rp fp loads phase sid out err killed code now_ms)
       = sum_list (map (\<lambda>e. fst (snd (usage_of_step e))) (finishes es))
   \<and> rs_reasoning_tokens (run_opencode rp fp loads phase sid out err killed code now_ms)
       = sum_list (map (\<lambda>e. snd (snd (usage_of_step e))) (finishes es))
   \<and> rs_input_tokens (run_opencode rp fp loads phase sid out err killed code now_ms)
       = foldl max 0 (map (\<lambda>e. fst (usage_of_step e)) (finishes es))
   \<and> rs_cost_usd (run_opencode rp fp loads phase sid out err killed code now_ms)
       = sum_list (map (\<lambda>e. cost_value (dget (sub_dict e ''part'') ''cost'')) (finishes es))
   \<and> rs_truncations (run_opencode rp fp loads phase sid out err killed code now_ms)
       = int (count_if (\<lambda>e. finish_reason e = PStr ''length'') (finishes es))"
proof -
  let ?s = "stderr_reader fp err (fst (stdout_reader rp fp loads phase out (worker_init sid)))"
  have "meter ?s = fold meter_event es (0, 0, 0, 0, 0, 0)"
    and open_ts: "ws_active_step_open_ts ?s = open_after rp fp loads es"
    using stdout_reader_tracks [OF assms, of rp fp phase "worker_init sid"]
    by (simp_all add: worker_init_sel open_after_opened)
  then show ?thesis
    by (simp add: run_opencode_def run_stats_of_def close_open_step_def Let_def meter_def fold_meter_event)
qed

theorem worker_meter_is_exact_witness:
  "rs_turns (run_opencode (\<lambda>_. []) (\<lambda>_. []) sample_event_of ''initial'' None
     [(0, ''s''), (1, ''f''), (2, ''s'')] [] None (Some 1) 9) = 2"
proof -
  obtain es where es: "decoded sample_event_of [(0, ''s''), (1, ''f''), (2, ''s'')] es" "list_all event_ok es"
    "length (finishes es) = 1" "open_after (\<lambda>_. []) (\<lambda>_. []) sample_event_of es = PInt 5"
    using sample_decoded [of "\<lambda>_. []" "\<lambda>_. []" sample_event_of] by blast
  from worker_meter_is_exact [OF es(1,2), of "\<lambda>_. []" "\<lambda>_. []" "''initial''" None "[]" None "Some 1" 9] es(3,4)
  show ?thesis by simp
qed

text \<open>No anomalous ending is lost or invented: the anomalies of a run are, in order, its error events
  (guard aborts and transport errors), its truncated and its unclassified finishes, and a last
  one when the process died in an open step; and the unmetered turns are the anomalies
  without usage.\<close>

theorem worker_anomalies_are_exact:
  assumes "decoded loads out es" and "list_all event_ok es"
  shows "map ta_terminal (rs_turn_anomalies (run_opencode rp fp loads phase sid out err killed code now_ms))
       = List.map_filter (event_terminal rp fp loads) es
         @ (if open_after rp fp loads es \<noteq> PNone then [''stream_died_open''] else [])
   \<and> rs_unmetered_turns (run_opencode rp fp loads phase sid out err killed code now_ms)
       = int (count_if ta_tokens_unmetered
            (rs_turn_anomalies (run_opencode rp fp loads phase sid out err killed code now_ms)))"
proof -
  let ?s = "stderr_reader fp err (fst (stdout_reader rp fp loads phase out (worker_init sid)))"
  have "map ta_terminal (ws_turn_anomalies ?s) = List.map_filter (event_terminal rp fp loads) es"
    and "ws_active_step_open_ts ?s = open_after rp fp loads es" and "unmetered_gap ?s = 0"
    using stdout_reader_tracks [OF assms, of rp fp phase "worker_init sid"]
    by (simp_all add: worker_init_sel open_after_opened)
  then show ?thesis
    by (simp add: run_opencode_def run_stats_of_def close_open_step_def Let_def new_anomaly_def
        unmetered_gap_def count_if_append)
qed

theorem worker_anomalies_are_exact_witness:
  "map ta_terminal (rs_turn_anomalies (run_opencode (\<lambda>_. []) (\<lambda>_. []) sample_event_of ''initial'' None
     [(0, ''s''), (1, ''f''), (2, ''s'')] [] None (Some 1) 9)) = [''stream_died_open'']"
proof -
  obtain es where es: "decoded sample_event_of [(0, ''s''), (1, ''f''), (2, ''s'')] es" "list_all event_ok es"
    "open_after (\<lambda>_. []) (\<lambda>_. []) sample_event_of es = PInt 5"
    "List.map_filter (event_terminal (\<lambda>_. []) (\<lambda>_. []) sample_event_of) es = []"
    using sample_decoded [of "\<lambda>_. []" "\<lambda>_. []" sample_event_of] by blast
  from worker_anomalies_are_exact [OF es(1,2), of "\<lambda>_. []" "\<lambda>_. []" "''initial''" None "[]" None "Some 1" 9] es(3,4)
  show ?thesis by simp
qed

text \<open>Two ways in which a turn the worker paid for is not recorded: a line that is JSON but not an
  object ends the reader, and whatever follows it, usage included, is never read; and a step
  that is still open when the process dies is recorded only if its start carried a time stamp.\<close>

theorem unread_output_is_lost:
  assumes "loads l = Some v" and "\<not> is_dict v"
  shows "stdout_reader rp fp loads phase (pre @ (t, l) # rest) s
       = (fst (stdout_reader rp fp loads phase pre s), False)
    \<and> (\<exists>ls es. decoded (\<lambda>_. Some (PDict [(''type'', PStr ''step_start'')])) ls es
         \<and> rs_turns (run_opencode rp fp (\<lambda>_. Some (PDict [(''type'', PStr ''step_start'')])) phase sid ls [] None (Some 1) 0) = 0
         \<and> rs_turn_anomalies (run_opencode rp fp (\<lambda>_. Some (PDict [(''type'', PStr ''step_start'')])) phase sid ls [] None (Some 1) 0) = [])"
proof (intro conjI)
  have line: "worker_line rp fp loads phase t l s = Inl (PyAttributeError, s)" for s
    using assms by (cases v) (simp_all add: worker_line_def)
  show "stdout_reader rp fp loads phase (pre @ (t, l) # rest) s = (fst (stdout_reader rp fp loads phase pre s), False)"
    by (induction pre arbitrary: s) (auto simp: line split: sum.split)
  let ?e = "[(''type'', PStr ''step_start'')]"
  have "decoded (\<lambda>_. Some (PDict ?e)) [(0, [])] [?e]" by (simp add: decoded_def)
  moreover have "rs_turns (run_opencode rp fp (\<lambda>_. Some (PDict ?e)) phase sid [(0, [])] [] None (Some 1) 0) = 0"
    "rs_turn_anomalies (run_opencode rp fp (\<lambda>_. Some (PDict ?e)) phase sid [(0, [])] [] None (Some 1) 0) = []"
    by (simp_all add: run_opencode_def run_stats_of_def close_open_step_def stderr_reader_def worker_line_def
        worker_event_def on_step_start_def note_session_def mark_anomaly_retried_def worker_init_def Let_def)
  ultimately show "\<exists>ls es. decoded (\<lambda>_. Some (PDict ?e)) ls es
     \<and> rs_turns (run_opencode rp fp (\<lambda>_. Some (PDict ?e)) phase sid ls [] None (Some 1) 0) = 0
     \<and> rs_turn_anomalies (run_opencode rp fp (\<lambda>_. Some (PDict ?e)) phase sid ls [] None (Some 1) 0) = []"
    by blast
qed

theorem unread_output_is_lost_witness:
  "snd (stdout_reader (\<lambda>_. []) (\<lambda>_. []) sample_event_of ''initial'' [(0, ''s''), (1, ''n''), (2, ''f'')] (worker_init None)) = False"
proof -
  have "sample_event_of ''n'' = Some (PInt 4)" by (simp add: sample_event_of_def)
  from unread_output_is_lost [where loads = sample_event_of and l = "''n''" and v = "PInt 4"
      and rp = "\<lambda>_. []" and fp = "\<lambda>_. []" and phase = "''initial''" and pre = "[(0, ''s'')]" and t = 1
      and rest = "[(2, ''f'')]" and s = "worker_init None", OF this]
  show ?thesis by simp
qed

end
