(* ===== verification/Serve_Client.thy ===== *)
theory Serve_Client
  imports Worker_Events
begin

text \<open>
  The reading side of \<open>wevibe_bench/serve_client.py\<close>: reads of the serve with their retries, the waits for
  busy and idle, and the figures of a transcript.  What a request meets is a value of
  \<open>http_outcome\<close>; the clock is a number with every probe.  What is sent to the serve
  is modelled in \<open>Serve_Requests\<close>.
\<close>

section \<open>Reads\<close>

text \<open>\<open>_http_json\<close>: a decoded body, an HTTP error status, no answer at all, or a body that is not JSON,
  whose exception is not wrapped.\<close>

datatype http_outcome = Answer pyval | Http_Status int | No_Answer | Undecodable

datatype serve_error = ServeClientError | Other_Error py_exc

definition is_transient :: "http_outcome \<Rightarrow> bool" where
  "is_transient r = (case r of Http_Status code \<Rightarrow> 500 \<le> code \<or> code = 429 | No_Answer \<Rightarrow> True | _ \<Rightarrow> False)"

definition READ_RETRY_ATTEMPTS :: nat where
  "READ_RETRY_ATTEMPTS = 4"

fun retry_attempts :: "(nat \<Rightarrow> http_outcome) \<Rightarrow> nat list \<Rightarrow> serve_error + pyval" where
  "retry_attempts call [] = Inl ServeClientError"
| "retry_attempts call (k # ks) =
     (case call k of
        Answer v \<Rightarrow> Inr v
      | Undecodable \<Rightarrow> Inl (Other_Error PyValueError)
      | r \<Rightarrow> if is_transient r then retry_attempts call ks else Inl ServeClientError)"

definition retry_read :: "(nat \<Rightarrow> http_outcome) \<Rightarrow> serve_error + pyval" where
  "retry_read call = retry_attempts call [1 ..< Suc READ_RETRY_ATTEMPTS]"

definition as_list :: "pyval \<Rightarrow> pyval list" where
  "as_list v = (case v of PList xs \<Rightarrow> xs | _ \<Rightarrow> [])"

definition parse_busy_status :: "pydict \<Rightarrow> string \<Rightarrow> serve_error + bool" where
  "parse_busy_status payload session_id =
     (let entry = dget payload session_id
      in if \<not> truthy entry then Inr False
         else case entry of
                PDict d \<Rightarrow> Inr (dget d ''type'' = PStr ''busy'')
              | _ \<Rightarrow> Inl (Other_Error PyAttributeError))"

definition session_busy :: "(nat \<Rightarrow> http_outcome) \<Rightarrow> string \<Rightarrow> serve_error + bool" where
  "session_busy call session_id =
     bind_result (retry_read call) (\<lambda>v.
       case v of PDict d \<Rightarrow> parse_busy_status d session_id | _ \<Rightarrow> Inr False)"

definition get_messages :: "(nat \<Rightarrow> http_outcome) \<Rightarrow> serve_error + pyval list" where
  "get_messages call = bind_result (retry_read call) (\<lambda>v. Inr (as_list v))"

text \<open>The polling loops over the probes that the clock leaves time for, each with the time at which the
  loop's condition is read.\<close>

fun wait_idle :: "real \<Rightarrow> (real \<times> (serve_error + bool)) list \<Rightarrow> serve_error + bool" where
  "wait_idle deadline [] = Inr False"
| "wait_idle deadline ((now, probe) # later) =
     (if deadline \<le> now then Inr False
      else case probe of
             Inl (Other_Error e) \<Rightarrow> Inl (Other_Error e)
           | Inl ServeClientError \<Rightarrow> wait_idle deadline later
           | Inr busy \<Rightarrow> if busy then wait_idle deadline later else Inr True)"

fun wait_busy :: "real \<Rightarrow> (real \<times> (serve_error + bool)) list \<Rightarrow> serve_error + bool" where
  "wait_busy deadline [] = Inr False"
| "wait_busy deadline ((now, probe) # later) =
     (if deadline \<le> now then Inr False
      else case probe of
             Inl (Other_Error e) \<Rightarrow> Inl (Other_Error e)
           | Inl ServeClientError \<Rightarrow> wait_busy deadline later
           | Inr busy \<Rightarrow> if busy then Inr True else wait_busy deadline later)"

section \<open>The messages\<close>

text \<open>\<open>v or w\<close> on decoded values.\<close>

definition val_or :: "pyval \<Rightarrow> pyval \<Rightarrow> pyval" where
  "val_or v w = (if truthy v then v else w)"

definition message_info :: "pydict \<Rightarrow> pydict option" where
  "message_info msg = (case dget msg ''info'' of PDict i \<Rightarrow> Some i | _ \<Rightarrow> None)"

definition message_role :: "pydict \<Rightarrow> pyval" where
  "message_role msg = (case message_info msg of None \<Rightarrow> PNone | Some i \<Rightarrow> dget i ''role'')"

text \<open>The parts of a message that are objects.\<close>

definition message_parts :: "pydict \<Rightarrow> pydict list" where
  "message_parts msg = map dict_or_empty (filter is_dict (as_list (dget msg ''parts'')))"

definition has_type :: "string \<Rightarrow> pydict \<Rightarrow> bool" where
  "has_type t part \<longleftrightarrow> dget part ''type'' = PStr t"

definition part_text :: "(pyval \<Rightarrow> string) \<Rightarrow> pydict \<Rightarrow> string" where
  "part_text rp part = py_str rp (val_or (dget part ''text'') (PStr []))"

definition message_text :: "(pyval \<Rightarrow> string) \<Rightarrow> pydict \<Rightarrow> string" where
  "message_text rp msg = concat (map (part_text rp) (filter (has_type ''text'') (message_parts msg)))"

text \<open>The messages of a transcript that are objects.\<close>

definition message_dicts :: "pyval list \<Rightarrow> pydict list" where
  "message_dicts ms = map dict_or_empty (filter is_dict ms)"

definition is_assistant :: "pydict \<Rightarrow> bool" where
  "is_assistant msg \<longleftrightarrow> message_role msg = PStr ''assistant''"

definition last_assistant_text :: "(pyval \<Rightarrow> string) \<Rightarrow> pyval list \<Rightarrow> string" where
  "last_assistant_text rp ms =
     (case find is_assistant (rev (message_dicts ms)) of None \<Rightarrow> [] | Some m \<Rightarrow> message_text rp m)"

definition assistant_texts_since :: "(pyval \<Rightarrow> string) \<Rightarrow> pyval list \<Rightarrow> nat \<Rightarrow> string list" where
  "assistant_texts_since rp ms watermark =
     map (message_text rp) (filter is_assistant (message_dicts (drop watermark ms)))"

definition compaction_since :: "pyval list \<Rightarrow> nat \<Rightarrow> bool" where
  "compaction_since ms watermark =
     list_ex (\<lambda>m. list_ex (has_type ''compaction'') (message_parts m)) (message_dicts (drop watermark ms))"

definition model_of_message :: "(pyval \<Rightarrow> string) \<Rightarrow> pydict \<Rightarrow> (string \<times> string) option" where
  "model_of_message rp msg =
     (if message_role msg \<noteq> PStr ''user'' \<or> list_ex (has_type ''compaction'') (message_parts msg) then None
      else case dget (opt_or (message_info msg) []) ''model'' of
             PDict d \<Rightarrow>
               if truthy (dget d ''providerID'') \<and> truthy (dget d ''modelID'')
               then Some (py_str rp (dget d ''providerID''), py_str rp (dget d ''modelID'')) else None
           | _ \<Rightarrow> None)"

definition session_model :: "(pyval \<Rightarrow> string) \<Rightarrow> pyval list \<Rightarrow> (string \<times> string) option" where
  "session_model rp ms =
     (case List.map_filter (model_of_message rp) (rev (message_dicts ms)) of [] \<Rightarrow> None | m # _ \<Rightarrow> Some m)"

section \<open>The figures of a transcript\<close>

definition SERVE_TRUNCATED_REASONS :: "string list" where
  "SERVE_TRUNCATED_REASONS = [''unknown'', ''stream-incomplete'', ''length'']"

definition FINALIZE_TIMEOUT_SIGNATURE :: string where
  "FINALIZE_TIMEOUT_SIGNATURE = ''did not finalize''"

definition MAX_ERROR_TEXTS :: nat where
  "MAX_ERROR_TEXTS = 8"

definition MAX_ERROR_TEXT_CHARS :: nat where
  "MAX_ERROR_TEXT_CHARS = 240"

text \<open>Membership of a set hashes its argument, which a list or an object does not allow.\<close>

definition classify_step_finish_reason :: "pyval \<Rightarrow> py_exc + string" where
  "classify_step_finish_reason v =
     (case v of
        PStr s \<Rightarrow> Inr (if s \<in> {''stop'', ''length'', ''unknown'', ''stream-incomplete''} then s else ''unknown'')
      | PList _ \<Rightarrow> Inl PyTypeError
      | PDict _ \<Rightarrow> Inl PyTypeError
      | _ \<Rightarrow> Inr ''unknown'')"

text \<open>\<open>tokens\<close> of an assistant's message.\<close>

definition message_tokens :: "pydict \<Rightarrow> pydict" where
  "message_tokens msg = sub_dict (opt_or (message_info msg) []) ''tokens''"

definition is_real_assistant_turn :: "(pyval \<Rightarrow> string) \<Rightarrow> pydict \<Rightarrow> py_exc + bool" where
  "is_real_assistant_turn rp msg =
     bind_result (py_int (val_or (dget_default (message_tokens msg) ''output'' (PInt 0)) (PInt 0))) (\<lambda>output.
       if 0 < output then Inr True
       else bind_result (py_int (val_or (dget_default (message_tokens msg) ''reasoning'' (PInt 0)) (PInt 0)))
              (\<lambda>reasoning.
                if 0 < reasoning then Inr True
                else Inr (list_ex (\<lambda>p. has_type ''text'' p \<and> strip (part_text rp p) \<noteq> []
                                     \<or> has_type ''tool'' p) (message_parts msg))))"

text \<open>\<open>a + (v or 0)\<close> and \<open>max(a, v or 0)\<close> need a number.\<close>

definition amount :: "pyval \<Rightarrow> py_exc + real" where
  "amount v =
     (if \<not> truthy v then Inr 0
      else case v of PBool _ \<Rightarrow> Inr 1 | PInt i \<Rightarrow> Inr (of_int i) | PFloat x \<Rightarrow> Inr x | _ \<Rightarrow> Inl PyTypeError)"

definition has_loop_guard_text :: "string \<Rightarrow> bool" where
  "has_loop_guard_text t = list_ex (contains (lower t)) LOOP_GUARD_SIGNATURES"

definition has_finalize_text :: "string \<Rightarrow> bool" where
  "has_finalize_text t = contains (lower t) FINALIZE_TIMEOUT_SIGNATURE"

text \<open>\<open>_capture_error_text\<close> keeps what is not blank.\<close>

definition captured_text :: "(pyval \<Rightarrow> string) \<Rightarrow> pyval \<Rightarrow> string list" where
  "captured_text rp raw =
     (let t = strip (py_str rp (val_or raw (PStr [])))
      in if t = [] then [] else [take MAX_ERROR_TEXT_CHARS t])"

text \<open>What the scan adds up of one message.\<close>

record message_facts =
  mf_assistant :: bool
  mf_user :: bool
  mf_real :: bool
  mf_info_error :: bool
  mf_guard_aborted :: bool
  mf_finalize_timeout :: bool
  mf_reasons :: "string list"
  mf_error_parts :: nat
  mf_texts :: "string list"
  mf_input :: real
  mf_output :: real
  mf_reasoning :: real
  mf_cost :: real

definition message_error :: "pydict \<Rightarrow> pydict option" where
  "message_error msg =
     (if \<not> is_assistant msg then None
      else case dget (opt_or (message_info msg) []) ''error'' of PDict e \<Rightarrow> Some e | _ \<Rightarrow> None)"

definition error_text :: "(pyval \<Rightarrow> string) \<Rightarrow> pydict \<Rightarrow> string" where
  "error_text rp e =
     py_str rp (val_or (val_or (dget (sub_dict e ''data'') ''message'') (dget e ''message'')) (PStr []))"

text \<open>A message killed by the relay counts as killed only when it is also a turn; the guard comes first.\<close>

definition facts_of_message :: "(pyval \<Rightarrow> string) \<Rightarrow> pydict \<Rightarrow> py_exc + message_facts" where
  "facts_of_message rp msg =
     (let err = message_error msg;
          err_text = (case err of None \<Rightarrow> [] | Some e \<Rightarrow> error_text rp e);
          part_errors = filter (has_type ''error'') (message_parts msg);
          info = opt_or (message_info msg) [];
          assistant = is_assistant msg
      in bind_result (if assistant then is_real_assistant_turn rp msg else Inr False) (\<lambda>real_turn.
         bind_result (map_result (\<lambda>p. classify_step_finish_reason (dget p ''reason''))
                        (filter (has_type ''step-finish'') (message_parts msg))) (\<lambda>reasons.
         bind_result (if assistant then amount (dget (message_tokens msg) ''input'') else Inr 0) (\<lambda>input.
         bind_result (if assistant then amount (dget (message_tokens msg) ''output'') else Inr 0) (\<lambda>output.
         bind_result (if assistant then amount (dget (message_tokens msg) ''reasoning'') else Inr 0) (\<lambda>reasoning.
         bind_result (if assistant then amount (dget info ''cost'') else Inr 0) (\<lambda>cost.
           Inr \<lparr>mf_assistant = assistant, mf_user = (message_role msg = PStr ''user''), mf_real = real_turn,
                mf_info_error = (err \<noteq> None),
                mf_guard_aborted = (err \<noteq> None \<and> real_turn \<and> has_loop_guard_text err_text),
                mf_finalize_timeout = (err \<noteq> None \<and> real_turn \<and> \<not> has_loop_guard_text err_text
                                       \<and> has_finalize_text err_text),
                mf_reasons = reasons, mf_error_parts = length part_errors,
                mf_texts = (if err = None then [] else captured_text rp (PStr err_text))
                  @ concat (map (\<lambda>p. captured_text rp (val_or (dget p ''message'') (dget p ''text''))) part_errors),
                mf_input = input, mf_output = output, mf_reasoning = reasoning, mf_cost = cost\<rparr>)))))))"

record metrics =
  sm_turns :: int
  sm_input_tokens :: real
  sm_output_tokens :: real
  sm_reasoning_tokens :: real
  sm_cost_usd :: real
  sm_truncations :: int
  sm_last_finish :: "string option"
  sm_error_parts :: int
  sm_info_errors :: int
  sm_guard_aborted_turns :: int
  sm_finalize_timeouts :: int
  sm_error_texts :: "string list"
  sm_assistant_messages :: int
  sm_user_messages :: int

definition metrics_of :: "message_facts list \<Rightarrow> metrics" where
  "metrics_of fs =
     (let reasons = concat (map mf_reasons fs)
      in \<lparr>sm_turns = int (count_if mf_real fs),
          sm_input_tokens = foldl max 0 (map mf_input fs),
          sm_output_tokens = sum_list (map mf_output fs),
          sm_reasoning_tokens = sum_list (map mf_reasoning fs),
          sm_cost_usd = sum_list (map mf_cost fs),
          sm_truncations = int (count_if (\<lambda>r. r \<in> set SERVE_TRUNCATED_REASONS) reasons),
          sm_last_finish = (if reasons = [] then None else Some (last reasons)),
          sm_error_parts = int (sum_list (map mf_error_parts fs)),
          sm_info_errors = int (count_if mf_info_error fs),
          sm_guard_aborted_turns = int (count_if mf_guard_aborted fs),
          sm_finalize_timeouts = int (count_if mf_finalize_timeout fs),
          sm_error_texts = take MAX_ERROR_TEXTS (concat (map mf_texts fs)),
          sm_assistant_messages = int (count_if mf_assistant fs),
          sm_user_messages = int (count_if mf_user fs)\<rparr>)"

text \<open>\<open>extract_transcript_metrics\<close>; whichever message makes it raise, its caller sees no figures.\<close>

definition extract_transcript_metrics :: "(pyval \<Rightarrow> string) \<Rightarrow> pyval list \<Rightarrow> py_exc + metrics" where
  "extract_transcript_metrics rp ms =
     bind_result (map_result (facts_of_message rp) (message_dicts ms)) (\<lambda>fs. Inr (metrics_of fs))"

fun classify_error_texts :: "string list \<Rightarrow> (string \<times> string) option" where
  "classify_error_texts [] = None"
| "classify_error_texts (t # ts) =
     (if has_loop_guard_text t then Some (''guard_abort'', ''loop_guard'')
      else if has_finalize_text t then Some (''transport_error'', ''stream_finalize_timeout'')
      else classify_error_texts ts)"

definition classify_transport_anomaly :: "metrics \<Rightarrow> (string \<times> string) option" where
  "classify_transport_anomaly m =
     (case classify_error_texts (sm_error_texts m) of
        Some c \<Rightarrow> Some c
      | None \<Rightarrow>
          if 0 < sm_truncations m then Some (''truncated'', ''stream-incomplete'')
          else if 0 < sm_error_parts m \<or> 0 < sm_info_errors m then Some (''transport_error'', ''error_event'')
          else None)"

text \<open>\<open>metrics\<close>: the figures of the messages from index \<open>since\<close> on.\<close>

definition read_metrics ::
  "(pyval \<Rightarrow> string) \<Rightarrow> serve_error + pyval list \<Rightarrow> nat \<Rightarrow> serve_error + metrics" where
  "read_metrics rp reading since =
     bind_result reading (\<lambda>ms.
       case extract_transcript_metrics rp (drop since ms) of
         Inl e \<Rightarrow> Inl (Other_Error e) | Inr m \<Rightarrow> Inr m)"

section \<open>Lemmas\<close>

lemma map_result_append:
  "map_result f (xs @ ys) = bind_result (map_result f xs) (\<lambda>us. bind_result (map_result f ys) (\<lambda>vs. Inr (us @ vs)))"
proof (induction xs)
  case Nil
  show ?case by (cases "map_result f ys") simp_all
qed (simp add: bind_result_assoc)

lemma message_dicts_append: "message_dicts (xs @ ys) = message_dicts xs @ message_dicts ys"
  by (simp add: message_dicts_def)

lemma extract_append:
  "extract_transcript_metrics rp (xs @ ys) = Inr m \<longleftrightarrow>
     (\<exists>us vs. map_result (facts_of_message rp) (message_dicts xs) = Inr us
        \<and> map_result (facts_of_message rp) (message_dicts ys) = Inr vs \<and> m = metrics_of (us @ vs))"
  by (auto simp: extract_transcript_metrics_def message_dicts_append map_result_append result_simps)

lemma foldl_max_append: "foldl max (a::real) (xs @ ys) = foldl max (foldl max a xs) ys"
  by simp

lemma foldl_max_start: "foldl max (max a b) xs = max (a::real) (foldl max b xs)"
  by (induction xs arbitrary: a b) (simp_all add: max.assoc)

lemma foldl_max_from_zero: "0 \<le> a \<Longrightarrow> foldl max (a::real) xs = max a (foldl max 0 xs)"
  using foldl_max_start [of a 0 xs] by simp

lemma foldl_max_mono: "(a::real) \<le> foldl max a xs"
proof (induction xs arbitrary: a)
  case (Cons x xs)
  show ?case using Cons [of "max a x"] by simp
qed simp

lemma metrics_of_append:
  "sm_turns (metrics_of (us @ vs)) = sm_turns (metrics_of us) + sm_turns (metrics_of vs)"
  "sm_output_tokens (metrics_of (us @ vs)) = sm_output_tokens (metrics_of us) + sm_output_tokens (metrics_of vs)"
  "sm_reasoning_tokens (metrics_of (us @ vs)) = sm_reasoning_tokens (metrics_of us) + sm_reasoning_tokens (metrics_of vs)"
  "sm_cost_usd (metrics_of (us @ vs)) = sm_cost_usd (metrics_of us) + sm_cost_usd (metrics_of vs)"
  "sm_truncations (metrics_of (us @ vs)) = sm_truncations (metrics_of us) + sm_truncations (metrics_of vs)"
  "sm_guard_aborted_turns (metrics_of (us @ vs))
     = sm_guard_aborted_turns (metrics_of us) + sm_guard_aborted_turns (metrics_of vs)"
  "sm_finalize_timeouts (metrics_of (us @ vs))
     = sm_finalize_timeouts (metrics_of us) + sm_finalize_timeouts (metrics_of vs)"
  "sm_input_tokens (metrics_of (us @ vs)) = max (sm_input_tokens (metrics_of us)) (sm_input_tokens (metrics_of vs))"
  by (simp_all add: metrics_of_def Let_def count_if_append foldl_max_from_zero [OF foldl_max_mono])

lemma killed_turns_bounded:
  assumes "map_result (facts_of_message rp) ds = Inr fs"
  shows "count_if mf_guard_aborted fs + count_if mf_finalize_timeout fs \<le> count_if mf_real fs"
  using assms
proof (induction ds arbitrary: fs)
  case (Cons d ds)
  then obtain f gs where f: "facts_of_message rp d = Inr f" and gs: "map_result (facts_of_message rp) ds = Inr gs"
    and fs: "fs = f # gs" by (auto simp: result_simps)
  have "mf_guard_aborted f \<longrightarrow> mf_real f \<and> \<not> mf_finalize_timeout f" "mf_finalize_timeout f \<longrightarrow> mf_real f"
    using f by (auto simp: facts_of_message_def Let_def result_simps)
  with Cons.IH [OF gs] show ?case by (auto simp: fs count_if_def)
qed (simp add: count_if_def)

text \<open>A retried read gives the first answer after nothing but transient faults, within four tries.\<close>

lemma retry_attempts_Inr:
  "retry_attempts call [m ..< n] = Inr v \<longleftrightarrow>
     (\<exists>k. m \<le> k \<and> k < n \<and> call k = Answer v \<and> (\<forall>j \<in> {m ..< k}. is_transient (call j)))"
proof (induction "n - m" arbitrary: m)
  case 0
  then show ?case by simp
next
  case (Suc d)
  then have first: "[m ..< n] = m # [Suc m ..< n]" and "m < n" by (simp_all add: upt_conv_Cons)
  have "(\<exists>k. m \<le> k \<and> k < n \<and> call k = Answer v \<and> (\<forall>j \<in> {m ..< k}. is_transient (call j)))
    \<longleftrightarrow> call m = Answer v \<or> is_transient (call m)
      \<and> (\<exists>k. Suc m \<le> k \<and> k < n \<and> call k = Answer v \<and> (\<forall>j \<in> {Suc m ..< k}. is_transient (call j)))"
    (is "?L \<longleftrightarrow> ?R")
  proof
    assume ?L
    then obtain k where k: "m \<le> k" "k < n" "call k = Answer v" "\<forall>j \<in> {m ..< k}. is_transient (call j)" by blast
    show ?R
    proof (cases "k = m")
      case False
      with k(1) have "Suc m \<le> k" by simp
      moreover with k(4) have "is_transient (call m)" "\<forall>j \<in> {Suc m ..< k}. is_transient (call j)" by auto
      ultimately show ?thesis using k(2,3) by blast
    qed (use k in simp)
  next
    assume ?R
    then show ?L
    proof
      assume "call m = Answer v"
      with \<open>m < n\<close> show ?L by (intro exI [of _ m]) simp
    next
      assume "is_transient (call m)
        \<and> (\<exists>k. Suc m \<le> k \<and> k < n \<and> call k = Answer v \<and> (\<forall>j \<in> {Suc m ..< k}. is_transient (call j)))"
      then obtain k where k: "is_transient (call m)" "Suc m \<le> k" "k < n" "call k = Answer v"
        "\<forall>j \<in> {Suc m ..< k}. is_transient (call j)" by blast
      then have "is_transient (call j)" if "j \<in> {m ..< k}" for j
        using that by (cases "j = m") auto
      with k show ?L by (intro exI [of _ k]) auto
    qed
  qed
  moreover have "n - Suc m = d" using Suc(2) by simp
  ultimately show ?case
    using Suc(1) [of "Suc m"] unfolding first
    by (cases "call m") (auto simp: is_transient_def)
qed

text \<open>Observation is retried and never guessed: a read answers with the first reply that follows
  nothing but transient faults, within four tries; and a wait that reports idle or busy had
  a probe that said so before the deadline, a failed probe counting as neither.\<close>

theorem observations_are_never_guessed:
  shows "(retry_read call = Inr v \<longleftrightarrow>
            (\<exists>k \<in> {1..4}. call k = Answer v \<and> (\<forall>j \<in> {1 ..< k}. is_transient (call j))))
     \<and> (wait_idle deadline probes = Inr True \<longrightarrow> (\<exists>now < deadline. (now, Inr False) \<in> set probes))
     \<and> (wait_busy deadline probes = Inr True \<longrightarrow> (\<exists>now < deadline. (now, Inr True) \<in> set probes))"
proof (intro conjI impI)
  have "(\<exists>k. 1 \<le> k \<and> k < Suc READ_RETRY_ATTEMPTS \<and> call k = Answer v \<and> (\<forall>j \<in> {1 ..< k}. is_transient (call j)))
      \<longleftrightarrow> (\<exists>k \<in> {1..4}. call k = Answer v \<and> (\<forall>j \<in> {1 ..< k}. is_transient (call j)))"
    by (auto simp: READ_RETRY_ATTEMPTS_def)
  then show "retry_read call = Inr v \<longleftrightarrow>
            (\<exists>k \<in> {1..4}. call k = Answer v \<and> (\<forall>j \<in> {1 ..< k}. is_transient (call j)))"
    by (simp only: retry_read_def retry_attempts_Inr)
  assume "wait_idle deadline probes = Inr True"
  then show "\<exists>now < deadline. (now, Inr False) \<in> set probes"
    by (induction deadline probes rule: wait_idle.induct)
      (auto simp: not_le split: if_split_asm sum.split_asm serve_error.split_asm)
next
  assume "wait_busy deadline probes = Inr True"
  then show "\<exists>now < deadline. (now, Inr True) \<in> set probes"
    by (induction deadline probes rule: wait_busy.induct)
      (auto simp: not_le split: if_split_asm sum.split_asm serve_error.split_asm)
qed

theorem observations_are_never_guessed_witness:
  "retry_read (\<lambda>k. if k = 3 then Answer (PInt 1) else No_Answer) = Inr (PInt 1)
   \<and> (\<exists>now < (10::real). (now, Inr False) \<in> set [(0, Inl ServeClientError), (2, Inr True), (4, Inr False)])"
proof -
  let ?call = "\<lambda>k::nat. if k = 3 then Answer (PInt 1) else No_Answer"
  let ?ps = "[(0, Inl ServeClientError), (2, Inr True), (4, Inr False)] :: (real \<times> (serve_error + bool)) list"
  have "\<exists>k \<in> {1..4}. ?call k = Answer (PInt 1) \<and> (\<forall>j \<in> {1 ..< k}. is_transient (?call j))"
    by (intro bexI [of _ 3]) (auto simp: is_transient_def)
  moreover have "wait_idle 10 ?ps = Inr True" by simp
  ultimately show ?thesis
    using observations_are_never_guessed [where call = ?call and v = "PInt 1" and deadline = 10 and probes = ?ps] by blast
qed

end
