(* ===== verification/Serve_Drive.thy ===== *)
theory Serve_Drive
  imports Serve_Client "HOL-Library.Sublist"
begin

text \<open>
  One phase driven through the persistent serve: \<open>_run_opencode_serve\<close> of
  \<open>wevibe_bench/adapters/backgammon.py\<close>.  What the serve answers is the environment: a transcript per
  read, a probe per wait.  The loop that nudges a killed turn has no bound, so it is a partial function.
  The evidence file, the abort and the kill hook of a timeout have no effect on the figures.
\<close>

section \<open>The environment and the state\<close>

record drive_round =
  dn_sent :: bool
  dn_went_busy :: "serve_error + bool"
  dn_early :: "serve_error + pyval list"
  dn_idle :: "serve_error + bool"
  dn_read :: "serve_error + pyval list"
  dn_read_window :: "serve_error + pyval list"
  dn_next :: "serve_error + pyval list"

record drive_env =
  de_baseline :: "serve_error + pyval list"
  de_watermark :: "serve_error + pyval list"
  de_round :: "nat \<Rightarrow> drive_round"

datatype drive_prompt = Given_Prompt | Loop_Recovery_Nudge | Finalize_Recovery_Nudge

record drive_state =
  ds_prompt :: drive_prompt
  ds_nudges :: int
  ds_anomalies :: "turn_anomaly list"
  ds_watermark :: nat

record serve_stats = run_stats +
  ss_recovery_nudges :: int
  ss_guard_aborted_turns :: int
  ss_finalize_timeout_turns :: int
  ss_observation_lost_turns :: int

text \<open>\<open>except ServeClientError\<close>: any other exception goes on.\<close>

definition catch_client :: "serve_error + 'a \<Rightarrow> serve_error + 'a option" where
  "catch_client r = (case r of
     Inl ServeClientError \<Rightarrow> Inr None
   | Inl (Other_Error e) \<Rightarrow> Inl (Other_Error e)
   | Inr x \<Rightarrow> Inr (Some x))"

definition stats_of :: "string \<Rightarrow> int \<Rightarrow> string option \<Rightarrow> turn_anomaly list \<Rightarrow> run_stats" where
  "stats_of session_id exit_code killed anomalies =
     \<lparr>rs_input_tokens = 0, rs_output_tokens = 0, rs_reasoning_tokens = 0, rs_turns = 0,
      rs_session_id = Some session_id, rs_killed_reason = killed, rs_exit_code = Some exit_code, rs_cost_usd = 0,
      rs_budget_stop_detected = False, rs_budget_stop_signature = None, rs_truncations = 0,
      rs_zero_tool_turns = 0, rs_terminal_zero_tool_turn = False, rs_zero_tool_resumes = 0,
      rs_zero_tool_turn_honest_fail = False, rs_resume_count = 0, rs_turn_anomalies = anomalies,
      rs_unmetered_turns = 0, rs_unmetered_turn_wall_s = 0\<rparr>"

text \<open>A prompt that was not sent, or that the serve never picked up.\<close>

definition failed_phase :: "string \<Rightarrow> drive_state \<Rightarrow> serve_stats" where
  "failed_phase session_id st =
     run_stats.extend (stats_of session_id 1 None (ds_anomalies st))
       (serve_stats.fields (ds_nudges st) 0 0 0)"

definition phase_is_dead :: "metrics option \<Rightarrow> metrics option \<Rightarrow> bool" where
  "phase_is_dead baseline early =
     (case early of
        None \<Rightarrow> True
      | Some m \<Rightarrow>
          (case baseline of
             None \<Rightarrow> sm_turns m \<le> 0
           | Some b \<Rightarrow> sm_turns m - sm_turns b \<le> 0
               \<and> trunc_real (sm_output_tokens m) - trunc_real (sm_output_tokens b) \<le> 0))"

definition no_metrics :: metrics where
  "no_metrics = metrics_of []"

definition serve_anomaly :: "string \<Rightarrow> string \<Rightarrow> string \<Rightarrow> string \<Rightarrow> bool \<Rightarrow> metrics \<Rightarrow> turn_anomaly" where
  "serve_anomaly phase session_id terminal reason unmetered m =
     \<lparr>ta_phase = phase, ta_turn_index = sm_turns m, ta_terminal = terminal, ta_reason = reason,
      ta_tool_uses = 0, ta_file_writes = 0, ta_input_tokens = trunc_real (sm_input_tokens m),
      ta_output_tokens = trunc_real (sm_output_tokens m),
      ta_reasoning_tokens = trunc_real (sm_reasoning_tokens m), ta_cost_usd = sm_cost_usd m,
      ta_tokens_unmetered = unmetered, ta_wall_seconds = None, ta_retried = False, ta_retry_kind = None,
      ta_session_id = Some session_id\<rparr>"

text \<open>The record of a silent phase has no other keys; absent keys read as \<open>None\<close>.\<close>

definition silent_anomaly :: "string \<Rightarrow> metrics \<Rightarrow> turn_anomaly" where
  "silent_anomaly phase m =
     \<lparr>ta_phase = phase, ta_turn_index = sm_turns m, ta_terminal = ''silent_phase'',
      ta_reason = ''phase produced zero new turns and zero new tokens'', ta_tool_uses = 0,
      ta_file_writes = 0, ta_input_tokens = 0, ta_output_tokens = 0, ta_reasoning_tokens = 0, ta_cost_usd = 0,
      ta_tokens_unmetered = False, ta_wall_seconds = None, ta_retried = False, ta_retry_kind = None,
      ta_session_id = None\<rparr>"

section \<open>The figures of a phase\<close>

definition delta :: "(metrics \<Rightarrow> int) \<Rightarrow> metrics option \<Rightarrow> metrics \<Rightarrow> int" where
  "delta f baseline m = (case baseline of None \<Rightarrow> f m | Some b \<Rightarrow> f m - f b)"

definition delta_tokens :: "(metrics \<Rightarrow> real) \<Rightarrow> metrics option \<Rightarrow> metrics \<Rightarrow> int" where
  "delta_tokens f = delta (\<lambda>m. trunc_real (f m))"

definition finish_phase ::
  "string \<Rightarrow> string \<Rightarrow> metrics option \<Rightarrow> string option \<Rightarrow> int \<Rightarrow> bool \<Rightarrow> metrics \<Rightarrow> drive_state \<Rightarrow> serve_stats" where
  "finish_phase phase session_id baseline killed exit_code lost m st =
     (let d_input = delta_tokens sm_input_tokens baseline m;
          d_output = delta_tokens sm_output_tokens baseline m;
          d_turns = delta sm_turns baseline m;
          d_guard = delta sm_guard_aborted_turns baseline m;
          d_finalize = delta sm_finalize_timeouts baseline m;
          silent = (exit_code = 0 \<and> d_turns \<le> 0 \<and> d_output \<le> 0 \<and> d_input \<le> 0)
      in run_stats.extend
           ((stats_of session_id (if silent then 1 else exit_code) killed
               (ds_anomalies st @ (if silent then [silent_anomaly phase m] else [])))
              \<lparr>rs_input_tokens := d_input, rs_output_tokens := d_output,
               rs_reasoning_tokens := delta_tokens sm_reasoning_tokens baseline m,
               rs_turns := max 0 (d_turns - d_guard - d_finalize),
               rs_cost_usd := sm_cost_usd m - (case baseline of None \<Rightarrow> 0 | Some b \<Rightarrow> sm_cost_usd b),
               rs_truncations := delta sm_truncations baseline m\<rparr>)
           (serve_stats.fields (ds_nudges st) d_guard d_finalize (if lost then 1 else 0)))"

section \<open>One round\<close>

definition mapped_terminal :: "string \<Rightarrow> string" where
  "mapped_terminal t = (if t = ''truncated'' then ''truncated_no_signal'' else t)"

definition recoverable :: "string \<Rightarrow> string \<Rightarrow> bool" where
  "recoverable terminal reason \<longleftrightarrow> terminal = ''guard_abort''
     \<or> terminal = ''transport_error'' \<and> reason = ''stream_finalize_timeout''"

text \<open>What is read of the transcript once the wait is over: all of it, and the window that the kills
  already recovered are not in.\<close>

definition observe :: "(pyval \<Rightarrow> string) \<Rightarrow> drive_round \<Rightarrow> nat \<Rightarrow> serve_error + (metrics \<times> metrics) option" where
  "observe rp rd watermark =
     catch_client (bind_result (read_metrics rp (dn_read rd) 0) (\<lambda>m.
                   bind_result (read_metrics rp (dn_read_window rd) watermark) (\<lambda>w. Inr (m, w))))"

text \<open>After a recoverable kill: its record is marked as retried, and the window moves past it.\<close>

definition nudge ::
  "string \<Rightarrow> drive_round \<Rightarrow> turn_anomaly \<Rightarrow> drive_state \<Rightarrow> serve_error + drive_state" where
  "nudge terminal rd a st =
     bind_result (catch_client (dn_next rd)) (\<lambda>ms. Inr
       \<lparr>ds_prompt = (if terminal = ''guard_abort'' then Loop_Recovery_Nudge else Finalize_Recovery_Nudge),
        ds_nudges = ds_nudges st + 1,
        ds_anomalies = ds_anomalies st @ [a\<lparr>ta_retried := True, ta_retry_kind := Some ''harness_resume''\<rparr>],
        ds_watermark = (case ms of None \<Rightarrow> ds_watermark st | Some ms \<Rightarrow> length ms)\<rparr>)"

definition note_anomaly :: "turn_anomaly \<Rightarrow> drive_state \<Rightarrow> drive_state" where
  "note_anomaly a st = st\<lparr>ds_anomalies := ds_anomalies st @ [a]\<rparr>"

definition after_wait ::
  "(pyval \<Rightarrow> string) \<Rightarrow> string \<Rightarrow> string \<Rightarrow> metrics option \<Rightarrow> drive_round \<Rightarrow> bool \<Rightarrow> drive_state
     \<Rightarrow> serve_error + (serve_stats + drive_state)" where
  "after_wait rp phase sid baseline rd idle st =
     bind_result (observe rp rd (ds_watermark st)) (\<lambda>obs.
       let killed = (if idle then None else Some ''run_timeout''); exit_code = (if idle then 0 else 1)
       in case obs of
            None \<Rightarrow>
              let m = opt_or baseline no_metrics;
                  st = note_anomaly (serve_anomaly phase sid ''observation_lost''
                         ''transcript_read_failed_past_retries'' True m) st
              in Inr (Inl (finish_phase phase sid baseline killed 1 True m st))
          | Some (m, w) \<Rightarrow>
              (case classify_transport_anomaly w of
                 None \<Rightarrow> Inr (Inl (finish_phase phase sid baseline killed exit_code False m st))
               | Some (t, reason) \<Rightarrow>
                   let t = mapped_terminal t; a = serve_anomaly phase sid t reason False m
                   in if recoverable t reason \<and> idle
                      then bind_result (nudge t rd a st) (\<lambda>st. Inr (Inr st))
                      else Inr (Inl (finish_phase phase sid baseline killed exit_code False m
                                       (note_anomaly a st)))))"

definition wait_for_turn :: "(pyval \<Rightarrow> string) \<Rightarrow> metrics option \<Rightarrow> drive_round \<Rightarrow> serve_error + bool option" where
  "wait_for_turn rp baseline rd =
     bind_result (dn_went_busy rd) (\<lambda>busy.
       if busy then bind_result (dn_idle rd) (\<lambda>idle. Inr (Some idle))
       else bind_result (catch_client (read_metrics rp (dn_early rd) 0)) (\<lambda>early.
              Inr (if phase_is_dead baseline early then None else Some True)))"

definition drive_step ::
  "(pyval \<Rightarrow> string) \<Rightarrow> string \<Rightarrow> string \<Rightarrow> metrics option \<Rightarrow> drive_round \<Rightarrow> drive_state
     \<Rightarrow> serve_error + (serve_stats + drive_state)" where
  "drive_step rp phase sid baseline rd st =
     (if \<not> dn_sent rd then Inr (Inl (failed_phase sid st))
      else bind_result (wait_for_turn rp baseline rd) (\<lambda>idle.
             case idle of
               None \<Rightarrow> Inr (Inl (failed_phase sid st))
             | Some idle \<Rightarrow> after_wait rp phase sid baseline rd idle st))"

partial_function (option) drive_loop ::
  "(pyval \<Rightarrow> string) \<Rightarrow> string \<Rightarrow> string \<Rightarrow> metrics option \<Rightarrow> (nat \<Rightarrow> drive_round) \<Rightarrow> nat \<Rightarrow> drive_state
     \<Rightarrow> (serve_error + serve_stats) option" where
  "drive_loop rp phase sid baseline rounds k st =
     (case drive_step rp phase sid baseline (rounds k) st of
        Inl e \<Rightarrow> Some (Inl e)
      | Inr (Inl r) \<Rightarrow> Some (Inr r)
      | Inr (Inr st') \<Rightarrow> drive_loop rp phase sid baseline rounds (Suc k) st')"

definition drive_start :: "pyval list option \<Rightarrow> drive_state" where
  "drive_start ms = \<lparr>ds_prompt = Given_Prompt, ds_nudges = 0, ds_anomalies = [],
     ds_watermark = (case ms of None \<Rightarrow> 0 | Some ms \<Rightarrow> length ms)\<rparr>"

definition run_opencode_serve ::
  "(pyval \<Rightarrow> string) \<Rightarrow> string \<Rightarrow> string \<Rightarrow> drive_env \<Rightarrow> (serve_error + serve_stats) option" where
  "run_opencode_serve rp phase sid env =
     (case catch_client (read_metrics rp (de_baseline env) 0) of
        Inl e \<Rightarrow> Some (Inl e)
      | Inr baseline \<Rightarrow>
          (case catch_client (de_watermark env) of
             Inl e \<Rightarrow> Some (Inl e)
           | Inr ms \<Rightarrow> drive_loop rp phase sid baseline (de_round env) 0 (drive_start ms)))"

section \<open>How a drive ends\<close>

lemma catch_client_Inr_None [simp]: "catch_client r = Inr None \<longleftrightarrow> r = Inl ServeClientError"
  by (cases r rule: sum.exhaust [case_product serve_error.exhaust]) (auto simp: catch_client_def split: serve_error.splits)

lemma catch_client_Inr_Some [simp]: "catch_client r = Inr (Some x) \<longleftrightarrow> r = Inr x"
  by (auto simp: catch_client_def split: sum.splits serve_error.splits)

lemma catch_client_Inr [simp]: "catch_client (Inr x) = Inr (Some x)"
  by simp

lemma drive_step_done:
  assumes "drive_step rp phase sid baseline rd st = Inr (Inl r)"
  shows "(\<exists>st'. r = failed_phase sid st' \<and> ds_nudges st' = ds_nudges st)
    \<or> (\<exists>killed ec lost m st'. r = finish_phase phase sid baseline killed ec lost m st'
         \<and> ds_nudges st' = ds_nudges st
         \<and> (if lost then observe rp rd (ds_watermark st) = Inr None \<and> m = opt_or baseline no_metrics \<and> ec = 1
            else \<exists>w. observe rp rd (ds_watermark st) = Inr (Some (m, w))))"
proof (cases "dn_sent rd")
  case False
  with assms show ?thesis by (auto simp: drive_step_def)
next
  case True
  with assms obtain idle where w: "wait_for_turn rp baseline rd = Inr idle"
    and r: "(case idle of None \<Rightarrow> Inr (Inl (failed_phase sid st))
             | Some idle \<Rightarrow> after_wait rp phase sid baseline rd idle st) = Inr (Inl r)"
    by (auto simp: drive_step_def result_simps)
  show ?thesis
  proof (cases idle)
    case None
    with r show ?thesis by auto
  next
    case (Some i)
    with r have aw: "after_wait rp phase sid baseline rd i st = Inr (Inl r)" by simp
    then obtain obs where obs: "observe rp rd (ds_watermark st) = Inr obs" by (auto simp: after_wait_def result_simps)
    let ?killed = "if i then None else Some ''run_timeout''" and ?ec = "if i then 0 else 1 :: int"
    have noted: "ds_nudges (note_anomaly a st) = ds_nudges st" for a by (simp add: note_anomaly_def)
    show ?thesis
    proof (cases obs)
      case None
      let ?m = "opt_or baseline no_metrics"
      let ?st = "note_anomaly (serve_anomaly phase sid ''observation_lost'' ''transcript_read_failed_past_retries'' True ?m) st"
      have "r = finish_phase phase sid baseline ?killed 1 True ?m ?st"
        using aw obs None by (simp add: after_wait_def Let_def)
      with None obs noted show ?thesis
        by (intro disjI2, intro exI [of _ ?killed] exI [of _ 1] exI [of _ True] exI [of _ ?m] exI [of _ ?st]) simp
    next
      case (Some mw)
      then obtain m w where mw: "obs = Some (m, w)" by (cases mw) auto
      have "\<exists>st'. r = finish_phase phase sid baseline ?killed ?ec False m st' \<and> ds_nudges st' = ds_nudges st" (is "\<exists>st'. ?P st'")
      proof (cases "classify_transport_anomaly w")
        case None
        then have "r = finish_phase phase sid baseline ?killed ?ec False m st"
          using aw obs mw by (simp add: after_wait_def Let_def)
        then show ?thesis by blast
      next
        case (Some tr)
        obtain t reason where tr: "tr = (t, reason)" by (cases tr)
        have "\<not> (recoverable (mapped_terminal t) reason \<and> i)"
          using aw obs mw Some tr by (auto simp: after_wait_def Let_def result_simps)
        then have "r = finish_phase phase sid baseline ?killed ?ec False m
            (note_anomaly (serve_anomaly phase sid (mapped_terminal t) reason False m) st)"
          using aw obs mw Some tr by (simp add: after_wait_def Let_def del: de_Morgan_conj split: if_split_asm)
        with noted show ?thesis by blast
      qed
      then obtain st' where "?P st'" by blast
      with mw obs show ?thesis
        by (intro disjI2, intro exI [of _ ?killed] exI [of _ ?ec] exI [of _ False] exI [of _ m] exI [of _ st']) simp
    qed
  qed
qed

lemma drive_step_again:
  assumes "drive_step rp phase sid baseline rd st = Inr (Inr st')"
  obtains m w t reason a where "observe rp rd (ds_watermark st) = Inr (Some (m, w))"
    and "classify_transport_anomaly w = Some (t, reason)" and "recoverable (mapped_terminal t) reason"
    and "nudge (mapped_terminal t) rd a st = Inr st'" and "\<not> ta_tokens_unmetered a"
proof -
  from assms obtain i where aw: "after_wait rp phase sid baseline rd i st = Inr (Inr st')"
    by (auto simp: drive_step_def result_simps split: if_split_asm option.split_asm)
  then obtain o1 where o1: "observe rp rd (ds_watermark st) = Inr o1" by (auto simp: after_wait_def result_simps)
  obtain m w where obs: "observe rp rd (ds_watermark st) = Inr (Some (m, w))"
  proof (cases o1)
    case None
    with aw o1 show ?thesis by (simp add: after_wait_def Let_def)
  next
    case (Some mw)
    with o1 that show ?thesis by (cases mw) simp
  qed
  from aw obs obtain t reason where c: "classify_transport_anomaly w = Some (t, reason)"
    by (auto simp: after_wait_def Let_def split: option.split_asm)
  from aw obs c have "recoverable (mapped_terminal t) reason"
    and n: "nudge (mapped_terminal t) rd (serve_anomaly phase sid (mapped_terminal t) reason False m) st = Inr st'"
    by (auto simp: after_wait_def Let_def result_simps split: if_split_asm)
  have "\<not> ta_tokens_unmetered (serve_anomaly phase sid (mapped_terminal t) reason False m)"
    by (simp add: serve_anomaly_def)
  with obs c \<open>recoverable (mapped_terminal t) reason\<close> n show ?thesis by (rule that)
qed

lemma nudge_step:
  assumes "nudge t rd a st = Inr st'" and "dn_next rd = Inr ms"
  shows "ds_nudges st' = ds_nudges st + 1" and "ds_watermark st' = length ms"
  using assms by (auto simp: nudge_def result_simps)

lemma drive_loop_end:
  assumes "drive_loop rp phase sid baseline rounds k st = Some (Inr r)"
  shows "\<exists>n st'. drive_step rp phase sid baseline (rounds n) st' = Inr (Inl r)"
proof -
  have "\<And>r. x = Inr r \<Longrightarrow> \<exists>n st'. drive_step rp phase sid baseline (rounds n) st' = Inr (Inl r)"
    if "drive_loop rp phase sid baseline rounds k st = Some x" for x
    using that
  proof (induction rule: drive_loop.raw_induct [rotated, consumes 1, case_names step])
    case (step rec rp phase sid baseline rounds k st x)
    show ?case
    proof (cases "drive_step rp phase sid baseline (rounds k) st")
      case (Inr out)
      with step show ?thesis by (cases out) auto
    qed (use step in auto)
  qed
  with assms show ?thesis by blast
qed

lemma run_opencode_serve_end:
  assumes "run_opencode_serve rp phase sid env = Some (Inr r)"
  obtains baseline n st where "catch_client (read_metrics rp (de_baseline env) 0) = Inr baseline"
    and "drive_step rp phase sid baseline (de_round env n) st = Inr (Inl r)"
proof -
  from assms obtain baseline ms where "catch_client (read_metrics rp (de_baseline env) 0) = Inr baseline"
    and "drive_loop rp phase sid baseline (de_round env) 0 (drive_start ms) = Some (Inr r)"
    by (auto simp: run_opencode_serve_def split: sum.split_asm)
  with drive_loop_end [of rp phase sid baseline "de_round env" 0 "drive_start ms" r] that show ?thesis by blast
qed

section \<open>Metering\<close>

definition whole_facts :: "message_facts \<Rightarrow> bool" where
  "whole_facts f \<longleftrightarrow> mf_input f \<in> \<int> \<and> mf_output f \<in> \<int> \<and> mf_reasoning f \<in> \<int>"

text \<open>A transcript whose token counts are whole numbers.\<close>

definition whole_tokens :: "(pyval \<Rightarrow> string) \<Rightarrow> pyval list \<Rightarrow> bool" where
  "whole_tokens rp ms \<longleftrightarrow> (\<forall>fs. map_result (facts_of_message rp) (message_dicts ms) = Inr fs \<longrightarrow> list_all whole_facts fs)"

lemma trunc_whole: "x \<in> \<int> \<Longrightarrow> of_int (trunc_real x) = (x::real)"
  by (elim Ints_cases) simp

lemma whole_sums:
  assumes "list_all whole_facts fs"
  shows "sm_output_tokens (metrics_of fs) \<in> \<int>" "sm_reasoning_tokens (metrics_of fs) \<in> \<int>"
    "sm_input_tokens (metrics_of fs) \<in> \<int>"
proof -
  have "foldl max a (map mf_input gs) \<in> \<int>" if "a \<in> \<int>" "list_all whole_facts gs" for a gs
    using that by (induction gs arbitrary: a) (auto simp: whole_facts_def max_def)
  with assms show "sm_input_tokens (metrics_of fs) \<in> \<int>" by (simp add: metrics_of_def Let_def)
  show "sm_output_tokens (metrics_of fs) \<in> \<int>" "sm_reasoning_tokens (metrics_of fs) \<in> \<int>"
    using assms by (induction fs) (auto simp: metrics_of_def Let_def whole_facts_def)
qed

lemma delta_whole:
  assumes "f b \<in> \<int>" and "f m \<in> \<int>"
  shows "of_int (delta_tokens f (Some b) m) = f m - f b"
  using assms by (simp add: delta_tokens_def delta_def trunc_whole)

lemma finish_phase_sel [simp]:
  "rs_input_tokens (finish_phase phase sid b killed ec lost m st) = delta_tokens sm_input_tokens b m"
  "rs_output_tokens (finish_phase phase sid b killed ec lost m st) = delta_tokens sm_output_tokens b m"
  "rs_reasoning_tokens (finish_phase phase sid b killed ec lost m st) = delta_tokens sm_reasoning_tokens b m"
  "rs_turns (finish_phase phase sid b killed ec lost m st)
     = max 0 (delta sm_turns b m - delta sm_guard_aborted_turns b m - delta sm_finalize_timeouts b m)"
  "rs_cost_usd (finish_phase phase sid b killed ec lost m st)
     = sm_cost_usd m - (case b of None \<Rightarrow> 0 | Some b \<Rightarrow> sm_cost_usd b)"
  "rs_truncations (finish_phase phase sid b killed ec lost m st) = delta sm_truncations b m"
  "ss_recovery_nudges (finish_phase phase sid b killed ec lost m st) = ds_nudges st"
  "ss_guard_aborted_turns (finish_phase phase sid b killed ec lost m st) = delta sm_guard_aborted_turns b m"
  "ss_finalize_timeout_turns (finish_phase phase sid b killed ec lost m st) = delta sm_finalize_timeouts b m"
  "ss_observation_lost_turns (finish_phase phase sid b killed ec lost m st) = (if lost then 1 else 0)"
  by (simp_all add: finish_phase_def Let_def run_stats.defs serve_stats.defs)

lemma failed_phase_sel [simp]:
  "rs_input_tokens (failed_phase sid st) = 0" "rs_output_tokens (failed_phase sid st) = 0"
  "rs_turns (failed_phase sid st) = 0" "rs_cost_usd (failed_phase sid st) = 0"
  "rs_exit_code (failed_phase sid st) = Some 1" "ss_recovery_nudges (failed_phase sid st) = ds_nudges st"
  by (simp_all add: failed_phase_def stats_of_def run_stats.defs serve_stats.defs)

lemma scored_turns:
  assumes "map_result (facts_of_message rp) ds = Inr fs"
  shows "0 \<le> sm_turns (metrics_of fs) - sm_guard_aborted_turns (metrics_of fs) - sm_finalize_timeouts (metrics_of fs)"
  using killed_turns_bounded [OF assms] by (simp add: metrics_of_def Let_def)


section \<open>Recovery\<close>

text \<open>A message with a text in which the relay says that it killed the turn.\<close>

definition killed_message :: "(pyval \<Rightarrow> string) \<Rightarrow> pydict \<Rightarrow> bool" where
  "killed_message rp d \<longleftrightarrow> (case facts_of_message rp d of
     Inr f \<Rightarrow> list_ex (\<lambda>t. has_loop_guard_text t \<or> has_finalize_text t) (mf_texts f) | Inl _ \<Rightarrow> False)"

definition kills :: "(pyval \<Rightarrow> string) \<Rightarrow> pyval list \<Rightarrow> nat" where
  "kills rp ms = count_if (killed_message rp) (message_dicts ms)"

lemma kills_append [simp]: "kills rp (xs @ ys) = kills rp xs + kills rp ys"
  by (simp add: kills_def message_dicts_append count_if_append)

lemma classify_error_texts_Some:
  "classify_error_texts ts = Some c \<Longrightarrow> \<exists>t \<in> set ts. has_loop_guard_text t \<or> has_finalize_text t"
  by (induction ts) (auto split: if_split_asm)

lemma recoverable_has_kill:
  assumes "classify_transport_anomaly w = Some (t, reason)" and "recoverable (mapped_terminal t) reason"
  shows "\<exists>x \<in> set (sm_error_texts w). has_loop_guard_text x \<or> has_finalize_text x"
  using assms classify_error_texts_Some [of "sm_error_texts w"]
  by (auto simp: classify_transport_anomaly_def recoverable_def mapped_terminal_def
      split: option.split_asm if_split_asm)

lemma map_result_mem:
  "map_result f xs = Inr ys \<Longrightarrow> y \<in> set ys \<Longrightarrow> \<exists>x \<in> set xs. f x = Inr y"
  by (induction xs arbitrary: ys) (auto simp: result_simps)

lemma window_has_kill:
  assumes "extract_transcript_metrics rp ms = Inr w" and "x \<in> set (sm_error_texts w)"
    and "has_loop_guard_text x \<or> has_finalize_text x"
  shows "1 \<le> kills rp ms"
proof -
  from assms(1) obtain fs where fs: "map_result (facts_of_message rp) (message_dicts ms) = Inr fs"
    and w: "w = metrics_of fs" by (auto simp: extract_transcript_metrics_def result_simps)
  from assms(2) have "x \<in> set (concat (map mf_texts fs))"
    by (auto simp: w metrics_of_def Let_def dest: in_set_takeD)
  then obtain f where "f \<in> set fs" "x \<in> set (mf_texts f)" by auto
  moreover from map_result_mem [OF fs this(1)] obtain d where "d \<in> set (message_dicts ms)"
    "facts_of_message rp d = Inr f" by blast
  ultimately have "d \<in> set (message_dicts ms) \<and> killed_message rp d"
    using assms(3) by (auto simp: killed_message_def list_ex_iff)
  then have "filter (killed_message rp) (message_dicts ms) \<noteq> []" by (auto simp: filter_empty_conv)
  then show ?thesis by (simp add: kills_def count_if_def Suc_le_eq)
qed

text \<open>A drive over a transcript that only grows: \<open>start\<close> when the window is first set, \<open>seen k\<close> when round
  \<open>k\<close> is classified, \<open>later k\<close> when its window is moved.\<close>

definition growing :: "drive_env \<Rightarrow> pyval list \<Rightarrow> (nat \<Rightarrow> pyval list) \<Rightarrow> (nat \<Rightarrow> pyval list) \<Rightarrow> bool" where
  "growing env start seen later \<longleftrightarrow>
     de_watermark env = Inr start \<and> prefix start (seen 0)
     \<and> (\<forall>k. dn_read_window (de_round env k) = Inr (seen k) \<and> dn_next (de_round env k) = Inr (later k)
            \<and> prefix (seen k) (later k) \<and> prefix (later k) (seen (Suc k)))"

text \<open>The kills nudged so far lie in front of the window.\<close>

definition window_inv :: "(pyval \<Rightarrow> string) \<Rightarrow> pyval list \<Rightarrow> pyval list \<Rightarrow> drive_state \<Rightarrow> bool" where
  "window_inv rp start ms st \<longleftrightarrow>
     length start \<le> ds_watermark st \<and> ds_watermark st \<le> length ms
     \<and> ds_nudges st \<le> int (kills rp (drop (length start) (take (ds_watermark st) ms)))"

lemma kills_split:
  assumes "n \<le> w" and "w \<le> length ms"
  shows "kills rp (drop n ms) = kills rp (drop n (take w ms)) + kills rp (drop w ms)"
proof -
  have "drop n ms = drop n (take w ms @ drop w ms)" by simp
  also have "\<dots> = drop n (take w ms) @ drop w ms" using assms by (simp del: append_take_drop_id)
  finally show ?thesis by (metis kills_append)
qed

lemma window_inv_bound:
  assumes "window_inv rp start ms st"
  shows "ds_nudges st \<le> int (kills rp (drop (length start) ms))"
  using assms kills_split [of "length start" "ds_watermark st" ms rp] by (auto simp: window_inv_def)

lemma window_step:
  assumes "growing env start seen later" and "window_inv rp start (seen k) st"
    and "drive_step rp phase sid baseline (de_round env k) st = Inr (Inr st')"
  shows "window_inv rp start (seen (Suc k)) st'" and "ds_nudges st' = ds_nudges st + 1"
    and "ds_nudges st' \<le> int (kills rp (drop (length start) (seen k)))"
proof -
  from assms(1) have reads: "dn_read_window (de_round env k) = Inr (seen k)" "dn_next (de_round env k) = Inr (later k)"
    and grows: "prefix (seen k) (later k)" "prefix (later k) (seen (Suc k))" by (auto simp: growing_def)
  from assms(3) obtain m w t reason a where obs: "observe rp (de_round env k) (ds_watermark st) = Inr (Some (m, w))"
    and c: "classify_transport_anomaly w = Some (t, reason)" "recoverable (mapped_terminal t) reason"
    and n: "nudge (mapped_terminal t) (de_round env k) a st = Inr st'" and "\<not> ta_tokens_unmetered a"
    by (rule drive_step_again)
  from obs have "extract_transcript_metrics rp (drop (ds_watermark st) (seen k)) = Inr w"
    by (auto simp: observe_def reads read_metrics_def result_simps split: sum.split_asm)
  with recoverable_has_kill [OF c] have one: "1 \<le> kills rp (drop (ds_watermark st) (seen k))"
    by (auto dest: window_has_kill)
  from nudge_step [OF n reads(2)] have st': "ds_nudges st' = ds_nudges st + 1" "ds_watermark st' = length (later k)" .
  then show "ds_nudges st' = ds_nudges st + 1" by simp
  from assms(2) one kills_split [of "length start" "ds_watermark st" "seen k" rp]
  show bound: "ds_nudges st' \<le> int (kills rp (drop (length start) (seen k)))"
    by (auto simp: window_inv_def st')
  from grows obtain zs where zs: "later k = seen k @ zs" by (auto simp: prefix_def)
  from grows(2) have "take (length (later k)) (seen (Suc k)) = later k" by (auto simp: prefix_def)
  moreover have "length start \<le> length (seen k)" using assms(2) by (simp add: window_inv_def)
  ultimately show "window_inv rp start (seen (Suc k)) st'"
    using bound prefix_length_le [OF grows(2)] prefix_length_le [OF grows(1)]
    by (simp add: window_inv_def st' zs)
qed

lemma window_inv_start:
  assumes "growing env start seen later"
  shows "window_inv rp start (seen 0) (drive_start (Some start))"
  using assms prefix_length_le [of start "seen 0"] by (simp add: growing_def window_inv_def drive_start_def)

lemma drive_loop_nudges:
  assumes "growing env start seen later" and "window_inv rp start (seen k) st"
    and "drive_loop rp phase sid baseline (de_round env) k st = Some (Inr r)"
  shows "\<exists>n. ss_recovery_nudges r \<le> int (kills rp (drop (length start) (seen n)))"
proof -
  have "\<And>r. rounds = de_round env \<Longrightarrow> window_inv rp start (seen k) st \<Longrightarrow> x = Inr r \<Longrightarrow>
      \<exists>n. ss_recovery_nudges r \<le> int (kills rp (drop (length start) (seen n)))"
    if "drive_loop rp phase sid baseline rounds k st = Some x" for rounds k st x
    using that
  proof (induction rule: drive_loop.raw_induct [rotated, consumes 1, case_names step])
    case (step rec rp phase sid baseline rounds k st x)
    show ?case
    proof (cases "drive_step rp phase sid baseline (rounds k) st")
      case (Inr out)
      show ?thesis
      proof (cases out)
        case (Inl r')
        with Inr step have "r = r'" by simp
        with Inr Inl drive_step_done [of rp phase sid baseline "rounds k" st r]
        have "ss_recovery_nudges r = ds_nudges st" by auto
        with window_inv_bound [OF step(4)] show ?thesis by auto
      next
        case (Inr st')
        with \<open>drive_step rp phase sid baseline (rounds k) st = Inr out\<close> step(3)
        have s: "drive_step rp phase sid baseline (de_round env k) st = Inr (Inr st')" by simp
        then have "rec rp phase sid baseline rounds (Suc k) st' = Some x" using step(2,3) by simp
        from step(1) [OF this step(3) window_step(1) [OF assms(1) step(4) s] step(5)] show ?thesis .
      qed
    qed (use step in auto)
  qed
  with assms(2,3) show ?thesis by blast
qed

text \<open>No kill is nudged twice: over a transcript that only grows, a phase fires at most as many
  recovery nudges as messages of the relay's kills were added since its window was set, although
  a kill stays in the transcript for ever.\<close>

theorem nudges_are_backed_by_kills:
  assumes "growing env start seen later"
    and "run_opencode_serve rp phase sid env = Some (Inr r)"
  shows "\<exists>n. ss_recovery_nudges r \<le> int (kills rp (drop (length start) (seen n)))"
proof -
  from assms(1) have "de_watermark env = Inr start" by (simp add: growing_def)
  with assms(2) obtain baseline where
    "drive_loop rp phase sid baseline (de_round env) 0 (drive_start (Some start)) = Some (Inr r)"
    by (auto simp: run_opencode_serve_def split: sum.split_asm)
  from drive_loop_nudges [OF assms(1) window_inv_start [OF assms(1)] this] show ?thesis .
qed

lemma drive_loop_returns:
  assumes "growing env start seen later" and "\<forall>k. kills rp (drop (length start) (seen k)) \<le> bound"
    and "window_inv rp start (seen k) st"
  shows "drive_loop rp phase sid baseline (de_round env) k st \<noteq> None"
  using assms(3)
proof (induction "nat (int bound - ds_nudges st)" arbitrary: k st rule: less_induct)
  case less
  show ?case
  proof (cases "drive_step rp phase sid baseline (de_round env k) st")
    case (Inr out)
    show ?thesis
    proof (cases out)
      case (Inr st')
      with \<open>drive_step rp phase sid baseline (de_round env k) st = Inr out\<close>
      have s: "drive_step rp phase sid baseline (de_round env k) st = Inr (Inr st')" by simp
      note moved = window_step [OF assms(1) less.prems s]
      from moved(3) assms(2) have "ds_nudges st' \<le> int bound" by (meson int_ops(1) of_nat_mono order_trans)
      with moved(2) have "nat (int bound - ds_nudges st') < nat (int bound - ds_nudges st)" by simp
      from less.hyps [OF this moved(1)] show ?thesis by (subst drive_loop.simps) (simp add: s)
    qed (use Inr in \<open>subst drive_loop.simps, simp\<close>)
  qed (subst drive_loop.simps, simp)
qed

text \<open>C28. Unbounded nudging ends with the kills: over a growing transcript in which the relay kills a
  bounded number of turns, the phase returns or raises.\<close>

theorem drive_returns_when_kills_stop:
  assumes "growing env start seen later" and "\<forall>k. kills rp (drop (length start) (seen k)) \<le> bound"
  shows "run_opencode_serve rp phase sid env \<noteq> None"
proof -
  from assms(1) have "de_watermark env = Inr start" by (simp add: growing_def)
  then show ?thesis
    using drive_loop_returns [OF assms window_inv_start [OF assms(1)]]
    by (auto simp: run_opencode_serve_def split: sum.split)
qed

section \<open>What a failed recovery loses\<close>

text \<open>A nudge that cannot be delivered drops the phase: when the relay killed the turn and the
  nudge is not sent, the phase reports no tokens, no cost and no turn, whatever the killed turn
  used; its record stays, and says that the tokens were metered.\<close>

theorem undelivered_nudge_drops_the_phase:
  assumes "de_watermark env = Inr ws" and "catch_client (read_metrics rp (de_baseline env) 0) = Inr baseline"
    and "drive_step rp phase sid baseline (de_round env 0) (drive_start (Some ws)) = Inr (Inr st)"
    and "\<not> dn_sent (de_round env 1)"
  shows "\<exists>r a. run_opencode_serve rp phase sid env = Some (Inr r)
     \<and> rs_output_tokens r = 0 \<and> rs_input_tokens r = 0 \<and> rs_cost_usd r = 0 \<and> rs_turns r = 0
     \<and> rs_exit_code r = Some 1 \<and> ss_recovery_nudges r = 1
     \<and> rs_turn_anomalies r = [a] \<and> \<not> ta_tokens_unmetered a"
proof -
  from assms(3) obtain m w t reason a where "observe rp (de_round env 0) (ds_watermark (drive_start (Some ws))) = Inr (Some (m, w))"
    and "classify_transport_anomaly w = Some (t, reason)" and "recoverable (mapped_terminal t) reason"
    and n: "nudge (mapped_terminal t) (de_round env 0) a (drive_start (Some ws)) = Inr st"
    and un: "\<not> ta_tokens_unmetered a" by (rule drive_step_again)
  from n have st: "ds_nudges st = 1" "ds_anomalies st = [a\<lparr>ta_retried := True, ta_retry_kind := Some ''harness_resume''\<rparr>]"
    by (auto simp: nudge_def drive_start_def result_simps)
  have "run_opencode_serve rp phase sid env = Some (Inr (failed_phase sid st))"
    using assms by (simp add: run_opencode_serve_def drive_step_def drive_loop.simps)
  then show ?thesis
    by (simp add: st un failed_phase_def stats_of_def run_stats.defs serve_stats.defs)
qed

section \<open>Concrete drives\<close>

definition sample_ask :: pyval where
  "sample_ask = PDict [(''info'', PDict [(''role'', PStr ''user'')])]"

definition sample_answer :: pyval where
  "sample_answer = PDict [(''info'', PDict [(''role'', PStr ''assistant''),
     (''tokens'', PDict [(''input'', PInt 7), (''output'', PInt 5)])])]"

definition sample_killed :: pyval where
  "sample_killed = PDict [(''info'', PDict [(''role'', PStr ''assistant''),
     (''tokens'', PDict [(''input'', PInt 6), (''output'', PInt 4)]),
     (''error'', PDict [(''message'', PStr ''generation loop detected'')])])]"

definition sample_facts :: message_facts where
  "sample_facts =
     \<lparr>mf_assistant = False, mf_user = True, mf_real = False, mf_info_error = False, mf_guard_aborted = False,
      mf_finalize_timeout = False, mf_reasons = [], mf_error_parts = 0, mf_texts = [], mf_input = 0,
      mf_output = 0, mf_reasoning = 0, mf_cost = 0\<rparr>"

lemmas message_defs = message_info_def message_role_def message_parts_def is_assistant_def message_error_def
  message_tokens_def sub_dict_def as_list_def val_or_def amount_def

lemma sample_text:
  "strip ''generation loop detected'' = ''generation loop detected''"
  "lower ''generation loop detected'' = ''generation loop detected''"
  "contains ''generation loop detected'' ''generation loop detected''"
  by code_simp+

lemma facts_of_samples:
  "facts_of_message rp (dict_or_empty sample_ask) = Inr sample_facts"
  "facts_of_message rp (dict_or_empty sample_answer) = Inr (sample_facts
     \<lparr>mf_assistant := True, mf_user := False, mf_real := True, mf_input := 7, mf_output := 5\<rparr>)"
  "facts_of_message rp (dict_or_empty sample_killed) = Inr (sample_facts
     \<lparr>mf_assistant := True, mf_user := False, mf_real := True, mf_input := 6, mf_output := 4,
      mf_info_error := True, mf_guard_aborted := True, mf_texts := [''generation loop detected'']\<rparr>)"
  by (simp_all add: facts_of_message_def sample_ask_def sample_answer_def sample_killed_def sample_facts_def
      message_defs is_real_assistant_turn_def error_text_def captured_text_def has_loop_guard_text_def
      LOOP_GUARD_SIGNATURES_def sample_text MAX_ERROR_TEXT_CHARS_def Let_def)

lemma sample_dicts [simp]: "is_dict sample_ask" "is_dict sample_answer" "is_dict sample_killed"
  by (simp_all add: sample_ask_def sample_answer_def sample_killed_def)

lemma extract_samples:
  "extract_transcript_metrics rp [sample_ask] = Inr (metrics_of [sample_facts])"
  by (simp add: extract_transcript_metrics_def message_dicts_def facts_of_samples)

text \<open>\<open>ms k\<close> is the transcript in round \<open>k\<close>; \<open>sent\<close> says which prompts arrive.\<close>

definition sample_drive :: "(nat \<Rightarrow> pyval list) \<Rightarrow> (nat \<Rightarrow> bool) \<Rightarrow> drive_env" where
  "sample_drive ms sent =
     \<lparr>de_baseline = Inr [sample_ask], de_watermark = Inr [sample_ask],
      de_round = (\<lambda>k. \<lparr>dn_sent = sent k, dn_went_busy = Inr True, dn_early = Inr [], dn_idle = Inr True,
        dn_read = Inr (ms k), dn_read_window = Inr (ms k), dn_next = Inr (ms k)\<rparr>)\<rparr>"

lemma sample_drive_sel [simp]:
  "de_baseline (sample_drive ms sent) = Inr [sample_ask]" "de_watermark (sample_drive ms sent) = Inr [sample_ask]"
  "dn_sent (de_round (sample_drive ms sent) k) = sent k"
  "dn_went_busy (de_round (sample_drive ms sent) k) = Inr True" "dn_idle (de_round (sample_drive ms sent) k) = Inr True"
  "dn_read (de_round (sample_drive ms sent) k) = Inr (ms k)"
  "dn_read_window (de_round (sample_drive ms sent) k) = Inr (ms k)"
  "dn_next (de_round (sample_drive ms sent) k) = Inr (ms k)"
  by (simp_all add: sample_drive_def)

lemma sample_baseline:
  "catch_client (read_metrics rp (de_baseline (sample_drive ms sent)) 0) = Inr (Some (metrics_of [sample_facts]))"
  by (simp add: read_metrics_def extract_samples message_dicts_def)

lemma sample_round:
  assumes "sent k"
  shows "drive_step rp phase sid b (de_round (sample_drive ms sent) k) st
     = after_wait rp phase sid b (de_round (sample_drive ms sent) k) True st"
  using assms by (simp add: drive_step_def wait_for_turn_def)

lemma sample_answered:
  assumes "sent k" and "ms k = [sample_ask, sample_answer] \<and> ds_watermark st = 1
    \<or> ms k = [sample_ask, sample_killed, sample_answer] \<and> ds_watermark st = 2"
  shows "\<exists>r. drive_step rp phase sid b (de_round (sample_drive ms sent) k) st = Inr (Inl r)"
  using assms
  by (auto simp: sample_round after_wait_def observe_def read_metrics_def extract_transcript_metrics_def
      message_dicts_def facts_of_samples metrics_of_def sample_facts_def classify_transport_anomaly_def Let_def)

lemma sample_kill:
  assumes "sent k" and "ms k = [sample_ask, sample_killed]" and "ds_watermark st = 1"
  shows "\<exists>st'. drive_step rp phase sid b (de_round (sample_drive ms sent) k) st = Inr (Inr st')
     \<and> ds_watermark st' = 2"
  using assms
  by (simp add: sample_round after_wait_def observe_def read_metrics_def extract_transcript_metrics_def
      message_dicts_def facts_of_samples metrics_of_def sample_facts_def classify_transport_anomaly_def
      has_loop_guard_text_def LOOP_GUARD_SIGNATURES_def sample_text MAX_ERROR_TEXTS_def mapped_terminal_def
      recoverable_def nudge_def Let_def)


definition sample_seen :: "nat \<Rightarrow> pyval list" where
  "sample_seen k = (if k = 0 then [sample_ask, sample_killed] else [sample_ask, sample_killed, sample_answer])"

lemma sample_growing: "growing (sample_drive sample_seen sent) [sample_ask] sample_seen sample_seen"
  by (simp add: growing_def sample_seen_def)

lemma sample_kills: "kills rp (drop (length [sample_ask]) (sample_seen k)) \<le> 1"
  by (simp add: kills_def sample_seen_def message_dicts_def killed_message_def facts_of_samples sample_facts_def count_if_def)

theorem nudges_are_backed_by_kills_witness:
  "\<exists>r. run_opencode_serve (\<lambda>_. []) ''initial'' ''s'' (sample_drive sample_seen (\<lambda>_. True)) = Some (Inr r)
     \<and> ss_recovery_nudges r \<le> 1"
proof -
  let ?b = "Some (metrics_of [sample_facts])" and ?env = "sample_drive sample_seen (\<lambda>_. True)"
  obtain st where one: "drive_step (\<lambda>_. []) ''initial'' ''s'' ?b (de_round ?env 0) (drive_start (Some [sample_ask]))
      = Inr (Inr st)" "ds_watermark st = 2"
    using sample_kill [of "\<lambda>_. True" 0 sample_seen "drive_start (Some [sample_ask])" "\<lambda>_. []" "''initial''" "''s''" ?b]
    by (auto simp: drive_start_def sample_seen_def)
  obtain r where "drive_step (\<lambda>_. []) ''initial'' ''s'' ?b (de_round ?env 1) st = Inr (Inl r)"
    using sample_answered [of "\<lambda>_. True" 1 sample_seen st "\<lambda>_. []" "''initial''" "''s''" ?b] one(2)
    by (auto simp: sample_seen_def)
  then have run: "run_opencode_serve (\<lambda>_. []) ''initial'' ''s'' ?env = Some (Inr r)"
    unfolding run_opencode_serve_def sample_baseline using one(1) by (simp add: drive_loop.simps)
  from nudges_are_backed_by_kills [OF sample_growing run] sample_kills obtain n where
    "ss_recovery_nudges r \<le> int (kills (\<lambda>_. []) (drop (length [sample_ask]) (sample_seen n)))" by blast
  with sample_kills [of "\<lambda>_. []" n] run show ?thesis by fastforce
qed

theorem drive_returns_when_kills_stop_witness:
  "run_opencode_serve (\<lambda>_. []) ''initial'' ''s'' (sample_drive sample_seen (\<lambda>_. True)) \<noteq> None"
  using drive_returns_when_kills_stop [where bound = 1, OF sample_growing] sample_kills by blast

theorem undelivered_nudge_drops_the_phase_witness:
  "\<exists>r. run_opencode_serve (\<lambda>_. []) ''initial'' ''s'' (sample_drive sample_seen (\<lambda>k. k = 0)) = Some (Inr r)
     \<and> rs_output_tokens r = 0 \<and> ss_recovery_nudges r = 1"
proof -
  let ?b = "Some (metrics_of [sample_facts])" and ?env = "sample_drive sample_seen (\<lambda>k. k = 0)"
  obtain st where one: "drive_step (\<lambda>_. []) ''initial'' ''s'' ?b (de_round ?env 0) (drive_start (Some [sample_ask]))
      = Inr (Inr st)"
    using sample_kill [of "\<lambda>k. k = 0" 0 sample_seen "drive_start (Some [sample_ask])" "\<lambda>_. []" "''initial''" "''s''" ?b]
    by (auto simp: drive_start_def sample_seen_def)
  have ws: "de_watermark ?env = Inr [sample_ask]" and un: "\<not> dn_sent (de_round ?env 1)" by simp_all
  from undelivered_nudge_drops_the_phase [OF ws sample_baseline one un] show ?thesis by blast
qed

end
