(* ===== verification/Serve_Chunks.thy ===== *)
theory Serve_Chunks
  imports Serve_Drive
begin

text \<open>
  The chunked first pass over the serve and the compaction between chunks and attempts:
  \<open>_run_opencode_serve_chunked\<close>, \<open>_await_chunk_compaction\<close>, \<open>_fire_backstop_summarize\<close> and
  \<open>_compact_attempt_boundary\<close> of \<open>wevibe_bench/adapters/backgammon.py\<close>.  The drives of a chunk, each
  one a phase of \<open>Serve_Drive\<close> that returned, are the environment.
\<close>

section \<open>The chunks\<close>

definition CHUNK_MARKER :: string where
  "CHUNK_MARKER = ''CHUNK FINISHED''"

text \<open>The drive of chunk \<open>i\<close> (\<open>0\<close>) and of its \<open>n\<close>-th marker nudge (\<open>n\<close>), the transcript its window starts
  after, the transcript searched after \<open>n\<close> nudges, and the outcome of the compaction.\<close>

record chunk_env =
  ck_drive :: "nat \<Rightarrow> nat \<Rightarrow> serve_error + serve_stats"
  ck_before :: "nat \<Rightarrow> serve_error + pyval list"
  ck_after :: "nat \<Rightarrow> nat \<Rightarrow> serve_error + pyval list"
  ck_compaction :: "nat \<Rightarrow> serve_error + string"
  ck_compact_enabled :: bool

record chunk_report =
  kr_chunk :: nat
  kr_nudges :: nat
  kr_marker :: bool
  kr_compaction :: "string option"
  kr_recovery_nudges :: int
  kr_guard_aborted_turns :: int
  kr_finalize_timeout_turns :: int

record chunked =
  ch_input :: int
  ch_output :: int
  ch_reasoning :: int
  ch_turns :: int
  ch_cost :: real
  ch_truncations :: int
  ch_recovery_nudges :: int
  ch_guard_aborted :: int
  ch_finalize_timeouts :: int
  ch_observation_lost :: int
  ch_anomalies :: "turn_anomaly list"
  ch_reports :: "chunk_report list"

definition chunked_start :: chunked where
  "chunked_start = \<lparr>ch_input = 0, ch_output = 0, ch_reasoning = 0, ch_turns = 0, ch_cost = 0, ch_truncations = 0,
     ch_recovery_nudges = 0, ch_guard_aborted = 0, ch_finalize_timeouts = 0, ch_observation_lost = 0,
     ch_anomalies = [], ch_reports = []\<rparr>"

text \<open>\<open>_drive\<close>: what one phase adds to the sums.\<close>

definition add_drive :: "serve_stats \<Rightarrow> chunked \<Rightarrow> chunked" where
  "add_drive r c = c
     \<lparr>ch_input := ch_input c + rs_input_tokens r, ch_output := ch_output c + rs_output_tokens r,
      ch_reasoning := ch_reasoning c + rs_reasoning_tokens r, ch_turns := ch_turns c + rs_turns r,
      ch_cost := ch_cost c + rs_cost_usd r, ch_truncations := ch_truncations c + rs_truncations r,
      ch_recovery_nudges := ch_recovery_nudges c + ss_recovery_nudges r,
      ch_guard_aborted := ch_guard_aborted c + ss_guard_aborted_turns r,
      ch_finalize_timeouts := ch_finalize_timeouts c + ss_finalize_timeout_turns r,
      ch_observation_lost := ch_observation_lost c + ss_observation_lost_turns r,
      ch_anomalies := ch_anomalies c @ rs_turn_anomalies r\<rparr>"

text \<open>\<open>_aggregate\<close>\<close>

definition aggregate :: "string \<Rightarrow> int option \<Rightarrow> string option \<Rightarrow> chunked \<Rightarrow> serve_stats" where
  "aggregate session_id exit_code killed c =
     run_stats.extend
       ((stats_of session_id 0 killed (ch_anomalies c))
          \<lparr>rs_exit_code := exit_code, rs_input_tokens := ch_input c, rs_output_tokens := ch_output c,
           rs_reasoning_tokens := ch_reasoning c, rs_turns := ch_turns c, rs_cost_usd := ch_cost c,
           rs_truncations := ch_truncations c\<rparr>)
       (serve_stats.fields (ch_recovery_nudges c) (ch_guard_aborted c) (ch_finalize_timeouts c)
          (ch_observation_lost c))"

definition on_report :: "(chunk_report \<Rightarrow> chunk_report) \<Rightarrow> chunked \<Rightarrow> chunked" where
  "on_report f c = c\<lparr>ch_reports := butlast (ch_reports c) @ [f (last (ch_reports c))]\<rparr>"

definition report_of_drive :: "nat \<Rightarrow> serve_stats \<Rightarrow> chunk_report" where
  "report_of_drive i r =
     \<lparr>kr_chunk = i, kr_nudges = 0, kr_marker = False, kr_compaction = None,
      kr_recovery_nudges = ss_recovery_nudges r, kr_guard_aborted_turns = ss_guard_aborted_turns r,
      kr_finalize_timeout_turns = ss_finalize_timeout_turns r\<rparr>"

definition report_nudge :: "serve_stats \<Rightarrow> chunk_report \<Rightarrow> chunk_report" where
  "report_nudge r k = k
     \<lparr>kr_nudges := kr_nudges k + 1, kr_recovery_nudges := kr_recovery_nudges k + ss_recovery_nudges r,
      kr_guard_aborted_turns := kr_guard_aborted_turns k + ss_guard_aborted_turns r,
      kr_finalize_timeout_turns := kr_finalize_timeout_turns k + ss_finalize_timeout_turns r\<rparr>"

definition marker_seen :: "(pyval \<Rightarrow> string) \<Rightarrow> pyval list \<Rightarrow> nat \<Rightarrow> bool" where
  "marker_seen rp ms watermark \<longleftrightarrow> list_ex (\<lambda>t. contains t CHUNK_MARKER) (assistant_texts_since rp ms watermark)"

text \<open>The nudges of a chunk, without bound; the second component is the drive that failed.\<close>

partial_function (option) marker_loop ::
  "(pyval \<Rightarrow> string) \<Rightarrow> chunk_env \<Rightarrow> nat \<Rightarrow> nat \<Rightarrow> nat \<Rightarrow> chunked
     \<Rightarrow> (serve_error + chunked \<times> serve_stats option) option" where
  "marker_loop rp env i watermark n c =
     (case ck_after env i n of
        Inl e \<Rightarrow> Some (Inl e)
      | Inr ms \<Rightarrow>
          if marker_seen rp ms watermark then Some (Inr (on_report (\<lambda>k. k\<lparr>kr_marker := True\<rparr>) c, None))
          else (case ck_drive env i (Suc n) of
                  Inl e \<Rightarrow> Some (Inl e)
                | Inr r \<Rightarrow>
                    let c = on_report (report_nudge r) (add_drive r c)
                    in if rs_exit_code r \<noteq> Some 0 then Some (Inr (c, Some r))
                       else marker_loop rp env i watermark (Suc n) c))"

definition run_chunk ::
  "(pyval \<Rightarrow> string) \<Rightarrow> chunk_env \<Rightarrow> nat \<Rightarrow> chunked \<Rightarrow> (serve_error + chunked \<times> serve_stats option) option" where
  "run_chunk rp env i c =
     (case ck_before env i of
        Inl e \<Rightarrow> Some (Inl e)
      | Inr before \<Rightarrow>
          (case ck_drive env i 0 of
             Inl e \<Rightarrow> Some (Inl e)
           | Inr r \<Rightarrow>
               let c = add_drive r c; c = c\<lparr>ch_reports := ch_reports c @ [report_of_drive i r]\<rparr>
               in if rs_exit_code r \<noteq> Some 0 then Some (Inr (c, Some r))
                  else marker_loop rp env i (length before) 0 c))"

definition compact_after :: "chunk_env \<Rightarrow> nat \<Rightarrow> nat \<Rightarrow> chunked \<Rightarrow> serve_error + chunked" where
  "compact_after env n_chunks i c =
     (if ck_compact_enabled env \<and> i < n_chunks
      then bind_result (ck_compaction env i) (\<lambda>o1. Inr (on_report (\<lambda>k. k\<lparr>kr_compaction := Some o1\<rparr>) c))
      else Inr c)"

fun run_chunks ::
  "(pyval \<Rightarrow> string) \<Rightarrow> string \<Rightarrow> chunk_env \<Rightarrow> nat \<Rightarrow> nat list \<Rightarrow> chunked \<Rightarrow> (serve_error + serve_stats) option" where
  "run_chunks rp sid env n_chunks [] c = Some (Inr (aggregate sid (Some 0) None c))"
| "run_chunks rp sid env n_chunks (i # is) c =
     (case run_chunk rp env i c of
        None \<Rightarrow> None
      | Some (Inl e) \<Rightarrow> Some (Inl e)
      | Some (Inr (c, Some r)) \<Rightarrow> Some (Inr (aggregate sid (rs_exit_code r) (rs_killed_reason r) c))
      | Some (Inr (c, None)) \<Rightarrow>
          (case compact_after env n_chunks i c of
             Inl e \<Rightarrow> Some (Inl e)
           | Inr c \<Rightarrow> run_chunks rp sid env n_chunks is c))"

definition run_opencode_serve_chunked ::
  "(pyval \<Rightarrow> string) \<Rightarrow> string \<Rightarrow> chunk_env \<Rightarrow> nat \<Rightarrow> (serve_error + serve_stats) option" where
  "run_opencode_serve_chunked rp sid env n_chunks = run_chunks rp sid env n_chunks [1 ..< Suc n_chunks] chunked_start"

section \<open>Compaction\<close>

text \<open>One turn of the watch: the clock at its condition, the two reads, and the clock after them.\<close>

record compaction_probe =
  cp_clock :: real
  cp_messages :: "serve_error + pyval list"
  cp_busy :: "serve_error + bool"
  cp_now :: real

text \<open>\<open>None\<close> is the break that leads to the backstop.\<close>

fun watch_compaction ::
  "real \<Rightarrow> real \<Rightarrow> nat \<Rightarrow> bool \<Rightarrow> real option \<Rightarrow> compaction_probe list \<Rightarrow> string option" where
  "watch_compaction grace limit watermark saw_busy idle_since [] = Some ''timeout''"
| "watch_compaction grace limit watermark saw_busy idle_since (p # ps) =
     (if limit \<le> cp_clock p then Some ''timeout''
      else case cp_messages p of
             Inl _ \<Rightarrow> Some ''probe_error''
           | Inr ms \<Rightarrow>
               if compaction_since ms watermark then Some ''self''
               else (case cp_busy p of
                       Inl _ \<Rightarrow> Some ''probe_error''
                     | Inr busy \<Rightarrow>
                         if busy then watch_compaction grace limit watermark True None ps
                         else let since = opt_or idle_since (cp_now p)
                              in if \<not> saw_busy \<and> grace \<le> cp_now p then None
                                 else if saw_busy \<and> 10 < cp_now p - since then Some ''no_evidence''
                                 else watch_compaction grace limit watermark saw_busy (Some since) ps))"

text \<open>What the backstop meets: the transcript that names the model, whether the summarise request
  fails, the first transcript after it, and the later ones with the clock, from the end of the request.\<close>

record backstop_env =
  be_model :: "serve_error + pyval list"
  be_summarize :: "py_exc option"
  be_first :: "serve_error + pyval list"
  be_confirm :: "(real \<times> (serve_error + pyval list)) list"

fun confirm_compaction :: "nat \<Rightarrow> (real \<times> (serve_error + pyval list)) list \<Rightarrow> serve_error + string" where
  "confirm_compaction watermark [] = Inr ''backstop_unconfirmed''"
| "confirm_compaction watermark ((now, ms) # later) =
     (if 30 \<le> now then Inr ''backstop_unconfirmed''
      else bind_result ms (\<lambda>ms. if compaction_since ms watermark then Inr ''backstop''
                                else confirm_compaction watermark later))"

definition fire_backstop_summarize ::
  "(pyval \<Rightarrow> string) \<Rightarrow> backstop_env \<Rightarrow> nat \<Rightarrow> serve_error + string" where
  "fire_backstop_summarize rp env watermark =
     bind_result (be_model env) (\<lambda>ms.
       case session_model rp ms of
         None \<Rightarrow> Inr ''skipped_no_model''
       | Some _ \<Rightarrow>
           if be_summarize env \<noteq> None then Inr ''backstop_error''
           else bind_result (be_first env) (\<lambda>ms.
                  if compaction_since ms watermark then Inr ''backstop''
                  else confirm_compaction watermark (be_confirm env)))"

definition await_chunk_compaction ::
  "(pyval \<Rightarrow> string) \<Rightarrow> real \<Rightarrow> real \<Rightarrow> nat \<Rightarrow> compaction_probe list \<Rightarrow> backstop_env \<Rightarrow> serve_error + string" where
  "await_chunk_compaction rp grace limit watermark probes env =
     (case watch_compaction grace limit watermark False None probes of
        Some outcome \<Rightarrow> Inr outcome
      | None \<Rightarrow> fire_backstop_summarize rp env watermark)"

definition compact_attempt_boundary ::
  "(pyval \<Rightarrow> string) \<Rightarrow> bool \<Rightarrow> bool \<Rightarrow> serve_error + pyval list \<Rightarrow> backstop_env \<Rightarrow> serve_error + string" where
  "compact_attempt_boundary rp enabled has_serve before env =
     (if \<not> enabled then Inr ''disabled''
      else if \<not> has_serve then Inr ''skipped_no_serve''
      else case before of
             Inl _ \<Rightarrow> Inr ''watermark_error''
           | Inr ms \<Rightarrow> fire_backstop_summarize rp env (length ms))"

section \<open>The first pass\<close>

lemma fold_add_drive:
  "ch_input (fold add_drive ds c) = ch_input c + sum_list (map rs_input_tokens ds)"
  "ch_output (fold add_drive ds c) = ch_output c + sum_list (map rs_output_tokens ds)"
  "ch_turns (fold add_drive ds c) = ch_turns c + sum_list (map rs_turns ds)"
  "ch_cost (fold add_drive ds c) = ch_cost c + sum_list (map rs_cost_usd ds)"
  "ch_anomalies (fold add_drive ds c) = ch_anomalies c @ concat (map rs_turn_anomalies ds)"
  by (induction ds arbitrary: c) (simp_all add: add_drive_def)

text \<open>The sums without the reports.\<close>

definition bare :: "chunked \<Rightarrow> chunked" where
  "bare c = c\<lparr>ch_reports := []\<rparr>"

lemma bare_ops [simp]:
  "bare (on_report f c) = bare c" "bare (add_drive r c) = add_drive r (bare c)"
  "bare (c\<lparr>ch_reports := rs\<rparr>) = bare c"
  by (simp_all add: bare_def on_report_def add_drive_def)

definition drive_of :: "chunk_env \<Rightarrow> nat \<Rightarrow> nat \<Rightarrow> serve_stats" where
  "drive_of env i k = projr (ck_drive env i k)"

text \<open>A chunk that went through: its drives up to the \<open>n\<close>-th nudge all ended well, and then the marker
  was there.\<close>

definition chunk_done :: "(pyval \<Rightarrow> string) \<Rightarrow> chunk_env \<Rightarrow> nat \<Rightarrow> nat \<Rightarrow> bool" where
  "chunk_done rp env i n \<longleftrightarrow>
     (\<exists>before ms. ck_before env i = Inr before \<and> ck_after env i n = Inr ms \<and> marker_seen rp ms (length before))
     \<and> (\<forall>k \<le> n. \<exists>r. ck_drive env i k = Inr r \<and> rs_exit_code r = Some 0)"

lemma marker_loop_done:
  assumes "marker_loop rp env i watermark n c = Some (Inr (c', None))"
  shows "\<exists>m \<ge> n. (\<exists>ms. ck_after env i m = Inr ms \<and> marker_seen rp ms watermark)
    \<and> (\<forall>k. n < k \<and> k \<le> m \<longrightarrow> (\<exists>r. ck_drive env i k = Inr r \<and> rs_exit_code r = Some 0))
    \<and> bare c' = fold add_drive (map (drive_of env i) [Suc n ..< Suc m]) (bare c)"
proof -
  have "\<And>c'. x = Inr (c', None) \<Longrightarrow> \<exists>m \<ge> n. (\<exists>ms. ck_after env i m = Inr ms \<and> marker_seen rp ms watermark)
    \<and> (\<forall>k. n < k \<and> k \<le> m \<longrightarrow> (\<exists>r. ck_drive env i k = Inr r \<and> rs_exit_code r = Some 0))
    \<and> bare c' = fold add_drive (map (drive_of env i) [Suc n ..< Suc m]) (bare c)"
    if "marker_loop rp env i watermark n c = Some x" for x
    using that
  proof (induction rule: marker_loop.raw_induct [rotated, consumes 1, case_names step])
    case (step rec rp env i watermark n c x c')
    from step(2,3) obtain ms where ms: "ck_after env i n = Inr ms" by (auto split: sum.split_asm)
    show ?case
    proof (cases "marker_seen rp ms watermark")
      case True
      with step(2,3) ms have "c' = on_report (\<lambda>k. k\<lparr>kr_marker := True\<rparr>) c" by simp
      with True ms show ?thesis by (intro exI [of _ n]) auto
    next
      case False
      with step(2,3) ms obtain r where r: "ck_drive env i (Suc n) = Inr r" by (auto split: sum.split_asm)
      with step(2,3) ms False have ok: "rs_exit_code r = Some 0"
        and rec: "rec rp env i watermark (Suc n) (on_report (report_nudge r) (add_drive r c)) = Some (Inr (c', None))"
        by (auto simp: Let_def split: if_split_asm)
      from step(1) [OF rec refl] obtain m where m: "Suc n \<le> m"
        "\<exists>ms. ck_after env i m = Inr ms \<and> marker_seen rp ms watermark"
        "\<forall>k. Suc n < k \<and> k \<le> m \<longrightarrow> (\<exists>r. ck_drive env i k = Inr r \<and> rs_exit_code r = Some 0)"
        "bare c' = fold add_drive (map (drive_of env i) [Suc (Suc n) ..< Suc m]) (add_drive r (bare c))" by auto
      have "\<exists>r. ck_drive env i k = Inr r \<and> rs_exit_code r = Some 0" if "n < k \<and> k \<le> m" for k
        using that m(3) r ok by (cases "k = Suc n") auto
      moreover have "[Suc n ..< Suc m] = Suc n # [Suc (Suc n) ..< Suc m]" using m(1) by (simp add: upt_rec)
      then have "bare c' = fold add_drive (map (drive_of env i) [Suc n ..< Suc m]) (bare c)"
        using m(4) by (simp add: drive_of_def r)
      ultimately show ?thesis using m(1,2) by (intro exI [of _ m]) auto
    qed
  qed
  with assms show ?thesis by blast
qed

lemma run_chunk_done:
  assumes "run_chunk rp env i c = Some (Inr (c', None))"
  shows "\<exists>n. chunk_done rp env i n
    \<and> bare c' = fold add_drive (map (drive_of env i) [0 ..< Suc n]) (bare c)"
proof -
  from assms obtain before r where b: "ck_before env i = Inr before" and r: "ck_drive env i 0 = Inr r"
    and ok: "rs_exit_code r = Some 0"
    and loop: "marker_loop rp env i (length before) 0
      ((add_drive r c)\<lparr>ch_reports := ch_reports (add_drive r c) @ [report_of_drive i r]\<rparr>) = Some (Inr (c', None))"
    by (auto simp: run_chunk_def Let_def split: sum.split_asm if_split_asm)
  from marker_loop_done [OF loop] obtain n where n:
    "\<exists>ms. ck_after env i n = Inr ms \<and> marker_seen rp ms (length before)"
    "\<forall>k. 0 < k \<and> k \<le> n \<longrightarrow> (\<exists>r. ck_drive env i k = Inr r \<and> rs_exit_code r = Some 0)"
    "bare c' = fold add_drive (map (drive_of env i) [1 ..< Suc n]) (add_drive r (bare c))" by auto
  have "\<exists>r. ck_drive env i k = Inr r \<and> rs_exit_code r = Some 0" if "k \<le> n" for k
    using that n(2) r ok by (cases k) auto
  with n(1) b have "chunk_done rp env i n" by (auto simp: chunk_done_def)
  moreover have "[0 ..< Suc n] = 0 # [1 ..< Suc n]" by (simp add: upt_rec)
  then have "bare c' = fold add_drive (map (drive_of env i) [0 ..< Suc n]) (bare c)"
    using n(3) by (simp add: drive_of_def r)
  ultimately show ?thesis by blast
qed

lemma marker_loop_failed:
  assumes "marker_loop rp env i watermark n c = Some (Inr (c', Some r))"
  shows "rs_exit_code r \<noteq> Some 0"
proof -
  have "\<And>c' r. x = Inr (c', Some r) \<Longrightarrow> rs_exit_code r \<noteq> Some 0"
    if "marker_loop rp env i watermark n c = Some x" for x
    using that
  proof (induction rule: marker_loop.raw_induct [rotated, consumes 1, case_names step])
    case (step rec rp env i watermark n c x c' r)
    show ?case
    proof
      assume zero: "rs_exit_code r = Some 0"
      with step(2,3) have "\<exists>c1. rec rp env i watermark (Suc n) c1 = Some x"
        by (auto simp: Let_def split: sum.split_asm if_split_asm)
      with step(1,3) zero show False by blast
    qed
  qed
  with assms show ?thesis by blast
qed

lemma run_chunk_failed:
  "run_chunk rp env i c = Some (Inr (c', Some r)) \<Longrightarrow> rs_exit_code r \<noteq> Some 0"
  by (auto simp: run_chunk_def Let_def split: sum.split_asm if_split_asm dest: marker_loop_failed)

lemma aggregate_sel [simp]:
  "rs_exit_code (aggregate sid x k c) = x" "rs_input_tokens (aggregate sid x k c) = ch_input c"
  "rs_output_tokens (aggregate sid x k c) = ch_output c" "rs_turns (aggregate sid x k c) = ch_turns c"
  "rs_cost_usd (aggregate sid x k c) = ch_cost c" "rs_turn_anomalies (aggregate sid x k c) = ch_anomalies c"
  by (simp_all add: aggregate_def stats_of_def run_stats.defs serve_stats.defs)

lemma run_chunks_done:
  assumes "run_chunks rp sid env n_chunks is c = Some (Inr r)" and "rs_exit_code r = Some 0" and "distinct is"
  shows "\<exists>n c'. (\<forall>i \<in> set is. chunk_done rp env i (n i)) \<and> r = aggregate sid (Some 0) None c'
    \<and> bare c' = fold add_drive (concat (map (\<lambda>i. map (drive_of env i) [0 ..< Suc (n i)]) is)) (bare c)"
  using assms(1,3)
proof (induction "is" arbitrary: c)
  case Nil
  then show ?case by auto
next
  case (Cons i "is")
  have "rs_exit_code x \<noteq> Some 0" if "run_chunk rp env i c = Some (Inr (c1, Some x))" for c1 x
    using run_chunk_failed [OF that] .
  then obtain c1 c2 where one: "run_chunk rp env i c = Some (Inr (c1, None))"
    and two: "compact_after env n_chunks i c1 = Inr c2" and rest: "run_chunks rp sid env n_chunks is c2 = Some (Inr r)"
    using Cons.prems(1) assms(2)
    by (auto split: option.split_asm sum.split_asm)
  have c2: "bare c2 = bare c1" using two by (auto simp: compact_after_def result_simps split: if_split_asm)
  from run_chunk_done [OF one] obtain k where k: "chunk_done rp env i k"
    "bare c1 = fold add_drive (map (drive_of env i) [0 ..< Suc k]) (bare c)" by blast
  from Cons.prems(2) have i: "i \<notin> set is" and "distinct is" by simp_all
  from Cons.IH [OF rest this(2)] obtain n c' where n: "\<forall>i \<in> set is. chunk_done rp env i (n i)"
    "r = aggregate sid (Some 0) None c'"
    "bare c' = fold add_drive (concat (map (\<lambda>i. map (drive_of env i) [0 ..< Suc (n i)]) is)) (bare c2)" by blast
  let ?n = "n(i := k)"
  have same: "map (\<lambda>j. map (drive_of env j) [0 ..< Suc (?n j)]) is = map (\<lambda>j. map (drive_of env j) [0 ..< Suc (n j)]) is"
    using i by (intro map_cong) auto
  have "\<forall>j \<in> set (i # is). chunk_done rp env j (?n j)" using n(1) k(1) i by auto
  moreover have "bare c' = fold add_drive (concat (map (\<lambda>j. map (drive_of env j) [0 ..< Suc (?n j)]) (i # is))) (bare c)"
    unfolding list.map same concat.simps fold_append comp_apply using n(3) k(2) c2 by simp
  ultimately show ?case using n(2) by blast
qed

text \<open>C29. A first pass that ends well did all its work and counts all of it: every chunk was driven, in
  each the marker was seen in a message of its own window, after marker nudges that all ended
  well, and the tokens, turns, cost and anomalies of the pass are those of these drives, in order.\<close>

theorem complete_pass_saw_every_marker:
  assumes "run_opencode_serve_chunked rp sid env n_chunks = Some (Inr r)" and "rs_exit_code r = Some 0"
  shows "\<exists>n. (\<forall>i \<in> {1..n_chunks}. chunk_done rp env i (n i))
     \<and> (let ds = concat (map (\<lambda>i. map (drive_of env i) [0 ..< Suc (n i)]) [1 ..< Suc n_chunks])
        in rs_input_tokens r = sum_list (map rs_input_tokens ds)
           \<and> rs_output_tokens r = sum_list (map rs_output_tokens ds)
           \<and> rs_turns r = sum_list (map rs_turns ds) \<and> rs_cost_usd r = sum_list (map rs_cost_usd ds)
           \<and> rs_turn_anomalies r = concat (map rs_turn_anomalies ds))"
proof -
  from run_chunks_done [OF assms(1) [unfolded run_opencode_serve_chunked_def] assms(2) distinct_upt] obtain n c' where
    n: "\<forall>i \<in> set [1 ..< Suc n_chunks]. chunk_done rp env i (n i)" and r: "r = aggregate sid (Some 0) None c'"
    and c': "bare c' = fold add_drive (concat (map (\<lambda>i. map (drive_of env i) [0 ..< Suc (n i)]) [1 ..< Suc n_chunks]))
      (bare chunked_start)" by blast
  define ds where "ds = concat (map (\<lambda>i. map (drive_of env i) [0 ..< Suc (n i)]) [1 ..< Suc n_chunks])"
  have "ch_input c' = ch_input (bare c')" "ch_output c' = ch_output (bare c')" "ch_turns c' = ch_turns (bare c')"
    "ch_cost c' = ch_cost (bare c')" "ch_anomalies c' = ch_anomalies (bare c')" by (simp_all add: bare_def)
  then have "rs_input_tokens r = sum_list (map rs_input_tokens ds)"
    "rs_output_tokens r = sum_list (map rs_output_tokens ds)" "rs_turns r = sum_list (map rs_turns ds)"
    "rs_cost_usd r = sum_list (map rs_cost_usd ds)" "rs_turn_anomalies r = concat (map rs_turn_anomalies ds)"
    unfolding c' ds_def [symmetric]
    by (simp_all add: r fold_add_drive bare_def chunked_start_def)
  moreover have "\<forall>i \<in> {1..n_chunks}. chunk_done rp env i (n i)" using n by auto
  ultimately show ?thesis unfolding Let_def ds_def by blast
qed

text \<open>Compaction is not fail-open: neither the watch nor the boundary lets a failed probe or a failed
  summarise request out, but the read that names the model and the reads that confirm a compaction
  are not guarded, and their failure leaves the cell's own method.\<close>

theorem compaction_reads_are_not_guarded:
  assumes "before = Inr ms" and "be_model env = Inl e \<or>
     (\<exists>ts. be_model env = Inr ts \<and> session_model rp ts \<noteq> None) \<and> be_summarize env = None \<and> be_first env = Inl e"
  shows "compact_attempt_boundary rp True True before env = Inl e
     \<and> (watch_compaction grace limit w False None probes = None \<longrightarrow>
          await_chunk_compaction rp grace limit w probes env = Inl e)
     \<and> (\<forall>o1. watch_compaction grace limit w False None probes = Some o1 \<longrightarrow>
          await_chunk_compaction rp grace limit w probes env = Inr o1)
     \<and> compact_attempt_boundary rp True True (Inl e) env = Inr ''watermark_error''"
proof -
  have "fire_backstop_summarize rp env n = Inl e" for n
    using assms(2) by (auto simp: fire_backstop_summarize_def)
  then show ?thesis by (simp add: compact_attempt_boundary_def await_chunk_compaction_def assms(1))
qed

section \<open>Concrete passes\<close>

definition sample_marker :: pyval where
  "sample_marker = PDict [(''info'', PDict [(''role'', PStr ''assistant'')]),
     (''parts'', PList [PDict [(''type'', PStr ''text''), (''text'', PStr ''CHUNK FINISHED'')]])]"

definition sample_phase :: serve_stats where
  "sample_phase = run_stats.extend ((stats_of ''s'' 0 None [])\<lparr>rs_output_tokens := 5, rs_turns := 1\<rparr>)
     (serve_stats.fields 0 0 0 0)"

definition sample_chunks :: chunk_env where
  "sample_chunks = \<lparr>ck_drive = (\<lambda>_ _. Inr sample_phase), ck_before = (\<lambda>_. Inr []),
     ck_after = (\<lambda>_ n. Inr (if n = 0 then [] else [sample_marker])), ck_compaction = (\<lambda>_. Inr ''self''),
     ck_compact_enabled = True\<rparr>"

lemma sample_marker_seen:
  "marker_seen rp [sample_marker] 0" "\<not> marker_seen rp [] 0"
proof -
  have "contains ''CHUNK FINISHED'' ''CHUNK FINISHED''" by code_simp
  then show "marker_seen rp [sample_marker] 0"
    by (simp add: marker_seen_def assistant_texts_since_def message_dicts_def sample_marker_def message_defs
        message_text_def has_type_def part_text_def CHUNK_MARKER_def)
  show "\<not> marker_seen rp [] 0" by (simp add: marker_seen_def assistant_texts_since_def message_dicts_def)
qed

lemma sample_phase_exit: "rs_exit_code sample_phase = Some 0"
  by (simp add: sample_phase_def stats_of_def run_stats.defs serve_stats.defs)

theorem complete_pass_saw_every_marker_witness:
  "\<exists>r n. run_opencode_serve_chunked (\<lambda>_. []) ''s'' sample_chunks 2 = Some (Inr r)
     \<and> chunk_done (\<lambda>_. []) sample_chunks 2 n"
proof -
  have loop: "\<exists>c'. marker_loop (\<lambda>_. []) sample_chunks i 0 0 c = Some (Inr (c', None))" for i c
    by (simp add: marker_loop.simps sample_chunks_def sample_marker_seen sample_phase_exit Let_def)
  have one: "\<exists>c'. run_chunk (\<lambda>_. []) sample_chunks i c = Some (Inr (c', None))" for i c
    using loop by (simp add: run_chunk_def sample_chunks_def sample_phase_exit Let_def)
  have "\<exists>c'. run_chunks (\<lambda>_. []) ''s'' sample_chunks 2 is c = Some (Inr (aggregate ''s'' (Some 0) None c'))" for "is" c
  proof (induction "is" arbitrary: c)
    case (Cons i "is")
    from one obtain c1 where "run_chunk (\<lambda>_. []) sample_chunks i c = Some (Inr (c1, None))" by blast
    moreover have "\<exists>c2. compact_after sample_chunks 2 i c1 = Inr c2"
      by (simp add: compact_after_def sample_chunks_def)
    then obtain c2 where "compact_after sample_chunks 2 i c1 = Inr c2" by blast
    ultimately show ?case using Cons [of c2] by simp
  qed auto
  then obtain c' where run: "run_opencode_serve_chunked (\<lambda>_. []) ''s'' sample_chunks 2
      = Some (Inr (aggregate ''s'' (Some 0) None c'))" unfolding run_opencode_serve_chunked_def by blast
  from complete_pass_saw_every_marker [OF run aggregate_sel(1)] obtain n where
    "\<forall>i \<in> {1..2}. chunk_done (\<lambda>_. []) sample_chunks i (n i)" by blast
  with run show ?thesis by auto
qed

theorem compaction_reads_are_not_guarded_witness:
  "compact_attempt_boundary (\<lambda>_. []) True True (Inr [])
     \<lparr>be_model = Inl ServeClientError, be_summarize = None, be_first = Inr [], be_confirm = []\<rparr> = Inl ServeClientError"
  using compaction_reads_are_not_guarded [where before = "Inr []" and ms = "[]" and e = ServeClientError
      and env = "\<lparr>be_model = Inl ServeClientError, be_summarize = None, be_first = Inr [], be_confirm = []\<rparr>"]
  by simp

end
