(* ===== verification/Harness_Budget.thy ===== *)
theory Harness_Budget
  imports Budget_Ledger
begin

text \<open>
  The budget side of \<open>BackgammonRunner\<close> (\<open>wevibe_bench/adapters/backgammon.py\<close>): the price table and
  the attempt estimate, reading the checkpoint that the proxy's ledger writes, and the decision
  whether an attempt may start.  The file is given by what each try at reading it yields.
\<close>

section \<open>Prices\<close>

text \<open>\<open>_MODEL_PRICING_USD_PER_1M\<close>\<close>

definition MODEL_PRICING :: "(string \<times> (string \<times> real) list) list" where
  "MODEL_PRICING =
    [(''z-ai/glm-5.2'', [(''input'', 14/10), (''output'', 44/10), (''cache_read'', 26/100), (''cache_write'', 14/10)]),
     (''kimi/kimi-k3'', [(''input'', 3), (''output'', 15), (''cache_read'', 3/10), (''cache_write'', 3)]),
     (''kimi/kimi-k2.7-code'', [(''input'', 95/100), (''output'', 4), (''cache_read'', 19/100), (''cache_write'', 95/100)]),
     (''tencent/hy3'', [(''input'', 18/100), (''output'', 59/100), (''cache_read'', 59/1000), (''cache_write'', 18/100)]),
     (''anthropic/claude-opus-4.8'', [(''input'', 5), (''output'', 25), (''cache_read'', 1/2), (''cache_write'', 625/100)]),
     (''opencode/big-pickle'', [(''input'', 0), (''output'', 0)])]"

definition HARNESS_SAFETY_FACTOR :: real where
  "HARNESS_SAFETY_FACTOR = 11/10"

definition model_id_from_selector :: "string \<Rightarrow> string" where
  "model_id_from_selector s =
     (let (provider, sep, model) = partition_char CHR ''/'' s
      in if sep \<and> model \<noteq> [] then model else provider)"

definition pricing_row_for_model :: "string \<Rightarrow> (string \<times> real) list option" where
  "pricing_row_for_model s =
     (case map_of MODEL_PRICING s of
        Some row \<Rightarrow> Some row
      | None \<Rightarrow> map_of MODEL_PRICING (model_id_from_selector s))"

definition resolve_output_price :: "string \<Rightarrow> real option \<Rightarrow> py_exc + real" where
  "resolve_output_price model explicit =
     (case explicit of
        Some p \<Rightarrow> Inr p
      | None \<Rightarrow> (case pricing_row_for_model model of
           None \<Rightarrow> Inl PyValueError
         | Some row \<Rightarrow> (case map_of row ''output'' of None \<Rightarrow> Inl (PyKeyError ''output'') | Some p \<Rightarrow> Inr p)))"

definition resolve_cache_write_price :: "string \<Rightarrow> real \<Rightarrow> real" where
  "resolve_cache_write_price model fallback =
     (case pricing_row_for_model model of
        None \<Rightarrow> fallback
      | Some row \<Rightarrow> opt_or (map_of row ''cache_write'') fallback)"

definition worst_case_reservation_usd :: "int \<Rightarrow> int \<Rightarrow> real \<Rightarrow> real \<Rightarrow> real \<Rightarrow> real" where
  "worst_case_reservation_usd steps tokens output_price safety allowance =
     of_int steps * of_int tokens * (output_price / 1000000) * safety + allowance"

section \<open>The runner's settings\<close>

definition DEFAULT_ATTEMPT_HARD_CEILING :: int where
  "DEFAULT_ATTEMPT_HARD_CEILING = 8"

record runner_args =
  ra_model :: string
  ra_memory_mode :: string
  ra_mock :: "string option"
  ra_max_attempts :: int
  ra_resume_budget :: int
  ra_token_cap :: int
  ra_run_timeout_s :: int
  ra_gate_timeout_s :: int
  ra_completion_grace_s :: int
  ra_cost_limit_usd :: "real option"
  ra_cost_target_usd :: "real option"
  ra_max_output_tokens :: "int option"
  ra_max_steps_per_attempt :: "int option"
  ra_output_price_per_1m :: "real option"
  ra_reasoning_effort :: "string option"

record backgammon_runner = runner_args +
  rn_cloud :: bool
  rn_effective_output_price :: real
  rn_cache_write_allowance_usd :: real
  rn_fallback_attempt_estimate_usd :: real

text \<open>\<open>raise ValueError\<close> unless a condition holds.\<close>

definition require :: "bool \<Rightarrow> py_exc + unit" where
  "require b = (if b then Inr () else Inl PyValueError)"

definition opt_all :: "('a \<Rightarrow> bool) \<Rightarrow> 'a option \<Rightarrow> bool" where
  "opt_all p v = (case v of None \<Rightarrow> True | Some x \<Rightarrow> p x)"

definition args_valid :: "runner_args \<Rightarrow> bool" where
  "args_valid a \<longleftrightarrow>
     1 \<le> ra_max_attempts a \<and> 0 \<le> ra_resume_budget a \<and> 0 < ra_gate_timeout_s a
     \<and> ra_memory_mode a \<in> {''off'', ''on''}
     \<and> opt_all (\<lambda>m. m \<in> {''golden'', ''scaffold''}) (ra_mock a)
     \<and> 1 \<le> ra_token_cap a \<and> 1 \<le> ra_run_timeout_s a \<and> 1 \<le> ra_completion_grace_s a
     \<and> opt_all (\<lambda>x. 0 < x) (ra_cost_limit_usd a) \<and> opt_all (\<lambda>x. 0 < x) (ra_cost_target_usd a)
     \<and> opt_all (\<lambda>x. 0 < x) (ra_max_output_tokens a) \<and> opt_all (\<lambda>x. 0 < x) (ra_max_steps_per_attempt a)
     \<and> opt_all (\<lambda>x. 0 < x) (ra_output_price_per_1m a)
     \<and> opt_all (\<lambda>t. opt_all (\<lambda>l. t < l) (ra_cost_limit_usd a)) (ra_cost_target_usd a)"

text \<open>What the constructor derives of its arguments: without a cost limit, or without both bounds on
  an attempt, no attempt is forecast to cost anything.\<close>

definition forecast :: "runner_args \<Rightarrow> py_exc + real \<times> real \<times> real" where
  "forecast a =
     (case (ra_cost_limit_usd a, ra_max_output_tokens a, ra_max_steps_per_attempt a) of
        (Some _, Some tokens, Some steps) \<Rightarrow>
          bind_result (resolve_output_price (ra_model a) (ra_output_price_per_1m a)) (\<lambda>price.
            let allowance = of_int tokens * resolve_cache_write_price (ra_model a) price / 1000000
            in Inr (price, allowance,
                 worst_case_reservation_usd steps tokens price HARNESS_SAFETY_FACTOR allowance))
      | _ \<Rightarrow> Inr (0, 0, 0))"

definition runner_new :: "runner_args \<Rightarrow> py_exc + backgammon_runner" where
  "runner_new a =
     bind_result (require (args_valid a)) (\<lambda>_.
     bind_result (forecast a) (\<lambda>(price, allowance, estimate).
     bind_result (require (opt_all (\<lambda>e. e \<in> {''minimal'', ''low'', ''medium'', ''high'', ''xhigh'', ''none''})
                    (ra_reasoning_effort a))) (\<lambda>_.
       Inr (runner_args.extend
              (a\<lparr>ra_max_attempts := min (ra_max_attempts a) DEFAULT_ATTEMPT_HARD_CEILING\<rparr>)
              (backgammon_runner.fields (fst (partition_char CHR ''/'' (ra_model a)) \<noteq> ''local-llm-proxy'')
                 price allowance estimate)))))"

section \<open>The proxy's checkpoint\<close>

record proxy_snapshot =
  ps_hard_cap_usd :: real
  ps_accrued_actual_usd :: real
  ps_accrued_derived_usd :: real
  ps_committed_unproven_usd :: real
  ps_remaining_usd :: real

definition snapshot_of_payload :: "pyval \<Rightarrow> py_exc + proxy_snapshot" where
  "snapshot_of_payload v =
     (case v of
        PDict d \<Rightarrow>
          bind_result (bind_result (dget_item d ''hard_cap_usd'') py_float) (\<lambda>cap.
          bind_result (bind_result (dget_item d ''accrued_actual_usd'') py_float) (\<lambda>act.
          bind_result (py_float (dget_default d ''accrued_derived_usd'' (PFloat 0))) (\<lambda>der.
          bind_result (bind_result (dget_item d ''committed_unproven_usd'') py_float) (\<lambda>unp.
            Inr \<lparr>ps_hard_cap_usd = cap, ps_accrued_actual_usd = act, ps_accrued_derived_usd = der,
                 ps_committed_unproven_usd = unp, ps_remaining_usd = cap - act - der - unp\<rparr>))))
      | _ \<Rightarrow> Inl (PyRuntimeError ''payload is not an object''))"

text \<open>The checkpoint as the harness finds it: the path of the environment variable, whether a file is
  there, and the document that each try at reading it decodes to (\<open>None\<close> when it cannot be read or
  decoded).\<close>

record checkpoint_view =
  cv_env :: string
  cv_is_file :: bool
  cv_read :: "nat \<Rightarrow> pyval option"

definition snapshot_try :: "pyval option \<Rightarrow> py_exc + proxy_snapshot" where
  "snapshot_try r = (case r of None \<Rightarrow> Inl PyOSError | Some v \<Rightarrow> snapshot_of_payload v)"

fun read_tries :: "(nat \<Rightarrow> pyval option) \<Rightarrow> nat list \<Rightarrow> py_exc + proxy_snapshot" where
  "read_tries r [] = Inl (PyRuntimeError ''failed reading proxy checkpoint'')"
| "read_tries r (i # is) =
     (case snapshot_try (r i) of Inr s \<Rightarrow> Inr s | Inl _ \<Rightarrow> read_tries r is)"

definition read_proxy_budget_snapshot :: "checkpoint_view \<Rightarrow> py_exc + proxy_snapshot" where
  "read_proxy_budget_snapshot v =
     (if \<not> cv_is_file v then Inl (PyRuntimeError ''proxy checkpoint missing'')
      else read_tries (cv_read v) [0, 1, 2])"

section \<open>The decision\<close>

definition estimate_full_attempt_cost_usd :: "real list \<Rightarrow> real \<Rightarrow> real" where
  "estimate_full_attempt_cost_usd observed fallback =
     max (max (foldl max 0 observed) fallback) 0"

datatype budget_decision = Allow | Budget_Stop | Harness_Error

definition budget_decision_for_attempt ::
  "real option \<Rightarrow> real \<Rightarrow> checkpoint_view \<Rightarrow> real list \<Rightarrow> budget_decision" where
  "budget_decision_for_attempt cost_limit fallback v observed =
     (if strip (cv_env v) = [] then (if cost_limit = None then Allow else Harness_Error)
      else case read_proxy_budget_snapshot v of
             Inl _ \<Rightarrow> Harness_Error
           | Inr s \<Rightarrow>
               if estimate_full_attempt_cost_usd observed fallback \<le> ps_remaining_usd s
               then Allow else Budget_Stop)"

section \<open>Properties\<close>

lemma foldl_max_ge: "(m::real) \<le> foldl max m xs"
proof (induction xs arbitrary: m)
  case (Cons x xs)
  show ?case using Cons.IH [of "max m x"] by simp
qed simp

lemma foldl_max_mem: "x \<in> set xs \<Longrightarrow> (x::real) \<le> foldl max m xs"
proof (induction xs arbitrary: m)
  case (Cons y xs)
  show ?case
  proof (cases "x = y")
    case True
    then show ?thesis using foldl_max_ge [of "max m y" xs] by simp
  qed (use Cons in simp)
qed simp

lemma estimate_bounds:
  "x \<in> set observed \<Longrightarrow> x \<le> estimate_full_attempt_cost_usd observed fallback"
  "fallback \<le> estimate_full_attempt_cost_usd observed fallback"
  "0 \<le> estimate_full_attempt_cost_usd observed fallback"
  using foldl_max_mem [of x observed 0]
  by (auto simp: estimate_full_attempt_cost_usd_def)

lemma snapshot_of_ledger:
  "snapshot_of_payload (PDict (ledger_payload now l)) = Inr
     \<lparr>ps_hard_cap_usd = lg_hard_cap l, ps_accrued_actual_usd = lg_accrued_actual l,
      ps_accrued_derived_usd = lg_accrued_derived l, ps_committed_unproven_usd = lg_committed_unproven l,
      ps_remaining_usd = remaining l + outstanding_total l\<rparr>"
  by (simp add: snapshot_of_payload_def ledger_payload_def remaining_def)

text \<open>A checkpoint of the ledger that one of the three tries reads, earlier tries having met a file
  being replaced.\<close>

definition shows_ledger :: "checkpoint_view \<Rightarrow> string \<Rightarrow> ledger \<Rightarrow> bool" where
  "shows_ledger v now l \<longleftrightarrow> strip (cv_env v) \<noteq> [] \<and> cv_is_file v \<and>
     (\<exists>i \<in> {0, 1, 2}. cv_read v i = Some (PDict (ledger_payload now l)) \<and> (\<forall>j < i. cv_read v j = None))"

lemma read_shown_ledger:
  assumes "shows_ledger v now l"
  shows "read_proxy_budget_snapshot v = snapshot_of_payload (PDict (ledger_payload now l))"
  using assms
  by (auto simp: shows_ledger_def read_proxy_budget_snapshot_def snapshot_try_def snapshot_of_ledger
      numeral_2_eq_2 less_Suc_eq)

lemma decision_on_ledger:
  assumes "shows_ledger v now l"
  shows "budget_decision_for_attempt limit fallback v observed =
    (if estimate_full_attempt_cost_usd observed fallback \<le> remaining l + outstanding_total l
     then Allow else Budget_Stop)"
proof -
  have "strip (cv_env v) \<noteq> []" using assms by (simp add: shows_ledger_def)
  then show ?thesis
    by (simp add: budget_decision_for_attempt_def read_shown_ledger [OF assms] snapshot_of_ledger)
qed



definition sample_held :: ledger where
  "sample_held = sample_ledger\<lparr>lg_outstanding := [(''r0'', 4)]\<rparr>"

text \<open>A hold that no request will ever settle, as a restarted proxy recovers from its checkpoint, is
  invisible to the harness: it goes on allowing attempts while the ledger refuses
  every request of the size of the estimate.\<close>

theorem held_budget_is_allowed_again:
  "\<exists>v. shows_ledger v ''t'' sample_held
     \<and> budget_decision_for_attempt (Some 5) 2 v [3] = Allow
     \<and> remaining sample_held < estimate_full_attempt_cost_usd [3] 2
     \<and> reserve ''t'' sample_held ''r1'' 3 = Inl BudgetExceededError"
proof -
  let ?v = "\<lparr>cv_env = ''p'', cv_is_file = True,
    cv_read = (\<lambda>_. Some (PDict (ledger_payload ''t'' sample_held)))\<rparr>"
  have "strip ''p'' = ''p''" by code_simp
  then have shown: "shows_ledger ?v ''t'' sample_held" by (simp add: shows_ledger_def)
  moreover have "budget_decision_for_attempt (Some 5) 2 ?v [3] = Allow"
    unfolding decision_on_ledger [OF shown]
    by (simp add: estimate_full_attempt_cost_usd_def remaining_def outstanding_total_def sample_held_def
        sample_ledger_def persist_def)
  moreover have "remaining sample_held < estimate_full_attempt_cost_usd [3] 2"
    by (simp add: estimate_full_attempt_cost_usd_def remaining_def outstanding_total_def sample_held_def
        sample_ledger_def persist_def)
  moreover have "reserve ''t'' sample_held ''r1'' 3 = Inl BudgetExceededError"
    by (simp add: reserve_def outstanding_total_def sample_held_def sample_ledger_def persist_def)
  ultimately show ?thesis by blast
qed

end
