(* ===== verification/Cell_Attempts.thy ===== *)
theory Cell_Attempts
  imports Worker_Events Harness_Budget
begin

text \<open>
  One benchmark cell: \<open>BackgammonRunner._run_cell_impl\<close> of \<open>wevibe_bench/adapters/backgammon.py\<close> with the
  zero-tool resume loop.  The worker processes, the gate oracle, the checkpoint file and the
  composers of the messages are what the cell meets, and so its environment; the cell's own
  state is the local variables of the method.  The preparation is modelled in
  \<open>Cell_Setup\<close>, the gates in \<open>Gate_Run\<close>, the worker runs (\<open>ce_initial\<close>, \<open>ce_feedback_run\<close> and the others) in
  \<open>Cell_Delivery\<close>, the messages in \<open>Feedback_Text\<close> and the reading back of the files in \<open>Cell_Telemetry\<close>.  An
  exception of the compaction or of the start of a process leaves the cell (see \<open>Serve_Chunks\<close>) and is no value here;
  the live view is not modelled.
\<close>

section \<open>Resuming after a turn without tools\<close>

definition truthy_text :: "string option \<Rightarrow> bool" where
  "truthy_text v \<longleftrightarrow> opt_or v [] \<noteq> []"

text \<open>\<open>a or b\<close> on optional texts.\<close>

definition text_or :: "string option \<Rightarrow> string option \<Rightarrow> string option" where
  "text_or a b = (if truthy_text a then a else b)"

definition merge_stats :: "run_stats \<Rightarrow> run_stats \<Rightarrow> nat \<Rightarrow> run_stats" where
  "merge_stats g r k =
     \<lparr>rs_input_tokens = rs_input_tokens g + rs_input_tokens r,
      rs_output_tokens = rs_output_tokens g + rs_output_tokens r,
      rs_reasoning_tokens = rs_reasoning_tokens g + rs_reasoning_tokens r,
      rs_turns = rs_turns g + rs_turns r,
      rs_session_id = text_or (rs_session_id r) (rs_session_id g),
      rs_killed_reason = text_or (rs_killed_reason r) (rs_killed_reason g),
      rs_exit_code = rs_exit_code r,
      rs_cost_usd = rs_cost_usd g + rs_cost_usd r,
      rs_budget_stop_detected = (rs_budget_stop_detected g \<or> rs_budget_stop_detected r),
      rs_budget_stop_signature = (if rs_budget_stop_signature g = None then rs_budget_stop_signature r
                                  else rs_budget_stop_signature g),
      rs_truncations = rs_truncations g + rs_truncations r,
      rs_zero_tool_turns = rs_zero_tool_turns g + rs_zero_tool_turns r,
      rs_terminal_zero_tool_turn = rs_terminal_zero_tool_turn r,
      rs_zero_tool_resumes = int k,
      rs_zero_tool_turn_honest_fail = False,
      rs_resume_count = rs_resume_count g + rs_resume_count r,
      rs_turn_anomalies = rs_turn_anomalies g @ rs_turn_anomalies r,
      rs_unmetered_turns = rs_unmetered_turns g + rs_unmetered_turns r,
      rs_unmetered_turn_wall_s = rs_unmetered_turn_wall_s g + rs_unmetered_turn_wall_s r\<rparr>"

text \<open>\<open>_run_opencode_with_zero_tool_resumes\<close>: \<open>run k\<close> is what the \<open>k\<close>-th process of the loop reports.  The
  loop has no bound, so that not returning is a possible outcome: \<open>None\<close>.\<close>

partial_function (option) zero_tool_loop ::
  "(nat \<Rightarrow> run_stats) \<Rightarrow> string option \<Rightarrow> nat \<Rightarrow> run_stats \<Rightarrow> (run_stats \<times> nat) option" where
  "zero_tool_loop run fallback k g =
     (if \<not> rs_terminal_zero_tool_turn (run k) then Some (g, k)
      else if \<not> truthy_text (text_or (rs_session_id (run k)) (text_or (rs_session_id g) fallback))
      then Some (g, k)
      else zero_tool_loop run fallback (Suc k) (merge_stats g (run (Suc k)) (Suc k)))"

definition run_with_zero_tool_resumes :: "(nat \<Rightarrow> run_stats) \<Rightarrow> string option \<Rightarrow> run_stats option" where
  "run_with_zero_tool_resumes run fallback =
     map_option (\<lambda>(g, k). g\<lparr>rs_zero_tool_resumes := int k,
                            rs_zero_tool_turn_honest_fail := rs_terminal_zero_tool_turn g\<rparr>)
       (zero_tool_loop run fallback 0 (run 0))"

section \<open>The cell's state\<close>

datatype gate_outcome = Gate_Report pydict | Gate_Timeout | Gate_Raised py_exc

record cell_env =
  ce_checkpoint :: "nat \<Rightarrow> checkpoint_view"
  ce_initial :: run_stats
  ce_stream_incomplete :: bool
  ce_gate :: "nat \<Rightarrow> gate_outcome"
  ce_compaction :: "nat \<Rightarrow> string"
  ce_pass_text :: "string list \<Rightarrow> string"
  ce_pass_run :: "nat \<Rightarrow> run_stats"
  ce_feedback_run :: "nat \<Rightarrow> run_stats"

record attempt_report =
  ar_attempt :: nat
  ar_verdict :: string
  ar_conformed :: bool
  ar_n_problems :: nat
  ar_failed_gates :: "string list"
  ar_gate_results :: "pyval option"
  ar_gate_totals :: "pyval option"
  ar_gate_timeout :: bool
  ar_attempt_cost_usd :: real
  ar_boundary_compaction :: "string option"
  ar_honest_fail :: bool
  ar_termination_reason :: "string option"

text \<open>What the cell does to the world outside, in order.\<close>

datatype cell_action =
    Asked_Budget nat budget_decision
  | Ran_Worker nat run_stats
  | Ran_Gates nat

record cell =
  cl_verdict :: string
  cl_attempts_to_green :: pyval
  cl_termination_reason :: string
  cl_worker_exit_annot :: "string option"
  cl_worker_killed_reason :: "string option"
  cl_session_id :: "string option"
  cl_final_report :: pydict
  cl_attempt_reports :: "attempt_report list"
  cl_cell_cost_usd :: real
  cl_observed_attempt_costs :: "real list"
  cl_attempt_costs_usd :: "(nat \<times> real) list"
  cl_input_tokens :: int
  cl_output_tokens :: int
  cl_turns :: int
  cl_truncations :: int
  cl_zero_tool_turns :: int
  cl_zero_tool_resumes :: int
  cl_honest_fails :: int
  cl_turn_anomalies :: "turn_anomaly list"
  cl_prev_has_anomalies :: bool
  cl_unmetered_turns :: int
  cl_unmetered_turn_wall_s :: real
  cl_resume_count :: int
  cl_actions :: "cell_action list"

definition cell_start :: cell where
  "cell_start =
     \<lparr>cl_verdict = ''FAIL'', cl_attempts_to_green = PStr ''FAIL'', cl_termination_reason = ''pending'',
      cl_worker_exit_annot = None, cl_worker_killed_reason = None, cl_session_id = None,
      cl_final_report = [], cl_attempt_reports = [], cl_cell_cost_usd = 0,
      cl_observed_attempt_costs = [], cl_attempt_costs_usd = [], cl_input_tokens = 0,
      cl_output_tokens = 0, cl_turns = 0, cl_truncations = 0, cl_zero_tool_turns = 0,
      cl_zero_tool_resumes = 0, cl_honest_fails = 0, cl_turn_anomalies = [],
      cl_prev_has_anomalies = False, cl_unmetered_turns = 0, cl_unmetered_turn_wall_s = 0,
      cl_resume_count = 0, cl_actions = []\<rparr>"

definition end_cell :: "string \<Rightarrow> pyval \<Rightarrow> string \<Rightarrow> cell \<Rightarrow> cell" where
  "end_cell verdict green reason c =
     c\<lparr>cl_verdict := verdict, cl_attempts_to_green := green, cl_termination_reason := reason\<rparr>"

text \<open>\<open>"DID_NOT_CONFORM" if not conformed else "FAIL"\<close>\<close>

definition not_green :: "bool \<Rightarrow> pyval" where
  "not_green conformed = PStr (if conformed then ''FAIL'' else ''DID_NOT_CONFORM'')"

definition act :: "cell_action \<Rightarrow> cell \<Rightarrow> cell" where
  "act a c = c\<lparr>cl_actions := cl_actions c @ [a]\<rparr>"

text \<open>The totals that every invocation of the worker adds to.\<close>

definition absorb_run :: "nat \<Rightarrow> run_stats \<Rightarrow> cell \<Rightarrow> cell" where
  "absorb_run attempt r c = act (Ran_Worker attempt r)
     (c\<lparr>cl_cell_cost_usd := cl_cell_cost_usd c + rs_cost_usd r,
        cl_input_tokens := cl_input_tokens c + rs_input_tokens r,
        cl_output_tokens := cl_output_tokens c + rs_output_tokens r + rs_reasoning_tokens r,
        cl_turns := cl_turns c + rs_turns r,
        cl_truncations := cl_truncations c + rs_truncations r,
        cl_zero_tool_turns := cl_zero_tool_turns c + rs_zero_tool_turns r,
        cl_zero_tool_resumes := cl_zero_tool_resumes c + rs_zero_tool_resumes r,
        cl_honest_fails := cl_honest_fails c + (if rs_zero_tool_turn_honest_fail r then 1 else 0),
        cl_turn_anomalies := cl_turn_anomalies c @ rs_turn_anomalies r,
        cl_prev_has_anomalies := rs_turn_anomalies r \<noteq> [],
        cl_unmetered_turns := cl_unmetered_turns c + rs_unmetered_turns r,
        cl_unmetered_turn_wall_s := cl_unmetered_turn_wall_s c + rs_unmetered_turn_wall_s r,
        cl_worker_killed_reason := rs_killed_reason r\<rparr>)"

text \<open>\<open>_mark_harness_resume\<close>: the anomalies of the previous invocation are the last of the cell's, and
  shared with it.\<close>

definition mark_harness_resume :: "cell \<Rightarrow> cell" where
  "mark_harness_resume c =
     (if \<not> cl_prev_has_anomalies c \<or> cl_turn_anomalies c = [] then c
      else let l = last (cl_turn_anomalies c)
           in if ta_retried l then c
              else c\<lparr>cl_turn_anomalies := butlast (cl_turn_anomalies c)
                       @ [l\<lparr>ta_retried := True, ta_retry_kind := Some ''harness_resume''\<rparr>]\<rparr>)"

definition bad_exit :: "run_stats \<Rightarrow> bool" where
  "bad_exit r \<longleftrightarrow> (case rs_exit_code r of None \<Rightarrow> False | Some x \<Rightarrow> x \<noteq> 0)
     \<and> \<not> (case rs_killed_reason r of None \<Rightarrow> False | Some k \<Rightarrow> k \<in> set HARNESS_LIMIT_REASONS)"

definition decide :: "backgammon_runner \<Rightarrow> cell_env \<Rightarrow> nat \<Rightarrow> cell \<Rightarrow> budget_decision" where
  "decide cfg env attempt c =
     budget_decision_for_attempt (ra_cost_limit_usd cfg) (rn_fallback_attempt_estimate_usd cfg)
       (ce_checkpoint env attempt) (cl_observed_attempt_costs c)"

section \<open>The first run\<close>

text \<open>After the first run; a stream that died is resumed, anything else that went wrong is noted and
  forbids feedback.\<close>

definition after_first_run :: "cell_env \<Rightarrow> run_stats \<Rightarrow> cell \<Rightarrow> cell" where
  "after_first_run env r c =
     (if rs_budget_stop_detected r
      then end_cell ''BUDGET_STOP'' (PStr ''BUDGET_STOP'') ''budget_stop_mid_attempt'' c
      else if rs_zero_tool_turn_honest_fail r
      then end_cell ''FAIL'' (PStr ''FAIL'') ''zero_tool_turn_honest_fail'' c
      else if bad_exit r then
        (if rs_exit_code r = Some 1 \<and> ce_stream_incomplete env then c\<lparr>cl_resume_count := 1\<rparr>
         else (end_cell ''FAIL'' (PStr ''FAIL'') ''harness_error'' c)
                \<lparr>cl_worker_exit_annot := Some ''harness_error''\<rparr>)
      else c)"

definition first_run :: "backgammon_runner \<Rightarrow> cell_env \<Rightarrow> cell \<Rightarrow> cell" where
  "first_run cfg env c =
     (if ra_mock cfg \<noteq> None then c\<lparr>cl_attempt_costs_usd := [(1, 0)]\<rparr>
      else
        let d = decide cfg env 1 c; c = act (Asked_Budget 1 d) c
        in case d of
             Harness_Error \<Rightarrow> end_cell ''FAIL'' (PStr ''FAIL'') ''harness_error'' c
           | Budget_Stop \<Rightarrow>
               end_cell ''BUDGET_STOP'' (PStr ''BUDGET_STOP'') ''attempts_exhausted_by_budget'' c
           | Allow \<Rightarrow>
               let r = ce_initial env;
                   c = absorb_run 1 r c
                         \<lparr>cl_attempt_costs_usd := [(1, rs_cost_usd r)],
                          cl_observed_attempt_costs := [rs_cost_usd r],
                          cl_session_id := rs_session_id r, cl_resume_count := rs_resume_count r\<rparr>
               in after_first_run env r c)"

section \<open>One attempt\<close>

text \<open>The fields the loop reads of a gate report.\<close>

definition list_items :: "pyval \<Rightarrow> pyval list" where
  "list_items v = (case v of PList xs \<Rightarrow> xs | _ \<Rightarrow> [])"

definition report_verdict :: "(pyval \<Rightarrow> string) \<Rightarrow> pydict \<Rightarrow> string" where
  "report_verdict rp r = py_str rp (dget_default r ''verdict'' (PStr ''FAIL''))"

definition report_conformed :: "pydict \<Rightarrow> bool" where
  "report_conformed r = truthy (dget_default r ''conformed'' (PBool False))"

definition attempt_cost :: "nat \<Rightarrow> cell \<Rightarrow> real" where
  "attempt_cost attempt c = opt_or (map_of (cl_attempt_costs_usd c) attempt) 0"

definition gate_attempt_report :: "(pyval \<Rightarrow> string) \<Rightarrow> nat \<Rightarrow> pydict \<Rightarrow> cell \<Rightarrow> attempt_report" where
  "gate_attempt_report rp attempt r c =
     \<lparr>ar_attempt = attempt, ar_verdict = report_verdict rp r, ar_conformed = report_conformed r,
      ar_n_problems = length (list_items (dget r ''problems'')),
      ar_failed_gates = map (py_str rp) (list_items (dget r ''failed_gates'')),
      ar_gate_results = (if is_list (dget r ''gate_results'') then Some (dget r ''gate_results'') else None),
      ar_gate_totals = (if is_dict (dget r ''gate_totals'') then Some (dget r ''gate_totals'') else None),
      ar_gate_timeout = False, ar_attempt_cost_usd = attempt_cost attempt c,
      ar_boundary_compaction = None, ar_honest_fail = False, ar_termination_reason = None\<rparr>"

definition timeout_attempt_report :: "nat \<Rightarrow> cell \<Rightarrow> attempt_report" where
  "timeout_attempt_report attempt c =
     \<lparr>ar_attempt = attempt, ar_verdict = ''FAIL'', ar_conformed = False, ar_n_problems = 0,
      ar_failed_gates = [], ar_gate_results = None, ar_gate_totals = None, ar_gate_timeout = True,
      ar_attempt_cost_usd = attempt_cost attempt c, ar_boundary_compaction = None,
      ar_honest_fail = False, ar_termination_reason = None\<rparr>"

definition add_report :: "attempt_report \<Rightarrow> cell \<Rightarrow> cell" where
  "add_report r c =
     (if cl_worker_exit_annot c \<noteq> Some ''harness_error''
      then c\<lparr>cl_attempt_reports := cl_attempt_reports c @ [r]\<rparr> else c)"

text \<open>\<open>attempt_reports[-1][...] = ...\<close>, if there is one.\<close>

definition on_last_report :: "(attempt_report \<Rightarrow> attempt_report) \<Rightarrow> cell \<Rightarrow> cell" where
  "on_last_report f c =
     (if cl_attempt_reports c = [] then c
      else c\<lparr>cl_attempt_reports := butlast (cl_attempt_reports c) @ [f (last (cl_attempt_reports c))]\<rparr>)"

text \<open>\<open>attempt_reports[-1]["failed_gates"]\<close> and the gates of the one before, \<open>None\<close> without one; a set
  difference, sorted.\<close>

definition failed_last :: "cell \<Rightarrow> string list" where
  "failed_last c = ar_failed_gates (last (cl_attempt_reports c))"

definition failed_before :: "cell \<Rightarrow> string list option" where
  "failed_before c =
     (let n = length (cl_attempt_reports c) in
      if 2 \<le> n then Some (ar_failed_gates (cl_attempt_reports c ! (n - 2))) else None)"

definition newly_passing :: "cell \<Rightarrow> string list" where
  "newly_passing c = (case failed_before c of None \<Rightarrow> []
     | Some before \<Rightarrow> sorted_set (filter (\<lambda>g. g \<notin> set (failed_last c)) before))"

text \<open>Why a feedback or verdict run ends the cell.\<close>

definition ended_by_run :: "run_stats \<Rightarrow> bool \<Rightarrow> cell \<Rightarrow> cell option" where
  "ended_by_run r conformed c =
     (if rs_budget_stop_detected r
      then Some (end_cell ''BUDGET_STOP'' (PStr ''BUDGET_STOP'') ''budget_stop_mid_attempt'' c)
      else if rs_zero_tool_turn_honest_fail r
      then Some (on_last_report (\<lambda>a. a\<lparr>ar_honest_fail := True\<rparr>)
                   (end_cell ''FAIL'' (not_green conformed) ''zero_tool_turn_honest_fail'' c))
      else if bad_exit r then Some (end_cell ''FAIL'' (not_green conformed) ''harness_error'' c)
      else None)"

definition take_session :: "run_stats \<Rightarrow> cell \<Rightarrow> cell" where
  "take_session r c = c\<lparr>cl_session_id := text_or (rs_session_id r) (cl_session_id c)\<rparr>"

text \<open>The message that says what now passes, sent only when it is not empty, and its run; the result is
  the cell, whether the loop is left, and the cost so far of the next attempt.\<close>

definition verdict_pass :: "cell_env \<Rightarrow> nat \<Rightarrow> bool \<Rightarrow> cell \<Rightarrow> cell \<times> bool \<times> real" where
  "verdict_pass env attempt conformed c =
     (if newly_passing c = [] \<or> ce_pass_text env (newly_passing c) = [] then (c, False, 0)
      else
        let r = ce_pass_run env attempt;
            c = take_session r (absorb_run (Suc attempt) r (mark_harness_resume c))
        in case ended_by_run r conformed c of
             Some c \<Rightarrow> (c, True, rs_cost_usd r)
           | None \<Rightarrow> (c, False, rs_cost_usd r))"

definition feedback :: "cell_env \<Rightarrow> nat \<Rightarrow> bool \<Rightarrow> real \<Rightarrow> cell \<Rightarrow> cell \<times> bool" where
  "feedback env attempt conformed cost_so_far c =
     (let r = ce_feedback_run env attempt; cost = cost_so_far + rs_cost_usd r;
          c = take_session r ((absorb_run (Suc attempt) r (mark_harness_resume c))
                \<lparr>cl_attempt_costs_usd := AList.update (Suc attempt) cost (cl_attempt_costs_usd c),
                 cl_observed_attempt_costs := cl_observed_attempt_costs c @ [cost]\<rparr>)
      in case ended_by_run r conformed c of Some c \<Rightarrow> (c, True) | None \<Rightarrow> (c, False))"

text \<open>The next attempt: asked of the budget, refused without a resume budget, prepared by the
  compaction, and run.\<close>

definition next_attempt :: "backgammon_runner \<Rightarrow> cell_env \<Rightarrow> nat \<Rightarrow> bool \<Rightarrow> cell \<Rightarrow> cell \<times> bool" where
  "next_attempt cfg env attempt conformed c =
     (let d = decide cfg env (Suc attempt) c; c = act (Asked_Budget (Suc attempt) d) c
      in case d of
           Harness_Error \<Rightarrow> (end_cell ''FAIL'' (not_green conformed) ''harness_error'' c, True)
         | Budget_Stop \<Rightarrow>
             (end_cell ''BUDGET_STOP'' (PStr ''BUDGET_STOP'') ''attempts_exhausted_by_budget'' c, True)
         | Allow \<Rightarrow>
             if ra_resume_budget cfg \<le> 0
             then (end_cell ''FAIL'' (PStr ''FAIL'') ''transport_incomplete'' c, True)
             else
               let c = on_last_report (\<lambda>a. a\<lparr>ar_boundary_compaction := Some (ce_compaction env attempt)\<rparr>) c;
                   (c, left, cost) = verdict_pass env attempt conformed c
               in if left then (c, True) else feedback env attempt conformed cost c)"

definition annotated_reason :: "cell \<Rightarrow> string \<Rightarrow> string" where
  "annotated_reason c dflt =
     (case cl_worker_exit_annot c of
        None \<Rightarrow> dflt
      | Some a \<Rightarrow> if a = ''harness_error'' then ''harness_error'' else ''transport_incomplete'')"

text \<open>The worker was killed, and not by one of the harness's own limits.\<close>

definition killed_for_cause :: "cell \<Rightarrow> bool" where
  "killed_for_cause c \<longleftrightarrow>
     (case cl_worker_killed_reason c of None \<Rightarrow> False | Some k \<Rightarrow> k \<notin> set HARNESS_LIMIT_REASONS)"

text \<open>What follows a gate report; the flag says that the loop is left.\<close>

definition after_gates :: "(pyval \<Rightarrow> string) \<Rightarrow> backgammon_runner \<Rightarrow> cell_env \<Rightarrow> nat \<Rightarrow> pydict \<Rightarrow> cell \<Rightarrow> cell \<times> bool" where
  "after_gates rp cfg env attempt r c =
     (let c = add_report (gate_attempt_report rp attempt r c) (c\<lparr>cl_final_report := r\<rparr>);
          conformed = report_conformed r
      in if report_verdict rp r = ''PASS''
         then (end_cell ''PASS'' (PInt (int attempt - 1)) ''gates_green'' c, True)
         else if ra_max_attempts cfg \<le> int attempt
         then (end_cell ''FAIL'' (not_green conformed) (annotated_reason c ''attempt_ceiling_reached'') c, True)
         else if killed_for_cause c
         then (end_cell ''FAIL'' (not_green conformed) ''harness_error'' c, True)
         else if cl_worker_exit_annot c \<noteq> None
         then (c\<lparr>cl_termination_reason := annotated_reason c ''gates_failed''\<rparr>, True)
         else if ra_mock cfg \<noteq> None then (c, False)
         else if \<not> truthy_text (cl_session_id c)
         then (end_cell ''FAIL'' (not_green conformed) ''harness_error'' c, True)
         else next_attempt cfg env attempt conformed c)"

definition attempt_step ::
  "(pyval \<Rightarrow> string) \<Rightarrow> backgammon_runner \<Rightarrow> cell_env \<Rightarrow> nat \<Rightarrow> cell \<Rightarrow> py_exc + cell \<times> bool" where
  "attempt_step rp cfg env attempt c =
     (let c = act (Ran_Gates attempt) c
      in case ce_gate env attempt of
           Gate_Raised e \<Rightarrow> Inl e
         | Gate_Timeout \<Rightarrow>
             Inr (add_report (timeout_attempt_report attempt c)
                    (end_cell ''FAIL'' (PStr ''GATE_TIMEOUT'') ''gate_timeout'' c), True)
         | Gate_Report r \<Rightarrow> Inr (after_gates rp cfg env attempt r c))"

fun attempt_loop ::
  "(pyval \<Rightarrow> string) \<Rightarrow> backgammon_runner \<Rightarrow> cell_env \<Rightarrow> nat list \<Rightarrow> cell \<Rightarrow> py_exc + cell" where
  "attempt_loop rp cfg env [] c = Inr c"
| "attempt_loop rp cfg env (attempt # later) c =
     (case attempt_step rp cfg env attempt c of
        Inl e \<Rightarrow> Inl e
      | Inr (c, left) \<Rightarrow> if left then Inr c else attempt_loop rp cfg env later c)"

text \<open>\<open>range(1, max_attempts + 1)\<close>\<close>

definition attempt_numbers :: "backgammon_runner \<Rightarrow> nat list" where
  "attempt_numbers cfg = [1 ..< Suc (nat (ra_max_attempts cfg))]"

definition run_attempts :: "(pyval \<Rightarrow> string) \<Rightarrow> backgammon_runner \<Rightarrow> cell_env \<Rightarrow> py_exc + cell" where
  "run_attempts rp cfg env =
     bind_result (attempt_loop rp cfg env (attempt_numbers cfg) (first_run cfg env cell_start)) (\<lambda>c.
       Inr (if cl_termination_reason c = ''pending''
            then end_cell ''FAIL'' (PStr ''FAIL'') ''harness_error'' c else c))"

section \<open>The result\<close>

record cell_result =
  cr_verdict :: string
  cr_attempts_to_green :: pyval
  cr_termination_reason :: string
  cr_conformed :: bool
  cr_input_tokens :: int
  cr_output_tokens :: int
  cr_turns :: int
  cr_attempt_reports :: "attempt_report list"
  cr_session_id :: "string option"
  cr_wall_cost_usd :: real
  cr_cheated :: bool
  cr_problems_before :: "nat option"
  cr_truncations :: int
  cr_zero_tool_turns :: int
  cr_zero_tool_resumes :: int
  cr_zero_tool_turn_honest_fails :: int
  cr_transport_resume_count :: int
  cr_turn_anomalies :: "turn_anomaly list"
  cr_truncated_turns :: nat
  cr_truncated_turns_retried :: nat
  cr_guard_aborted_turns :: nat
  cr_finalize_timeout_turns :: nat
  cr_observation_lost_turns :: nat
  cr_unmetered_turns :: int
  cr_unmetered_turn_wall_s :: real

text \<open>A cell found to have read the oracle is a cheat whatever its gates say.\<close>

definition finish_cell :: "bool \<Rightarrow> cell \<Rightarrow> cell_result" where
  "finish_cell cheated c =
     (let c = (if cheated then c\<lparr>cl_verdict := ''CHEAT'', cl_termination_reason := ''cheat_detected''\<rparr> else c);
          c = on_last_report (\<lambda>a. a\<lparr>ar_termination_reason := Some (cl_termination_reason c)\<rparr>) c;
          count = (\<lambda>p. count_if p (cl_turn_anomalies c))
      in \<lparr>cr_verdict = cl_verdict c, cr_attempts_to_green = cl_attempts_to_green c,
          cr_termination_reason = cl_termination_reason c,
          cr_conformed = report_conformed (cl_final_report c),
          cr_input_tokens = cl_input_tokens c, cr_output_tokens = cl_output_tokens c,
          cr_turns = cl_turns c, cr_attempt_reports = cl_attempt_reports c,
          cr_session_id = cl_session_id c, cr_wall_cost_usd = cl_cell_cost_usd c,
          cr_cheated = cheated,
          cr_problems_before = (case cl_attempt_reports c of [] \<Rightarrow> None | a # _ \<Rightarrow> Some (ar_n_problems a)),
          cr_truncations = cl_truncations c, cr_zero_tool_turns = cl_zero_tool_turns c,
          cr_zero_tool_resumes = cl_zero_tool_resumes c,
          cr_zero_tool_turn_honest_fails = cl_honest_fails c,
          cr_transport_resume_count = cl_resume_count c,
          cr_turn_anomalies = cl_turn_anomalies c, cr_truncated_turns = length (cl_turn_anomalies c),
          cr_truncated_turns_retried = count ta_retried,
          cr_guard_aborted_turns = count (\<lambda>a. ta_terminal a = ''guard_abort''),
          cr_finalize_timeout_turns =
            count (\<lambda>a. ta_terminal a = ''transport_error'' \<and> ta_reason a = ''stream_finalize_timeout''),
          cr_observation_lost_turns = count (\<lambda>a. ta_terminal a = ''observation_lost''),
          cr_unmetered_turns = cl_unmetered_turns c,
          cr_unmetered_turn_wall_s = cl_unmetered_turn_wall_s c\<rparr>)"

definition run_cell :: "(pyval \<Rightarrow> string) \<Rightarrow> backgammon_runner \<Rightarrow> cell_env \<Rightarrow> bool \<Rightarrow> py_exc + cell_result" where
  "run_cell rp cfg env cheated =
     bind_result (run_attempts rp cfg env) (\<lambda>c. Inr (finish_cell cheated c))"

section \<open>Lemmas\<close>

definition gates_run :: "cell \<Rightarrow> nat list" where
  "gates_run c = List.map_filter (\<lambda>a. case a of Ran_Gates n \<Rightarrow> Some n | _ \<Rightarrow> None) (cl_actions c)"

definition runs_of :: "cell_action list \<Rightarrow> run_stats list" where
  "runs_of as = List.map_filter (\<lambda>a. case a of Ran_Worker _ r \<Rightarrow> Some r | _ \<Rightarrow> None) as"

lemma map_filter_append_list: "List.map_filter f (xs @ ys) = List.map_filter f xs @ List.map_filter f ys"
  by (simp add: List.map_filter_def)

lemma act_sel [simp]:
  "cl_actions (act a c) = cl_actions c @ [a]"
  "cl_verdict (act a c) = cl_verdict c" "cl_termination_reason (act a c) = cl_termination_reason c"
  "cl_worker_exit_annot (act a c) = cl_worker_exit_annot c" "cl_session_id (act a c) = cl_session_id c"
  "cl_attempt_reports (act a c) = cl_attempt_reports c"
  "cl_worker_killed_reason (act a c) = cl_worker_killed_reason c"
  "cl_attempts_to_green (act a c) = cl_attempts_to_green c"
  by (simp_all add: act_def)

lemma same_actions [simp]:
  "cl_actions (end_cell v g r c) = cl_actions c"
  "cl_actions (on_last_report f c) = cl_actions c"
  "cl_actions (add_report rep c) = cl_actions c"
  "cl_actions (take_session st c) = cl_actions c"
  "cl_actions (mark_harness_resume c) = cl_actions c"
  "cl_actions (absorb_run n st c) = cl_actions c @ [Ran_Worker n st]"
  by (simp_all add: end_cell_def on_last_report_def add_report_def take_session_def
      mark_harness_resume_def absorb_run_def Let_def)

lemma same_annot [simp]:
  "cl_worker_exit_annot (end_cell v g r c) = cl_worker_exit_annot c"
  "cl_worker_exit_annot (on_last_report f c) = cl_worker_exit_annot c"
  "cl_worker_exit_annot (add_report rep c) = cl_worker_exit_annot c"
  "cl_worker_exit_annot (take_session st c) = cl_worker_exit_annot c"
  "cl_worker_exit_annot (mark_harness_resume c) = cl_worker_exit_annot c"
  "cl_worker_exit_annot (absorb_run n st c) = cl_worker_exit_annot c"
  by (simp_all add: end_cell_def on_last_report_def add_report_def take_session_def
      mark_harness_resume_def absorb_run_def Let_def)

lemma same_verdict [simp]:
  "cl_verdict (on_last_report f c) = cl_verdict c"
  "cl_verdict (add_report rep c) = cl_verdict c"
  "cl_verdict (take_session st c) = cl_verdict c"
  "cl_verdict (mark_harness_resume c) = cl_verdict c"
  "cl_verdict (absorb_run n st c) = cl_verdict c"
  "cl_termination_reason (on_last_report f c) = cl_termination_reason c"
  "cl_termination_reason (add_report rep c) = cl_termination_reason c"
  "cl_termination_reason (take_session st c) = cl_termination_reason c"
  "cl_termination_reason (mark_harness_resume c) = cl_termination_reason c"
  "cl_termination_reason (absorb_run n st c) = cl_termination_reason c"
  by (simp_all add: on_last_report_def add_report_def take_session_def
      mark_harness_resume_def absorb_run_def Let_def)

lemma same_session [simp]:
  "cl_session_id (end_cell v g r c) = cl_session_id c" "cl_session_id (on_last_report f c) = cl_session_id c"
  "cl_session_id (add_report rep c) = cl_session_id c" "cl_session_id (mark_harness_resume c) = cl_session_id c"
  "cl_worker_killed_reason (end_cell v g r c) = cl_worker_killed_reason c"
  "cl_worker_killed_reason (on_last_report f c) = cl_worker_killed_reason c"
  "cl_worker_killed_reason (add_report rep c) = cl_worker_killed_reason c"
  "cl_worker_killed_reason (take_session st c) = cl_worker_killed_reason c"
  "cl_worker_killed_reason (absorb_run n st c) = rs_killed_reason st"
  by (simp_all add: end_cell_def on_last_report_def add_report_def take_session_def
      mark_harness_resume_def absorb_run_def act_def Let_def)

lemma end_cell_sel [simp]:
  "cl_verdict (end_cell v g r c) = v" "cl_termination_reason (end_cell v g r c) = r"
  "cl_attempts_to_green (end_cell v g r c) = g"
  by (simp_all add: end_cell_def)

text \<open>The verdicts a cell can end with before it is green, each with its reasons.\<close>

definition stop_reasons :: "(string \<times> string) set" where
  "stop_reasons = {(''BUDGET_STOP'', ''budget_stop_mid_attempt''), (''BUDGET_STOP'', ''attempts_exhausted_by_budget''),
     (''FAIL'', ''harness_error''), (''FAIL'', ''transport_incomplete''), (''FAIL'', ''zero_tool_turn_honest_fail''),
     (''FAIL'', ''gate_timeout''), (''FAIL'', ''attempt_ceiling_reached'')}"

definition outcome_of :: "cell \<Rightarrow> string \<times> string" where
  "outcome_of c = (cl_verdict c, cl_termination_reason c)"

lemma outcome_simps [simp]:
  "outcome_of (end_cell v g r c) = (v, r)" "outcome_of (on_last_report f c) = outcome_of c"
  "outcome_of (take_session st c) = outcome_of c" "outcome_of (mark_harness_resume c) = outcome_of c"
  "outcome_of (absorb_run n st c) = outcome_of c" "outcome_of (act a c) = outcome_of c"
  "outcome_of (add_report rep c) = outcome_of c"
  by (simp_all add: outcome_of_def)

lemma ended_by_run_props:
  assumes "ended_by_run r conformed c = Some c'"
  shows "outcome_of c' \<in> stop_reasons" "cl_actions c' = cl_actions c"
    "cl_worker_exit_annot c' = cl_worker_exit_annot c"
  using assms by (auto simp: ended_by_run_def stop_reasons_def split: if_splits)

lemma verdict_pass_props:
  assumes "verdict_pass env attempt conformed c = (c', left, cost)"
  shows "left \<Longrightarrow> outcome_of c' \<in> stop_reasons" "\<not> left \<Longrightarrow> outcome_of c' = outcome_of c"
    "cl_worker_exit_annot c' = cl_worker_exit_annot c"
    "\<exists>rs. cl_actions c' = cl_actions c @ map (Ran_Worker (Suc attempt)) rs"
proof -
  have act: "\<exists>rs. cl_actions x = cl_actions c @ map (Ran_Worker (Suc attempt)) rs"
    if "cl_actions x = cl_actions c \<or> cl_actions x = cl_actions c @ [Ran_Worker (Suc attempt) r]" for x r
    using that by (metis append_Nil2 list.simps(8,9))
  from assms show "left \<Longrightarrow> outcome_of c' \<in> stop_reasons" "\<not> left \<Longrightarrow> outcome_of c' = outcome_of c"
    "cl_worker_exit_annot c' = cl_worker_exit_annot c"
    by (auto simp: verdict_pass_def Let_def split: if_splits option.splits dest: ended_by_run_props)
  from assms show "\<exists>rs. cl_actions c' = cl_actions c @ map (Ran_Worker (Suc attempt)) rs"
    by (intro act [of _ "ce_pass_run env attempt"])
      (auto simp: verdict_pass_def Let_def split: if_splits option.splits dest: ended_by_run_props)
qed

lemma feedback_props:
  assumes "feedback env attempt conformed cost c = (c', left)"
  shows "left \<Longrightarrow> outcome_of c' \<in> stop_reasons" "\<not> left \<Longrightarrow> outcome_of c' = outcome_of c"
    "cl_worker_exit_annot c' = cl_worker_exit_annot c"
    "cl_actions c' = cl_actions c @ [Ran_Worker (Suc attempt) (ce_feedback_run env attempt)]"
proof -
  have upd: "outcome_of (x\<lparr>cl_attempt_costs_usd := u, cl_observed_attempt_costs := w\<rparr>) = outcome_of x"
    "cl_actions (x\<lparr>cl_attempt_costs_usd := u, cl_observed_attempt_costs := w\<rparr>) = cl_actions x" for x u w
    by (simp_all add: outcome_of_def)
  from assms show "left \<Longrightarrow> outcome_of c' \<in> stop_reasons" "\<not> left \<Longrightarrow> outcome_of c' = outcome_of c"
    "cl_worker_exit_annot c' = cl_worker_exit_annot c"
    "cl_actions c' = cl_actions c @ [Ran_Worker (Suc attempt) (ce_feedback_run env attempt)]"
    by (auto simp: feedback_def Let_def upd split: option.splits dest: ended_by_run_props)
qed

text \<open>What asking for the next attempt does: every run it makes was allowed.\<close>

lemma next_attempt_props:
  assumes "next_attempt cfg env attempt conformed c = (c', left)"
  shows "left \<Longrightarrow> outcome_of c' \<in> stop_reasons" "\<not> left \<Longrightarrow> outcome_of c' = outcome_of c"
    "cl_worker_exit_annot c' = cl_worker_exit_annot c"
    "\<exists>d rs. cl_actions c' = cl_actions c @ Asked_Budget (Suc attempt) d # map (Ran_Worker (Suc attempt)) rs
       \<and> (rs = [] \<or> d = Allow) \<and> (left \<or> rs \<noteq> [])"
proof -
  let ?d = "decide cfg env (Suc attempt) c"
  let ?c = "act (Asked_Budget (Suc attempt) ?d) c"
  have "(left \<longrightarrow> outcome_of c' \<in> stop_reasons) \<and> (\<not> left \<longrightarrow> outcome_of c' = outcome_of c)
    \<and> cl_worker_exit_annot c' = cl_worker_exit_annot c
    \<and> (\<exists>rs. cl_actions c' = cl_actions c @ Asked_Budget (Suc attempt) ?d # map (Ran_Worker (Suc attempt)) rs
       \<and> (rs = [] \<or> ?d = Allow) \<and> (left \<or> rs \<noteq> []))"
  proof (cases "?d = Allow \<and> 0 < ra_resume_budget cfg")
    case False
    then show ?thesis
      using assms by (cases ?d) (auto simp: next_attempt_def Let_def stop_reasons_def)
  next
    case True
    let ?c1 = "on_last_report (\<lambda>a. a\<lparr>ar_boundary_compaction := Some (ce_compaction env attempt)\<rparr>) ?c"
    obtain c2 left1 cost where vp: "verdict_pass env attempt conformed ?c1 = (c2, left1, cost)"
      by (metis prod_cases3)
    from True assms vp have res: "(c', left) = (if left1 then (c2, True) else feedback env attempt conformed cost c2)"
      by (simp add: next_attempt_def Let_def)
    note v = verdict_pass_props [OF vp]
    from v(4) obtain rs where rs: "cl_actions c2 = cl_actions c @ Asked_Budget (Suc attempt) ?d # map (Ran_Worker (Suc attempt)) rs"
      by auto
    show ?thesis
    proof (cases left1)
      case True
      with res have "c' = c2" and left by simp_all
      with v(1,3) rs \<open>left1\<close> \<open>?d = Allow \<and> _\<close> show ?thesis by auto
    next
      case False
      with res have fb: "feedback env attempt conformed cost c2 = (c', left)" by simp
      note f = feedback_props [OF fb]
      have "cl_actions c' = cl_actions c @ Asked_Budget (Suc attempt) ?d
          # map (Ran_Worker (Suc attempt)) (rs @ [ce_feedback_run env attempt])"
        using f(4) rs by simp
      with f(1-3) v(2,3) False True show ?thesis by fastforce
    qed
  qed
  then show "left \<Longrightarrow> outcome_of c' \<in> stop_reasons" "\<not> left \<Longrightarrow> outcome_of c' = outcome_of c"
    "cl_worker_exit_annot c' = cl_worker_exit_annot c"
    "\<exists>d rs. cl_actions c' = cl_actions c @ Asked_Budget (Suc attempt) d # map (Ran_Worker (Suc attempt)) rs
       \<and> (rs = [] \<or> d = Allow) \<and> (left \<or> rs \<noteq> [])"
    by blast+
qed

definition gates_green_at :: "(pyval \<Rightarrow> string) \<Rightarrow> cell_env \<Rightarrow> nat \<Rightarrow> bool" where
  "gates_green_at rp env k \<longleftrightarrow> (\<exists>r. ce_gate env k = Gate_Report r \<and> report_verdict rp r = ''PASS'')"

text \<open>The actions of one turn of the loop after its gates: a budget question and the runs it allowed.\<close>

definition turn_actions :: "nat \<Rightarrow> cell_action list \<Rightarrow> bool" where
  "turn_actions n as \<longleftrightarrow> as = [] \<or> (\<exists>d rs. as = Asked_Budget n d # map (Ran_Worker n) rs \<and> (rs = [] \<or> d = Allow))"

lemma annot_only_harness:
  assumes "cl_worker_exit_annot c \<in> {None, Some ''harness_error''}"
  shows "annotated_reason c t = (if cl_worker_exit_annot c = None then t else ''harness_error'')"
  using assms by (auto simp: annotated_reason_def)

definition step_ok ::
  "(pyval \<Rightarrow> string) \<Rightarrow> backgammon_runner \<Rightarrow> cell_env \<Rightarrow> nat \<Rightarrow> cell \<Rightarrow> cell \<Rightarrow> bool \<Rightarrow> bool" where
  "step_ok rp cfg env k c c' left \<longleftrightarrow>
     (left \<and> gates_green_at rp env k \<and> outcome_of c' = (''PASS'', ''gates_green'')
           \<and> cl_attempts_to_green c' = PInt (int k - 1)
      \<or> \<not> gates_green_at rp env k \<and> (left \<longrightarrow> outcome_of c' \<in> stop_reasons)
           \<and> (\<not> left \<longrightarrow> outcome_of c' = outcome_of c \<and> int k < ra_max_attempts cfg))
     \<and> cl_worker_exit_annot c' = cl_worker_exit_annot c
     \<and> (\<exists>as. cl_actions c' = cl_actions c @ as \<and> turn_actions (Suc k) as)"

lemma step_ok_stop:
  assumes "\<not> gates_green_at rp env k" and "(v, r) \<in> stop_reasons"
  shows "step_ok rp cfg env k c (end_cell v g r c) True"
  using assms by (simp add: step_ok_def turn_actions_def)

lemma step_ok_mono:
  assumes "step_ok rp cfg env k c1 c' left" and "outcome_of c1 = outcome_of c"
    and "cl_worker_exit_annot c1 = cl_worker_exit_annot c" and "cl_actions c1 = cl_actions c"
  shows "step_ok rp cfg env k c c' left"
  using assms by (simp add: step_ok_def)

lemma after_gates_ok:
  assumes "ce_gate env k = Gate_Report r"
    and annot: "cl_worker_exit_annot c \<in> {None, Some ''harness_error''}"
    and fail: "cl_worker_exit_annot c = Some ''harness_error'' \<longrightarrow> cl_verdict c = ''FAIL''"
  shows "step_ok rp cfg env k c (fst (after_gates rp cfg env k r c)) (snd (after_gates rp cfg env k r c))"
proof -
  let ?c = "add_report (gate_attempt_report rp k r c) (c\<lparr>cl_final_report := r\<rparr>)"
  have same: "outcome_of ?c = outcome_of c" "cl_worker_exit_annot ?c = cl_worker_exit_annot c"
    "cl_actions ?c = cl_actions c" by (simp_all add: outcome_of_def)
  have reason: "(''FAIL'', annotated_reason ?c ''attempt_ceiling_reached'') \<in> stop_reasons"
    using annot by (auto simp: annotated_reason_def same stop_reasons_def)
  show ?thesis
  proof (cases "report_verdict rp r = ''PASS''")
    case True
    then have "gates_green_at rp env k" by (simp add: gates_green_at_def assms(1))
    with True same show ?thesis by (simp add: after_gates_def Let_def step_ok_def turn_actions_def)
  next
    case False
    then have red: "\<not> gates_green_at rp env k" by (simp add: gates_green_at_def assms(1))
    note stop = step_ok_mono [OF step_ok_stop [OF red] same]
    have harness: "(''FAIL'', ''harness_error'') \<in> stop_reasons" by (simp add: stop_reasons_def)
    consider (ceiling) "ra_max_attempts cfg \<le> int k"
      | (killed) "\<not> ra_max_attempts cfg \<le> int k" "killed_for_cause ?c"
      | (annotated) "\<not> ra_max_attempts cfg \<le> int k" "\<not> killed_for_cause ?c"
          "cl_worker_exit_annot ?c \<noteq> None"
      | (mock) "\<not> ra_max_attempts cfg \<le> int k" "\<not> killed_for_cause ?c"
          "cl_worker_exit_annot ?c = None" "ra_mock cfg \<noteq> None"
      | (lost) "\<not> ra_max_attempts cfg \<le> int k" "\<not> killed_for_cause ?c"
          "cl_worker_exit_annot ?c = None" "ra_mock cfg = None" "\<not> truthy_text (cl_session_id ?c)"
      | (goes_on) "\<not> ra_max_attempts cfg \<le> int k" "\<not> killed_for_cause ?c"
          "cl_worker_exit_annot ?c = None" "ra_mock cfg = None" "truthy_text (cl_session_id ?c)"
      by blast
    then show ?thesis
    proof cases
      case ceiling
      then have "after_gates rp cfg env k r c
          = (end_cell ''FAIL'' (not_green (report_conformed r)) (annotated_reason ?c ''attempt_ceiling_reached'') ?c, True)"
        using False by (simp add: after_gates_def Let_def)
      then show ?thesis using stop [OF reason] by simp
    next
      case killed
      then have "after_gates rp cfg env k r c = (end_cell ''FAIL'' (not_green (report_conformed r)) ''harness_error'' ?c, True)"
        using False by (simp add: after_gates_def Let_def)
      then show ?thesis using stop [OF harness] by simp
    next
      case annotated
      then have a: "cl_worker_exit_annot c = Some ''harness_error''" using annot same by auto
      then have v: "cl_verdict ?c = ''FAIL''" using fail by simp
      have "annotated_reason ?c ''gates_failed'' = ''harness_error''" using a same by (simp add: annotated_reason_def)
      then have "after_gates rp cfg env k r c = (?c\<lparr>cl_termination_reason := ''harness_error''\<rparr>, True)"
        using annotated False by (simp add: after_gates_def Let_def)
      then show ?thesis
        using red harness same v by (simp add: step_ok_def turn_actions_def outcome_of_def)
    next
      case mock
      then have "after_gates rp cfg env k r c = (?c, False)" using False by (simp add: after_gates_def Let_def)
      then show ?thesis using red same mock(1) by (simp add: step_ok_def turn_actions_def)
    next
      case lost
      then have "after_gates rp cfg env k r c = (end_cell ''FAIL'' (not_green (report_conformed r)) ''harness_error'' ?c, True)"
        using False by (simp add: after_gates_def Let_def)
      then show ?thesis using stop [OF harness] by simp
    next
      case goes_on
      then have ag: "after_gates rp cfg env k r c = next_attempt cfg env k (report_conformed r) ?c"
        using False by (simp add: after_gates_def Let_def)
      obtain c' left where na: "next_attempt cfg env k (report_conformed r) ?c = (c', left)" by fastforce
      note n = next_attempt_props [OF na]
      have "turn_actions (Suc k) (drop (length (cl_actions c)) (cl_actions c'))"
        "cl_actions c' = cl_actions c @ drop (length (cl_actions c)) (cl_actions c')"
        using n(4) by (auto simp: turn_actions_def same)
      then show ?thesis
        unfolding ag na using n(1-3) same red goes_on(1) by (auto simp: step_ok_def)
    qed
  qed
qed

lemma attempt_step_ok:
  assumes "attempt_step rp cfg env k c = Inr (c', left)"
    and "cl_worker_exit_annot c \<in> {None, Some ''harness_error''}"
    and "cl_worker_exit_annot c = Some ''harness_error'' \<longrightarrow> cl_verdict c = ''FAIL''"
  shows "step_ok rp cfg env k (act (Ran_Gates k) c) c' left"
proof (cases "ce_gate env k")
  case (Gate_Report r)
  with assms(1) have "after_gates rp cfg env k r (act (Ran_Gates k) c) = (c', left)"
    by (simp add: attempt_step_def)
  with after_gates_ok [OF Gate_Report, of "act (Ran_Gates k) c" rp cfg] assms(2,3) show ?thesis by simp
next
  case Gate_Timeout
  then have "\<not> gates_green_at rp env k" by (simp add: gates_green_at_def)
  moreover have "(''FAIL'', ''gate_timeout'') \<in> stop_reasons" by (simp add: stop_reasons_def)
  ultimately show ?thesis using assms(1) Gate_Timeout
    by (auto simp: attempt_step_def step_ok_def turn_actions_def Let_def)
qed (use assms in \<open>simp add: attempt_step_def\<close>)

section \<open>The whole cell\<close>

text \<open>Every run of the worker belongs to the attempt that the budget was last asked about, allowed it, with
  no gate run in between.\<close>

fun funded :: "nat option \<Rightarrow> cell_action list \<Rightarrow> bool" where
  "funded allowed [] = True"
| "funded allowed (Asked_Budget n d # as) = funded (if d = Allow then Some n else None) as"
| "funded allowed (Ran_Worker n r # as) = (allowed = Some n \<and> funded allowed as)"
| "funded allowed (Ran_Gates n # as) = funded None as"

lemma funded_gates: "funded o1 (xs @ Ran_Gates k # as) \<longleftrightarrow> funded o1 xs \<and> funded None as"
proof (induction xs arbitrary: o1)
  case (Cons x xs)
  then show ?case by (cases x) simp_all
qed simp

lemma funded_turn: "turn_actions n as \<Longrightarrow> funded None as"
proof -
  have "funded (Some n) (map (Ran_Worker n) rs)" for rs by (induction rs) simp_all
  then show "turn_actions n as \<Longrightarrow> funded None as" by (auto simp: turn_actions_def)
qed

lemma turn_no_gates: "turn_actions n as \<Longrightarrow>
  List.map_filter (\<lambda>a. case a of Ran_Gates n \<Rightarrow> Some n | _ \<Rightarrow> None) as = []"
proof -
  have "List.map_filter (\<lambda>a. case a of Ran_Gates n \<Rightarrow> Some n | _ \<Rightarrow> None) (map (Ran_Worker n) rs) = []" for rs
    by (induction rs) (simp_all add: List.map_filter_simps)
  then show "turn_actions n as \<Longrightarrow> List.map_filter (\<lambda>a. case a of Ran_Gates n \<Rightarrow> Some n | _ \<Rightarrow> None) as = []"
    by (auto simp: turn_actions_def List.map_filter_simps)
qed

definition loop_inv :: "(pyval \<Rightarrow> string) \<Rightarrow> cell_env \<Rightarrow> nat \<Rightarrow> cell \<Rightarrow> bool" where
  "loop_inv rp env k c \<longleftrightarrow>
     cl_worker_exit_annot c \<in> {None, Some ''harness_error''}
     \<and> (cl_worker_exit_annot c = Some ''harness_error'' \<longrightarrow> cl_verdict c = ''FAIL'')
     \<and> gates_run c = [1 ..< k] \<and> funded None (cl_actions c)
     \<and> (\<forall>i \<in> {1 ..< k}. \<not> gates_green_at rp env i)"

definition cell_done :: "(pyval \<Rightarrow> string) \<Rightarrow> backgammon_runner \<Rightarrow> cell_env \<Rightarrow> cell \<Rightarrow> bool" where
  "cell_done rp cfg env c \<longleftrightarrow>
     (\<exists>n \<ge> 1. int n \<le> ra_max_attempts cfg \<and> gates_run c = [1 ..< Suc n] \<and> funded None (cl_actions c)
        \<and> (\<forall>i \<in> {1 ..< n}. \<not> gates_green_at rp env i)
        \<and> (if gates_green_at rp env n
            then outcome_of c = (''PASS'', ''gates_green'') \<and> cl_attempts_to_green c = PInt (int n - 1)
            else outcome_of c \<in> stop_reasons))"

lemma step_keeps_inv:
  assumes "attempt_step rp cfg env k c = Inr (c', left)" and "loop_inv rp env k c"
    and "1 \<le> k" and "int k \<le> ra_max_attempts cfg"
  shows "if left then cell_done rp cfg env c'
         else loop_inv rp env (Suc k) c' \<and> int (Suc k) \<le> ra_max_attempts cfg"
proof -
  have step: "step_ok rp cfg env k (act (Ran_Gates k) c) c' left"
    using attempt_step_ok [OF assms(1)] assms(2) by (simp add: loop_inv_def)
  then obtain as where as: "cl_actions c' = cl_actions c @ Ran_Gates k # as" "turn_actions (Suc k) as"
    by (auto simp: step_ok_def)
  from as have g: "gates_run c' = [1 ..< Suc k]" using assms(2,3)
    by (simp add: gates_run_def loop_inv_def map_filter_append_list turn_no_gates List.map_filter_simps)
  from as have f: "funded None (cl_actions c')"
    using assms(2) by (simp add: funded_gates loop_inv_def funded_turn)
  show ?thesis
  proof (cases left)
    case True
    have "cell_done rp cfg env c'"
      unfolding cell_done_def
      by (rule exI [of _ k]) (use step True assms(2-4) g f in \<open>auto simp: step_ok_def loop_inv_def\<close>)
    with True show ?thesis by simp
  next
    case False
    with step have red: "\<not> gates_green_at rp env k" and same: "outcome_of c' = outcome_of c"
      and annot: "cl_worker_exit_annot c' = cl_worker_exit_annot c" and less: "int k < ra_max_attempts cfg"
      by (auto simp: step_ok_def)
    from same have "cl_verdict c' = cl_verdict c" by (simp add: outcome_of_def)
    with red annot assms(2) g f have "loop_inv rp env (Suc k) c'"
      by (auto simp: loop_inv_def less_Suc_eq)
    with False less show ?thesis by simp
  qed
qed

lemma attempt_loop_done:
  assumes "attempt_loop rp cfg env [k ..< Suc (nat (ra_max_attempts cfg))] c = Inr c'"
    and "loop_inv rp env k c" and "1 \<le> k" and "int k \<le> ra_max_attempts cfg"
  shows "cell_done rp cfg env c'"
  using assms
proof (induction "nat (ra_max_attempts cfg) - k" arbitrary: k c)
  case (0 k c)
  then have k: "[k ..< Suc (nat (ra_max_attempts cfg))] = [k]" by (simp add: upt_rec)
  from 0 obtain c1 left where s: "attempt_step rp cfg env k c = Inr (c1, left)"
    unfolding k by (cases "attempt_step rp cfg env k c") auto
  from step_keeps_inv [OF s 0(3-5)] 0 have left by (cases left) auto
  with step_keeps_inv [OF s 0(3-5)] 0(2) s show ?case unfolding k by simp
next
  case (Suc d k c)
  then have k: "[k ..< Suc (nat (ra_max_attempts cfg))] = k # [Suc k ..< Suc (nat (ra_max_attempts cfg))]"
    by (simp add: upt_rec)
  from Suc(3) obtain c1 left where s: "attempt_step rp cfg env k c = Inr (c1, left)"
    unfolding k by (cases "attempt_step rp cfg env k c") auto
  show ?case
  proof (cases left)
    case True
    with step_keeps_inv [OF s Suc(4-6)] Suc(3) s show ?thesis unfolding k by simp
  next
    case False
    with Suc(3) s have "attempt_loop rp cfg env [Suc k ..< Suc (nat (ra_max_attempts cfg))] c1 = Inr c'"
      unfolding k by simp
    then show ?thesis
      using Suc(1) [of "Suc k" c1] step_keeps_inv [OF s Suc(4-6)] False Suc(2) by simp
  qed
qed

lemma first_run_inv: "loop_inv rp env 1 (first_run cfg env cell_start)"
proof -
  have "cl_worker_exit_annot (first_run cfg env cell_start) \<in> {None, Some ''harness_error''}"
    "cl_worker_exit_annot (first_run cfg env cell_start) = Some ''harness_error''
       \<longrightarrow> cl_verdict (first_run cfg env cell_start) = ''FAIL''"
    by (simp_all add: first_run_def after_first_run_def cell_start_def Let_def split: budget_decision.split)
  moreover have "turn_actions 1 (cl_actions (first_run cfg env cell_start))"
    by (auto simp: first_run_def after_first_run_def cell_start_def Let_def turn_actions_def
        split: budget_decision.split intro!: exI [of _ "[ce_initial env]"])
  ultimately show ?thesis
    using turn_no_gates funded_turn by (simp add: loop_inv_def gates_run_def)
qed

lemma run_attempts_done:
  assumes "1 \<le> ra_max_attempts cfg" and "run_attempts rp cfg env = Inr c"
  shows "cell_done rp cfg env c"
proof -
  from assms(2) obtain c' where loop: "attempt_loop rp cfg env (attempt_numbers cfg) (first_run cfg env cell_start) = Inr c'"
    and c: "c = (if cl_termination_reason c' = ''pending'' then end_cell ''FAIL'' (PStr ''FAIL'') ''harness_error'' c' else c')"
    unfolding run_attempts_def by (auto simp: result_simps)
  from attempt_loop_done [OF loop [unfolded attempt_numbers_def] first_run_inv] assms(1)
  have done_c': "cell_done rp cfg env c'" by simp
  then have "cl_termination_reason c' \<noteq> ''pending''"
    by (auto simp: cell_done_def outcome_of_def stop_reasons_def split: if_split_asm)
  with c done_c' show ?thesis by simp
qed

lemma runner_new_attempts: "runner_new a = Inr cfg \<Longrightarrow> 1 \<le> ra_max_attempts cfg \<and> ra_max_attempts cfg \<le> 8"
  by (auto simp: runner_new_def require_def args_valid_def result_simps backgammon_runner.defs runner_args.defs DEFAULT_ATTEMPT_HARD_CEILING_def
      split: if_split_asm)


lemma funded_before:
  "funded allowed (xs @ Ran_Worker n r # ys) \<Longrightarrow>
     allowed = Some n \<and> (\<forall>k. Ran_Gates k \<notin> set xs)
     \<or> (\<exists>us vs. xs = us @ Asked_Budget n Allow # vs \<and> (\<forall>k. Ran_Gates k \<notin> set vs))"
proof (induction xs arbitrary: allowed)
  case Nil
  then show ?case by simp
next
  case (Cons x xs)
  show ?case
  proof (cases x)
    case (Asked_Budget m d)
    with Cons.prems have "funded (if d = Allow then Some m else None) (xs @ Ran_Worker n r # ys)" by simp
    from Cons.IH [OF this] show ?thesis
    proof
      assume now: "(if d = Allow then Some m else None) = Some n \<and> (\<forall>k. Ran_Gates k \<notin> set xs)"
      then have "m = n" "d = Allow" by (auto split: if_split_asm)
      with now have "x # xs = [] @ Asked_Budget n Allow # xs \<and> (\<forall>k. Ran_Gates k \<notin> set xs)"
        by (simp add: Asked_Budget)
      then show ?thesis by blast
    next
      assume "\<exists>us vs. xs = us @ Asked_Budget n Allow # vs \<and> (\<forall>k. Ran_Gates k \<notin> set vs)"
      then show ?thesis by (metis append_Cons)
    qed
  next
    case (Ran_Worker m r')
    have f: "funded allowed (xs @ Ran_Worker n r # ys)" using Cons.prems by (auto simp: Ran_Worker)
    from Cons.IH [OF f] show ?thesis
    proof
      assume "\<exists>us vs. xs = us @ Asked_Budget n Allow # vs \<and> (\<forall>k. Ran_Gates k \<notin> set vs)"
      then show ?thesis by (metis append_Cons)
    qed (simp add: Ran_Worker)
  next
    case (Ran_Gates m)
    with Cons.prems have f: "funded None (xs @ Ran_Worker n r # ys)" by simp
    from Cons.IH [OF f] show ?thesis by (metis append_Cons option.distinct(1))
  qed
qed

text \<open>C11. No worker runs unfunded: every run of the worker for an attempt comes after the budget was asked
  for that very attempt and allowed it, with no gate run in between, whatever the worker, the
  gates and the checkpoint do.\<close>

theorem no_run_without_budget:
  assumes "runner_new args = Inr cfg" and "run_attempts rp cfg env = Inr c"
    and "cl_actions c = xs @ Ran_Worker n r # ys"
  shows "\<exists>us vs. xs = us @ Asked_Budget n Allow # vs \<and> (\<forall>k. Ran_Gates k \<notin> set vs)"
proof -
  have "funded None (cl_actions c)"
    using run_attempts_done [OF _ assms(2)] runner_new_attempts [OF assms(1)] by (auto simp: cell_done_def)
  from funded_before [OF this [unfolded assms(3)]] show ?thesis by simp
qed

section \<open>The totals\<close>

text \<open>The totals of a cell against the runs it made.\<close>

definition metered :: "cell \<Rightarrow> bool" where
  "metered c \<longleftrightarrow> (let rs = runs_of (cl_actions c) in
     cl_cell_cost_usd c = sum_list (map rs_cost_usd rs)
     \<and> cl_input_tokens c = sum_list (map rs_input_tokens rs)
     \<and> cl_output_tokens c = sum_list (map (\<lambda>r. rs_output_tokens r + rs_reasoning_tokens r) rs)
     \<and> cl_turns c = sum_list (map rs_turns rs)
     \<and> cl_truncations c = sum_list (map rs_truncations rs)
     \<and> length (cl_turn_anomalies c) = sum_list (map (\<lambda>r. length (rs_turn_anomalies r)) rs)
     \<and> cl_unmetered_turns c = sum_list (map rs_unmetered_turns rs))"

lemma runs_of_snoc [simp]:
  "runs_of (as @ [Ran_Worker n r]) = runs_of as @ [r]" "runs_of (as @ [Asked_Budget n d]) = runs_of as"
  "runs_of (as @ [Ran_Gates n]) = runs_of as"
  by (simp_all add: runs_of_def List.map_filter_def)

lemma metered_ops:
  "metered (end_cell v g r c) = metered c" "metered (on_last_report f c) = metered c"
  "metered (take_session st c) = metered c" "metered (add_report rep c) = metered c"
  "metered (act (Asked_Budget n d) c) = metered c" "metered (act (Ran_Gates n) c) = metered c"
  "metered (c\<lparr>cl_final_report := fr\<rparr>) = metered c" "metered (c\<lparr>cl_termination_reason := tr\<rparr>) = metered c"
  "metered (c\<lparr>cl_attempt_costs_usd := u, cl_observed_attempt_costs := w\<rparr>) = metered c"
  "metered (c\<lparr>cl_worker_exit_annot := an\<rparr>) = metered c" "metered (c\<lparr>cl_resume_count := n1\<rparr>) = metered c"
  "metered (c\<lparr>cl_attempt_costs_usd := u\<rparr>) = metered c"
  "metered (c\<lparr>cl_attempt_costs_usd := u, cl_observed_attempt_costs := w, cl_session_id := sid\<rparr>) = metered c"
  "metered (c\<lparr>cl_attempt_costs_usd := u, cl_observed_attempt_costs := w, cl_session_id := sid,
       cl_resume_count := n1\<rparr>) = metered c"
  by (simp_all add: metered_def end_cell_def on_last_report_def take_session_def add_report_def act_def Let_def)

lemma metered_mark: "metered (mark_harness_resume c) = metered c"
  by (simp add: metered_def mark_harness_resume_def Let_def)

lemma metered_absorb: "metered c \<Longrightarrow> metered (absorb_run n r c)"
  by (simp add: metered_def absorb_run_def act_def Let_def)

lemma metered_ended: "ended_by_run r conformed c = Some c' \<Longrightarrow> metered c' = metered c"
  by (auto simp: ended_by_run_def metered_ops split: if_split_asm)

lemma metered_next_attempt:
  assumes "metered c" and "next_attempt cfg env k conformed c = (c', left)"
  shows "metered c'"
proof -
  have pass: "metered c2" if "verdict_pass env k conformed c1 = (c2, left1, cost)" "metered c1" for c1 c2 left1 cost
    using that
    by (auto simp: verdict_pass_def Let_def metered_ops metered_mark dest!: metered_ended
        intro!: metered_absorb split: if_split_asm option.split_asm)
  have feed: "metered c2" if "feedback env k conformed cost c1 = (c2, left1)" "metered c1" for c1 c2 left1 cost
    using that
    by (auto simp: feedback_def Let_def metered_ops metered_mark dest!: metered_ended
        intro!: metered_absorb split: option.split_asm)
  show ?thesis
    using assms
    by (auto simp: next_attempt_def Let_def metered_ops dest!: pass feed
        split: budget_decision.split_asm if_split_asm prod.split_asm)
qed

lemma metered_attempt_step:
  assumes "metered c" and "attempt_step rp cfg env k c = Inr (c', left)"
  shows "metered c'"
proof -
  have "metered (fst (after_gates rp cfg env k r c1))" if "metered c1" for r c1
  proof -
    obtain c2 left2 where na: "next_attempt cfg env k (report_conformed r)
        (add_report (gate_attempt_report rp k r c1) (c1\<lparr>cl_final_report := r\<rparr>)) = (c2, left2)" by fastforce
    have "metered c2" by (rule metered_next_attempt [OF _ na]) (simp add: metered_ops that)
    then show ?thesis by (simp add: after_gates_def Let_def na metered_ops that)
  qed
  from this [of "act (Ran_Gates k) c"] assms show ?thesis
    by (auto simp: attempt_step_def Let_def metered_ops split: gate_outcome.split_asm)
      (metis fst_conv)
qed

lemma metered_loop:
  "attempt_loop rp cfg env ks c = Inr c' \<Longrightarrow> metered c \<Longrightarrow> metered c'"
proof (induction ks arbitrary: c)
  case (Cons k ks)
  then obtain c1 left where s: "attempt_step rp cfg env k c = Inr (c1, left)"
    by (cases "attempt_step rp cfg env k c") auto
  from metered_attempt_step [OF Cons.prems(2) s] have "metered c1" .
  with Cons s show ?case by (auto split: if_split_asm)
qed simp


section \<open>Resuming\<close>

text \<open>The runs up to the \<open>n\<close>-th joined into one.\<close>

definition joined :: "(nat \<Rightarrow> run_stats) \<Rightarrow> run_stats \<Rightarrow> nat \<Rightarrow> nat \<Rightarrow> run_stats" where
  "joined run g k n = foldl (\<lambda>g i. merge_stats g (run i) i) g [Suc k ..< Suc n]"

lemma joined_here [simp]: "joined run g k k = g"
  by (simp add: joined_def)

lemma joined_step: "k < n \<Longrightarrow> joined run g k n = joined run (merge_stats g (run (Suc k)) (Suc k)) (Suc k) n"
  by (simp add: joined_def upt_rec)

lemma joined_Suc: "joined run g 0 (Suc n) = merge_stats (joined run g 0 n) (run (Suc n)) (Suc n)"
  by (simp add: joined_def)

lemma text_or_truthy [simp]: "truthy_text (text_or a b) \<longleftrightarrow> truthy_text a \<or> truthy_text b"
  by (simp add: text_or_def)

lemma merge_session [simp]: "rs_session_id (merge_stats g r k) = text_or (rs_session_id r) (rs_session_id g)"
  by (simp add: merge_stats_def)

lemma zero_tool_loop_result:
  assumes "zero_tool_loop run fb k g = Some hn"
  shows "truthy_text (rs_session_id g) \<or> truthy_text fb \<Longrightarrow>
     k \<le> snd hn \<and> \<not> rs_terminal_zero_tool_turn (run (snd hn))
     \<and> (\<forall>i \<in> {k ..< snd hn}. rs_terminal_zero_tool_turn (run i)) \<and> fst hn = joined run g k (snd hn)"
  using assms
proof (induction rule: zero_tool_loop.raw_induct [rotated, consumes 1, case_names step])
  case (step rec run fb k g hn)
  show ?case
  proof (cases "rs_terminal_zero_tool_turn (run k)")
    case False
    with step(2) show ?thesis by auto
  next
    case True
    with step(2,3) have "rec run fb (Suc k) (merge_stats g (run (Suc k)) (Suc k)) = Some hn" by auto
    from step(1) [OF this] step(3) have *: "Suc k \<le> snd hn" "\<not> rs_terminal_zero_tool_turn (run (snd hn))"
      "\<forall>i \<in> {Suc k ..< snd hn}. rs_terminal_zero_tool_turn (run i)"
      "fst hn = joined run (merge_stats g (run (Suc k)) (Suc k)) (Suc k) (snd hn)" by auto
    have "rs_terminal_zero_tool_turn (run i)" if "i \<in> {k ..< snd hn}" for i
      using that True *(3) by (cases "i = k") auto
    with * show ?thesis by (simp add: joined_step)
  qed
qed

lemma zero_tool_loop_returns:
  assumes "\<not> rs_terminal_zero_tool_turn (run n)" and "k \<le> n"
  shows "\<exists>hn. zero_tool_loop run fb k g = Some hn"
  using assms(2)
proof (induction "n - k" arbitrary: k g)
  case 0
  then show ?case using assms(1) by (subst zero_tool_loop.simps) (auto simp: le_antisym)
next
  case (Suc d)
  then have "\<exists>hn. zero_tool_loop run fb (Suc k) (merge_stats g (run (Suc k)) (Suc k)) = Some hn" by simp
  then show ?case by (subst zero_tool_loop.simps) simp
qed

lemma joined_totals:
  "rs_cost_usd (joined run (run 0) 0 n) = (\<Sum>i\<le>n. rs_cost_usd (run i))
   \<and> rs_input_tokens (joined run (run 0) 0 n) = (\<Sum>i\<le>n. rs_input_tokens (run i))
   \<and> rs_output_tokens (joined run (run 0) 0 n) = (\<Sum>i\<le>n. rs_output_tokens (run i))
   \<and> rs_reasoning_tokens (joined run (run 0) 0 n) = (\<Sum>i\<le>n. rs_reasoning_tokens (run i))
   \<and> rs_turns (joined run (run 0) 0 n) = (\<Sum>i\<le>n. rs_turns (run i))
   \<and> rs_zero_tool_turns (joined run (run 0) 0 n) = (\<Sum>i\<le>n. rs_zero_tool_turns (run i))
   \<and> rs_turn_anomalies (joined run (run 0) 0 n) = concat (map (\<lambda>i. rs_turn_anomalies (run i)) [0 ..< Suc n])
   \<and> rs_exit_code (joined run (run 0) 0 n) = rs_exit_code (run n)
   \<and> rs_terminal_zero_tool_turn (joined run (run 0) 0 n) = rs_terminal_zero_tool_turn (run n)
   \<and> rs_budget_stop_detected (joined run (run 0) 0 n) = (\<exists>i\<le>n. rs_budget_stop_detected (run i))"
proof (induction n)
  case 0
  then show ?case by simp
next
  case (Suc n)
  then show ?case by (auto simp: joined_Suc merge_stats_def le_Suc_eq)
qed

lemma resumes_characterised:
  assumes "truthy_text (rs_session_id (run 0)) \<or> truthy_text fb"
  shows "run_with_zero_tool_resumes run fb = None \<longleftrightarrow> (\<forall>n. rs_terminal_zero_tool_turn (run n))"
    and "run_with_zero_tool_resumes run fb = Some r \<Longrightarrow>
      \<exists>n. \<not> rs_terminal_zero_tool_turn (run n) \<and> (\<forall>i<n. rs_terminal_zero_tool_turn (run i))
        \<and> r = (joined run (run 0) 0 n)\<lparr>rs_zero_tool_resumes := int n, rs_zero_tool_turn_honest_fail := False\<rparr>"
proof -
  show some: "\<exists>n. \<not> rs_terminal_zero_tool_turn (run n) \<and> (\<forall>i<n. rs_terminal_zero_tool_turn (run i))
        \<and> r = (joined run (run 0) 0 n)\<lparr>rs_zero_tool_resumes := int n, rs_zero_tool_turn_honest_fail := False\<rparr>"
    if returned: "run_with_zero_tool_resumes run fb = Some r" for r
  proof -
    from returned obtain h n where l: "zero_tool_loop run fb 0 (run 0) = Some (h, n)"
      and r: "r = h\<lparr>rs_zero_tool_resumes := int n, rs_zero_tool_turn_honest_fail := rs_terminal_zero_tool_turn h\<rparr>"
      by (auto simp: run_with_zero_tool_resumes_def)
    from zero_tool_loop_result [OF l] assms have *: "\<not> rs_terminal_zero_tool_turn (run n)"
      "\<forall>i<n. rs_terminal_zero_tool_turn (run i)" "h = joined run (run 0) 0 n" by auto
    then have "r = (joined run (run 0) 0 n)\<lparr>rs_zero_tool_resumes := int n, rs_zero_tool_turn_honest_fail := False\<rparr>"
      by (simp add: r joined_totals)
    with * show ?thesis by blast
  qed
  show "run_with_zero_tool_resumes run fb = None \<longleftrightarrow> (\<forall>n. rs_terminal_zero_tool_turn (run n))"
  proof (cases "run_with_zero_tool_resumes run fb")
    case None
    then have "rs_terminal_zero_tool_turn (run n)" for n
      using zero_tool_loop_returns [of run n 0 fb "run 0"] by (auto simp: run_with_zero_tool_resumes_def)
    with None show ?thesis by simp
  next
    case (Some r)
    with some [OF Some] show ?thesis by auto
  qed
qed

text \<open>C25. Nudging a worker that ends its turn without a tool has no bound: with a session to resume,
  the loop returns exactly when some process ends otherwise, and then reports the sums over the
  processes up to the first such one, its exit code, and no honest failure.\<close>

theorem resumed_until_it_works:
  assumes "truthy_text (rs_session_id (run 0)) \<or> truthy_text fb"
  shows "(run_with_zero_tool_resumes run fb = None \<longleftrightarrow> (\<forall>n. rs_terminal_zero_tool_turn (run n)))
     \<and> (\<forall>r. run_with_zero_tool_resumes run fb = Some r \<longrightarrow>
         (\<exists>n. rs_zero_tool_resumes r = int n \<and> \<not> rs_terminal_zero_tool_turn (run n)
           \<and> (\<forall>i<n. rs_terminal_zero_tool_turn (run i))
           \<and> \<not> rs_zero_tool_turn_honest_fail r
           \<and> rs_cost_usd r = (\<Sum>i\<le>n. rs_cost_usd (run i))
           \<and> rs_input_tokens r = (\<Sum>i\<le>n. rs_input_tokens (run i))
           \<and> rs_output_tokens r = (\<Sum>i\<le>n. rs_output_tokens (run i))
           \<and> rs_turns r = (\<Sum>i\<le>n. rs_turns (run i))
           \<and> rs_exit_code r = rs_exit_code (run n)
           \<and> (rs_budget_stop_detected r \<longleftrightarrow> (\<exists>i\<le>n. rs_budget_stop_detected (run i)))))"
  using resumes_characterised [where run = run and fb = fb, OF assms] by (fastforce simp: joined_totals)

section \<open>A budget that stops the first run\<close>

text \<open>A cell that the budget stops before its first run does not end as a budget stop, unless its
  gates are green: without a session, the gate loop records the first red report as the
  harness's error, or as the end of its attempts when there is only one; no worker ran.\<close>

theorem first_budget_stop_is_relabelled:
  assumes "runner_new args = Inr cfg" and "ra_mock cfg = None"
    and "decide cfg env 1 cell_start = Budget_Stop"
    and "ce_gate env 1 = Gate_Report r" and "report_verdict rp r \<noteq> ''PASS''"
  shows "\<exists>c. run_attempts rp cfg env = Inr c \<and> runs_of (cl_actions c) = [] \<and> gates_run c = [1]
     \<and> cl_verdict c = ''FAIL''
     \<and> cl_termination_reason c
         = (if ra_max_attempts cfg = 1 then ''attempt_ceiling_reached'' else ''harness_error'')"
proof -
  note bounds = runner_new_attempts [OF assms(1)]
  then obtain later where numbers: "attempt_numbers cfg = 1 # later"
    by (simp add: attempt_numbers_def upt_rec)
  define c0 where "c0 = end_cell ''BUDGET_STOP'' (PStr ''BUDGET_STOP'')
      ''attempts_exhausted_by_budget'' (act (Asked_Budget 1 Budget_Stop) cell_start)"
  have first: "first_run cfg env cell_start = c0"
    using assms(2,3) by (simp add: first_run_def c0_def)
  define c1 where "c1 = add_report (gate_attempt_report rp (Suc 0) r (act (Ran_Gates (Suc 0)) c0))
      ((act (Ran_Gates (Suc 0)) c0)\<lparr>cl_final_report := r\<rparr>)"
  have c1: "cl_worker_exit_annot c1 = None" "cl_worker_killed_reason c1 = None" "cl_session_id c1 = None"
    "cl_actions c1 = [Asked_Budget 1 Budget_Stop, Ran_Gates 1]"
    by (simp_all add: c1_def c0_def cell_start_def end_cell_def act_def add_report_def)
  define why where "why = (if ra_max_attempts cfg = 1 then ''attempt_ceiling_reached'' else ''harness_error'')"
  have "after_gates rp cfg env 1 r (act (Ran_Gates 1) c0)
      = (end_cell ''FAIL'' (not_green (report_conformed r)) why c1, True)"
    using assms(2,5) bounds
    by (auto simp: after_gates_def c1_def [symmetric] c1 Let_def killed_for_cause_def annotated_reason_def
        truthy_text_def opt_or_def why_def)
  then have "attempt_step rp cfg env 1 c0 = Inr (end_cell ''FAIL'' (not_green (report_conformed r)) why c1, True)"
    using assms(4) by (simp add: attempt_step_def)
  then have "run_attempts rp cfg env = Inr (end_cell ''FAIL'' (not_green (report_conformed r)) why c1)"
    by (simp add: run_attempts_def numbers first why_def result_simps)
  then show ?thesis
    by (simp add: c1 why_def runs_of_def gates_run_def List.map_filter_simps)
qed

section \<open>Concrete cells\<close>

definition sample_cell_args :: runner_args where
  "sample_cell_args =
     \<lparr>ra_model = ''m'', ra_memory_mode = ''off'', ra_mock = None, ra_max_attempts = 3, ra_resume_budget = 1,
      ra_token_cap = 1, ra_run_timeout_s = 1, ra_gate_timeout_s = 1, ra_completion_grace_s = 1,
      ra_cost_limit_usd = None, ra_cost_target_usd = None, ra_max_output_tokens = None,
      ra_max_steps_per_attempt = None, ra_output_price_per_1m = None, ra_reasoning_effort = None\<rparr>"

definition sample_cfg :: backgammon_runner where
  "sample_cfg = runner_args.extend sample_cell_args (backgammon_runner.fields True 0 0 0)"

definition sample_run :: run_stats where
  "sample_run =
     \<lparr>rs_input_tokens = 3, rs_output_tokens = 2, rs_reasoning_tokens = 1, rs_turns = 1, rs_session_id = Some ''s'',
      rs_killed_reason = None, rs_exit_code = Some 0, rs_cost_usd = 1, rs_budget_stop_detected = False,
      rs_budget_stop_signature = None, rs_truncations = 0, rs_zero_tool_turns = 0,
      rs_terminal_zero_tool_turn = False, rs_zero_tool_resumes = 0, rs_zero_tool_turn_honest_fail = False,
      rs_resume_count = 0, rs_turn_anomalies = [], rs_unmetered_turns = 0, rs_unmetered_turn_wall_s = 0\<rparr>"

definition sample_cell_env :: "checkpoint_view \<Rightarrow> cell_env" where
  "sample_cell_env v =
     \<lparr>ce_checkpoint = (\<lambda>_. v), ce_initial = sample_run, ce_stream_incomplete = False,
      ce_gate = (\<lambda>k. Gate_Report [(''verdict'', PStr (if k = 2 then ''PASS'' else ''FAIL''))]),
      ce_compaction = (\<lambda>_. ''ok''), ce_pass_text = (\<lambda>_. []), ce_pass_run = (\<lambda>_. sample_run),
      ce_feedback_run = (\<lambda>_. sample_run)\<rparr>"

definition free_view :: checkpoint_view where
  "free_view = \<lparr>cv_env = [], cv_is_file = False, cv_read = (\<lambda>_. None)\<rparr>"

definition spent_view :: checkpoint_view where
  "spent_view = \<lparr>cv_env = ''p'', cv_is_file = True, cv_read = (\<lambda>_. Some (PDict
     [(''hard_cap_usd'', PFloat 1), (''accrued_actual_usd'', PFloat 2), (''committed_unproven_usd'', PFloat 0)]))\<rparr>"

lemma sample_cfg_new: "runner_new sample_cell_args = Inr sample_cfg"
  by (simp add: runner_new_def require_def args_valid_def opt_all_def sample_cell_args_def sample_cfg_def
      forecast_def result_simps runner_args.defs backgammon_runner.defs DEFAULT_ATTEMPT_HARD_CEILING_def partition_char_def)

lemma sample_cfg_sel [simp]:
  "ra_mock sample_cfg = None" "ra_max_attempts sample_cfg = 3" "ra_resume_budget sample_cfg = 1"
  "ra_cost_limit_usd sample_cfg = None" "rn_fallback_attempt_estimate_usd sample_cfg = 0"
  by (simp_all add: sample_cfg_def sample_cell_args_def runner_args.defs backgammon_runner.defs)

lemma sample_run_sel [simp]:
  "rs_session_id sample_run = Some ''s''" "rs_killed_reason sample_run = None" "rs_exit_code sample_run = Some 0"
  "rs_budget_stop_detected sample_run = False" "rs_zero_tool_turn_honest_fail sample_run = False"
  "rs_turn_anomalies sample_run = []" "rs_terminal_zero_tool_turn sample_run = False" "rs_cost_usd sample_run = 1"
  by (simp_all add: sample_run_def)

lemma free_decision: "decide sample_cfg (sample_cell_env free_view) k c = Allow"
  by (simp add: decide_def budget_decision_for_attempt_def sample_cell_env_def free_view_def)

lemma sample_env_sel [simp]:
  "ce_initial (sample_cell_env v) = sample_run" "ce_stream_incomplete (sample_cell_env v) = False"
  "ce_gate (sample_cell_env v) k = Gate_Report [(''verdict'', PStr (if k = 2 then ''PASS'' else ''FAIL''))]"
  "ce_pass_text (sample_cell_env v) gs = []" "ce_feedback_run (sample_cell_env v) k = sample_run"
  by (simp_all add: sample_cell_env_def)

lemma sample_verdict [simp]:
  "report_verdict rp [(''verdict'', PStr x)] = x" "report_conformed [(''verdict'', PStr x)] = False"
  by (simp_all add: report_verdict_def report_conformed_def dget_default_def)

lemma sample_cell_run:
  "\<exists>c. run_attempts (\<lambda>_. []) sample_cfg (sample_cell_env free_view) = Inr c
     \<and> cl_actions c = [Asked_Budget 1 Allow, Ran_Worker 1 sample_run, Ran_Gates 1,
                       Asked_Budget 2 Allow, Ran_Worker 2 sample_run, Ran_Gates 2]"
proof -
  have numbers: "attempt_numbers sample_cfg = [1, 2, 3]" by (simp add: attempt_numbers_def upt_rec)
  let ?env = "sample_cell_env free_view"
  define c1 where "c1 = first_run sample_cfg ?env cell_start"
  have c1: "cl_worker_exit_annot c1 = None" "cl_worker_killed_reason c1 = None" "cl_session_id c1 = Some ''s''"
    "cl_actions c1 = [Asked_Budget 1 Allow, Ran_Worker 1 sample_run]"
    by (simp_all add: c1_def first_run_def free_decision after_first_run_def absorb_run_def act_def cell_start_def
        bad_exit_def Let_def)
  define c2 where "c2 = fst (projr (attempt_step (\<lambda>_. []) sample_cfg ?env 1 c1))"
  have c2: "attempt_step (\<lambda>_. []) sample_cfg ?env 1 c1 = Inr (c2, False)"
    "cl_worker_exit_annot c2 = None" "cl_worker_killed_reason c2 = None"
    "cl_actions c2 = [Asked_Budget 1 Allow, Ran_Worker 1 sample_run, Ran_Gates 1,
        Asked_Budget 2 Allow, Ran_Worker 2 sample_run]"
    using c1
    by (simp_all add: c2_def attempt_step_def after_gates_def killed_for_cause_def truthy_text_def opt_or_def
        next_attempt_def free_decision verdict_pass_def feedback_def ended_by_run_def bad_exit_def Let_def)
  have "\<exists>c. attempt_step (\<lambda>_. []) sample_cfg ?env 2 c2 = Inr (end_cell ''PASS'' (PInt 1) ''gates_green'' c, True)
    \<and> cl_actions c = cl_actions c2 @ [Ran_Gates 2]"
    by (rule exI [of _ "add_report (gate_attempt_report (\<lambda>_. []) 2 [(''verdict'', PStr ''PASS'')] (act (Ran_Gates 2) c2))
          (act (Ran_Gates 2) c2\<lparr>cl_final_report := [(''verdict'', PStr ''PASS'')]\<rparr>)"])
      (simp add: attempt_step_def after_gates_def Let_def)
  then obtain c3 where c3: "attempt_step (\<lambda>_. []) sample_cfg ?env 2 c2
      = Inr (end_cell ''PASS'' (PInt 1) ''gates_green'' c3, True)"
    "cl_actions c3 = cl_actions c2 @ [Ran_Gates 2]" by blast
  show ?thesis
    using c2(1) c3 by (simp add: run_attempts_def numbers c1_def [symmetric] c2(4) result_simps)
qed


theorem no_run_without_budget_witness:
  "\<exists>c us vs. run_attempts (\<lambda>_. []) sample_cfg (sample_cell_env free_view) = Inr c
     \<and> cl_actions c = us @ Asked_Budget 2 Allow # vs @ [Ran_Worker 2 sample_run, Ran_Gates 2]"
proof -
  from sample_cell_run obtain c where run: "run_attempts (\<lambda>_. []) sample_cfg (sample_cell_env free_view) = Inr c"
    and acts: "cl_actions c = [Asked_Budget 1 Allow, Ran_Worker 1 sample_run, Ran_Gates 1, Asked_Budget 2 Allow]
       @ Ran_Worker 2 sample_run # [Ran_Gates 2]" by auto
  from no_run_without_budget [OF sample_cfg_new run acts] obtain us vs where
    "[Asked_Budget 1 Allow, Ran_Worker 1 sample_run, Ran_Gates 1, Asked_Budget 2 Allow]
       = us @ Asked_Budget 2 Allow # vs" by blast
  with run acts have "cl_actions c = us @ Asked_Budget 2 Allow # vs @ [Ran_Worker 2 sample_run, Ran_Gates 2]"
    by simp
  with run show ?thesis by blast
qed


theorem resumed_until_it_works_witness:
  "\<exists>r. run_with_zero_tool_resumes (\<lambda>i. sample_run\<lparr>rs_terminal_zero_tool_turn := i < 2\<rparr>) None = Some r
     \<and> rs_zero_tool_resumes r = 2 \<and> rs_cost_usd r = 3"
proof -
  let ?run = "\<lambda>i::nat. sample_run\<lparr>rs_terminal_zero_tool_turn := i < 2\<rparr>"
  have session: "truthy_text (rs_session_id (?run 0)) \<or> truthy_text None" by (simp add: truthy_text_def opt_or_def)
  note result = resumed_until_it_works [where run = ?run and fb = None, OF session]
  have "\<not> (\<forall>n. rs_terminal_zero_tool_turn (?run n))" by (simp add: exI [of _ 2])
  with result obtain r where r: "run_with_zero_tool_resumes ?run None = Some r" by auto
  with result obtain n where n: "rs_zero_tool_resumes r = int n" "\<not> n < 2" "\<forall>i<n. i < 2"
    "rs_cost_usd r = (\<Sum>i\<le>n. rs_cost_usd (?run i))" by auto
  from n(2,3) have "n = 2" by (cases "2 < n") auto
  with r n show ?thesis by simp
qed

theorem first_budget_stop_is_relabelled_witness:
  "\<exists>c. run_attempts (\<lambda>_. []) sample_cfg (sample_cell_env spent_view) = Inr c
     \<and> cl_verdict c = ''FAIL'' \<and> cl_termination_reason c = ''harness_error''"
proof -
  have "strip ''p'' = ''p''" by code_simp
  then have stop: "decide sample_cfg (sample_cell_env spent_view) 1 cell_start = Budget_Stop"
    by (simp add: decide_def budget_decision_for_attempt_def sample_cell_env_def spent_view_def
        read_proxy_budget_snapshot_def snapshot_try_def snapshot_of_payload_def dget_item_def dget_default_def
        result_simps estimate_full_attempt_cost_usd_def cell_start_def)
  have red: "ce_gate (sample_cell_env spent_view) 1 = Gate_Report [(''verdict'', PStr ''FAIL'')]" by simp
  have "report_verdict (\<lambda>_. []) [(''verdict'', PStr ''FAIL'')] \<noteq> ''PASS''" by simp
  from first_budget_stop_is_relabelled [OF sample_cfg_new sample_cfg_sel(1) stop red this]
  show ?thesis by auto
qed

end
