(* ===== verification/Session_Runner.thy ===== *)
theory Session_Runner
  imports Run_Artifacts Cell_Attempts Cumulative_Sequencer
begin

text \<open>
  \<open>RealSessionRunner\<close> of \<open>scripts/run_cumulative.py\<close>: what happens around the run of one cell, from the
  labels of the session to the records in the status stream that the scorecard is later built from.
  The result of \<open>run_cell\<close> is read attribute by attribute, so it is kept as the mapping of its
  attributes; \<open>result_attrs\<close> is that mapping for a result of \<open>Cell_Attempts\<close>.  The spend database, the
  logs of the relay, \<open>git\<close> and the disk are parameters, answers collected in \<open>session_env\<close>.
\<close>

section \<open>The identity of the served model\<close>

text \<open>One line of the relay's log: the time stamp and the served model of a request that was not answered
  under the very name it asked for.\<close>

definition served_row :: "(string \<Rightarrow> pyval option) \<Rightarrow> string \<Rightarrow> (string \<times> string) option" where
  "served_row loads line =
     (let s = strip line in
      if s = [] then None
      else case loads s of
        Some (PDict row) \<Rightarrow>
          (if dget row ''type'' \<noteq> PStr ''request'' then None
           else case dget row ''upstreamModel'' of
             PStr u \<Rightarrow>
               (if strip u = [] \<or> PStr (strip u) = dget row ''requestedModel'' then None
                else case dget row ''ts'' of PStr ts \<Rightarrow> Some (ts, strip u) | _ \<Rightarrow> None)
           | _ \<Rightarrow> None)
      | _ \<Rightarrow> None)"

definition newer_served :: "string \<times> string \<Rightarrow> (string \<times> string) option \<Rightarrow> (string \<times> string) option" where
  "newer_served row latest = (case latest of
     None \<Rightarrow> Some row
   | Some (ts, _) \<Rightarrow> if ts < fst row then Some row else latest)"

text \<open>The logs of today and, early in the day, of yesterday; a day whose log cannot be opened is \<open>None\<close>.\<close>

definition read_proxy_served_identity ::
  "(string \<Rightarrow> pyval option) \<Rightarrow> string list option list \<Rightarrow> string option" where
  "read_proxy_served_identity loads logs =
     map_option snd
       (fold newer_served (List.map_filter (served_row loads) (concat (map (\<lambda>l. opt_or l []) logs))) None)"

text \<open>\<open>_observe_served_model\<close>: the relay first, then the spend database, whose failure is no observation.\<close>

definition served_dict :: "string \<Rightarrow> string option \<Rightarrow> pyval" where
  "served_dict requested served =
     PDict [(''model'', PStr requested), (''upstream_model'', of_opt PStr served)]"

definition observe_served_model ::
  "(string \<Rightarrow> pyval option) \<Rightarrow> string list option list \<Rightarrow> py_exc + (string \<times> string option) list
   \<Rightarrow> pyval \<Rightarrow> string \<Rightarrow> string option \<times> pyval" where
  "observe_served_model loads logs identities session_id requested =
     (if strip (str_or_empty session_id) = [] then (None, PNone)
      else case read_proxy_served_identity loads logs of
        Some served \<Rightarrow> (Some served, served_dict requested (Some served))
      | None \<Rightarrow>
        (case identities of
           Inr ((mdl, up) # _) \<Rightarrow>
             (let u = (case up of None \<Rightarrow> [] | Some t \<Rightarrow> strip t);
                  served = (if u \<noteq> [] then Some u else if strip mdl \<noteq> [] then Some (strip mdl) else None)
              in (served, served_dict requested served))
         | _ \<Rightarrow> (None, PNone)))"

section \<open>Contention\<close>

record covariates =
  cv_http_429_count :: int
  cv_http_402_count :: int
  cv_retry_count :: int
  cv_upstream_error_count :: int
  cv_max_request_ms :: "int option"
  cv_median_request_ms :: "int option"
  cv_wall_seconds :: "real option"
  cv_wall_near_timeout :: bool

definition empty_covariates :: "int \<Rightarrow> real option \<Rightarrow> bool \<Rightarrow> covariates" where
  "empty_covariates retry wall near =
     \<lparr>cv_http_429_count = 0, cv_http_402_count = 0, cv_retry_count = retry, cv_upstream_error_count = 0,
      cv_max_request_ms = None, cv_median_request_ms = None, cv_wall_seconds = wall,
      cv_wall_near_timeout = near\<rparr>"

text \<open>\<open>int(statistics.median(xs))\<close>\<close>

definition median_int :: "int list \<Rightarrow> int option" where
  "median_int xs =
     (let s = sort xs; n = length s in
      if n = 0 then None
      else if odd n then Some (s ! (n div 2))
      else Some (trunc_real (of_int (s ! (n div 2 - 1) + s ! (n div 2)) / 2)))"

record meter_row =
  mr_429 :: int
  mr_402 :: int
  mr_errors :: int
  mr_max_ms :: "int option"
  mr_request_ms :: "int list"

text \<open>\<open>SpendMeter.contention_covariates\<close>: no query without a session; a query without a row counts nothing.\<close>

definition contention_covariates ::
  "py_exc + meter_row option \<Rightarrow> pyval \<Rightarrow> int \<Rightarrow> real option \<Rightarrow> bool \<Rightarrow> py_exc + covariates" where
  "contention_covariates query session_id retry wall near =
     (if \<not> truthy session_id then Inr (empty_covariates retry wall near)
      else bind_result query (\<lambda>row.
        Inr (case row of
          None \<Rightarrow> empty_covariates retry wall near
        | Some r \<Rightarrow>
            \<lparr>cv_http_429_count = mr_429 r, cv_http_402_count = mr_402 r, cv_retry_count = retry,
             cv_upstream_error_count = mr_errors r, cv_max_request_ms = mr_max_ms r,
             cv_median_request_ms = median_int (mr_request_ms r), cv_wall_seconds = wall,
             cv_wall_near_timeout = near\<rparr>)))"

definition covariates_attrs :: "covariates \<Rightarrow> pydict" where
  "covariates_attrs c =
     [(''http_429_count'', PInt (cv_http_429_count c)), (''http_402_count'', PInt (cv_http_402_count c)),
      (''retry_count'', PInt (cv_retry_count c)),
      (''upstream_error_count'', PInt (cv_upstream_error_count c)),
      (''max_request_ms'', of_opt PInt (cv_max_request_ms c)),
      (''median_request_ms'', of_opt PInt (cv_median_request_ms c)),
      (''wall_seconds'', of_opt PFloat (cv_wall_seconds c)),
      (''wall_near_timeout'', PBool (cv_wall_near_timeout c))]"

definition wall_near_timeout :: "real option \<Rightarrow> int option \<Rightarrow> bool" where
  "wall_near_timeout wall limit = (case (wall, limit) of
     (Some w, Some l) \<Rightarrow> 98 / 100 * of_int l \<le> w
   | _ \<Rightarrow> False)"

definition populate_contention ::
  "py_exc + meter_row option \<Rightarrow> int option \<Rightarrow> pydict \<Rightarrow> py_exc + pydict" where
  "populate_contention query limit r =
     bind_result (int_or_zero (dget_default r ''zero_tool_resumes'' (PInt 0))) (\<lambda>retry.
     bind_result (opt_float (dget r ''wall_seconds'')) (\<lambda>wall.
       let near = wall_near_timeout wall limit;
           c = (case contention_covariates query (dget r ''session_id'') retry wall near of
                  Inr c \<Rightarrow> c | Inl _ \<Rightarrow> empty_covariates retry wall near)
       in Inr (AList.update ''contention'' (PDict (covariates_attrs c)) r)))"

section \<open>The result of a cell as the runner reads it\<close>

definition report_attrs :: "attempt_report \<Rightarrow> pydict" where
  "report_attrs a =
     [(''attempt'', PInt (int (ar_attempt a))), (''verdict'', PStr (ar_verdict a)),
      (''conformed'', PBool (ar_conformed a)), (''n_problems'', PInt (int (ar_n_problems a))),
      (''failed_gates'', PList (map PStr (ar_failed_gates a))),
      (''gate_results'', opt_or (ar_gate_results a) PNone),
      (''gate_totals'', opt_or (ar_gate_totals a) PNone)]
     @ (if ar_gate_timeout a then [(''gate_timeout'', PBool True)] else [])
     @ [(''attempt_cost_usd'', PFloat (ar_attempt_cost_usd a)), (''parity_pending'', PBool True)]
     @ (case ar_boundary_compaction a of None \<Rightarrow> [] | Some v \<Rightarrow> [(''boundary_compaction'', PStr v)])
     @ (if ar_honest_fail a then [(''zero_tool_turn_honest_fail'', PBool True)] else [])
     @ (case ar_termination_reason a of None \<Rightarrow> [] | Some v \<Rightarrow> [(''termination_reason'', PStr v)])"

definition anomaly_attrs :: "turn_anomaly \<Rightarrow> pydict" where
  "anomaly_attrs a =
     [(''schema_version'', PInt 1), (''phase'', PStr (ta_phase a)), (''turn_index'', PInt (ta_turn_index a)),
      (''terminal'', PStr (ta_terminal a)), (''reason'', PStr (ta_reason a)),
      (''tool_uses'', PInt (ta_tool_uses a)), (''file_writes'', PInt (ta_file_writes a)),
      (''input_tokens'', PInt (ta_input_tokens a)), (''output_tokens'', PInt (ta_output_tokens a)),
      (''reasoning_tokens'', PInt (ta_reasoning_tokens a)), (''cost_usd'', PFloat (ta_cost_usd a)),
      (''tokens_unmetered'', PBool (ta_tokens_unmetered a)),
      (''wall_seconds'', of_opt PFloat (ta_wall_seconds a)), (''retried'', PBool (ta_retried a)),
      (''retry_kind'', of_opt PStr (ta_retry_kind a)), (''session_id'', of_opt PStr (ta_session_id a))]"

text \<open>The attributes a cell result gets from the model of the cell; \<open>other\<close> holds those it does not
  compute: wall time, delivery, the telemetry scans, paths and labels.\<close>

definition result_attrs :: "cell_result \<Rightarrow> pydict \<Rightarrow> pydict" where
  "result_attrs r other =
     [(''verdict'', PStr (cr_verdict r)), (''attempts_to_green'', cr_attempts_to_green r),
      (''termination_reason'', PStr (cr_termination_reason r)), (''conformed'', PBool (cr_conformed r)),
      (''input_tokens'', PInt (cr_input_tokens r)), (''output_tokens'', PInt (cr_output_tokens r)),
      (''turns'', PInt (cr_turns r)),
      (''attempt_reports'', PList (map (\<lambda>a. PDict (report_attrs a)) (cr_attempt_reports r))),
      (''session_id'', of_opt PStr (cr_session_id r)), (''wall_cost_usd'', PFloat (cr_wall_cost_usd r)),
      (''cheated'', PBool (cr_cheated r)),
      (''problems_before'', of_opt (\<lambda>n. PInt (int n)) (cr_problems_before r)),
      (''truncations'', PInt (cr_truncations r)), (''zero_tool_turns'', PInt (cr_zero_tool_turns r)),
      (''zero_tool_resumes'', PInt (cr_zero_tool_resumes r)),
      (''zero_tool_turn_honest_fails'', PInt (cr_zero_tool_turn_honest_fails r)),
      (''transport_resume_count'', PInt (cr_transport_resume_count r)),
      (''turn_anomalies'', PList (map (\<lambda>a. PDict (anomaly_attrs a)) (cr_turn_anomalies r))),
      (''truncated_turns'', PInt (int (cr_truncated_turns r))),
      (''truncated_turns_retried'', PInt (int (cr_truncated_turns_retried r))),
      (''guard_aborted_turns'', PInt (int (cr_guard_aborted_turns r))),
      (''finalize_timeout_turns'', PInt (int (cr_finalize_timeout_turns r))),
      (''observation_lost_turns'', PInt (int (cr_observation_lost_turns r))),
      (''unmetered_turns'', PInt (cr_unmetered_turns r)),
      (''unmetered_turn_wall_s'', PFloat (cr_unmetered_turn_wall_s r))] @ other"

section \<open>The records of the status stream\<close>

definition float_or_zero :: "pyval \<Rightarrow> py_exc + real" where
  "float_or_zero v = (if truthy v then py_float v else Inr 0)"

text \<open>\<open>list(v or [])\<close>\<close>

definition list_or_empty :: "pyval \<Rightarrow> py_exc + pyval list" where
  "list_or_empty v =
     (if \<not> truthy v then Inr []
      else case v of
        PList xs \<Rightarrow> Inr xs
      | PStr s \<Rightarrow> Inr (map (\<lambda>c. PStr [c]) s)
      | PDict d \<Rightarrow> Inr (map (\<lambda>p. PStr (fst p)) d)
      | _ \<Rightarrow> Inl PyTypeError)"

definition session_fp_or_none :: "(string \<Rightarrow> string) \<Rightarrow> pyval \<Rightarrow> pyval" where
  "session_fp_or_none fp v = (case v of PStr s \<Rightarrow> if strip s = [] then PNone else PStr (fp s) | _ \<Rightarrow> PNone)"

definition status_base ::
  "(pyval \<Rightarrow> string) \<Rightarrow> (string \<Rightarrow> string) \<Rightarrow> string \<Rightarrow> session_record \<Rightarrow> pydict \<Rightarrow> pyval \<Rightarrow> py_exc + pydict" where
  "status_base rp fp org session r served =
     (let p = progress_to_dict (progress_from_cell_result rp (PDict r) PNone);
          count = (\<lambda>k. int_or_zero (dget_default r k (PInt 0)))
      in bind_result (count ''input_tokens'') (\<lambda>input.
         bind_result (count ''output_tokens'') (\<lambda>output.
         bind_result (count ''truncations'') (\<lambda>truncations.
         bind_result (count ''truncated_turns'') (\<lambda>truncated.
         bind_result (count ''truncated_turns_retried'') (\<lambda>retried.
         bind_result (count ''guard_aborted_turns'') (\<lambda>aborted.
         bind_result (count ''finalize_timeout_turns'') (\<lambda>finalize.
         bind_result (count ''observation_lost_turns'') (\<lambda>lost.
         bind_result (count ''unmetered_turns'') (\<lambda>unmetered.
         bind_result (float_or_zero (dget_default r ''unmetered_turn_wall_s'' (PFloat 0))) (\<lambda>wall.
           Inr [(''type'', PStr ''attempt''), (''schema_version'', PInt 1),
             (''sequence_index'', PInt (sr_sequence_index session)),
             (''memory_mode'', PStr (sr_memory_mode session)), (''org_id'', PStr org),
             (''served_model'', served), (''progress'', PDict p),
             (''work_input_tokens'', PInt input), (''work_output_tokens'', PInt output),
             (''work_total_tokens'', PInt (input + output)),
             (''injected_block_est_tokens'', dget p ''injected_block_est_tokens''),
             (''injected_count'', dget r ''injected_count''),
             (''injected_block_chars'', dget r ''injected_block_chars''),
             (''consumer_injected_count'', dget p ''consumer_injected_count''),
             (''extraction_state'', PStr ''unknown''), (''extraction_candidate_count'', PNone),
             (''terminal_outcome'', PBool (str_or_blank rp (dget_default r ''verdict'' (PStr [])) = ''PASS'')),
             (''terminal_reason'', PStr (str_or_blank rp (dget_default r ''termination_reason'' (PStr [])))),
             (''length_truncations'', PInt truncations), (''truncated_turns'', PInt truncated),
             (''truncated_turns_retried'', PInt retried), (''guard_aborted_turns'', PInt aborted),
             (''finalize_timeout_turns'', PInt finalize), (''observation_lost_turns'', PInt lost),
             (''unmetered_turns'', PInt unmetered), (''unmetered_turn_wall_s'', PFloat wall),
             (''session_fp'', session_fp_or_none fp (dget r ''session_id'')),
             (''session_id'', dget r ''session_id''),
             (''session_title'', PStr (str_or_blank rp (dget r ''session_title'')))])))))))))))"

text \<open>The keys an attempt adds are not keys of the base, so \<open>dict(base)\<close> and the assignments append them.\<close>

definition attempt_tail :: "pydict \<Rightarrow> pydict" where
  "attempt_tail r =
     [(''termination_reason'', dget_default r ''termination_reason'' (PStr [])),
      (''attempts_to_green'', dget r ''attempts_to_green'')]"

definition attempt_record :: "pydict \<Rightarrow> pydict \<Rightarrow> nat \<Rightarrow> pyval \<Rightarrow> py_exc + pydict" where
  "attempt_record base r idx attempt =
     (case attempt of
        PDict a \<Rightarrow>
          bind_result (list_or_empty (dget_default a ''failed_gates'' (PList []))) (\<lambda>failed.
          bind_result (list_or_empty (dget_default a ''aborted_runners'' (PList []))) (\<lambda>aborted.
            Inr (base @
              [(''attempt'', dget_default a ''attempt'' (PInt (int idx))),
               (''verdict'', dget_default a ''verdict'' (dget r ''verdict'')),
               (''n_problems'', dget a ''n_problems''), (''failed_gates'', PList failed),
               (''gate_results'', dget a ''gate_results''), (''gate_totals'', dget a ''gate_totals''),
               (''conformed'', dget a ''conformed''), (''gradable'', dget a ''gradable''),
               (''ungradable_reason'', dget a ''ungradable_reason''),
               (''aborted_runners'', PList aborted),
               (''attempt_cost_usd'', dget a ''attempt_cost_usd'')] @ attempt_tail r)))
      | _ \<Rightarrow> Inr (base @ [(''attempt'', PInt (int idx)), (''verdict'', dget r ''verdict'')] @ attempt_tail r))"

definition whole_cell_record :: "pydict \<Rightarrow> pydict \<Rightarrow> pydict" where
  "whole_cell_record base r =
     base @ [(''attempt'', PInt 1), (''verdict'', dget_default r ''verdict'' (PStr []))] @ attempt_tail r"

definition attempt_records :: "pydict \<Rightarrow> pydict \<Rightarrow> (py_exc + pydict) list" where
  "attempt_records base r =
     (case dget r ''attempt_reports'' of
        PList (a # as) \<Rightarrow> map (\<lambda>(i, a). attempt_record base r (i + 1) a) (enumerate 0 (a # as))
      | _ \<Rightarrow> [Inr (whole_cell_record base r)])"

definition turn_record ::
  "(pyval \<Rightarrow> string) \<Rightarrow> (string \<Rightarrow> string) \<Rightarrow> string \<Rightarrow> session_record \<Rightarrow> pydict \<Rightarrow> pydict \<Rightarrow> pydict" where
  "turn_record rp fp org session r a =
     [(''type'', PStr ''turn_terminal''), (''schema_version'', PInt 1),
      (''sequence_index'', PInt (sr_sequence_index session)),
      (''memory_mode'', PStr (sr_memory_mode session)), (''org_id'', PStr org),
      (''session_fp'', session_fp_or_none fp (dget r ''session_id'')), (''session_id'', dget r ''session_id''),
      (''phase'', PStr (py_str rp (dget_default a ''phase'' (PStr [])))), (''turn_index'', dget a ''turn_index''),
      (''terminal'', PStr (py_str rp (dget_default a ''terminal'' (PStr [])))),
      (''reason'', PStr (py_str rp (dget_default a ''reason'' (PStr [])))),
      (''tool_uses'', dget a ''tool_uses''), (''file_writes'', dget a ''file_writes''),
      (''input_tokens'', dget a ''input_tokens''), (''output_tokens'', dget a ''output_tokens''),
      (''reasoning_tokens'', dget a ''reasoning_tokens''), (''cost_usd'', dget a ''cost_usd''),
      (''tokens_unmetered'', PBool (truthy (dget a ''tokens_unmetered''))),
      (''wall_seconds'', dget a ''wall_seconds''), (''retried'', PBool (truthy (dget a ''retried''))),
      (''retry_kind'', dget a ''retry_kind'')]"

definition turn_records ::
  "(pyval \<Rightarrow> string) \<Rightarrow> (string \<Rightarrow> string) \<Rightarrow> string \<Rightarrow> session_record \<Rightarrow> pydict \<Rightarrow> pydict list" where
  "turn_records rp fp org session r =
     (case dget r ''turn_anomalies'' of
        PList as \<Rightarrow> map (\<lambda>a. turn_record rp fp org session r (dict_or_empty a)) (filter is_dict as)
      | _ \<Rightarrow> [])"

text \<open>Records are appended as they are made.  The disk finishes the \<open>k\<close>-th append (\<open>None\<close>) or gives up
  after some characters; a failed append or record leaves through the caller.\<close>

fun emit ::
  "(pydict \<Rightarrow> string) \<Rightarrow> (nat \<Rightarrow> nat option) \<Rightarrow> nat \<Rightarrow> (py_exc + pydict) list \<Rightarrow> string option
   \<Rightarrow> string option \<times> py_exc option" where
  "emit dumps disk k [] stream = (stream, None)"
| "emit dumps disk k (Inl e # rs) stream = (stream, Some e)"
| "emit dumps disk k (Inr r # rs) stream = (case disk k of
     None \<Rightarrow> emit dumps disk (Suc k) rs (stream_append dumps r stream)
   | Some n \<Rightarrow> (torn_append dumps n r stream, Some PyOSError))"

definition append_status_records ::
  "(pyval \<Rightarrow> string) \<Rightarrow> (string \<Rightarrow> string) \<Rightarrow> (pydict \<Rightarrow> string) \<Rightarrow> (nat \<Rightarrow> nat option) \<Rightarrow> string
   \<Rightarrow> session_record \<Rightarrow> pydict \<Rightarrow> pyval \<Rightarrow> string option \<Rightarrow> string option \<times> py_exc option" where
  "append_status_records rp fp dumps disk org session r served stream =
     (case status_base rp fp org session r served of
        Inl e \<Rightarrow> (stream, Some e)
      | Inr base \<Rightarrow> emit dumps disk 0 (attempt_records base r @ map Inr (turn_records rp fp org session r)) stream)"

section \<open>The fixture\<close>

text \<open>
  A directory of the task is the list of its files, each a relative path with its bytes, \<open>None\<close> for one
  that cannot be read; \<open>sha\<close> is SHA-256 of the text fed to the digest.  The path of an unreadable file
  is already in the digest when its reading fails.
\<close>

type_synonym tree = "(string \<times> string option) list"

definition digest_input :: "tree \<Rightarrow> string" where
  "digest_input files = concat (map (\<lambda>(p, b). p @ opt_or b []) (sort_key fst files))"

definition compute_task_template_hash :: "(string \<Rightarrow> string) \<Rightarrow> tree option \<Rightarrow> string option" where
  "compute_task_template_hash sha scaffold = map_option (\<lambda>files. sha (digest_input files)) scaffold"

definition FROZEN_TASK_TEMPLATE_HASH :: string where
  "FROZEN_TASK_TEMPLATE_HASH = ''08afc8011cde5b81e6e158def2bc040f42372bbc1e32e7ca125382c27031cdb1''"

definition verify_task_template_frozen :: "(string \<Rightarrow> string) \<Rightarrow> tree option \<Rightarrow> py_exc option" where
  "verify_task_template_frozen sha scaffold =
     (case compute_task_template_hash sha scaffold of
        None \<Rightarrow> Some (PyRuntimeError ''scaffold unavailable'')
      | Some h \<Rightarrow> if h \<noteq> FROZEN_TASK_TEMPLATE_HASH then Some (PyRuntimeError ''scaffold mismatch'') else None)"

section \<open>One session\<close>

record session_run_state =
  srs_run_label :: string
  srs_last_session_id :: pyval
  srs_worktree :: tree

record runner_state =
  rr_sessions :: "(int \<times> session_run_state) list"
  rr_manifest_written :: bool
  rr_manifest_file :: "pyval option"
  rr_stream :: "string option"
  rr_gate_roster :: "string option"

record runner_config =
  rc_org_id :: string
  rc_run_timeout_s :: "int option"
  rc_seed :: pyval
  rc_run_id :: string

text \<open>What the world answers during one call: the cell, the spend database, the relay's logs, \<open>git\<close> (exit
  code and output, \<open>None\<close> when it cannot be run), the template directory, the disk and the clock.\<close>

record session_env =
  se_cell :: "session_record \<Rightarrow> string \<Rightarrow> py_exc + pydict"
  se_meter :: "py_exc + meter_row option"
  se_proxy_logs :: "string list option list"
  se_identities :: "py_exc + (string \<times> string option) list"
  se_git :: "(int \<times> string) option"
  se_scaffold :: "tree option"
  se_gate_roster :: "string option"
  se_manifest_disk :: bool
  se_append_disk :: "nat \<Rightarrow> nat option"
  se_now :: string

definition slug_char :: "char \<Rightarrow> bool" where
  "slug_char c \<longleftrightarrow> (let n = char_code c in
     48 \<le> n \<and> n \<le> 57 \<or> 65 \<le> n \<and> n \<le> 90 \<or> 97 \<le> n \<and> n \<le> 122 \<or> c = CHR ''_'' \<or> c = CHR ''.'' \<or> c = CHR ''-'')"

text \<open>\<open>re.sub\<close>: every maximal run of other characters becomes one dash.\<close>

fun squash_runs :: "bool \<Rightarrow> string \<Rightarrow> string" where
  "squash_runs inside [] = []"
| "squash_runs inside (c # s) =
     (if slug_char c then c # squash_runs False s
      else if inside then squash_runs True s else CHR ''-'' # squash_runs True s)"

definition strip_char :: "char \<Rightarrow> string \<Rightarrow> string" where
  "strip_char c s = rev (dropWhile (\<lambda>x. x = c) (rev (dropWhile (\<lambda>x. x = c) s)))"

definition normalize_model_slug :: "string \<Rightarrow> string" where
  "normalize_model_slug m =
     (let slug = strip_char (CHR ''-'') (squash_runs False m) in if slug = [] then ''model'' else slug)"

text \<open>\<open>f"{i:04d}"\<close>\<close>

definition pad4 :: "int \<Rightarrow> string" where
  "pad4 i = (let d = string_of_int \<bar>i\<bar>; sign = (if i < 0 then ''-'' else [])
             in sign @ replicate (4 - length sign - length d) (CHR ''0'') @ d)"

definition run_label_of :: "session_record \<Rightarrow> string" where
  "run_label_of s = ''cumulative-'' @ pad4 (sr_sequence_index s) @ ''-'' @ sr_memory_mode s @ ''-''
     @ normalize_model_slug (sr_model s)"

definition state_for_session :: "session_record \<Rightarrow> runner_state \<Rightarrow> session_run_state \<times> runner_state" where
  "state_for_session s st =
     (case map_of (rr_sessions st) (sr_sequence_index s) of
        Some x \<Rightarrow> (x, st)
      | None \<Rightarrow>
        (let x = \<lparr>srs_run_label = run_label_of s, srs_last_session_id = PNone, srs_worktree = []\<rparr>
         in (x, st\<lparr>rr_sessions := AList.update (sr_sequence_index s) x (rr_sessions st)\<rparr>)))"

definition put_session :: "session_record \<Rightarrow> session_run_state \<Rightarrow> runner_state \<Rightarrow> runner_state" where
  "put_session s x st = st\<lparr>rr_sessions := AList.update (sr_sequence_index s) x (rr_sessions st)\<rparr>"

text \<open>The roster of gates is enumerated once; the enumerator's file, if it wrote one, is the answer.\<close>

definition write_gate_roster :: "string option \<Rightarrow> runner_state \<Rightarrow> runner_state" where
  "write_gate_roster produced st =
     (if rr_gate_roster st \<noteq> None then st else st\<lparr>rr_gate_roster := produced\<rparr>)"

definition prepare_fixture ::
  "(string \<Rightarrow> string) \<Rightarrow> session_env \<Rightarrow> session_record \<Rightarrow> runner_state \<Rightarrow> runner_state \<times> py_exc option" where
  "prepare_fixture sha env s st =
     (case verify_task_template_frozen sha (se_scaffold env) of
        Some e \<Rightarrow> (st, Some e)
      | None \<Rightarrow>
        (let (x, st) = state_for_session s st;
             st = put_session s (x\<lparr>srs_worktree := opt_or (se_scaffold env) []\<rparr>) st
         in (write_gate_roster (se_gate_roster env) st, None)))"

definition current_git_head :: "(int \<times> string) option \<Rightarrow> pyval" where
  "current_git_head g = (case g of
     Some (rc, out) \<Rightarrow> if rc = 0 \<and> strip out \<noteq> [] then PStr (strip out) else PNone
   | None \<Rightarrow> PNone)"

definition serialize_worker_fingerprint :: "(pyval \<Rightarrow> string) \<Rightarrow> pydict \<Rightarrow> pyval" where
  "serialize_worker_fingerprint rp r = (case dget r ''worker_image_fingerprint'' of
     PNone \<Rightarrow> PNone | PDict d \<Rightarrow> PDict d | v \<Rightarrow> PStr (py_str rp v))"

text \<open>A file that is already there is as good as written; any other failure is only logged.\<close>

definition write_run_manifest_once ::
  "(pyval \<Rightarrow> string) \<Rightarrow> (string \<Rightarrow> string) \<Rightarrow> runner_config \<Rightarrow> session_env \<Rightarrow> session_record \<Rightarrow> string option
   \<Rightarrow> pydict \<Rightarrow> runner_state \<Rightarrow> runner_state" where
  "write_run_manifest_once rp sha cfg env s served r st =
     (if rr_manifest_written st then st
      else
        let m = \<lparr>rm_schema_version = RUN_ARTIFACTS_SCHEMA_VERSION, rm_run_id = rc_run_id cfg,
                 rm_created_at = se_now env, rm_served_model = of_opt PStr served,
                 rm_requested_model = PStr (sr_model s), rm_memory_mode = sr_memory_mode s,
                 rm_org_id = rc_org_id cfg, rm_source_commit = current_git_head (se_git env),
                 rm_worker_image_fingerprint = serialize_worker_fingerprint rp r,
                 rm_seed = rc_seed cfg,
                 rm_template_hash = of_opt PStr (compute_task_template_hash sha (se_scaffold env)),
                 rm_roster_fingerprint = PNone\<rparr>;
            (outcome, doc) = write_run_manifest (se_manifest_disk env) m (rr_manifest_file st)
        in st\<lparr>rr_manifest_file := doc,
              rr_manifest_written := (case outcome of Inr _ \<Rightarrow> True | Inl e \<Rightarrow> e = PyFileExistsError)\<rparr>)"

definition label_session :: "string \<Rightarrow> session_record \<Rightarrow> session_record" where
  "label_session label s =
     s\<lparr>sr_run_label := PStr label,
       sr_run_id := (if strip (str_or_empty (sr_run_id s)) = [] then PStr label else sr_run_id s)\<rparr>"

definition run_session ::
  "(pyval \<Rightarrow> string) \<Rightarrow> (string \<Rightarrow> string) \<Rightarrow> (string \<Rightarrow> string) \<Rightarrow> (string \<Rightarrow> pyval option) \<Rightarrow> (pydict \<Rightarrow> string)
   \<Rightarrow> runner_config \<Rightarrow> session_env \<Rightarrow> session_record \<Rightarrow> runner_state
   \<Rightarrow> runner_state \<times> (py_exc + session_record \<times> pydict)" where
  "run_session rp fp sha loads dumps cfg env s st =
     (let (x, st) = state_for_session s st; s = label_session (srs_run_label x) s
      in case se_cell env s (srs_run_label x) of
           Inl e \<Rightarrow> (st, Inl e)
         | Inr r \<Rightarrow>
             (let st = put_session s (if truthy (dget r ''session_id'')
                         then x\<lparr>srs_last_session_id := dget r ''session_id''\<rparr> else x) st
              in case populate_contention (se_meter env) (rc_run_timeout_s cfg) r of
                   Inl e \<Rightarrow> (st, Inl e)
                 | Inr r \<Rightarrow>
                     (let (served, pair) = observe_served_model loads (se_proxy_logs env) (se_identities env)
                                             (dget r ''session_id'') (sr_model s);
                          st = write_run_manifest_once rp sha cfg env s served r st;
                          (stream, failure) = append_status_records rp fp dumps (se_append_disk env)
                                                (rc_org_id cfg) s r pair (rr_stream st)
                      in (st\<lparr>rr_stream := stream\<rparr>,
                          case failure of Some e \<Rightarrow> Inl e | None \<Rightarrow> Inr (s, r)))))"

text \<open>The runner the sequencer is given: what it keeps of a session is the progress of its cell.\<close>

definition as_runner ::
  "(pyval \<Rightarrow> string) \<Rightarrow> (string \<Rightarrow> string) \<Rightarrow> (string \<Rightarrow> string) \<Rightarrow> (string \<Rightarrow> pyval option) \<Rightarrow> (pydict \<Rightarrow> string)
   \<Rightarrow> runner_config \<Rightarrow> session_env \<Rightarrow> runner_state \<Rightarrow> runner" where
  "as_runner rp fp sha loads dumps cfg env st =
     \<lparr>rn_prepare = (\<lambda>s. case snd (prepare_fixture sha env s st) of Some e \<Rightarrow> Inl e | None \<Rightarrow> Inr s),
      rn_run = (\<lambda>s. bind_result (snd (run_session rp fp sha loads dumps cfg env s st)) (\<lambda>(s, r).
                  Inr (s, progress_to_dict (progress_from_cell_result rp (PDict r) PNone))))\<rparr>"

section \<open>What the stream receives\<close>

lemma map_of_append: "map_of (xs @ ys) k = (case map_of xs k of Some v \<Rightarrow> Some v | None \<Rightarrow> map_of ys k)"
  by (simp add: map_add_def split: option.split)

lemma status_base_reads:
  assumes "status_base rp fp org s r served = Inr base"
  shows "map_of base ''type'' = Some (PStr ''attempt'')"
    and "map_of base ''sequence_index'' = Some (PInt (sr_sequence_index s))"
    and "map_of base ''progress'' = Some (PDict (progress_to_dict (progress_from_cell_result rp (PDict r) PNone)))"
    and "map_of base ''terminal_outcome''
           = Some (PBool (str_or_blank rp (dget_default r ''verdict'' (PStr [])) = ''PASS''))"
    and "map_of base ''terminal_reason''
           = Some (PStr (str_or_blank rp (dget_default r ''termination_reason'' (PStr []))))"
    and "\<exists>n. int_or_zero (dget_default r ''truncations'' (PInt 0)) = Inr n
           \<and> map_of base ''length_truncations'' = Some (PInt n)"
    and "\<exists>n. int_or_zero (dget_default r ''truncated_turns'' (PInt 0)) = Inr n
           \<and> map_of base ''truncated_turns'' = Some (PInt n)"
    and "\<exists>n. int_or_zero (dget_default r ''observation_lost_turns'' (PInt 0)) = Inr n
           \<and> map_of base ''observation_lost_turns'' = Some (PInt n)"
  using assms by (auto simp: status_base_def Let_def result_simps)

lemma attempt_record_extends:
  "attempt_record base r i a = Inr rec \<Longrightarrow> \<exists>ys. rec = base @ ys"
  by (cases a) (auto simp: attempt_record_def result_simps)

lemma attempt_records_extend:
  assumes "Inr rec \<in> set (attempt_records base r)"
  shows "\<exists>ys. rec = base @ ys"
proof -
  have whole: "\<exists>ys. whole_cell_record base r = base @ ys" by (simp add: whole_cell_record_def)
  show ?thesis
  proof (cases "dget r ''attempt_reports''")
    case (PList as)
    show ?thesis
    proof (cases as)
      case Nil
      with assms PList whole show ?thesis by (simp add: attempt_records_def)
    next
      case (Cons a as')
      with assms PList obtain i b where "attempt_record base r (i + 1) b = Inr rec"
        by (auto simp: attempt_records_def image_iff)
      then show ?thesis by (rule attempt_record_extends)
    qed
  qed (use assms whole in \<open>simp_all add: attempt_records_def\<close>)
qed

lemma length_attempt_records: "attempt_records base r \<noteq> []"
  by (auto simp: attempt_records_def split: pyval.split list.split)

text \<open>An emission that did not fail appended every record, each a record.\<close>

lemma emit_done:
  assumes "emit dumps disk k rs stream = (stream', None)"
  obtains xs where "rs = map Inr xs" and "stream' = foldl (\<lambda>f r. stream_append dumps r f) stream xs"
proof -
  from assms have "\<exists>xs. rs = map Inr xs \<and> stream' = foldl (\<lambda>f r. stream_append dumps r f) stream xs"
  proof (induction dumps disk k rs stream rule: emit.induct)
    case (3 dumps disk k r rs stream)
    from 3(2) have d: "disk k = None" by (cases "disk k") simp_all
    from 3(1) [OF d] 3(2) d obtain xs where "rs = map Inr xs"
      "stream' = foldl (\<lambda>f r. stream_append dumps r f) (stream_append dumps r stream) xs"
      by auto
    then show ?case by (intro exI [of _ "r # xs"]) simp
  qed simp_all
  with that show thesis by blast
qed

text \<open>The stream of characters is only ever extended, whatever fails.\<close>

lemma emit_extends:
  "\<exists>t. opt_or (fst (emit dumps disk k rs stream)) [] = opt_or stream [] @ t"
proof (induction dumps disk k rs stream rule: emit.induct)
  case (3 dumps disk k r rs stream)
  show ?case
  proof (cases "disk k")
    case None
    with 3(1) obtain t where "opt_or (fst (emit dumps disk (Suc k) rs (stream_append dumps r stream))) []
        = opt_or (stream_append dumps r stream) [] @ t" by blast
    with None show ?thesis by (simp add: stream_append_def)
  qed (simp add: torn_append_def)
qed simp_all

text \<open>The records of one session and what a successful report does to a clean stream.\<close>

lemma append_status_records_done:
  assumes "append_status_records rp fp dumps disk org s r served stream = (stream', None)"
  obtains base ats where "status_base rp fp org s r served = Inr base"
    and "attempt_records base r = map Inr ats" and "ats \<noteq> []"
    and "stream' = foldl (\<lambda>f r. stream_append dumps r f) stream (ats @ turn_records rp fp org s r)"
proof -
  from assms obtain base where base: "status_base rp fp org s r served = Inr base"
    and e: "emit dumps disk 0 (attempt_records base r @ map Inr (turn_records rp fp org s r)) stream = (stream', None)"
    unfolding append_status_records_def by (cases "status_base rp fp org s r served") simp_all
  from emit_done [OF e] obtain xs where xs: "attempt_records base r @ map Inr (turn_records rp fp org s r) = map Inr xs"
    and st: "stream' = foldl (\<lambda>f r. stream_append dumps r f) stream xs" by blast
  from xs obtain ats ts where split: "xs = ats @ ts" "attempt_records base r = map Inr ats"
    "map Inr (turn_records rp fp org s r) = map (Inr :: pydict \<Rightarrow> py_exc + pydict) ts"
    unfolding append_eq_map_conv by auto
  from split(3) have ts: "ts = turn_records rp fp org s r"
    by (simp add: inj_map_eq_map)
  have "ats \<noteq> []"
  proof
    assume "ats = []"
    with split(2) have "attempt_records base r = []" by simp
    with length_attempt_records show False by blast
  qed
  from that [OF base split(2) this] show thesis using st split(1) ts by simp
qed

text \<open>The records a report that reaches its end consists of.\<close>

definition status_records ::
  "(pyval \<Rightarrow> string) \<Rightarrow> (string \<Rightarrow> string) \<Rightarrow> string \<Rightarrow> session_record \<Rightarrow> pydict \<Rightarrow> pyval \<Rightarrow> pydict list" where
  "status_records rp fp org s r served =
     (case status_base rp fp org s r served of
        Inl _ \<Rightarrow> []
      | Inr base \<Rightarrow> List.map_filter (\<lambda>x. case x of Inr rec \<Rightarrow> Some rec | Inl _ \<Rightarrow> None) (attempt_records base r)
                    @ turn_records rp fp org s r)"

lemma map_filter_Inr [simp]:
  "List.map_filter (\<lambda>x. case x of Inr rec \<Rightarrow> Some rec | Inl _ \<Rightarrow> None) (map Inr xs) = xs"
  by (induction xs) (simp_all add: map_filter_simps2)

lemma status_records_done:
  assumes "append_status_records rp fp dumps disk org s r served stream = (stream', None)"
  obtains base ats where "status_base rp fp org s r served = Inr base" and "ats \<noteq> []"
    and "\<And>rec. rec \<in> set ats \<Longrightarrow> \<exists>ys. rec = base @ ys"
    and "status_records rp fp org s r served = ats @ turn_records rp fp org s r"
    and "stream' = foldl (\<lambda>f r. stream_append dumps r f) stream (status_records rp fp org s r served)"
proof -
  obtain base ats where base: "status_base rp fp org s r served = Inr base"
    and ats: "attempt_records base r = map Inr ats" "ats \<noteq> []"
    and st: "stream' = foldl (\<lambda>f r. stream_append dumps r f) stream (ats @ turn_records rp fp org s r)"
    using append_status_records_done [OF assms] by blast
  have recs: "status_records rp fp org s r served = ats @ turn_records rp fp org s r"
    by (simp add: status_records_def base ats)
  have "\<exists>ys. rec = base @ ys" if "rec \<in> set ats" for rec
    using that attempt_records_extend [of rec base r] by (simp add: ats)
  from that [OF base ats(2) this recs] st recs show thesis by simp
qed

lemma base_of_record:
  assumes "status_base rp fp org s r served = Inr base"
  shows "is_attempt (base @ ys)" and "record_index (base @ ys) = Some (sr_sequence_index s)"
    and "\<not> is_unverified_delivery (base @ ys)"
    and "terminal_full_green (base @ ys) = bool_or_default (map_of r ''conformed'') False"
  using status_base_reads(1-3) [OF assms]
  by (simp_all add: is_attempt_def record_index_def is_unverified_delivery_def terminal_full_green_def
      dget_def dget_default_def map_of_append progress_to_dict_reads strict_bool_def
      progress_from_cell_result_def pv_post_init_def contention_fields_def worker_image_fields_def
      cell_field_def Let_def split: option.split)

lemma turn_record_no_attempt:
  assumes "rec \<in> set (turn_records rp fp org s r)"
  shows "\<not> is_attempt rec" and "\<not> is_unverified_delivery rec"
proof -
  from assms obtain a where "rec = turn_record rp fp org s r a"
    by (auto simp: turn_records_def split: pyval.splits)
  then have "dget rec ''type'' = PStr ''turn_terminal''" by (simp add: turn_record_def)
  then show "\<not> is_attempt rec" "\<not> is_unverified_delivery rec"
    by (simp_all add: is_attempt_def is_unverified_delivery_def)
qed

text \<open>What the scorecard finds in a stream that ends with the records of session \<open>s\<close>.\<close>

lemma last_records_of_session:
  assumes base: "status_base rp fp org s r served = Inr base" and "ats \<noteq> []"
    and ext: "\<And>rec. rec \<in> set ats \<Longrightarrow> \<exists>ys. rec = base @ ys"
  shows "last_record is_attempt (old @ ats @ turn_records rp fp org s r) (sr_sequence_index s) = Some (last ats)"
    and "last_record is_unverified_delivery (old @ ats @ turn_records rp fp org s r) i
       = last_record is_unverified_delivery old i"
proof -
  have turns: "filter (\<lambda>x. is_attempt x \<and> record_index x = Some i) (turn_records rp fp org s r) = []"
    "filter (\<lambda>x. is_unverified_delivery x \<and> record_index x = Some i) (turn_records rp fp org s r) = []" for i
    using turn_record_no_attempt by (auto simp: filter_empty_conv)
  have "is_attempt rec \<and> record_index rec = Some (sr_sequence_index s)" "\<not> is_unverified_delivery rec"
    if "rec \<in> set ats" for rec
    using ext [OF that] base_of_record(1-3) [OF base] by auto
  then have ats: "filter (\<lambda>x. is_attempt x \<and> record_index x = Some (sr_sequence_index s)) ats = ats"
    "filter (\<lambda>x. is_unverified_delivery x \<and> record_index x = Some i) ats = []" for i
    by (auto simp: filter_empty_conv intro: filter_True)
  show "last_record is_attempt (old @ ats @ turn_records rp fp org s r) (sr_sequence_index s) = Some (last ats)"
    using assms(2) by (simp add: last_record_def Let_def ats turns)
  show "last_record is_unverified_delivery (old @ ats @ turn_records rp fp org s r) i
       = last_record is_unverified_delivery old i"
    by (simp add: last_record_def Let_def ats turns)
qed

definition stream_broken :: "cell_result \<Rightarrow> bool" where
  "stream_broken R \<longleftrightarrow> cr_termination_reason R = ''transport_incomplete'' \<or> 0 < cr_truncations R
     \<or> 0 < cr_truncated_turns R \<or> 0 < cr_observation_lost_turns R"

lemma str_or_blank_PStr [simp]: "str_or_blank rp (PStr t) = t"
  by (simp add: str_or_blank_def)

lemma int_or_zero_PInt [simp]: "int_or_zero (PInt i) = Inr i"
  by (simp add: int_or_zero_def)

lemma signal_of_result:
  assumes "status_base rp fp org s (result_attrs R other) served = Inr base"
  shows "truncation_signal rp (base @ ys) = Inr (stream_broken R)"
proof -
  let ?r = "result_attrs R other"
  have attrs: "dget_default ?r ''truncations'' (PInt 0) = PInt (cr_truncations R)"
    "dget_default ?r ''truncated_turns'' (PInt 0) = PInt (int (cr_truncated_turns R))"
    "dget_default ?r ''observation_lost_turns'' (PInt 0) = PInt (int (cr_observation_lost_turns R))"
    "dget_default ?r ''termination_reason'' (PStr []) = PStr (cr_termination_reason R)"
    by (simp_all add: result_attrs_def)
  from status_base_reads(5-8) [OF assms]
  have "dget (base @ ys) ''terminal_reason'' = PStr (cr_termination_reason R)"
    "dget (base @ ys) ''length_truncations'' = PInt (cr_truncations R)"
    "dget (base @ ys) ''truncated_turns'' = PInt (int (cr_truncated_turns R))"
    "dget (base @ ys) ''observation_lost_turns'' = PInt (int (cr_observation_lost_turns R))"
    unfolding attrs by (auto simp: dget_def map_of_append)
  then show ?thesis by (auto simp: truncation_signal_def stream_broken_def)
qed

lemma green_of_result:
  assumes "status_base rp fp org s (result_attrs R other) served = Inr base"
  shows "terminal_full_green (base @ ys) = cr_conformed R"
  using base_of_record(4) [OF assms] by (simp add: bool_or_default_def present_def result_attrs_def)

text \<open>The place a session has in the scorecard, once its report is complete.\<close>

lemma scored_by_conformance:
  assumes "append_status_records rp fp dumps disk org s (result_attrs R other) served stream = (stream', None)"
    and "clean_stream stream"
    and "list_all (one_line dumps loads) (status_records rp fp org s (result_attrs R other) served)"
    and "last_record is_unverified_delivery (stream_records loads stream) (sr_sequence_index s) = None"
    and "build_scorecard rp fp loads mf stream' = Inr sc"
  defines "i \<equiv> sr_sequence_index s"
  shows "i \<notin> fst ` set (sc_not_scored sc)"
    and "i \<in> fst ` set (sc_void_instrument sc) \<longleftrightarrow> \<not> cr_conformed R \<and> stream_broken R"
    and "i \<in> pt_sequence_index ` set (ct_points (sc_convergence sc)) \<longleftrightarrow> cr_conformed R \<or> \<not> stream_broken R"
    and "\<forall>p \<in> set (ct_points (sc_convergence sc)). pt_sequence_index p = i \<longrightarrow> pt_full_green p = cr_conformed R"
proof -
  let ?turns = "turn_records rp fp org s (result_attrs R other)"
  obtain base ats where base: "status_base rp fp org s (result_attrs R other) served = Inr base"
    and ats: "ats \<noteq> []" "\<And>rec. rec \<in> set ats \<Longrightarrow> \<exists>ys. rec = base @ ys"
    and recs: "status_records rp fp org s (result_attrs R other) served = ats @ ?turns"
    and st: "stream' = foldl (\<lambda>f r. stream_append dumps r f) stream
        (status_records rp fp org s (result_attrs R other) served)"
    using status_records_done [OF assms(1)] by blast
  have read: "stream_records loads stream' = stream_records loads stream @ ats @ ?turns"
    unfolding st using stream_of_appends_parts [OF assms(2,3)] by (simp add: recs)
  note last = last_records_of_session [OF base ats, where old = "stream_records loads stream"]
  have att: "last_record is_attempt (stream_records loads stream') i = Some (last ats)"
    unfolding read i_def by (rule last(1))
  have del: "last_record is_unverified_delivery (stream_records loads stream') i = None"
    unfolding read i_def using assms(4) by (subst last(2))
  from ats obtain ys where ys: "last ats = base @ ys" by (meson last_in_set)
  have green: "terminal_full_green (last ats) = cr_conformed R"
    and signal: "truncation_signal rp (last ats) = Inr (stream_broken R)"
    unfolding ys by (rule green_of_result [OF base], rule signal_of_result [OF base])
  note cells = scored_cells [OF assms(5)]
  show ns: "i \<notin> fst ` set (sc_not_scored sc)" unfolding cells(2) using del by simp
  show void: "i \<in> fst ` set (sc_void_instrument sc) \<longleftrightarrow> \<not> cr_conformed R \<and> stream_broken R"
    unfolding cells(3) att by (auto simp: green signal)
  show "i \<in> pt_sequence_index ` set (ct_points (sc_convergence sc)) \<longleftrightarrow> cr_conformed R \<or> \<not> stream_broken R"
    unfolding cells(1) att using ns void by simp
  show "\<forall>p \<in> set (ct_points (sc_convergence sc)). pt_sequence_index p = i \<longrightarrow> pt_full_green p = cr_conformed R"
    using cells(4) att green by fastforce
qed

lemma append_extends:
  assumes "append_status_records rp fp dumps disk org s r served stream = (stream', failure)"
  shows "\<exists>t. opt_or stream' [] = opt_or stream [] @ t"
proof (cases "status_base rp fp org s r served")
  case (Inl e)
  with assms show ?thesis by (simp add: append_status_records_def)
next
  case (Inr base)
  with assms emit_extends [of dumps disk 0 "attempt_records base r @ map Inr (turn_records rp fp org s r)" stream]
  show ?thesis by (simp add: append_status_records_def)
qed

lemma session_records_present:
  assumes "append_status_records rp fp dumps disk org s r served stream = (stream', None)"
  shows "stream' = foldl (\<lambda>f r. stream_append dumps r f) stream (status_records rp fp org s r served)
    \<and> (\<exists>x \<in> set (status_records rp fp org s r served). is_attempt x \<and> record_index x = Some (sr_sequence_index s))"
proof -
  obtain base ats where base: "status_base rp fp org s r served = Inr base"
    and ats: "ats \<noteq> []" "\<And>rec. rec \<in> set ats \<Longrightarrow> \<exists>ys. rec = base @ ys"
    and recs: "status_records rp fp org s r served = ats @ turn_records rp fp org s r"
    and st: "stream' = foldl (\<lambda>f r. stream_append dumps r f) stream (status_records rp fp org s r served)"
    using status_records_done [OF assms] by blast
  from ats obtain ys where "hd ats = base @ ys" by (meson list.set_sel(1))
  with base_of_record(1,2) [OF base]
  have "is_attempt (hd ats) \<and> record_index (hd ats) = Some (sr_sequence_index s)" by simp
  moreover have "hd ats \<in> set (status_records rp fp org s r served)" using ats(1) by (simp add: recs)
  ultimately show ?thesis using st by blast
qed

text \<open>A session either raises before its report, the stream untouched, or its outcome is that of the report.\<close>

lemma run_session_result:
  assumes "run_session rp fp sha loads dumps cfg env s st = (st', out)"
  obtains (raised) e where "out = Inl e" and "rr_stream st' = rr_stream st"
  | (reported) s1 r pair failure
    where "append_status_records rp fp dumps (se_append_disk env) (rc_org_id cfg) s1 r pair (rr_stream st)
             = (rr_stream st', failure)"
      and "out = (case failure of Some e \<Rightarrow> Inl e | None \<Rightarrow> Inr (s1, r))"
      and "sr_sequence_index s1 = sr_sequence_index s"
proof -
  have frame: "rr_stream (write_run_manifest_once rp sha cfg env s v r st) = rr_stream st"
    "rr_stream (put_session s x st) = rr_stream st" for s v r x and st
    by (simp_all add: write_run_manifest_once_def put_session_def Let_def split: prod.split)
  obtain x st1 where x: "state_for_session s st = (x, st1)" and st1: "rr_stream st1 = rr_stream st"
    by (cases "state_for_session s st") (auto simp: state_for_session_def Let_def split: option.splits)
  define s1 where "s1 = label_session (srs_run_label x) s"
  have idx: "sr_sequence_index s1 = sr_sequence_index s" by (simp add: s1_def label_session_def)
  note run = assms [unfolded run_session_def Let_def x prod.case s1_def [symmetric]]
  show thesis
  proof (cases "se_cell env s1 (srs_run_label x)")
    case (Inl e)
    with run st1 show thesis by (intro raised) auto
  next
    case cell: (Inr r0)
    show thesis
    proof (cases "populate_contention (se_meter env) (rc_run_timeout_s cfg) r0")
      case (Inl e)
      with run cell have "out = Inl e" "rr_stream st' = rr_stream st"
        by (auto simp: frame st1 simp del: if_split)
      then show thesis by (rule raised)
    next
      case (Inr r)
      obtain served pair where obs: "observe_served_model loads (se_proxy_logs env) (se_identities env)
          (dget r ''session_id'') (sr_model s1) = (served, pair)" by fastforce
      from run cell Inr obs show thesis
        by (intro reported [of s1 r pair "snd (append_status_records rp fp dumps (se_append_disk env)
              (rc_org_id cfg) s1 r pair (rr_stream st))"])
          (auto simp: frame st1 idx split: prod.splits)
    qed
  qed
qed

section \<open>Properties\<close>


text \<open>What the scorecard says of a session follows its conformance phase and not its verdict: once the
  report of the cell is complete and read back, the session is never listed as unscored, it is void
  exactly when it did not conform and any turn of the whole cell was broken, it is scored otherwise, and
  it is scored as a pass exactly when the gates reported conformance.\<close>

theorem scorecard_follows_conformance:
  assumes "append_status_records rp fp dumps disk org s (result_attrs R other) served stream = (stream', None)"
    and "clean_stream stream"
    and "list_all (one_line dumps loads) (status_records rp fp org s (result_attrs R other) served)"
    and "last_record is_unverified_delivery (stream_records loads stream) (sr_sequence_index s) = None"
    and "build_scorecard rp fp loads mf stream' = Inr sc"
  shows "sr_sequence_index s \<notin> fst ` set (sc_not_scored sc)
    \<and> (sr_sequence_index s \<in> fst ` set (sc_void_instrument sc) \<longleftrightarrow> \<not> cr_conformed R \<and> stream_broken R)
    \<and> (sr_sequence_index s \<in> pt_sequence_index ` set (ct_points (sc_convergence sc))
         \<longleftrightarrow> cr_conformed R \<or> \<not> stream_broken R)
    \<and> (\<forall>p \<in> set (ct_points (sc_convergence sc)).
         pt_sequence_index p = sr_sequence_index s \<longrightarrow> pt_full_green p = cr_conformed R)"
  using scored_by_conformance [OF assms] by blast

text \<open>C18. A cell found to have read the oracle, its verdict \<open>CHEAT\<close>, is scored as a pass when its gates
  reported conformance, although every record of its attempts says that the outcome was negative.\<close>

theorem cheat_is_scored_as_pass:
  assumes "run_cell rp cell_cfg cell_env True = Inr R" and "cr_conformed R"
    and "append_status_records rp fp dumps disk org s (result_attrs R other) served stream = (stream', None)"
    and "clean_stream stream"
    and "list_all (one_line dumps loads) (status_records rp fp org s (result_attrs R other) served)"
    and "last_record is_unverified_delivery (stream_records loads stream) (sr_sequence_index s) = None"
    and "build_scorecard rp fp loads mf stream' = Inr sc"
  shows "cr_verdict R = ''CHEAT''
    \<and> (\<exists>p \<in> set (ct_points (sc_convergence sc)). pt_sequence_index p = sr_sequence_index s \<and> pt_full_green p)
    \<and> (\<forall>rec \<in> set (status_records rp fp org s (result_attrs R other) served).
         is_attempt rec \<longrightarrow> dget rec ''terminal_outcome'' = PBool False)"
proof (intro conjI ballI impI)
  show cheat: "cr_verdict R = ''CHEAT''"
    using assms(1) by (auto simp: run_cell_def result_simps finish_cell_def on_last_report_def Let_def)
  show "\<exists>p \<in> set (ct_points (sc_convergence sc)). pt_sequence_index p = sr_sequence_index s \<and> pt_full_green p"
    using scored_by_conformance(3,4) [OF assms(3-7)] assms(2) by (metis (no_types, lifting) image_iff)
  fix rec
  assume rec: "rec \<in> set (status_records rp fp org s (result_attrs R other) served)" and att: "is_attempt rec"
  obtain base ats where base: "status_base rp fp org s (result_attrs R other) served = Inr base"
    and ats: "\<And>rec. rec \<in> set ats \<Longrightarrow> \<exists>ys. rec = base @ ys"
    and recs: "status_records rp fp org s (result_attrs R other) served
      = ats @ turn_records rp fp org s (result_attrs R other)"
    using status_records_done [OF assms(3)] by blast
  from rec att recs turn_record_no_attempt(1) have "rec \<in> set ats" by auto
  with ats obtain ys where "rec = base @ ys" by blast
  moreover have "str_or_blank rp (dget_default (result_attrs R other) ''verdict'' (PStr [])) = ''CHEAT''"
    by (simp add: result_attrs_def cheat)
  ultimately show "dget rec ''terminal_outcome'' = PBool False"
    using status_base_reads(4) [OF base] by (simp add: dget_def map_of_append)
qed

text \<open>The stream of a campaign is only ever extended by a session, and a session that returns has put its
  whole report there: the records of its attempts, at least one, and of its broken turns, in order.\<close>

theorem session_report_reaches_the_stream:
  assumes "run_session rp fp sha loads dumps cfg env s st = (st', out)"
  shows "(\<exists>t. opt_or (rr_stream st') [] = opt_or (rr_stream st) [] @ t)
    \<and> (\<forall>s' r. out = Inr (s', r) \<longrightarrow> (\<exists>served.
          let records = status_records rp fp (rc_org_id cfg) s' r served
          in rr_stream st' = foldl (\<lambda>f x. stream_append dumps x f) (rr_stream st) records
             \<and> (\<exists>x \<in> set records. is_attempt x \<and> record_index x = Some (sr_sequence_index s))))"
proof (rule run_session_result [OF assms])
  fix s1 r pair failure
  assume app: "append_status_records rp fp dumps (se_append_disk env) (rc_org_id cfg) s1 r pair (rr_stream st)
      = (rr_stream st', failure)"
    and out: "out = (case failure of Some e \<Rightarrow> Inl e | None \<Rightarrow> Inr (s1, r))"
    and idx: "sr_sequence_index s1 = sr_sequence_index s"
  show ?thesis
  proof (intro conjI allI impI)
    show "\<exists>t. opt_or (rr_stream st') [] = opt_or (rr_stream st) [] @ t"
      by (rule append_extends [OF app])
    fix s' r'
    assume "out = Inr (s', r')"
    with out have eq: "failure = None" "s' = s1" "r' = r" by (auto split: option.splits)
    from session_records_present [OF app [unfolded eq(1)]]
    show "\<exists>served. let records = status_records rp fp (rc_org_id cfg) s' r' served
      in rr_stream st' = foldl (\<lambda>f x. stream_append dumps x f) (rr_stream st) records
         \<and> (\<exists>x \<in> set records. is_attempt x \<and> record_index x = Some (sr_sequence_index s))"
      unfolding Let_def eq idx by blast
  qed
qed auto

text \<open>A disk that refuses the report of a finished cell costs the cell: the error leaves through the
  runner, so the turn of the campaign raises with its state as it was, and the session is run again.\<close>

theorem refused_report_repeats_the_session:
  assumes "current_session (sq_manifest q) = Inr (Some s)" and "sr_phase s = phase_value RUN_SESSION"
    and "se_append_disk env 0 = Some n"
  shows "\<exists>e. seq_step (as_runner rp fp sha loads dumps cfg env st) now q = Raised q e"
proof -
  have "snd (append_status_records rp fp dumps (se_append_disk env) org s r served stream) \<noteq> None" for org s r served stream
  proof (cases "status_base rp fp org s r served")
    case (Inr base)
    obtain x rs where "attempt_records base r = x # rs" using length_attempt_records by (meson list.exhaust)
    then show ?thesis using assms(3) by (cases x) (simp_all add: append_status_records_def Inr)
  qed (simp add: append_status_records_def)
  then have raises: "\<exists>e. snd (run_session rp fp sha loads dumps cfg env s st) = Inl e" for s
    using run_session_result [of rp fp sha loads dumps cfg env s st "fst (run_session rp fp sha loads dumps cfg env s st)"
        "snd (run_session rp fp sha loads dumps cfg env s st)"]
    by (metis option.case_eq_if prod.collapse snd_conv)
  have "\<exists>e. rn_run (as_runner rp fp sha loads dumps cfg env st) s' = Inl e" for s'
    using raises [of s'] by (auto simp: as_runner_def)
  then have "\<exists>e. run_to_checkpoint (as_runner rp fp sha loads dumps cfg env st) now s q = Inl e"
    unfolding run_to_checkpoint_def Let_def by (metis bind_result_simps(1))
  moreover have "phase_of_string (sr_phase s) = Some RUN_SESSION"
    unfolding assms(2) by (rule phase_of_string_value)
  ultimately show ?thesis by (auto simp: seq_step_def assms(1))
qed

section \<open>Witnesses\<close>

lemma report_lacks_gradability:
  "map_of (report_attrs a) ''gradable'' = None" "map_of (report_attrs a) ''ungradable_reason'' = None"
  "map_of (report_attrs a) ''aborted_runners'' = None"
  by (simp_all add: report_attrs_def map_of_append split: option.split)

lemma report_failed_gates: "map_of (report_attrs a) ''failed_gates'' = Some (PList (map PStr (ar_failed_gates a)))"
  by (simp add: report_attrs_def map_of_append split: option.split)

text \<open>A cell with one attempt and no broken turn makes one record, whatever the disk held before.\<close>

lemma single_report:
  assumes "cr_attempt_reports R = [a]" and "cr_turn_anomalies R = []"
  shows "\<exists>rec. status_records rp fp org s (result_attrs R []) served = [rec]
    \<and> append_status_records rp fp dumps (\<lambda>_. None) org s (result_attrs R []) served stream
        = (stream_append dumps rec stream, None)"
proof -
  let ?r = "result_attrs R []"
  have float: "\<exists>x. float_or_zero (PFloat w) = Inr x" for w by (simp add: float_or_zero_def)
  have "\<exists>base. status_base rp fp org s ?r served = Inr base"
    using float [of "cr_unmetered_turn_wall_s R"] by (auto simp: status_base_def Let_def result_attrs_def)
  then obtain base where base: "status_base rp fp org s ?r served = Inr base" by blast
  have "\<exists>rec. attempt_record base ?r (Suc 0) (PDict (report_attrs a)) = Inr rec"
    by (simp add: attempt_record_def dget_default_def opt_or_def report_lacks_gradability report_failed_gates
        list_or_empty_def)
  then obtain rec where "attempt_record base ?r (Suc 0) (PDict (report_attrs a)) = Inr rec" by blast
  then have "attempt_records base ?r = [Inr rec]"
    using assms(1) by (simp add: attempt_records_def result_attrs_def)
  moreover have "turn_records rp fp org s ?r = []"
    using assms(2) by (simp add: turn_records_def result_attrs_def)
  ultimately show ?thesis
    by (simp add: status_records_def append_status_records_def base map_filter_simps2)
qed

lemma collect_last_total:
  "(\<And>r. r \<in> set rs \<Longrightarrow> sel r \<Longrightarrow> \<exists>i. dget r ''sequence_index'' = PInt i) \<Longrightarrow>
     \<exists>m. collect_last sel rs acc = Inr m \<and> snd ` set m \<subseteq> snd ` set acc \<union> {r \<in> set rs. sel r}"
proof (induction rs arbitrary: acc)
  case (Cons r rs)
  show ?case
  proof (cases "sel r")
    case True
    with Cons.prems obtain i where i: "dget r ''sequence_index'' = PInt i" by auto
    from Cons.IH [of "AList.update i r acc"] Cons.prems obtain m where
      m: "collect_last sel rs (AList.update i r acc) = Inr m"
      "snd ` set m \<subseteq> snd ` set (AList.update i r acc) \<union> {r \<in> set rs. sel r}" by auto
    have "snd ` set (AList.update i r acc) \<subseteq> insert r (snd ` set acc)"
      using set_AList_update [of _ i r acc] by fastforce
    with m True i show ?thesis by auto
  next
    case False
    from Cons.IH [of acc] Cons.prems obtain m where "collect_last sel rs acc = Inr m"
      "snd ` set m \<subseteq> snd ` set acc \<union> {r \<in> set rs. sel r}" by auto
    with False show ?thesis by auto
  qed
qed simp

lemma collect_void_total:
  "(\<And>r. r \<in> snd ` set best \<Longrightarrow> \<exists>t. truncation_signal rp r = Inr t) \<Longrightarrow> \<exists>vs. collect_void rp best = Inr vs"
proof (induction best)
  case (Cons b best)
  then obtain vs where "collect_void rp best = Inr vs" by auto
  moreover from Cons.prems obtain t where "truncation_signal rp (snd b) = Inr t" by auto
  ultimately show ?case by (cases b) simp
qed simp

lemma scorecard_of_one_session:
  assumes "append_status_records rp fp dumps disk org s (result_attrs R other) served None = (stream', None)"
    and "list_all (one_line dumps loads) (status_records rp fp org s (result_attrs R other) served)"
    and "load_run_manifest rp mf = Inr m"
  shows "\<exists>sc. build_scorecard rp fp loads mf stream' = Inr sc"
proof -
  let ?turns = "turn_records rp fp org s (result_attrs R other)"
  obtain base ats where base: "status_base rp fp org s (result_attrs R other) served = Inr base"
    and ats: "\<And>rec. rec \<in> set ats \<Longrightarrow> \<exists>ys. rec = base @ ys"
    and recs: "status_records rp fp org s (result_attrs R other) served = ats @ ?turns"
    and st: "stream' = foldl (\<lambda>f r. stream_append dumps r f) None
        (status_records rp fp org s (result_attrs R other) served)"
    using status_records_done [OF assms(1)] by blast
  have read: "stream_records loads stream' = ats @ ?turns"
    unfolding st using stream_of_appends_parts [of None, OF _ assms(2)]
    by (simp add: recs clean_stream_def stream_records_def [of _ None])
  have idx: "dget (base @ ys) ''sequence_index'' = PInt (sr_sequence_index s)" for ys
    using status_base_reads(2) [OF base] by (simp add: dget_def map_of_append)
  have sel: "\<exists>ys. r = base @ ys" if "r \<in> set (ats @ ?turns)" "is_attempt r" for r
    using that ats turn_record_no_attempt(1) by auto
  have undelivered: "\<not> is_unverified_delivery r" if "r \<in> set (ats @ ?turns)" for r
    using that turn_record_no_attempt(2) by (metis Un_iff ats base base_of_record(3) set_append)
  obtain d where d: "collect_last is_unverified_delivery (ats @ ?turns) [] = Inr d"
    using collect_last_total [of "ats @ ?turns" is_unverified_delivery "[]"] undelivered by blast
  obtain best where best: "collect_last is_attempt (ats @ ?turns) [] = Inr best"
    "snd ` set best \<subseteq> {r \<in> set (ats @ ?turns). is_attempt r}"
    using collect_last_total [of "ats @ ?turns" is_attempt "[]"] sel idx by (metis (no_types, lifting) image_empty list.set(1) sup_bot_left)
  have "\<exists>t. truncation_signal rp r = Inr t" if "r \<in> snd ` set best" for r
  proof -
    from that best(2) sel obtain ys where "r = base @ ys" by blast
    then show ?thesis using signal_of_result [OF base] by blast
  qed
  then obtain vs where "collect_void rp best = Inr vs" using collect_void_total by blast
  then show ?thesis by (simp add: build_scorecard_def assms(3) read score_records_def d best(1) Let_def)
qed

text \<open>A cell whose only gate report is green, and which read the oracle.\<close>

definition sample_green_env :: cell_env where
  "sample_green_env = (sample_cell_env free_view)
     \<lparr>ce_gate := (\<lambda>_. Gate_Report [(''verdict'', PStr ''PASS''), (''conformed'', PBool True)])\<rparr>"

lemma sample_cheat:
  "\<exists>R a. run_cell (\<lambda>_. []) sample_cfg sample_green_env True = Inr R \<and> cr_conformed R
     \<and> cr_attempt_reports R = [a] \<and> cr_turn_anomalies R = []"
proof -
  have numbers: "attempt_numbers sample_cfg = [1, 2, 3]" by (simp add: attempt_numbers_def upt_rec)
  have env: "ce_gate sample_green_env k = Gate_Report [(''verdict'', PStr ''PASS''), (''conformed'', PBool True)]"
    "ce_initial sample_green_env = sample_run" "ce_stream_incomplete sample_green_env = False"
    "decide sample_cfg sample_green_env j c = Allow" for j k c
    by (simp_all add: sample_green_env_def sample_cell_env_def decide_def budget_decision_for_attempt_def free_view_def)
  define c where "c = first_run sample_cfg sample_green_env cell_start"
  have c: "cl_worker_exit_annot c = None" "cl_attempt_reports c = []" "cl_turn_anomalies c = []"
    by (simp_all add: c_def first_run_def env after_first_run_def absorb_run_def act_def cell_start_def
        bad_exit_def Let_def)
  show ?thesis
    by (simp add: run_cell_def run_attempts_def numbers c_def [symmetric] attempt_step_def env after_gates_def
        add_report_def gate_attempt_report_def c report_verdict_def report_conformed_def end_cell_def act_def
        finish_cell_def on_last_report_def Let_def result_simps)
qed

definition sample_session :: session_record where
  "sample_session = new_session_record 0 ''m'' ''p'' ''off'' ''off_baseline'' (phase_value RUN_SESSION) (PStr ''o'')"

definition sample_run_manifest :: run_manifest where
  "sample_run_manifest = \<lparr>rm_schema_version = 1, rm_run_id = ''r'', rm_created_at = [], rm_served_model = PNone,
     rm_requested_model = PNone, rm_memory_mode = ''off'', rm_org_id = ''o'', rm_source_commit = PNone,
     rm_worker_image_fingerprint = PNone, rm_seed = PNone, rm_template_hash = PNone,
     rm_roster_fingerprint = PNone\<rparr>"

text \<open>The scorecard of a campaign whose only session is that cell.\<close>

lemma sample_cheat_scored:
  "\<exists>R rec sc. run_cell (\<lambda>_. []) sample_cfg sample_green_env True = Inr R \<and> cr_conformed R
     \<and> append_status_records (\<lambda>_. []) id (\<lambda>_. ''x'') (\<lambda>_. None) ''o'' sample_session (result_attrs R []) PNone None
         = (Some (''x'' @ [CHR 0x0A]), None)
     \<and> list_all (one_line (\<lambda>_. ''x'') (\<lambda>l. if l = ''x'' then Some (PDict rec) else None))
         (status_records (\<lambda>_. []) id ''o'' sample_session (result_attrs R []) PNone)
     \<and> build_scorecard (\<lambda>_. []) id (\<lambda>l. if l = ''x'' then Some (PDict rec) else None)
         (Some (PDict (run_manifest_to_dict sample_run_manifest))) (Some (''x'' @ [CHR 0x0A])) = Inr sc"
proof -
  obtain R a where R: "run_cell (\<lambda>_. []) sample_cfg sample_green_env True = Inr R" "cr_conformed R"
    "cr_attempt_reports R = [a]" "cr_turn_anomalies R = []" using sample_cheat by blast
  obtain rec where rec: "status_records (\<lambda>_. []) id ''o'' sample_session (result_attrs R []) PNone = [rec]"
    and app: "append_status_records (\<lambda>_. []) id (\<lambda>_. ''x'') (\<lambda>_. None) ''o'' sample_session (result_attrs R []) PNone None
        = (Some (''x'' @ [CHR 0x0A]), None)"
    using single_report [OF R(3,4), where stream = None and rp = "\<lambda>_. []" and fp = id and dumps = "\<lambda>_. ''x''"
        and org = "''o''" and s = sample_session and served = PNone]
    by (auto simp: stream_append_def)
  define loads where "loads = (\<lambda>l. if l = ''x'' then Some (PDict rec) else None)"
  have "strip ''x'' = ''x''" by code_simp
  then have line: "list_all (one_line (\<lambda>_. ''x'') loads)
      (status_records (\<lambda>_. []) id ''o'' sample_session (result_attrs R []) PNone)"
    by (simp add: rec one_line_def is_line_break_def loads_def)
  have "load_run_manifest (\<lambda>_. []) (Some (PDict (run_manifest_to_dict sample_run_manifest))) = Inr sample_run_manifest"
    by (simp add: load_run_manifest_def run_manifest_codec.dec_enc)
  from scorecard_of_one_session [OF app line this] obtain sc where
    "build_scorecard (\<lambda>_. []) id loads (Some (PDict (run_manifest_to_dict sample_run_manifest)))
       (Some (''x'' @ [CHR 0x0A])) = Inr sc" by blast
  with R app line show ?thesis unfolding loads_def by blast
qed

theorem scorecard_follows_conformance_witness:
  "\<exists>R loads sc. build_scorecard (\<lambda>_. []) id loads (Some (PDict (run_manifest_to_dict sample_run_manifest)))
       (Some (''x'' @ [CHR 0x0A])) = Inr sc
     \<and> append_status_records (\<lambda>_. []) id (\<lambda>_. ''x'') (\<lambda>_. None) ''o'' sample_session (result_attrs R []) PNone None
         = (Some (''x'' @ [CHR 0x0A]), None)
     \<and> cr_conformed R \<and> 0 \<notin> fst ` set (sc_void_instrument sc)
     \<and> 0 \<in> pt_sequence_index ` set (ct_points (sc_convergence sc))"
proof -
  obtain R rec sc where
    app: "append_status_records (\<lambda>_. []) id (\<lambda>_. ''x'') (\<lambda>_. None) ''o'' sample_session (result_attrs R []) PNone None
         = (Some (''x'' @ [CHR 0x0A]), None)" and green: "cr_conformed R"
    and line: "list_all (one_line (\<lambda>_. ''x'') (\<lambda>l. if l = ''x'' then Some (PDict rec) else None))
         (status_records (\<lambda>_. []) id ''o'' sample_session (result_attrs R []) PNone)"
    and sc: "build_scorecard (\<lambda>_. []) id (\<lambda>l. if l = ''x'' then Some (PDict rec) else None)
         (Some (PDict (run_manifest_to_dict sample_run_manifest))) (Some (''x'' @ [CHR 0x0A])) = Inr sc"
    using sample_cheat_scored by blast
  have "sr_sequence_index sample_session = 0" by (simp add: sample_session_def new_session_record_def)
  with scorecard_follows_conformance [OF app _ line _ sc] green sc app show ?thesis
    by (intro exI [of _ R] exI [of _ "\<lambda>l. if l = ''x'' then Some (PDict rec) else None"] exI [of _ sc])
      (simp add: clean_stream_def stream_records_def [of _ None])
qed

theorem cheat_is_scored_as_pass_witness:
  "\<exists>R loads sc. run_cell (\<lambda>_. []) sample_cfg sample_green_env True = Inr R \<and> cr_verdict R = ''CHEAT''
     \<and> build_scorecard (\<lambda>_. []) id loads (Some (PDict (run_manifest_to_dict sample_run_manifest)))
         (Some (''x'' @ [CHR 0x0A])) = Inr sc
     \<and> (\<exists>p \<in> set (ct_points (sc_convergence sc)). pt_full_green p)"
proof -
  obtain R rec sc where run: "run_cell (\<lambda>_. []) sample_cfg sample_green_env True = Inr R" and green: "cr_conformed R"
    and app: "append_status_records (\<lambda>_. []) id (\<lambda>_. ''x'') (\<lambda>_. None) ''o'' sample_session (result_attrs R []) PNone None
         = (Some (''x'' @ [CHR 0x0A]), None)"
    and line: "list_all (one_line (\<lambda>_. ''x'') (\<lambda>l. if l = ''x'' then Some (PDict rec) else None))
         (status_records (\<lambda>_. []) id ''o'' sample_session (result_attrs R []) PNone)"
    and sc: "build_scorecard (\<lambda>_. []) id (\<lambda>l. if l = ''x'' then Some (PDict rec) else None)
         (Some (PDict (run_manifest_to_dict sample_run_manifest))) (Some (''x'' @ [CHR 0x0A])) = Inr sc"
    using sample_cheat_scored by blast
  have "clean_stream None"
    "last_record is_unverified_delivery (stream_records (\<lambda>l. if l = ''x'' then Some (PDict rec) else None) None)
       (sr_sequence_index sample_session) = None"
    by (simp_all add: clean_stream_def stream_records_def)
  from cheat_is_scored_as_pass [OF run green app this(1) line this(2) sc] run sc show ?thesis by blast
qed

definition sample_runner_config :: runner_config where
  "sample_runner_config = \<lparr>rc_org_id = ''o'', rc_run_timeout_s = None, rc_seed = PNone, rc_run_id = ''r''\<rparr>"

definition sample_runner_state :: runner_state where
  "sample_runner_state = \<lparr>rr_sessions = [], rr_manifest_written = False, rr_manifest_file = None,
     rr_stream = None, rr_gate_roster = None\<rparr>"

text \<open>The cell of this call returns only its verdict; the disk finishes its append or refuses it.\<close>

definition sample_session_env :: "bool \<Rightarrow> session_env" where
  "sample_session_env ok =
     \<lparr>se_cell = (\<lambda>_ _. Inr [(''verdict'', PStr ''FAIL'')]), se_meter = Inr None, se_proxy_logs = [],
      se_identities = Inr [], se_git = None, se_scaffold = None, se_gate_roster = None,
      se_manifest_disk = True, se_append_disk = (\<lambda>_. if ok then None else Some 0), se_now = []\<rparr>"

theorem session_report_reaches_the_stream_witness:
  "\<exists>st' s' r x. run_session (\<lambda>_. []) id id (\<lambda>_. None) (\<lambda>_. ''x'') sample_runner_config (sample_session_env True)
      sample_session sample_runner_state = (st', Inr (s', r)) \<and> rr_stream st' = Some (''x'' @ [CHR 0x0A] @ x)"
proof -
  have "\<exists>st' s' r. run_session (\<lambda>_. []) id id (\<lambda>_. None) (\<lambda>_. ''x'') sample_runner_config (sample_session_env True)
      sample_session sample_runner_state = (st', Inr (s', r))"
    by (simp add: run_session_def Let_def state_for_session_def sample_runner_state_def sample_session_env_def
        populate_contention_def int_or_zero_def opt_float_def sample_runner_config_def
        append_status_records_def status_base_def attempt_records_def turn_records_def float_or_zero_def
        AList.update.simps split: prod.split)
  then obtain st' s' r where run: "run_session (\<lambda>_. []) id id (\<lambda>_. None) (\<lambda>_. ''x'') sample_runner_config
      (sample_session_env True) sample_session sample_runner_state = (st', Inr (s', r))" by blast
  from session_report_reaches_the_stream [OF run] obtain records where
    st': "rr_stream st' = foldl (\<lambda>f x. stream_append (\<lambda>_. ''x'') x f) (rr_stream sample_runner_state) records"
    and "records \<noteq> []" unfolding Let_def by force
  then obtain y ys where "records = y # ys" by (cases records) auto
  moreover have "\<exists>t. foldl (\<lambda>f x. stream_append (\<lambda>_. ''x'') x f) (Some u) zs = Some (u @ t)" for u and zs :: "pydict list"
    by (induction zs arbitrary: u) (simp_all add: stream_append_def, metis append.assoc append_Cons)
  from this [of "''x'' @ [CHR 0x0A]" ys] obtain t where
    "foldl (\<lambda>f x. stream_append (\<lambda>_. ''x'') x f) (Some (''x'' @ [CHR 0x0A])) ys = Some ((''x'' @ [CHR 0x0A]) @ t)"
    by blast
  ultimately have "rr_stream st' = Some (''x'' @ [CHR 0x0A] @ t)"
    using st' by (simp add: sample_runner_state_def stream_append_def)
  with run show ?thesis by blast
qed

definition sample_running_seq :: seq_state where
  "sample_running_seq = sample_seq\<lparr>sq_manifest := sample_manifest\<lparr>cm_session_records := [sample_session]\<rparr>\<rparr>"

theorem refused_report_repeats_the_session_witness:
  "\<exists>e. seq_step (as_runner (\<lambda>_. []) id id (\<lambda>_. None) (\<lambda>_. ''x'') sample_runner_config (sample_session_env False)
      sample_runner_state) ''t'' sample_running_seq = Raised sample_running_seq e"
proof (rule refused_report_repeats_the_session)
  show "current_session (sq_manifest sample_running_seq) = Inr (Some sample_session)"
    by (simp add: current_session_def sample_running_seq_def sample_manifest_def)
  show "sr_phase sample_session = phase_value RUN_SESSION"
    by (simp add: sample_session_def new_session_record_def)
  show "se_append_disk (sample_session_env False) 0 = Some 0" by (simp add: sample_session_env_def)
qed

end
