(* ===== verification/Docker_Cell.thy ===== *)
theory Docker_Cell
  imports Bench_Prelude
begin

text \<open>
  \<open>wevibe_bench/adapters/docker_worker.py\<close>: the life of the container one cell runs in.  The Docker
  daemon is the environment: a function from the commands sent to it so far and the next command to
  its outcome, an exit code with its output, a missing client, or a client that cannot be run
  (\<open>cmd_result\<close>).  Nothing is assumed of it; the properties speak of the commands the cell sends and
  of the exceptions the caller sees.  The state of a cell holds those commands, each with the
  variables added to the client's environment, the container id, the PID of the live-view server, the
  files of the host and the status lines of the clean-up.  Paths are texts; \<open>de_resolve\<close> is
  \<open>expanduser().resolve()\<close>.
\<close>

section \<open>Commands\<close>

datatype cmd_result = Exit int string string | No_Cli | Failed

definition exit_ok :: "cmd_result \<Rightarrow> bool" where
  "exit_ok r = (case r of Exit rc _ _ \<Rightarrow> rc = 0 | _ \<Rightarrow> False)"

text \<open>\<open>_result_detail\<close>\<close>

definition result_detail :: "cmd_result \<Rightarrow> string" where
  "result_detail r = (case r of
     Exit rc out err \<Rightarrow>
       (if strip err \<noteq> [] then strip err else if strip out \<noteq> [] then strip out
        else ''exit='' @ string_of_int rc)
   | _ \<Rightarrow> [])"

definition docker_available :: "cmd_result \<Rightarrow> bool \<times> string" where
  "docker_available r = (case r of
     No_Cli \<Rightarrow> (False, ''docker CLI not found in PATH'')
   | Failed \<Rightarrow> (False, ''docker availability probe failed'')
   | Exit rc out err \<Rightarrow>
       (if rc \<noteq> 0 then (False, result_detail r)
        else if strip out = [] then (False, ''docker daemon reported empty version'')
        else (True, strip out)))"

fun split_lines_acc :: "string \<Rightarrow> string \<Rightarrow> string list" where
  "split_lines_acc acc [] = (if acc = [] then [] else [rev acc])"
| "split_lines_acc acc (c # s) =
     (if c = CHR 0x0A then rev acc # split_lines_acc [] s
      else split_lines_acc (c # acc) s)"

text \<open>The first two non-blank lines of the image's description; anything less is no identity.\<close>

definition worker_image_fingerprint :: "cmd_result \<Rightarrow> (string \<times> string) option" where
  "worker_image_fingerprint r = (case r of
     Exit rc out _ \<Rightarrow>
       (if rc \<noteq> 0 then None
        else case filter (\<lambda>l. l \<noteq> []) (map strip (split_lines_acc [] out)) of
          a # b # _ \<Rightarrow> Some (a, b) | _ \<Rightarrow> None)
   | _ \<Rightarrow> None)"

definition image_exists :: "cmd_result \<Rightarrow> bool" where
  "image_exists r \<longleftrightarrow> worker_image_fingerprint r \<noteq> None"

section \<open>The configuration and the command line of the container\<close>

definition WORKER_IMAGE :: string where "WORKER_IMAGE = ''wevibe-bench-worker:v1''"
definition WORKER_NETWORK :: string where "WORKER_NETWORK = ''wevibe-bench-net''"

record docker_config =
  dc_worktree :: string
  dc_memory_mode :: string
  dc_container_name :: string
  dc_image :: string
  dc_network :: string
  dc_recall_url :: string
  dc_hub_url :: string
  dc_recall_mode :: string
  dc_relevance_floor :: real
  dc_max_injected :: int
  dc_served_memories_host :: string
  dc_served_memories_container :: string
  dc_plugin_state_host :: string
  dc_plugin_state_container :: string
  dc_plugin_config_host :: string
  dc_proxy_base_url :: "string option"
  dc_proxy_token :: "string option"
  dc_cloud :: bool
  dc_home_dir :: string
  dc_output_token_max :: "int option"
  dc_worker_logs_dir :: "string option"
  dc_session_db_host :: "string option"
  dc_answerer_policy :: "string option"
  dc_serve_host_port :: int
  dc_serve_container_port :: int

text \<open>The files of the host a cell with memory needs: absent, a directory, or a file with its text.\<close>

datatype host_entry = Absent | Directory | File string

record host_files =
  hf_token :: host_entry
  hf_served :: host_entry
  hf_plugin_state :: host_entry
  hf_plugin_config :: host_entry

definition ensure_served_memories_store :: "host_entry \<Rightarrow> py_exc + host_entry" where
  "ensure_served_memories_store e = (case e of
     Absent \<Rightarrow> Inr (File (''{'' @ [CHR 0x22] @ ''version'' @ [CHR 0x22] @ '':1,'' @ [CHR 0x22] @ ''memories''
                      @ [CHR 0x22] @ '':{}}''))
   | Directory \<Rightarrow> Inl (PyRuntimeError ''served-memories path must be a file'')
   | File t \<Rightarrow> Inr (File t))"

definition ensure_plugin_state_dir :: "host_entry \<Rightarrow> py_exc + host_entry" where
  "ensure_plugin_state_dir e = (case e of
     File _ \<Rightarrow> Inl (PyRuntimeError ''plugin-state path must be a directory'')
   | _ \<Rightarrow> Inr Directory)"

text \<open>The two governor values are set; every other key of the file is kept.\<close>

definition merge_plugin_config ::
  "(string \<Rightarrow> pyval option) \<Rightarrow> (pydict \<Rightarrow> string) \<Rightarrow> real \<Rightarrow> int \<Rightarrow> host_entry \<Rightarrow> py_exc + host_entry" where
  "merge_plugin_config loads dumps fl injected e =
     bind_result (case e of
         Absent \<Rightarrow> Inr []
       | Directory \<Rightarrow> Inl (PyRuntimeError ''plugin-config path must be a file'')
       | File t \<Rightarrow>
           (if strip t = [] then Inr []
            else case loads (strip t) of
              None \<Rightarrow> Inl (PyRuntimeError ''plugin-config is invalid JSON'')
            | Some (PDict d) \<Rightarrow> Inr d
            | Some _ \<Rightarrow> Inl (PyRuntimeError ''plugin-config must decode to a JSON object'')))
       (\<lambda>d. Inr (File (dumps (AList.update ''recall_max_injected'' (PInt injected)
                                (AList.update ''recall_relevance_floor'' (PFloat fl) d)) @ [CHR 0x0A])))"

text \<open>What a cell with memory needs on the host before its command line is built.\<close>

definition prepare_memory_files ::
  "(string \<Rightarrow> pyval option) \<Rightarrow> (pydict \<Rightarrow> string) \<Rightarrow> docker_config \<Rightarrow> host_files
   \<Rightarrow> py_exc option \<times> host_files" where
  "prepare_memory_files loads dumps c h =
     (case hf_token h of
        File _ \<Rightarrow>
          (if lower (strip (dc_recall_mode c)) = [] then (Some PyValueError, h)
           else case ensure_served_memories_store (hf_served h) of
             Inl x \<Rightarrow> (Some x, h)
           | Inr t \<Rightarrow>
               (let h = h\<lparr>hf_served := t\<rparr> in
                case ensure_plugin_state_dir (hf_plugin_state h) of
                  Inl x \<Rightarrow> (Some x, h)
                | Inr p \<Rightarrow>
                    (let h = h\<lparr>hf_plugin_state := p\<rparr> in
                     case merge_plugin_config loads dumps (dc_relevance_floor c) (dc_max_injected c)
                            (hf_plugin_config h) of
                       Inl x \<Rightarrow> (Some x, h)
                     | Inr g \<Rightarrow> (None, h\<lparr>hf_plugin_config := g\<rparr>))))
      | _ \<Rightarrow> (Some PyFileNotFoundError, h))"

definition base_argv :: "(string \<Rightarrow> string) \<Rightarrow> docker_config \<Rightarrow> int \<Rightarrow> int \<Rightarrow> string list" where
  "base_argv resolve c uid gid =
     (let home = dc_home_dir c in
      [''docker'', ''run'', ''-d'', ''--name'', dc_container_name c, ''--network'', dc_network c,
       ''--add-host'', ''host.docker.internal:host-gateway'',
       ''--user'', string_of_int uid @ '':'' @ string_of_int gid,
       ''--cap-drop'', ''ALL'', ''--security-opt'', ''no-new-privileges'', ''--read-only'',
       ''--tmpfs'', ''/tmp:mode=1777'', ''--tmpfs'', home @ '':mode=1777'',
       ''-e'', ''HOME='' @ home, ''-e'', ''XDG_CONFIG_HOME='' @ home @ ''/.config'',
       ''-e'', ''XDG_DATA_HOME='' @ home @ ''/.local/share'', ''-e'', ''XDG_CACHE_HOME='' @ home @ ''/.cache'',
       ''-e'', ''OPENCODE_CONFIG_DIR='' @ home @ ''/.config/opencode'',
       ''-e'', ''OPENCODE_CONFIG=/etc/xdg/opencode/opencode.json'', ''-e'', ''LOCAL_LLM_PROXY_API_KEY'',
       ''-v'', resolve (dc_worktree c) @ '':/work''])"

definition session_db_volume_name :: "docker_config \<Rightarrow> string" where
  "session_db_volume_name c = dc_container_name c @ ''-session-db''"

definition session_db_argv :: "docker_config \<Rightarrow> string list" where
  "session_db_argv c = (if dc_session_db_host c = None then []
     else [''--tmpfs'', dc_home_dir c @ ''/.local:mode=1777'',
           ''-v'', session_db_volume_name c @ '':'' @ dc_home_dir c @ ''/.local/share/opencode:rw''])"

definition memory_argv :: "(string \<Rightarrow> string) \<Rightarrow> docker_config \<Rightarrow> string list" where
  "memory_argv resolve c =
     [''-e'', ''WEVIBE_MCP_HTTP_URL='' @ dc_recall_url c,
      ''-e'', ''WEVIBE_RECALL_MODE='' @ lower (strip (dc_recall_mode c)),
      ''-e'', ''WEVIBE_HUB_URL='' @ dc_hub_url c,
      ''-e'', ''WEVIBE_SERVED_MEMORIES_PATH='' @ dc_served_memories_container c,
      ''-v'', resolve ''~/.wevibe/mcp-session-token'' @ '':'' @ dc_home_dir c @ ''/.wevibe/mcp-session-token:ro'',
      ''-v'', resolve (dc_plugin_config_host c) @ '':'' @ dc_home_dir c @ ''/.wevibe/plugin-config.json:ro'',
      ''-v'', resolve (dc_served_memories_host c) @ '':'' @ dc_served_memories_container c @ '':rw'',
      ''-v'', resolve (dc_plugin_state_host c) @ '':'' @ dc_plugin_state_container c @ '':rw'']"

definition answerer_policy :: "docker_config \<Rightarrow> string \<Rightarrow> string" where
  "answerer_policy c mode = (case dc_answerer_policy c of
     Some p \<Rightarrow> p | None \<Rightarrow> if mode = ''on'' then ''auto-accept'' else ''off'')"

definition run_argv ::
  "(string \<Rightarrow> string) \<Rightarrow> docker_config \<Rightarrow> int \<Rightarrow> int \<Rightarrow> string \<Rightarrow> string list" where
  "run_argv resolve c uid gid mode =
     base_argv resolve c uid gid
     @ (if dc_cloud c then [''-e'', ''ORCAROUTER_API_KEY''] else [])
     @ session_db_argv c
     @ (case dc_output_token_max c of None \<Rightarrow> []
        | Some n \<Rightarrow> [''-e'', ''OPENCODE_EXPERIMENTAL_OUTPUT_TOKEN_MAX='' @ string_of_int n])
     @ (if mode = ''on'' then memory_argv resolve c else [])
     @ [''-e'', ''WEVIBE_ANSWERER_POLICY='' @ answerer_policy c mode,
        ''-p'', ''127.0.0.1:'' @ string_of_int (dc_serve_host_port c) @ '':''
                @ string_of_int (dc_serve_container_port c),
        dc_image c, ''sleep'', ''infinity'']"

definition build_run_argv ::
  "(string \<Rightarrow> string) \<Rightarrow> (string \<Rightarrow> pyval option) \<Rightarrow> (pydict \<Rightarrow> string) \<Rightarrow> docker_config \<Rightarrow> int \<Rightarrow> int \<Rightarrow> string
   \<Rightarrow> host_files \<Rightarrow> (py_exc + string list) \<times> host_files" where
  "build_run_argv resolve loads dumps c uid gid mode h =
     (case (if mode = ''on'' then prepare_memory_files loads dumps c h else (None, h)) of
        (Some x, h) \<Rightarrow> (Inl x, h)
      | (None, h) \<Rightarrow> (Inr (run_argv resolve c uid gid mode), h))"

section \<open>The state of a cell and its environment\<close>

record capture_line =
  cl_step :: string
  cl_bytes :: nat
  cl_status :: string
  cl_reason :: string

record cell_state =
  dk_trace :: "(string list \<times> (string \<times> string) list) list"
  dk_id :: "string option"
  dk_serve :: "int option"
  dk_files :: host_files
  dk_log :: "capture_line list"

record docker_env =
  de_daemon :: "string list list \<Rightarrow> string list \<Rightarrow> cmd_result"
  de_resolve :: "string \<Rightarrow> string"
  de_loads :: "string \<Rightarrow> pyval option"
  de_dumps :: "pydict \<Rightarrow> string"
  de_uid :: int
  de_gid :: int
  de_cloud_key :: "py_exc + string"
  de_mkdir :: "string \<Rightarrow> bool"
  de_write :: "string \<Rightarrow> bool"
  de_rmtree :: "string list list \<Rightarrow> string \<Rightarrow> bool"
  de_size :: "string \<Rightarrow> nat"
  de_probes :: "bool list"

definition commands :: "cell_state \<Rightarrow> string list list" where
  "commands s = map fst (dk_trace s)"

text \<open>\<open>subprocess.run\<close>: the command is sent, with the variables added to the client's environment.\<close>

definition send :: "docker_env \<Rightarrow> string list \<Rightarrow> (string \<times> string) list \<Rightarrow> cell_state \<Rightarrow> cmd_result \<times> cell_state" where
  "send e argv env s =
     (de_daemon e (commands s) argv, s\<lparr>dk_trace := dk_trace s @ [(argv, env)]\<rparr>)"

text \<open>The exception of a \<open>subprocess.run\<close> nobody catches.\<close>

definition uncaught :: "cmd_result \<Rightarrow> py_exc option" where
  "uncaught r = (case r of No_Cli \<Rightarrow> Some PyFileNotFoundError | Failed \<Rightarrow> Some PyOSError | Exit _ _ _ \<Rightarrow> None)"

type_synonym cell_act = "cell_state \<Rightarrow> py_exc option \<times> cell_state"

definition and_then :: "cell_act \<Rightarrow> cell_act \<Rightarrow> cell_act" where
  "and_then f g s = (case f s of (Some x, s') \<Rightarrow> (Some x, s') | (None, s') \<Rightarrow> g s')"

definition skip_act :: cell_act where
  "skip_act s = (None, s)"

section \<open>Entering\<close>

text \<open>A failing \<open>network create\<close> is forgiven when the network is there; one that cannot be run is not
  caught and leaves as it is.\<close>

definition ensure_network :: "docker_env \<Rightarrow> string \<Rightarrow> cell_act" where
  "ensure_network e name s =
     (case send e [''docker'', ''network'', ''inspect'', name] [] s of (r, s) \<Rightarrow>
        (case r of
           No_Cli \<Rightarrow> (Some (PyRuntimeError ''docker CLI not found in PATH''), s)
         | Failed \<Rightarrow> (Some (PyRuntimeError ''docker network inspect failed''), s)
         | Exit rc _ _ \<Rightarrow>
             (if rc = 0 then (None, s)
              else case send e [''docker'', ''network'', ''create'', name] [] s of (r', s) \<Rightarrow>
                (if exit_ok r' then (None, s)
                 else (case uncaught r' of
                    Some x \<Rightarrow> (Some x, s)
                  | None \<Rightarrow>
                      (if contains (lower (result_detail r')) ''already exists'' then (None, s)
                       else (Some (PyRuntimeError ''docker network create failed''), s)))))))"

text \<open>One command of the volume's preparation: its exceptions leave, and a non-zero exit raises when the
  code looks at it.\<close>

definition must_run :: "docker_env \<Rightarrow> bool \<Rightarrow> string \<Rightarrow> string list \<Rightarrow> cell_act" where
  "must_run e checked what argv s =
     (case send e argv [] s of (r, s) \<Rightarrow>
        (case uncaught r of
           Some x \<Rightarrow> (Some x, s)
         | None \<Rightarrow> (if checked \<and> \<not> exit_ok r then Some (PyRuntimeError what) else None, s)))"

definition volume_rm_argv :: "docker_config \<Rightarrow> string list" where
  "volume_rm_argv c = [''docker'', ''volume'', ''rm'', ''-f'', session_db_volume_name c]"

definition volume_create_argv :: "docker_config \<Rightarrow> string list" where
  "volume_create_argv c = [''docker'', ''volume'', ''create'', session_db_volume_name c]"

definition volume_chown_argv :: "docker_env \<Rightarrow> docker_config \<Rightarrow> string list" where
  "volume_chown_argv e c =
     [''docker'', ''run'', ''--rm'', ''--user'', ''0:0'', ''-v'', session_db_volume_name c @ '':/vol'', dc_image c,
      ''sh'', ''-lc'',
      ''chown '' @ string_of_int (de_uid e) @ '':'' @ string_of_int (de_gid e) @ '' /vol && chmod 0700 /vol'']"

definition ensure_session_db_volume :: "docker_env \<Rightarrow> docker_config \<Rightarrow> cell_act" where
  "ensure_session_db_volume e c =
     and_then (must_run e False [] (volume_rm_argv c))
       (and_then (must_run e True ''docker volume create failed'' (volume_create_argv c))
          (must_run e True ''session-db volume chown failed'' (volume_chown_argv e c)))"

text \<open>\<open>docker run\<close>: the key travels in the client's environment.\<close>

definition launch :: "docker_env \<Rightarrow> docker_config \<Rightarrow> string \<Rightarrow> string \<Rightarrow> cell_act" where
  "launch e c mode key s =
     (case build_run_argv (de_resolve e) (de_loads e) (de_dumps e) c (de_uid e) (de_gid e) mode (dk_files s) of
        (Inl x, h) \<Rightarrow> (Some x, s\<lparr>dk_files := h\<rparr>)
      | (Inr argv, h) \<Rightarrow>
          (case send e argv [(if dc_cloud c then ''ORCAROUTER_API_KEY'' else ''LOCAL_LLM_PROXY_API_KEY'', key)]
                  (s\<lparr>dk_files := h\<rparr>) of (r, s) \<Rightarrow>
             (case r of
                No_Cli \<Rightarrow> (Some (PyRuntimeError ''docker CLI not found in PATH''), s)
              | Failed \<Rightarrow> (Some (PyRuntimeError ''docker run failed to launch container''), s)
              | Exit rc out err \<Rightarrow>
                  (if rc \<noteq> 0 then (Some (PyRuntimeError ''docker run failed''), s)
                   else if strip out = [] then (Some (PyRuntimeError ''docker run returned empty container id''), s)
                   else (None, s\<lparr>dk_id := Some (strip out)\<rparr>)))))"

definition cell_key :: "docker_env \<Rightarrow> docker_config \<Rightarrow> py_exc + string" where
  "cell_key e c =
     (if dc_cloud c then de_cloud_key e
      else (let t = strip (opt_or (dc_proxy_token c) []) in if t = [] then Inl PyValueError else Inr t))"

definition enter :: "docker_env \<Rightarrow> docker_config \<Rightarrow> cell_act" where
  "enter e c s =
     (let mode = lower (strip (dc_memory_mode c)) in
      if mode \<noteq> ''off'' \<and> mode \<noteq> ''on'' then (Some PyValueError, s)
      else if \<not> de_mkdir e (de_resolve e (dc_worktree c)) then (Some PyOSError, s)
      else if (case dc_session_db_host c of None \<Rightarrow> False | Some p \<Rightarrow> \<not> de_mkdir e p) then (Some PyOSError, s)
      else case cell_key e c of
        Inl x \<Rightarrow> (Some x, s)
      | Inr key \<Rightarrow>
          and_then (ensure_network e (dc_network c))
            (and_then (if dc_session_db_host c = None then skip_act else ensure_session_db_volume e c)
               (launch e c mode key)) s)"

section \<open>Commands inside the container\<close>

definition exec_argv :: "docker_config \<Rightarrow> string list \<Rightarrow> string list" where
  "exec_argv c inner = [''docker'', ''exec'', ''-i'', ''-w'', ''/work'', dc_container_name c] @ inner"

definition shell_argv :: "docker_config \<Rightarrow> string \<Rightarrow> string list" where
  "shell_argv c script = exec_argv c [''sh'', ''-lc'', script]"

text \<open>The quote characters of the shell scripts: apostrophe, double quote, dollar.\<close>

definition SQ :: string where "SQ = [CHR 0x27]"
definition DQ :: string where "DQ = [CHR 0x22]"
definition DOLLAR :: string where "DOLLAR = [CHR 0x24]"

definition kill_script :: "int option \<Rightarrow> string" where
  "kill_script serve = (case serve of
     Some pid \<Rightarrow>
       ''pids='' @ DOLLAR @ ''(pgrep -f '' @ SQ @ ''[o]pencode'' @ SQ @ '' || true); for p in '' @ DOLLAR
       @ ''pids; do if [ '' @ DQ @ DOLLAR @ ''p'' @ DQ @ '' != '' @ DQ @ string_of_int pid @ DQ
       @ '' ]; then kill -9 '' @ DQ @ DOLLAR @ ''p'' @ DQ @ '' 2>/dev/null || true; fi; done''
   | None \<Rightarrow> ''pkill -9 -f '' @ SQ @ ''[o]pencode'' @ SQ @ '' || true'')"

text \<open>The hook of an aborted attempt: every worker is killed, the live-view server is spared.\<close>

definition kill_worker_processes :: "docker_env \<Rightarrow> docker_config \<Rightarrow> cell_act" where
  "kill_worker_processes e c s =
     (if dc_container_name c = [] then (None, s)
      else case send e (shell_argv c (kill_script (dk_serve s))) [] s of (r, s) \<Rightarrow>
        (case r of
           No_Cli \<Rightarrow> (Some (PyRuntimeError ''docker CLI not found in PATH''), s)
         | Failed \<Rightarrow> (Some (PyRuntimeError ''docker exec process-kill failed''), s)
         | Exit rc _ _ \<Rightarrow>
             (if rc \<noteq> 0 then (Some (PyRuntimeError ''docker exec process-kill failed''), s) else (None, s))))"

definition add_line :: "string \<Rightarrow> nat \<Rightarrow> string \<Rightarrow> string \<Rightarrow> cell_state \<Rightarrow> cell_state" where
  "add_line step n status reason s =
     s\<lparr>dk_log := dk_log s @ [\<lparr>cl_step = step, cl_bytes = n, cl_status = status, cl_reason = reason\<rparr>]\<rparr>"

definition serve_script :: "docker_config \<Rightarrow> string" where
  "serve_script c =
     ''OPENCODE_CONFIG=/work/opencode.json nohup opencode serve --hostname 0.0.0.0 --port ''
     @ string_of_int (dc_serve_container_port c)
     @ '' --print-logs >/tmp/opencode-serve.log 2>&1 & echo '' @ DOLLAR @ ''!''"

text \<open>The server's PID is what the shell echoed; a server that cannot be reached before the deadline
  (\<open>de_probes\<close>: the answers of the probes up to it) is only reported.\<close>

definition start_serve :: "docker_env \<Rightarrow> docker_config \<Rightarrow> cell_act" where
  "start_serve e c s =
     (if dk_serve s \<noteq> None then (None, s)
      else case send e (shell_argv c (serve_script c)) [] s of (r, s) \<Rightarrow>
        (case r of
           No_Cli \<Rightarrow> (Some (PyRuntimeError ''docker CLI not found in PATH''), s)
         | Failed \<Rightarrow> (Some (PyRuntimeError ''docker exec serve-start failed''), s)
         | Exit rc out _ \<Rightarrow>
             (if rc \<noteq> 0 \<or> \<not> is_digit_string (strip out)
              then (Some (PyRuntimeError ''docker exec serve-start failed''), s)
              else (None, add_line ''serve'' 0
                      (if list_ex (\<lambda>b. b) (de_probes e) then ''ok'' else ''unreachable'') ''none''
                      (s\<lparr>dk_serve := Some (int (digits_value (strip out)))\<rparr>)))))"

definition stop_serve :: "docker_env \<Rightarrow> docker_config \<Rightarrow> cell_state \<Rightarrow> cell_state" where
  "stop_serve e c s = (case dk_serve s of
     None \<Rightarrow> s
   | Some pid \<Rightarrow>
       (snd (send e (shell_argv c (''kill -9 '' @ string_of_int pid @ '' 2>/dev/null || true'')) [] s))
         \<lparr>dk_serve := None\<rparr>)"

section \<open>Leaving\<close>

definition capture_reason :: "string \<Rightarrow> string" where
  "capture_reason r = (let n = join '' '' (split_ws r) in
     if n = [] then ''none'' else if 512 < length n then take 509 n @ ''...'' else n)"

definition log_capture :: "string \<Rightarrow> nat \<Rightarrow> string \<Rightarrow> string \<Rightarrow> cell_state \<Rightarrow> cell_state" where
  "log_capture step n status reason s = add_line step n status (capture_reason reason) s"

definition rc_reason :: "string \<Rightarrow> cmd_result \<Rightarrow> string" where
  "rc_reason what r = (case r of
     Exit rc _ _ \<Rightarrow> what @ string_of_int rc @ '' detail='' @ result_detail r
   | _ \<Rightarrow> ''exception'')"

definition capture_inspect :: "docker_env \<Rightarrow> docker_config \<Rightarrow> string \<Rightarrow> cell_state \<Rightarrow> cell_state" where
  "capture_inspect e c path s =
     (case send e [''docker'', ''inspect'', dc_container_name c] [] s of (r, s) \<Rightarrow>
        if \<not> exit_ok r then log_capture ''inspect'' 0 ''failed'' (rc_reason ''rc='' r) s
        else if \<not> de_write e path then log_capture ''inspect'' 0 ''failed'' ''exception'' s
        else log_capture ''inspect'' (de_size e path) ''ok'' ''none'' s)"

text \<open>The container's own output is written whatever the exit code was.\<close>

definition capture_docker_logs :: "docker_env \<Rightarrow> docker_config \<Rightarrow> string \<Rightarrow> cell_state \<Rightarrow> cell_state" where
  "capture_docker_logs e c path s =
     (case send e [''docker'', ''logs'', ''--timestamps'', dc_container_name c] [] s of (r, s) \<Rightarrow>
        if uncaught r \<noteq> None \<or> \<not> de_write e path then log_capture ''docker_logs'' 0 ''failed'' ''exception'' s
        else if exit_ok r then log_capture ''docker_logs'' (de_size e path) ''ok'' ''none'' s
        else log_capture ''docker_logs'' (de_size e path) ''failed'' (rc_reason ''rc='' r) s)"

definition stage_argv :: "docker_config \<Rightarrow> string list" where
  "stage_argv c = shell_argv c
     (''mkdir -p /work/.wevibe-worker-log-export/opencode && cp -a '' @ dc_home_dir c
      @ ''/.local/share/opencode/. /work/.wevibe-worker-log-export/opencode/'')"

definition copy_logs_argv :: "docker_config \<Rightarrow> string \<Rightarrow> string list" where
  "copy_logs_argv c path =
     [''docker'', ''cp'', dc_container_name c @ '':/work/.wevibe-worker-log-export/opencode/.'', path]"

text \<open>The staging directory is removed before and after; when the second removal raises, a second line is
  written for the step.\<close>

definition capture_opencode :: "docker_env \<Rightarrow> docker_config \<Rightarrow> string \<Rightarrow> cell_state \<Rightarrow> cell_state" where
  "capture_opencode e c path s =
     (let staging = de_resolve e (dc_worktree c) @ ''/.wevibe-worker-log-export'';
          raised = log_capture ''cp'' 0 ''failed'' ''exception'';
          finish = (\<lambda>s. if de_rmtree e (commands s) staging then s else raised s) in
      if \<not> de_mkdir e path \<or> \<not> de_rmtree e (commands s) staging then raised s
      else case send e (stage_argv c) [] s of (r, s) \<Rightarrow>
        if uncaught r \<noteq> None then raised s
        else if \<not> exit_ok r then finish (log_capture ''cp'' (de_size e path) ''failed'' (rc_reason ''stage_rc='' r) s)
        else case send e (copy_logs_argv c path) [] s of (r', s) \<Rightarrow>
          if uncaught r' \<noteq> None then raised s
          else if \<not> exit_ok r' then finish (log_capture ''cp'' (de_size e path) ''failed'' (rc_reason ''rc='' r') s)
          else finish (log_capture ''cp'' (de_size e path) ''ok'' ''none'' s))"

definition capture_worker_logs :: "docker_env \<Rightarrow> docker_config \<Rightarrow> cell_state \<Rightarrow> cell_state" where
  "capture_worker_logs e c s = (case dc_worker_logs_dir c of
     None \<Rightarrow> add_line ''skip'' 0 ''skipped'' ''worker_logs_dir_none'' s
   | Some d \<Rightarrow>
       (let dest = de_resolve e d in
        if \<not> de_mkdir e dest then
          log_capture ''cp'' 0 ''failed'' ''destination_mkdir_failed''
            (log_capture ''docker_logs'' 0 ''failed'' ''destination_mkdir_failed''
               (log_capture ''inspect'' 0 ''failed'' ''destination_mkdir_failed'' s))
        else capture_opencode e c (dest @ ''/opencode'')
               (capture_docker_logs e c (dest @ ''/container-docker.log'')
                  (capture_inspect e c (dest @ ''/container-inspect.json'') s))))"

definition export_argv :: "docker_config \<Rightarrow> string \<Rightarrow> string list" where
  "export_argv c dest =
     [''docker'', ''cp'', dc_container_name c @ '':'' @ dc_home_dir c @ ''/.local/share/opencode/.'', dest]"

definition export_session_db :: "docker_env \<Rightarrow> docker_config \<Rightarrow> cell_state \<Rightarrow> cell_state" where
  "export_session_db e c s = (case dc_session_db_host c of
     None \<Rightarrow> s
   | Some p \<Rightarrow>
       (let dest = de_resolve e p in
        if \<not> de_mkdir e dest then add_line ''session-db-export'' 0 ''failed'' ''exception'' s
        else case send e (export_argv c dest) [] s of (r, s) \<Rightarrow>
          if exit_ok r then add_line ''session-db-export'' (de_size e (dest @ ''/opencode.db'')) ''ok'' ''none'' s
          else add_line ''session-db-export'' 0 ''failed'' (rc_reason ''rc='' r) s))"

definition remove_session_db_volume :: "docker_env \<Rightarrow> docker_config \<Rightarrow> cell_act" where
  "remove_session_db_volume e c s =
     (case send e (volume_rm_argv c) [] s of (r, s) \<Rightarrow>
        (case uncaught r of
           Some x \<Rightarrow> (Some x, s)
         | None \<Rightarrow> (None, add_line ''session-db-volume'' 0 (if exit_ok r then ''ok'' else ''failed'') ''none'' s)))"

definition container_rm_argv :: "docker_config \<Rightarrow> string list" where
  "container_rm_argv c = [''docker'', ''rm'', ''-f'', dc_container_name c]"

definition remove_container :: "docker_env \<Rightarrow> docker_config \<Rightarrow> cell_state \<Rightarrow> cell_state" where
  "remove_container e c s =
     (case send e (container_rm_argv c) [] s of (r, s) \<Rightarrow>
        (case r of
           No_Cli \<Rightarrow> add_line ''docker-rm'' 0 ''fail'' ''docker_cli_missing'' s
         | Failed \<Rightarrow> add_line ''docker-rm'' 0 ''fail'' ''exception'' s
         | Exit rc _ _ \<Rightarrow>
             (if rc = 0 then add_line ''docker-rm'' 0 ''done'' (result_detail r) s
              else if contains (result_detail r) ''No such container''
              then add_line ''docker-rm'' 0 ''done'' ''already-absent'' s
              else add_line ''docker-rm'' 0 ''fail'' (rc_reason ''rc='' r) s))\<lparr>dk_id := None\<rparr>)"

definition teardown :: "docker_env \<Rightarrow> docker_config \<Rightarrow> cell_act" where
  "teardown e c s =
     (if dc_container_name c = [] then (None, s)
      else (let s = remove_container e c (export_session_db e c (capture_worker_logs e c (stop_serve e c s))) in
            if dc_session_db_host c = None then (None, s) else remove_session_db_volume e c s))"

text \<open>\<open>with DockerCell(...) as cell\<close>: a cell that could not be entered is not left.\<close>

definition with_cell :: "docker_env \<Rightarrow> docker_config \<Rightarrow> cell_act \<Rightarrow> cell_act" where
  "with_cell e c body s = (case enter e c s of
     (Some x, s) \<Rightarrow> (Some x, s)
   | (None, s) \<Rightarrow>
       (case body s of (r, s) \<Rightarrow>
          (case teardown e c s of (Some x, s) \<Rightarrow> (Some x, s) | (None, s) \<Rightarrow> (r, s))))"

section \<open>What every operation sends\<close>

lemma commands_send [simp]: "commands (snd (send e a v s)) = commands s @ [a]"
  by (simp add: send_def commands_def)

lemma send_eq:
  "send e a v s = (r, s') \<longleftrightarrow> r = de_daemon e (commands s) a \<and> s' = s\<lparr>dk_trace := dk_trace s @ [(a, v)]\<rparr>"
  by (auto simp: send_def)

lemma commands_update [simp]:
  "commands (s\<lparr>dk_trace := dk_trace s @ l\<rparr>) = commands s @ map fst l"
  "commands (s\<lparr>dk_id := i\<rparr>) = commands s" "commands (s\<lparr>dk_serve := p\<rparr>) = commands s"
  "commands (s\<lparr>dk_files := h\<rparr>) = commands s" "commands (add_line a' n b c s) = commands s"
  "commands (log_capture a' n b c s) = commands s"
  by (simp_all add: commands_def add_line_def log_capture_def)

lemma serve_update [simp]:
  "dk_serve (add_line a n b c s) = dk_serve s" "dk_serve (log_capture a n b c s) = dk_serve s"
  "dk_id (add_line a n b c s) = dk_id s" "dk_id (log_capture a n b c s) = dk_id s"
  by (simp_all add: add_line_def log_capture_def)

text \<open>\<open>grows s s'\<close>: only further commands were sent, and the server's PID was left alone.\<close>

definition grows :: "cell_state \<Rightarrow> cell_state \<Rightarrow> bool" where
  "grows s s' \<longleftrightarrow> (\<exists>l. commands s' = commands s @ l) \<and> dk_serve s' = dk_serve s"

lemma grows_refl: "grows s s"
  by (simp add: grows_def)

lemma grows_trans: "grows s t \<Longrightarrow> grows t u \<Longrightarrow> grows s u"
  by (auto simp: grows_def)

lemma grows_inspect: "grows s (capture_inspect e c p s)"
  by (simp add: capture_inspect_def send_def grows_def)

lemma grows_docker_logs: "grows s (capture_docker_logs e c p s)"
  by (simp add: capture_docker_logs_def send_def grows_def)

lemma grows_opencode: "grows s (capture_opencode e c p s)"
  by (simp add: capture_opencode_def send_def Let_def grows_def)

lemma grows_line: "grows s (log_capture a n b c s')" if "grows s s'"
  using that by (simp add: grows_def)

lemma grows_captures:
  "grows s (capture_opencode e c p (capture_docker_logs e c p' (capture_inspect e c p'' s)))"
  by (rule grows_trans [OF grows_trans [OF grows_inspect grows_docker_logs] grows_opencode])

lemma grows_logs: "grows s (capture_worker_logs e c s)"
proof (cases "dc_worker_logs_dir c")
  case None
  then show ?thesis by (simp add: capture_worker_logs_def grows_def)
next
  case (Some d)
  then show ?thesis
    by (cases "de_mkdir e (de_resolve e d)")
      (simp_all add: capture_worker_logs_def Let_def grows_captures grows_line grows_refl)
qed

lemma export_sends:
  "commands (export_session_db e c s) =
     commands s @ (case dc_session_db_host c of
        None \<Rightarrow> []
      | Some p \<Rightarrow> if de_mkdir e (de_resolve e p) then [export_argv c (de_resolve e p)] else [])"
  by (simp add: export_session_db_def send_def Let_def split: option.splits)

lemma export_serve: "dk_serve (export_session_db e c s) = dk_serve s"
  by (simp add: export_session_db_def send_def Let_def split: option.splits)

lemma remove_container_sends: "commands (remove_container e c s) = commands s @ [container_rm_argv c]"
  by (simp add: remove_container_def send_def split: cmd_result.splits)

lemma remove_container_state:
  "dk_id (remove_container e c s) = None" "dk_serve (remove_container e c s) = dk_serve s"
  by (simp_all add: remove_container_def send_def split: cmd_result.splits)

lemma remove_volume_sends: "commands (snd (remove_session_db_volume e c s)) = commands s @ [volume_rm_argv c]"
  by (simp add: remove_session_db_volume_def send_def uncaught_def split: cmd_result.splits)

lemma remove_volume_state:
  "dk_id (snd (remove_session_db_volume e c s)) = dk_id s"
  "dk_serve (snd (remove_session_db_volume e c s)) = dk_serve s"
  by (simp_all add: remove_session_db_volume_def send_def uncaught_def split: cmd_result.splits)

lemma stop_serve_sends:
  "commands (stop_serve e c s) = commands s @ (case dk_serve s of
      None \<Rightarrow> [] | Some pid \<Rightarrow> [shell_argv c (''kill -9 '' @ string_of_int pid @ '' 2>/dev/null || true'')])"
  "dk_serve (stop_serve e c s) = None"
  by (simp_all add: stop_serve_def send_def split: option.splits)

section \<open>Leaving a cell\<close>

lemma teardown_sends:
  assumes "dc_container_name c \<noteq> []" and "dc_session_db_host c = Some p"
  shows "\<exists>logs. commands (snd (teardown e c s)) = commands s
            @ (case dk_serve s of None \<Rightarrow> []
               | Some pid \<Rightarrow> [shell_argv c (''kill -9 '' @ string_of_int pid @ '' 2>/dev/null || true'')])
            @ logs @ (if de_mkdir e (de_resolve e p) then [export_argv c (de_resolve e p)] else [])
            @ [container_rm_argv c, volume_rm_argv c]"
proof -
  obtain logs where "commands (capture_worker_logs e c (stop_serve e c s)) = commands (stop_serve e c s) @ logs"
    using grows_logs [of "stop_serve e c s" e c] unfolding grows_def by blast
  with assms show ?thesis
    by (simp add: teardown_def Let_def remove_volume_sends remove_container_sends export_sends stop_serve_sends)
qed

lemma teardown_state:
  assumes "dc_container_name c \<noteq> []"
  shows "dk_id (snd (teardown e c s)) = None" and "dk_serve (snd (teardown e c s)) = None"
proof -
  have "dk_serve (capture_worker_logs e c (stop_serve e c s)) = None"
    using grows_logs [of "stop_serve e c s" e c] by (simp add: grows_def stop_serve_sends)
  then show "dk_serve (snd (teardown e c s)) = None"
    using assms by (simp add: teardown_def Let_def remove_volume_state remove_container_state export_serve)
  show "dk_id (snd (teardown e c s)) = None"
    using assms by (simp add: teardown_def Let_def remove_volume_state remove_container_state)
qed

text \<open>C21. A cell that was entered is left clean: whatever its body did, whatever the daemon answered and
  whichever steps of the log capture and of the export failed, the last two commands of the cell
  are the forced removal of the container and of its session volume, the server was stopped and
  the session copied out (when its directory could be made) before them, and no container id or
  server PID is kept.\<close>

theorem entered_cells_are_torn_down:
  assumes "enter e c s = (None, s1)" and "body s1 = (r, s2)"
    and "dc_container_name c \<noteq> []" and "dc_session_db_host c = Some p"
  shows "(\<exists>logs. commands (snd (with_cell e c body s)) = commands s2
            @ (case dk_serve s2 of None \<Rightarrow> []
               | Some pid \<Rightarrow> [shell_argv c (''kill -9 '' @ string_of_int pid @ '' 2>/dev/null || true'')])
            @ logs @ (if de_mkdir e (de_resolve e p) then [export_argv c (de_resolve e p)] else [])
            @ [container_rm_argv c, volume_rm_argv c])
       \<and> dk_id (snd (with_cell e c body s)) = None
       \<and> dk_serve (snd (with_cell e c body s)) = None"
proof -
  have left: "snd (with_cell e c body s) = snd (teardown e c s2)"
    using assms(1,2) by (simp add: with_cell_def split: prod.splits option.splits)
  show ?thesis
    unfolding left using teardown_sends [OF assms(3,4)] teardown_state [OF assms(3)] by blast
qed

section \<open>Failures\<close>

lemma check_ok: "exit_ok r \<longleftrightarrow> (\<exists>out err. r = Exit 0 out err)"
  by (cases r) (auto simp: exit_ok_def)

text \<open>A cell whose container does not start has created its volume and never removes it: the
  \<open>with\<close> block is not entered, and nothing follows the failed \<open>docker run\<close>.\<close>

lemma launch_refused:
  assumes "build_run_argv (de_resolve e) (de_loads e) (de_dumps e) c (de_uid e) (de_gid e) mode (dk_files s) = (Inr a, h)"
    and "\<not> exit_ok (de_daemon e (commands s) a)"
  shows "fst (launch e c mode k s) \<noteq> None" and "commands (snd (launch e c mode k s)) = commands s @ [a]"
    and "dk_id (snd (launch e c mode k s)) = dk_id s"
  using assms
  by (auto simp: launch_def send_def commands_def exit_ok_def split: cmd_result.splits)

lemma must_run_ok:
  "exit_ok (de_daemon e (commands s) a) \<Longrightarrow>
     must_run e b w a s = (None, s\<lparr>dk_trace := dk_trace s @ [(a, [])]\<rparr>)"
  by (auto simp: must_run_def send_def check_ok uncaught_def)

lemma must_run_unchecked:
  "uncaught (de_daemon e (commands s) a) = None \<Longrightarrow>
     must_run e False w a s = (None, s\<lparr>dk_trace := dk_trace s @ [(a, [])]\<rparr>)"
  by (simp add: must_run_def send_def)

lemma ensure_network_found:
  "exit_ok (de_daemon e (commands s) [''docker'', ''network'', ''inspect'', n]) \<Longrightarrow>
     ensure_network e n s = (None, s\<lparr>dk_trace := dk_trace s @ [([''docker'', ''network'', ''inspect'', n], [])]\<rparr>)"
  by (auto simp: ensure_network_def send_def check_ok)

lemma ensure_volume_ok:
  assumes "\<And>h. uncaught (de_daemon e h (volume_rm_argv c)) = None"
    and "\<And>h. exit_ok (de_daemon e h (volume_create_argv c))"
    and "\<And>h. exit_ok (de_daemon e h (volume_chown_argv e c))"
  shows "ensure_session_db_volume e c s =
     (None, s\<lparr>dk_trace := dk_trace s @ [(volume_rm_argv c, []), (volume_create_argv c, []), (volume_chown_argv e c, [])]\<rparr>)"
  using assms by (simp add: ensure_session_db_volume_def and_then_def must_run_unchecked must_run_ok)

lemma enter_runs:
  assumes "lower (strip (dc_memory_mode c)) = m" and "m = ''off'' \<or> m = ''on''"
    and "de_mkdir e (de_resolve e (dc_worktree c))" and "dc_session_db_host c = Some p" and "de_mkdir e p"
    and "cell_key e c = Inr k"
    and "\<And>h. exit_ok (de_daemon e h [''docker'', ''network'', ''inspect'', dc_network c])"
    and "\<And>h. uncaught (de_daemon e h (volume_rm_argv c)) = None"
    and "\<And>h. exit_ok (de_daemon e h (volume_create_argv c))"
    and "\<And>h. exit_ok (de_daemon e h (volume_chown_argv e c))"
  shows "enter e c s = launch e c m k (s\<lparr>dk_trace := dk_trace s @
           [([''docker'', ''network'', ''inspect'', dc_network c], []), (volume_rm_argv c, []),
            (volume_create_argv c, []), (volume_chown_argv e c, [])]\<rparr>)"
  using assms by (auto simp: enter_def and_then_def ensure_network_found ensure_volume_ok)

text \<open>A container that does not start leaves its volume behind: once the network is there and the
  volume was created and handed over, a \<open>docker run\<close> that fails raises out of \<open>__enter__\<close>, so the
  \<open>with\<close> block never reaches \<open>teardown\<close> and no removal is sent after the creation.  The removal of
  a stale volume before it may fail without being noticed.\<close>

theorem failed_start_leaks_the_volume:
  assumes "lower (strip (dc_memory_mode c)) = m" and "m = ''off'' \<or> m = ''on''"
    and "de_mkdir e (de_resolve e (dc_worktree c))" and "dc_session_db_host c = Some p" and "de_mkdir e p"
    and "cell_key e c = Inr k"
    and "\<And>h. exit_ok (de_daemon e h [''docker'', ''network'', ''inspect'', dc_network c])"
    and "\<And>h. uncaught (de_daemon e h (volume_rm_argv c)) = None"
    and "\<And>h. exit_ok (de_daemon e h (volume_create_argv c))"
    and "\<And>h. exit_ok (de_daemon e h (volume_chown_argv e c))"
    and "build_run_argv (de_resolve e) (de_loads e) (de_dumps e) c (de_uid e) (de_gid e) m (dk_files s) = (Inr a, g)"
    and "\<And>h. \<not> exit_ok (de_daemon e h a)"
  shows "fst (with_cell e c body s) \<noteq> None
       \<and> commands (snd (with_cell e c body s)) = commands s
           @ [[''docker'', ''network'', ''inspect'', dc_network c], volume_rm_argv c, volume_create_argv c,
              volume_chown_argv e c, a]
       \<and> dk_id (snd (with_cell e c body s)) = dk_id s"
proof -
  let ?s = "s\<lparr>dk_trace := dk_trace s @
           [([''docker'', ''network'', ''inspect'', dc_network c], []), (volume_rm_argv c, []),
            (volume_create_argv c, []), (volume_chown_argv e c, [])]\<rparr>"
  have enter: "enter e c s = launch e c m k ?s"
    by (rule enter_runs [OF assms(1-10)])
  have built: "build_run_argv (de_resolve e) (de_loads e) (de_dumps e) c (de_uid e) (de_gid e) m (dk_files ?s) = (Inr a, g)"
    using assms(11) by simp
  note refused = launch_refused [where s = ?s and k = k, OF built assms(12)]
  obtain x s1 where l: "launch e c m k ?s = (Some x, s1)"
    using refused(1) by (cases "launch e c m k ?s") auto
  then have "with_cell e c body s = (Some x, s1)"
    by (simp add: with_cell_def enter)
  with refused(2,3) l show ?thesis by simp
qed

text \<open>Leaving a cell raises when the Docker client is missing, although the clean-up is written never
  to raise: the removal of the session volume, which runs in a \<open>finally\<close> block after the handled
  failure of \<open>docker rm\<close>, catches nothing.\<close>

theorem missing_client_breaks_the_teardown:
  assumes "dc_container_name c \<noteq> []" and "dc_session_db_host c \<noteq> None"
    and "\<And>h. de_daemon e (commands s @ h) (volume_rm_argv c) = No_Cli"
  shows "fst (teardown e c s) = Some PyFileNotFoundError"
proof -
  let ?t = "remove_container e c (export_session_db e c (capture_worker_logs e c (stop_serve e c s)))"
  obtain logs where "commands (capture_worker_logs e c (stop_serve e c s)) = commands (stop_serve e c s) @ logs"
    using grows_logs [of "stop_serve e c s" e c] unfolding grows_def by blast
  then obtain l where "commands ?t = commands s @ l"
    by (simp add: remove_container_sends export_sends stop_serve_sends)
  with assms(3) have "de_daemon e (commands ?t) (volume_rm_argv c) = No_Cli"
    by simp
  with assms(1,2) show ?thesis
    by (simp add: teardown_def Let_def remove_session_db_volume_def send_def uncaught_def)
qed

section \<open>What the container is told\<close>

lemma send_key [simp]:
  "send (e\<lparr>de_cloud_key := q\<rparr>) = send e"
  by (simp add: send_def fun_eq_iff)

lemma names_key [simp]:
  "volume_rm_argv (c\<lparr>dc_proxy_token := t\<rparr>) = volume_rm_argv c"
  "volume_create_argv (c\<lparr>dc_proxy_token := t\<rparr>) = volume_create_argv c"
  "volume_chown_argv (e\<lparr>de_cloud_key := q\<rparr>) (c\<lparr>dc_proxy_token := t\<rparr>) = volume_chown_argv e c"
  by (simp_all add: volume_rm_argv_def volume_create_argv_def volume_chown_argv_def session_db_volume_name_def)

lemma acts_key [simp]:
  "must_run (e\<lparr>de_cloud_key := q\<rparr>) = must_run e"
  "ensure_network (e\<lparr>de_cloud_key := q\<rparr>) = ensure_network e"
  by (simp_all add: must_run_def ensure_network_def send_def fun_eq_iff split: cmd_result.splits)

lemma volume_key [simp]:
  "ensure_session_db_volume (e\<lparr>de_cloud_key := q\<rparr>) (c\<lparr>dc_proxy_token := t\<rparr>) = ensure_session_db_volume e c"
  by (simp add: ensure_session_db_volume_def)

lemma memory_files_key [simp]:
  "prepare_memory_files l d (c\<lparr>dc_proxy_token := t\<rparr>) h = prepare_memory_files l d c h"
  by (simp add: prepare_memory_files_def Let_def split: host_entry.splits sum.splits)

lemma run_argv_key [simp]: "run_argv r (c\<lparr>dc_proxy_token := t\<rparr>) u g m = run_argv r c u g m"
  by (simp add: run_argv_def base_argv_def session_db_argv_def memory_argv_def
      answerer_policy_def session_db_volume_name_def)

lemma build_key [simp]:
  "build_run_argv r l d (c\<lparr>dc_proxy_token := t\<rparr>) u g m h = build_run_argv r l d c u g m h"
  by (simp add: build_run_argv_def split: prod.splits option.splits)

definition seen :: "py_exc option \<times> cell_state \<Rightarrow> py_exc option \<times> string list list \<times> string option \<times> host_files" where
  "seen r = (fst r, commands (snd r), dk_id (snd r), dk_files (snd r))"

lemma launch_key:
  "seen (launch (e\<lparr>de_cloud_key := q\<rparr>) (c\<lparr>dc_proxy_token := t\<rparr>) m k' s) = seen (launch e c m k s)"
  by (auto simp: launch_def seen_def send_def commands_def split: prod.splits sum.splits cmd_result.splits)

text \<open>The key a cell is given never reaches a command line: two entries that differ only in the
  proxy token and in the cloud key send the same commands, raise the same exception or yield the
  same container, and leave the same files, for every daemon that answers by the commands.\<close>

theorem key_never_reaches_a_command:
  assumes "cell_key e c = Inr k"
    and "cell_key (e\<lparr>de_cloud_key := q\<rparr>) (c\<lparr>dc_proxy_token := t\<rparr>) = Inr k'"
  shows "seen (enter (e\<lparr>de_cloud_key := q\<rparr>) (c\<lparr>dc_proxy_token := t\<rparr>) s) = seen (enter e c s)"
  using assms
  by (auto simp: enter_def and_then_def Let_def launch_key skip_act_def split: prod.splits option.splits)

definition with_recall ::
  "docker_config \<Rightarrow> string \<Rightarrow> string \<Rightarrow> string \<Rightarrow> real \<Rightarrow> int \<Rightarrow> string \<Rightarrow> string \<Rightarrow> string \<Rightarrow> docker_config" where
  "with_recall c url hub mode fl injected served state config =
     c\<lparr>dc_recall_url := url, dc_hub_url := hub, dc_recall_mode := mode, dc_relevance_floor := fl,
       dc_max_injected := injected, dc_served_memories_host := served,
       dc_served_memories_container := served, dc_plugin_state_host := state,
       dc_plugin_state_container := state, dc_plugin_config_host := config\<rparr>"

lemma recall_key:
  "session_db_volume_name (with_recall c a b m f i v w g) = session_db_volume_name c"
  "dc_container_name (with_recall c a b m f i v w g) = dc_container_name c"
  "dc_network (with_recall c a b m f i v w g) = dc_network c"
  "dc_image (with_recall c a b m f i v w g) = dc_image c"
  "dc_cloud (with_recall c a b m f i v w g) = dc_cloud c"
  "dc_memory_mode (with_recall c a b m f i v w g) = dc_memory_mode c"
  "dc_worktree (with_recall c a b m f i v w g) = dc_worktree c"
  "dc_session_db_host (with_recall c a b m f i v w g) = dc_session_db_host c"
  "dc_proxy_token (with_recall c a b m f i v w g) = dc_proxy_token c"
  by (simp_all add: with_recall_def session_db_volume_name_def)

lemma recall_run_argv:
  "run_argv r (with_recall c a b m f i v w g) u gi ''off'' = run_argv r c u gi ''off''"
  by (simp add: run_argv_def base_argv_def session_db_argv_def answerer_policy_def
      session_db_volume_name_def with_recall_def)

lemma recall_build:
  "build_run_argv r l d (with_recall c a b m f i v w g) u gi ''off'' h = build_run_argv r l d c u gi ''off'' h"
  by (simp add: build_run_argv_def recall_run_argv)

text \<open>C22. A cell without memory is blind to the memory settings: its commands, its outcome and the host
  files it leaves are those of the same cell with any other recall service, hub, recall mode,
  governor values and shared paths.\<close>

theorem off_cell_ignores_the_memory_settings:
  assumes "lower (strip (dc_memory_mode c)) = ''off''"
  shows "enter e (with_recall c url hub mode fl injected served state config) s = enter e c s"
proof -
  let ?c = "with_recall c url hub mode fl injected served state config"
  have volume: "ensure_session_db_volume e ?c = ensure_session_db_volume e c"
    by (simp add: ensure_session_db_volume_def volume_rm_argv_def volume_create_argv_def volume_chown_argv_def
        recall_key)
  have launch: "launch e ?c ''off'' k = launch e c ''off'' k" for k
    by (simp add: launch_def recall_build recall_key fun_eq_iff)
  have key: "cell_key e ?c = cell_key e c"
    by (simp add: cell_key_def recall_key)
  show ?thesis
    using assms key by (auto simp: enter_def Let_def volume launch recall_key split: sum.splits option.splits)
qed

section \<open>A concrete cell\<close>

definition sample_config :: docker_config where
  "sample_config = \<lparr>dc_worktree = ''/w'', dc_memory_mode = ''off'', dc_container_name = ''cell'',
     dc_image = WORKER_IMAGE, dc_network = WORKER_NETWORK, dc_recall_url = [], dc_hub_url = [],
     dc_recall_mode = ''prod'', dc_relevance_floor = 0, dc_max_injected = 3,
     dc_served_memories_host = ''/s'', dc_served_memories_container = ''/c'', dc_plugin_state_host = ''/p'',
     dc_plugin_state_container = ''/q'', dc_plugin_config_host = ''/g'', dc_proxy_base_url = None,
     dc_proxy_token = Some ''t'', dc_cloud = False, dc_home_dir = ''/h'', dc_output_token_max = None,
     dc_worker_logs_dir = None, dc_session_db_host = Some ''/d'', dc_answerer_policy = None,
     dc_serve_host_port = 4096, dc_serve_container_port = 4096\<rparr>"

definition sample_env :: "(string list \<Rightarrow> cmd_result) \<Rightarrow> docker_env" where
  "sample_env d = \<lparr>de_daemon = (\<lambda>_. d), de_resolve = (\<lambda>p. p), de_loads = (\<lambda>_. None), de_dumps = (\<lambda>_. []),
     de_uid = 1, de_gid = 1, de_cloud_key = Inl PyValueError, de_mkdir = (\<lambda>_. True), de_write = (\<lambda>_. True),
     de_rmtree = (\<lambda>_ _. True), de_size = (\<lambda>_. 0), de_probes = []\<rparr>"

definition sample_docker_cell :: cell_state where
  "sample_docker_cell = \<lparr>dk_trace = [], dk_id = None, dk_serve = None,
     dk_files = \<lparr>hf_token = Absent, hf_served = Absent, hf_plugin_state = Absent, hf_plugin_config = Absent\<rparr>,
     dk_log = []\<rparr>"

lemmas sample_simps = sample_config_def sample_env_def sample_docker_cell_def

definition all_ok :: "string list \<Rightarrow> cmd_result" where
  "all_ok _ = Exit 0 ''abc'' []"

definition run_refused :: "string list \<Rightarrow> cmd_result" where
  "run_refused a = (if take 3 a = [''docker'', ''run'', ''-d''] then Exit 125 [] ''no'' else Exit 0 [] [])"

lemma sample_key: "cell_key (sample_env d) sample_config = Inr ''t''"
  by (simp add: sample_simps cell_key_def) code_simp

lemma sample_mode: "lower (strip (dc_memory_mode sample_config)) = ''off''"
  by (simp add: sample_config_def) code_simp

lemma sample_dirs:
  "de_mkdir (sample_env d) p" "dc_session_db_host sample_config = Some ''/d''"
  "dc_container_name sample_config \<noteq> []"
  by (simp_all add: sample_simps)

lemma sample_daemon: "de_daemon (sample_env d) h a = d a"
  by (simp add: sample_env_def)

definition sample_argv :: "string list" where
  "sample_argv = run_argv (\<lambda>p. p) sample_config 1 1 ''off''"

lemma sample_built:
  "build_run_argv (de_resolve (sample_env d)) (de_loads (sample_env d)) (de_dumps (sample_env d)) sample_config
     (de_uid (sample_env d)) (de_gid (sample_env d)) ''off'' (dk_files s) = (Inr sample_argv, dk_files s)"
  by (simp add: build_run_argv_def sample_env_def sample_argv_def)

lemma sample_argv_head: "take 3 sample_argv = [''docker'', ''run'', ''-d'']"
  by (simp add: sample_argv_def run_argv_def base_argv_def Let_def)

lemma other_commands:
  "take 3 [''docker'', ''network'', ''inspect'', n] \<noteq> [''docker'', ''run'', ''-d'']"
  "take 3 (volume_rm_argv c) \<noteq> [''docker'', ''run'', ''-d'']"
  "take 3 (volume_create_argv c) \<noteq> [''docker'', ''run'', ''-d'']"
  "take 3 (volume_chown_argv e c) \<noteq> [''docker'', ''run'', ''-d'']"
  by (simp_all add: volume_rm_argv_def volume_create_argv_def volume_chown_argv_def)

lemma failed_start_leaks_the_volume_witness:
  "fst (with_cell (sample_env run_refused) sample_config skip_act sample_docker_cell) \<noteq> None
   \<and> commands (snd (with_cell (sample_env run_refused) sample_config skip_act sample_docker_cell)) =
       commands sample_docker_cell @ [[''docker'', ''network'', ''inspect'', dc_network sample_config],
         volume_rm_argv sample_config, volume_create_argv sample_config,
         volume_chown_argv (sample_env run_refused) sample_config, sample_argv]
   \<and> dk_id (snd (with_cell (sample_env run_refused) sample_config skip_act sample_docker_cell)) = dk_id sample_docker_cell"
  by (rule failed_start_leaks_the_volume [where m = "''off''" and p = "''/d''" and k = "''t''"
        and g = "dk_files sample_docker_cell"])
    (simp_all add: sample_mode sample_dirs sample_key sample_built sample_daemon run_refused_def
      other_commands sample_argv_head exit_ok_def uncaught_def)

lemma missing_client_breaks_the_teardown_witness:
  "fst (teardown (sample_env (\<lambda>_. No_Cli)) sample_config sample_docker_cell) = Some PyFileNotFoundError"
  by (rule missing_client_breaks_the_teardown) (simp_all add: sample_dirs sample_daemon)

lemma key_never_reaches_a_command_witness:
  "seen (enter ((sample_env all_ok)\<lparr>de_cloud_key := Inr []\<rparr>) (sample_config\<lparr>dc_proxy_token := Some ''secret''\<rparr>) sample_docker_cell)
     = seen (enter (sample_env all_ok) sample_config sample_docker_cell)"
proof (rule key_never_reaches_a_command)
  show "cell_key (sample_env all_ok) sample_config = Inr ''t''"
    by (rule sample_key)
  show "cell_key ((sample_env all_ok)\<lparr>de_cloud_key := Inr []\<rparr>) (sample_config\<lparr>dc_proxy_token := Some ''secret''\<rparr>)
      = Inr ''secret''"
    by (simp add: sample_simps cell_key_def) code_simp
qed

lemma off_cell_ignores_the_memory_settings_witness:
  "enter (sample_env all_ok) (with_recall sample_config ''http://r'' ''http://h'' ''test'' 1 5 ''/x'' ''/y'' ''/z'') sample_docker_cell
     = enter (sample_env all_ok) sample_config sample_docker_cell"
  by (rule off_cell_ignores_the_memory_settings) (rule sample_mode)

lemma sample_entered:
  "\<exists>s1. enter (sample_env all_ok) sample_config sample_docker_cell = (None, s1)"
proof -
  have "\<not> strip ''abc'' = []" by code_simp
  then show ?thesis
    by (subst enter_runs [where m = "''off''" and p = "''/d''" and k = "''t''"])
      (simp_all add: sample_mode sample_dirs sample_key sample_daemon all_ok_def exit_ok_def uncaught_def
        launch_def sample_built send_def)
qed

lemma entered_cells_are_torn_down_witness:
  "\<exists>s1 logs. enter (sample_env all_ok) sample_config sample_docker_cell = (None, s1)
     \<and> commands (snd (with_cell (sample_env all_ok) sample_config (start_serve (sample_env all_ok) sample_config) sample_docker_cell))
       = logs @ [container_rm_argv sample_config, volume_rm_argv sample_config]"
proof -
  obtain s1 where s1: "enter (sample_env all_ok) sample_config sample_docker_cell = (None, s1)"
    using sample_entered by blast
  obtain r s2 where s2: "start_serve (sample_env all_ok) sample_config s1 = (r, s2)"
    by fastforce
  from entered_cells_are_torn_down [where body = "start_serve (sample_env all_ok) sample_config", OF s1 s2 sample_dirs(3,2)]
  show ?thesis using s1 by (metis append.assoc)
qed

end
