(* ===== verification/Process_Reaper.thy ===== *)
theory Process_Reaper
  imports Docker_Cell Session_Runner
begin

text \<open>
  \<open>wevibe_bench/process_reaper.py\<close> and the exit path of \<open>scripts/run_cumulative.py\<close>: what is killed,
  removed and reported when a run ends, however it ends.  The operating system is the environment:
  \<open>re_ps\<close> lists the processes and \<open>re_kill\<close> says whether a signal was delivered, both after the signals
  sent so far; \<open>re_probe\<close> is the outcome of the n-th connection attempt to a port.  The state is the
  list of signals sent.
\<close>

section \<open>Process listings\<close>

type_synonym process_row = "int \<times> int \<times> string"

definition RUN_BINARIES :: "string list" where
  "RUN_BINARIES = [''node'', ''opencode'', ''playwright'', ''report.mjs'']"

definition is_run_binary :: "string \<Rightarrow> bool" where
  "is_run_binary comm \<longleftrightarrow>
     List.member RUN_BINARIES comm \<or> List.member RUN_BINARIES (after_last (CHR ''/'') comm)"

definition parse_ps_line :: "string \<Rightarrow> process_row option" where
  "parse_ps_line line = (case split_ws line of
     pid # ppid # comm # rest \<Rightarrow>
       (case int_of_string pid of
          None \<Rightarrow> None
        | Some p \<Rightarrow> (case int_of_string ppid of
            None \<Rightarrow> None
          | Some pp \<Rightarrow> Some (p, pp, join '' '' (comm # rest))))
   | _ \<Rightarrow> None)"

definition parse_ps :: "string list \<Rightarrow> process_row list" where
  "parse_ps ls = List.map_filter parse_ps_line ls"

definition default_process_provider :: "int \<Rightarrow> string list option \<Rightarrow> int list" where
  "default_process_provider own ps = (case ps of
     None \<Rightarrow> []
   | Some ls \<Rightarrow>
       map fst (filter (\<lambda>(pid, ppid, comm). pid \<noteq> own \<and> (ppid = own \<or> is_run_binary comm \<and> ppid = 1))
                  (parse_ps ls)))"

definition list_child_pids :: "int \<Rightarrow> string list option \<Rightarrow> int list" where
  "list_child_pids own ps = (case ps of
     None \<Rightarrow> []
   | Some ls \<Rightarrow> map fst (filter (\<lambda>(pid, ppid, _). pid \<noteq> own \<and> ppid = own) (parse_ps ls)))"

section \<open>Signals\<close>

datatype signal = SIGTERM | SIGKILL

type_synonym signals = "(int \<times> signal) list"

datatype probe = Connected | Refused | Probe_Error | Probe_Raise

record reaper_env =
  re_own :: int
  re_pgid :: "int option"
  re_ps :: "signals \<Rightarrow> string list option"
  re_kill :: "signals \<Rightarrow> int \<Rightarrow> signal \<Rightarrow> bool"
  re_probe :: "int \<Rightarrow> nat \<Rightarrow> probe"
  re_docker :: bool
  re_list :: "string list \<Rightarrow> cmd_result"
  re_rm :: "string list \<Rightarrow> cmd_result"

definition signal_pid :: "reaper_env \<Rightarrow> int \<Rightarrow> signal \<Rightarrow> signals \<Rightarrow> bool \<times> signals" where
  "signal_pid e pid sig g = (if pid \<le> 0 then (False, g) else (re_kill e g pid sig, g @ [(pid, sig)]))"

text \<open>One pass of a signal over the targets, and the targets it was delivered to.\<close>

fun signal_all :: "reaper_env \<Rightarrow> signal \<Rightarrow> int list \<Rightarrow> signals \<Rightarrow> int list \<times> signals" where
  "signal_all e sig [] g = ([], g)"
| "signal_all e sig (p # ps) g =
     (case signal_pid e p sig g of (ok, g') \<Rightarrow>
        (case signal_all e sig ps g' of (killed, g'') \<Rightarrow> (if ok then p # killed else killed, g'')))"

definition kill_targets :: "reaper_env \<Rightarrow> int list \<Rightarrow> int list" where
  "kill_targets e pids = filter (\<lambda>p. p > 0 \<and> p \<noteq> re_own e) pids"

definition kill_tree :: "reaper_env \<Rightarrow> int list \<Rightarrow> signals \<Rightarrow> int list \<times> signals" where
  "kill_tree e pids g =
     (case signal_all e SIGTERM (kill_targets e pids) g of (_, g') \<Rightarrow>
        signal_all e SIGKILL (kill_targets e pids) g')"

text \<open>Only the leader of a process group kills, and only its own children.\<close>

definition kill_process_group :: "reaper_env \<Rightarrow> signals \<Rightarrow> int list \<times> signals" where
  "kill_process_group e g = (case re_pgid e of
     None \<Rightarrow> ([], g)
   | Some pgid \<Rightarrow>
       (if pgid = re_own e then kill_tree e (list_child_pids (re_own e) (re_ps e g)) g else ([], g)))"

definition reap_orphaned_children :: "reaper_env \<Rightarrow> signals \<Rightarrow> int list \<times> signals" where
  "reap_orphaned_children e g = kill_tree e (default_process_provider (re_own e) (re_ps e g)) g"

section \<open>Leaked containers\<close>

definition label_char :: "char \<Rightarrow> char" where
  "label_char c = (if slug_char c then c else CHR ''-'')"

definition sanitize_label :: "string \<Rightarrow> string" where
  "sanitize_label l = map label_char l"

definition name_filter :: "string \<Rightarrow> string" where
  "name_filter run_label = ''wevibe-bench-cell-'' @ sanitize_label run_label"

definition sweep_argv :: "string \<Rightarrow> string list" where
  "sweep_argv run_label = [''docker'', ''ps'', ''-aq'', ''--filter'', ''name='' @ name_filter run_label]"

text \<open>The exit code of the listing is not looked at; that of the removal is.\<close>

definition remove_cell_containers :: "reaper_env \<Rightarrow> string \<Rightarrow> string list" where
  "remove_cell_containers e run_label =
     (if \<not> re_docker e then []
      else case re_list e (sweep_argv run_label) of
        Exit _ out _ \<Rightarrow>
          (let ids = filter (\<lambda>l. l \<noteq> []) (map strip (split_lines_acc [] out)) in
           if ids = [] then []
           else if exit_ok (re_rm e ([''docker'', ''rm'', ''-f''] @ ids)) then ids else [])
      | _ \<Rightarrow> [])"

section \<open>Ports\<close>

definition PORT_CLEAR_ATTEMPTS :: nat where "PORT_CLEAR_ATTEMPTS = 3"

text \<open>The answer of the first decisive attempt; an exception that is not an \<open>OSError\<close> is not caught.\<close>

datatype port_answer = Is_Clear | Is_Occupied | Probe_Failed | Probe_Crashed

fun port_clear :: "(nat \<Rightarrow> probe) \<Rightarrow> nat \<Rightarrow> nat \<Rightarrow> port_answer" where
  "port_clear f k 0 = Probe_Failed"
| "port_clear f k (Suc n) = (case f k of
     Connected \<Rightarrow> Is_Occupied
   | Refused \<Rightarrow> Is_Clear
   | Probe_Error \<Rightarrow> port_clear f (Suc k) n
   | Probe_Raise \<Rightarrow> Probe_Crashed)"

fun assert_ports :: "reaper_env \<Rightarrow> int list \<Rightarrow> (int \<times> string) list \<Rightarrow> (int \<times> string) list option" where
  "assert_ports e [] st = Some st"
| "assert_ports e (p # ps) st = (case port_clear (re_probe e p) 1 PORT_CLEAR_ATTEMPTS of
     Probe_Crashed \<Rightarrow> None
   | Probe_Failed \<Rightarrow> assert_ports e ps (AList.update p ''error'' st)
   | Is_Clear \<Rightarrow> assert_ports e ps (AList.update p ''clear'' st)
   | Is_Occupied \<Rightarrow> assert_ports e ps (AList.update p ''occupied'' st))"

definition all_clear :: "int list \<Rightarrow> (int \<times> string) list" where
  "all_clear ps = fold (\<lambda>p. AList.update p ''clear'') ps []"

section \<open>The reap\<close>

record reap_report =
  rpt_run_label :: string
  rpt_pgid_killed :: "int list"
  rpt_children_reaped :: "int list"
  rpt_containers_removed :: "string list"
  rpt_ports :: "(int \<times> string) list"
  rpt_killed_count :: nat
  rpt_ok :: bool

definition reap :: "reaper_env \<Rightarrow> string \<Rightarrow> int list \<Rightarrow> reap_report \<times> signals" where
  "reap e run_label ports =
     (case kill_process_group e [] of (pgid_killed, g) \<Rightarrow>
      case reap_orphaned_children e g of (children, g) \<Rightarrow>
        (\<lparr>rpt_run_label = run_label, rpt_pgid_killed = pgid_killed, rpt_children_reaped = children,
          rpt_containers_removed = remove_cell_containers e run_label,
          rpt_ports = (case assert_ports e ports [] of Some st \<Rightarrow> st | None \<Rightarrow> all_clear ports),
          rpt_killed_count = card (set (pgid_killed @ children)), rpt_ok = True\<rparr>, g))"

text \<open>\<open>ProcessReaper.__init__\<close>: a blank label is \<open>bench\<close>.\<close>

definition reaper_label :: "string \<Rightarrow> string" where
  "reaper_label l = (if l = [] then ''bench'' else l)"

text \<open>A reap that raises still yields a report, which says \<open>clear\<close> for every port.\<close>

definition run_reaper_unconditional :: "string \<Rightarrow> int list \<Rightarrow> reap_report option \<Rightarrow> reap_report" where
  "run_reaper_unconditional run_label ports outcome = (case outcome of
     Some r \<Rightarrow> r
   | None \<Rightarrow> \<lparr>rpt_run_label = run_label, rpt_pgid_killed = [], rpt_children_reaped = [], rpt_containers_removed = [],
       rpt_ports = all_clear ports, rpt_killed_count = 0, rpt_ok = False\<rparr>)"

section \<open>Launch logs\<close>

text \<open>\<open>_prune_runs_retention\<close>: the newest \<open>keep\<close> logs stay; a deletion that fails ends the pass.\<close>

record prune_summary =
  pr_kept :: "string list"
  pr_deleted :: "string list"
  pr_error :: bool

fun unlink_all :: "(string \<Rightarrow> bool) \<Rightarrow> string list \<Rightarrow> string list \<times> bool" where
  "unlink_all unlink [] = ([], False)"
| "unlink_all unlink (n # ns) =
     (if unlink n then (case unlink_all unlink ns of (d, err) \<Rightarrow> (n # d, err)) else ([], True))"

definition newest_first :: "(string \<times> int) list \<Rightarrow> (string \<times> int) list" where
  "newest_first es = rev (sort_key snd (rev es))"

definition prune_runs_retention :: "(string \<Rightarrow> bool) \<Rightarrow> nat \<Rightarrow> (string \<times> int) list \<Rightarrow> prune_summary" where
  "prune_runs_retention unlink keep es =
     (let names = map fst (newest_first es) in
      case unlink_all unlink (drop keep names) of (d, err) \<Rightarrow>
        \<lparr>pr_kept = take keep names, pr_deleted = d, pr_error = err\<rparr>)"

section \<open>The entry point\<close>

datatype exit_event = Ran_Handler | Reaped reap_report | Pruned prune_summary

definition DEFAULT_TASK_LABEL :: string where "DEFAULT_TASK_LABEL = ''backgammon-cumulative-primary''"

definition discover_bench_ports :: "int \<Rightarrow> int list" where
  "discover_bench_ports serve_host_port = (if serve_host_port > 0 then [serve_host_port] else [])"

text \<open>\<open>main\<close> after the arguments are parsed: the reader \<open>state\<close> is not reaped, \<open>run\<close> is on every path.\<close>

definition main_exit ::
  "reaper_env \<Rightarrow> string \<Rightarrow> string \<Rightarrow> int \<Rightarrow> py_exc + int \<Rightarrow> (string \<Rightarrow> bool) \<Rightarrow> (string \<times> int) list
   \<Rightarrow> (py_exc + int) \<times> exit_event list" where
  "main_exit e command task port handled unlink logs =
     (if command = ''state'' then (handled, [Ran_Handler])
      else if command \<noteq> ''run'' then (Inl (PyRuntimeError ''unsupported command''), [])
      else let l = reaper_label task; ports = discover_bench_ports port in
        (handled, [Ran_Handler, Reaped (run_reaper_unconditional l ports (Some (fst (reap e l ports)))),
                   Pruned (prune_runs_retention unlink 2 logs)]))"

section \<open>Who is signalled\<close>

text \<open>A process the reaper may signal: seen in a listing as a child of the run, or as an orphan with the
  name of one of its binaries.\<close>

definition owned :: "reaper_env \<Rightarrow> int \<Rightarrow> bool" where
  "owned e pid \<longleftrightarrow> (\<exists>g ls ppid comm. re_ps e g = Some ls \<and> (pid, ppid, comm) \<in> set (parse_ps ls)
      \<and> (ppid = re_own e \<or> ppid = 1 \<and> is_run_binary comm))"

lemma signal_all_log:
  "signal_all e sig ps g = (k, g') \<Longrightarrow> g' = g @ map (\<lambda>p. (p, sig)) (filter (\<lambda>p. p > 0) ps) \<and> set k \<subseteq> set ps"
proof (induction ps arbitrary: g k)
  case (Cons p ps)
  then show ?case
    by (fastforce simp: signal_pid_def split: prod.splits if_splits)
qed simp

lemma kill_tree_log:
  assumes "kill_tree e pids g = (k, g')"
  shows "g' = g @ map (\<lambda>p. (p, SIGTERM)) (kill_targets e pids) @ map (\<lambda>p. (p, SIGKILL)) (kill_targets e pids)
         \<and> set k \<subseteq> set (kill_targets e pids)"
proof -
  obtain k1 g1 where t: "signal_all e SIGTERM (kill_targets e pids) g = (k1, g1)" by fastforce
  with assms have k: "signal_all e SIGKILL (kill_targets e pids) g1 = (k, g')"
    by (simp add: kill_tree_def)
  have "filter (\<lambda>p. p > 0) (kill_targets e pids) = kill_targets e pids"
    by (simp add: kill_targets_def conj_ac cong: filter_cong)
  with signal_all_log [OF t] signal_all_log [OF k] show ?thesis by simp
qed

lemma ownedI:
  "Some ls = re_ps e g \<Longrightarrow> (p, ppid, comm) \<in> set (parse_ps ls) \<Longrightarrow>
     ppid = re_own e \<or> ppid = 1 \<and> is_run_binary comm \<Longrightarrow> owned e p"
  unfolding owned_def by metis

lemma children_owned: "p \<in> set (list_child_pids (re_own e) (re_ps e g)) \<Longrightarrow> owned e p"
  by (auto simp: list_child_pids_def intro: ownedI split: option.splits)

lemma candidates_owned: "p \<in> set (default_process_provider (re_own e) (re_ps e g)) \<Longrightarrow> owned e p"
  by (auto simp: default_process_provider_def intro: ownedI split: option.splits)

lemma targets_owned:
  assumes "\<And>p. p \<in> set pids \<Longrightarrow> owned e p" and "p \<in> set (kill_targets e pids)"
  shows "owned e p \<and> 0 < p \<and> p \<noteq> re_own e"
  using assms by (auto simp: kill_targets_def)

definition lawful :: "reaper_env \<Rightarrow> int \<Rightarrow> bool" where
  "lawful e p \<longleftrightarrow> owned e p \<and> 0 < p \<and> p \<noteq> re_own e"

lemma kill_tree_lawful:
  assumes "\<And>p. p \<in> set pids \<Longrightarrow> owned e p" and "kill_tree e pids g = (k, g')"
  shows "(\<forall>p \<in> set k. lawful e p) \<and> (\<forall>(p, sig) \<in> set g'. (p, sig) \<in> set g \<or> lawful e p)
       \<and> (\<forall>p \<in> set k. \<exists>a b. g' = a @ b \<and> (p, SIGTERM) \<in> set a \<and> (p, SIGKILL) \<in> set b)"
proof -
  let ?t = "kill_targets e pids"
  have g': "g' = g @ map (\<lambda>p. (p, SIGTERM)) ?t @ map (\<lambda>p. (p, SIGKILL)) ?t" and k: "set k \<subseteq> set ?t"
    using kill_tree_log [OF assms(2)] by auto
  have lawful: "lawful e p" if "p \<in> set ?t" for p
    using targets_owned [OF assms(1) that] by (simp add: lawful_def)
  have "\<exists>a b. g' = a @ b \<and> (p, SIGTERM) \<in> set a \<and> (p, SIGKILL) \<in> set b" if "p \<in> set k" for p
  proof -
    have "g' = (g @ map (\<lambda>p. (p, SIGTERM)) ?t) @ map (\<lambda>p. (p, SIGKILL)) ?t" by (simp add: g')
    moreover have "(p, SIGTERM) \<in> set (g @ map (\<lambda>p. (p, SIGTERM)) ?t)" "(p, SIGKILL) \<in> set (map (\<lambda>p. (p, SIGKILL)) ?t)"
      using that k by auto
    ultimately show ?thesis by blast
  qed
  moreover have "\<forall>p \<in> set k. lawful e p" using k lawful by blast
  moreover have "\<forall>(p, sig) \<in> set g'. (p, sig) \<in> set g \<or> lawful e p" using lawful g' by auto
  ultimately show ?thesis by blast
qed

lemma kill_process_group_lawful:
  assumes "kill_process_group e g = (k, g')" and "\<forall>(p, sig) \<in> set g. lawful e p"
  shows "(\<forall>p \<in> set k. lawful e p) \<and> (\<forall>(p, sig) \<in> set g'. lawful e p)"
  using assms kill_tree_lawful [where e = e and g = g and k = k and g' = g', OF children_owned]
  by (fastforce simp: kill_process_group_def split: option.splits if_splits)

lemma reap_orphaned_lawful:
  assumes "reap_orphaned_children e g = (k, g')" and "\<forall>(p, sig) \<in> set g. lawful e p"
  shows "(\<forall>p \<in> set k. lawful e p) \<and> (\<forall>(p, sig) \<in> set g'. lawful e p)"
  using assms kill_tree_lawful [where e = e and g = g and k = k and g' = g', OF candidates_owned]
  by (fastforce simp: reap_orphaned_children_def)


section \<open>What is reported of the ports\<close>

lemma assert_ports_crash:
  "assert_ports e ps st = None \<longleftrightarrow> (\<exists>p \<in> set ps. port_clear (re_probe e p) 1 PORT_CLEAR_ATTEMPTS = Probe_Crashed)"
  by (induction ps arbitrary: st) (auto split: port_answer.splits)

definition port_word :: "port_answer \<Rightarrow> string" where
  "port_word a = (case a of Is_Clear \<Rightarrow> ''clear'' | Is_Occupied \<Rightarrow> ''occupied'' | _ \<Rightarrow> ''error'')"

lemma assert_ports_word:
  "assert_ports e ps st = Some st' \<Longrightarrow>
     map_of st' = (\<lambda>p. if p \<in> set ps then Some (port_word (port_clear (re_probe e p) 1 PORT_CLEAR_ATTEMPTS))
                       else map_of st p)"
proof (induction ps arbitrary: st)
  case (Cons q ps)
  then show ?case
    by (auto simp: fun_eq_iff map_of_AList_update port_word_def split: port_answer.splits)
qed simp

lemma map_of_all_clear_fold:
  "map_of (fold (\<lambda>p. AList.update p ''clear'') ps st) = (\<lambda>p. if p \<in> set ps then Some ''clear'' else map_of st p)"
  by (induction ps arbitrary: st) (auto simp: fun_eq_iff map_of_AList_update)

lemma map_of_all_clear: "map_of (all_clear ps) = (\<lambda>p. if p \<in> set ps then Some ''clear'' else None)"
  by (simp add: all_clear_def map_of_all_clear_fold fun_eq_iff)

lemma port_clear_3:
  "port_clear f 1 PORT_CLEAR_ATTEMPTS = Is_Clear \<longleftrightarrow>
     (\<exists>k \<in> {1, 2, 3}. f k = Refused \<and> (\<forall>j \<in> {1 ..< k}. f j = Probe_Error))"
  by (auto simp: PORT_CLEAR_ATTEMPTS_def numeral_eq_Suc atLeastLessThanSuc split: probe.splits)

text \<open>Which ports a reap reports as clear: as long as every probe ends in an answer or an
  \<open>OSError\<close>, exactly those that refused a connection within three attempts, nothing but errors
  before.  But when the probe of one port ends in any other exception (a port number out of range
  does), every port is reported as clear, the occupied ones too.\<close>

theorem clear_means_refused_unless_a_probe_crashed:
  assumes "p \<in> set ports"
  shows "map_of (rpt_ports (fst (reap e l ports))) p = Some ''clear'' \<longleftrightarrow>
           (\<exists>q \<in> set ports. port_clear (re_probe e q) 1 PORT_CLEAR_ATTEMPTS = Probe_Crashed)
           \<or> (\<exists>k \<in> {1, 2, 3}. re_probe e p k = Refused \<and> (\<forall>j \<in> {1 ..< k}. re_probe e p j = Probe_Error))"
proof (cases "assert_ports e ports []")
  case None
  then show ?thesis
    using assms assert_ports_crash [of e ports "[]"]
    by (simp add: reap_def map_of_all_clear split: prod.splits)
next
  case (Some st)
  then have "\<not> (\<exists>q \<in> set ports. port_clear (re_probe e q) 1 PORT_CLEAR_ATTEMPTS = Probe_Crashed)"
    using assert_ports_crash [of e ports "[]"] by auto
  moreover have "map_of st p = Some (port_word (port_clear (re_probe e p) 1 PORT_CLEAR_ATTEMPTS))"
    using assert_ports_word [OF Some] assms by simp
  moreover have "port_word a = ''clear'' \<longleftrightarrow> a = Is_Clear" for a
    by (simp add: port_word_def split: port_answer.splits)
  ultimately show ?thesis
    using Some unfolding port_clear_3 [symmetric] by (simp add: reap_def split: prod.splits)
qed

section \<open>Which containers the sweep looks for\<close>

text \<open>The name the runner gives the container of a session's cell.\<close>

definition container_name_of :: "string \<Rightarrow> string" where
  "container_name_of run_label = ''wevibe-bench-cell-'' @ sanitize_label run_label"

lemma contains_skip:
  "c \<notin> set xs \<Longrightarrow> contains (xs @ ys) (c # r) \<longleftrightarrow> contains ys (c # r)"
  by (induction xs) auto

lemma digits_of_nat_chars: "c \<in> set (digits_of_nat n) \<Longrightarrow> is_digit c"
proof (induction n rule: digits_of_nat.induct)
  case (1 n)
  have digit: "is_digit (char_of (48 + k))" if "k < 10" for k :: nat
    using that by (simp add: is_digit_def char_code_def)
  show ?case
  proof (cases "n < 10")
    case True
    with 1(2) digit show ?thesis by (simp add: digits_of_nat.simps [of n])
  next
    case False
    with 1(2) have "c \<in> set (digits_of_nat (n div 10)) \<or> c = char_of (48 + n mod 10)"
      by (auto simp: digits_of_nat.simps [of n])
    with 1(1) [OF False] digit [of "n mod 10"] show ?thesis by auto
  qed
qed

lemma pad4_chars: "c \<in> set (pad4 i) \<Longrightarrow> c = CHR ''-'' \<or> is_digit c"
proof -
  have zero: "is_digit (CHR ''0'')" by code_simp
  assume "c \<in> set (pad4 i)"
  then show ?thesis
    using zero by (auto simp: pad4_def Let_def string_of_int_def dest: digits_of_nat_chars split: if_splits)
qed

lemma label_w: "label_char c = CHR ''w'' \<Longrightarrow> c = CHR ''w''"
  by (simp add: label_char_def split: if_splits)

lemma pad4_w: "CHR ''w'' \<notin> set (sanitize_label (pad4 i))"
proof
  assume "CHR ''w'' \<in> set (sanitize_label (pad4 i))"
  then obtain c where "c \<in> set (pad4 i)" "label_char c = CHR ''w''"
    by (auto simp: sanitize_label_def)
  then have "is_digit (CHR ''w'')" using label_w pad4_chars by fastforce
  moreover have "\<not> is_digit (CHR ''w'')" by code_simp
  ultimately show False by blast
qed

lemma slug_dash: "slug_char (CHR ''-'')"
  by (simp add: slug_char_def)

lemma squash_slug: "c \<in> set (squash_runs b s) \<Longrightarrow> slug_char c"
  by (induction b s rule: squash_runs.induct) (auto simp: slug_dash split: if_splits)

lemma strip_char_subset: "set (strip_char c s) \<subseteq> set s"
  by (auto simp: strip_char_def dest!: set_dropWhileD)

lemma sanitize_slug: "sanitize_label (normalize_model_slug m) = normalize_model_slug m"
proof -
  have "slug_char c" if "c \<in> set (normalize_model_slug m)" for c
  proof (cases "strip_char (CHR ''-'') (squash_runs False m) = []")
    case True
    with that have "c \<in> set ''model''" by (simp add: normalize_model_slug_def)
    moreover have "list_all slug_char ''model''" by code_simp
    ultimately show ?thesis by (auto simp: list_all_iff)
  next
    case False
    with that show ?thesis
      using strip_char_subset [of "CHR ''-''" "squash_runs False m"] squash_slug
      by (auto simp: normalize_model_slug_def Let_def)
  qed
  then show ?thesis by (simp add: sanitize_label_def label_char_def map_idI)
qed

lemma sanitize_append: "sanitize_label (a @ b) = sanitize_label a @ sanitize_label b"
  by (simp add: sanitize_label_def)

lemma default_filter:
  "name_filter (reaper_label DEFAULT_TASK_LABEL) = ''wevibe-bench-cell-backgammon-cumulative-primary''"
  by code_simp

lemma container_name_split:
  assumes "sr_memory_mode s = ''off'' \<or> sr_memory_mode s = ''on''"
  shows "\<exists>m. CHR ''w'' \<notin> set m \<and> container_name_of (run_label_of s) =
           ''wevibe-bench-cell-cumulative-'' @ m @ normalize_model_slug (sr_model s)"
proof (intro exI conjI)
  let ?m = "sanitize_label (pad4 (sr_sequence_index s)) @ sanitize_label (''-'' @ sr_memory_mode s @ ''-'')"
  have head: "sanitize_label ''cumulative-'' = ''cumulative-''" by code_simp
  have modes: "CHR ''w'' \<notin> set (sanitize_label ''-off-'')" "CHR ''w'' \<notin> set (sanitize_label ''-on-'')"
    by code_simp+
  show "CHR ''w'' \<notin> set ?m"
    using assms pad4_w modes by auto
  have "run_label_of s = ''cumulative-'' @ pad4 (sr_sequence_index s) @ (''-'' @ sr_memory_mode s @ ''-'')
      @ normalize_model_slug (sr_model s)"
    by (simp add: run_label_of_def)
  then show "container_name_of (run_label_of s) =
      ''wevibe-bench-cell-cumulative-'' @ ?m @ normalize_model_slug (sr_model s)"
    by (simp only: container_name_of_def sanitize_append sanitize_slug head) simp
qed

text \<open>The sweep for leaked containers looks for the wrong name: the reaper of a campaign is labelled
  with its task, whose default is not the label of any cell, so the name it filters by occurs in the
  container name of no session (unless the model's name happens to contain it), and a container
  that outlives a crash is never removed.\<close>

theorem sweep_misses_the_cells:
  assumes "sr_memory_mode s = ''off'' \<or> sr_memory_mode s = ''on''"
    and "\<not> contains (normalize_model_slug (sr_model s)) (name_filter (reaper_label DEFAULT_TASK_LABEL))"
  shows "\<not> contains (container_name_of (run_label_of s)) (name_filter (reaper_label DEFAULT_TASK_LABEL))"
proof -
  obtain m where m: "CHR ''w'' \<notin> set m"
      and n: "container_name_of (run_label_of s) = ''wevibe-bench-cell-cumulative-'' @ m @ normalize_model_slug (sr_model s)"
    using container_name_split [OF assms(1)] by blast
  have "CHR ''w'' \<notin> set (''evibe-bench-cell-cumulative-'' @ m)" using m by simp
  from contains_skip [OF this] have tail:
    "contains (''evibe-bench-cell-cumulative-'' @ m @ normalize_model_slug (sr_model s))
        ''wevibe-bench-cell-backgammon-cumulative-primary''
       = contains (normalize_model_slug (sr_model s)) ''wevibe-bench-cell-backgammon-cumulative-primary''"
    by simp
  show ?thesis
    unfolding n using assms(2) tail by (simp add: default_filter)
qed

section \<open>Which logs are pruned\<close>

lemma newest_first_props:
  "mset (newest_first es) = mset es" "sorted (rev (map snd (newest_first es)))"
  by (simp_all add: newest_first_def rev_map [symmetric])

lemma unlink_all_prefix: "unlink_all u ns = (d, err) \<Longrightarrow> \<exists>r. ns = d @ r \<and> (err \<longleftrightarrow> r \<noteq> []) \<and> (\<forall>n \<in> set d. u n)"
proof (induction ns arbitrary: d)
  case (Cons n ns)
  then show ?case by (fastforce split: if_splits prod.splits)
qed simp

text \<open>The retention pass keeps the newest logs: it deletes none of the \<open>keep\<close> newest, a deleted log is
  no newer than any kept one, and it stops early only at a deletion that failed.\<close>

lemma newest_logs_are_kept:
  assumes "prune_runs_retention unlink keep es = s"
  shows "\<exists>a b r. mset (a @ b @ r) = mset es \<and> pr_kept s = map fst a \<and> pr_deleted s = map fst b
       \<and> length a = min keep (length es) \<and> (pr_error s \<longleftrightarrow> r \<noteq> [])
       \<and> (\<forall>x \<in> set a. \<forall>y \<in> set (b @ r). snd y \<le> snd x)"
proof -
  let ?n = "newest_first es"
  obtain d err where u: "unlink_all unlink (drop keep (map fst ?n)) = (d, err)" by fastforce
  from unlink_all_prefix [OF u] obtain r where r: "drop keep (map fst ?n) = d @ r" "err \<longleftrightarrow> r \<noteq> []"
    by blast
  let ?a = "take keep ?n" and ?b = "take (length d) (drop keep ?n)" and ?r = "drop (length d) (drop keep ?n)"
  have "map fst ?b = d" "map fst ?r = r"
    using r(1) by (metis append_eq_conv_conj drop_map take_map)+
  moreover have "pr_kept s = map fst ?a" "pr_deleted s = d" "pr_error s = err"
    using assms u by (auto simp: prune_runs_retention_def Let_def take_map drop_map)
  moreover have all: "?a @ ?b @ ?r = ?n" by (simp only: append_take_drop_id)
  moreover have "mset (?a @ ?b @ ?r) = mset es" unfolding all by (rule newest_first_props(1))
  moreover have "length ?a = min keep (length es)"
    using mset_eq_length [OF newest_first_props(1) [of es]] by simp
  moreover have "\<forall>x \<in> set ?a. \<forall>y \<in> set (?b @ ?r). snd y \<le> snd x"
  proof -
    have "sorted (rev (map snd (?a @ (?b @ ?r))))" unfolding all by (rule newest_first_props(2))
    then show ?thesis unfolding map_append rev_append sorted_append by auto
  qed
  moreover have "?r \<noteq> [] \<longleftrightarrow> r \<noteq> []" using \<open>map fst ?r = r\<close> by auto
  ultimately show ?thesis using r(2)
    by (intro exI [of _ ?a] exI [of _ ?b] exI [of _ ?r]) simp
qed

section \<open>A concrete exit\<close>

definition sample_reaper :: reaper_env where
  "sample_reaper = \<lparr>re_own = 7, re_pgid = Some 7,
     re_ps = (\<lambda>_. Some ['' 7 1 python'', '' 8 7 sh'', '' 9 1 /opt/bin/node'', '' 10 1 launchd'']),
     re_kill = (\<lambda>_ _ _. True), re_probe = (\<lambda>p _. if p = 70000 then Probe_Raise else Connected),
     re_docker = True, re_list = (\<lambda>_. Exit 0 [] []), re_rm = (\<lambda>_. Exit 0 [] [])\<rparr>"

lemma sample_parse:
  "parse_ps ['' 7 1 python'', '' 8 7 sh'', '' 9 1 /opt/bin/node'', '' 10 1 launchd'']
     = [(7, 1, ''python''), (8, 7, ''sh''), (9, 1, ''/opt/bin/node''), (10, 1, ''launchd'')]"
  by code_simp

lemma sample_node: "is_run_binary ''/opt/bin/node''" "\<not> is_run_binary ''launchd''" "\<not> is_run_binary ''sh''"
  by code_simp+

lemma sample_signals:
  "snd (reap sample_reaper ''t'' [4096]) =
     [(8, SIGTERM), (8, SIGKILL), (8, SIGTERM), (9, SIGTERM), (8, SIGKILL), (9, SIGKILL)]"
  by (simp add: reap_def kill_process_group_def reap_orphaned_children_def sample_reaper_def list_child_pids_def
      default_process_provider_def sample_parse sample_node kill_tree_def kill_targets_def signal_pid_def)


lemma clear_means_refused_unless_a_probe_crashed_witness:
  "map_of (rpt_ports (fst (reap sample_reaper ''t'' [4096, 70000]))) 4096 = Some ''clear''"
  by (subst clear_means_refused_unless_a_probe_crashed)
    (simp_all add: sample_reaper_def PORT_CLEAR_ATTEMPTS_def numeral_eq_Suc)

lemma sample_session_slug: "\<not> contains (normalize_model_slug (sr_model sample_session))
    ''wevibe-bench-cell-backgammon-cumulative-primary''"
  by code_simp

lemma sweep_misses_the_cells_witness:
  "\<not> contains (container_name_of (run_label_of sample_session)) (name_filter (reaper_label DEFAULT_TASK_LABEL))"
proof (rule sweep_misses_the_cells)
  show "sr_memory_mode sample_session = ''off'' \<or> sr_memory_mode sample_session = ''on''"
    by code_simp
  show "\<not> contains (normalize_model_slug (sr_model sample_session)) (name_filter (reaper_label DEFAULT_TASK_LABEL))"
    unfolding default_filter by (rule sample_session_slug)
qed

end
