(* ===== verification/Paired_Stats.thy ===== *)
theory Paired_Stats
  imports Bench_Prelude
begin

text \<open>
  \<open>wevibe_bench/stats.py\<close>: the tests and intervals of the benchmark's report.  Numbers are exact
  reals, so the rounding of the floats is not modelled; \<open>lgamma\<close> is a parameter, as is the sequence of
  random choices of the bootstrap.  Loops with a bound in the source carry it as fuel: 200 terms of the
  continued fraction, then \<open>ArithmeticError\<close>, and 120 halvings of the bisection.
\<close>

section \<open>Arguments\<close>

datatype stats_error = Stats_Value_Error | Stats_Arithmetic_Error

definition validate_count :: "int \<Rightarrow> int \<Rightarrow> bool" where
  "validate_count successes n \<longleftrightarrow> \<not> n < 0 \<and> \<not> (successes < 0 \<or> successes > n)"

definition validate_alpha :: "real \<Rightarrow> bool" where
  "validate_alpha alpha \<longleftrightarrow> 0 < alpha \<and> alpha < 1"

definition validate_probability :: "real \<Rightarrow> bool" where
  "validate_probability p \<longleftrightarrow> 0 \<le> p \<and> p \<le> 1"

section \<open>The incomplete beta function and its quantiles\<close>

definition BETA_EPS :: real where "BETA_EPS = 3 / 10 ^ 14"
definition BETA_FPMIN :: real where "BETA_FPMIN = 1 / 10 ^ 300"
definition BETA_MAX_ITER :: nat where "BETA_MAX_ITER = 200"

definition keep_apart :: "real \<Rightarrow> real" where
  "keep_apart d = (if \<bar>d\<bar> < BETA_FPMIN then BETA_FPMIN else d)"

text \<open>One round of the loop: the even and the odd step, on \<open>(c, d, h)\<close>, and the last factor.\<close>

definition beta_round ::
  "real \<Rightarrow> real \<Rightarrow> real \<Rightarrow> real \<Rightarrow> real \<times> real \<times> real \<Rightarrow> (real \<times> real \<times> real) \<times> real" where
  "beta_round a b x m st = (case st of (c, d, h) \<Rightarrow>
     let qab = a + b; qap = a + 1; qam = a - 1; m2 = 2 * m;
         aa = m * (b - m) * x / ((qam + m2) * (a + m2));
         d = keep_apart (1 + aa * d); c = keep_apart (1 + aa / c); d = 1 / d; h = h * (d * c);
         aa = - ((a + m) * (qab + m) * x) / ((a + m2) * (qap + m2));
         d = keep_apart (1 + aa * d); c = keep_apart (1 + aa / c); d = 1 / d; delta = d * c
     in ((c, d, h * delta), delta))"

fun beta_loop :: "real \<Rightarrow> real \<Rightarrow> real \<Rightarrow> nat \<Rightarrow> real \<Rightarrow> real \<times> real \<times> real \<Rightarrow> stats_error + real" where
  "beta_loop a b x 0 m st = Inl Stats_Arithmetic_Error"
| "beta_loop a b x (Suc n) m st =
     (case beta_round a b x m st of ((c, d, h), delta) \<Rightarrow>
        if \<bar>delta - 1\<bar> < BETA_EPS then Inr h else beta_loop a b x n (m + 1) (c, d, h))"

definition beta_continued_fraction :: "real \<Rightarrow> real \<Rightarrow> real \<Rightarrow> stats_error + real" where
  "beta_continued_fraction a b x =
     (let d = 1 / keep_apart (1 - (a + b) * x / (a + 1)) in beta_loop a b x BETA_MAX_ITER 1 (1, d, d))"

definition regularized_incomplete_beta :: "(real \<Rightarrow> real) \<Rightarrow> real \<Rightarrow> real \<Rightarrow> real \<Rightarrow> stats_error + real" where
  "regularized_incomplete_beta lgamma a b x =
     (if a \<le> 0 \<or> b \<le> 0 \<or> \<not> validate_probability x then Inl Stats_Value_Error
      else if x = 0 then Inr 0
      else if x = 1 then Inr 1
      else let bt = exp (lgamma (a + b) - lgamma a - lgamma b + a * ln x + b * ln (1 - x)) in
        if x < (a + 1) / (a + b + 2)
        then bind_result (beta_continued_fraction a b x) (\<lambda>h. Inr (bt * h / a))
        else bind_result (beta_continued_fraction b a (1 - x)) (\<lambda>h. Inr (1 - bt * h / b)))"

fun bisect :: "(real \<Rightarrow> stats_error + real) \<Rightarrow> real \<Rightarrow> nat \<Rightarrow> real \<Rightarrow> real \<Rightarrow> stats_error + real \<times> real" where
  "bisect cdf p 0 lo hi = Inr (lo, hi)"
| "bisect cdf p (Suc n) lo hi =
     (let mid = (lo + hi) / 2 in
      bind_result (cdf mid) (\<lambda>y. if y < p then bisect cdf p n mid hi else bisect cdf p n lo mid))"

definition beta_quantile :: "(real \<Rightarrow> real) \<Rightarrow> real \<Rightarrow> real \<Rightarrow> real \<Rightarrow> stats_error + real" where
  "beta_quantile lgamma p a b =
     (if \<not> validate_probability p \<or> a \<le> 0 \<or> b \<le> 0 then Inl Stats_Value_Error
      else if p = 0 then Inr 0
      else if p = 1 then Inr 1
      else bind_result (bisect (regularized_incomplete_beta lgamma a b) p 120 0 1)
             (\<lambda>(lo, hi). Inr ((lo + hi) / 2)))"

section \<open>Intervals for a proportion\<close>

definition wilson_interval :: "int \<Rightarrow> int \<Rightarrow> real \<Rightarrow> stats_error + real \<times> real" where
  "wilson_interval successes n z =
     (if \<not> validate_count successes n \<or> z \<le> 0 then Inl Stats_Value_Error
      else if n = 0 then Inr (0, 1)
      else let phat = of_int successes / of_int n; z2 = z * z; denom = 1 + z2 / of_int n;
               center = (phat + z2 / (2 * of_int n)) / denom;
               margin = z / denom * sqrt (phat * (1 - phat) / of_int n + z2 / (4 * of_int n * of_int n))
           in Inr (max 0 (center - margin), min 1 (center + margin)))"

definition clopper_pearson_interval ::
  "(real \<Rightarrow> real) \<Rightarrow> int \<Rightarrow> int \<Rightarrow> real \<Rightarrow> stats_error + real \<times> real" where
  "clopper_pearson_interval lgamma successes n alpha =
     (if \<not> validate_count successes n \<or> \<not> validate_alpha alpha then Inl Stats_Value_Error
      else if n = 0 then Inr (0, 1)
      else bind_result (if successes = 0 then Inr 0
             else beta_quantile lgamma (alpha / 2) (of_int successes) (of_int (n - successes + 1))) (\<lambda>lower.
           bind_result (if successes = n then Inr 1
             else beta_quantile lgamma (1 - alpha / 2) (of_int (successes + 1)) (of_int (n - successes))) (\<lambda>upper.
           Inr (lower, upper))))"

definition clopper_pearson_upper :: "(real \<Rightarrow> real) \<Rightarrow> int \<Rightarrow> int \<Rightarrow> real \<Rightarrow> stats_error + real" where
  "clopper_pearson_upper lgamma successes n alpha =
     (if \<not> validate_count successes n \<or> \<not> validate_alpha alpha then Inl Stats_Value_Error
      else if n = 0 \<or> successes = n then Inr 1
      else beta_quantile lgamma (1 - alpha) (of_int (successes + 1)) (of_int (n - successes)))"

section \<open>Exact tests\<close>

record sign_test =
  st_n_pairs :: nat
  st_n_effective :: nat
  st_n_positive :: nat
  st_n_negative :: nat
  st_n_ties :: nat
  st_p_value :: real

definition lower_tail :: "nat \<Rightarrow> nat \<Rightarrow> real" where
  "lower_tail n k = real (sum_list (map (\<lambda>i. n choose i) [0 ..< k + 1])) / 2 ^ n"

definition upper_tail :: "nat \<Rightarrow> nat \<Rightarrow> real" where
  "upper_tail n k = real (sum_list (map (\<lambda>i. n choose i) [k ..< n + 1])) / 2 ^ n"

definition exact_paired_sign_test :: "(real \<times> real) list \<Rightarrow> sign_test" where
  "exact_paired_sign_test pairs =
     (let pos = length (filter (\<lambda>(before, after). before < after) pairs);
          neg = length (filter (\<lambda>(before, after). after < before) pairs);
          ties = length (filter (\<lambda>(before, after). \<not> before < after \<and> \<not> after < before) pairs);
          n = pos + neg
      in \<lparr>st_n_pairs = length pairs, st_n_effective = n, st_n_positive = pos, st_n_negative = neg,
          st_n_ties = ties, st_p_value = (if n = 0 then 1 else min 1 (2 * lower_tail n (min pos neg)))\<rparr>)"

datatype alternative = Greater | Two_Sided
datatype odds = Odds real | Infinite_Odds

record mcnemar =
  mc_n_discordant :: nat
  mc_b :: nat
  mc_c :: nat
  mc_p_value :: real
  mc_odds_ratio :: odds
  mc_discordant_prop_b :: real
  mc_ci :: "(real \<times> real) option"

definition mcnemar_p :: "nat \<Rightarrow> nat \<Rightarrow> alternative \<Rightarrow> real" where
  "mcnemar_p b c alt =
     (let n = b + c in
      if n = 0 then 1
      else case alt of Greater \<Rightarrow> upper_tail n b | Two_Sided \<Rightarrow> min 1 (2 * lower_tail n (min b c)))"

text \<open>The result, given the interval of the proportion: none is computed without discordant pairs.\<close>

definition mcnemar_result :: "nat \<Rightarrow> nat \<Rightarrow> alternative \<Rightarrow> (real \<times> real) option \<Rightarrow> mcnemar" where
  "mcnemar_result b c alt ci =
     \<lparr>mc_n_discordant = b + c, mc_b = b, mc_c = c, mc_p_value = mcnemar_p b c alt,
      mc_odds_ratio = (if b + c = 0 then Odds 1 else if c = 0 then Infinite_Odds else Odds (real b / real c)),
      mc_discordant_prop_b = (if b + c = 0 then 0 else real b / real (b + c)), mc_ci = ci\<rparr>"

definition mcnemar_exact :: "(real \<Rightarrow> real) \<Rightarrow> int \<Rightarrow> int \<Rightarrow> alternative \<Rightarrow> stats_error + mcnemar" where
  "mcnemar_exact lgamma b c alt =
     (if b < 0 \<or> c < 0 then Inl Stats_Value_Error
      else if b + c = 0 then Inr (mcnemar_result (nat b) (nat c) alt None)
      else bind_result (clopper_pearson_interval lgamma b (b + c) (5 / 100)) (\<lambda>ci.
             Inr (mcnemar_result (nat b) (nat c) alt (Some ci))))"

record contrast =
  ct_n_pairs :: nat
  ct_both_survive :: nat
  ct_both_die :: nat
  ct_no_outcome_rate :: real
  ct_shipped_rate :: real
  ct_risk_difference :: real
  ct_mcnemar :: mcnemar

definition count_pairs :: "bool \<Rightarrow> bool \<Rightarrow> (bool \<times> bool) list \<Rightarrow> nat" where
  "count_pairs x y pairs = length (filter (\<lambda>p. p = (x, y)) pairs)"

definition contrast_result :: "(bool \<times> bool) list \<Rightarrow> mcnemar \<Rightarrow> contrast" where
  "contrast_result pairs m =
     (let both = count_pairs True True pairs; b = count_pairs True False pairs;
          c = count_pairs False True pairs; n = length pairs;
          out = (if n = 0 then 0 else real (both + b) / real n);
          ship = (if n = 0 then 0 else real (both + c) / real n)
      in \<lparr>ct_n_pairs = n, ct_both_survive = both, ct_both_die = count_pairs False False pairs,
          ct_no_outcome_rate = out, ct_shipped_rate = ship, ct_risk_difference = out - ship, ct_mcnemar = m\<rparr>)"

definition paired_binary_contrast :: "(real \<Rightarrow> real) \<Rightarrow> (bool \<times> bool) list \<Rightarrow> stats_error + contrast" where
  "paired_binary_contrast lgamma pairs =
     bind_result
       (mcnemar_exact lgamma (int (count_pairs True False pairs)) (int (count_pairs False True pairs)) Greater)
       (\<lambda>m. Inr (contrast_result pairs m))"

definition PREREG_MIN_RISK_DIFFERENCE :: real where "PREREG_MIN_RISK_DIFFERENCE = 1 / 2"
definition PREREG_MAX_REVERSE_DISCORDANT :: nat where "PREREG_MAX_REVERSE_DISCORDANT = 1"

record decision =
  dn_direction_ok :: bool
  dn_effect_ok :: bool
  dn_reverse_ok :: bool
  dn_significant :: bool
  dn_passes :: bool

definition meets_minimum_effect :: "contrast \<Rightarrow> real \<Rightarrow> nat \<Rightarrow> real \<Rightarrow> decision" where
  "meets_minimum_effect ct min_difference max_reverse alpha =
     (let m = ct_mcnemar ct; direction = mc_c m < mc_b m; effect = min_difference \<le> ct_risk_difference ct;
          reverse = mc_c m \<le> max_reverse; significant = mc_p_value m < alpha
      in \<lparr>dn_direction_ok = direction, dn_effect_ok = effect, dn_reverse_ok = reverse,
          dn_significant = significant, dn_passes = (direction \<and> effect \<and> reverse \<and> significant)\<rparr>)"

section \<open>Resampling, capture and recapture, clustering\<close>

definition fmean :: "real list \<Rightarrow> real" where
  "fmean xs = sum_list xs / real (length xs)"

definition percentile :: "real list \<Rightarrow> real \<Rightarrow> real" where
  "percentile xs p =
     (if length xs = 1 then xs ! 0
      else let position = p * real (length xs - 1); lo = nat \<lfloor>position\<rfloor>; hi = nat \<lceil>position\<rceil> in
        if lo = hi then xs ! lo
        else let weight = position - real lo in xs ! lo * (1 - weight) + xs ! hi * weight)"

text \<open>The generator picks a cluster by its index: \<open>draws\<close> lists the picks of every iteration.\<close>

definition cluster_bootstrap_ci ::
  "(real list \<Rightarrow> real) \<Rightarrow> nat list list \<Rightarrow> real list list \<Rightarrow> real \<Rightarrow> stats_error + real \<times> real" where
  "cluster_bootstrap_ci statistic draws clusters alpha =
     (if \<not> validate_alpha alpha \<or> draws = [] \<or> clusters = [] \<or> list_ex (\<lambda>c. c = []) clusters
      then Inl Stats_Value_Error
      else let estimates = sort (map (\<lambda>picks. statistic (concat (map (\<lambda>i. clusters ! i) picks))) draws)
           in Inr (percentile estimates (alpha / 2), percentile estimates (1 - alpha / 2)))"

definition chapman_estimator :: "int \<Rightarrow> int \<Rightarrow> int \<Rightarrow> stats_error + real" where
  "chapman_estimator n1 n2 m =
     (if n1 < 0 \<or> n2 < 0 \<or> m < 0 \<or> m > n1 \<or> m > n2 then Inl Stats_Value_Error
      else Inr (of_int ((n1 + 1) * (n2 + 1)) / of_int (m + 1) - 1))"

definition squares :: "real \<Rightarrow> real list \<Rightarrow> real" where
  "squares m xs = sum_list (map (\<lambda>x. (x - m) ^ 2) xs)"

definition intra_class_correlation :: "real list list \<Rightarrow> real option" where
  "intra_class_correlation groups =
     (let gs = filter (\<lambda>g. g \<noteq> []) groups in
      if length gs < 2 then None
      else let values = concat gs; grand = fmean values; total_ss = squares grand values in
        if total_ss = 0 then None
        else let n = length values; k = length gs in
          if n \<le> k then None
          else let between = sum_list (map (\<lambda>g. real (length g) * (fmean g - grand) ^ 2) gs);
                   inside = total_ss - between;
                   ms_between = between / real (k - 1); ms_within = inside / real (n - k);
                   denom = ms_between + (real n / real k - 1) * ms_within
               in if denom = 0 then None else Some ((ms_between - ms_within) / denom))"

section \<open>The tests are exact\<close>

lemma sum_choose:
  assumes "finite I"
  shows "(\<Sum>i \<in> I. n choose i) = card {S. S \<subseteq> {..<n} \<and> card S \<in> I}"
proof -
  have "card {S. S \<subseteq> {..<n} \<and> card S \<in> I} = card (\<Union>i \<in> I. {S. S \<subseteq> {..<n} \<and> card S = i})"
    by (rule arg_cong [of _ _ card]) auto
  also have "\<dots> = (\<Sum>i \<in> I. card {S. S \<subseteq> {..<n} \<and> card S = i})"
    using assms by (intro card_UN_disjoint) auto
  also have "\<dots> = (\<Sum>i \<in> I. n choose i)"
    by (simp add: n_subsets)
  finally show ?thesis by simp
qed

lemma sum_list_range: "sum_list (map f [i ..< j]) = sum f {i ..< j}"
  for f :: "nat \<Rightarrow> nat"
  by (simp add: interv_sum_list_conv_sum_set_nat)

lemma upper_tail_counts: "upper_tail n k = real (card {S. S \<subseteq> {..<n} \<and> k \<le> card S}) / 2 ^ n"
proof -
  have card: "card S \<le> n" if "S \<subseteq> {..<n}" for S
    using card_mono [OF finite_lessThan that] by simp
  have eq: "{S. S \<subseteq> {..<n} \<and> card S \<in> {k ..< n + 1}} = {S. S \<subseteq> {..<n} \<and> k \<le> card S}"
    using card by (auto simp: less_Suc_eq_le)
  show ?thesis
    unfolding upper_tail_def sum_list_range sum_choose [OF finite_atLeastLessThan] eq ..
qed

lemma lower_tail_counts: "lower_tail n k = real (card {S. S \<subseteq> {..<n} \<and> card S \<le> k}) / 2 ^ n"
proof -
  have eq: "{S. S \<subseteq> {..<n} \<and> card S \<in> {0 ..< k + 1}} = {S. S \<subseteq> {..<n} \<and> card S \<le> k}"
    by auto
  show ?thesis
    unfolding lower_tail_def sum_list_range sum_choose [OF finite_atLeastLessThan] eq ..
qed

lemma tails_bounded: "0 \<le> lower_tail n k" "lower_tail n k \<le> 1" "0 \<le> upper_tail n k" "upper_tail n k \<le> 1"
proof -
  have card: "card {S. S \<subseteq> {..<n} \<and> P S} \<le> 2 ^ n" for P
    using card_mono [of "Pow {..<n}" "{S. S \<subseteq> {..<n} \<and> P S}"] by (auto simp: card_Pow)
  have "real (card {S. S \<subseteq> {..<n} \<and> P S}) / 2 ^ n \<le> 1" for P
    using of_nat_mono [OF card [of P], where 'a = real] by (simp add: divide_le_eq)
  then show "lower_tail n k \<le> 1" "upper_tail n k \<le> 1"
    by (simp_all add: lower_tail_counts upper_tail_counts)
qed (simp_all add: lower_tail_def upper_tail_def)

text \<open>The p-values are exact: with \<open>n\<close> discordant pairs, the directional one is the share of the
  \<open>2 ^ n\<close> ways the pairs can fall in which at least as many fall in the predicted direction as were
  observed, and the two-sided one doubles the share of the ways with at most the smaller count, cut
  off at one.\<close>

theorem mcnemar_p_is_exact:
  assumes "0 < b + c"
  shows "mcnemar_p b c Greater = real (card {S. S \<subseteq> {..<b + c} \<and> b \<le> card S}) / real (card (Pow {..<b + c}))
       \<and> mcnemar_p b c Two_Sided
           = min 1 (2 * (real (card {S. S \<subseteq> {..<b + c} \<and> card S \<le> min b c}) / real (card (Pow {..<b + c}))))"
proof -
  have "b + c \<noteq> 0" using assms by simp
  then show ?thesis
    by (simp only: mcnemar_p_def Let_def upper_tail_counts lower_tail_counts card_Pow finite_lessThan card_lessThan
        if_False alternative.case of_nat_power of_nat_numeral)
qed

lemma upper_tail_all: "upper_tail n n = 1 / 2 ^ n"
  by (simp add: upper_tail_def)

lemma upper_tail_but_one: "upper_tail (n + 1) n = (real n + 2) / 2 ^ (n + 1)"
  by (simp add: upper_tail_def upt_rec)

lemma mcnemar_p_is_exact_witness:
  "mcnemar_p 8 1 Greater = real (card {S. S \<subseteq> {..<8 + (1::nat)} \<and> 8 \<le> card S}) / real (card (Pow {..<8 + (1::nat)}))
   \<and> 195 / 10000 < mcnemar_p 8 1 Greater \<and> mcnemar_p 8 1 Greater < 196 / 10000"
proof -
  have "mcnemar_p 8 1 Greater = 10 / 512"
    using upper_tail_but_one [of 8] by (simp add: mcnemar_p_def)
  then show ?thesis using mcnemar_p_is_exact [of 8 1] by simp
qed

section \<open>The pre-registered decision\<close>

lemma pow_20: "20 < (2::nat) ^ b \<longleftrightarrow> 5 \<le> b"
proof
  assume "20 < (2::nat) ^ b"
  show "5 \<le> b"
  proof (rule ccontr)
    assume "\<not> 5 \<le> b"
    then have "(2::nat) ^ b \<le> 2 ^ 4" by (intro power_increasing) auto
    with \<open>20 < 2 ^ b\<close> show False by simp
  qed
next
  assume "5 \<le> b"
  then have "(2::nat) ^ 5 \<le> 2 ^ b" by (intro power_increasing) auto
  then show "20 < (2::nat) ^ b" by simp
qed

lemma pow_40: "20 * (b + 2) < (2::nat) ^ (b + 1) \<longleftrightarrow> 7 \<le> b"
proof
  assume "7 \<le> b"
  then show "20 * (b + 2) < (2::nat) ^ (b + 1)"
    by (induction b rule: nat_induct_at_least) auto
next
  assume l: "20 * (b + 2) < (2::nat) ^ (b + 1)"
  show "7 \<le> b"
  proof (rule ccontr)
    assume "\<not> 7 \<le> b"
    then have "b \<in> {0, 1, 2, 3, 4, 5, 6}" by auto
    with l show False by auto
  qed
qed

lemma significant_without_reverse:
  assumes "0 < b" shows "mcnemar_p b 0 Greater < 5 / 100 \<longleftrightarrow> 5 \<le> b"
proof -
  have "mcnemar_p b 0 Greater < 5 / 100 \<longleftrightarrow> (20::real) < 2 ^ b"
    using assms by (simp add: mcnemar_p_def upper_tail_all field_simps)
  also have "\<dots> \<longleftrightarrow> 20 < (2::nat) ^ b"
    using of_nat_less_iff [where 'a = real, of 20 "2 ^ b"] by simp
  finally show ?thesis by (simp add: pow_20)
qed

lemma significant_with_one_reverse: "mcnemar_p b 1 Greater < 5 / 100 \<longleftrightarrow> 7 \<le> b"
proof -
  have "mcnemar_p b 1 Greater = upper_tail (b + 1) b"
    by (simp add: mcnemar_p_def)
  also have "\<dots> < 5 / 100 \<longleftrightarrow> 20 * (real b + 2) < 2 ^ (b + 1)"
    unfolding upper_tail_but_one by (simp add: divide_less_eq) argo
  also have "\<dots> \<longleftrightarrow> real (20 * (b + 2)) < real (2 ^ (b + 1))"
    by (simp add: add.commute)
  finally have "mcnemar_p b 1 Greater < 5 / 100 \<longleftrightarrow> real (20 * (b + 2)) < real (2 ^ (b + 1))" .
  then show ?thesis by (simp only: of_nat_less_iff pow_40)
qed

lemma risk_difference_half:
  assumes "0 < n"
  shows "1 / 2 \<le> real (k + b) / real n - real (k + c) / real n \<longleftrightarrow> n + 2 * c \<le> 2 * b"
proof -
  have "real (k + b) / real n - real (k + c) / real n = (real b - real c) / real n"
    by (simp add: diff_divide_distrib [symmetric])
  then have "1 / 2 \<le> real (k + b) / real n - real (k + c) / real n \<longleftrightarrow> real n + 2 * real c \<le> 2 * real b"
    using assms by (simp add: pos_le_divide_eq) linarith
  then show ?thesis by linarith
qed

lemma paired_binary_contrast_result:
  "paired_binary_contrast lgamma pairs = Inr ct \<Longrightarrow>
     \<exists>ci. ct = contrast_result pairs (mcnemar_result (count_pairs True False pairs) (count_pairs False True pairs) Greater ci)"
  by (auto simp: paired_binary_contrast_def mcnemar_exact_def result_simps split: if_splits)

lemma count_le: "count_pairs x y pairs \<le> length pairs"
  by (simp add: count_pairs_def)

text \<open>What the pre-registered rule demands of the data, whatever the interval that is reported beside
  it: the policy passes exactly when no pair fell in the reverse direction and at least five in the
  predicted one, or one did and at least seven, and the excess is at least half of all pairs.\<close>

theorem preregistered_rule_decides:
  "dn_passes (meets_minimum_effect
       (contrast_result pairs (mcnemar_result (count_pairs True False pairs) (count_pairs False True pairs) Greater ci))
       PREREG_MIN_RISK_DIFFERENCE PREREG_MAX_REVERSE_DISCORDANT (5 / 100))
   \<longleftrightarrow> (count_pairs False True pairs = 0 \<and> 5 \<le> count_pairs True False pairs
        \<or> count_pairs False True pairs = 1 \<and> 7 \<le> count_pairs True False pairs)
       \<and> length pairs + 2 * count_pairs False True pairs \<le> 2 * count_pairs True False pairs"
proof -
  let ?b = "count_pairs True False pairs" and ?c = "count_pairs False True pairs"
  have pass: "dn_passes (meets_minimum_effect (contrast_result pairs (mcnemar_result ?b ?c Greater ci))
       PREREG_MIN_RISK_DIFFERENCE PREREG_MAX_REVERSE_DISCORDANT (5 / 100))
     \<longleftrightarrow> ?c < ?b \<and> length pairs + 2 * ?c \<le> 2 * ?b \<and> ?c \<le> 1 \<and> mcnemar_p ?b ?c Greater < 5 / 100"
  proof (cases "length pairs = 0")
    case True
    then have "?b = 0" using count_le [of True False pairs] by simp
    then show ?thesis by (simp add: meets_minimum_effect_def mcnemar_result_def contrast_result_def Let_def)
  next
    case False
    then show ?thesis
      using risk_difference_half [of "length pairs" "count_pairs True True pairs" ?b ?c]
      by (simp add: meets_minimum_effect_def mcnemar_result_def contrast_result_def Let_def
          PREREG_MIN_RISK_DIFFERENCE_def PREREG_MAX_REVERSE_DISCORDANT_def)
  qed
  show ?thesis
    unfolding pass
  proof (cases "?c = 0")
    case True
    then show "(?c < ?b \<and> length pairs + 2 * ?c \<le> 2 * ?b \<and> ?c \<le> 1 \<and> mcnemar_p ?b ?c Greater < 5 / 100) \<longleftrightarrow>
       (?c = 0 \<and> 5 \<le> ?b \<or> ?c = 1 \<and> 7 \<le> ?b) \<and> length pairs + 2 * ?c \<le> 2 * ?b"
      using significant_without_reverse [of ?b] by auto
  next
    case False
    have "mcnemar_p ?b ?c Greater < 5 / 100 \<longleftrightarrow> 7 \<le> ?b" if "?c = 1"
      using significant_with_one_reverse [of ?b] that by simp
    with False show "(?c < ?b \<and> length pairs + 2 * ?c \<le> 2 * ?b \<and> ?c \<le> 1 \<and> mcnemar_p ?b ?c Greater < 5 / 100) \<longleftrightarrow>
       (?c = 0 \<and> 5 \<le> ?b \<or> ?c = 1 \<and> 7 \<le> ?b) \<and> length pairs + 2 * ?c \<le> 2 * ?b"
      by linarith
  qed
qed

section \<open>Intervals contain what they should\<close>

text \<open>The algebra of the Wilson interval: the estimate differs from the centre by no more than the
  margin.\<close>

lemma wilson_margin:
  fixes p n z :: real
  assumes "0 < n" "0 < z" "0 \<le> p" "p \<le> 1"
  shows "\<bar>p - (p + z * z / (2 * n)) / (1 + z * z / n)\<bar>
      \<le> z / (1 + z * z / n) * sqrt (p * (1 - p) / n + z * z / (4 * n * n))"
proof -
  define d where "d = 1 + z * z / n"
  have d: "0 < d" using assms by (simp add: d_def add_pos_nonneg)
  have "p - (p + z * z / (2 * n)) / d = (p * d - p - z * z / (2 * n)) / d"
    using d by (simp add: diff_divide_distrib add_divide_distrib)
  also have "p * d - p - z * z / (2 * n) = z * z / n * (p - 1 / 2)"
    using assms(1) by (simp add: d_def field_simps)
  finally have diff: "p - (p + z * z / (2 * n)) / d = z * (z / n * (p - 1 / 2)) / d"
    by (simp add: algebra_simps)
  have "(z / n * (p - 1 / 2))\<^sup>2 = z * z / (n * n) * (1 / 4 - p * (1 - p))"
    by (simp add: power2_eq_square field_simps)
  also have "\<dots> \<le> z * z / (n * n) * (1 / 4)"
    using assms by (intro mult_left_mono) auto
  also have "\<dots> = z * z / (4 * n * n)" by (simp add: field_simps)
  also have "\<dots> \<le> p * (1 - p) / n + z * z / (4 * n * n)"
    using assms by (simp add: zero_le_divide_iff zero_le_mult_iff)
  finally have "\<bar>z / n * (p - 1 / 2)\<bar> \<le> sqrt (p * (1 - p) / n + z * z / (4 * n * n))"
    using real_sqrt_le_mono [of "(z / n * (p - 1 / 2))\<^sup>2"] by (simp only: real_sqrt_abs)
  then have "z * \<bar>z / n * (p - 1 / 2)\<bar> / d \<le> z * sqrt (p * (1 - p) / n + z * z / (4 * n * n)) / d"
    using assms d by (intro divide_right_mono mult_left_mono) auto
  then show ?thesis
    unfolding d_def [symmetric] diff using assms d by (simp add: abs_mult)
qed

text \<open>The Wilson interval is defined for every count out of a total and every positive critical value;
  it lies within zero and one and contains the observed proportion.\<close>

theorem wilson_contains_the_estimate:
  assumes "0 \<le> k" and "k \<le> n" and "0 < z"
  shows "\<exists>lo hi. wilson_interval k n z = Inr (lo, hi) \<and> 0 \<le> lo \<and> hi \<le> 1
           \<and> (if n = 0 then lo = 0 \<and> hi = 1 else lo \<le> of_int k / of_int n \<and> of_int k / of_int n \<le> hi)"
proof (cases "n = 0")
  case True
  with assms show ?thesis by (simp add: wilson_interval_def validate_count_def)
next
  case False
  define p where "p = (of_int k / of_int n :: real)"
  have n: "0 < (of_int n :: real)" and p: "0 \<le> p" "p \<le> 1"
    using assms False by (simp_all add: p_def)
  define c where "c = (p + z * z / (2 * of_int n)) / (1 + z * z / of_int n)"
  define m where "m = z / (1 + z * z / of_int n) * sqrt (p * (1 - p) / of_int n + z * z / (4 * of_int n * of_int n))"
  have w: "wilson_interval k n z = Inr (max 0 (c - m), min 1 (c + m))"
    using assms False by (simp add: wilson_interval_def validate_count_def Let_def p_def c_def m_def)
  have "\<bar>p - c\<bar> \<le> m" unfolding c_def m_def by (rule wilson_margin [OF n assms(3) p])
  then have "max 0 (c - m) \<le> p" "p \<le> min 1 (c + m)" using p by auto
  with w False show ?thesis unfolding p_def by simp
qed

lemma wilson_contains_the_estimate_witness:
  "\<exists>lo hi. wilson_interval 3 4 2 = Inr (lo, hi) \<and> lo \<le> (3 / 4 :: real) \<and> 3 / 4 \<le> hi"
  using wilson_contains_the_estimate [of 3 4 2] by auto

lemma bisect_brackets:
  assumes "bisect cdf p n lo hi = Inr (l, h)"
  shows "h - l = (hi - lo) / 2 ^ n \<and> (l = lo \<or> (\<exists>y. cdf l = Inr y \<and> y < p)) \<and> (h = hi \<or> (\<exists>y. cdf h = Inr y \<and> p \<le> y))"
  using assms
proof (induction n arbitrary: lo hi)
  case (Suc n)
  define m where "m = (lo + hi) / 2"
  from Suc.prems obtain y where y: "cdf m = Inr y"
      and b: "(if y < p then bisect cdf p n m hi else bisect cdf p n lo m) = Inr (l, h)"
    by (auto simp: Let_def result_simps m_def [symmetric])
  have half: "(hi - m) / 2 ^ n = (hi - lo) / 2 ^ Suc n" "(m - lo) / 2 ^ n = (hi - lo) / 2 ^ Suc n"
    by (simp_all add: field_simps m_def)
  show ?case
  proof (cases "y < p")
    case True
    with b have "bisect cdf p n m hi = Inr (l, h)" by simp
    from Suc.IH [OF this] True y half(1) show ?thesis by auto
  next
    case False
    with b have "bisect cdf p n lo m = Inr (l, h)" by simp
    from Suc.IH [OF this] False y half(2) show ?thesis by auto
  qed
qed simp

text \<open>A quantile that is returned is within \<open>2 ^ -121\<close> of a crossing of the distribution function.\<close>

lemma beta_quantile_brackets:
  assumes "beta_quantile lgamma p a b = Inr x" and "0 < p" and "p < 1"
  shows "\<exists>l h. x = (l + h) / 2 \<and> h - l = 1 / 2 ^ 120
           \<and> (l = 0 \<or> (\<exists>y. regularized_incomplete_beta lgamma a b l = Inr y \<and> y < p))
           \<and> (h = 1 \<or> (\<exists>y. regularized_incomplete_beta lgamma a b h = Inr y \<and> p \<le> y))"
proof -
  from assms obtain l h where b: "bisect (regularized_incomplete_beta lgamma a b) p 120 0 1 = Inr (l, h)"
      and x: "x = (l + h) / 2"
    by (auto simp: beta_quantile_def result_simps split: if_splits)
  from bisect_brackets [OF b] x show ?thesis by auto
qed

lemma chapman_lower_bound:
  assumes "0 \<le> m" "m \<le> n1" "m \<le> n2"
  shows "\<exists>x. chapman_estimator n1 n2 m = Inr x \<and> of_int (n1 + n2 - m) \<le> x"
proof -
  have "0 \<le> (n1 - m) * (n2 - m)" using assms by simp
  then have "(n1 + n2 - m + 1) * (m + 1) \<le> (n1 + 1) * (n2 + 1)" by (simp add: algebra_simps)
  then have "(of_int ((n1 + n2 - m + 1) * (m + 1)) :: real) \<le> of_int ((n1 + 1) * (n2 + 1))"
    by (simp only: of_int_le_iff)
  then have "of_int (n1 + n2 - m) + 1 \<le> (of_int ((n1 + 1) * (n2 + 1)) / of_int (m + 1) :: real)"
    using assms by (simp add: pos_le_divide_eq)
  with assms show ?thesis by (simp add: chapman_estimator_def)
qed

end
