(* ===== verification/Ablation_Scorecard.thy ===== *)
theory Ablation_Scorecard
  imports Bench_Prelude
begin

text \<open>
  \<open>wevibe_bench/scorecard.py\<close> and \<open>wevibe_bench/seeding.py\<close>: the comparison of the cells with memory
  against those without, and the plan that keeps the tasks memories were taken from apart from those
  they are tested on.  Times are integers (\<open>datetime\<close> is used only to compare and to print), and their
  ISO text is the parameter \<open>isoformat\<close>.
\<close>

section \<open>Cells\<close>

record ablation_cell =
  ab_model :: string
  ab_task_id :: string
  ab_condition :: string
  ab_resolved :: bool
  ab_input_tokens :: int
  ab_output_tokens :: int
  ab_turns :: int
  ab_wall_cost_usd :: real
  ab_wall_seconds :: real
  ab_delivery :: string
  ab_scored :: bool
  ab_not_scored_reason :: "string option"
  ab_pattern_position :: "string option"
  ab_run_block :: "string option"
  ab_injection_count :: "int option"
  ab_injected_block_chars :: "int option"
  ab_injected_block_est_tokens :: "int option"
  ab_memory_mode :: "string option"
  ab_keyword_match_rate :: "real option"
  ab_keyword_matched_count :: "int option"
  ab_keyword_served_count :: "int option"
  ab_vector_only_serve_count :: "int option"
  ab_http_429_count :: "int option"
  ab_http_402_count :: "int option"
  ab_retry_count :: "int option"
  ab_upstream_error_count :: "int option"
  ab_max_request_ms :: "int option"
  ab_median_request_ms :: "int option"
  ab_wall_near_timeout :: bool

definition total_tokens :: "ablation_cell \<Rightarrow> int" where
  "total_tokens c = ab_input_tokens c + ab_output_tokens c"

definition ablation_cell_to_dict :: "ablation_cell \<Rightarrow> pydict" where
  "ablation_cell_to_dict c =
     [(''model'', PStr (ab_model c)), (''task_id'', PStr (ab_task_id c)), (''condition'', PStr (ab_condition c)),
      (''resolved'', PBool (ab_resolved c)), (''input_tokens'', PInt (ab_input_tokens c)),
      (''output_tokens'', PInt (ab_output_tokens c)), (''total_tokens'', PInt (total_tokens c)),
      (''turns'', PInt (ab_turns c)), (''wall_cost_usd'', PFloat (ab_wall_cost_usd c)),
      (''wall_seconds'', PFloat (ab_wall_seconds c)), (''delivery'', PStr (ab_delivery c)),
      (''scored'', PBool (ab_scored c)), (''not_scored_reason'', of_opt PStr (ab_not_scored_reason c)),
      (''pattern_position'', of_opt PStr (ab_pattern_position c)), (''run_block'', of_opt PStr (ab_run_block c)),
      (''injection_count'', of_opt PInt (ab_injection_count c)),
      (''injected_block_chars'', of_opt PInt (ab_injected_block_chars c)),
      (''injected_block_est_tokens'', of_opt PInt (ab_injected_block_est_tokens c)),
      (''memory_mode'', of_opt PStr (ab_memory_mode c)),
      (''keyword_match_rate'', of_opt PFloat (ab_keyword_match_rate c)),
      (''keyword_matched_count'', of_opt PInt (ab_keyword_matched_count c)),
      (''keyword_served_count'', of_opt PInt (ab_keyword_served_count c)),
      (''vector_only_serve_count'', of_opt PInt (ab_vector_only_serve_count c)),
      (''http_429_count'', of_opt PInt (ab_http_429_count c)), (''http_402_count'', of_opt PInt (ab_http_402_count c)),
      (''retry_count'', of_opt PInt (ab_retry_count c)),
      (''upstream_error_count'', of_opt PInt (ab_upstream_error_count c)),
      (''max_request_ms'', of_opt PInt (ab_max_request_ms c)),
      (''median_request_ms'', of_opt PInt (ab_median_request_ms c)),
      (''wall_near_timeout'', PBool (ab_wall_near_timeout c))]"

section \<open>Contention of an arm\<close>

definition mean_int :: "int list \<Rightarrow> real option" where
  "mean_int vs = (if vs = [] then None else Some (of_int (sum_list vs) / real (length vs)))"

definition max_int :: "int list \<Rightarrow> int option" where
  "max_int vs = (case vs of [] \<Rightarrow> None | v # r \<Rightarrow> Some (fold max r v))"

record contention_arm =
  ca_cell_count :: nat
  ca_measured_cell_count :: nat
  ca_429_mean :: "real option"
  ca_429_max :: "int option"
  ca_402_mean :: "real option"
  ca_402_max :: "int option"
  ca_retry_mean :: "real option"
  ca_retry_max :: "int option"
  ca_upstream_mean :: "real option"
  ca_upstream_max :: "int option"
  ca_median_mean :: "real option"
  ca_max_max :: "int option"

definition measured :: "ablation_cell \<Rightarrow> bool" where
  "measured c \<longleftrightarrow> ab_http_429_count c \<noteq> None \<or> ab_http_402_count c \<noteq> None \<or> ab_retry_count c \<noteq> None
     \<or> ab_upstream_error_count c \<noteq> None \<or> ab_max_request_ms c \<noteq> None \<or> ab_median_request_ms c \<noteq> None"

definition contention_summary :: "ablation_cell list \<Rightarrow> contention_arm" where
  "contention_summary cells =
     (let ms = filter measured cells;
          a = List.map_filter ab_http_429_count ms; b = List.map_filter ab_http_402_count ms;
          r = List.map_filter ab_retry_count ms; u = List.map_filter ab_upstream_error_count ms;
          d = List.map_filter ab_median_request_ms ms; x = List.map_filter ab_max_request_ms ms
      in \<lparr>ca_cell_count = length cells, ca_measured_cell_count = length ms,
          ca_429_mean = mean_int a, ca_429_max = max_int a, ca_402_mean = mean_int b, ca_402_max = max_int b,
          ca_retry_mean = mean_int r, ca_retry_max = max_int r, ca_upstream_mean = mean_int u,
          ca_upstream_max = max_int u, ca_median_mean = mean_int d, ca_max_max = max_int x\<rparr>)"

definition contention_arm_to_dict :: "contention_arm \<Rightarrow> pydict" where
  "contention_arm_to_dict a =
     [(''cell_count'', PInt (int (ca_cell_count a))), (''measured_cell_count'', PInt (int (ca_measured_cell_count a))),
      (''http_429_count_mean'', of_opt PFloat (ca_429_mean a)), (''http_429_count_max'', of_opt PInt (ca_429_max a)),
      (''http_402_count_mean'', of_opt PFloat (ca_402_mean a)), (''http_402_count_max'', of_opt PInt (ca_402_max a)),
      (''retry_count_mean'', of_opt PFloat (ca_retry_mean a)), (''retry_count_max'', of_opt PInt (ca_retry_max a)),
      (''upstream_error_count_mean'', of_opt PFloat (ca_upstream_mean a)),
      (''upstream_error_count_max'', of_opt PInt (ca_upstream_max a)),
      (''median_request_ms_mean'', of_opt PFloat (ca_median_mean a)),
      (''max_request_ms_max'', of_opt PInt (ca_max_max a))]"

section \<open>The difference memory makes\<close>

record model_diff =
  md_model :: string
  md_off_pass_rate :: real
  md_on_pass_rate :: real
  md_capability_lift_pp :: real
  md_off_total_tokens :: int
  md_on_total_tokens :: int
  md_total_token_delta_pct :: real
  md_off_cost_usd :: real
  md_on_cost_usd :: real
  md_cost_delta_pct :: real
  md_off_n :: nat
  md_on_scored_n :: nat
  md_on_not_scored_n :: nat
  md_off_contention :: contention_arm
  md_on_contention :: contention_arm
  md_on_condition :: string

definition pass_rate :: "ablation_cell list \<Rightarrow> real" where
  "pass_rate cs = (if cs = [] then 0 else real (length (filter ab_resolved cs)) / real (length cs))"

definition delta_pct :: "real \<Rightarrow> real \<Rightarrow> real" where
  "delta_pct on off = (if off \<noteq> 0 then (on - off) / off * 100 else 0)"

definition arm_diff :: "ablation_cell list \<Rightarrow> string \<Rightarrow> string \<Rightarrow> model_diff" where
  "arm_diff cells m cond =
     (let mine = filter (\<lambda>c. ab_model c = m) cells;
          off = filter (\<lambda>c. ab_condition c = ''OFF'') mine;
          on = filter (\<lambda>c. ab_condition c = cond) mine;
          scored = filter ab_scored on;
          off_rate = pass_rate off; on_rate = pass_rate scored;
          off_tokens = sum_list (map total_tokens off); on_tokens = sum_list (map total_tokens scored);
          off_cost = sum_list (map ab_wall_cost_usd off); on_cost = sum_list (map ab_wall_cost_usd scored)
      in \<lparr>md_model = m, md_off_pass_rate = off_rate, md_on_pass_rate = on_rate,
          md_capability_lift_pp = (on_rate - off_rate) * 100,
          md_off_total_tokens = off_tokens, md_on_total_tokens = on_tokens,
          md_total_token_delta_pct = delta_pct (of_int on_tokens) (of_int off_tokens),
          md_off_cost_usd = off_cost, md_on_cost_usd = on_cost, md_cost_delta_pct = delta_pct on_cost off_cost,
          md_off_n = length off, md_on_scored_n = length scored,
          md_on_not_scored_n = length (filter (\<lambda>c. \<not> ab_scored c) on),
          md_off_contention = contention_summary off, md_on_contention = contention_summary scored,
          md_on_condition = cond\<rparr>)"

definition on_conditions :: "ablation_cell list \<Rightarrow> string \<Rightarrow> string list" where
  "on_conditions cells m =
     sort (remdups (filter (\<lambda>d. starts_with d ''ON'') (map ab_condition (filter (\<lambda>c. ab_model c = m) cells))))"

definition model_diffs :: "ablation_cell list \<Rightarrow> model_diff list" where
  "model_diffs cells =
     concat (map (\<lambda>m. map (arm_diff cells m) (on_conditions cells m)) (sort (remdups (map ab_model cells))))"

definition model_diff_to_dict :: "model_diff \<Rightarrow> pydict" where
  "model_diff_to_dict d =
     [(''model'', PStr (md_model d)), (''on_condition'', PStr (md_on_condition d)),
      (''off_pass_rate'', PFloat (md_off_pass_rate d)), (''on_pass_rate'', PFloat (md_on_pass_rate d)),
      (''capability_lift_pp'', PFloat (md_capability_lift_pp d)), (''off_total_tokens'', PInt (md_off_total_tokens d)),
      (''on_total_tokens'', PInt (md_on_total_tokens d)),
      (''total_token_delta_pct'', PFloat (md_total_token_delta_pct d)), (''off_cost_usd'', PFloat (md_off_cost_usd d)),
      (''on_cost_usd'', PFloat (md_on_cost_usd d)), (''cost_delta_pct'', PFloat (md_cost_delta_pct d)),
      (''off_n'', PInt (int (md_off_n d))), (''on_scored_n'', PInt (int (md_on_scored_n d))),
      (''on_not_scored_n'', PInt (int (md_on_not_scored_n d))),
      (''off_contention'', PDict (contention_arm_to_dict (md_off_contention d))),
      (''on_contention'', PDict (contention_arm_to_dict (md_on_contention d)))]"

record ablation_manifest =
  am_config :: pydict
  am_rng_seed :: int
  am_harness_version :: string
  am_created_at :: string
  am_split_disclosure :: "pydict option"

definition ablation_manifest_to_dict :: "ablation_manifest \<Rightarrow> pydict" where
  "ablation_manifest_to_dict m =
     [(''config'', PDict (am_config m)), (''rng_seed'', PInt (am_rng_seed m)),
      (''harness_version'', PStr (am_harness_version m)), (''created_at'', PStr (am_created_at m)),
      (''split_disclosure'', of_opt PDict (am_split_disclosure m))]"

definition ablation_payload :: "ablation_manifest \<Rightarrow> ablation_cell list \<Rightarrow> pydict" where
  "ablation_payload m cells =
     [(''manifest'', PDict (ablation_manifest_to_dict m)),
      (''cells'', PList (map (\<lambda>c. PDict (ablation_cell_to_dict c)) cells)),
      (''model_diffs'', PList (map (\<lambda>d. PDict (model_diff_to_dict d)) (model_diffs cells)))]"

section \<open>Seed and held-out tasks\<close>

record task =
  tk_task_id :: string
  tk_group :: string
  tk_timestamp :: int
  tk_stack :: "string list"
  tk_provenance :: string

record split_plan =
  sp_seed_tasks :: "task list"
  sp_heldout_tasks :: "task list"
  sp_cutoff :: int

definition disclosure :: "(int \<Rightarrow> string) \<Rightarrow> split_plan \<Rightarrow> pydict" where
  "disclosure isoformat p =
     (let texts = (\<lambda>xs. PList (map PStr (sorted_set xs))); seed = sp_seed_tasks p; held = sp_heldout_tasks p in
      [(''cutoff'', PStr (isoformat (sp_cutoff p))), (''seed_count'', PInt (int (length seed))),
       (''heldout_count'', PInt (int (length held))),
       (''seed_groups'', texts (map tk_group seed)), (''heldout_groups'', texts (map tk_group held)),
       (''seed_stacks'', texts (concat (map tk_stack seed))), (''heldout_stacks'', texts (concat (map tk_stack held))),
       (''seed_provenance'', texts (filter (\<lambda>x. x \<noteq> []) (map tk_provenance seed))),
       (''heldout_provenance'', texts (filter (\<lambda>x. x \<noteq> []) (map tk_provenance held))),
       (''grouped_disjoint'', PBool True), (''temporal_split'', PBool True)])"

definition straddling :: "task list \<Rightarrow> int \<Rightarrow> (task \<Rightarrow> string) \<Rightarrow> string list" where
  "straddling tasks cutoff key =
     filter (\<lambda>g. g \<in> set (map key (filter (\<lambda>t. tk_timestamp t \<ge> cutoff) tasks)))
       (sorted_set (map key (filter (\<lambda>t. tk_timestamp t < cutoff) tasks)))"

definition task_order :: "task \<Rightarrow> int \<times> string" where
  "task_order t = (tk_timestamp t, tk_task_id t)"

text \<open>\<open>SplitViolation\<close> carries, for every straddling group, the task ids of both halves.\<close>

definition build_split ::
  "task list \<Rightarrow> int \<Rightarrow> (task \<Rightarrow> string) option \<Rightarrow> (string \<times> string list \<times> string list) list + split_plan" where
  "build_split tasks cutoff group_key =
     (let seed = sort_key task_order (filter (\<lambda>t. tk_timestamp t < cutoff) tasks);
          held = sort_key task_order (filter (\<lambda>t. tk_timestamp t \<ge> cutoff) tasks);
          key = opt_or group_key tk_group;
          bad = straddling tasks cutoff key
      in if bad \<noteq> []
         then Inl (map (\<lambda>g. (g, sort (map tk_task_id (filter (\<lambda>t. key t = g) seed)),
                               sort (map tk_task_id (filter (\<lambda>t. key t = g) held)))) bad)
         else Inr \<lparr>sp_seed_tasks = seed, sp_heldout_tasks = held, sp_cutoff = cutoff\<rparr>)"

section \<open>Not scored never counts\<close>

text \<open>The cells a difference may look at: those without memory, and the scored ones.\<close>

definition countable_cells :: "ablation_cell list \<Rightarrow> ablation_cell list" where
  "countable_cells cells = filter (\<lambda>c. ab_condition c = ''OFF'' \<or> ab_scored c) cells"

lemma off_countable:
  "filter (\<lambda>c. ab_model c = m \<and> ab_condition c = ''OFF'') (countable_cells cells)
     = filter (\<lambda>c. ab_model c = m \<and> ab_condition c = ''OFF'') cells"
  by (induction cells) (auto simp: countable_cells_def)

lemma scored_countable:
  "filter (\<lambda>c. ab_model c = m \<and> ab_condition c = d \<and> ab_scored c) (countable_cells cells)
     = filter (\<lambda>c. ab_model c = m \<and> ab_condition c = d \<and> ab_scored c) cells"
  by (induction cells) (auto simp: countable_cells_def)

lemma arm_diff_countable:
  "(arm_diff (countable_cells cells) m d)\<lparr>md_on_not_scored_n := 0\<rparr> = (arm_diff cells m d)\<lparr>md_on_not_scored_n := 0\<rparr>"
  by (simp add: arm_diff_def Let_def off_countable scored_countable)

lemma pass_rate_bounds: "0 \<le> pass_rate cs" "pass_rate cs \<le> 1"
  by (simp_all add: pass_rate_def)

text \<open>A cell with memory that was not scored counts for nothing but the number of such cells: two
  collections that agree on the cells without memory and on the scored ones have the same rates,
  lift, tokens, costs, deltas, counts and contention in every arm.  The rates are shares, so the lift
  is at most a hundred points either way.\<close>

theorem not_scored_never_counts:
  assumes "countable_cells cells = countable_cells cells'"
  shows "(arm_diff cells m d)\<lparr>md_on_not_scored_n := 0\<rparr> = (arm_diff cells' m d)\<lparr>md_on_not_scored_n := 0\<rparr>
       \<and> 0 \<le> md_on_pass_rate (arm_diff cells m d) \<and> md_on_pass_rate (arm_diff cells m d) \<le> 1
       \<and> \<bar>md_capability_lift_pp (arm_diff cells m d)\<bar> \<le> 100"
proof -
  have "(arm_diff cells m d)\<lparr>md_on_not_scored_n := 0\<rparr> = (arm_diff cells' m d)\<lparr>md_on_not_scored_n := 0\<rparr>"
    using arm_diff_countable [of cells m d] arm_diff_countable [of cells' m d] assms by simp
  moreover have "\<bar>(pass_rate a - pass_rate b) * 100\<bar> \<le> 100" for a b
    using pass_rate_bounds [of a] pass_rate_bounds [of b] by (simp add: abs_mult)
  ultimately show ?thesis
    by (simp add: arm_diff_def Let_def pass_rate_bounds)
qed

lemma ablation_sample: "(countable_cells [] = countable_cells [c]) \<longleftrightarrow> ab_condition c \<noteq> ''OFF'' \<and> \<not> ab_scored c"
  by (simp add: countable_cells_def)

definition sample_ablation :: "string \<Rightarrow> bool \<Rightarrow> bool \<Rightarrow> ablation_cell" where
  "sample_ablation cond resolved scored =
     \<lparr>ab_model = ''m'', ab_task_id = ''t'', ab_condition = cond, ab_resolved = resolved, ab_input_tokens = 1,
      ab_output_tokens = 1, ab_turns = 1, ab_wall_cost_usd = 1, ab_wall_seconds = 1, ab_delivery = ''YES'',
      ab_scored = scored, ab_not_scored_reason = None, ab_pattern_position = None, ab_run_block = None,
      ab_injection_count = None, ab_injected_block_chars = None, ab_injected_block_est_tokens = None,
      ab_memory_mode = None, ab_keyword_match_rate = None, ab_keyword_matched_count = None,
      ab_keyword_served_count = None, ab_vector_only_serve_count = None, ab_http_429_count = None,
      ab_http_402_count = None, ab_retry_count = None, ab_upstream_error_count = None, ab_max_request_ms = None,
      ab_median_request_ms = None, ab_wall_near_timeout = False\<rparr>"

lemma not_scored_never_counts_witness:
  "(arm_diff [sample_ablation ''OFF'' False True, sample_ablation ''ON'' True False] ''m'' ''ON'')\<lparr>md_on_not_scored_n := 0\<rparr>
     = (arm_diff [sample_ablation ''OFF'' False True] ''m'' ''ON'')\<lparr>md_on_not_scored_n := 0\<rparr>"
proof -
  have "countable_cells [sample_ablation ''OFF'' False True, sample_ablation ''ON'' True False]
      = countable_cells [sample_ablation ''OFF'' False True]"
    by (simp add: countable_cells_def sample_ablation_def)
  from not_scored_never_counts [OF this] show ?thesis by blast
qed

text \<open>The cells without memory are not held to it: one that was not scored raises the rate the others are
  compared with.\<close>

lemma unscored_baseline_counts:
  "md_off_pass_rate (arm_diff [sample_ablation ''OFF'' True False, sample_ablation ''ON'' True True] ''m'' ''ON'') = 1"
  "md_capability_lift_pp (arm_diff [sample_ablation ''OFF'' True False, sample_ablation ''ON'' True True] ''m'' ''ON'') = 0"
  by (simp_all add: arm_diff_def Let_def sample_ablation_def pass_rate_def)

section \<open>The split\<close>

lemma straddling_Nil:
  "straddling tasks cutoff key = [] \<longleftrightarrow>
     (\<forall>s \<in> set tasks. \<forall>t \<in> set tasks. tk_timestamp s < cutoff \<longrightarrow> cutoff \<le> tk_timestamp t \<longrightarrow> key s \<noteq> key t)"
  by (auto simp: straddling_def sorted_set_def filter_empty_conv)

text \<open>A split is built exactly when no group has tasks on both sides of the cutoff; it then holds every
  task once, those before the cutoff apart from the rest, each half in order of time, and no group of
  the one half occurs in the other.\<close>

theorem split_is_temporal_and_disjoint:
  "(\<exists>e. build_split tasks cutoff key = Inl e \<and> e \<noteq> []
       \<and> (\<exists>s \<in> set tasks. \<exists>t \<in> set tasks. tk_timestamp s < cutoff \<and> cutoff \<le> tk_timestamp t
            \<and> opt_or key tk_group s = opt_or key tk_group t))
   \<or> (\<exists>p. build_split tasks cutoff key = Inr p
       \<and> mset (sp_seed_tasks p @ sp_heldout_tasks p) = mset tasks
       \<and> sorted (map task_order (sp_seed_tasks p)) \<and> sorted (map task_order (sp_heldout_tasks p))
       \<and> list_all (\<lambda>t. tk_timestamp t < cutoff) (sp_seed_tasks p)
       \<and> list_all (\<lambda>t. cutoff \<le> tk_timestamp t) (sp_heldout_tasks p)
       \<and> set (map (opt_or key tk_group) (sp_seed_tasks p)) \<inter> set (map (opt_or key tk_group) (sp_heldout_tasks p)) = {})"
proof (cases "straddling tasks cutoff (opt_or key tk_group) = []")
  case True
  let ?s = "filter (\<lambda>t. tk_timestamp t < cutoff) tasks" and ?h = "filter (\<lambda>t. tk_timestamp t \<ge> cutoff) tasks"
  let ?p = "\<lparr>sp_seed_tasks = sort_key task_order ?s, sp_heldout_tasks = sort_key task_order ?h, sp_cutoff = cutoff\<rparr>"
  have "mset (?s @ ?h) = mset tasks"
    by (induction tasks) auto
  then have "mset (sp_seed_tasks ?p @ sp_heldout_tasks ?p) = mset tasks" by simp
  moreover have "build_split tasks cutoff key = Inr ?p"
    using True by (simp add: build_split_def Let_def)
  moreover have "set (map (opt_or key tk_group) (sp_seed_tasks ?p)) \<inter> set (map (opt_or key tk_group) (sp_heldout_tasks ?p)) = {}"
    using True unfolding straddling_Nil by auto
  moreover have "list_all (\<lambda>t. tk_timestamp t < cutoff) (sp_seed_tasks ?p)"
      "list_all (\<lambda>t. cutoff \<le> tk_timestamp t) (sp_heldout_tasks ?p)"
    by (auto simp: list_all_iff)
  moreover have "sorted (map task_order (sp_seed_tasks ?p))" "sorted (map task_order (sp_heldout_tasks ?p))"
    by simp_all
  ultimately show ?thesis by blast
next
  case False
  then have "\<exists>s \<in> set tasks. \<exists>t \<in> set tasks. tk_timestamp s < cutoff \<and> cutoff \<le> tk_timestamp t
      \<and> opt_or key tk_group s = opt_or key tk_group t"
    unfolding straddling_Nil by blast
  moreover have "\<exists>e. build_split tasks cutoff key = Inl e \<and> e \<noteq> []"
    using False by (simp add: build_split_def Let_def)
  ultimately show ?thesis by blast
qed

text \<open>The disclosure always claims disjoint groups, also when the split was built by another key and the
  groups it lists overlap.\<close>

definition sample_task :: "string \<Rightarrow> int \<Rightarrow> task" where
  "sample_task i t = \<lparr>tk_task_id = i, tk_group = ''g'', tk_timestamp = t, tk_stack = [], tk_provenance = []\<rparr>"

lemma disclosure_trusts_the_key:
  "\<exists>p. build_split [sample_task ''a'' 1, sample_task ''b'' 9] 5 (Some tk_task_id) = Inr p
     \<and> map_of (disclosure (\<lambda>_. []) p) ''grouped_disjoint'' = Some (PBool True)
     \<and> map_of (disclosure (\<lambda>_. []) p) ''seed_groups'' = map_of (disclosure (\<lambda>_. []) p) ''heldout_groups''"
proof -
  have "straddling [sample_task ''a'' 1, sample_task ''b'' 9] 5 tk_task_id = []"
    by (simp add: straddling_Nil) (simp add: sample_task_def)
  then show ?thesis
    by (simp add: build_split_def disclosure_def Let_def sample_task_def sorted_set_def)
qed

end
