(* ===== verification/Oracle_Scan.thy ===== *)
theory Oracle_Scan
  imports Bench_Prelude
begin

text \<open>
  \<open>wevibe_bench/adapters/cheat_detector.py\<close>: the scan of a worker's event log for tool calls that name
  the gates or the golden solution.  The log is the list of its lines, or absent; \<open>loads\<close> decodes one
  line, \<open>rp\<close> prints a number, and texts are taken to be ASCII, where \<open>casefold\<close> is \<open>lower\<close>.
\<close>

section \<open>Findings\<close>

record cheat_hit =
  ch_tool :: string
  ch_marker :: string
  ch_excerpt :: string
  ch_call_id :: string

record cheat_finding =
  cf_cheated :: bool
  cf_hits :: "cheat_hit list"

definition finding_summary :: "cheat_finding \<Rightarrow> string" where
  "finding_summary f =
     (if \<not> cf_cheated f then ''CLEAN: no oracle access detected''
      else if cf_hits f = [] then ''CHEAT: oracle access detected''
      else let n = length (cf_hits f);
               samples = map (\<lambda>h. ch_tool h @ ''->'' @ ch_marker h) (take 3 (cf_hits f));
               samples = (if 3 < n then samples @ [''...(+'' @ string_of_int (int n - 3) @ '' more)''] else samples)
           in ''CHEAT: '' @ string_of_int (int n) @ '' oracle access(es): '' @ join '', '' samples)"

section \<open>Markers\<close>

definition DISTINCTIVE_ORACLE_BASENAMES :: "string list" where
  "DISTINCTIVE_ORACLE_BASENAMES =
     [''report.mjs'', ''run.mjs'', ''aesthetic.ts'', ''harness.ts'', ''pregate.ts'', ''pregate.spec.ts'',
      ''gates-01-08.test.ts'', ''gates-09-12.test.ts'', ''gates-13-16.test.ts'', ''core.spec.ts'', ''edges.spec.ts'']"

fun dedupe_from :: "string list \<Rightarrow> string list \<Rightarrow> string list" where
  "dedupe_from seen [] = []"
| "dedupe_from seen (v # vs) =
     (let t = strip v; k = lower t in
      if t = [] \<or> k \<in> set seen then dedupe_from seen vs else t # dedupe_from (k # seen) vs)"

definition dedupe_casefolded :: "string list \<Rightarrow> string list" where
  "dedupe_casefolded vs = dedupe_from [] vs"

definition build_oracle_markers :: "string \<Rightarrow> string \<Rightarrow> string list \<Rightarrow> string list" where
  "build_oracle_markers gates_dir golden_dir extra =
     dedupe_casefolded ([gates_dir, golden_dir, ''/gates/'', ''/golden/''] @ DISTINCTIVE_ORACLE_BASENAMES @ extra)"

section \<open>Tool calls\<close>

definition call_id_of :: "(pyval \<Rightarrow> string) \<Rightarrow> pydict \<Rightarrow> string" where
  "call_id_of rp d =
     (let a = dget d ''callID''; v = (if a = PNone then dget d ''callId'' else a)
      in if v = PNone then [] else py_str rp v)"

definition nonempty_str :: "pyval \<Rightarrow> string option" where
  "nonempty_str v = (case v of PStr s \<Rightarrow> if s = [] then None else Some s | _ \<Rightarrow> None)"

definition input_of :: "pydict \<Rightarrow> pyval" where
  "input_of d =
     (case map_of d ''input'' of
        Some v \<Rightarrow> v
      | None \<Rightarrow> (case map_of d ''args'' of
          Some v \<Rightarrow> v
        | None \<Rightarrow> (case map_of d ''command'' of Some v \<Rightarrow> PDict [(''command'', v)] | None \<Rightarrow> PNone)))"

text \<open>The two shapes of an event: a tool part with its state, or a flat call.\<close>

definition extract_tool_call :: "(pyval \<Rightarrow> string) \<Rightarrow> pydict \<Rightarrow> (string \<times> string \<times> pyval) option" where
  "extract_tool_call rp d =
     (case dget d ''part'' of
        PDict part \<Rightarrow>
          (let type_text = lower (strip (py_str rp (dget_default part ''type'' (PStr []))));
               inp = (case dget part ''state'' of PDict st \<Rightarrow> dget st ''input'' | _ \<Rightarrow> PNone)
           in if type_text \<noteq> [] \<and> type_text \<noteq> ''tool'' then None
              else case nonempty_str (dget part ''tool'') of
                None \<Rightarrow> None
              | Some tool \<Rightarrow> if inp = PNone then None else Some (tool, call_id_of rp part, inp))
      | _ \<Rightarrow>
          (case nonempty_str (dget d ''tool'') of
             None \<Rightarrow> None
           | Some tool \<Rightarrow> if input_of d = PNone then None else Some (tool, call_id_of rp d, input_of d)))"

text \<open>The texts of the values of an input, keys left out.\<close>

fun collect_values :: "(pyval \<Rightarrow> string) \<Rightarrow> pyval \<Rightarrow> string list"
  and collect_items :: "(pyval \<Rightarrow> string) \<Rightarrow> pyval list \<Rightarrow> string list"
  and collect_fields :: "(pyval \<Rightarrow> string) \<Rightarrow> pydict \<Rightarrow> string list" where
  "collect_values rp PNone = []"
| "collect_values rp (PDict d) = collect_fields rp d"
| "collect_values rp (PList xs) = collect_items rp xs"
| "collect_values rp (PBool b) = [if b then ''True'' else ''False'']"
| "collect_values rp (PInt i) = [string_of_int i]"
| "collect_values rp (PFloat x) = (let t = strip (rp (PFloat x)) in if t = [] then [] else [t])"
| "collect_values rp (PStr s) = (let t = strip s in if t = [] then [] else [t])"
| "collect_items rp [] = []"
| "collect_items rp (x # xs) = collect_values rp x @ collect_items rp xs"
| "collect_fields rp [] = []"
| "collect_fields rp ((k, v) # d) = collect_values rp v @ collect_fields rp d"

definition stringify_input_values :: "(pyval \<Rightarrow> string) \<Rightarrow> pyval \<Rightarrow> string" where
  "stringify_input_values rp v = strip (join '' '' (collect_values rp v))"

section \<open>Excerpts\<close>

definition MAX_EXCERPT_CHARS :: nat where "MAX_EXCERPT_CHARS = 200"

text \<open>\<open>s.find(pat)\<close>\<close>

fun find_text :: "string \<Rightarrow> string \<Rightarrow> nat option" where
  "find_text [] pat = (if pat = [] then Some 0 else None)"
| "find_text (c # s) pat =
     (if starts_with (c # s) pat then Some 0 else map_option Suc (find_text s pat))"

definition excerpt_around_match :: "string \<Rightarrow> string \<Rightarrow> string" where
  "excerpt_around_match text marker =
     (let compact = join '' '' (split_ws text) in
      if compact = [] then []
      else case find_text (lower compact) (lower marker) of
        None \<Rightarrow> take MAX_EXCERPT_CHARS compact
      | Some i \<Rightarrow>
          (let start = i - 80; stop = min (length compact) (i + length (lower marker) + 80);
               e = take (stop - start) (drop start compact);
               e = (if 0 < start then ''...'' @ e else e);
               e = (if stop < length compact then e @ ''...'' else e)
           in if MAX_EXCERPT_CHARS < length e then take (MAX_EXCERPT_CHARS - 3) e @ ''...'' else e))"

section \<open>The scan\<close>

definition tool_call_of_line ::
  "(string \<Rightarrow> pyval option) \<Rightarrow> (pyval \<Rightarrow> string) \<Rightarrow> string \<Rightarrow> (string \<times> string \<times> string) option" where
  "tool_call_of_line loads rp raw =
     (if strip raw = [] then None
      else case loads (strip raw) of
        Some (PDict d) \<Rightarrow>
          (case extract_tool_call rp d of
             None \<Rightarrow> None
           | Some (tool, cid, inp) \<Rightarrow>
               (let t = stringify_input_values rp inp in if t = [] then None else Some (tool, cid, t)))
      | _ \<Rightarrow> None)"

definition hits_of_line ::
  "(string \<Rightarrow> pyval option) \<Rightarrow> (pyval \<Rightarrow> string) \<Rightarrow> string list \<Rightarrow> string \<Rightarrow> cheat_hit list" where
  "hits_of_line loads rp markers raw = (case tool_call_of_line loads rp raw of
     None \<Rightarrow> []
   | Some (tool, cid, t) \<Rightarrow>
       map (\<lambda>m. \<lparr>ch_tool = tool, ch_marker = m, ch_excerpt = excerpt_around_match t m, ch_call_id = cid\<rparr>)
         (filter (\<lambda>m. contains (lower t) (lower m)) markers))"

definition scan_events ::
  "(string \<Rightarrow> pyval option) \<Rightarrow> (pyval \<Rightarrow> string) \<Rightarrow> string list \<Rightarrow> string list option \<Rightarrow> cheat_finding" where
  "scan_events loads rp markers events =
     (let prepared = dedupe_casefolded markers in
      if prepared = [] then \<lparr>cf_cheated = False, cf_hits = []\<rparr>
      else case events of
        None \<Rightarrow> \<lparr>cf_cheated = False, cf_hits = []\<rparr>
      | Some ls \<Rightarrow>
          (let hits = concat (map (hits_of_line loads rp prepared) ls)
           in \<lparr>cf_cheated = (0 < length hits), cf_hits = hits\<rparr>))"

section \<open>What is found\<close>

lemma dedupe_from_keys:
  "(\<exists>m \<in> set (dedupe_from seen vs). lower m = k) \<longleftrightarrow> k \<notin> set seen \<and> (\<exists>v \<in> set vs. strip v \<noteq> [] \<and> lower (strip v) = k)"
  by (induction seen vs rule: dedupe_from.induct) (auto simp: Let_def)

lemma dedupe_keys:
  "(\<exists>m \<in> set (dedupe_casefolded vs). P (lower m)) \<longleftrightarrow> (\<exists>v \<in> set vs. strip v \<noteq> [] \<and> P (lower (strip v)))"
  using dedupe_from_keys [of "[]" vs] unfolding dedupe_casefolded_def by (metis list.set(1) empty_iff)

lemma hits_of_line_Nil:
  "hits_of_line loads rp ms raw = [] \<longleftrightarrow>
     (\<forall>tool cid t. tool_call_of_line loads rp raw = Some (tool, cid, t) \<longrightarrow> (\<forall>m \<in> set ms. \<not> contains (lower t) (lower m)))"
  by (auto simp: hits_of_line_def filter_empty_conv split: option.splits)

text \<open>C19. The scan cries cheat exactly when it should: for some line of the log that decodes to a tool call,
  some marker occurs, in any case, in the texts of the call's input; blank markers and lines,
  undecodable lines and other events are passed over, and a log that is missing is clean.\<close>

theorem cheat_is_found_exactly:
  "cf_cheated (scan_events loads rp markers events) \<longleftrightarrow>
     (\<exists>ls raw tool cid t m. events = Some ls \<and> raw \<in> set ls \<and> tool_call_of_line loads rp raw = Some (tool, cid, t)
        \<and> m \<in> set markers \<and> strip m \<noteq> [] \<and> contains (lower t) (lower (strip m)))"
proof (cases events)
  case None
  then show ?thesis by (simp add: scan_events_def Let_def)
next
  case (Some ls)
  let ?ms = "dedupe_casefolded markers"
  have "cf_cheated (scan_events loads rp markers events) \<longleftrightarrow> (\<exists>raw \<in> set ls. hits_of_line loads rp ?ms raw \<noteq> [])"
    using Some by (auto simp: scan_events_def Let_def hits_of_line_def split: option.splits)
  also have "\<dots> \<longleftrightarrow> (\<exists>raw \<in> set ls. \<exists>tool cid t. tool_call_of_line loads rp raw = Some (tool, cid, t)
      \<and> (\<exists>m \<in> set ?ms. contains (lower t) (lower m)))"
    unfolding hits_of_line_Nil by blast
  also have "\<dots> \<longleftrightarrow> (\<exists>raw \<in> set ls. \<exists>tool cid t. tool_call_of_line loads rp raw = Some (tool, cid, t)
      \<and> (\<exists>m \<in> set markers. strip m \<noteq> [] \<and> contains (lower t) (lower (strip m))))"
    unfolding dedupe_keys ..
  finally show ?thesis using Some by blast
qed

lemma excerpt_bounded: "length (excerpt_around_match t m) \<le> MAX_EXCERPT_CHARS"
  by (simp add: excerpt_around_match_def Let_def MAX_EXCERPT_CHARS_def split: option.splits)

lemma every_hit_is_bounded:
  "h \<in> set (cf_hits (scan_events loads rp markers events)) \<Longrightarrow> length (ch_excerpt h) \<le> MAX_EXCERPT_CHARS"
  by (auto simp: scan_events_def Let_def hits_of_line_def excerpt_bounded split: option.splits if_splits)

end
