(* ===== verification/Recall_Gold.thy ===== *)
theory Recall_Gold
  imports Bench_Prelude
begin

text \<open>
  \<open>wevibe_bench/recall_gold.py\<close>: the gold cases of the recall tests, the corpus they refer to, and the
  resolution of their slugs to the ids of a seeded checkpoint.  A file is \<open>None\<close> when it is absent,
  otherwise its text or its lines; \<open>loads\<close> decodes JSON.  The clock and the counts of the log line are
  not modelled.
\<close>

section \<open>Errors and data\<close>

datatype gold_error = Gold_Error string | Resolve_Error string

definition CATEGORIES :: "string list" where
  "CATEGORIES = [''single_hit'', ''near_tie'', ''cross_stack_negative'', ''thin_prompt'', ''no_match'']"

definition NO_INJECTION_CATEGORIES :: "string list" where
  "NO_INJECTION_CATEGORIES = [''cross_stack_negative'', ''no_match'']"

record corpus =
  co_topic :: string
  co_slugs :: "string list"

record gold_case =
  gc_case_id :: string
  gc_category :: string
  gc_query :: string
  gc_expected_slugs :: "string list"
  gc_expect_injection :: bool
  gc_session :: pydict
  gc_notes :: pyval

text \<open>A non-blank string, stripped.\<close>

definition text_field :: "pyval \<Rightarrow> string option" where
  "text_field v = (case v of PStr s \<Rightarrow> if strip s = [] then None else Some (strip s) | _ \<Rightarrow> None)"

definition load_json_object ::
  "(string \<Rightarrow> pyval option) \<Rightarrow> (string \<Rightarrow> gold_error) \<Rightarrow> string option \<Rightarrow> gold_error + pydict" where
  "load_json_object loads exc f = (case f of
     None \<Rightarrow> Inl (exc ''file not found'')
   | Some raw \<Rightarrow>
       (if strip raw = [] then Inl (exc ''file is empty'')
        else case loads raw of
          None \<Rightarrow> Inl (exc ''file is invalid JSON'')
        | Some (PDict d) \<Rightarrow> Inr d
        | Some _ \<Rightarrow> Inl (exc ''JSON must decode to an object'')))"

section \<open>The corpus\<close>

fun collect_slugs :: "string list \<Rightarrow> pyval list \<Rightarrow> gold_error + string list" where
  "collect_slugs seen [] = Inr seen"
| "collect_slugs seen (m # ms) = (case m of
     PDict d \<Rightarrow>
       (case text_field (dget d ''id'') of
          None \<Rightarrow> Inl (Gold_Error ''corpus memory missing id'')
        | Some s \<Rightarrow> if s \<in> set seen then Inl (Gold_Error ''corpus has duplicate memory id'')
                    else collect_slugs (seen @ [s]) ms)
   | _ \<Rightarrow> Inl (Gold_Error ''corpus memory must be an object''))"

definition load_corpus :: "(string \<Rightarrow> pyval option) \<Rightarrow> string option \<Rightarrow> gold_error + corpus" where
  "load_corpus loads f =
     bind_result (load_json_object loads Gold_Error f) (\<lambda>d.
       case text_field (dget d ''topic'') of
         None \<Rightarrow> Inl (Gold_Error ''corpus missing topic'')
       | Some topic \<Rightarrow>
           (case dget d ''memories'' of
              PList ms \<Rightarrow>
                (if ms = [] then Inl (Gold_Error ''corpus must contain memories'')
                 else bind_result (collect_slugs [] ms) (\<lambda>slugs. Inr \<lparr>co_topic = topic, co_slugs = slugs\<rparr>))
            | _ \<Rightarrow> Inl (Gold_Error ''corpus must contain memories'')))"

section \<open>The gold cases\<close>

fun clean_slugs :: "string list \<Rightarrow> pyval list \<Rightarrow> gold_error + string list" where
  "clean_slugs seen [] = Inr seen"
| "clean_slugs seen (v # vs) = (case text_field v of
     None \<Rightarrow> Inl (Gold_Error ''empty expected slug'')
   | Some s \<Rightarrow> if s \<in> set seen then Inl (Gold_Error ''duplicate expected slug'') else clean_slugs (seen @ [s]) vs)"

definition demand :: "bool \<Rightarrow> string \<Rightarrow> gold_error + unit" where
  "demand b msg = (if b then Inr () else Inl (Gold_Error msg))"

definition category_rule :: "string \<Rightarrow> string list \<Rightarrow> bool \<Rightarrow> gold_error + unit" where
  "category_rule cat slugs injection =
     (if cat \<in> set NO_INJECTION_CATEGORIES
      then bind_result (demand (slugs = []) ''must have no expected slugs'')
             (\<lambda>_. demand (\<not> injection) ''must not expect injection'')
      else bind_result (demand (slugs \<noteq> []) ''must have expected slugs'')
             (\<lambda>_. demand injection ''must expect injection''))"

definition need_text :: "string \<Rightarrow> pyval \<Rightarrow> gold_error + string" where
  "need_text msg v = (case text_field v of Some s \<Rightarrow> Inr s | None \<Rightarrow> Inl (Gold_Error msg))"

definition need_category :: "pyval \<Rightarrow> gold_error + string" where
  "need_category v = (case v of
     PStr s \<Rightarrow> if s \<in> set CATEGORIES then Inr s else Inl (Gold_Error ''invalid category'')
   | _ \<Rightarrow> Inl (Gold_Error ''invalid category''))"

definition need_list :: "string \<Rightarrow> pyval \<Rightarrow> gold_error + pyval list" where
  "need_list msg v = (case v of PList xs \<Rightarrow> Inr xs | _ \<Rightarrow> Inl (Gold_Error msg))"

definition need_bool :: "string \<Rightarrow> pyval \<Rightarrow> gold_error + bool" where
  "need_bool msg v = (case v of PBool b \<Rightarrow> Inr b | _ \<Rightarrow> Inl (Gold_Error msg))"

definition need_dict :: "string \<Rightarrow> pyval \<Rightarrow> gold_error + pydict" where
  "need_dict msg v = (case v of PDict d \<Rightarrow> Inr d | _ \<Rightarrow> Inl (Gold_Error msg))"

definition parse_gold_payload :: "string list \<Rightarrow> pydict \<Rightarrow> gold_error + gold_case" where
  "parse_gold_payload seen d =
     bind_result (need_text ''missing case_id'' (dget d ''case_id'')) (\<lambda>cid.
     bind_result (demand (cid \<notin> set seen) ''duplicate case_id'') (\<lambda>_.
     bind_result (need_category (dget d ''category'')) (\<lambda>cat.
     bind_result (need_text ''missing query'' (dget d ''query'')) (\<lambda>q.
     bind_result (need_list ''requires expected_slugs'' (dget d ''expected_slugs'')) (\<lambda>vs.
     bind_result (clean_slugs [] vs) (\<lambda>slugs.
     bind_result (need_bool ''requires expect_injection'' (dget d ''expect_injection'')) (\<lambda>expects.
     bind_result (need_dict ''requires session'' (dget d ''session'')) (\<lambda>session.
     bind_result (category_rule cat slugs expects) (\<lambda>_.
       Inr \<lparr>gc_case_id = cid, gc_category = cat, gc_query = q, gc_expected_slugs = slugs,
            gc_expect_injection = expects, gc_session = session, gc_notes = dget d ''notes''\<rparr>)))))))))"

definition parse_gold_line :: "(string \<Rightarrow> pyval option) \<Rightarrow> string list \<Rightarrow> string \<Rightarrow> gold_error + gold_case" where
  "parse_gold_line loads seen raw =
     (if strip raw = [] then Inl (Gold_Error ''gold line is blank'')
      else case loads (strip raw) of
        None \<Rightarrow> Inl (Gold_Error ''gold line is invalid JSON'')
      | Some v \<Rightarrow> bind_result (need_dict ''gold line must be an object'' v) (parse_gold_payload seen))"

fun parse_gold :: "(string \<Rightarrow> pyval option) \<Rightarrow> gold_case list \<Rightarrow> string list \<Rightarrow> gold_error + gold_case list" where
  "parse_gold loads acc [] = Inr acc"
| "parse_gold loads acc (l # ls) =
     bind_result (parse_gold_line loads (map gc_case_id acc) l) (\<lambda>c. parse_gold loads (acc @ [c]) ls)"

definition load_gold :: "(string \<Rightarrow> pyval option) \<Rightarrow> string list option \<Rightarrow> gold_error + gold_case list" where
  "load_gold loads f = (case f of
     None \<Rightarrow> Inl (Gold_Error ''gold file not found'')
   | Some ls \<Rightarrow> if ls = [] then Inl (Gold_Error ''gold file is empty'') else parse_gold loads [] ls)"

definition validate_gold_against_corpus :: "gold_case list \<Rightarrow> corpus \<Rightarrow> gold_error + unit" where
  "validate_gold_against_corpus gold c =
     demand (list_all (\<lambda>g. list_all (\<lambda>s. s \<in> set (co_slugs c)) (gc_expected_slugs g)) gold) ''references unknown slug''"

section \<open>The checkpoint\<close>

fun collect_committed :: "(string \<times> string) list \<Rightarrow> pyval list \<Rightarrow> gold_error + (string \<times> string) list" where
  "collect_committed acc [] = Inr acc"
| "collect_committed acc (v # vs) = (case v of
     PDict d \<Rightarrow>
       (case (text_field (dget d ''id''), text_field (dget d ''submission_hash'')) of
          (Some slug, Some cid) \<Rightarrow>
            if map_of acc slug \<noteq> None then Inl (Resolve_Error ''checkpoint duplicates committed id'')
            else collect_committed (acc @ [(slug, cid)]) vs
        | _ \<Rightarrow> Inl (Resolve_Error ''committed requires id and submission_hash''))
   | _ \<Rightarrow> Inl (Resolve_Error ''committed must be an object''))"

definition load_seed_checkpoint :: "(string \<Rightarrow> pyval option) \<Rightarrow> string option \<Rightarrow> gold_error + (string \<times> string) list" where
  "load_seed_checkpoint loads f =
     bind_result (load_json_object loads Resolve_Error f) (\<lambda>d.
       case dget d ''committed'' of
         PList vs \<Rightarrow> collect_committed [] vs
       | _ \<Rightarrow> Inl (Resolve_Error ''checkpoint missing committed''))"

definition FALLBACK_ISO :: string where "FALLBACK_ISO = ''1970-01-01T00:00:00Z''"

definition checkpoint_org_and_timestamp ::
  "(string \<Rightarrow> pyval option) \<Rightarrow> string option \<Rightarrow> gold_error + string \<times> string" where
  "checkpoint_org_and_timestamp loads f =
     bind_result (load_json_object loads Resolve_Error f) (\<lambda>d.
       let stamp = (case text_field (dget d ''updated_at'') of
                      Some t \<Rightarrow> t
                    | None \<Rightarrow> (case text_field (dget d ''created_at'') of Some t \<Rightarrow> t | None \<Rightarrow> FALLBACK_ISO))
       in case dget_default d ''org_id'' (PStr []) of
            PNone \<Rightarrow> Inr ([], stamp)
          | PStr s \<Rightarrow> Inr (strip s, stamp)
          | _ \<Rightarrow> Inl (Resolve_Error ''checkpoint org_id must be a string''))"

section \<open>Resolution\<close>

definition required_slugs :: "gold_case list \<Rightarrow> string list" where
  "required_slugs gold = sorted_set (concat (map gc_expected_slugs gold))"

record resolved_case =
  rc_case_id :: string
  rc_category :: string
  rc_expected_slugs :: "string list"
  rc_resolved_cids :: "string list"
  rc_expect_injection :: bool

record resolved_mapping =
  rm_resolved_run_id :: string
  rm_resolved_at :: string
  rm_org :: string
  rm_cases :: "resolved_case list"

definition resolve_case :: "(string \<times> string) list \<Rightarrow> gold_case \<Rightarrow> resolved_case" where
  "resolve_case cp g =
     \<lparr>rc_case_id = gc_case_id g, rc_category = gc_category g, rc_expected_slugs = gc_expected_slugs g,
      rc_resolved_cids = (if gc_expect_injection g then map (\<lambda>s. opt_or (map_of cp s) []) (gc_expected_slugs g) else []),
      rc_expect_injection = gc_expect_injection g\<rparr>"

text \<open>\<open>stamp\<close> is the organisation and time of the checkpoint, or the clock's when none is given.\<close>

definition resolve ::
  "gold_case list \<Rightarrow> corpus \<Rightarrow> (string \<times> string) list \<Rightarrow> string \<Rightarrow> gold_error + string \<times> string
   \<Rightarrow> gold_error + resolved_mapping" where
  "resolve gold c cp run_id stamp =
     (if strip run_id = [] then Inl (Resolve_Error ''run_id must be a non-empty string'')
      else bind_result (validate_gold_against_corpus gold c) (\<lambda>_.
        let unresolved = filter (\<lambda>s. map_of cp s = None) (required_slugs gold) in
        if unresolved \<noteq> [] then Inl (Resolve_Error (''unresolved slug(s): '' @ join '', '' unresolved))
        else bind_result stamp (\<lambda>(org, resolved_at).
          Inr \<lparr>rm_resolved_run_id = strip run_id, rm_resolved_at = resolved_at, rm_org = org,
               rm_cases = map (resolve_case cp) (sort_key gc_case_id gold)\<rparr>)))"

definition resolve_from_files ::
  "(string \<Rightarrow> pyval option) \<Rightarrow> string list option \<Rightarrow> string option \<Rightarrow> string option \<Rightarrow> string
   \<Rightarrow> gold_error + resolved_mapping" where
  "resolve_from_files loads gold_file corpus_file checkpoint_file run_id =
     bind_result (load_corpus loads corpus_file) (\<lambda>c.
     bind_result (load_gold loads gold_file) (\<lambda>gold.
     bind_result (validate_gold_against_corpus gold c) (\<lambda>_.
     bind_result (load_seed_checkpoint loads checkpoint_file) (\<lambda>cp.
       let unresolved = filter (\<lambda>s. map_of cp s = None) (required_slugs gold) in
       if unresolved \<noteq> [] then Inl (Resolve_Error (''unresolved slug(s): '' @ join '', '' unresolved))
       else resolve gold c cp run_id (checkpoint_org_and_timestamp loads checkpoint_file)))))"

section \<open>What is accepted\<close>

definition gold_case_ok :: "gold_case \<Rightarrow> bool" where
  "gold_case_ok g \<longleftrightarrow> gc_category g \<in> set CATEGORIES
     \<and> (gc_expect_injection g \<longleftrightarrow> gc_category g \<notin> set NO_INJECTION_CATEGORIES)
     \<and> (gc_expect_injection g \<longleftrightarrow> gc_expected_slugs g \<noteq> [])
     \<and> distinct (gc_expected_slugs g) \<and> [] \<notin> set (gc_expected_slugs g) \<and> gc_query g \<noteq> []"

lemma text_field_some: "text_field v = Some s \<Longrightarrow> s \<noteq> []"
  by (auto simp: text_field_def split: pyval.splits if_splits)

lemma clean_slugs_ok:
  "clean_slugs seen vs = Inr s \<Longrightarrow> distinct seen \<Longrightarrow> [] \<notin> set seen \<Longrightarrow> distinct s \<and> [] \<notin> set s"
proof (induction vs arbitrary: seen)
  case (Cons v vs)
  from Cons.prems(1) obtain t where t: "text_field v = Some t" "t \<notin> set seen" and r: "clean_slugs (seen @ [t]) vs = Inr s"
    by (auto split: option.splits if_splits)
  show ?case
    by (rule Cons.IH [OF r]) (use Cons.prems t text_field_some [OF t(1)] in auto)
qed simp

lemma demand_Inr [simp]: "demand b m = Inr u \<longleftrightarrow> b"
  by (simp add: demand_def)

lemma category_rule_ok:
  "category_rule cat slugs expects = Inr u \<Longrightarrow>
     (expects \<longleftrightarrow> cat \<notin> set NO_INJECTION_CATEGORIES) \<and> (expects \<longleftrightarrow> slugs \<noteq> [])"
  by (auto simp: category_rule_def result_simps split: if_splits)

lemma need_simps:
  "need_text m v = Inr t \<longleftrightarrow> text_field v = Some t"
  "need_category v = Inr k \<longleftrightarrow> v = PStr k \<and> k \<in> set CATEGORIES"
  by (auto simp: need_text_def need_category_def split: option.splits pyval.splits if_splits)

lemma parse_gold_line_ok:
  assumes "parse_gold_line loads seen raw = Inr g"
  shows "gold_case_ok g \<and> gc_case_id g \<notin> set seen"
proof -
  from assms obtain d where "parse_gold_payload seen d = Inr g"
    by (auto simp: parse_gold_line_def result_simps split: if_splits option.splits)
  then obtain cid cat q vs slugs expects session where
      d: "cid \<notin> set seen" "cat \<in> set CATEGORIES" "text_field (dget d ''query'') = Some q"
         "clean_slugs [] vs = Inr slugs" "category_rule cat slugs expects = Inr ()"
      and g: "g = \<lparr>gc_case_id = cid, gc_category = cat, gc_query = q, gc_expected_slugs = slugs,
                   gc_expect_injection = expects, gc_session = session, gc_notes = dget d ''notes''\<rparr>"
    by (auto simp: parse_gold_payload_def result_simps need_simps)
  show ?thesis
    using d(1,2) clean_slugs_ok [OF d(4)] category_rule_ok [OF d(5)] text_field_some [OF d(3)]
    by (auto simp: g gold_case_ok_def)
qed

lemma parse_gold_ok:
  "parse_gold loads acc ls = Inr gs \<Longrightarrow> distinct (map gc_case_id acc) \<Longrightarrow> list_all gold_case_ok acc \<Longrightarrow>
     distinct (map gc_case_id gs) \<and> list_all gold_case_ok gs \<and> length gs = length acc + length ls"
proof (induction ls arbitrary: acc)
  case (Cons l ls)
  from Cons.prems(1) obtain c where c: "parse_gold_line loads (map gc_case_id acc) l = Inr c"
      and r: "parse_gold loads (acc @ [c]) ls = Inr gs"
    by (auto simp: result_simps)
  with Cons.IH [OF r] Cons.prems(2,3) parse_gold_line_ok [OF c] show ?case by simp
qed simp

lemma resolve_Inr:
  assumes "resolve gold c cp run_id stamp = Inr m"
  shows "list_all (\<lambda>g. list_all (\<lambda>s. s \<in> set (co_slugs c) \<and> map_of cp s \<noteq> None) (gc_expected_slugs g)) gold
       \<and> rm_cases m = map (resolve_case cp) (sort_key gc_case_id gold)"
proof -
  from assms have v: "list_all (\<lambda>g. list_all (\<lambda>s. s \<in> set (co_slugs c)) (gc_expected_slugs g)) gold"
      and u: "filter (\<lambda>s. map_of cp s = None) (required_slugs gold) = []"
      and m: "rm_cases m = map (resolve_case cp) (sort_key gc_case_id gold)"
    by (auto simp: resolve_def Let_def result_simps validate_gold_against_corpus_def split: if_splits prod.splits)
  from u have "\<forall>g \<in> set gold. \<forall>s \<in> set (gc_expected_slugs g). map_of cp s \<noteq> None"
    by (auto simp: filter_empty_conv required_slugs_def)
  with v m show ?thesis by (auto simp: list_all_iff)
qed

text \<open>A resolution that succeeds is complete: every line of the gold file became one case, the case ids
  are distinct, a case expects an injection exactly when its category does and exactly when it names
  slugs, every slug named is in the corpus and was committed by the checkpoint, and the ids resolved
  for a case are those the checkpoint gives its slugs, in order, none for a case without injection.\<close>

theorem resolved_gold_is_complete:
  assumes "resolve_from_files loads gold_file corpus_file checkpoint_file run_id = Inr m"
  shows "\<exists>ls gold c cp. gold_file = Some ls \<and> parse_gold loads [] ls = Inr gold \<and> length gold = length ls
       \<and> load_corpus loads corpus_file = Inr c \<and> load_seed_checkpoint loads checkpoint_file = Inr cp
       \<and> distinct (map gc_case_id gold) \<and> list_all gold_case_ok gold
       \<and> list_all (\<lambda>g. list_all (\<lambda>s. s \<in> set (co_slugs c) \<and> map_of cp s \<noteq> None) (gc_expected_slugs g)) gold
       \<and> mset (map rc_case_id (rm_cases m)) = mset (map gc_case_id gold)
       \<and> list_all (\<lambda>r. list_ex (\<lambda>g. rc_case_id r = gc_case_id g \<and> rc_expected_slugs r = gc_expected_slugs g
              \<and> map Some (rc_resolved_cids r) = map (map_of cp) (gc_expected_slugs g)) gold) (rm_cases m)"
proof -
  from assms obtain c gold cp where c: "load_corpus loads corpus_file = Inr c"
      and g: "load_gold loads gold_file = Inr gold" and cp: "load_seed_checkpoint loads checkpoint_file = Inr cp"
      and r: "resolve gold c cp run_id (checkpoint_org_and_timestamp loads checkpoint_file) = Inr m"
    by (auto simp: resolve_from_files_def Let_def result_simps split: if_splits)
  from g obtain ls where ls: "gold_file = Some ls" and p: "parse_gold loads [] ls = Inr gold"
    by (auto simp: load_gold_def split: option.splits if_splits)
  have ok: "distinct (map gc_case_id gold)" "list_all gold_case_ok gold" "length gold = length ls"
    using parse_gold_ok [OF p] by simp_all
  note res = resolve_Inr [OF r]
  have cids: "map Some (rc_resolved_cids (resolve_case cp g)) = map (map_of cp) (gc_expected_slugs g)"
    if "g \<in> set gold" for g
  proof -
    have "gold_case_ok g" using ok(2) that by (simp add: list_all_iff)
    moreover have "\<forall>s \<in> set (gc_expected_slugs g). map_of cp s \<noteq> None"
      using res that by (auto simp: list_all_iff)
    ultimately show ?thesis
      by (auto simp: resolve_case_def gold_case_ok_def opt_or_def split: option.splits)
  qed
  have "mset (map rc_case_id (rm_cases m)) = mset (map gc_case_id gold)"
    using res by (simp add: resolve_case_def comp_def)
  moreover have "list_all (\<lambda>r. list_ex (\<lambda>g. rc_case_id r = gc_case_id g \<and> rc_expected_slugs r = gc_expected_slugs g
              \<and> map Some (rc_resolved_cids r) = map (map_of cp) (gc_expected_slugs g)) gold) (rm_cases m)"
    using res cids by (auto simp: list_all_iff list_ex_iff resolve_case_def)
  ultimately show ?thesis using c cp ls p ok res by blast
qed

section \<open>A concrete resolution\<close>

definition sample_gold_loads :: "string \<Rightarrow> pyval option" where
  "sample_gold_loads t =
     (if t = ''C'' then Some (PDict [(''topic'', PStr ''t''), (''memories'', PList [PDict [(''id'', PStr ''s'')]])])
      else if t = ''K'' then
        Some (PDict [(''committed'', PList [PDict [(''id'', PStr ''s''), (''submission_hash'', PStr ''h'')]])])
      else if t = ''G'' then
        Some (PDict [(''case_id'', PStr ''x''), (''category'', PStr ''single_hit''), (''query'', PStr ''q''),
                     (''expected_slugs'', PList [PStr ''s'']), (''expect_injection'', PBool True),
                     (''session'', PDict [])])
      else None)"

definition sample_mapping :: resolved_mapping where
  "sample_mapping = \<lparr>rm_resolved_run_id = ''r'', rm_resolved_at = FALLBACK_ISO, rm_org = [],
     rm_cases = [\<lparr>rc_case_id = ''x'', rc_category = ''single_hit'', rc_expected_slugs = [''s''],
                  rc_resolved_cids = [''h''], rc_expect_injection = True\<rparr>]\<rparr>"

lemma sample_resolves:
  "resolve_from_files sample_gold_loads (Some [''G'']) (Some ''C'') (Some ''K'') ''r'' = Inr sample_mapping"
  by code_simp

lemma resolved_gold_is_complete_witness:
  "\<exists>gold. parse_gold sample_gold_loads [] [''G''] = Inr gold \<and> length gold = 1 \<and> list_all gold_case_ok gold"
  using resolved_gold_is_complete [OF sample_resolves] by auto

end
