(* ===== verification/Model_Catalog.thy ===== *)
theory Model_Catalog
  imports Bench_Prelude
begin

text \<open>
  The models a cell can be run on, as \<open>wevibe_bench/config.py\<close> lists them: \<open>WORKER_MODEL_REGISTRY\<close>, the
  aliases of the local proxy, \<open>CLOUD_ORCAROUTER_PROVIDER\<close>, the models of the cloud router by vendor, and
  \<open>RETIRED_MODEL_ALIASES\<close>.
\<close>

record catalog_model =
  mdl_key :: string
  mdl_name :: string
  mdl_reasoning :: bool
  mdl_tool_call :: bool
  mdl_attachment :: bool
  mdl_context :: int
  mdl_output :: int
  mdl_effort :: "string option"

definition catalog ::
  "string \<Rightarrow> string \<Rightarrow> bool \<Rightarrow> bool \<Rightarrow> bool \<Rightarrow> int \<Rightarrow> int \<Rightarrow> string option \<Rightarrow> catalog_model" where
  "catalog key name reasoning tools attachment ctx out effort =
     \<lparr>mdl_key = key, mdl_name = name, mdl_reasoning = reasoning, mdl_tool_call = tools, mdl_attachment = attachment,
      mdl_context = ctx, mdl_output = out, mdl_effort = effort\<rparr>"

section \<open>Local aliases\<close>

definition WORKER_MODEL_REGISTRY :: "catalog_model list" where
  "WORKER_MODEL_REGISTRY = [
      catalog ''wevibe-bench-worker'' ''Local LLM Proxy (auto-resident)'' True True False 262144 16384 None,
      catalog ''qwen3.6-35b-a3b-bench'' ''Qwen3.6 35B-A3B 8bit via Proxy (bench)'' True True False 262144 32768 None,
      catalog ''deepseek-v4-flash-bench'' ''DeepSeek V4 Flash 0731 MXFP4 via Proxy (bench)'' True True False 256512 32768 None,
      catalog ''nemotron-3-nano-30b-bench'' ''Nemotron-3 Nano 30B-A3B 4bit via Proxy (bench)'' True True False 262144 32768 None,
      catalog ''gemma-4-26b-a4b-bench'' ''Gemma 4 26B-A4B QAT 4bit VLM via Proxy (bench)'' True True False 262144 32768 None]"

text \<open>Every local block also declares a temperature and text on both sides.\<close>

definition registry_block :: "catalog_model \<Rightarrow> pydict" where
  "registry_block m =
     [(''name'', PStr (mdl_name m)), (''reasoning'', PBool (mdl_reasoning m)), (''tool_call'', PBool (mdl_tool_call m)),
      (''temperature'', PBool True), (''attachment'', PBool (mdl_attachment m)),
      (''modalities'', PDict [(''input'', PList [PStr ''text'']), (''output'', PList [PStr ''text''])]),
      (''limit'', PDict [(''context'', PInt (mdl_context m)), (''output'', PInt (mdl_output m))])]"

definition RETIRED_MODEL_ALIASES :: "string list" where
  "RETIRED_MODEL_ALIASES = [''wevibe-bench-worker'']"

section \<open>Cloud models\<close>

definition CLOUD_ANTHROPIC :: "catalog_model list" where
  "CLOUD_ANTHROPIC = [
      catalog ''anthropic/claude-fable-5'' ''Claude Fable 5'' True True True 1000000 128000 None,
      catalog ''anthropic/claude-opus-4.6'' ''Claude Opus 4.6'' True True True 1000000 128000 None,
      catalog ''anthropic/claude-opus-4.7'' ''Claude Opus 4.7'' True True True 1000000 128000 None,
      catalog ''anthropic/claude-opus-4.8'' ''Claude Opus 4.8'' True True True 1000000 128000 None,
      catalog ''anthropic/claude-opus-5'' ''Claude Opus 5'' True True True 1000000 128000 (Some ''medium''),
      catalog ''anthropic/claude-sonnet-4.5'' ''Claude Sonnet 4.5'' True True True 1000000 64000 None,
      catalog ''anthropic/claude-sonnet-4.6'' ''Claude Sonnet 4.6'' True True True 1000000 64000 None,
      catalog ''anthropic/claude-sonnet-5'' ''Claude Sonnet 5'' True True True 1000000 128000 None]"

definition CLOUD_DEEPSEEK :: "catalog_model list" where
  "CLOUD_DEEPSEEK = [
      catalog ''deepseek/deepseek-chat'' ''DeepSeek V3'' True True False 1048576 384000 None,
      catalog ''deepseek/deepseek-v4-flash-0731'' ''DeepSeek V4 Flash 0731'' True True False 1048576 384000 None,
      catalog ''deepseek/deepseek-v4-pro-0813'' ''DeepSeek V4 Pro 0813'' True True False 1048576 384000 None]"

definition CLOUD_GOOGLE :: "catalog_model list" where
  "CLOUD_GOOGLE = [
      catalog ''google/gemini-2.5-flash'' ''Gemini 2.5 Flash'' True True True 1048576 65536 None,
      catalog ''google/gemini-2.5-flash-lite'' ''Gemini 2.5 Flash Lite'' True True True 1048576 65536 None,
      catalog ''google/gemini-2.5-pro'' ''Gemini 2.5 Pro'' True True True 1048576 65536 None,
      catalog ''google/gemini-3-flash-preview'' ''Gemini 3 Flash Preview'' True True True 1048576 65536 None,
      catalog ''google/gemini-3.1-flash-lite-preview'' ''Gemini 3.1 Flash Lite Preview'' True True True 1048576 65536 None,
      catalog ''google/gemini-3.1-pro-preview'' ''Gemini 3.1 Pro Preview'' True True True 1048576 65536 None,
      catalog ''google/gemini-3.1-pro-preview-customtools'' ''Gemini 3.1 Pro Preview Custom Tools'' True True True 1048576 65536 None,
      catalog ''google/gemini-3.5-flash'' ''Gemini 3.5 Flash'' True True True 1048576 65536 None,
      catalog ''google/gemini-3.5-flash-lite'' ''Gemini 3.5 Flash-Lite'' True True True 1048576 65536 None,
      catalog ''google/gemini-3.6-flash'' ''Gemini 3.6 Flash'' True True True 1048576 65536 None,
      catalog ''google/gemma-4-26b-a4b-it'' ''Gemma 4 26B A4B'' True True True 262144 65536 None]"

definition CLOUD_GROK :: "catalog_model list" where
  "CLOUD_GROK = [
      catalog ''grok/grok-4.3'' ''grok-4.3'' True True True 1000000 65536 None,
      catalog ''grok/grok-4.5'' ''Grok 4.5'' True True True 500000 65536 None,
      catalog ''grok/grok-4.6'' ''Grok 4.6'' True True True 500000 65536 None]"

definition CLOUD_KIMI :: "catalog_model list" where
  "CLOUD_KIMI = [
      catalog ''kimi/kimi-k2.5'' ''kimi-k2.5'' True True True 262144 32768 None,
      catalog ''kimi/kimi-k2.6'' ''kimi-k2.6'' True True True 262144 32768 None,
      catalog ''kimi/kimi-k2.7-code'' ''Kimi K2.7 Code'' True True True 262144 262144 None,
      catalog ''kimi/kimi-k3'' ''Kimi K3'' True True True 1048576 65536 None]"

definition CLOUD_META :: "catalog_model list" where
  "CLOUD_META = [
      catalog ''meta/muse-spark-1.1'' ''Muse Spark 1.1'' True True True 1048576 65536 None,
      catalog ''meta/muse-spark-1.2'' ''Muse Spark 1.2'' True True True 1048576 65536 None]"

definition CLOUD_MINIMAX :: "catalog_model list" where
  "CLOUD_MINIMAX = [
      catalog ''minimax/minimax-m3'' ''MiniMax M3'' True True True 1048576 512000 None]"

definition CLOUD_OBSIDIAN :: "catalog_model list" where
  "CLOUD_OBSIDIAN = [
      catalog ''obsidian/Qwen3.6-35B-A3B'' ''Qwen3.6 35B A3B Uncensored (Aggressive)'' True True True 262144 65536 None,
      catalog ''obsidian/Qwen3.8-27B'' ''Qwen3.8 27B Uncensored (Aggressive)'' True True True 262144 65536 None,
      catalog ''obsidian/gemma-4-26B-A4B'' ''Gemma4 26B A4B Uncensored (Balanced)'' True True True 262144 65536 None]"

definition CLOUD_OPENAI_45 :: "catalog_model list" where
  "CLOUD_OPENAI_45 = [
      catalog ''openai/gpt-4.1'' ''GPT-4.1'' False True True 1047576 32768 None,
      catalog ''openai/gpt-4.1-2025-04-14'' ''gpt-4.1-2025-04-14'' False True True 1047576 32768 None,
      catalog ''openai/gpt-4.1-mini'' ''GPT-4.1 Mini'' False True True 1047576 32768 None,
      catalog ''openai/gpt-4.1-mini-2025-04-14'' ''gpt-4.1-mini-2025-04-14'' False True True 1047576 32768 None,
      catalog ''openai/gpt-4.1-nano'' ''GPT-4.1 Nano'' False True True 1047576 32768 None,
      catalog ''openai/gpt-4.1-nano-2025-04-14'' ''gpt-4.1-nano-2025-04-14'' False True True 1047576 32768 None,
      catalog ''openai/gpt-5'' ''GPT-5'' True True True 400000 128000 None,
      catalog ''openai/gpt-5-2025-08-07'' ''gpt-5-2025-08-07'' True True True 400000 128000 None,
      catalog ''openai/gpt-5-codex'' ''GPT-5 Codex'' True True True 400000 128000 None,
      catalog ''openai/gpt-5-mini'' ''GPT-5 Mini'' True True True 400000 128000 None,
      catalog ''openai/gpt-5-mini-2025-08-07'' ''gpt-5-mini-2025-08-07'' True True True 400000 128000 None,
      catalog ''openai/gpt-5-nano'' ''GPT-5 Nano'' True True True 400000 128000 None,
      catalog ''openai/gpt-5-nano-2025-08-07'' ''gpt-5-nano-2025-08-07'' True True True 400000 128000 None,
      catalog ''openai/gpt-5-pro'' ''GPT-5 Pro'' True True True 400000 272000 None,
      catalog ''openai/gpt-5-pro-2025-10-06'' ''gpt-5-pro-2025-10-06'' True True True 400000 272000 None]"

definition CLOUD_OPENAI_5X :: "catalog_model list" where
  "CLOUD_OPENAI_5X = [
      catalog ''openai/gpt-5.1'' ''GPT-5.1'' True True True 400000 128000 None,
      catalog ''openai/gpt-5.1-2025-11-13'' ''gpt-5.1-2025-11-13'' True True True 400000 128000 None,
      catalog ''openai/gpt-5.1-codex'' ''GPT-5.1-Codex'' True True True 400000 128000 None,
      catalog ''openai/gpt-5.1-codex-mini'' ''GPT-5.1-Codex-Mini'' True True True 400000 128000 None,
      catalog ''openai/gpt-5.2'' ''GPT-5.2'' True True True 400000 128000 None,
      catalog ''openai/gpt-5.2-2025-12-11'' ''gpt-5.2-2025-12-11'' True True True 400000 128000 None,
      catalog ''openai/gpt-5.2-codex'' ''GPT-5.2-Codex'' True True True 400000 128000 None,
      catalog ''openai/gpt-5.2-pro'' ''GPT-5.2 Pro'' True True True 400000 128000 None,
      catalog ''openai/gpt-5.2-pro-2025-12-11'' ''gpt-5.2-pro-2025-12-11'' True True True 400000 128000 None,
      catalog ''openai/gpt-5.3-codex'' ''GPT-5.3-Codex'' True True True 400000 128000 None,
      catalog ''openai/gpt-5.4'' ''GPT-5.4'' True True True 1050000 128000 None,
      catalog ''openai/gpt-5.4-2026-03-05'' ''gpt-5.4-2026-03-05'' True True True 1050000 128000 None,
      catalog ''openai/gpt-5.4-mini'' ''GPT-5.4 Mini'' True True True 400000 128000 None,
      catalog ''openai/gpt-5.4-nano'' ''GPT-5.4 Nano'' True True True 400000 128000 None,
      catalog ''openai/gpt-5.4-pro'' ''GPT-5.4 Pro'' True True True 1050000 128000 None,
      catalog ''openai/gpt-5.4-pro-2026-03-05'' ''gpt-5.4-pro-2026-03-05'' True True True 1050000 128000 None,
      catalog ''openai/gpt-5.6-luna'' ''GPT-5.6 Luna'' True True True 1050000 128000 None,
      catalog ''openai/gpt-5.6-sol'' ''GPT-5.6 Sol'' True True True 1050000 128000 None,
      catalog ''openai/gpt-5.6-terra'' ''GPT-5.6 Terra'' True True True 1050000 128000 None]"

definition CLOUD_QWEN :: "catalog_model list" where
  "CLOUD_QWEN = [
      catalog ''qwen/qwen3-max'' ''Qwen3 Max'' True True False 262144 65536 None,
      catalog ''qwen/qwen3-max-preview'' ''qwen3-max-preview'' True True False 262144 65536 None,
      catalog ''qwen/qwen3.5-flash'' ''qwen3.5-flash'' True True True 1048576 65536 None,
      catalog ''qwen/qwen3.5-flash-2026-02-23'' ''qwen3.5-flash-2026-02-23'' True True True 1048576 65536 None,
      catalog ''qwen/qwen3.5-plus'' ''qwen3.5-plus'' True True True 1048576 65536 None,
      catalog ''qwen/qwen3.5-plus-2026-02-15'' ''qwen3.5-plus-2026-02-15'' True True True 1048576 65536 None,
      catalog ''qwen/qwen3.6-35b-a3b'' ''Qwen3.6 35B A3B'' True True True 262144 65536 None,
      catalog ''qwen/qwen3.6-flash'' ''Qwen3.6 Flash'' True True True 1048576 65536 None,
      catalog ''qwen/qwen3.6-flash-2026-04-16'' ''qwen3.6-flash-2026-04-16'' True True True 1048576 65536 None,
      catalog ''qwen/qwen3.6-plus'' ''Qwen3.6 Plus'' True True True 1048576 65536 None,
      catalog ''qwen/qwen3.6-plus-2026-04-02'' ''qwen3.6-plus-2026-04-02'' True True True 1048576 65536 None,
      catalog ''qwen/qwen3.7-flash'' ''Qwen3.7 Flash'' True True True 1000000 65536 None,
      catalog ''qwen/qwen3.7-plus'' ''Qwen3.7 Plus'' True True True 1000000 65536 None,
      catalog ''qwen/qwen3.8-27b'' ''Qwen3.8 27B'' True True True 262144 65536 None,
      catalog ''qwen/qwen3.8-27b-free'' ''Qwen3.8 27B (free)'' True True True 262144 65536 None,
      catalog ''qwen/qwen3.8-max'' ''Qwen3.8 Max'' True True True 1000000 65536 None]"

definition CLOUD_TENCENT :: "catalog_model list" where
  "CLOUD_TENCENT = [
      catalog ''tencent/hy3'' ''Hy3'' True True False 262144 65536 None]"

definition CLOUD_Z_AI :: "catalog_model list" where
  "CLOUD_Z_AI = [
      catalog ''z-ai/glm-5.2'' ''GLM 5.2'' True True False 1000000 128000 None]"

definition CLOUD_MODELS :: "catalog_model list" where
  "CLOUD_MODELS = CLOUD_ANTHROPIC
     @ CLOUD_DEEPSEEK
     @ CLOUD_GOOGLE
     @ CLOUD_GROK
     @ CLOUD_KIMI
     @ CLOUD_META
     @ CLOUD_MINIMAX
     @ CLOUD_OBSIDIAN
     @ CLOUD_OPENAI_45
     @ CLOUD_OPENAI_5X
     @ CLOUD_QWEN
     @ CLOUD_TENCENT
     @ CLOUD_Z_AI"

definition cloud_block :: "catalog_model \<Rightarrow> pydict" where
  "cloud_block m =
     [(''name'', PStr (mdl_name m)), (''reasoning'', PBool (mdl_reasoning m)), (''tool_call'', PBool (mdl_tool_call m)),
      (''attachment'', PBool (mdl_attachment m)),
      (''limit'', PDict [(''context'', PInt (mdl_context m)), (''output'', PInt (mdl_output m))])]
     @ (case mdl_effort m of None \<Rightarrow> [] | Some x \<Rightarrow> [(''options'', PDict [(''reasoningEffort'', PStr x)])])"

definition DEFAULT_CLOUD_ROUTER :: string where "DEFAULT_CLOUD_ROUTER = ''orcarouter''"

definition cloud_options :: pydict where
  "cloud_options =
     [(''baseURL'', PStr ''https://api.orcarouter.ai/v1''), (''apiKey'', PStr ''{env:ORCAROUTER_API_KEY}''),
      (''headerTimeout'', PInt 60000), (''chunkTimeout'', PInt 300000), (''timeout'', PInt 900000)]"

section \<open>What the lists promise\<close>

definition find_model :: "string \<Rightarrow> catalog_model list \<Rightarrow> catalog_model option" where
  "find_model k ms = find (\<lambda>m. mdl_key m = k) ms"

text \<open>Enough for a benchmark cell: tools, and no less context than the local aliases are pinned at.\<close>

definition cloud_capable :: "catalog_model \<Rightarrow> bool" where
  "cloud_capable m \<longleftrightarrow> mdl_tool_call m \<and> 262144 \<le> mdl_context m \<and> 0 < mdl_output m \<and> mdl_output m \<le> mdl_context m"

lemmas vendor_defs = CLOUD_ANTHROPIC_def CLOUD_DEEPSEEK_def CLOUD_GOOGLE_def CLOUD_GROK_def CLOUD_KIMI_def CLOUD_META_def CLOUD_MINIMAX_def CLOUD_OBSIDIAN_def CLOUD_OPENAI_45_def CLOUD_OPENAI_5X_def CLOUD_QWEN_def CLOUD_TENCENT_def CLOUD_Z_AI_def

lemma cloud_models_capable: "list_all cloud_capable CLOUD_MODELS"
  by (simp add: CLOUD_MODELS_def vendor_defs catalog_def cloud_capable_def)

lemma cloud_models_count: "length CLOUD_MODELS = 87"
  by (simp add: CLOUD_MODELS_def vendor_defs)

lemma registry_capable: "list_all (\<lambda>m. mdl_tool_call m \<and> 0 < mdl_output m \<and> mdl_output m \<le> mdl_context m) WORKER_MODEL_REGISTRY"
  by (simp add: WORKER_MODEL_REGISTRY_def catalog_def)

lemma find_model_some: "find_model k ms = Some m \<Longrightarrow> m \<in> set ms \<and> mdl_key m = k"
  by (auto simp: find_model_def find_Some_iff)

lemma find_model_none: "find_model k ms = None \<longleftrightarrow> k \<notin> mdl_key ` set ms"
  by (auto simp: find_model_def find_None_iff)

end
