(* ===== verification/Model_Selection.thy ===== *)
theory Model_Selection
  imports Model_Catalog Cumulative_Types
begin

text \<open>
  Which model a campaign measures and what the worker is told of it: the schedule schema, the ladder
  roster and the run configuration of \<open>wevibe_bench/config.py\<close>, the selection of
  \<open>scripts/run_cumulative.py\<close> (\<open>_compose_cloud_slug\<close>, \<open>_apply_model_override\<close>, \<open>_build_roster\<close>) and
  \<open>build_worker_opencode_config\<close> of \<open>adapters/backgammon.py\<close>.  \<open>SystemExit(2)\<close> with its message is
  \<open>Exit_2\<close>; \<open>sha\<close> is SHA-256 over the canonical JSON that \<open>dumps\<close> prints; \<open>casefold\<close> is \<open>lower\<close>.
\<close>

section \<open>The benchmark schedule\<close>

record wave =
  wv_id :: string
  wv_models :: "string list"
  wv_tier :: string
  wv_memory_modes :: "string list"

record schedule =
  sch_waves :: "wave list"
  sch_version :: int

definition VALID_TIERS :: "string list" where
  "VALID_TIERS = [''UNKNOWN'', ''UNORDERED'', ''CEILING'', ''BRACKET'', ''FLOOR'']"

definition validate_wave :: "wave \<Rightarrow> py_exc option" where
  "validate_wave w =
     (if strip (wv_id w) = [] then Some (PyRuntimeError ''wave_id must be non-empty'')
      else if wv_models w = [] then Some (PyRuntimeError ''wave has no models'')
      else if list_ex (\<lambda>m. strip m = []) (wv_models w) then Some (PyRuntimeError ''wave has blank model'')
      else if wv_tier w \<notin> set VALID_TIERS then Some (PyRuntimeError ''wave tier unknown'')
      else if list_ex (\<lambda>m. m \<noteq> ''off'' \<and> m \<noteq> ''on'') (wv_memory_modes w)
      then Some (PyRuntimeError ''wave has unknown memory_mode'')
      else None)"

fun validate_waves :: "string list \<Rightarrow> wave list \<Rightarrow> py_exc option" where
  "validate_waves seen [] = None"
| "validate_waves seen (w # ws) = (case validate_wave w of
     Some x \<Rightarrow> Some x
   | None \<Rightarrow> if wv_id w \<in> set seen then Some (PyRuntimeError ''duplicate wave_id'')
             else validate_waves (wv_id w # seen) ws)"

definition validate_schedule :: "schedule \<Rightarrow> py_exc option" where
  "validate_schedule s =
     (if sch_waves s = [] then Some (PyRuntimeError ''benchmark schedule has no waves'')
      else case validate_waves [] (sch_waves s) of
        Some x \<Rightarrow> Some x
      | None \<Rightarrow> if list_ex (\<lambda>w. ''off'' \<in> set (wv_memory_modes w)) (sch_waves s) then None
                else Some (PyRuntimeError ''benchmark schedule must include off''))"

fun keep_first :: "string list \<Rightarrow> string list \<Rightarrow> string list" where
  "keep_first seen [] = []"
| "keep_first seen (m # ms) = (if m \<in> set seen then keep_first seen ms else m # keep_first (m # seen) ms)"

definition all_models :: "schedule \<Rightarrow> string list" where
  "all_models s = keep_first [] (concat (map wv_models (sch_waves s)))"

definition texts :: "string list \<Rightarrow> pyval" where
  "texts xs = PList (map PStr xs)"

definition wave_to_dict :: "wave \<Rightarrow> pydict" where
  "wave_to_dict w =
     [(''wave_id'', PStr (wv_id w)), (''models'', texts (wv_models w)), (''tier'', PStr (wv_tier w)),
      (''memory_modes'', texts (wv_memory_modes w))]"

definition schedule_to_dict :: "schedule \<Rightarrow> pydict" where
  "schedule_to_dict s =
     [(''schema_version'', PInt (sch_version s)), (''waves'', PList (map (\<lambda>w. PDict (wave_to_dict w)) (sch_waves s)))]"

text \<open>Iterating a value: the items of a list, the characters of a string, the keys of an object.\<close>

fun iterate :: "pyval \<Rightarrow> py_exc + pyval list" where
  "iterate (PList xs) = Inr xs"
| "iterate (PStr s) = Inr (map (\<lambda>c. PStr [c]) s)"
| "iterate (PDict d) = Inr (map (\<lambda>p. PStr (fst p)) d)"
| "iterate _ = Inl PyTypeError"

definition parse_wave :: "(pyval \<Rightarrow> string) \<Rightarrow> pyval \<Rightarrow> py_exc + wave" where
  "parse_wave rp v = (case v of
     PDict d \<Rightarrow>
       bind_result (iterate (dget_default d ''models'' (PList []))) (\<lambda>ms.
       bind_result (iterate (dget_default d ''memory_modes'' (texts [''off'', ''on'']))) (\<lambda>modes.
         let w = \<lparr>wv_id = strip (py_str rp (dget_default d ''wave_id'' (PStr []))),
                  wv_models = map (py_str rp) ms,
                  wv_tier = (if truthy (dget d ''tier'') then py_str rp (dget d ''tier'') else ''UNKNOWN''),
                  wv_memory_modes = map (py_str rp) modes\<rparr>
         in case validate_wave w of Some x \<Rightarrow> Inl x | None \<Rightarrow> Inr w))
   | _ \<Rightarrow> Inl (PyRuntimeError ''each wave must be an object''))"

definition parse_benchmark_schedule :: "(pyval \<Rightarrow> string) \<Rightarrow> pydict \<Rightarrow> py_exc + schedule" where
  "parse_benchmark_schedule rp d = (case dget d ''waves'' of
     PList ws \<Rightarrow>
       bind_result (map_result (parse_wave rp) ws) (\<lambda>waves.
       bind_result (py_int (dget_default d ''schema_version'' (PInt 1))) (\<lambda>v.
         Inr \<lparr>sch_waves = waves, sch_version = v\<rparr>))
   | _ \<Rightarrow> Inl (PyRuntimeError ''waves must be an array''))"

definition schedule_fingerprint :: "(string \<Rightarrow> string) \<Rightarrow> (pyval \<Rightarrow> string) \<Rightarrow> schedule \<Rightarrow> string" where
  "schedule_fingerprint sha dumps s = sha (dumps (PList (map (\<lambda>w. PDict (wave_to_dict w)) (sch_waves s))))"

definition DEFAULT_SCHEDULE :: schedule where
  "DEFAULT_SCHEDULE =
     \<lparr>sch_waves = [\<lparr>wv_id = ''baseline'', wv_models = [''kimi/kimi-k3'', ''kimi/kimi-k2.7-code'', ''tencent/hy3''],
                    wv_tier = ''UNKNOWN'', wv_memory_modes = [''off'', ''on'']\<rparr>], sch_version = 1\<rparr>"

section \<open>The ladder\<close>

record rung =
  rg_model :: string
  rg_role :: string
  rg_memory_modes :: "string list"
  rg_recorded_class :: "string option"

definition SCORED_LADDER_ROSTER :: "rung list" where
  "SCORED_LADDER_ROSTER =
     [\<lparr>rg_model = ''local-llm-proxy/wevibe-bench-worker'', rg_role = ''measure'',
       rg_memory_modes = [''off'', ''on''], rg_recorded_class = None\<rparr>]"

definition roster_fingerprint :: "(string \<Rightarrow> string) \<Rightarrow> (pyval \<Rightarrow> string) \<Rightarrow> rung list option \<Rightarrow> string" where
  "roster_fingerprint sha dumps rungs =
     sha (dumps (PList (map (\<lambda>r. PList [PStr (rg_model r), PStr (rg_role r), texts (rg_memory_modes r),
                                        of_opt PStr (rg_recorded_class r)]) (opt_or rungs SCORED_LADDER_ROSTER))))"

section \<open>Selecting the model\<close>

datatype 'a exit_or = Exit_2 string | Raised py_exc | Ok 'a

record cli_args =
  ar_cloud :: bool
  ar_router :: "string option"
  ar_provider :: "string option"
  ar_model :: "string option"

definition text_arg :: "string option \<Rightarrow> string" where
  "text_arg v = strip (opt_or v [])"

fun split_slash :: "string \<Rightarrow> string \<Rightarrow> string list" where
  "split_slash acc [] = [rev acc]"
| "split_slash acc (c # s) = (if c = CHR ''/'' then rev acc # split_slash [] s else split_slash (c # acc) s)"

definition provider_pin_from_model :: "string \<Rightarrow> py_exc + string" where
  "provider_pin_from_model m = (case filter (\<lambda>p. p \<noteq> []) (split_slash [] m) of
     [] \<Rightarrow> Inl PyValueError
   | [p] \<Rightarrow> Inr p
   | p # q # _ \<Rightarrow> Inr (if p = ''local-llm-proxy'' then q else p))"

text \<open>An empty \<open>--router\<close> is replaced by the default before it is stripped, a blank one is not.\<close>

definition compose_cloud_slug :: "cli_args \<Rightarrow> string option exit_or" where
  "compose_cloud_slug a =
     (if \<not> ar_cloud a then Ok None
      else let router = strip (case ar_router a of Some r \<Rightarrow> if r = [] then DEFAULT_CLOUD_ROUTER else r
                                 | None \<Rightarrow> DEFAULT_CLOUD_ROUTER);
               provider = text_arg (ar_provider a); model = text_arg (ar_model a) in
        if provider = [] \<or> model = [] then Exit_2 ''--cloud requires --provider and --model''
        else let key = provider @ ''/'' @ model in
          if find_model key CLOUD_MODELS = None then Exit_2 ''not in the OrcaRouter provider block''
          else Ok (Some (router @ ''/'' @ key)))"

definition remove_proxy_prefix :: "string \<Rightarrow> string" where
  "remove_proxy_prefix s = (if starts_with s ''local-llm-proxy/'' then drop (length ''local-llm-proxy/'') s else s)"

definition apply_model_override :: "string list \<Rightarrow> string option \<Rightarrow> string option \<Rightarrow> string list exit_or" where
  "apply_model_override slugs model_override cloud_slug = (case cloud_slug of
     Some c \<Rightarrow> if length slugs \<noteq> 1 then Exit_2 ''--cloud override requires a single-subject roster'' else Ok [c]
   | None \<Rightarrow>
       (let alias = remove_proxy_prefix (text_arg model_override) in
        if text_arg model_override = [] then Exit_2 ''--model is required''
        else if alias \<in> set RETIRED_MODEL_ALIASES then Exit_2 ''retired''
        else if find_model alias WORKER_MODEL_REGISTRY = None then Exit_2 ''not a known worker model alias''
        else if length slugs \<noteq> 1 then Exit_2 ''--model override requires a single-subject roster''
        else Ok [''local-llm-proxy/'' @ alias]))"

definition entry_of :: "string \<Rightarrow> string \<Rightarrow> pydict \<Rightarrow> py_exc + roster_entry" where
  "entry_of model role ident =
     bind_result (provider_pin_from_model model) (\<lambda>pin.
       Inr \<lparr>re_model = model, re_role = role, re_provider_pin = pin, re_config_identity = ident\<rparr>)"

definition rung_entry :: "rung \<Rightarrow> py_exc + roster_entry" where
  "rung_entry r = entry_of (rg_model r) (rg_role r)
     [(''memory_modes'', texts (rg_memory_modes r)), (''recorded_class'', of_opt PStr (rg_recorded_class r))]"

definition build_roster :: "string option \<Rightarrow> string option \<Rightarrow> string option \<Rightarrow> roster_entry list exit_or" where
  "build_roster roster_model model_override cloud_slug =
     (case map_result rung_entry SCORED_LADDER_ROSTER of
        Inl x \<Rightarrow> Raised x
      | Inr entries \<Rightarrow>
          (let marker = lower (text_arg roster_model);
               kept = (if text_arg roster_model = [] then entries
                       else filter (\<lambda>e. contains (lower (re_model e)) marker) entries) in
           if text_arg roster_model \<noteq> [] \<and> kept = [] then Exit_2 ''--roster-model filter matched zero roster entries''
           else if kept = [] then Raised (PyRuntimeError ''roster resolved empty'')
           else case apply_model_override (map re_model kept) model_override cloud_slug of
             Exit_2 m \<Rightarrow> Exit_2 m
           | Raised x \<Rightarrow> Raised x
           | Ok slugs \<Rightarrow>
               (if slugs = map re_model kept then Ok kept
                else case map_result (\<lambda>(e, slug). entry_of slug (re_role e) (re_config_identity e)) (zip kept slugs) of
                  Inl x \<Rightarrow> Raised x | Inr r \<Rightarrow> Ok r)))"

section \<open>The worker's configuration\<close>

definition permission_block :: "string \<Rightarrow> string \<Rightarrow> pydict" where
  "permission_block gates_dir golden_dir =
     [(''*'', PStr ''allow''),
      (''external_directory'', PDict [(''*'', PStr ''deny'')]),
      (''bash'', PDict [(''*'', PStr ''allow''), (''*'' @ gates_dir @ ''*'', PStr ''deny''),
                        (''*'' @ golden_dir @ ''*'', PStr ''deny''), (''*report.mjs*'', PStr ''deny''),
                        (''*run.mjs*'', PStr ''deny'')]),
      (''edit'', PDict [(''*'', PStr ''allow''), (''*opencode.json'', PStr ''deny'')]),
      (''doom_loop'', PStr ''deny''), (''question'', PStr ''deny''), (''task'', PStr ''deny'')]"

definition base_config :: "string \<Rightarrow> string \<Rightarrow> string \<Rightarrow> pydict" where
  "base_config model gates_dir golden_dir =
     [([CHR 0x24] @ ''schema'', PStr ''https://opencode.ai/config.json''), (''model'', PStr model),
      (''small_model'', PStr model), (''permission'', PDict (permission_block gates_dir golden_dir))]"

definition with_base_url :: "string option \<Rightarrow> pydict \<Rightarrow> pydict" where
  "with_base_url url opts = (case url of None \<Rightarrow> opts | Some u \<Rightarrow> AList.update ''baseURL'' (PStr u) opts)"

definition cloud_provider :: "string option \<Rightarrow> pydict" where
  "cloud_provider url =
     [(''npm'', PStr ''@ai-sdk/openai-compatible''), (''name'', PStr ''OrcaRouter''),
      (''options'', PDict (with_base_url url cloud_options)),
      (''models'', PDict (map (\<lambda>m. (mdl_key m, PDict (cloud_block m))) CLOUD_MODELS))]"

definition local_model_block :: "catalog_model \<Rightarrow> string option \<Rightarrow> string option \<Rightarrow> pydict" where
  "local_model_block m reasoning_effort session_id =
     registry_block m @ [(''interleaved'', PDict [(''field'', PStr ''reasoning_content'')])]
     @ (case session_id of Some s \<Rightarrow> if s = [] then [] else [(''headers'', PDict [(''X-Session-Id'', PStr s)])] | None \<Rightarrow> [])
     @ (case reasoning_effort of None \<Rightarrow> []
        | Some x \<Rightarrow> [(''options'', PDict [(''reasoning'', PDict [(''effort'', PStr x)])])])"

definition build_worker_opencode_config ::
  "string \<Rightarrow> string option \<Rightarrow> string option \<Rightarrow> string \<Rightarrow> string \<Rightarrow> string option \<Rightarrow> py_exc + pydict" where
  "build_worker_opencode_config model reasoning_effort url gates_dir golden_dir session_id =
     (let config = base_config model gates_dir golden_dir;
          (provider_id, _, model_id) = partition_char (CHR ''/'') model in
      if provider_id = [] \<or> model_id = [] then Inr config
      else if provider_id \<noteq> ''local-llm-proxy'' then
        Inr (config @ [(''provider'', PDict [(provider_id, PDict (cloud_provider url))])])
      else case find_model model_id WORKER_MODEL_REGISTRY of
        None \<Rightarrow> Inl PyValueError
      | Some m \<Rightarrow>
          Inr (config @ [(''provider'', PDict [(provider_id, PDict
             [(''options'', PDict (with_base_url url [(''apiKey'', PStr ''{env:LOCAL_LLM_PROXY_API_KEY}'')])),
              (''models'', PDict [(model_id, PDict (local_model_block m reasoning_effort session_id))])])])]))"

section \<open>What the selection guarantees\<close>

definition router_of :: "cli_args \<Rightarrow> string" where
  "router_of a = strip (case ar_router a of Some r \<Rightarrow> if r = [] then DEFAULT_CLOUD_ROUTER else r
                          | None \<Rightarrow> DEFAULT_CLOUD_ROUTER)"

definition declared_model :: "pydict \<Rightarrow> string \<Rightarrow> string \<Rightarrow> pyval" where
  "declared_model c provider m =
     dget (dict_or_empty (dget (dict_or_empty (dget (dict_or_empty (dget c ''provider'')) provider)) ''models'')) m"

lemma find_model_dget:
  "find_model k ms = Some m \<Longrightarrow> dget (map (\<lambda>x. (mdl_key x, PDict (f x))) ms) k = PDict (f m)"
  by (induction ms) (auto simp: find_model_def split: if_splits)

lemma split_slash_nonempty: "split_slash acc s \<noteq> []"
  by (induction s arbitrary: acc) auto

lemma split_slash_no_slash: "CHR ''/'' \<notin> set s \<Longrightarrow> split_slash acc s = [rev acc @ s]"
  by (induction s arbitrary: acc) auto

lemma split_slash_first:
  "CHR ''/'' \<notin> set p \<Longrightarrow> split_slash acc (p @ ''/'' @ s) = (rev acc @ p) # split_slash [] s"
  by (induction p arbitrary: acc) auto

lemma partition_char_first:
  "CHR ''/'' \<notin> set p \<Longrightarrow> partition_char (CHR ''/'') (p @ ''/'' @ s) = (p, True, s)"
  by (induction p) (auto simp: partition_char_def split: list.splits)

lemma split_slash_parts:
  "s \<noteq> [] \<Longrightarrow> hd s \<noteq> CHR ''/'' \<Longrightarrow> \<exists>q r. split_slash [] s = q # r \<and> q \<noteq> []"
proof (cases s)
  case (Cons c t)
  assume "hd s \<noteq> CHR ''/''"
  have part: "\<exists>q r. split_slash acc t = q # r \<and> length acc \<le> length q" for acc
    by (induction t arbitrary: acc) (fastforce split: if_splits dest: Suc_leD)+
  obtain q r where "split_slash [c] t = q # r" "length [c] \<le> length q" using part by blast
  then show ?thesis using Cons \<open>hd s \<noteq> CHR ''/''\<close> by (auto dest: length_greater_0_conv [THEN iffD1, rotated])
qed simp

lemma cloud_pin:
  assumes "CHR ''/'' \<notin> set p" "p \<noteq> []" "p \<noteq> ''local-llm-proxy''"
  shows "provider_pin_from_model (p @ ''/'' @ s) = Inr p"
  using assms by (auto simp: provider_pin_from_model_def split_slash_first [of p "[]" s, simplified] split: list.splits)

lemma registry_keys_plain:
  "list_all (\<lambda>m. mdl_key m \<noteq> [] \<and> CHR ''/'' \<notin> set (mdl_key m)) WORKER_MODEL_REGISTRY"
  by (simp add: WORKER_MODEL_REGISTRY_def catalog_def)

lemma local_pin:
  assumes "CHR ''/'' \<notin> set s" "s \<noteq> []"
  shows "provider_pin_from_model (''local-llm-proxy/'' @ s) = Inr s"
  using assms split_slash_first [of "''local-llm-proxy''" "[]" s]
  by (auto simp: provider_pin_from_model_def split_slash_no_slash)

lemma roster_of_rungs:
  "\<exists>e. map_result rung_entry SCORED_LADDER_ROSTER = Inr [e] \<and> re_role e = ''measure'' \<and>
       re_model e = ''local-llm-proxy/wevibe-bench-worker''"
  by (simp add: SCORED_LADDER_ROSTER_def rung_entry_def entry_of_def provider_pin_from_model_def)

lemma find_model_ex:
  "find_model k ms \<noteq> None \<Longrightarrow> \<exists>m. m \<in> set ms \<and> mdl_key m = k \<and> find_model (mdl_key m) ms = Some m"
  using find_model_some by fastforce

lemma override_ok:
  "apply_model_override slugs mo cs = Ok r \<Longrightarrow> length slugs = 1 \<and> (case cs of Some c \<Rightarrow> r = [c]
     | None \<Rightarrow> \<exists>m. m \<in> set WORKER_MODEL_REGISTRY \<and> mdl_key m \<notin> set RETIRED_MODEL_ALIASES \<and>
                   find_model (mdl_key m) WORKER_MODEL_REGISTRY = Some m \<and> r = [''local-llm-proxy/'' @ mdl_key m])"
  by (auto simp: apply_model_override_def Let_def simp del: not_None_eq split: option.splits if_splits
      dest!: find_model_ex)

lemma cloud_slug_ok:
  "compose_cloud_slug a = Ok cs \<Longrightarrow> (if ar_cloud a
     then \<exists>m. find_model (mdl_key m) CLOUD_MODELS = Some m \<and> cs = Some (router_of a @ ''/'' @ mdl_key m) else cs = None)"
  by (auto simp: compose_cloud_slug_def router_of_def Let_def simp del: not_None_eq split: if_splits option.splits
      dest!: find_model_ex)

lemma cloud_config:
  assumes "CHR ''/'' \<notin> set p" "p \<noteq> []" "p \<noteq> ''local-llm-proxy''" "find_model k CLOUD_MODELS = Some m" "k \<noteq> []"
  shows "\<exists>c. build_worker_opencode_config (p @ ''/'' @ k) effort url gates golden sid = Inr c \<and>
             dget c ''model'' = PStr (p @ ''/'' @ k) \<and> declared_model c p k = PDict (cloud_block m)"
proof -
  have "partition_char (CHR ''/'') (p @ ''/'' @ k) = (p, True, k)" by (rule partition_char_first [OF assms(1)])
  then show ?thesis using assms(2,3,5) find_model_dget [OF assms(4), of cloud_block]
    by (simp add: build_worker_opencode_config_def base_config_def declared_model_def cloud_provider_def)
qed

lemma local_config:
  assumes "find_model k WORKER_MODEL_REGISTRY = Some m" "k \<noteq> []"
  shows "\<exists>c. build_worker_opencode_config (''local-llm-proxy/'' @ k) effort url gates golden sid = Inr c \<and>
             dget c ''model'' = PStr (''local-llm-proxy/'' @ k) \<and>
             declared_model c ''local-llm-proxy'' k = PDict (local_model_block m effort sid)"
proof -
  have "partition_char (CHR ''/'') (''local-llm-proxy/'' @ k) = (''local-llm-proxy'', True, k)"
    using partition_char_first [of "''local-llm-proxy''" k] by simp
  then show ?thesis using assms
    by (simp add: build_worker_opencode_config_def base_config_def declared_model_def)
qed

lemma cloud_keys_plain: "list_all (\<lambda>m. mdl_key m \<noteq> []) CLOUD_MODELS"
  by (simp add: CLOUD_MODELS_def vendor_defs catalog_def)

lemma roster_ok:
  assumes "build_roster rm mo cs = Ok r"
  shows "\<exists>e slug. r = [e] \<and> re_role e = ''measure'' \<and> apply_model_override [''local-llm-proxy/wevibe-bench-worker''] mo cs = Ok [slug] \<and>
     re_model e = slug \<and> provider_pin_from_model slug = Inr (re_provider_pin e)"
proof -
  obtain e where e: "map_result rung_entry SCORED_LADDER_ROSTER = Inr [e]" "re_role e = ''measure''"
      "re_model e = ''local-llm-proxy/wevibe-bench-worker''" using roster_of_rungs by blast
  have pin: "provider_pin_from_model (re_model e) = Inr (re_provider_pin e)"
    using e(1) by (auto simp: SCORED_LADDER_ROSTER_def rung_entry_def entry_of_def provider_pin_from_model_def)
  obtain slugs where slugs: "apply_model_override [re_model e] mo cs = Ok slugs"
    using assms e by (auto simp: build_roster_def Let_def split: if_splits exit_or.splits)
  then obtain slug where one: "slugs = [slug]" using override_ok [OF slugs] by (auto split: option.splits)
  show ?thesis using assms e pin slugs one
    by (auto simp: build_roster_def Let_def entry_of_def result_simps split: if_splits sum.splits)
qed


definition demo_args :: cli_args where
  "demo_args = \<lparr>ar_cloud = True, ar_router = None, ar_provider = Some ''tencent'', ar_model = Some ''hy3 ''\<rparr>"


section \<open>Schedules read back\<close>

lemma map_result_py_str: "map (py_str rp) (map PStr xs) = xs"
  by (induction xs) auto

lemma parse_wave_to_dict:
  assumes "validate_wave w = None" "strip (wv_id w) = wv_id w"
  shows "parse_wave rp (PDict (wave_to_dict w)) = Inr w"
proof -
  have "wv_tier w \<noteq> []" using assms(1) by (auto simp: validate_wave_def VALID_TIERS_def split: if_splits)
  moreover have "py_str rp \<circ> PStr = id" by (rule ext) simp
  ultimately show ?thesis using assms
    by (cases w) (simp add: parse_wave_def wave_to_dict_def texts_def Let_def map_result_py_str)
qed

lemma parse_waves_to_dict:
  "list_all (\<lambda>w. validate_wave w = None \<and> strip (wv_id w) = wv_id w) ws \<Longrightarrow>
   map_result (parse_wave rp) (map (\<lambda>w. PDict (wave_to_dict w)) ws) = Inr ws"
  by (induction ws) (auto simp: parse_wave_to_dict)

text \<open>A schedule whose waves are each valid and whose ids carry no outer blanks is read back unchanged from
  its JSON object, and so keeps its fingerprint; this needs nothing of the schedule as a whole: the parser never
  runs \<open>BenchmarkSchedule.validate\<close>, so a schedule with no waves, a repeated id or no arm without memory is
  accepted although its own validation refuses it.\<close>

theorem schedule_is_read_back:
  assumes "list_all (\<lambda>w. validate_wave w = None \<and> strip (wv_id w) = wv_id w) (sch_waves s)"
  shows "parse_benchmark_schedule rp (schedule_to_dict s) = Inr s"
  using parse_waves_to_dict [OF assms, of rp]
  by (simp add: parse_benchmark_schedule_def schedule_to_dict_def)

definition twice_schedule :: schedule where
  "twice_schedule = \<lparr>sch_waves = sch_waves DEFAULT_SCHEDULE @ sch_waves DEFAULT_SCHEDULE, sch_version = 1\<rparr>"

theorem schedule_is_read_back_witness:
  "parse_benchmark_schedule (\<lambda>_. []) (schedule_to_dict twice_schedule) = Inr twice_schedule \<and>
   validate_schedule DEFAULT_SCHEDULE = None \<and>
   validate_schedule twice_schedule = Some (PyRuntimeError ''duplicate wave_id'')"
proof -
  have ok: "list_all (\<lambda>w. validate_wave w = None \<and> strip (wv_id w) = wv_id w) (sch_waves twice_schedule)"
    by code_simp
  moreover have "validate_schedule DEFAULT_SCHEDULE = None" by code_simp
  moreover have "validate_schedule twice_schedule = Some (PyRuntimeError ''duplicate wave_id'')" by code_simp
  ultimately show ?thesis using schedule_is_read_back [OF ok] by blast
qed

end
