(* ===== verification/Feedback_Text.thy ===== *)
theory Feedback_Text
  imports Bench_Prelude "HOL-Library.List_Lexorder"
begin

text \<open>
  What the model is told: the composers of the messages that \<open>BackgammonRunner\<close>
  (\<open>wevibe_bench/adapters/backgammon.py\<close>) sends after an attempt (\<open>_humanize_check\<close>, \<open>_sanitize_observed\<close>,
  \<open>_build_pass_verdict\<close>, \<open>_build_feedback_prompt\<close>), the prompts of the first pass (\<open>_load_chunk_prompts\<close>)
  and the memory block of \<open>adapters/_memory_format.py\<close>.  The messages hold dashes and ellipses outside the
  8-bit characters, so text is a list of Unicode code points here; a regular expression is the function that
  removes its leftmost, greedy match, backtracking where the engine would.
\<close>

section \<open>Text\<close>

type_synonym utext = "nat list"

definition asc :: "string \<Rightarrow> utext" where "asc s = map of_char s"

definition EM_DASH :: nat where "EM_DASH = 8212"
definition EN_DASH :: nat where "EN_DASH = 8211"
definition ELLIPSIS :: nat where "ELLIPSIS = 8230"
definition NEWLINE :: nat where "NEWLINE = 10"
definition BLANK :: nat where "BLANK = 32"
definition SLASH :: nat where "SLASH = 47"
definition HYPHEN :: nat where "HYPHEN = 45"

lemmas code_points = EM_DASH_def EN_DASH_def ELLIPSIS_def NEWLINE_def BLANK_def SLASH_def HYPHEN_def

text \<open>\<open>str.isspace\<close>, which is also the class \<open>\s\<close> of a pattern over \<open>str\<close>.\<close>

definition is_blank :: "nat \<Rightarrow> bool" where
  "is_blank c \<longleftrightarrow> 9 \<le> c \<and> c \<le> 13 \<or> 28 \<le> c \<and> c \<le> 32 \<or> c = 133 \<or> c = 160 \<or> c = 5760
     \<or> 8192 \<le> c \<and> c \<le> 8202 \<or> c = 8232 \<or> c = 8233 \<or> c = 8239 \<or> c = 8287 \<or> c = 12288"

definition is_upper :: "nat \<Rightarrow> bool" where "is_upper c \<longleftrightarrow> 65 \<le> c \<and> c \<le> 90"
definition is_decimal :: "nat \<Rightarrow> bool" where "is_decimal c \<longleftrightarrow> 48 \<le> c \<and> c \<le> 57"
definition is_dash :: "nat \<Rightarrow> bool" where "is_dash c \<longleftrightarrow> c = EM_DASH \<or> c = EN_DASH \<or> c = HYPHEN"
definition is_req_char :: "nat \<Rightarrow> bool" where "is_req_char c \<longleftrightarrow> is_upper c \<or> is_decimal c \<or> c = HYPHEN"

definition skip_blanks :: "utext \<Rightarrow> utext" where "skip_blanks t = dropWhile is_blank t"

definition trim_end :: "utext \<Rightarrow> utext" where "trim_end t = rev (dropWhile is_blank (rev t))"

definition trim :: "utext \<Rightarrow> utext" where "trim t = trim_end (skip_blanks t)"

fun words_acc :: "utext \<Rightarrow> utext \<Rightarrow> utext list" where
  "words_acc w [] = (if w = [] then [] else [rev w])"
| "words_acc w (c # t) = (if is_blank c then (if w = [] then words_acc [] t else rev w # words_acc [] t)
                          else words_acc (c # w) t)"

text \<open>\<open>str.split()\<close> and \<open>" ".join\<close>.\<close>

definition words :: "utext \<Rightarrow> utext list" where "words t = words_acc [] t"

fun join_with :: "utext \<Rightarrow> utext list \<Rightarrow> utext" where
  "join_with sep [] = []"
| "join_with sep [t] = t"
| "join_with sep (t # u # ts) = t @ sep @ join_with sep (u # ts)"

definition unwords :: "utext list \<Rightarrow> utext" where "unwords ws = join_with [BLANK] ws"

definition has_prefix :: "utext \<Rightarrow> utext \<Rightarrow> bool" where
  "has_prefix p t \<longleftrightarrow> take (length p) t = p"

text \<open>\<open>t.split(pat, 1)[0]\<close> and \<open>t.replace(pat, "")\<close>, for a pattern that is not empty.\<close>

fun before :: "utext \<Rightarrow> utext \<Rightarrow> utext" where
  "before pat [] = []"
| "before pat (c # t) = (if has_prefix pat (c # t) then [] else c # before pat t)"

fun remove_all :: "utext \<Rightarrow> utext \<Rightarrow> utext" where
  "remove_all pat [] = []"
| "remove_all pat (c # t) =
     (if has_prefix pat (c # t) then remove_all pat (drop (length pat - 1) t) else c # remove_all pat t)"

definition first_line :: "utext \<Rightarrow> utext" where "first_line t = before [NEWLINE] t"

text \<open>\<open>t.rsplit(" ", 1)[0]\<close>: all of a text without a blank.\<close>

definition before_last_blank :: "utext \<Rightarrow> utext" where
  "before_last_blank t =
     (if BLANK \<in> set t then rev (tl (dropWhile (\<lambda>c. c \<noteq> BLANK) (rev t))) else t)"

definition clip :: "nat \<Rightarrow> utext \<Rightarrow> utext" where
  "clip n t = (if n < length t then before_last_blank (take n t) @ [ELLIPSIS] else t)"

section \<open>A gate's name in the voice of a person\<close>

text \<open>\<open>^\s*(?:conformance|backend|frontend):\<close>\<close>

definition drop_phase :: "utext \<Rightarrow> utext" where
  "drop_phase t = (let s = skip_blanks t in
     if has_prefix (asc ''conformance:'') s then drop 12 s
     else if has_prefix (asc ''backend:'') s then drop 8 s
     else if has_prefix (asc ''frontend:'') s then drop 9 s else t)"

text \<open>\<open>^\s*\[[A-Z]+[0-9]*\]\s*\<close>: the classes are disjoint, so the match is unique.\<close>

definition drop_gate_token :: "utext \<Rightarrow> utext" where
  "drop_gate_token t = (case skip_blanks t of
     [] \<Rightarrow> t
   | c # r \<Rightarrow>
       (let r1 = dropWhile is_upper r; r2 = dropWhile is_decimal r1 in
        if c = 91 \<and> takeWhile is_upper r \<noteq> [] \<and> r2 \<noteq> [] \<and> hd r2 = 93 then skip_blanks (tl r2) else t))"

text \<open>The longest non-empty run of at most \<open>n\<close> characters after which the rest of the pattern matches.\<close>

fun longest :: "nat \<Rightarrow> (utext \<Rightarrow> utext option) \<Rightarrow> utext \<Rightarrow> utext option" where
  "longest 0 k t = None"
| "longest (Suc n) k t = (case k (drop (Suc n) t) of Some r \<Rightarrow> Some r | None \<Rightarrow> longest n k t)"

text \<open>\<open>^\s*REQ-[A-Z0-9-]+(?:/\S+)?\s*[\<close>em dash, en dash or hyphen\<open>]\s*\<close>\<close>

definition dash_rest :: "utext \<Rightarrow> utext option" where
  "dash_rest t = (case skip_blanks t of [] \<Rightarrow> None | c # r \<Rightarrow> if is_dash c then Some (skip_blanks r) else None)"

definition slash_rest :: "utext \<Rightarrow> utext option" where
  "slash_rest t = (case t of
     [] \<Rightarrow> dash_rest t
   | c # r \<Rightarrow>
       if c = SLASH
       then (case longest (length (takeWhile (\<lambda>x. \<not> is_blank x) r)) dash_rest r of
               Some q \<Rightarrow> Some q | None \<Rightarrow> dash_rest t)
       else dash_rest t)"

definition drop_req :: "utext \<Rightarrow> utext" where
  "drop_req t = (let s = skip_blanks t; r = drop 4 s in
     if has_prefix (asc ''REQ-'') s
     then (case longest (length (takeWhile is_req_char r)) slash_rest r of Some q \<Rightarrow> q | None \<Rightarrow> t)
     else t)"

definition humanize_check :: "utext \<Rightarrow> utext" where
  "humanize_check check = (let t = unwords (words (drop_req (drop_gate_token (drop_phase (trim check)))))
     in if t = [] then unwords (words check) else t)"

section \<open>A line of evidence\<close>

text \<open>\<open>(?:file://)?/\S+\<close>, every match removed.\<close>

definition path_match :: "utext \<Rightarrow> utext option" where
  "path_match t =
     (let s = (if has_prefix (asc ''file:///'') t then drop 7 t else t) in
      case s of c # d # r \<Rightarrow> if c = SLASH \<and> \<not> is_blank d then Some r else None | _ \<Rightarrow> None)"

fun remove_paths_from :: "nat \<Rightarrow> utext \<Rightarrow> utext" where
  "remove_paths_from n [] = []"
| "remove_paths_from 0 (c # t) = []"
| "remove_paths_from (Suc n) (c # t) = (case path_match (c # t) of
     Some r \<Rightarrow> remove_paths_from n (dropWhile (\<lambda>x. \<not> is_blank x) r)
   | None \<Rightarrow> c # remove_paths_from n t)"

text \<open>Every step takes a character, so the length of the text is enough steps.\<close>

definition remove_paths :: "utext \<Rightarrow> utext" where "remove_paths t = remove_paths_from (length t) t"

definition quoted :: "utext \<Rightarrow> utext" where
  "quoted observed =
     unwords (words (trim (remove_all (asc ''AssertionError:'')
       (remove_paths (before (asc '' // '') (first_line observed))))))"

definition sanitize_observed :: "nat \<Rightarrow> utext \<Rightarrow> utext" where
  "sanitize_observed limit observed =
     (let t = quoted observed in if limit < length t then trim_end (take limit t) @ [ELLIPSIS] else t)"

section \<open>The messages\<close>

definition number :: "nat \<Rightarrow> utext" where "number n = asc (digits_of_nat n)"

fun fresh_labels :: "utext list \<Rightarrow> utext list \<Rightarrow> utext list" where
  "fresh_labels seen [] = []"
| "fresh_labels seen (l # ls) =
     (if l = [] \<or> l \<in> set seen then fresh_labels seen ls else l # fresh_labels (l # seen) ls)"

definition pass_label :: "utext \<Rightarrow> utext" where
  "pass_label item = clip 80 (humanize_check (first_line item))"

definition build_pass_verdict :: "utext list \<Rightarrow> utext" where
  "build_pass_verdict passing_checks =
     (let ls = fresh_labels [] (map pass_label passing_checks) in
      case ls of
        [] \<Rightarrow> []
      | [l] \<Rightarrow> asc ''That fixed it '' @ [EM_DASH] @ asc '' '' @ l @ asc '' works now.''
      | _ \<Rightarrow>
          asc ''That fixed it '' @ [EM_DASH] @ asc '' '' @ join_with (asc '', '') (take 3 ls)
          @ (if 3 < length ls then asc '' and '' @ number (length ls - 3) @ asc '' more'' else [])
          @ asc '' all pass now.'')"

record problem =
  pb_check :: utext
  pb_expected :: utext
  pb_observed :: utext

definition feedback_header :: "bool \<Rightarrow> utext" where
  "feedback_header had_pass =
     asc (if had_pass then ''The rest are still failing '' else ''These are still failing '')
     @ [EM_DASH] @ asc '' fix the implementation so they pass. Do not explain, just edit the code.''"

definition problem_label :: "problem \<Rightarrow> utext" where
  "problem_label p = (let raw = trim (pb_check p) in
     if raw = [] then [] else clip 120 (humanize_check (first_line raw)))"

definition evidence :: "utext list \<Rightarrow> problem \<Rightarrow> utext" where
  "evidence repeats p =
     (if trim (pb_check p) \<in> set repeats \<and> sanitize_observed 160 (pb_observed p) \<noteq> []
      then asc '' '' @ [EM_DASH] @ asc '' I'' @ [39] @ asc ''m still seeing: '' @ sanitize_observed 160 (pb_observed p)
      else [])"

definition problem_line :: "utext list \<Rightarrow> problem \<Rightarrow> utext" where
  "problem_line repeats p = asc ''- '' @ problem_label p @ asc '': FAILING'' @ evidence repeats p"

text \<open>One line for each label, the first time it comes up.\<close>

fun fresh_problems :: "utext list \<Rightarrow> problem list \<Rightarrow> problem list" where
  "fresh_problems seen [] = []"
| "fresh_problems seen (p # ps) =
     (if problem_label p = [] \<or> problem_label p \<in> set seen then fresh_problems seen ps
      else p # fresh_problems (problem_label p # seen) ps)"

definition feedback_lines :: "utext list \<Rightarrow> problem list \<Rightarrow> utext list" where
  "feedback_lines repeats ps = (case map (problem_line repeats) (fresh_problems [] ps) of
     [] \<Rightarrow> [asc ''- something is still broken but the checks came back empty: FAILING'']
   | ls \<Rightarrow> ls)"

definition build_feedback_prompt :: "bool \<Rightarrow> utext list \<Rightarrow> problem list \<Rightarrow> utext" where
  "build_feedback_prompt had_pass repeats ps =
     join_with [NEWLINE] (feedback_header had_pass # [] # feedback_lines repeats ps)"

text \<open>Which gates newly pass and which fail again, from the failed gates of the last two attempts; without a
  second attempt there is nothing to compare.\<close>

definition passing_checks :: "utext list list \<Rightarrow> utext list" where
  "passing_checks reports = (case rev reports of
     now # prev # _ \<Rightarrow> sorted_set (filter (\<lambda>g. g \<notin> set now) prev) | _ \<Rightarrow> [])"

definition repeat_checks :: "utext list list \<Rightarrow> utext list" where
  "repeat_checks reports = (case rev reports of
     now # prev # _ \<Rightarrow> filter (\<lambda>g. g \<in> set now) prev | _ \<Rightarrow> [])"

definition compose_feedback :: "utext list list \<Rightarrow> problem list \<Rightarrow> utext" where
  "compose_feedback reports ps =
     build_feedback_prompt (passing_checks reports \<noteq> []) (repeat_checks reports) ps"

section \<open>The prompts of the first pass\<close>

record memory =
  mm_text :: utext
  mm_cid :: "utext option"
  mm_keywords :: "utext list"

definition has_content :: "memory \<Rightarrow> bool" where "has_content m \<longleftrightarrow> trim (mm_text m) \<noteq> []"

text \<open>\<open>re.sub(r"\s+", " ", t.strip())\<close> is \<open>" ".join(t.split())\<close>.\<close>

definition memory_line :: "nat \<times> memory \<Rightarrow> utext" where
  "memory_line im =
     asc ''- m'' @ number (Suc (fst im)) @ asc '' cid=''
     @ (case mm_cid (snd im) of Some c \<Rightarrow> if c = [] then asc ''unknown'' else c | None \<Rightarrow> asc ''unknown'')
     @ asc '' kw='' @ (if mm_keywords (snd im) = [] then asc ''none'' else join_with (asc '','') (mm_keywords (snd im)))
     @ asc '' text='' @ unwords (words (mm_text (snd im)))"

definition format_memory :: "memory list \<Rightarrow> utext" where
  "format_memory ms = (let kept = filter has_content ms in
     if kept = [] then []
     else join_with [NEWLINE] (asc ''# WEVIBE MEMORY CONTEXT'' # asc ''# Read-only context loaded via aider --read''
            # map memory_line (enumerate 0 kept)) @ [NEWLINE])"

text \<open>The prompt files are \<open>None\<close> without a directory, each a name that matches \<open>chunk-*.md\<close> with its text; the
  protocol is \<open>None\<close> without its file.\<close>

definition chunk_texts :: "(utext \<times> utext) list option \<Rightarrow> py_exc + utext list" where
  "chunk_texts files = (case files of
     None \<Rightarrow> Inl (PyRuntimeError ''chunked prompts directory missing'')
   | Some fs \<Rightarrow>
       if fs = [] then Inl (PyRuntimeError ''no chunk prompts'')
       else map_result (\<lambda>(_, t). if trim t = [] then Inl (PyRuntimeError ''chunk prompt empty'') else Inr t)
              (sort_key fst fs))"

definition load_chunk_prompts ::
  "string \<Rightarrow> (utext \<times> utext) list option \<Rightarrow> utext option \<Rightarrow> memory list \<Rightarrow> py_exc + utext list" where
  "load_chunk_prompts memory_mode files protocol injected =
     bind_result (chunk_texts files) (\<lambda>chunks. case protocol of
       None \<Rightarrow> Inl (PyRuntimeError ''producer capture/compliance protocol missing'')
     | Some s \<Rightarrow>
         if trim s = [] then Inl (PyRuntimeError ''producer capture/compliance protocol empty'')
         else (let body = hd chunks @ [NEWLINE, NEWLINE] @ asc ''=== CAPTURE & COMPLIANCE PROTOCOL ==='' @ [NEWLINE] @ s;
                   blob = format_memory injected;
                   first = (if memory_mode \<noteq> ''on'' \<and> blob \<noteq> [] then blob @ [NEWLINE] @ body else body)
               in Inr (first # tl chunks)))"

definition joined_chunk_prompt :: "utext list \<Rightarrow> utext" where
  "joined_chunk_prompt chunks = join_with ([NEWLINE, NEWLINE] @ asc ''---'' @ [NEWLINE, NEWLINE]) chunks"

section \<open>One line at a time\<close>

lemma words_acc_parts:
  "list_all (\<lambda>c. \<not> is_blank c) a \<Longrightarrow>
   list_all (\<lambda>w. w \<noteq> [] \<and> list_all (\<lambda>c. \<not> is_blank c) w) (words_acc a t)"
  by (induction a t rule: words_acc.induct) simp_all

lemma words_parts: "w \<in> set (words t) \<Longrightarrow> w \<noteq> [] \<and> (\<forall>c \<in> set w. \<not> is_blank c)"
  using words_acc_parts [of "[]" t] by (simp add: words_def list_all_iff)

lemma join_with_chars: "c \<in> set (join_with sep ts) \<Longrightarrow> c \<in> set sep \<or> (\<exists>t \<in> set ts. c \<in> set t)"
  by (induction sep ts rule: join_with.induct) auto

lemma unwords_words_chars: "c \<in> set (unwords (words t)) \<Longrightarrow> c = BLANK \<or> \<not> is_blank c"
  unfolding unwords_def by (drule join_with_chars) (auto dest: words_parts)

lemma blank_newline: "is_blank NEWLINE" "NEWLINE \<noteq> BLANK" "NEWLINE \<noteq> ELLIPSIS"
  by (simp_all add: is_blank_def code_points)

lemma unwords_no_newline: "NEWLINE \<notin> set (unwords (words t))"
  using unwords_words_chars blank_newline by metis

lemma humanize_no_newline: "NEWLINE \<notin> set (humanize_check t)"
  by (simp add: humanize_check_def Let_def unwords_no_newline)

lemma set_before_last_blank: "set (before_last_blank t) \<subseteq> set t"
proof -
  have "set (tl (dropWhile (\<lambda>c. c \<noteq> BLANK) (rev t))) \<subseteq> set t"
  proof (cases "dropWhile (\<lambda>c. c \<noteq> BLANK) (rev t)")
    case (Cons c r)
    then have "set (c # r) \<subseteq> set t" using set_dropWhileD [of _ "\<lambda>c. c \<noteq> BLANK" "rev t"] by auto
    then show ?thesis using Cons by auto
  next
    case Nil
    show ?thesis unfolding Nil by simp
  qed
  then show ?thesis by (auto simp: before_last_blank_def)
qed

lemma set_clip: "set (clip n t) \<subseteq> insert ELLIPSIS (set t)"
  using set_before_last_blank [of "take n t"] set_take_subset [of n t] by (auto simp: clip_def)

lemma clip_no_newline: "NEWLINE \<notin> set (clip n (humanize_check t))"
  using set_clip [of n "humanize_check t"] humanize_no_newline [of t] blank_newline(3) by auto

lemma label_no_newline: "NEWLINE \<notin> set (problem_label p)" "NEWLINE \<notin> set (pass_label t)"
  by (simp_all add: problem_label_def pass_label_def Let_def clip_no_newline)

lemma set_trim_end: "set (trim_end t) \<subseteq> set t"
  using set_dropWhileD by (fastforce simp: trim_end_def)

lemma sanitize_no_newline: "NEWLINE \<notin> set (sanitize_observed n t)"
proof -
  have "NEWLINE \<notin> set (quoted t)" by (simp add: quoted_def unwords_no_newline)
  then show ?thesis
    using set_trim_end [of "take n (quoted t)"] set_take_subset [of n "quoted t"] blank_newline(3)
    by (auto simp: sanitize_observed_def Let_def)
qed

lemma asc_no_newline:
  "NEWLINE \<notin> set (asc ''- '')" "NEWLINE \<notin> set (asc '': FAILING'')" "NEWLINE \<notin> set (asc '' '')"
  "NEWLINE \<notin> set (asc '' I'')" "NEWLINE \<notin> set (asc ''m still seeing: '')"
  "NEWLINE \<notin> set (asc ''- something is still broken but the checks came back empty: FAILING'')"
  "NEWLINE \<noteq> EM_DASH" "NEWLINE \<noteq> 39"
  by (simp_all add: asc_def code_points)

lemma problem_line_no_newline: "NEWLINE \<notin> set (problem_line repeats p)"
  using label_no_newline(1) sanitize_no_newline
  by (simp add: problem_line_def evidence_def asc_no_newline)

lemma fresh_problems_labels:
  "map problem_label (fresh_problems seen ps) = fresh_labels seen (map problem_label ps)"
  by (induction seen ps rule: fresh_problems.induct) auto

lemma fresh_labels_set: "set (fresh_labels seen ls) = set ls - set seen - {[]} \<and> distinct (fresh_labels seen ls)"
  by (induction seen ls rule: fresh_labels.induct) auto

lemma feedback_lines_count:
  "length (feedback_lines repeats ps) = max 1 (card (problem_label ` set ps - {[]}))"
proof -
  have "length (fresh_problems [] ps) = card (problem_label ` set ps - {[]})"
    using fresh_labels_set [of "[]" "map problem_label ps"] fresh_problems_labels [of "[]" ps]
    by (metis (no_types, lifting) Diff_empty distinct_card empty_set length_map set_map)
  then show ?thesis by (auto simp: feedback_lines_def split: list.splits)
qed

text \<open>The message after a failed attempt is its header, an empty line and one line for each distinct, non-empty
  label of the problems (one line if there is none, so the model is never sent an empty report): whatever text the
  gates put into their names and observations, it can neither add a line to the message nor break one.  Every
  line after the header is an item of the list.\<close>

theorem feedback_has_one_line_per_problem:
  "\<exists>ls. build_feedback_prompt had repeats ps = join_with [NEWLINE] (feedback_header had # [] # ls)
     \<and> length ls = max 1 (card (problem_label ` set ps - {[]}))
     \<and> list_all (\<lambda>l. NEWLINE \<notin> set l \<and> has_prefix (asc ''- '') l) ls"
proof (intro exI conjI)
  have item: "list_all (\<lambda>l. NEWLINE \<notin> set l \<and> has_prefix (asc ''- '') l) (map (problem_line repeats) qs)" for qs
    using problem_line_no_newline by (auto simp: list_all_iff problem_line_def has_prefix_def asc_def)
  show "list_all (\<lambda>l. NEWLINE \<notin> set l \<and> has_prefix (asc ''- '') l) (feedback_lines repeats ps)"
    using item [of "fresh_problems [] ps"] asc_no_newline(6)
    by (auto simp: feedback_lines_def has_prefix_def split: list.splits) (simp_all add: asc_def)
qed (simp_all add: build_feedback_prompt_def feedback_lines_count)

section \<open>Evidence only for a gate that fails again\<close>

lemma problem_label_cong: "pb_check p = pb_check q \<Longrightarrow> problem_label p = problem_label q"
  by (simp add: problem_label_def)

definition told_alike :: "utext list \<Rightarrow> problem \<Rightarrow> problem \<Rightarrow> bool" where
  "told_alike repeats p q \<longleftrightarrow> pb_check p = pb_check q \<and>
     (pb_observed p = pb_observed q \<or> trim (pb_check p) \<notin> set repeats)"

lemma told_alike_lines: "told_alike repeats p q \<Longrightarrow> problem_line repeats p = problem_line repeats q"
proof -
  assume "told_alike repeats p q"
  then have "pb_check p = pb_check q" "evidence repeats p = evidence repeats q"
    by (auto simp: told_alike_def evidence_def)
  then show "problem_line repeats p = problem_line repeats q"
    using problem_label_cong [of p q] by (simp add: problem_line_def)
qed

lemma fresh_problems_alike:
  "list_all2 (told_alike repeats) ps qs \<Longrightarrow>
   map (problem_line repeats) (fresh_problems seen ps) = map (problem_line repeats) (fresh_problems seen qs)"
proof (induction ps qs arbitrary: seen rule: list_all2_induct)
  case (Cons p ps q qs)
  then have same: "told_alike repeats p q" by simp
  then have "problem_label p = problem_label q" "problem_line repeats p = problem_line repeats q"
    using told_alike_lines [OF same] problem_label_cong [of p q] by (simp_all add: told_alike_def)
  then show ?case using Cons.IH by simp
qed simp


definition sample_problem :: "string \<Rightarrow> problem" where
  "sample_problem obs = \<lparr>pb_check = asc ''[G05] use higher die'', pb_expected = [], pb_observed = asc obs\<rparr>"


section \<open>No path is quoted\<close>

fun path_free :: "utext \<Rightarrow> bool" where
  "path_free [] = True"
| "path_free [c] = True"
| "path_free (c # d # t) = ((c \<noteq> SLASH \<or> is_blank d) \<and> path_free (d # t))"

lemma path_free_Cons:
  "path_free (c # t) \<longleftrightarrow> path_free t \<and> (c = SLASH \<and> t \<noteq> [] \<longrightarrow> is_blank (hd t))"
  by (cases t) auto

lemma path_free_append:
  "path_free (a @ b) \<longleftrightarrow> path_free a \<and> path_free b \<and>
     (a \<noteq> [] \<and> b \<noteq> [] \<and> last a = SLASH \<longrightarrow> is_blank (hd b))"
  by (induction a) (auto simp: path_free_Cons)

lemma path_free_drop: "path_free t \<Longrightarrow> path_free (drop n t)"
  using path_free_append [of "take n t" "drop n t"] by simp

lemma path_free_take: "path_free t \<Longrightarrow> path_free (take n t)"
  using path_free_append [of "take n t" "drop n t"] by simp

lemma path_free_skip: "path_free t \<Longrightarrow> path_free (skip_blanks t)"
  unfolding skip_blanks_def using path_free_append [of "takeWhile is_blank t" "dropWhile is_blank t"] by simp

lemma path_free_trim_end: "path_free t \<Longrightarrow> path_free (trim_end t)"
  using path_free_append [of "trim_end t" "rev (takeWhile is_blank (rev t))"]
  by (simp add: trim_end_def rev_append [symmetric] del: rev_append)

lemma blank_not_slash: "is_blank c \<Longrightarrow> c \<noteq> SLASH" "is_blank c \<Longrightarrow> c \<noteq> 102" "is_blank c \<Longrightarrow> c \<noteq> 65"
  by (auto simp: is_blank_def code_points)

lemma path_match_blank: "is_blank c \<Longrightarrow> path_match (c # t) = None"
  using blank_not_slash by (auto simp: path_match_def has_prefix_def asc_def split: list.splits)

lemma path_match_slash: "path_match (SLASH # t) = None \<Longrightarrow> t = [] \<or> is_blank (hd t)"
  by (auto simp: path_match_def has_prefix_def asc_def code_points split: list.splits if_splits)

lemma remove_paths_hd:
  "is_blank c \<Longrightarrow> remove_paths_from n (c # t) = [] \<or> hd (remove_paths_from n (c # t)) = c"
  by (cases n) (simp_all add: path_match_blank)

lemma remove_paths_free: "path_free (remove_paths_from n t)"
proof (induction n t rule: remove_paths_from.induct)
  case (3 n c t)
  show ?case
  proof (cases "path_match (c # t)")
    case None
    have "is_blank (hd (remove_paths_from n t))" if "c = SLASH" "remove_paths_from n t \<noteq> []"
    proof -
      have "t \<noteq> []" using that(2) by auto
      then have "is_blank (hd t)" using None that(1) path_match_slash by blast
      then show ?thesis using remove_paths_hd [of "hd t" n "tl t"] \<open>t \<noteq> []\<close> that(2) by auto
    qed
    then show ?thesis using 3 None by (auto simp: path_free_Cons)
  qed (use 3 in simp)
qed simp_all

lemma no_prefix_blank: "is_blank d \<Longrightarrow> \<not> has_prefix (65 # r) (d # u)"
  using blank_not_slash(3) by (auto simp: has_prefix_def)

lemma remove_all_hd: "is_blank d \<Longrightarrow> remove_all (65 # r) (d # u) = d # remove_all (65 # r) u"
  by (simp add: no_prefix_blank)

lemma remove_all_free: "path_free t \<Longrightarrow> path_free (remove_all (65 # r) t)"
proof (induction "65 # r" t rule: remove_all.induct)
  case (2 c t)
  have step: "path_free t" "path_free (drop (length (65 # r) - 1) t)"
    using 2(3) path_free_drop by (auto simp: path_free_Cons)
  have "is_blank (hd (remove_all (65 # r) t))" if "c = SLASH" "t \<noteq> []"
    using 2(3) that remove_all_hd [of "hd t" r "tl t"] by (auto simp: path_free_Cons)
  then show ?case using 2(1,2) step by (cases "t = []") (auto simp: path_free_Cons)
qed simp

lemma words_acc_free:
  "path_free (rev a @ t) \<Longrightarrow> w \<in> set (words_acc a t) \<Longrightarrow> path_free w"
proof (induction a t rule: words_acc.induct)
  case (2 a c t)
  have "path_free (rev a)" "path_free t" using 2(4) by (auto simp: path_free_append path_free_Cons)
  then show ?case using 2 by (auto split: if_splits)
qed (simp split: if_splits)

lemma unwords_free: "list_all path_free ws \<Longrightarrow> path_free (unwords ws)"
proof -
  have blank: "is_blank BLANK" by (simp add: is_blank_def code_points)
  have "list_all path_free ws \<Longrightarrow> path_free (join_with [BLANK] ws)"
    by (induction "[BLANK]" ws rule: join_with.induct)
      (auto simp: path_free_append path_free_Cons blank blank_not_slash(1) [OF blank])
  then show "list_all path_free ws \<Longrightarrow> ?thesis" by (simp add: unwords_def)
qed

lemma quoted_free: "path_free (quoted t)"
proof -
  let ?t = "trim (remove_all (asc ''AssertionError:'') (remove_paths (before (asc '' // '') (first_line t))))"
  have "asc ''AssertionError:'' = 65 # asc ''ssertionError:''" by (simp add: asc_def)
  then have "path_free ?t"
    using remove_all_free [OF remove_paths_free] path_free_skip path_free_trim_end
    by (simp add: remove_paths_def trim_def)
  then have "list_all path_free (words ?t)"
    using words_acc_free [of "[]" ?t] by (simp add: words_def list_all_iff)
  then show ?thesis unfolding quoted_def by (rule unwords_free)
qed

text \<open>C17. The evidence quoted to the model is a single line of at most \<open>limit + 1\<close> characters without a path: no
  slash in it is followed by a character that is not a blank, except for the ellipsis that marks a cut.  So no
  file name of the hidden gates reaches the model through an observation, whatever the assertion said.\<close>

theorem no_path_is_quoted:
  "\<exists>t. path_free t \<and> length t \<le> limit \<and> NEWLINE \<notin> set t \<and>
       (sanitize_observed limit observed = t \<or> sanitize_observed limit observed = t @ [ELLIPSIS])"
proof (cases "limit < length (quoted observed)")
  case True
  let ?t = "trim_end (take limit (quoted observed))"
  have "path_free ?t" using path_free_trim_end path_free_take quoted_free by blast
  moreover have "length ?t \<le> limit"
    using length_dropWhile_le [of is_blank "rev (take limit (quoted observed))"] by (simp add: trim_end_def)
  moreover have "sanitize_observed limit observed = ?t @ [ELLIPSIS]" using True by (simp add: sanitize_observed_def Let_def)
  moreover have "NEWLINE \<notin> set ?t" using calculation(3) sanitize_no_newline [of limit observed] by auto
  ultimately show ?thesis by blast
next
  case False
  then show ?thesis
    using quoted_free sanitize_no_newline [of limit observed]
    by (intro exI [of _ "quoted observed"]) (simp add: sanitize_observed_def Let_def)
qed

section \<open>The name of a gate is not told\<close>

lemma unwords_ends:
  "ws \<noteq> [] \<Longrightarrow> list_all (\<lambda>w. w \<noteq> [] \<and> list_all (\<lambda>c. \<not> is_blank c) w) ws \<Longrightarrow>
   join_with sep ws \<noteq> [] \<and> \<not> is_blank (hd (join_with sep ws)) \<and> \<not> is_blank (last (join_with sep ws))"
  by (induction sep ws rule: join_with.induct) (simp_all add: list_all_iff)

lemma normal_ends:
  assumes "unwords (words t) = t" "t \<noteq> []"
  shows "\<not> is_blank (hd t)" "\<not> is_blank (last t)"
proof -
  have "words t \<noteq> []" using assms by (auto simp: unwords_def)
  then show "\<not> is_blank (hd t)" "\<not> is_blank (last t)"
    using unwords_ends [of "words t" "[BLANK]"] words_acc_parts [of "[]" t] assms
    by (simp_all add: unwords_def words_def)
qed

lemma skip_blanks_id: "t \<noteq> [] \<Longrightarrow> \<not> is_blank (hd t) \<Longrightarrow> skip_blanks t = t"
  by (cases t) (simp_all add: skip_blanks_def)

lemma trim_id: "t \<noteq> [] \<Longrightarrow> \<not> is_blank (hd t) \<Longrightarrow> \<not> is_blank (last t) \<Longrightarrow> trim t = t"
  by (cases t rule: rev_cases) (simp_all add: trim_def trim_end_def skip_blanks_id)

lemma blank_BLANK: "is_blank BLANK"
  by (simp add: is_blank_def code_points)

lemma skip_one_blank: "t \<noteq> [] \<Longrightarrow> \<not> is_blank (hd t) \<Longrightarrow> skip_blanks (BLANK # t) = t"
  using skip_blanks_id [of t] blank_BLANK by (simp add: skip_blanks_def)

lemma run_append: "list_all p a \<Longrightarrow> \<not> p c \<Longrightarrow> takeWhile p (a @ c # t) = a \<and> dropWhile p (a @ c # t) = c # t"
  by (induction a) simp_all

lemma gate_token_dropped:
  assumes "us \<noteq> []" "list_all is_upper us" "list_all is_decimal ds"
  shows "drop_gate_token (91 # us @ ds @ 93 # t) = skip_blanks t"
    and "drop_gate_token (BLANK # 91 # us @ ds @ 93 # t) = skip_blanks t"
proof -
  have nb: "\<not> is_blank 91" "\<not> is_decimal 93" by (simp_all add: is_blank_def is_decimal_def)
  obtain c u where cu: "ds @ 93 # t = c # u" "\<not> is_upper c"
    using assms(3) by (cases ds) (auto simp: is_upper_def is_decimal_def)
  have up: "takeWhile is_upper (us @ ds @ 93 # t) = us" "dropWhile is_upper (us @ ds @ 93 # t) = ds @ 93 # t"
    using run_append [OF assms(2) cu(2), of u] cu(1) by simp_all
  have dec: "dropWhile is_decimal (ds @ 93 # t) = 93 # t"
    using run_append [OF assms(3), of 93 t] by (simp add: is_decimal_def)
  show "drop_gate_token (91 # us @ ds @ 93 # t) = skip_blanks t"
    using skip_blanks_id [of "91 # us @ ds @ 93 # t"] nb assms(1) up dec by (simp add: drop_gate_token_def Let_def)
  show "drop_gate_token (BLANK # 91 # us @ ds @ 93 # t) = skip_blanks t"
    using skip_one_blank [of "91 # us @ ds @ 93 # t"] nb assms(1) up dec by (simp add: drop_gate_token_def Let_def)
qed

lemma longest_hit: "k (drop n t) = Some r \<Longrightarrow> n \<noteq> 0 \<Longrightarrow> longest n k t = Some r"
  by (cases n) simp_all

lemma req_dropped:
  assumes "rid \<noteq> []" "list_all is_req_char rid" "is_dash d" "desc \<noteq> []" "\<not> is_blank (hd desc)"
  shows "drop_req (asc ''REQ-'' @ rid @ BLANK # d # BLANK # desc) = desc"
proof -
  let ?r = "rid @ BLANK # d # BLANK # desc"
  have run: "takeWhile is_req_char ?r = rid"
    using run_append [OF assms(2), of BLANK "d # BLANK # desc"]
    by (simp add: is_req_char_def is_upper_def is_decimal_def code_points)
  have nd: "\<not> is_blank d" using assms(3) by (auto simp: is_dash_def is_blank_def code_points)
  have "slash_rest (BLANK # d # BLANK # desc) = Some desc"
    using skip_one_blank [of "d # BLANK # desc"] skip_one_blank [of desc] nd assms(3,4,5)
    by (simp add: slash_rest_def dash_rest_def) (simp add: code_points)
  then have hit: "longest (length rid) slash_rest ?r = Some desc"
    using longest_hit [of slash_rest "length rid" ?r desc] assms(1) by simp
  have "skip_blanks (asc ''REQ-'' @ ?r) = asc ''REQ-'' @ ?r"
    by (rule skip_blanks_id) (simp_all add: asc_def is_blank_def)
  moreover have "has_prefix (asc ''REQ-'') (asc ''REQ-'' @ ?r)" by (simp add: has_prefix_def asc_def)
  moreover have "drop 4 (asc ''REQ-'' @ ?r) = ?r" by (simp add: asc_def)
  ultimately show ?thesis using run hit by (simp add: drop_req_def Let_def)
qed

definition PHASES :: "utext list" where
  "PHASES = [[], asc ''conformance: '', asc ''backend: '', asc ''frontend: '']"

lemma phase_dropped:
  assumes "ph \<in> set PHASES"
  shows "drop_phase (ph @ 91 # t) = (if ph = [] then [] else [BLANK]) @ 91 # t"
  using assms by (auto simp: PHASES_def drop_phase_def Let_def asc_def has_prefix_def skip_blanks_def is_blank_def
      code_points)

text \<open>A check in the form the gates give it, optionally a phase, then a bracketed gate id of capitals and digits, a
  requirement id and a dash, is told to the model as its description alone: no part of the gate's identity is in
  the label.\<close>

theorem gate_identity_is_stripped:
  assumes "ph \<in> set PHASES" and "us \<noteq> []" "list_all is_upper us" "list_all is_decimal ds"
    and "rid \<noteq> []" "list_all is_req_char rid" "is_dash d" and "desc \<noteq> []" "unwords (words desc) = desc"
  shows "humanize_check (ph @ [91] @ us @ ds @ [93, BLANK] @ asc ''REQ-'' @ rid @ [BLANK, d, BLANK] @ desc) = desc"
proof -
  let ?req = "asc ''REQ-'' @ rid @ BLANK # d # BLANK # desc"
  let ?t = "ph @ 91 # us @ ds @ 93 # BLANK # ?req"
  have ends: "\<not> is_blank (hd desc)" "\<not> is_blank (last desc)" using normal_ends assms(8,9) by blast+
  have "\<not> is_blank (hd ?t)" using assms(1) by (auto simp: PHASES_def asc_def is_blank_def)
  then have trim: "trim ?t = ?t" using ends(2) assms(8) by (intro trim_id) simp_all
  have req: "skip_blanks (BLANK # ?req) = ?req"
    by (rule skip_one_blank) (simp_all add: asc_def is_blank_def)
  have "drop_gate_token (drop_phase ?t) = ?req"
    using phase_dropped [OF assms(1)] gate_token_dropped [OF assms(2-4), of "BLANK # ?req"] req by simp
  then have "drop_req (drop_gate_token (drop_phase (trim ?t))) = desc"
    using trim req_dropped [OF assms(5-8) ends(1)] by simp
  then show ?thesis using assms(8,9) by (simp add: humanize_check_def Let_def)
qed

theorem gate_identity_is_stripped_witness:
  "humanize_check (asc ''backend: '' @ [91] @ asc ''G'' @ asc ''05'' @ [93, BLANK] @ asc ''REQ-'' @ asc ''HIGHER-DIE''
     @ [BLANK, EM_DASH, BLANK] @ asc ''use higher die'') = asc ''use higher die''"
  by (rule gate_identity_is_stripped)
    (simp_all add: PHASES_def asc_def is_upper_def is_decimal_def is_req_char_def is_dash_def code_points words_def
      unwords_def is_blank_def)

text \<open>The limits of the stripping: a check that is nothing but its id is told as it is, and without a dash after
  it a requirement id is cut at its own last hyphen.\<close>

lemma words_one: "t \<noteq> [] \<Longrightarrow> list_all (\<lambda>c. \<not> is_blank c) t \<Longrightarrow> unwords (words t) = t"
proof -
  have "list_all (\<lambda>c. \<not> is_blank c) t \<Longrightarrow> a \<noteq> [] \<or> t \<noteq> [] \<Longrightarrow> words_acc a t = [rev a @ t]" for a
    by (induction a t rule: words_acc.induct) simp_all
  then show "t \<noteq> [] \<Longrightarrow> list_all (\<lambda>c. \<not> is_blank c) t \<Longrightarrow> ?thesis"
    by (simp add: words_def unwords_def)
qed

lemma bare_gate_id_is_told:
  assumes "us \<noteq> []" "list_all is_upper us" "list_all is_decimal ds"
  shows "humanize_check (91 # us @ ds @ [93]) = 91 # us @ ds @ [93]"
proof -
  let ?t = "91 # us @ ds @ [93]"
  have plain: "list_all (\<lambda>c. \<not> is_blank c) ?t"
    using assms(2,3) by (auto simp: list_all_iff is_blank_def is_upper_def is_decimal_def)
  have "trim ?t = ?t" using plain by (intro trim_id) simp_all
  moreover have "drop_phase ?t = ?t" using phase_dropped [of "[]" "us @ ds @ [93]"] by (simp add: PHASES_def)
  moreover have "drop_gate_token ?t = []" using gate_token_dropped(1) [OF assms, of "[]"] by (simp add: skip_blanks_def)
  moreover have "drop_req [] = []" by (simp add: drop_req_def has_prefix_def skip_blanks_def asc_def Let_def)
  ultimately show ?thesis
    using words_one [OF _ plain] by (simp add: humanize_check_def words_def unwords_def)
qed

lemma undashed_requirement_is_cut:
  "drop_req (asc ''REQ-HIGHER-DIE use it'') = asc ''DIE use it''"
  by (simp add: asc_def skip_blanks_def is_blank_def has_prefix_def is_upper_def is_decimal_def is_req_char_def
      is_dash_def drop_req_def slash_rest_def dash_rest_def code_points Let_def)

section \<open>The first pass and the good news\<close>

lemma pass_verdict_empty: "build_pass_verdict gs = [] \<longleftrightarrow> (\<forall>g \<in> set gs. pass_label g = [])"
proof -
  have "fresh_labels [] (map pass_label gs) = [] \<longleftrightarrow> (\<forall>g \<in> set gs. pass_label g = [])"
    using fresh_labels_set [of "[]" "map pass_label gs"] set_empty [of "fresh_labels [] (map pass_label gs)"]
    by auto
  then show ?thesis
    by (auto simp: build_pass_verdict_def Let_def asc_def split: list.splits)
qed

text \<open>The prompts of the first pass: as many as there are prompt files, in the order of their names, the first
  with the protocol after it; with memory on, what would be injected does not change them.\<close>

theorem first_pass_prompts:
  assumes "load_chunk_prompts mode (Some fs) (Some s) ms = Inr ps"
  shows "length ps = length fs \<and> tl ps = tl (map snd (sort_key fst fs)) \<and>
     hd ps = (if mode \<noteq> ''on'' \<and> format_memory ms \<noteq> [] then format_memory ms @ [NEWLINE] else [])
       @ snd (hd (sort_key fst fs)) @ [NEWLINE, NEWLINE] @ asc ''=== CAPTURE & COMPLIANCE PROTOCOL ===''
       @ [NEWLINE] @ s"
proof -
  obtain cs where cs: "chunk_texts (Some fs) = Inr cs" "trim s \<noteq> []"
    and ps: "ps = ((if mode \<noteq> ''on'' \<and> format_memory ms \<noteq> [] then format_memory ms @ [NEWLINE] else [])
       @ hd cs @ [NEWLINE, NEWLINE] @ asc ''=== CAPTURE & COMPLIANCE PROTOCOL ==='' @ [NEWLINE] @ s) # tl cs"
    using assms by (auto simp: load_chunk_prompts_def Let_def result_simps split: if_splits)
  have ok: "map_result (\<lambda>(_, t). if trim t = [] then Inl (PyRuntimeError ''chunk prompt empty'') else Inr t)
      (sort_key fst fs) = Inr cs" and ne: "fs \<noteq> []"
    using cs(1) by (auto simp: chunk_texts_def split: if_splits)
  have id: "map_result (\<lambda>(_, t). if trim t = [] then Inl e else Inr t) xs = Inr ys \<Longrightarrow> ys = map snd xs"
    for xs :: "(utext \<times> utext) list" and ys and e :: py_exc
    by (induction xs arbitrary: ys) (auto simp: result_simps split: if_splits)
  have "cs = map snd (sort_key fst fs)" using id [OF ok] .
  moreover have "sort_key fst fs \<noteq> []" using ne by (metis length_0_conv length_sort)
  moreover have "length (sort_key fst fs) = length fs" by simp
  ultimately show ?thesis using ps by (cases "sort_key fst fs") simp_all
qed

end
