(* ===== verification/Cell_Telemetry.thy ===== *)
theory Cell_Telemetry
  imports Run_Artifacts Worker_Events
begin

text \<open>
  What a cell of \<open>wevibe_bench/adapters/backgammon.py\<close> reads back from its own files when it is over: the counts of
  its event log, the messages of the user sidecar, the delivery and the recall funnel in the plugin's log, and the
  evidence of a cut stream.  A file is the list of its lines or its text, \<open>None\<close> when it cannot be read; \<open>loads\<close>
  decodes a line.  Texts are taken to be ASCII; a regular expression is a matcher that is run at every position.
\<close>

section \<open>The event log\<close>

definition DECLARED_TEST_COMMANDS :: "string list" where
  "DECLARED_TEST_COMMANDS =
     [''node report.mjs'', ''npx vitest'', ''npx playwright'', ''npm test'', ''npm run test'', ''vitest'',
      ''playwright test'']"

definition is_tool_use :: "pydict \<Rightarrow> bool" where
  "is_tool_use d \<longleftrightarrow> dget d ''type'' = PStr ''tool_use''"

definition is_test_run :: "pydict \<Rightarrow> bool" where
  "is_test_run d \<longleftrightarrow> is_tool_use d \<and> dget (sub_dict d ''part'') ''tool'' = PStr ''bash'' \<and>
     (case dget (sub_dict (sub_dict (sub_dict d ''part'') ''state'') ''input'') ''command'' of
        PStr cmd \<Rightarrow> list_ex (contains cmd) DECLARED_TEST_COMMANDS | _ \<Rightarrow> False)"

definition extract_event_counts :: "(string \<Rightarrow> pyval option) \<Rightarrow> string list option \<Rightarrow> (nat \<times> nat) option" where
  "extract_event_counts loads events = (case events of
     None \<Rightarrow> None
   | Some ls \<Rightarrow> (let ds = List.map_filter (parse_line loads) ls in
       Some (length (filter is_tool_use ds), length (filter is_test_run ds))))"

text \<open>A decoded line that is no object has no \<open>get\<close>: the call raises, and nothing catches that.\<close>

definition carries_cut :: "(pyval \<Rightarrow> string) \<Rightarrow> (string \<Rightarrow> string) \<Rightarrow> (string \<Rightarrow> pyval option) \<Rightarrow> pydict \<Rightarrow> bool" where
  "carries_cut rp fp loads e =
     (if dget e ''type'' = PStr ''step_finish''
      then reason_in (dget (sub_dict e ''part'') ''reason'') TRUNCATED_STEP_FINISH_REASONS
      else dget e ''type'' = PStr ''error'' \<and> budget_stop_signature_from_event rp fp loads e = None
           \<and> classify_transport_error rp e \<noteq> None)"

fun stream_incomplete_in ::
  "(pyval \<Rightarrow> string) \<Rightarrow> (string \<Rightarrow> string) \<Rightarrow> (string \<Rightarrow> pyval option) \<Rightarrow> string list \<Rightarrow> py_exc + bool" where
  "stream_incomplete_in rp fp loads [] = Inr False"
| "stream_incomplete_in rp fp loads (raw # ls) =
     (if strip raw = [] then stream_incomplete_in rp fp loads ls
      else case loads (strip raw) of
        None \<Rightarrow> stream_incomplete_in rp fp loads ls
      | Some (PDict e) \<Rightarrow>
          (if is_list (dget (sub_dict e ''part'') ''reason'') \<and> dget e ''type'' = PStr ''step_finish''
              \<or> is_dict (dget (sub_dict e ''part'') ''reason'') \<and> dget e ''type'' = PStr ''step_finish''
           then Inl PyTypeError
           else if carries_cut rp fp loads e then Inr True else stream_incomplete_in rp fp loads ls)
      | Some _ \<Rightarrow> Inl PyAttributeError)"

definition detect_stream_incomplete ::
  "(pyval \<Rightarrow> string) \<Rightarrow> (string \<Rightarrow> string) \<Rightarrow> (string \<Rightarrow> pyval option) \<Rightarrow> string list option \<Rightarrow> py_exc + bool" where
  "detect_stream_incomplete rp fp loads events = (case events of
     None \<Rightarrow> Inr False | Some ls \<Rightarrow> stream_incomplete_in rp fp loads ls)"

text \<open>The signal behind an exit code; \<open>names\<close> are those of the platform.\<close>

definition external_signal_from_exit_code :: "(int \<Rightarrow> string option) \<Rightarrow> int option \<Rightarrow> string option" where
  "external_signal_from_exit_code names rc = (case rc of
     None \<Rightarrow> None
   | Some c \<Rightarrow>
       if c < 128 then None
       else if c - 128 < 1 then None
       else Some (opt_or (names (c - 128)) (''SIGNAL_'' @ string_of_int (c - 128))))"

section \<open>The user sidecar\<close>

record user_event =
  ue_kind :: string
  ue_timestamp :: int
  ue_attempt :: int
  ue_text :: string

definition user_event_payload :: "(string \<Rightarrow> string) \<Rightarrow> user_event \<Rightarrow> pydict" where
  "user_event_payload fp e =
     [(''type'', PStr ''user''), (''kind'', PStr (ue_kind e)), (''timestamp'', PInt (ue_timestamp e)),
      (''attempt'', PInt (ue_attempt e)), (''chars'', PInt (int (length (ue_text e)))),
      (''text_fp'', PStr (fp (ue_text e))), (''text'', PStr (ue_text e))]"

definition append_user_event ::
  "(string \<Rightarrow> string) \<Rightarrow> (pydict \<Rightarrow> string) \<Rightarrow> user_event \<Rightarrow> string option \<Rightarrow> string option" where
  "append_user_event fp dumps e sidecar = stream_append dumps (user_event_payload fp e) sidecar"

definition attempts_in :: "pydict list \<Rightarrow> int list" where
  "attempts_in ds = List.map_filter (\<lambda>d. if map_of d ''attempt'' = None then None
      else case py_int (dget d ''attempt'') of Inr i \<Rightarrow> Some i | Inl _ \<Rightarrow> None) ds"

definition extract_agentic_cycles :: "(string \<Rightarrow> pyval option) \<Rightarrow> string option \<Rightarrow> nat option" where
  "extract_agentic_cycles loads sidecar = (case sidecar of
     None \<Rightarrow> None
   | Some _ \<Rightarrow>
       (let ds = filter (\<lambda>d. dget d ''type'' = PStr ''user'') (stream_records loads sidecar); as = attempts_in ds in
        Some (if as \<noteq> [] then card (set as) else length ds)))"

section \<open>The plugin's log\<close>

datatype pat = Lit string | Spaces | Word_Run | Digits

definition word_char :: "char \<Rightarrow> bool" where
  "word_char c \<longleftrightarrow> is_digit c \<or> lower_char c \<in> set ''abcdefghijklmnopqrstuvwxyz_''"

text \<open>A sequence of literals, \<open>\s+\<close>, \<open>\S+\<close> and \<open>\d+\<close>, the last two captured: no run can end where the next part
  begins, so the greedy match is the only one.\<close>

fun match_pats :: "pat list \<Rightarrow> string \<Rightarrow> (string list \<times> string) option" where
  "match_pats [] s = Some ([], s)"
| "match_pats (Lit p # ps) s = (if starts_with s p then match_pats ps (drop (length p) s) else None)"
| "match_pats (Spaces # ps) s =
     (if takeWhile is_space s = [] then None else match_pats ps (dropWhile is_space s))"
| "match_pats (Word_Run # ps) s =
     (let w = takeWhile (\<lambda>c. \<not> is_space c) s in if w = [] then None
      else map_option (\<lambda>(xs, r). (w # xs, r)) (match_pats ps (dropWhile (\<lambda>c. \<not> is_space c) s)))"
| "match_pats (Digits # ps) s =
     (let w = takeWhile is_digit s in if w = [] then None
      else map_option (\<lambda>(xs, r). (w # xs, r)) (match_pats ps (dropWhile is_digit s)))"

text \<open>\<open>re.findall\<close>: the matcher is told whether the character before is part of a word; \<open>n\<close> bounds the steps, of
  which each takes a character.\<close>

fun find_from :: "nat \<Rightarrow> (bool \<Rightarrow> string \<Rightarrow> ('a \<times> string) option) \<Rightarrow> bool \<Rightarrow> string \<Rightarrow> 'a list" where
  "find_from 0 m w s = []"
| "find_from (Suc n) m w [] = []"
| "find_from (Suc n) m w (c # s) = (case m w (c # s) of
     Some (x, r) \<Rightarrow> x # find_from n m (word_char (last (c # take (length s - length r) s))) r
   | None \<Rightarrow> find_from n m (word_char c) s)"

definition find_all :: "(bool \<Rightarrow> string \<Rightarrow> ('a \<times> string) option) \<Rightarrow> string \<Rightarrow> 'a list" where
  "find_all m s = find_from (length s) m False s"

definition anywhere :: "pat list \<Rightarrow> bool \<Rightarrow> string \<Rightarrow> (string list \<times> string) option" where
  "anywhere ps w s = match_pats ps s"

definition at_word :: "pat list \<Rightarrow> bool \<Rightarrow> string \<Rightarrow> (string list \<times> string) option" where
  "at_word ps w s = (if w then None else match_pats ps s)"

definition to_word_end :: "(bool \<Rightarrow> string \<Rightarrow> ('a \<times> string) option) \<Rightarrow> bool \<Rightarrow> string \<Rightarrow> ('a \<times> string) option" where
  "to_word_end m w s = (case m w s of
     Some (x, r) \<Rightarrow> if r \<noteq> [] \<and> word_char (hd r) then None else Some (x, r) | None \<Rightarrow> None)"

definition scan_cell_delivery :: "string option \<Rightarrow> string option" where
  "scan_cell_delivery plog = (case plog of
     None \<Rightarrow> None
   | Some payload \<Rightarrow>
       (let ms = find_all (anywhere [Lit ''[inject] injected count='', Digits]) payload in
        if ms = [] then None
        else if list_ex (\<lambda>m. 1 \<le> digits_value (hd m)) ms then Some ''YES'' else Some ''NO''))"

text \<open>\<open>[^\n]*\bKEY(\d+)\<close>: the last such field of the line.\<close>

fun last_field :: "string \<Rightarrow> bool \<Rightarrow> string \<Rightarrow> (string \<times> string) option" where
  "last_field key w [] = None"
| "last_field key w (c # s) = (case last_field key (word_char c) s of
     Some x \<Rightarrow> Some x
   | None \<Rightarrow>
       (if w then None else case match_pats [Lit key, Digits] (c # s) of
          Some (d # _, r) \<Rightarrow> Some (d, r) | _ \<Rightarrow> None))"

definition injected_field :: "string \<Rightarrow> bool \<Rightarrow> string \<Rightarrow> (string \<times> string) option" where
  "injected_field key w s =
     (if starts_with s ''[inject] injected''
      then (let t = drop 17 s; line = takeWhile (\<lambda>c. c \<noteq> CHR 0x0A) t in
            map_option (\<lambda>(d, r). (d, r @ dropWhile (\<lambda>c. c \<noteq> CHR 0x0A) t)) (last_field key True line))
      else None)"

definition scan_injected_block_chars :: "string option \<Rightarrow> nat option" where
  "scan_injected_block_chars plog = (case plog of
     None \<Rightarrow> None
   | Some payload \<Rightarrow>
       (let block = find_all (injected_field ''block_chars='') payload;
            legacy = find_all (injected_field ''chars='') payload in
        if block \<noteq> [] then Some (sum_list (map digits_value block))
        else if legacy \<noteq> [] then Some (sum_list (map digits_value legacy)) else None))"

record recall_funnel =
  rf_fired_total :: int
  rf_returned_total :: int
  rf_returned_count_sum :: int
  rf_no_keywords_count :: int
  rf_injected_count :: int
  rf_served_attempted :: int
  rf_served_failed :: int
  rf_served_confirmed :: int

definition funnel_injected :: "string \<Rightarrow> string list list" where
  "funnel_injected payload =
     find_all (anywhere [Lit ''[inject]'', Spaces, Lit ''injected'', Spaces, Lit ''count='', Digits]) payload"

definition scan_recall_funnel :: "string option \<Rightarrow> recall_funnel option" where
  "scan_recall_funnel plog = (case plog of
     None \<Rightarrow> None
   | Some payload \<Rightarrow>
       (let fired = find_all (to_word_end (at_word [Lit ''recall_fired'', Spaces, Lit ''trigger=repeat_failure''])) payload;
            returned = find_all (at_word [Lit ''recall_returned'', Spaces, Lit ''status='', Word_Run, Spaces,
                         Lit ''count='', Digits, Spaces, Lit ''reason_code='', Word_Run, Spaces, Lit ''dur_ms='',
                         Digits, Spaces, Lit ''error='']) payload;
            attempted = int (length (find_all (anywhere [Lit ''[serve]'', Spaces, Lit ''upsert'', Spaces, Lit ''cid='']) payload));
            failed = int (length (find_all (to_word_end (anywhere
                       [Lit ''[serve]'', Spaces, Lit ''receipt'', Spaces, Lit ''failed''])) payload)) in
        Some \<lparr>rf_fired_total = int (length fired), rf_returned_total = int (length returned),
              rf_returned_count_sum = int (sum_list (map (\<lambda>m. digits_value (m ! 1)) returned)),
              rf_no_keywords_count = int (length (filter (\<lambda>m. m ! 2 = ''no_keywords'') returned)),
              rf_injected_count = int (sum_list (map (\<lambda>m. digits_value (hd m)) (funnel_injected payload))),
              rf_served_attempted = attempted, rf_served_failed = failed,
              rf_served_confirmed = attempted - failed\<rparr>))"

definition scan_funnel_snapshot :: "(string \<Rightarrow> pyval option) \<Rightarrow> string option \<Rightarrow> (string \<times> pydict) list option" where
  "scan_funnel_snapshot loads snap = (case snap of
     None \<Rightarrow> None
   | Some payload \<Rightarrow> (case loads payload of
       Some (PDict d) \<Rightarrow> Some (List.map_filter (\<lambda>(k, v). case v of PDict c \<Rightarrow> Some (k, c) | _ \<Rightarrow> None) d)
     | _ \<Rightarrow> None))"

text \<open>What the result of a cell says of the delivery: the scans are made only in a worktree with the marker of an
  injection; \<open>round(n / 4)\<close> rounds a half to the even side.\<close>

definition round_quarter :: "nat \<Rightarrow> nat" where
  "round_quarter n = (let q = n div 4; r = n mod 4 in
     if r < 2 then q else if r = 3 then q + 1 else if even q then q else q + 1)"

record delivery_report =
  dv_delivery :: string
  dv_block_chars :: "nat option"
  dv_est_tokens :: "nat option"
  dv_funnel :: "recall_funnel option"
  dv_snapshot :: "(string \<times> pydict) list option"

definition delivery_of :: "(string \<Rightarrow> pyval option) \<Rightarrow> bool \<Rightarrow> string option \<Rightarrow> string option \<Rightarrow> delivery_report" where
  "delivery_of loads injection_record plog snap =
     (if injection_record
      then (let chars = scan_injected_block_chars plog in
        \<lparr>dv_delivery = opt_or (scan_cell_delivery plog) ''not_measured'', dv_block_chars = chars,
         dv_est_tokens = map_option round_quarter chars, dv_funnel = scan_recall_funnel plog,
         dv_snapshot = scan_funnel_snapshot loads snap\<rparr>)
      else \<lparr>dv_delivery = ''N/A'', dv_block_chars = None, dv_est_tokens = None, dv_funnel = None, dv_snapshot = None\<rparr>)"

text \<open>The copies that outlive the container: \<open>data_dir\<close> is the override or the default, \<open>io_ok\<close> whether directory and
  copies succeed; the result is where they are, with the names copied.\<close>

definition export_cell_telemetry ::
  "bool \<Rightarrow> string option \<Rightarrow> string option \<Rightarrow> string option \<Rightarrow> string \<Rightarrow> int \<Rightarrow> string
     \<Rightarrow> (string \<times> (string \<times> string) list) option" where
  "export_cell_telemetry io_ok snapshot errors override default_dir now_s run_label =
     (let present = (case snapshot of Some t \<Rightarrow> [(''funnel-snapshot.json'', t)] | None \<Rightarrow> [])
                  @ (case errors of Some t \<Rightarrow> [(''plugin-errors.log'', t)] | None \<Rightarrow> []);
          data_dir = (if strip (opt_or override []) = [] then default_dir else strip (opt_or override [])) in
      if present = [] \<or> \<not> io_ok then None
      else Some (data_dir @ ''/cells/'' @ string_of_int now_s @ ''-'' @ run_label, present))"

section \<open>Evidence of a cut stream\<close>

record cut_stream =
  cs_attempt_id :: "string option"
  cs_run_label :: string
  cs_phase :: string
  cs_terminal :: string
  cs_reason :: string
  cs_start :: "int option"
  cs_end :: int
  cs_wall :: "real option"
  cs_session :: pyval
  cs_bytes :: pyval
  cs_lines :: pyval
  cs_last_type :: pyval
  cs_last_ts :: pyval
  cs_finish :: pyval
  cs_output :: int
  cs_input :: int
  cs_reasoning :: int
  cs_truncations :: int

definition some_text :: "string option \<Rightarrow> string option" where
  "some_text v = (if opt_or v [] = [] then None else v)"

text \<open>\<open>stamp\<close> prints an epoch time in milliseconds as a UTC timestamp.\<close>

definition build_truncation_evidence :: "(int \<Rightarrow> string) \<Rightarrow> cut_stream \<Rightarrow> pydict" where
  "build_truncation_evidence stamp e =
     (let attempt = some_text (cs_attempt_id e);
          sess = (case cs_session e of PStr t \<Rightarrow> Some t | _ \<Rightarrow> None) in
      [(''attempt_id'', of_opt PStr attempt), (''run_label'', PStr (cs_run_label e)), (''phase'', PStr (cs_phase e)),
       (''terminal'', PStr (cs_terminal e)), (''reason'', PStr (cs_reason e)),
       (''ts_start_epoch_ms'', of_opt PInt (cs_start e)), (''ts_end_epoch_ms'', PInt (cs_end e)),
       (''wall_seconds'', of_opt PFloat (cs_wall e)), (''session_id'', of_opt PStr sess),
       (''received_bytes'', cs_bytes e), (''received_lines'', cs_lines e), (''last_event_type'', cs_last_type e),
       (''last_event_ts'', cs_last_ts e), (''finish_reason'', cs_finish e),
       (''output_tokens_received'', PInt (cs_output e)), (''input_tokens_received'', PInt (cs_input e)),
       (''reasoning_tokens_received'', PInt (cs_reasoning e)), (''truncations_seen'', PInt (cs_truncations e)),
       (''correlation'', PDict
          [(''proxy_log_dir'', PStr ''runs''),
           (''ts_window_utc'', PList [of_opt (\<lambda>t. PStr (stamp t)) (cs_start e), PStr (stamp (cs_end e))]),
           (''match_key'', PStr (cs_run_label e @ ''|'' @ opt_or attempt ''none'' @ ''|''
              @ (if opt_or sess [] = [] then ''none'' else opt_or sess [])))])])"

definition write_truncation_evidence :: "bool \<Rightarrow> (pydict \<Rightarrow> string) \<Rightarrow> pydict \<Rightarrow> string option \<Rightarrow> string option" where
  "write_truncation_evidence io_ok dumps r sidecar = (if io_ok then stream_append dumps r sidecar else sidecar)"

section \<open>Cycles are attempts\<close>

lemma appended_events:
  "foldl (\<lambda>f e. append_user_event fp dumps e f) f0 es
   = foldl (\<lambda>f r. stream_append dumps r f) f0 (map (user_event_payload fp) es)"
  by (induction es arbitrary: f0) (simp_all add: append_user_event_def)

lemma attempts_in_payloads: "attempts_in (map (user_event_payload fp) es) = map ue_attempt es"
  by (induction es) (simp_all add: attempts_in_def user_event_payload_def map_filter_simps)

lemma appended_not_none: "es \<noteq> [] \<Longrightarrow> foldl (\<lambda>f r. stream_append dumps r f) f0 es \<noteq> None"
  by (induction es rule: rev_induct) (simp_all add: stream_append_def)

text \<open>The agentic cycles that are reported of a cell are the number of attempts for which the model was sent a
  message, however many messages (task, good news, feedback) an attempt took and whatever their texts: the
  sidecar, to which each message is appended verbatim before it is sent, is read back completely.\<close>

theorem cycles_count_the_attempts:
  assumes "es \<noteq> []" and "list_all (\<lambda>e. one_line dumps loads (user_event_payload fp e)) es"
  shows "extract_agentic_cycles loads (foldl (\<lambda>f e. append_user_event fp dumps e f) None es)
     = Some (card (ue_attempt ` set es))"
proof -
  let ?rs = "map (user_event_payload fp) es"
  let ?file = "foldl (\<lambda>f r. stream_append dumps r f) None ?rs"
  have "list_all (one_line dumps loads) ?rs" using assms(2) by (simp add: list_all_iff)
  then have read: "stream_records loads ?file = ?rs"
    using stream_of_appends_parts [of None dumps loads ?rs] by (simp add: clean_stream_def stream_records_def [of _ None])
  have "filter (\<lambda>d. dget d ''type'' = PStr ''user'') ?rs = ?rs"
    by (simp add: filter_id_conv user_event_payload_def)
  moreover obtain t where "?file = Some t" using appended_not_none [of ?rs dumps None] assms(1) by (cases ?file) auto
  ultimately show ?thesis
    using read attempts_in_payloads [of fp es] assms(1)
    by (simp add: extract_agentic_cycles_def appended_events Let_def)
qed

definition sample_events :: "user_event list" where
  "sample_events = map (\<lambda>(k, a). \<lparr>ue_kind = k, ue_timestamp = 7, ue_attempt = a, ue_text = ''t''\<rparr>)
     [(''chunk'', 1), (''pass_verdict'', 2), (''feedback'', 2)]"

text \<open>A printer for these events: the attempt as so many strokes.\<close>

definition stroke_dumps :: "pydict \<Rightarrow> string" where
  "stroke_dumps d = (case (dget d ''kind'', dget d ''attempt'') of
     (PStr k, PInt a) \<Rightarrow> k @ replicate (nat a) (CHR ''I'') | _ \<Rightarrow> [])"

definition stroke_loads :: "string \<Rightarrow> pyval option" where
  "stroke_loads s = Some (PDict (user_event_payload (\<lambda>t. t)
     \<lparr>ue_kind = takeWhile (\<lambda>c. c \<noteq> CHR ''I'') s, ue_timestamp = 7,
      ue_attempt = int (length (dropWhile (\<lambda>c. c \<noteq> CHR ''I'') s)), ue_text = ''t''\<rparr>))"

theorem cycles_count_the_attempts_witness:
  "extract_agentic_cycles stroke_loads (foldl (\<lambda>f e. append_user_event (\<lambda>t. t) stroke_dumps e f) None sample_events)
   = Some 2"
proof -
  have "list_all (\<lambda>e. one_line stroke_dumps stroke_loads (user_event_payload (\<lambda>t. t) e)) sample_events"
    unfolding one_line_def is_line_break_def by code_simp
  moreover have "sample_events \<noteq> []" by (simp add: sample_events_def)
  moreover have "ue_attempt ` set sample_events = {1, 2}" by (simp add: sample_events_def)
  ultimately show ?thesis
    using cycles_count_the_attempts [of sample_events stroke_dumps stroke_loads "\<lambda>t. t"] by simp
qed

section \<open>The two readers of the plugin's log agree\<close>

lemma starts_with_split: "starts_with s p \<Longrightarrow> s = p @ drop (length p) s"
  by (auto simp: starts_with_iff)

lemma match_pats_split: "match_pats ps s = Some (x, r) \<Longrightarrow> \<exists>u. s = u @ r"
proof (induction ps s arbitrary: x rule: match_pats.induct)
  case (2 p ps s)
  then have "starts_with s p" "match_pats ps (drop (length p) s) = Some (x, r)" by (auto split: if_splits)
  then show ?case using 2(1) starts_with_split by (metis append.assoc)
next
  case (3 ps s)
  then obtain u where "dropWhile is_space s = u @ r" by (auto split: if_splits)
  then show ?case by (metis append.assoc takeWhile_dropWhile_id)
next
  case (4 ps s)
  then obtain u where "dropWhile (\<lambda>c. \<not> is_space c) s = u @ r" by (auto simp: Let_def split: if_splits)
  then show ?case by (metis append.assoc takeWhile_dropWhile_id)
next
  case (5 ps s)
  then obtain u where "dropWhile is_digit s = u @ r" by (auto simp: Let_def split: if_splits)
  then show ?case by (metis append.assoc takeWhile_dropWhile_id)
qed simp

abbreviation strict_inject :: "pat list" where
  "strict_inject \<equiv> [Lit ''[inject] injected count='', Digits]"

abbreviation loose_inject :: "pat list" where
  "loose_inject \<equiv> [Lit ''[inject]'', Spaces, Lit ''injected'', Spaces, Lit ''count='', Digits]"

definition bracket_free :: "pat \<Rightarrow> bool" where
  "bracket_free p \<longleftrightarrow> (case p of Lit l \<Rightarrow> CHR ''['' \<notin> set l | Word_Run \<Rightarrow> False | _ \<Rightarrow> True)"

lemma takeWhile_free: "\<not> p c \<Longrightarrow> c \<notin> set (takeWhile p s)"
  by (auto dest: set_takeWhileD)

lemma match_pats_free:
  "match_pats ps s = Some (x, r) \<Longrightarrow> list_all bracket_free ps \<Longrightarrow> \<exists>u. s = u @ r \<and> CHR ''['' \<notin> set u"
proof (induction ps s arbitrary: x rule: match_pats.induct)
  case (2 p ps s)
  then have "starts_with s p" "match_pats ps (drop (length p) s) = Some (x, r)" by (auto split: if_splits)
  moreover obtain u where "drop (length p) s = u @ r" "CHR ''['' \<notin> set u"
    using 2 calculation by auto
  ultimately show ?case
    using 2(3) starts_with_split [of s p] by (intro exI [of _ "p @ u"]) (auto simp: bracket_free_def)
next
  case (3 ps s)
  then obtain u where "dropWhile is_space s = u @ r" "CHR ''['' \<notin> set u" by (auto split: if_splits)
  then show ?case
    using takeWhile_dropWhile_id [of is_space s] takeWhile_free [of is_space "CHR ''[''" s]
    by (intro exI [of _ "takeWhile is_space s @ u"]) (auto simp: is_space_def char_code_def)
next
  case (5 ps s)
  then obtain u where "dropWhile is_digit s = u @ r" "CHR ''['' \<notin> set u" by (auto simp: Let_def split: if_splits)
  then show ?case
    using takeWhile_dropWhile_id [of is_digit s] takeWhile_free [of is_digit "CHR ''[''" s]
    by (intro exI [of _ "takeWhile is_digit s @ u"]) (auto simp: is_digit_def char_code_def)
qed (simp_all add: bracket_free_def)

lemma match_lit:
  "match_pats (Lit p # ps) s = Some y \<Longrightarrow> starts_with s p \<and> match_pats ps (drop (length p) s) = Some y"
  by (simp split: if_splits)

lemma find_from_Nil [simp]: "find_from n m w [] = []"
  by (cases n) simp_all

lemma loose_consumes:
  assumes "anywhere loose_inject w (c # s) = Some (x, r)"
  shows "\<exists>u. s = u @ r \<and> CHR ''['' \<notin> set u"
proof -
  let ?ps = "[Spaces, Lit ''injected'', Spaces, Lit ''count='', Digits]"
  have st: "starts_with (c # s) ''[inject]''" "match_pats ?ps (drop (length ''[inject]'') (c # s)) = Some (x, r)"
    using assms unfolding anywhere_def by (blast dest: match_lit)+
  obtain u where "drop (length ''[inject]'') (c # s) = u @ r" "CHR ''['' \<notin> set u"
    using match_pats_free [OF st(2)] by (auto simp: bracket_free_def)
  then show ?thesis
    using starts_with_split [OF st(1)] by (intro exI [of _ "''inject]'' @ u"]) auto
qed

lemma strict_is_loose:
  assumes "anywhere strict_inject w s = Some (x, r)"
  shows "anywhere loose_inject v s = Some (x, r)"
proof -
  obtain t where "s = ''[inject] injected count='' @ t"
    using assms by (auto simp: anywhere_def starts_with_iff split: if_splits)
  then show ?thesis using assms by (simp add: anywhere_def is_space_def char_code_def Let_def)
qed

lemma strict_needs_bracket: "c \<noteq> CHR ''['' \<Longrightarrow> anywhere strict_inject w (c # s) = None"
  by (simp add: anywhere_def)

lemma find_from_ignores:
  assumes "\<And>s. m w s = m v s"
  shows "find_from n m w s = find_from n m v s"
proof (cases n)
  case (Suc k)
  then show ?thesis using assms by (cases s) simp_all
qed simp

lemma strict_skips:
  "CHR ''['' \<notin> set u \<Longrightarrow> length u \<le> n \<Longrightarrow>
   find_from n (anywhere strict_inject) w (u @ r) = find_from (n - length u) (anywhere strict_inject) False r"
proof (induction u arbitrary: n w)
  case Nil
  have "find_from n (anywhere strict_inject) w r = find_from n (anywhere strict_inject) False r"
    by (rule find_from_ignores) (simp only: anywhere_def)
  then show ?case by simp
next
  case (Cons c u)
  then obtain k where "n = Suc k" "length u \<le> k" by (cases n) auto
  moreover have "anywhere strict_inject w (c # u @ r) = None" using Cons.prems(1) by (intro strict_needs_bracket) auto
  ultimately show ?case using Cons by simp
qed

definition seen_counts :: "string list list \<Rightarrow> nat" where
  "seen_counts ms = sum_list (map (\<lambda>m. digits_value (hd m)) ms)"

lemma strict_within_loose:
  "length s \<le> n \<Longrightarrow> length s \<le> k \<Longrightarrow>
   seen_counts (find_from n (anywhere strict_inject) w s) \<le> seen_counts (find_from k (anywhere loose_inject) v s)"
proof (induction "length s" arbitrary: s n k w v rule: less_induct)
  case less
  show ?case
  proof (cases s)
    case (Cons c t)
    then obtain n' k' where nk: "n = Suc n'" "k = Suc k'" "length t \<le> n'" "length t \<le> k'"
      using less(2,3) by (cases n; cases k) auto
    show ?thesis
    proof (cases "anywhere loose_inject v s")
      case None
      then have "anywhere strict_inject w s = None" using strict_is_loose [of w s _ _ v] by (cases "anywhere strict_inject w s") auto
      then show ?thesis using None Cons nk less(1) [of t n' k'] by (simp add: seen_counts_def)
    next
      case (Some xr)
      obtain x r where xr: "xr = (x, r)" by fastforce
      obtain u where u: "t = u @ r" "CHR ''['' \<notin> set u" using loose_consumes Some xr Cons by blast
      have r: "length r < length s" "length r \<le> k'" using u(1) Cons nk(4) by simp_all
      show ?thesis
      proof (cases "anywhere strict_inject w s")
        case (Some yq)
        then have "yq = (x, r)" using strict_is_loose [of w s "fst yq" "snd yq" v] \<open>anywhere loose_inject v s = Some xr\<close> xr by simp
        then show ?thesis
          using Some \<open>anywhere loose_inject v s = Some xr\<close> xr Cons nk r u(1) less(1) [OF r(1), of n' k']
          by (simp add: seen_counts_def)
      next
        case None
        have "find_from n' (anywhere strict_inject) (word_char c) t = find_from (n' - length u) (anywhere strict_inject) False r"
          using strict_skips [OF u(2)] u(1) nk(3) by simp
        then show ?thesis
          using None Some xr Cons nk r u(1) less(1) [OF r(1), of "n' - length u" k']
          by (simp add: seen_counts_def trans_le_add2)
      qed
    qed
  qed (simp add: seen_counts_def)
qed

text \<open>The two readers of the plugin's log agree: whenever the delivery of a cell is reported as \<open>YES\<close>, the recall
  funnel of the same log counts at least one injected memory, however the log mixes well-formed, spaced and broken
  lines.\<close>

theorem delivery_is_in_the_funnel:
  assumes "scan_cell_delivery plog = Some ''YES''"
  shows "\<exists>f. scan_recall_funnel plog = Some f \<and> 1 \<le> rf_injected_count f"
proof -
  obtain payload where plog: "plog = Some payload" using assms by (auto simp: scan_cell_delivery_def split: option.splits)
  let ?ms = "find_all (anywhere strict_inject) payload"
  obtain m where m: "m \<in> set ?ms" "1 \<le> digits_value (hd m)"
    using assms plog by (auto simp: scan_cell_delivery_def Let_def list_ex_iff split: if_splits)
  have "digits_value (hd m) \<le> seen_counts ?ms"
    unfolding seen_counts_def using m(1) by (intro member_le_sum_list) auto
  also have "\<dots> \<le> seen_counts (funnel_injected payload)"
    unfolding find_all_def funnel_injected_def by (rule strict_within_loose) simp_all
  finally have "1 \<le> int (seen_counts (funnel_injected payload))" using m(2) by linarith
  then show ?thesis using plog by (simp add: scan_recall_funnel_def seen_counts_def Let_def)
qed

theorem delivery_is_in_the_funnel_witness:
  "\<exists>f. scan_recall_funnel (Some ''[inject] injected count=2'') = Some f \<and> 1 \<le> rf_injected_count f"
  by (rule delivery_is_in_the_funnel)
    (simp add: scan_cell_delivery_def find_all_def anywhere_def is_digit_def char_code_def digits_value_def Let_def)

end
