(* ===== verification/Cell_Delivery.thy ===== *)
theory Cell_Delivery
  imports Serve_Chunks Cell_Attempts Oracle_Scan Cell_Telemetry
begin

text \<open>
  How a message of a cell reaches the worker (\<open>_run_cell_attempt\<close> and the first run of \<open>_run_cell_impl\<close>, with
  \<open>_run_opencode_with_zero_tool_resumes\<close>, of \<open>wevibe_bench/adapters/backgammon.py\<close>): over the serve when there is
  one, else, and after any exception of the serve, through worker processes.  Only the processes write the
  event log of the cell, which is what the oracle scan and the event counts read when the cell is over.
\<close>

section \<open>Worker processes\<close>

record stdout_process =
  sp_out :: "(real \<times> string) list"
  sp_err :: "string list"
  sp_killed :: "string option"
  sp_exit :: "int option"
  sp_now_ms :: int

text \<open>The lines the reader puts into the event log: each before it is decoded, so the one that stops the reader is the
  last.\<close>

fun lines_written ::
  "(pyval \<Rightarrow> string) \<Rightarrow> (string \<Rightarrow> string) \<Rightarrow> (string \<Rightarrow> pyval option) \<Rightarrow> string \<Rightarrow> (real \<times> string) list
     \<Rightarrow> worker_state \<Rightarrow> string list" where
  "lines_written rp fp loads phase [] s = []"
| "lines_written rp fp loads phase ((now, line) # ls) s =
     line # (case worker_line rp fp loads phase now line s of
               Inl _ \<Rightarrow> [] | Inr s' \<Rightarrow> lines_written rp fp loads phase ls s')"

record worker_io =
  wi_rp :: "pyval \<Rightarrow> string"
  wi_fp :: "string \<Rightarrow> string"
  wi_loads :: "string \<Rightarrow> pyval option"

definition process_stats :: "worker_io \<Rightarrow> string \<Rightarrow> string option \<Rightarrow> stdout_process \<Rightarrow> run_stats" where
  "process_stats w phase fb p =
     run_opencode (wi_rp w) (wi_fp w) (wi_loads w) phase fb (sp_out p) (sp_err p) (sp_killed p) (sp_exit p) (sp_now_ms p)"

definition process_lines :: "worker_io \<Rightarrow> string \<Rightarrow> string option \<Rightarrow> stdout_process \<Rightarrow> string list" where
  "process_lines w phase fb p = lines_written (wi_rp w) (wi_fp w) (wi_loads w) phase (sp_out p) (worker_init fb)"

definition resume_phase :: "string \<Rightarrow> nat \<Rightarrow> string" where
  "resume_phase phase k = (if k = 0 then phase else phase @ ''-zero-tool-resume-'' @ string_of_int (int k))"

text \<open>The aggregate and the latest process after \<open>k\<close> resumes, with the session each process falls back to.\<close>

fun resumed :: "worker_io \<Rightarrow> string \<Rightarrow> string option \<Rightarrow> (nat \<Rightarrow> stdout_process) \<Rightarrow> nat
     \<Rightarrow> string option \<times> run_stats \<times> run_stats" where
  "resumed w phase fb ps 0 = (let r = process_stats w phase fb (ps 0) in (fb, r, r))"
| "resumed w phase fb ps (Suc k) =
     (let (_, g, c) = resumed w phase fb ps k; sid = text_or (rs_session_id c) (text_or (rs_session_id g) fb);
          r = process_stats w (resume_phase phase (Suc k)) sid (ps (Suc k))
      in (sid, merge_stats g r (Suc k), r))"

definition nth_run :: "worker_io \<Rightarrow> string \<Rightarrow> string option \<Rightarrow> (nat \<Rightarrow> stdout_process) \<Rightarrow> nat \<Rightarrow> run_stats" where
  "nth_run w phase fb ps k = snd (snd (resumed w phase fb ps k))"

definition nth_lines :: "worker_io \<Rightarrow> string \<Rightarrow> string option \<Rightarrow> (nat \<Rightarrow> stdout_process) \<Rightarrow> nat \<Rightarrow> string list" where
  "nth_lines w phase fb ps k = process_lines w (resume_phase phase k) (fst (resumed w phase fb ps k)) (ps k)"

text \<open>The log is opened in append mode by every process.\<close>

definition stdout_pass ::
  "worker_io \<Rightarrow> string \<Rightarrow> string option \<Rightarrow> (nat \<Rightarrow> stdout_process) \<Rightarrow> string list option
     \<Rightarrow> (run_stats \<times> string list option) option" where
  "stdout_pass w phase fb ps events =
     (case zero_tool_loop (nth_run w phase fb ps) fb 0 (nth_run w phase fb ps 0) of
        None \<Rightarrow> None
      | Some (_, n) \<Rightarrow>
          map_option (\<lambda>r. (r, Some (opt_or events [] @ concat (map (nth_lines w phase fb ps) [0 ..< Suc n]))))
            (run_with_zero_tool_resumes (nth_run w phase fb ps) fb))"

section \<open>A delivery\<close>

text \<open>What one message meets: the session of the serve with the drive or, for the first message, the chunks driven
  through it, and the processes that would run instead.\<close>

datatype served = One_Drive drive_env | Chunks chunk_env nat

record delivery =
  de_phase :: string
  de_fallback :: "string option"
  de_serve :: "(string \<times> served) option"
  de_processes :: "nat \<Rightarrow> stdout_process"

definition drive :: "(pyval \<Rightarrow> string) \<Rightarrow> string \<Rightarrow> string \<Rightarrow> served \<Rightarrow> (serve_error + serve_stats) option" where
  "drive rp phase sid v = (case v of
     One_Drive env \<Rightarrow> run_opencode_serve rp phase sid env
   | Chunks env n \<Rightarrow> run_opencode_serve_chunked rp sid env n)"

text \<open>\<open>except Exception\<close>: whatever the serve raises, the message is delivered again through processes.\<close>

definition run_cell_attempt ::
  "worker_io \<Rightarrow> delivery \<Rightarrow> string list option \<Rightarrow> (run_stats \<times> string list option) option" where
  "run_cell_attempt w d events =
     (let by_process = stdout_pass w (de_phase d) (de_fallback d) (de_processes d) events in
      case de_serve d of
        None \<Rightarrow> by_process
      | Some (sid, v) \<Rightarrow>
          (case drive (wi_rp w) (de_phase d) sid v of
             None \<Rightarrow> None
           | Some (Inl _) \<Rightarrow> by_process
           | Some (Inr r) \<Rightarrow> Some (run_stats.truncate r, events)))"

text \<open>All deliveries of a cell, one after the other.\<close>

fun deliveries :: "worker_io \<Rightarrow> delivery list \<Rightarrow> string list option \<Rightarrow> (run_stats list \<times> string list option) option" where
  "deliveries w [] events = Some ([], events)"
| "deliveries w (d # ds) events = (case run_cell_attempt w d events of
     None \<Rightarrow> None
   | Some (r, events') \<Rightarrow> map_option (\<lambda>(rs, e). (r # rs, e)) (deliveries w ds events'))"

definition served_over :: "worker_io \<Rightarrow> delivery \<Rightarrow> serve_stats \<Rightarrow> bool" where
  "served_over w d r \<longleftrightarrow> (case de_serve d of
     None \<Rightarrow> False | Some (sid, v) \<Rightarrow> drive (wi_rp w) (de_phase d) sid v = Some (Inr r))"

text \<open>What the end of the cell reads off the log.\<close>

definition cell_evidence :: "worker_io \<Rightarrow> string list \<Rightarrow> string list option \<Rightarrow> cheat_finding \<times> (nat \<times> nat) option" where
  "cell_evidence w markers events = (scan_events (wi_loads w) (wi_rp w) markers events, extract_event_counts (wi_loads w) events)"

section \<open>What is not scanned\<close>

lemma served_leaves_log:
  "served_over w d r \<Longrightarrow> run_cell_attempt w d events = Some (run_stats.truncate r, events)"
  by (auto simp: served_over_def run_cell_attempt_def split: option.splits prod.splits)

lemma served_deliveries:
  "list_all2 (served_over w) ds rs \<Longrightarrow> deliveries w ds events = Some (map run_stats.truncate rs, events)"
  by (induction ds rs rule: list_all2_induct) (simp_all add: served_leaves_log)

text \<open>C20. A cell whose messages all go over the serve is never searched for a worker that read the hidden gates:
  whatever its transcripts hold, no line reaches the event log, so at its end the scan, a hard gate, finds nothing,
  and the counts of tool calls and test runs are missing.  With the log of an earlier run of the same cell still
  there, the scan and the counts are those of the earlier run.\<close>

theorem served_cells_are_not_scanned:
  assumes "list_all2 (served_over w) ds rs"
  shows "(\<exists>e. deliveries w ds None = Some (map run_stats.truncate rs, e) \<and>
            cell_evidence w markers e = (\<lparr>cf_cheated = False, cf_hits = []\<rparr>, None)) \<and>
         deliveries w ds (Some old) = Some (map run_stats.truncate rs, Some old)"
  using served_deliveries [OF assms]
  by (auto simp: cell_evidence_def scan_events_def extract_event_counts_def Let_def)

section \<open>Both runs of a cell that is run again\<close>

lemma stdout_pass_appends:
  assumes "stdout_pass w phase fb ps None = Some (r, Some new)"
  shows "stdout_pass w phase fb ps (Some old) = Some (r, Some (old @ new))"
  using assms by (auto simp: stdout_pass_def split: option.splits)

lemma counts_append:
  "extract_event_counts loads (Some (a @ b)) =
     (case (extract_event_counts loads (Some a), extract_event_counts loads (Some b)) of
        (Some (t, u), Some (t', u')) \<Rightarrow> Some (t + t', u + u') | _ \<Rightarrow> None)"
  by (simp add: extract_event_counts_def map_filter_append Let_def)

lemma scan_append:
  "cf_cheated (scan_events loads rp markers (Some (a @ b))) \<longleftrightarrow>
     cf_cheated (scan_events loads rp markers (Some a)) \<or> cf_cheated (scan_events loads rp markers (Some b))"
  by (auto simp: scan_events_def Let_def)

text \<open>A session that is run again, as after a crash, writes into the log of its first run, since the label and with
  it the directory are the same and nothing removes the file: its tool calls and test runs are counted on top of
  the first run's, and if the first run read the oracle, the second is found to have cheated.\<close>

theorem second_run_answers_for_the_first:
  assumes "stdout_pass w phase fb ps None = Some (r, Some new)"
    and "extract_event_counts (wi_loads w) (Some old) = Some (t, u)"
    and "extract_event_counts (wi_loads w) (Some new) = Some (t', u')"
  shows "\<exists>e. stdout_pass w phase fb ps (Some old) = Some (r, e) \<and>
     cf_cheated (fst (cell_evidence w markers e)) =
       (cf_cheated (fst (cell_evidence w markers (Some old))) \<or> cf_cheated (fst (cell_evidence w markers (Some new)))) \<and>
     snd (cell_evidence w markers e) = Some (t + t', u + u')"
  using stdout_pass_appends [OF assms(1)] assms(2,3)
  by (auto simp: cell_evidence_def scan_append counts_append)

text \<open>What the serve did before it failed is not in the record: after any exception of the drive the message is
  delivered again to a worker process and the run's figures, cost included, are those of the processes alone,
  exactly as if there had been no serve.\<close>

theorem failed_drive_is_delivered_again:
  assumes "de_serve d = Some (sid, v)" and "drive (wi_rp w) (de_phase d) sid v = Some (Inl x)"
  shows "run_cell_attempt w d events = run_cell_attempt w (d\<lparr>de_serve := None\<rparr>) events"
  using assms by (simp add: run_cell_attempt_def)

section \<open>Samples\<close>

definition sample_io :: worker_io where
  "sample_io = \<lparr>wi_rp = (\<lambda>_. []), wi_fp = (\<lambda>_. []),
     wi_loads = (\<lambda>l. if l = ''t'' then Some (PDict [(''type'', PStr ''tool_use''),
       (''part'', PDict [(''tool'', PStr ''bash''),
          (''state'', PDict [(''input'', PDict [(''command'', PStr ''npm test'')])])])]) else None)\<rparr>"

definition sample_process :: stdout_process where
  "sample_process = \<lparr>sp_out = [(0, ''t'')], sp_err = [], sp_killed = None, sp_exit = Some 0, sp_now_ms = 5\<rparr>"

lemma sample_served:
  "\<exists>r. run_opencode_serve (\<lambda>_. []) ''initial'' ''s'' (sample_drive (\<lambda>_. [sample_ask, sample_answer]) (\<lambda>_. True))
       = Some (Inr r)"
proof -
  let ?env = "sample_drive (\<lambda>_. [sample_ask, sample_answer]) (\<lambda>_. True)"
  obtain r where "drive_step (\<lambda>_. []) ''initial'' ''s'' (Some (metrics_of [sample_facts])) (de_round ?env 0)
      (drive_start (Some [sample_ask])) = Inr (Inl r)"
    using sample_answered [of "\<lambda>_. True" 0 "\<lambda>_. [sample_ask, sample_answer]" "drive_start (Some [sample_ask])"
      "\<lambda>_. []" "''initial''" "''s''" "Some (metrics_of [sample_facts])"] by (auto simp: drive_start_def)
  then show ?thesis unfolding run_opencode_serve_def sample_baseline by (simp add: drive_loop.simps)
qed

definition sample_delivery :: delivery where
  "sample_delivery = \<lparr>de_phase = ''initial'', de_fallback = None,
     de_serve = Some (''s'', One_Drive (sample_drive (\<lambda>_. [sample_ask, sample_answer]) (\<lambda>_. True))),
     de_processes = (\<lambda>_. sample_process)\<rparr>"

theorem served_cells_are_not_scanned_witness:
  "\<exists>rs e. deliveries sample_io [sample_delivery] None = Some (rs, e) \<and> length rs = 1 \<and>
     cell_evidence sample_io [''/gates/''] e = (\<lparr>cf_cheated = False, cf_hits = []\<rparr>, None)"
proof -
  obtain r where "served_over sample_io sample_delivery r"
    using sample_served by (auto simp: served_over_def sample_delivery_def drive_def sample_io_def)
  then have "list_all2 (served_over sample_io) [sample_delivery] [r]" by simp
  from served_cells_are_not_scanned [OF this, of "[''/gates/'']" "[]"] obtain e where
    "deliveries sample_io [sample_delivery] None = Some (map run_stats.truncate [r], e)"
    "cell_evidence sample_io [''/gates/''] e = (\<lparr>cf_cheated = False, cf_hits = []\<rparr>, None)" by blast
  then show ?thesis by (intro exI [of _ "map run_stats.truncate [r]"] exI [of _ e]) simp
qed

lemma sample_pass:
  "\<exists>r. stdout_pass sample_io ''initial'' None (\<lambda>_. sample_process) None = Some (r, Some [''t''])"
proof -
  let ?run = "nth_run sample_io ''initial'' None (\<lambda>_. sample_process)"
  have "rs_terminal_zero_tool_turn (?run 0) = False" by code_simp
  moreover have "nth_lines sample_io ''initial'' None (\<lambda>_. sample_process) 0 = [''t'']" by code_simp
  ultimately show ?thesis
    by (simp add: stdout_pass_def run_with_zero_tool_resumes_def zero_tool_loop.simps [of ?run])
qed

theorem second_run_answers_for_the_first_witness:
  "\<exists>r e. stdout_pass sample_io ''initial'' None (\<lambda>_. sample_process) (Some [''t'', ''t'']) = Some (r, e) \<and>
     snd (cell_evidence sample_io [] e) = Some (3, 3)"
proof -
  obtain r where r: "stdout_pass sample_io ''initial'' None (\<lambda>_. sample_process) None = Some (r, Some [''t''])"
    using sample_pass by blast
  have counts: "extract_event_counts (wi_loads sample_io) (Some [''t'', ''t'']) = Some (2, 2)"
    "extract_event_counts (wi_loads sample_io) (Some [''t'']) = Some (1, 1)" by code_simp+
  from second_run_answers_for_the_first [OF r counts, of "[]"] show ?thesis by auto
qed

definition broken_delivery :: delivery where
  "broken_delivery = sample_delivery\<lparr>de_serve := Some (''s'', One_Drive
     ((sample_drive (\<lambda>_. []) (\<lambda>_. True))\<lparr>de_baseline := Inl (Other_Error PyTypeError)\<rparr>))\<rparr>"

theorem failed_drive_is_delivered_again_witness:
  "\<exists>r. run_cell_attempt sample_io broken_delivery None = Some (r, Some [''t''])"
proof -
  have serve: "de_serve broken_delivery = Some (''s'', One_Drive
     ((sample_drive (\<lambda>_. []) (\<lambda>_. True))\<lparr>de_baseline := Inl (Other_Error PyTypeError)\<rparr>))"
    by (simp add: broken_delivery_def)
  have "drive (wi_rp sample_io) (de_phase broken_delivery) ''s'' (One_Drive
     ((sample_drive (\<lambda>_. []) (\<lambda>_. True))\<lparr>de_baseline := Inl (Other_Error PyTypeError)\<rparr>))
     = Some (Inl (Other_Error PyTypeError))"
    by (simp add: drive_def run_opencode_serve_def read_metrics_def catch_client_def)
  from failed_drive_is_delivered_again [OF serve this] sample_pass show ?thesis
    by (simp add: run_cell_attempt_def broken_delivery_def sample_delivery_def)
qed

end
