(* ===== verification/Gate_Run.thy ===== *)
theory Gate_Run
  imports Cell_Attempts
begin

text \<open>
  One run of the hidden gates: \<open>_run_gate_report\<close> of \<open>wevibe_bench/adapters/backgammon.py\<close> with its watchdog, the two
  methods named \<open>_kill_process_group\<close>, the republished phase lines (\<open>_emit_gate_phase_progress\<close>) and the
  normalisation of what the report says.  Times are seconds since the start; the pipe is open as long as any
  process of the gate holds it, which may be longer than the child itself lives.
\<close>

section \<open>Killing the gate\<close>

datatype kill_outcome = Group_Killed | No_Such_Process | Not_Permitted | Other_OS_Error

text \<open>What a kill did: the group is gone, only the child was signalled, nothing was signalled, or it raised.\<close>

datatype kill_effect = Tree_Gone | Child_Signalled | Nothing_Done | Kill_Raised py_exc

text \<open>The method at line 3016: the group, and on any failure the child.\<close>

definition kill_process_group_first :: "kill_outcome \<Rightarrow> kill_effect" where
  "kill_process_group_first k = (if k = Group_Killed then Tree_Gone else Child_Signalled)"

text \<open>The method of the same name at line 5145, which is the one the class has: nothing for a child that has exited, and
  only a missing process is caught.\<close>

definition kill_gate_group :: "bool \<Rightarrow> kill_outcome \<Rightarrow> kill_effect" where
  "kill_gate_group child_exited k =
     (if child_exited then Nothing_Done
      else case k of
        Group_Killed \<Rightarrow> Tree_Gone
      | No_Such_Process \<Rightarrow> Nothing_Done
      | Not_Permitted \<Rightarrow> Kill_Raised PyOSError
      | Other_OS_Error \<Rightarrow> Kill_Raised PyOSError)"

section \<open>One run\<close>

record gate_process =
  gp_lines :: "(real \<times> string) list"
  gp_child_exit :: "real option"
  gp_pipe_closed :: "real option"
  gp_exit_code :: int
  gp_report :: "string option"
  gp_kill :: kill_outcome

definition by_then :: "real option \<Rightarrow> real \<Rightarrow> bool" where
  "by_then t limit \<longleftrightarrow> (case t of None \<Rightarrow> False | Some x \<Rightarrow> x \<le> limit)"

definition gate_argv :: "string \<Rightarrow> string \<Rightarrow> string option \<Rightarrow> string list" where
  "gate_argv worktree report roster =
     [''node'', ''report.mjs'', ''--target'', worktree, ''--out'', report]
     @ (case roster of Some r \<Rightarrow> [''--roster'', r] | None \<Rightarrow> [])"

text \<open>The reader blocks until the pipe closes, then the child is waited for.  The watchdog fires when that is not over at
  the limit; a kill of the tree ends both.  \<open>None\<close>: the wait never ends.  A kill that raises does so in the timer's
  thread, where nothing sees it.\<close>

definition reader_ends :: "real \<Rightarrow> gate_process \<Rightarrow> (bool \<times> string list) option" where
  "reader_ends limit p =
     (let until = (\<lambda>t. map snd (filter (\<lambda>(x, _). x \<le> t) (gp_lines p))) in
      if by_then (gp_pipe_closed p) limit \<and> by_then (gp_child_exit p) limit then Some (False, map snd (gp_lines p))
      else if kill_gate_group (by_then (gp_child_exit p) limit) (gp_kill p) = Tree_Gone
      then Some (True, until limit)
      else case (gp_pipe_closed p, gp_child_exit p) of
             (Some t, Some _) \<Rightarrow> Some (True, until t) | _ \<Rightarrow> None)"

text \<open>The report file is the one the gate wrote, else whatever was there before.\<close>

definition report_after :: "gate_process \<Rightarrow> string option \<Rightarrow> string option" where
  "report_after p old = (case gp_report p of Some t \<Rightarrow> Some t | None \<Rightarrow> old)"

definition read_report :: "(string \<Rightarrow> pyval option) \<Rightarrow> string option \<Rightarrow> gate_outcome" where
  "read_report loads file = (case file of
     None \<Rightarrow> Gate_Raised (PyRuntimeError ''gate report missing'')
   | Some t \<Rightarrow> (case loads t of
       None \<Rightarrow> Gate_Raised PyValueError
     | Some (PDict d) \<Rightarrow> Gate_Report d
     | Some _ \<Rightarrow> Gate_Raised (PyRuntimeError ''gate report must be an object'')))"

definition gate_log :: "(real \<Rightarrow> string) \<Rightarrow> string list \<Rightarrow> string list \<Rightarrow> bool \<Rightarrow> int \<Rightarrow> string list" where
  "gate_log secs header ls timed_out code =
     header @ ls
     @ (if timed_out then [''[harness] gate TIMED OUT; process group killed''] else [])
     @ [''exit: '' @ string_of_int code]"

definition run_gate_report ::
  "(string \<Rightarrow> pyval option) \<Rightarrow> real \<Rightarrow> gate_process \<Rightarrow> string option \<Rightarrow> (gate_outcome \<times> string option) option" where
  "run_gate_report loads limit p old = (case reader_ends limit p of
     None \<Rightarrow> None
   | Some (timed_out, _) \<Rightarrow>
       Some (if timed_out then Gate_Timeout else read_report loads (report_after p old), report_after p old))"

section \<open>Phase markers\<close>

definition key_values :: "string \<Rightarrow> (string \<times> string) list" where
  "key_values s = fold (\<lambda>(k, v) d. AList.update k v d)
     (List.map_filter (\<lambda>part. case partition_char (CHR ''='') part of
        (k, found, v) \<Rightarrow> if found then Some (k, v) else None) (split_ws s)) []"

definition field_or :: "string \<Rightarrow> (string \<times> string) list \<Rightarrow> string \<Rightarrow> string" where
  "field_or d kv k = opt_or (map_of kv k) d"

definition emit_gate_phase_progress :: "string \<Rightarrow> string \<Rightarrow> string option" where
  "emit_gate_phase_progress log_path line =
     (let t = strip line in
      if starts_with t ''[report] gateset ''
      then (let f = key_values (drop (length ''[report] gateset '') t); phase = field_or [] f ''phase'' in
            if phase = [] then None
            else Some (''PROGRESS step=gate-phase-gates phase='' @ phase @ '' count='' @ field_or ''unknown'' f ''count''
                       @ '' log='' @ log_path))
      else if \<not> starts_with t ''[report] phase='' then None
      else (let f = key_values (drop (length ''[report] '') t); phase = field_or [] f ''phase'' in
            if phase = [] then None
            else (case map_of f ''status'' of
                None \<Rightarrow> Some (''PROGRESS step=gate-phase-start phase='' @ phase @ '' log='' @ log_path)
              | Some st \<Rightarrow> Some (''PROGRESS step=gate-phase-end phase='' @ phase @ '' status='' @ st
                           @ '' problems='' @ field_or ''unknown'' f ''problems'' @ '' log='' @ log_path))))"

section \<open>What the report says\<close>

definition normalize_string_list :: "(pyval \<Rightarrow> string) \<Rightarrow> pyval \<Rightarrow> string list" where
  "normalize_string_list rp v = (case v of
     PList xs \<Rightarrow> filter (\<lambda>t. t \<noteq> []) (map (\<lambda>x. strip (py_str rp x)) xs) | _ \<Rightarrow> [])"

definition normalize_problem :: "(pyval \<Rightarrow> string) \<Rightarrow> pyval \<Rightarrow> pydict" where
  "normalize_problem rp v = (case v of
     PDict d \<Rightarrow> [(''check'', PStr (py_str rp (dget_default d ''check'' (PStr ''unknown'')))),
                (''expected'', PStr (py_str rp (dget_default d ''expected'' (PStr [])))),
                (''observed'', PStr (py_str rp (dget_default d ''observed'' (PStr []))))]
   | x \<Rightarrow> [(''check'', PStr ''unknown''), (''expected'', PStr []), (''observed'', PStr (py_str rp x))])"

definition normalize_problems :: "(pyval \<Rightarrow> string) \<Rightarrow> pyval \<Rightarrow> pydict list" where
  "normalize_problems rp v = (case v of PList xs \<Rightarrow> map (normalize_problem rp) xs | _ \<Rightarrow> [])"

section \<open>When the gate is over\<close>

text \<open>A gate that is not over at its limit is never a verdict: whatever report file is there, the run is a timeout or
  never returns.  A gate that is over in time is judged by the report file as it is, its exit code
  notwithstanding; without a report file it raises.\<close>

theorem late_gate_is_no_verdict:
  "(if by_then (gp_pipe_closed p) limit \<and> by_then (gp_child_exit p) limit
    then run_gate_report loads limit p old = Some (read_report loads (report_after p old), report_after p old)
    else run_gate_report loads limit p old = None \<or> run_gate_report loads limit p old = Some (Gate_Timeout, report_after p old))"
  by (auto simp: run_gate_report_def reader_ends_def Let_def split: option.splits)


definition sample_gate :: gate_process where
  "sample_gate = \<lparr>gp_lines = [(1, ''[report] phase=backend'')], gp_child_exit = Some 2, gp_pipe_closed = None,
     gp_exit_code = 1, gp_report = None, gp_kill = Group_Killed\<rparr>"

lemma orphaned_gate_hangs: "run_gate_report (\<lambda>_. None) 3600 sample_gate None = None"
  by (simp add: sample_gate_def run_gate_report_def reader_ends_def by_then_def kill_gate_group_def)

text \<open>The report of an earlier run is believed: report files are named after the attempt only, nothing removes them
  when a session is run again in its directory, so a gate that crashes in time without writing its own report
  passes on the earlier one, as a verdict of this attempt.\<close>

theorem earlier_report_is_believed:
  assumes "by_then (gp_pipe_closed p) limit" "by_then (gp_child_exit p) limit" and "gp_report p = None"
    and "loads old = Some (PDict d)"
  shows "run_gate_report loads limit p (Some old) = Some (Gate_Report d, Some old)"
  using assms by (simp add: run_gate_report_def reader_ends_def read_report_def report_after_def Let_def)

theorem earlier_report_is_believed_witness:
  "run_gate_report (\<lambda>_. Some (PDict [(''verdict'', PStr ''PASS'')])) 3600 (sample_gate\<lparr>gp_pipe_closed := Some 2\<rparr>) (Some [])
   = Some (Gate_Report [(''verdict'', PStr ''PASS'')], Some [])"
  by (rule earlier_report_is_believed) (simp_all add: sample_gate_def by_then_def)

end
