(* ===== verification/Cell_Setup.thy ===== *)
theory Cell_Setup
  imports Process_Reaper Model_Selection
begin

text \<open>
  The preparation of a cell: the first part of \<open>_run_cell_impl\<close> of \<open>wevibe_bench/adapters/backgammon.py\<close> with
  \<open>_copy_tree_contents\<close>, \<open>_prepare_memory_mode\<close>, \<open>_init_worktree_git\<close>, \<open>_build_cell_config\<close>,
  \<open>_write_worker_permission_config\<close> and the session title.  The worktree is a map from relative paths to
  texts; commands are recorded in order and answered by \<open>su_run\<close>; \<open>dumps\<close> prints JSON.
\<close>

section \<open>The session's title\<close>

definition title_char :: "char \<Rightarrow> bool" where
  "title_char c \<longleftrightarrow> (let n = char_code c in
     48 \<le> n \<and> n \<le> 57 \<or> 65 \<le> n \<and> n \<le> 90 \<or> 97 \<le> n \<and> n \<le> 122 \<or> c = CHR ''-'')"

fun fold_title :: "bool \<Rightarrow> string \<Rightarrow> string" where
  "fold_title inside [] = []"
| "fold_title inside (c # s) =
     (if title_char c then c # fold_title False s
      else if inside then fold_title True s else CHR ''-'' # fold_title True s)"

definition safe_title_org_component :: "string option \<Rightarrow> string" where
  "safe_title_org_component org_id =
     (let folded = strip_char (CHR ''-'') (fold_title False (opt_or org_id [])) in
      if folded = [] then ''org'' else folded)"

definition bench_session_title :: "string option \<Rightarrow> string \<Rightarrow> int \<Rightarrow> string" where
  "bench_session_title org_id memory_mode cell_ts =
     ''wevibe-bench-'' @ safe_title_org_component org_id @ ''-'' @ memory_mode @ ''-'' @ string_of_int cell_ts"

section \<open>The worktree\<close>

type_synonym tree = "(string \<times> string) list"

definition copy_tree_contents :: "tree option \<Rightarrow> tree \<Rightarrow> py_exc + tree" where
  "copy_tree_contents src dst = (case src of
     None \<Rightarrow> Inl PyFileNotFoundError
   | Some files \<Rightarrow> Inr (fold (\<lambda>(p, t) d. AList.update p t d) files dst))"

definition under_wevibe :: "string \<Rightarrow> bool" where
  "under_wevibe p \<longleftrightarrow> starts_with p ''.wevibe/''"

text \<open>The second component is \<open>pure\<close>: whether the worker runs without plugins.\<close>

definition prepare_memory_mode ::
  "(pydict \<Rightarrow> string) \<Rightarrow> string \<Rightarrow> string option \<Rightarrow> string option \<Rightarrow> tree \<Rightarrow> py_exc + tree \<times> bool" where
  "prepare_memory_mode dumps mode org_marker bench_check files =
     (if mode = ''on''
      then (case org_marker of
              None \<Rightarrow> Inl PyFileNotFoundError
            | Some org \<Rightarrow>
                (let files = AList.update ''.wevibe/org.json'' org files;
                     files = AList.update ''.wevibe/predicate.json''
                       (dumps [(''reporter'', PStr ''bench-fixture''), (''command'', PStr ''node bench-check.mjs'')]) files;
                     files = (case bench_check of Some t \<Rightarrow> AList.update ''bench-check.mjs'' t files | None \<Rightarrow> files)
                 in Inr (files, False)))
      else Inr (filter (\<lambda>(p, _). \<not> under_wevibe p) files, True))"

definition has_injection_record :: "tree \<Rightarrow> bool" where
  "has_injection_record files \<longleftrightarrow> map_of files ''.wevibe/org.json'' \<noteq> None"

section \<open>The cell\<close>

record cell_plan =
  cp_run_label :: string
  cp_model :: string
  cp_memory_mode :: string
  cp_mock :: "string option"
  cp_run_dir :: string
  cp_task_dir :: string
  cp_agents_md :: string
  cp_reasoning_effort :: "string option"
  cp_proxy_base_url :: "string option"
  cp_proxy_token :: "string option"
  cp_cloud :: bool
  cp_max_output_tokens :: "int option"
  cp_serve_host_port :: int
  cp_serve_container_port :: int
  cp_session_id :: "string option"
  cp_defaults :: docker_config

record setup_env =
  su_scaffold :: "tree option"
  su_mock_tree :: "tree option"
  su_org_marker :: "string option"
  su_bench_check :: "string option"
  su_docker :: cmd_result
  su_image :: cmd_result
  su_run :: "string list list \<Rightarrow> string list \<Rightarrow> cmd_result"
  su_dumps :: "pydict \<Rightarrow> string"

text \<open>The class's defaults are the configuration \<open>cp_defaults\<close>; the plan's values replace them.\<close>

definition build_cell_config :: "cell_plan \<Rightarrow> string \<Rightarrow> docker_config" where
  "build_cell_config p container_name =
     (cp_defaults p)\<lparr>dc_worktree := cp_run_dir p @ ''/worktree'', dc_memory_mode := cp_memory_mode p,
       dc_container_name := container_name, dc_session_db_host := Some (cp_run_dir p @ ''/session-db''),
       dc_plugin_state_host := cp_run_dir p @ ''/worktree/.wevibe/state'',
       dc_output_token_max := cp_max_output_tokens p, dc_proxy_base_url := cp_proxy_base_url p,
       dc_proxy_token := cp_proxy_token p, dc_cloud := cp_cloud p,
       dc_worker_logs_dir := Some (cp_run_dir p @ ''/worker-logs''),
       dc_serve_host_port := cp_serve_host_port p, dc_serve_container_port := cp_serve_container_port p\<rparr>"

definition git_commands :: "string list list" where
  "git_commands =
     [[''git'', ''init''], [''git'', ''config'', ''user.email'', ''bench@wevibe.local''],
      [''git'', ''config'', ''user.name'', ''wevibe-bench''],
      [''git'', ''commit'', ''--allow-empty'', ''-m'', ''bench cell seed'']]"

text \<open>\<open>subprocess.run(..., check=True)\<close>, one after the other.\<close>

fun run_checked ::
  "(string list list \<Rightarrow> string list \<Rightarrow> cmd_result) \<Rightarrow> string list list \<Rightarrow> string list list
     \<Rightarrow> py_exc option \<times> string list list" where
  "run_checked run [] sent = (None, sent)"
| "run_checked run (c # cs) sent =
     (let r = run sent c; sent = sent @ [c] in
      case uncaught r of
        Some x \<Rightarrow> (Some x, sent)
      | None \<Rightarrow> if exit_ok r then run_checked run cs sent else (Some (PyRuntimeError ''CalledProcessError''), sent))"

definition stale_detail :: "cmd_result \<Rightarrow> string" where
  "stale_detail r = (case r of Exit _ out err \<Rightarrow> strip (if err \<noteq> [] then err else out) | _ \<Rightarrow> [])"

definition stale_gone :: "cmd_result \<Rightarrow> bool" where
  "stale_gone r \<longleftrightarrow> exit_ok r \<or> contains (lower (stale_detail r)) ''no such container''"

datatype prepared = Mock_Cell | Docker_Of docker_config

text \<open>The result with the commands sent; the worktree was emptied before.\<close>

definition seed_worktree :: "cell_plan \<Rightarrow> setup_env \<Rightarrow> py_exc + tree \<times> bool" where
  "seed_worktree p e =
     bind_result (copy_tree_contents (su_scaffold e) []) (\<lambda>files.
       prepare_memory_mode (su_dumps e) (cp_memory_mode p) (su_org_marker e) (su_bench_check e)
         (AList.update ''AGENTS.md''
            (cp_agents_md p @ [CHR 0x0A] @ ''## Runtime'' @ [CHR 0x0A] @ ''- Model: '' @ cp_model p @ [CHR 0x0A]) files))"

definition prepare_cell ::
  "cell_plan \<Rightarrow> setup_env \<Rightarrow> (py_exc + tree \<times> bool \<times> prepared) \<times> string list list" where
  "prepare_cell p e = (case seed_worktree p e of
     Inl x \<Rightarrow> (Inl x, [])
   | Inr (files, pure) \<Rightarrow>
       if cp_mock p \<noteq> None
       then (bind_result (copy_tree_contents (su_mock_tree e) files) (\<lambda>fs. Inr (fs, pure, Mock_Cell)), [])
       else if \<not> fst (docker_available (su_docker e))
       then (Inl (PyRuntimeError ''Docker required for isolated worker''), [])
       else if worker_image_fingerprint (su_image e) = None
       then (Inl (PyRuntimeError ''Docker worker image missing''), [])
       else
         (let name = container_name_of (cp_run_label p); rm = [''docker'', ''rm'', ''-f'', name];
              r = su_run e [] rm in
          case uncaught r of
            Some x \<Rightarrow> (Inl x, [rm])
          | None \<Rightarrow>
              if \<not> stale_gone r then (Inl (PyRuntimeError ''failed to remove stale docker container''), [rm])
              else (case run_checked (su_run e) git_commands [rm] of
                  (Some x, sent) \<Rightarrow> (Inl x, sent)
                | (None, sent) \<Rightarrow> (Inr (files, pure, Docker_Of (build_cell_config p name)), sent))))"

text \<open>What is written into the worktree when the container has been entered.\<close>

definition write_worker_permission_config :: "cell_plan \<Rightarrow> (pydict \<Rightarrow> string) \<Rightarrow> tree \<Rightarrow> py_exc + tree" where
  "write_worker_permission_config p dumps files =
     bind_result (build_worker_opencode_config (cp_model p) (cp_reasoning_effort p) (cp_proxy_base_url p)
         (cp_task_dir p @ ''/gates'') (cp_task_dir p @ ''/golden'') (cp_session_id p)) (\<lambda>config.
       Inr (AList.update ''opencode.json'' (dumps config @ [CHR 0x0A]) files))"

section \<open>What a prepared cell is\<close>

lemma run_checked_ok:
  "run_checked run cs sent = (None, sent') \<Longrightarrow> sent' = sent @ cs"
  by (induction cs arbitrary: sent) (fastforce simp: Let_def split: option.splits if_splits)+

text \<open>C12. A cell is started on a clean slate.  The preparation succeeds without a mock only if the daemon answers, the
  worker image is there and a left-over container of the cell's name was removed or did not exist; it has then
  sent the removal and the four git commands, in this order, and nothing else, and the container is configured for the
  plan's arm and name.  A cell without memory has no file under \<open>.wevibe\<close>, not even one of the scaffold, so it
  bears no injection record and runs without plugins; a cell with memory has the organisation's marker.\<close>

theorem prepared_cell_is_clean:
  assumes "prepare_cell p e = (Inr (files, pure, what), sent)" and "cp_mock p = None"
  shows "sent = [''docker'', ''rm'', ''-f'', container_name_of (cp_run_label p)] # git_commands \<and>
     fst (docker_available (su_docker e)) \<and> worker_image_fingerprint (su_image e) \<noteq> None \<and>
     stale_gone (su_run e [] [''docker'', ''rm'', ''-f'', container_name_of (cp_run_label p)]) \<and>
     (\<exists>c. what = Docker_Of c \<and> dc_memory_mode c = cp_memory_mode p \<and>
          dc_container_name c = container_name_of (cp_run_label p)) \<and>
     pure = (cp_memory_mode p \<noteq> ''on'') \<and>
     (if cp_memory_mode p = ''on'' then su_org_marker e \<noteq> None \<and> map_of files ''.wevibe/org.json'' = su_org_marker e
      else list_all (\<lambda>f. \<not> under_wevibe (fst f)) files \<and> \<not> has_injection_record files)"
proof -
  obtain fs where seed: "seed_worktree p e = Inr (files, pure)"
    and docker: "fst (docker_available (su_docker e))" "worker_image_fingerprint (su_image e) \<noteq> None"
    and stale: "stale_gone (su_run e [] [''docker'', ''rm'', ''-f'', container_name_of (cp_run_label p)])"
    and git: "run_checked (su_run e) git_commands [[''docker'', ''rm'', ''-f'', container_name_of (cp_run_label p)]] = (None, sent)"
    and what: "what = Docker_Of (build_cell_config p (container_name_of (cp_run_label p)))"
    using assms by (auto simp: prepare_cell_def Let_def split: sum.splits prod.splits if_splits option.splits)
  have mem: "pure = (cp_memory_mode p \<noteq> ''on'')"
      "if cp_memory_mode p = ''on'' then su_org_marker e \<noteq> None \<and> map_of files ''.wevibe/org.json'' = su_org_marker e
       else list_all (\<lambda>f. \<not> under_wevibe (fst f)) files"
    using seed by (auto simp: seed_worktree_def prepare_memory_mode_def result_simps Let_def list_all_iff update_conv'
        split: if_splits option.splits)
  have "\<not> has_injection_record files" if "list_all (\<lambda>f. \<not> under_wevibe (fst f)) files"
  proof
    assume "has_injection_record files"
    then have "''.wevibe/org.json'' \<in> fst ` set files"
      using map_of_eq_None_iff [of files "''.wevibe/org.json''"] by (simp add: has_injection_record_def)
    then obtain t where "(''.wevibe/org.json'', t) \<in> set files" by auto
    then have "\<not> under_wevibe ''.wevibe/org.json''" using that by (fastforce simp: list_all_iff)
    then show False by (simp add: under_wevibe_def)
  qed
  then show ?thesis using docker stale what mem run_checked_ok [OF git] by (auto simp: build_cell_config_def)
qed

definition sample_plan :: cell_plan where
  "sample_plan = \<lparr>cp_run_label = ''r'', cp_model = ''m'', cp_memory_mode = ''off'', cp_mock = None, cp_run_dir = ''/d'',
     cp_task_dir = ''/t'', cp_agents_md = [], cp_reasoning_effort = None, cp_proxy_base_url = None,
     cp_proxy_token = None, cp_cloud = False, cp_max_output_tokens = None, cp_serve_host_port = 4096,
     cp_serve_container_port = 4096, cp_session_id = None, cp_defaults = sample_config\<rparr>"

definition sample_setup :: setup_env where
  "sample_setup = \<lparr>su_scaffold = Some [(''a.ts'', []), (''.wevibe/org.json'', ''x'')], su_mock_tree = None,
     su_org_marker = None, su_bench_check = None, su_docker = Exit 0 ''27'' [],
     su_image = Exit 0 (''sha'' @ [CHR 0x0A] @ ''2026'') [], su_run = (\<lambda>_ _. Exit 0 [] []), su_dumps = (\<lambda>_. [])\<rparr>"

lemma sample_prepared:
  "\<exists>c. prepare_cell sample_plan sample_setup =
     (Inr ([(''a.ts'', []), (''AGENTS.md'', [CHR 0x0A] @ ''## Runtime'' @ [CHR 0x0A] @ ''- Model: m'' @ [CHR 0x0A])], True, Docker_Of c),
      [''docker'', ''rm'', ''-f'', container_name_of ''r''] # git_commands)"
  by (simp add: prepare_cell_def seed_worktree_def copy_tree_contents_def prepare_memory_mode_def sample_plan_def
      sample_setup_def under_wevibe_def docker_available_def worker_image_fingerprint_def strip_def lstrip_def rstrip_def
      is_space_def char_code_def uncaught_def stale_gone_def exit_ok_def git_commands_def Let_def)

theorem prepared_cell_is_clean_witness:
  "\<exists>files c sent. prepare_cell sample_plan sample_setup = (Inr (files, True, Docker_Of c), sent) \<and>
     \<not> has_injection_record files \<and> length sent = 5"
proof -
  obtain c where c: "prepare_cell sample_plan sample_setup =
     (Inr ([(''a.ts'', []), (''AGENTS.md'', [CHR 0x0A] @ ''## Runtime'' @ [CHR 0x0A] @ ''- Model: m'' @ [CHR 0x0A])], True, Docker_Of c),
      [''docker'', ''rm'', ''-f'', container_name_of ''r''] # git_commands)" using sample_prepared by blast
  from prepared_cell_is_clean [OF c] c show ?thesis by (auto simp: sample_plan_def git_commands_def)
qed

text \<open>The title is one word of letters, digits and dashes, whatever the organisation is called.\<close>

lemma fold_title_chars: "c \<in> set (fold_title b s) \<Longrightarrow> title_char c"
  by (induction b s rule: fold_title.induct) (auto simp: title_char_def char_code_def split: if_splits)

lemma strip_char_chars: "c \<in> set (strip_char x s) \<Longrightarrow> c \<in> set s"
  unfolding strip_char_def by (metis set_dropWhileD set_rev)

lemma session_title_is_plain:
  assumes "mode = ''off'' \<or> mode = ''on''" and "0 \<le> ts" and "c \<in> set (bench_session_title org mode ts)"
  shows "title_char c"
proof -
  have "list_all title_char ''org''" by (simp add: title_char_def char_code_def)
  then have "title_char d" if "d \<in> set (safe_title_org_component org)" for d
  proof (cases "strip_char (CHR ''-'') (fold_title False (opt_or org [])) = []")
    case True
    then have "d \<in> set ''org''" using that by (simp only: safe_title_org_component_def Let_def True simp_thms if_True)
    then show ?thesis using \<open>list_all title_char ''org''\<close> by (simp only: list_all_iff)
  next
    case False
    then have "d \<in> set (strip_char (CHR ''-'') (fold_title False (opt_or org [])))"
      using that by (simp only: safe_title_org_component_def Let_def False simp_thms if_False)
    then show ?thesis using fold_title_chars strip_char_chars by blast
  qed
  moreover have "title_char d" if "d \<in> set (string_of_int ts)" for d
  proof -
    have "is_digit d" using digits_of_nat_chars [of d "nat ts"] that assms(2) by (simp add: string_of_int_def)
    then show ?thesis by (simp add: title_char_def is_digit_def Let_def)
  qed
  moreover have "list_all title_char ''wevibe-bench-''" "list_all title_char ''-off-''" "list_all title_char ''-on-''"
    by (simp_all add: title_char_def char_code_def)
  ultimately show ?thesis using assms(1,3) by (auto simp: bench_session_title_def list_all_iff)
qed

end
