(* ===== verification/Hold_Review.thy ===== *)
theory Hold_Review
  imports Bench_Prelude
begin

text \<open>
  The hold at the end of a cell: \<open>_hold_for_ui_review\<close> of \<open>wevibe_bench/adapters/backgammon.py\<close> with the
  resolution of the artifact's entry point.  The stack is kept until the operator creates the release file; the
  wait is unbounded, so the model is a partial function of what the polls see.  What the hold does to processes
  and files is a list of actions; log lines and the text printed for the operator are left out.
\<close>

section \<open>The entry point of the artifact\<close>

text \<open>A file the worker wrote: missing, unreadable, not UTF-8, or text.\<close>

datatype text_file = Missing | Unreadable | Not_Utf8 | Text_File string

definition script_suffix :: "string \<Rightarrow> bool" where
  "script_suffix s \<longleftrightarrow> list_ex (\<lambda>e. starts_with (rev (lower s)) (rev e))
     [''.ts'', ''.js'', ''.mjs'', ''.cjs'', ''.tsx'', ''.jsx'']"

definition LAUNCHERS :: "string list" where
  "LAUNCHERS = [''node'', ''tsx'', ''deno'', ''bun'', ''next'', ''ts-node'', ''esrun'']"

text \<open>The first launcher whose argument is a script that is a file; \<open>resolve\<close> is the path inside the worktree.\<close>

fun launched_script :: "(string \<Rightarrow> string) \<Rightarrow> (string \<Rightarrow> bool) \<Rightarrow> string list \<Rightarrow> string option" where
  "launched_script resolve is_file (a # b # ps) =
     (if a \<in> set LAUNCHERS \<and> script_suffix b \<and> is_file (resolve b) then Some (resolve b)
      else launched_script resolve is_file (b # ps))"
| "launched_script resolve is_file _ = None"

definition start_command :: "(string \<Rightarrow> pyval option) \<Rightarrow> string \<Rightarrow> string option" where
  "start_command loads t = (case loads t of
     Some (PDict pkg) \<Rightarrow> (case dget pkg ''scripts'' of
        PDict s \<Rightarrow> (case dget s ''start'' of PStr c \<Rightarrow> if strip c = [] then None else Some c | _ \<Rightarrow> None)
      | _ \<Rightarrow> None)
   | _ \<Rightarrow> None)"

definition server_candidate :: "(string \<Rightarrow> string) \<Rightarrow> (string \<Rightarrow> bool) \<Rightarrow> py_exc + string" where
  "server_candidate resolve is_file =
     (case filter (\<lambda>n. is_file (resolve n)) [''src/server.ts'', ''src/server.js'', ''src/server.mjs'', ''src/server.cjs''] of
        n # _ \<Rightarrow> Inr (resolve n) | [] \<Rightarrow> Inl (PyRuntimeError ''hold-ui: no entrypoint resolved''))"

text \<open>\<open>UnicodeDecodeError\<close> is a \<open>ValueError\<close> and neither of the two exceptions that are caught.\<close>

definition resolve_hold_ui_entrypoint ::
  "(string \<Rightarrow> pyval option) \<Rightarrow> (string \<Rightarrow> string) \<Rightarrow> (string \<Rightarrow> bool) \<Rightarrow> text_file \<Rightarrow> py_exc + string" where
  "resolve_hold_ui_entrypoint loads resolve is_file pkg = (case pkg of
     Not_Utf8 \<Rightarrow> Inl PyValueError
   | Text_File t \<Rightarrow>
       (case start_command loads t of
          Some c \<Rightarrow> (case launched_script resolve is_file (split_ws c) of
                      Some p \<Rightarrow> Inr p | None \<Rightarrow> server_candidate resolve is_file)
        | None \<Rightarrow> server_candidate resolve is_file)
   | _ \<Rightarrow> server_candidate resolve is_file)"

text \<open>\<open>lsof -t\<close>, \<open>None\<close> when it is not installed: the tokens that are digits.\<close>

definition hold_ui_port_listeners :: "string option \<Rightarrow> int list" where
  "hold_ui_port_listeners out = (case out of
     None \<Rightarrow> [] | Some t \<Rightarrow> map (\<lambda>w. int (digits_value w)) (filter is_digit_string (split_ws t)))"

text \<open>The address at which the port answers from outside, if any: \<open>lan\<close> is the machine's own address, \<open>answers\<close>
  whether it takes a connection.\<close>

definition hold_ui_lan_exposed :: "string option \<Rightarrow> bool \<Rightarrow> int \<Rightarrow> string option" where
  "hold_ui_lan_exposed lan answers port = (case lan of
     None \<Rightarrow> None
   | Some ip \<Rightarrow> if ip = [] \<or> starts_with ip ''127.'' \<or> \<not> answers then None
              else Some (ip @ '':'' @ string_of_int port))"

section \<open>Booting the server\<close>

datatype boot = Unresolved | Spawn_Failed | Healthy | Server_Exited | Health_Timeout

text \<open>Each poll before the deadline: whether the server has exited, whether it answers.\<close>

fun boot_polls :: "(bool \<times> bool) list \<Rightarrow> bool \<Rightarrow> boot" where
  "boot_polls [] exited = (if exited then Server_Exited else Health_Timeout)"
| "boot_polls ((gone, ok) # ps) exited =
     (if gone then Server_Exited else if ok then Healthy else boot_polls ps exited)"

datatype stop_answer = Already_Gone | Stops | Stops_On_Kill | Survives | Stop_OS_Error

record hold_env =
  hu_env :: "string option"
  hu_listeners :: "string option"
  hu_killable :: "int \<Rightarrow> bool"
  hu_package :: text_file
  hu_loads :: "string \<Rightarrow> pyval option"
  hu_resolve :: "string \<Rightarrow> string"
  hu_is_file :: "string \<Rightarrow> bool"
  hu_spawns :: bool
  hu_boot_polls :: "(bool \<times> bool) list"
  hu_exited_late :: bool
  hu_lan :: "string option"
  hu_answers :: bool
  hu_state_writable :: bool
  hu_released :: "nat \<Rightarrow> bool"
  hu_stop :: stop_answer

datatype hold_action =
    Killed_Listener int
  | Booted boot
  | Dropped_Stale_Release
  | Wrote_State "string option"
  | Waited nat
  | Terminated_Server
  | Killed_Server
  | Removed_Hold_Files

text \<open>\<open>while not release_path.exists()\<close>: the number of polls that found nothing.\<close>

partial_function (option) wait_release :: "(nat \<Rightarrow> bool) \<Rightarrow> nat \<Rightarrow> nat option" where
  "wait_release released k = (if released k then Some k else wait_release released (Suc k))"

text \<open>The \<open>finally\<close>: \<open>TimeoutExpired\<close> of the second wait is no \<open>OSError\<close>.\<close>

definition stop_server :: "bool \<Rightarrow> stop_answer \<Rightarrow> py_exc option \<times> hold_action list" where
  "stop_server spawned a =
     (if \<not> spawned then (None, [])
      else case a of
        Already_Gone \<Rightarrow> (None, [])
      | Stops \<Rightarrow> (None, [Terminated_Server])
      | Stops_On_Kill \<Rightarrow> (None, [Terminated_Server, Killed_Server])
      | Survives \<Rightarrow> (Some (PyRuntimeError ''TimeoutExpired''), [Terminated_Server, Killed_Server])
      | Stop_OS_Error \<Rightarrow> (None, []))"

definition hold_ui_on :: "hold_env \<Rightarrow> bool" where
  "hold_ui_on e \<longleftrightarrow> strip (opt_or (hu_env e) []) = ''1''"

definition hold_boot :: "hold_env \<Rightarrow> py_exc + boot" where
  "hold_boot e = (case resolve_hold_ui_entrypoint (hu_loads e) (hu_resolve e) (hu_is_file e) (hu_package e) of
     Inl (PyRuntimeError m) \<Rightarrow> Inr Unresolved
   | Inl x \<Rightarrow> Inl x
   | Inr _ \<Rightarrow> Inr (if \<not> hu_spawns e then Spawn_Failed else boot_polls (hu_boot_polls e) (hu_exited_late e)))"

definition HOLD_UI_PORT :: int where "HOLD_UI_PORT = 8002"

definition hold_for_ui_review :: "hold_env \<Rightarrow> (py_exc option \<times> hold_action list) option" where
  "hold_for_ui_review e =
     (if \<not> hold_ui_on e then Some (None, [])
      else
        let kills = map Killed_Listener (filter (hu_killable e) (hold_ui_port_listeners (hu_listeners e))) in
        case hold_boot e of
          Inl x \<Rightarrow> Some (Some x, kills)
        | Inr b \<Rightarrow>
            (let lan = (if b = Healthy then hold_ui_lan_exposed (hu_lan e) (hu_answers e) HOLD_UI_PORT else None);
                 spawned = (b \<noteq> Unresolved \<and> b \<noteq> Spawn_Failed);
                 (x, stops) = stop_server spawned (hu_stop e) in
             map_option (\<lambda>k.
               (x, kills @ [Booted b, Dropped_Stale_Release]
                   @ (if hu_state_writable e then [Wrote_State lan] else []) @ [Waited k] @ stops
                   @ (if x = None then [Removed_Hold_Files] else [])))
               (wait_release (hu_released e) 0)))"

section \<open>When it ends\<close>

lemma wait_release_some:
  assumes "wait_release released k = Some n"
  shows "released n \<and> k \<le> n \<and> (\<forall>i. k \<le> i \<longrightarrow> i < n \<longrightarrow> \<not> released i)"
  using assms
proof (induction rule: wait_release.raw_induct [rotated, consumes 1, case_names step])
  case (step rec released k n)
  show ?case
  proof (cases "released k")
    case False
    then have "rec released (Suc k) = Some n" using step(2) by simp
    from step(1) [OF this] have r: "released n" "Suc k \<le> n" "\<forall>i. Suc k \<le> i \<longrightarrow> i < n \<longrightarrow> \<not> released i"
      by blast+
    have "\<not> released i" if "k \<le> i" "i < n" for i using that False r(3) by (cases "i = k") auto
    then show ?thesis using r(1,2) by auto
  qed (use step(2) in auto)
qed

lemma wait_release_finds: "released n \<Longrightarrow> k \<le> n \<Longrightarrow> wait_release released k \<noteq> None"
proof (induction "n - k" arbitrary: k)
  case 0
  then show ?case by (simp add: wait_release.simps [of released k])
next
  case (Suc d)
  then show ?case by (cases "released k") (simp_all add: wait_release.simps [of released k])
qed

lemma wait_release_none: "(wait_release released k = None) = (\<forall>n \<ge> k. \<not> released n)"
proof
  assume n: "wait_release released k = None"
  show "\<forall>n \<ge> k. \<not> released n" using wait_release_finds n by blast
next
  assume a: "\<forall>n \<ge> k. \<not> released n"
  show "wait_release released k = None"
  proof (cases "wait_release released k")
    case (Some n)
    from wait_release_some [OF this] a show ?thesis by blast
  qed
qed

lemma hold_boot_fails_iff: "(\<exists>x. hold_boot e = Inl x) = (hu_package e = Not_Utf8)"
proof -
  have "server_candidate r f = Inl x \<Longrightarrow> x = PyRuntimeError ''hold-ui: no entrypoint resolved''" for r f x
    by (auto simp: server_candidate_def split: list.splits)
  then show ?thesis
    by (cases "hu_package e")
       (auto simp: hold_boot_def resolve_hold_ui_entrypoint_def split: sum.splits option.splits py_exc.splits)
qed

text \<open>A hold that is on, and whose worker left a readable \<open>package.json\<close>, ends exactly when the operator
  releases it: without a release it never returns, and the other holds always do.\<close>

theorem hold_never_returns_iff:
  "(hold_for_ui_review e = None) =
     (hold_ui_on e \<and> hu_package e \<noteq> Not_Utf8 \<and> hu_released e = (\<lambda>_. False))"
proof (cases "hold_boot e")
  case (Inl x)
  then have "hu_package e = Not_Utf8" using hold_boot_fails_iff by blast
  then show ?thesis using Inl by (simp add: hold_for_ui_review_def)
next
  case (Inr b)
  then have "hu_package e \<noteq> Not_Utf8" using hold_boot_fails_iff [of e] by auto
  moreover have "(\<forall>n. \<not> hu_released e n) = (hu_released e = (\<lambda>_. False))" by auto
  ultimately show ?thesis
    using Inr wait_release_none [of "hu_released e" 0]
    by (auto simp: hold_for_ui_review_def Let_def split: prod.splits)
qed

text \<open>A hold must never fail the cell, but a \<open>package.json\<close> of the worker that is not UTF-8 does.\<close>

lemma undecodable_package_leaves_the_hold:
  assumes "hold_ui_on e" "hu_package e = Not_Utf8"
  shows "\<exists>kills. hold_for_ui_review e = Some (Some PyValueError, map Killed_Listener kills)"
  using assms by (auto simp: hold_for_ui_review_def hold_boot_def resolve_hold_ui_entrypoint_def)

end
