(* ===== verification/Session_Db.thy ===== *)
theory Session_Db
  imports Budget_Ledger
begin

text \<open>
  The two readers of a session's database: its verification before anything is extracted from it
  (\<open>wevibe_bench/session_db_integrity.py\<close>) and the poller that says whether a session is alive
  (\<open>scripts/session_db_poll.py\<close>).  SQLite is what it answers to each query, an error or a value; files are the
  answers of the file system; ages are whole seconds.
\<close>

section \<open>Verification\<close>

datatype 'a sql = Sql_Error string | Answer 'a

record db_answers =
  da_path :: string
  da_exists :: bool
  da_open :: "unit sql"
  da_quick_check :: "string list sql"
  da_tables :: "string list sql"
  da_count :: "string \<Rightarrow> int sql"
  da_scan :: "unit sql"

record integrity_report =
  ir_path :: string
  ir_ok :: bool
  ir_detail :: string
  ir_parts :: "int option"
  ir_messages :: "int option"

definition REQUIRED_TABLES :: "string list" where
  "REQUIRED_TABLES = [''session'', ''message'', ''part'']"

definition refused_db :: "db_answers \<Rightarrow> string \<Rightarrow> integrity_report" where
  "refused_db a detail = \<lparr>ir_path = da_path a, ir_ok = False, ir_detail = detail, ir_parts = None, ir_messages = None\<rparr>"

definition quick_check_verdict :: "string list \<Rightarrow> string" where
  "quick_check_verdict rows = (case rows of [] \<Rightarrow> [] | r # _ \<Rightarrow> lower (strip r))"

text \<open>The query for the table names is the one outside every \<open>try\<close>.\<close>

definition verify_session_db :: "db_answers \<Rightarrow> py_exc + integrity_report" where
  "verify_session_db a =
     (if \<not> da_exists a then Inr (refused_db a ''missing: no such file'')
      else case da_open a of
        Sql_Error e \<Rightarrow> Inr (refused_db a (''unopenable: '' @ e))
      | Answer _ \<Rightarrow> (case da_quick_check a of
          Sql_Error e \<Rightarrow> Inr (refused_db a (''quick_check raised: '' @ e))
        | Answer rows \<Rightarrow>
            if quick_check_verdict rows \<noteq> ''ok'' then Inr (refused_db a (''malformed: '' @ join ''; '' (take 3 rows)))
            else (case da_tables a of
              Sql_Error e \<Rightarrow> Inl (PyRuntimeError ''DatabaseError'')
            | Answer present \<Rightarrow>
                let missing = filter (\<lambda>t. t \<notin> set present) REQUIRED_TABLES in
                if missing \<noteq> [] then Inr (refused_db a (''missing tables: '' @ join '','' missing))
                else (case (da_count a ''message'', da_count a ''part'') of
                  (Sql_Error e, _) \<Rightarrow> Inr (refused_db a (''unreadable table message: '' @ e))
                | (_, Sql_Error e) \<Rightarrow> Inr (refused_db a (''unreadable table part: '' @ e))
                | (Answer m, Answer p) \<Rightarrow> (case da_scan a of
                    Sql_Error e \<Rightarrow> Inr ((refused_db a (''part scan failed: '' @ e))\<lparr>ir_parts := Some p, ir_messages := Some m\<rparr>)
                  | Answer _ \<Rightarrow> Inr \<lparr>ir_path = da_path a, ir_ok = True, ir_detail = ''ok'', ir_parts = Some p,
                                  ir_messages = Some m\<rparr>)))))"

definition require_sound_session_db :: "db_answers \<Rightarrow> py_exc + integrity_report" where
  "require_sound_session_db a = bind_result (verify_session_db a) (\<lambda>r.
     if ir_ok r then Inr r else Inl (PyRuntimeError (''session DB failed integrity verification: '' @ ir_detail r)))"

section \<open>Evidence of life\<close>

definition age_s :: "real \<Rightarrow> real \<Rightarrow> int" where
  "age_s now t = max 0 (trunc_real (now - t))"

definition age_from_mtime :: "real \<Rightarrow> real option \<Rightarrow> int option" where
  "age_from_mtime now mtime = map_option (age_s now) mtime"

definition truncate_text :: "string \<Rightarrow> string" where
  "truncate_text raw = (let t = join '' '' (split_ws raw) in if length t \<le> 120 then t else take 117 t @ ''...'')"

text \<open>\<open>datetime.fromisoformat\<close> is the parameter \<open>stamp\<close>; a zone that is missing is UTC.\<close>

definition parse_iso_age_s :: "(string \<Rightarrow> real option) \<Rightarrow> pyval \<Rightarrow> real \<Rightarrow> py_exc + int option" where
  "parse_iso_age_s stamp raw_time now =
     (if \<not> truthy raw_time then Inr None
      else case raw_time of
        PStr t \<Rightarrow>
          (let v = strip t; v = (if v \<noteq> [] \<and> List.last v = CHR ''Z'' then butlast v @ ''+00:00'' else v) in
           Inr (if v = [] then None else map_option (age_s now) (stamp v)))
      | _ \<Rightarrow> Inl PyAttributeError)"

record db_evidence =
  ev_db_age :: "int option"
  ev_turns :: "int option"
  ev_tools :: "int option"
  ev_cost :: "real option"
  ev_reasoning :: "int option"
  ev_text :: string
  ev_notes :: "string list"

definition no_evidence :: db_evidence where
  "no_evidence = \<lparr>ev_db_age = None, ev_turns = None, ev_tools = None, ev_cost = None, ev_reasoning = None,
     ev_text = [], ev_notes = []\<rparr>"

text \<open>The poller's queries; an error names the class of the exception.\<close>

record db_view =
  dv_exists :: bool
  dv_mtime :: "real option"
  dv_max_updated :: "int option sql"
  dv_turns :: "int sql"
  dv_tools :: "int sql"
  dv_text :: "string option sql"
  dv_session :: "(real option \<times> int option) sql"

definition add_note :: "string \<Rightarrow> db_evidence \<Rightarrow> db_evidence" where
  "add_note n e = e\<lparr>ev_notes := ev_notes e @ [n]\<rparr>"

definition sql_error :: "string \<Rightarrow> db_evidence \<Rightarrow> py_exc + db_evidence" where
  "sql_error cls e = Inr (add_note (''db_read_error:'' @ cls) e)"

definition last_text :: "(pyval \<Rightarrow> string) \<Rightarrow> (string \<Rightarrow> pyval option) \<Rightarrow> string option \<Rightarrow> db_evidence \<Rightarrow> py_exc + db_evidence" where
  "last_text rp loads data e = (case data of
     None \<Rightarrow> Inr e
   | Some t \<Rightarrow>
       if t = [] then Inr e
       else (case loads t of
         None \<Rightarrow> Inr ((add_note ''db_last_text_parse_error'' e)\<lparr>ev_text := []\<rparr>)
       | Some (PDict d) \<Rightarrow> Inr (e\<lparr>ev_text := truncate_text (py_str rp (dget_default d ''text'' (PStr [])))\<rparr>)
       | Some _ \<Rightarrow> Inl PyAttributeError))"

definition read_db_evidence ::
  "(pyval \<Rightarrow> string) \<Rightarrow> (string \<Rightarrow> pyval option) \<Rightarrow> db_view \<Rightarrow> real \<Rightarrow> py_exc + db_evidence" where
  "read_db_evidence rp loads v now =
     (if \<not> dv_exists v then Inr (add_note ''db_absent'' no_evidence)
      else
        let e = no_evidence\<lparr>ev_db_age := age_from_mtime now (dv_mtime v)\<rparr> in
        case dv_max_updated v of
          Sql_Error c \<Rightarrow> sql_error c e
        | Answer m \<Rightarrow>
            (let e = (case m of None \<Rightarrow> add_note ''db_no_parts_used_db_mtime'' e
                     | Some ms \<Rightarrow> e\<lparr>ev_db_age := Some (age_s now (of_int ms / 1000))\<rparr>) in
             case (dv_turns v, dv_tools v) of
               (Sql_Error c, _) \<Rightarrow> sql_error c e
             | (_, Sql_Error c) \<Rightarrow> sql_error c e
             | (Answer n, Answer k) \<Rightarrow>
                 (let e = e\<lparr>ev_turns := Some n, ev_tools := Some k\<rparr> in
                  case dv_text v of
                    Sql_Error c \<Rightarrow> sql_error c e
                  | Answer t \<Rightarrow> bind_result (last_text rp loads t e) (\<lambda>e.
                      case dv_session v of
                        Sql_Error c \<Rightarrow> sql_error c e
                      | Answer (cost, reasoning) \<Rightarrow> Inr (e\<lparr>ev_cost := cost, ev_reasoning := reasoning\<rparr>)))))"

text \<open>The proxy's checkpoint: absent, unreadable with the class of the error, or decoded.\<close>

datatype budget_file = No_Budget | Bad_Budget string | Budget pyval

definition accrued_notes :: "(pyval \<Rightarrow> string) \<Rightarrow> pydict \<Rightarrow> string list" where
  "accrued_notes rp d = List.map_filter
     (\<lambda>k. case map_of d k of None \<Rightarrow> None | Some v \<Rightarrow> Some (k @ ''='' @ py_str rp v))
     [''accrued_derived_usd'', ''accrued_actual_usd'', ''committed_unproven_usd'']"

text \<open>Age, number of outstanding reservations and notes.\<close>

definition read_budget_evidence ::
  "(pyval \<Rightarrow> string) \<Rightarrow> (string \<Rightarrow> real option) \<Rightarrow> budget_file \<Rightarrow> real option \<Rightarrow> real
     \<Rightarrow> py_exc + int option \<times> nat option \<times> string list" where
  "read_budget_evidence rp stamp f mtime now = (case f of
     No_Budget \<Rightarrow> Inr (None, None, [''budget_absent''])
   | Bad_Budget c \<Rightarrow> Inr (None, None, [''budget_unreadable_treated_absent:'' @ c])
   | Budget (PDict d) \<Rightarrow>
       bind_result (parse_iso_age_s stamp (dget d ''updated_at'') now) (\<lambda>a.
         let age = (if a \<noteq> None then a else age_from_mtime now mtime);
             (n, ns) = (case dget d ''outstanding'' of
                PDict os \<Rightarrow> (Some (length os), []) | _ \<Rightarrow> (None, [''budget_outstanding_missing_or_invalid''])) in
         Inr (age, n, ns @ accrued_notes rp d))
   | Budget _ \<Rightarrow> Inl PyAttributeError)"

record poll_inputs =
  pi_db :: db_view
  pi_budget :: budget_file
  pi_budget_mtime :: "real option"
  pi_events_mtime :: "real option"
  pi_proxylog_mtime :: "real option"
  pi_window :: int
  pi_now :: real

record poll_evidence = db_evidence +
  pe_verdict :: string
  pe_events_age :: "int option"
  pe_budget_age :: "int option"
  pe_outstanding :: "nat option"
  pe_proxylog_age :: "int option"

definition observed_ages :: "int option list \<Rightarrow> int list" where
  "observed_ages as = List.map_filter id as"

definition verdict_of :: "bool \<Rightarrow> nat option \<Rightarrow> int list \<Rightarrow> int \<Rightarrow> string" where
  "verdict_of absent outstanding ages window =
     (if absent then ''UNKNOWN''
      else if (case outstanding of Some n \<Rightarrow> 0 < n | None \<Rightarrow> False) \<or> list_ex (\<lambda>a. a \<le> window) ages then ''ALIVE''
      else if ages \<noteq> [] \<and> list_all (\<lambda>a. window < a) ages then ''DEAD''
      else ''UNKNOWN'')"

definition assess_activity ::
  "(pyval \<Rightarrow> string) \<Rightarrow> (string \<Rightarrow> pyval option) \<Rightarrow> (string \<Rightarrow> real option) \<Rightarrow> poll_inputs \<Rightarrow> py_exc + poll_evidence" where
  "assess_activity rp loads stamp i =
     bind_result (read_db_evidence rp loads (pi_db i) (pi_now i)) (\<lambda>e.
     bind_result (read_budget_evidence rp stamp (pi_budget i) (pi_budget_mtime i) (pi_now i)) (\<lambda>(budget_age, n, ns).
       let events = age_from_mtime (pi_now i) (pi_events_mtime i);
           plog = age_from_mtime (pi_now i) (pi_proxylog_mtime i);
           ages = observed_ages [ev_db_age e, events, budget_age, plog];
           absent = (\<not> dv_exists (pi_db i));
           v = verdict_of absent n ages (pi_window i);
           ns = ev_notes e @ ns @ (if events = None then [''events_absent''] else [])
                @ (if plog = None then [''proxylog_absent''] else [])
                @ (if v = ''UNKNOWN'' \<and> \<not> absent then [''insufficient_evidence_no_kill''] else []) in
       Inr (db_evidence.extend (e\<lparr>ev_notes := ns\<rparr>)
         (poll_evidence.fields v events budget_age n plog))))"

definition shown :: "('a \<Rightarrow> string) \<Rightarrow> 'a option \<Rightarrow> string" where
  "shown f v = (case v of None \<Rightarrow> ''absent'' | Some x \<Rightarrow> f x)"

text \<open>\<open>usd\<close> prints an amount with six decimals.\<close>

definition format_evidence_line :: "(real \<Rightarrow> string) \<Rightarrow> poll_evidence \<Rightarrow> string" where
  "format_evidence_line usd e =
     ''VERDICT='' @ pe_verdict e @ '' db_age_s='' @ shown string_of_int (ev_db_age e)
     @ '' events_age_s='' @ shown string_of_int (pe_events_age e)
     @ '' budget_age_s='' @ shown string_of_int (pe_budget_age e)
     @ '' outstanding='' @ shown (\<lambda>n. string_of_int (int n)) (pe_outstanding e)
     @ '' proxylog_age_s='' @ shown string_of_int (pe_proxylog_age e)
     @ '' turns='' @ shown string_of_int (ev_turns e) @ '' tools='' @ shown string_of_int (ev_tools e)
     @ '' cost_usd='' @ shown usd (ev_cost e) @ '' reasoning_tokens='' @ shown string_of_int (ev_reasoning e)
     @ '' last_text='' @ [CHR 0x22] @ truncate_text (ev_text e) @ [CHR 0x22]
     @ '' note='' @ (if ev_notes e = [] then ''ok'' else join '','' (ev_notes e))"

section \<open>What a verdict means\<close>

text \<open>A database is accepted exactly when every query it is put to is answered well; the check then has its counts.
  The only exception it can raise is that of the query for the table names, although it is to report a corrupt
  database and never to raise for one.\<close>

theorem accepted_db_answered_everything:
  "(case require_sound_session_db a of
      Inr r \<Rightarrow> da_exists a \<and> da_open a = Answer () \<and> da_scan a = Answer () \<and>
        (\<exists>rows present p m. da_quick_check a = Answer rows \<and> quick_check_verdict rows = ''ok'' \<and>
          da_tables a = Answer present \<and> set REQUIRED_TABLES \<subseteq> set present \<and>
          da_count a ''message'' = Answer m \<and> da_count a ''part'' = Answer p \<and>
          r = \<lparr>ir_path = da_path a, ir_ok = True, ir_detail = ''ok'', ir_parts = Some p, ir_messages = Some m\<rparr>)
    | Inl x \<Rightarrow> True) \<and>
   ((\<exists>x. verify_session_db a = Inl x) =
      (da_exists a \<and> da_open a = Answer () \<and> (\<exists>rows. da_quick_check a = Answer rows \<and> quick_check_verdict rows = ''ok'') \<and>
       (\<exists>e. da_tables a = Sql_Error e)))"
  by (auto simp: require_sound_session_db_def verify_session_db_def refused_db_def Let_def bind_result_def filter_empty_conv
      split: sql.splits)

text \<open>The poller calls a session dead only on evidence: its database is there, no reservation is outstanding, and at
  least one age could be observed and every one that was is beyond the window; in that case it always does.
  Without a database it is always unknown.\<close>

theorem dead_is_backed_by_silence:
  assumes "assess_activity rp loads stamp i = Inr e"
  shows "(pe_verdict e = ''DEAD'') =
      (dv_exists (pi_db i) \<and> opt_or (pe_outstanding e) 0 = 0 \<and>
       (let ages = observed_ages [ev_db_age e, pe_events_age e, pe_budget_age e, pe_proxylog_age e] in
        ages \<noteq> [] \<and> list_all (\<lambda>a. pi_window i < a) ages)) \<and>
     (pe_verdict e = ''UNKNOWN'' \<or> dv_exists (pi_db i))"
proof -
  obtain d n b ns where d: "read_db_evidence rp loads (pi_db i) (pi_now i) = Inr d"
    and b: "read_budget_evidence rp stamp (pi_budget i) (pi_budget_mtime i) (pi_now i) = Inr (b, n, ns)"
    using assms by (auto simp: assess_activity_def result_simps)
  let ?ages = "observed_ages [ev_db_age d, age_from_mtime (pi_now i) (pi_events_mtime i), b,
    age_from_mtime (pi_now i) (pi_proxylog_mtime i)]"
  have e: "ev_db_age e = ev_db_age d" "pe_events_age e = age_from_mtime (pi_now i) (pi_events_mtime i)"
    "pe_budget_age e = b" "pe_proxylog_age e = age_from_mtime (pi_now i) (pi_proxylog_mtime i)" "pe_outstanding e = n"
    "pe_verdict e = verdict_of (\<not> dv_exists (pi_db i)) n ?ages (pi_window i)"
    using assms d b by (auto simp: assess_activity_def Let_def db_evidence.extend_def poll_evidence.fields_def)
  have "(verdict_of (\<not> dv_exists (pi_db i)) n as w = ''DEAD'') =
      (dv_exists (pi_db i) \<and> opt_or n 0 = 0 \<and> as \<noteq> [] \<and> list_all (\<lambda>a. w < a) as) \<and>
      (verdict_of (\<not> dv_exists (pi_db i)) n as w = ''UNKNOWN'' \<or> dv_exists (pi_db i))" for as w
    by (cases n) (auto simp: verdict_of_def list_ex_iff list_all_iff)
  then show ?thesis by (simp add: e Let_def)
qed

definition quiet_session :: "budget_file \<Rightarrow> poll_inputs" where
  "quiet_session b = \<lparr>pi_db = \<lparr>dv_exists = True, dv_mtime = Some 0, dv_max_updated = Answer (Some 0), dv_turns = Answer 3,
       dv_tools = Answer 2, dv_text = Answer None, dv_session = Answer (None, None)\<rparr>,
     pi_budget = b, pi_budget_mtime = None, pi_events_mtime = None, pi_proxylog_mtime = None, pi_window = 900,
     pi_now = 86400\<rparr>"

lemma quiet_session_read:
  "read_db_evidence rp loads (pi_db (quiet_session b)) (pi_now (quiet_session b)) =
     Inr (no_evidence\<lparr>ev_db_age := Some 86400, ev_turns := Some 3, ev_tools := Some 2\<rparr>)"
  by (simp add: quiet_session_def read_db_evidence_def last_text_def no_evidence_def age_s_def trunc_real_def)

theorem dead_is_backed_by_silence_witness:
  "\<exists>e. assess_activity (\<lambda>_. []) (\<lambda>_. None) (\<lambda>_. None) (quiet_session No_Budget) = Inr e \<and> pe_verdict e = ''DEAD''"
proof -
  obtain e where e: "assess_activity (\<lambda>_. []) (\<lambda>_. None) (\<lambda>_. None) (quiet_session No_Budget) = Inr e"
    and f: "ev_db_age e = Some 86400" "pe_outstanding e = None" "pe_events_age e = None" "pe_budget_age e = None"
      "pe_proxylog_age e = None"
    by (simp add: assess_activity_def quiet_session_read Let_def db_evidence.extend_def poll_evidence.fields_def
        read_budget_evidence_def)
      (simp add: quiet_session_def age_from_mtime_def)
  from dead_is_backed_by_silence [OF e] e show ?thesis
    by (auto simp: f observed_ages_def map_filter_def quiet_session_def)
qed

text \<open>C33. A session whose proxy died with a reservation in flight is called alive for ever: the checkpoint keeps the hold, a
  restarted proxy takes it over and nobody settles it, and an outstanding hold outweighs every age, so a
  session that has been silent for any time is never found dead.\<close>

theorem stale_hold_reads_alive:
  assumes "lg_outstanding l \<noteq> []" and "pi_budget i = Budget (PDict (ledger_payload written l))"
    and "dv_exists (pi_db i)" and "read_db_evidence rp loads (pi_db i) (pi_now i) = Inr d"
  shows "\<exists>e. assess_activity rp loads stamp i = Inr e \<and> pe_verdict e = ''ALIVE'' \<and> ev_db_age e = ev_db_age d"
proof -
  obtain v where v: "parse_iso_age_s stamp (PStr written) (pi_now i) = Inr v"
    by (cases "written = []") (simp_all add: parse_iso_age_s_def Let_def)
  obtain a ns where b: "read_budget_evidence rp stamp (pi_budget i) (pi_budget_mtime i) (pi_now i) =
      Inr (a, Some (length (lg_outstanding l)), ns)"
    by (simp add: assms(2) read_budget_evidence_def ledger_payload_def v Let_def)
  then show ?thesis
    using assms(1,3,4)
    by (simp add: assess_activity_def Let_def verdict_of_def db_evidence.extend_def poll_evidence.fields_def)
qed

theorem stale_hold_reads_alive_witness:
  "\<exists>e. assess_activity (\<lambda>_. []) (\<lambda>_. None) (\<lambda>_. None)
       (quiet_session (Budget (PDict (ledger_payload ''t'' (sample_ledger\<lparr>lg_outstanding := [(''r'', 1)]\<rparr>))))) = Inr e \<and>
     pe_verdict e = ''ALIVE'' \<and> ev_db_age e = Some 86400"
  using stale_hold_reads_alive [where l = "sample_ledger\<lparr>lg_outstanding := [(''r'', 1)]\<rparr>" and written = "''t''"
      and i = "quiet_session (Budget (PDict (ledger_payload ''t'' (sample_ledger\<lparr>lg_outstanding := [(''r'', 1)]\<rparr>))))",
      OF _ _ _ quiet_session_read]
  by (simp add: quiet_session_def)

end
