(* ===== verification/Memory_Recall.thy ===== *)
theory Memory_Recall
  imports Bench_Prelude
begin

text \<open>
  The client of the memory service: \<open>NeedCard\<close> and the backend contract (\<open>wevibe_bench/backends/base.py\<close>), the
  live backend (\<open>wevibe_backend.py\<close>) and the control without memory (\<open>none_backend.py\<close>).  The transport is the
  answer to one request, \<open>None\<close> when it raises; the token file is its text, \<open>None\<close> when it cannot be read.
\<close>

section \<open>The need card\<close>

record need_card =
  nd_intent :: string
  nd_task :: string
  nd_language :: "string option"
  nd_stack :: "string list"
  nd_frameworks :: "string list"
  nd_deps :: "string list"
  nd_error_strings :: "string list"
  nd_files :: "string list"
  nd_directory :: "string option"
  nd_project :: "string option"
  nd_query :: string

definition need_post_init :: "need_card \<Rightarrow> need_card" where
  "need_post_init n = (if nd_query n = [] then n\<lparr>nd_query := nd_task n\<rparr> else n)"

definition collapse_whitespace :: "string \<Rightarrow> string" where
  "collapse_whitespace v = join '' '' (split_ws v)"

definition prompt_digest :: "need_card \<Rightarrow> string" where
  "prompt_digest n =
     (case filter (\<lambda>s. s \<noteq> []) (map collapse_whitespace [nd_intent n, nd_task n]) of
        [] \<Rightarrow> ''unknown'' | segs \<Rightarrow> join ''. '' segs)"

record recall_config =
  rk_org_id :: string
  rk_mc_version :: int
  rk_tau :: real
  rk_surface_budget :: int
  rk_topn :: bool
  rk_recall_limit :: int
  rk_url :: string

text \<open>Fields that are empty are left out of the request.\<close>

definition text_field_of :: "string \<Rightarrow> string option \<Rightarrow> pydict" where
  "text_field_of k v = (case v of None \<Rightarrow> [] | Some t \<Rightarrow> if t = [] then [] else [(k, PStr t)])"

definition list_field_of :: "string \<Rightarrow> string list \<Rightarrow> pydict" where
  "list_field_of k vs = (if vs = [] then [] else [(k, PList (map PStr vs))])"

definition to_wire :: "need_card \<Rightarrow> recall_config \<Rightarrow> string \<Rightarrow> string option \<Rightarrow> pydict" where
  "to_wire n cfg session_id org_id =
     [(''query'', PStr (nd_query n)), (''intent'', PStr (nd_intent n)), (''task'', PStr (nd_task n)),
      (''org_id'', PStr (if opt_or org_id [] = [] then rk_org_id cfg else opt_or org_id [])),
      (''mc_version'', PInt (rk_mc_version cfg)), (''session_id'', PStr session_id),
      (''relevance_floor'', PFloat (rk_tau cfg)), (''surface_budget'', PInt (rk_surface_budget cfg)),
      (''limit'', PInt (if rk_topn cfg then max (rk_surface_budget cfg) (rk_recall_limit cfg) else rk_surface_budget cfg))]
     @ text_field_of ''language'' (nd_language n) @ list_field_of ''stack'' (nd_stack n)
     @ list_field_of ''frameworks'' (nd_frameworks n) @ list_field_of ''deps'' (nd_deps n)
     @ list_field_of ''errorStrings'' (nd_error_strings n) @ text_field_of ''directory'' (nd_directory n)
     @ text_field_of ''projectName'' (nd_project n) @ list_field_of ''files'' (nd_files n)"

section \<open>The answer\<close>

record recalled =
  rm_cid :: "string option"
  rm_score :: "real option"
  rm_vector_score :: "real option"
  rm_combined_score :: "real option"
  rm_keyword_score :: "real option"
  rm_keywords :: "string list"
  rm_text :: string

datatype verdict = YES | CALLED | NO

record recall_result =
  rr_memories :: "recalled list"
  rr_status :: string
  rr_reason :: "string option"
  rr_reachable :: bool
  rr_http_status :: "int option"

definition recalled_content :: "recalled \<Rightarrow> bool" where
  "recalled_content m \<longleftrightarrow> strip (rm_text m) \<noteq> []"

definition num :: "pyval \<Rightarrow> real option" where
  "num v = (case py_float v of Inr x \<Rightarrow> Some x | Inl _ \<Rightarrow> None)"

definition to_str :: "(pyval \<Rightarrow> string) \<Rightarrow> pyval \<Rightarrow> string option" where
  "to_str rp v = (if v = PNone then None else if py_str rp v = [] then None else Some (py_str rp v))"

definition or_else :: "pyval \<Rightarrow> pyval \<Rightarrow> pyval" where
  "or_else v d = (if truthy v then v else d)"

definition build_memory :: "(pyval \<Rightarrow> string) \<Rightarrow> pydict \<Rightarrow> recalled" where
  "build_memory rp d =
     (let b = dict_or_empty (dget d ''breakdown'');
          ks = (case dget d ''matched_keywords'' of PList xs \<Rightarrow> xs | _ \<Rightarrow> []) in
      \<lparr>rm_cid = to_str rp (dget d ''cid''), rm_score = num (dget d ''score''),
       rm_vector_score = num (dget b ''vector_score''), rm_combined_score = num (dget b ''combined_score''),
       rm_keyword_score = num (dget b ''keyword_score''), rm_keywords = map (py_str rp) ks,
       rm_text = py_str rp (or_else (dget d ''text'') (PStr []))\<rparr>)"

definition build_memories :: "(pyval \<Rightarrow> string) \<Rightarrow> pydict \<Rightarrow> recalled list" where
  "build_memories rp response = (case dget response ''memories'' of
     PList xs \<Rightarrow> List.map_filter (\<lambda>v. case v of PDict d \<Rightarrow> Some (build_memory rp d) | _ \<Rightarrow> None) xs
   | _ \<Rightarrow> [])"

section \<open>Ranking\<close>

definition rank_score :: "recalled \<Rightarrow> real option" where
  "rank_score m = (if rm_combined_score m \<noteq> None then rm_combined_score m else rm_score m)"

text \<open>A missing score counts as minus infinity and so comes last.\<close>

definition rank_key :: "recalled \<Rightarrow> (bool \<times> real) \<times> string" where
  "rank_key m = ((case rank_score m of None \<Rightarrow> (True, 0) | Some x \<Rightarrow> (False, - x)), opt_or (rm_cid m) [])"

text \<open>\<open>xs[:n]\<close>: a negative bound counts from the end.\<close>

definition slice_to :: "int \<Rightarrow> 'a list \<Rightarrow> 'a list" where
  "slice_to n xs = (if 0 \<le> n then take (nat n) xs else take (length xs - nat (- n)) xs)"

definition top_memories :: "recall_config \<Rightarrow> recalled list \<Rightarrow> recalled list" where
  "top_memories cfg ms = (if rk_topn cfg then slice_to (rk_surface_budget cfg) (sort_key rank_key ms) else ms)"

section \<open>One recall\<close>

definition token_char :: "char \<Rightarrow> bool" where
  "token_char c \<longleftrightarrow> is_digit c \<or> c \<in> set ''._-'' \<or> lower_char c \<in> set ''abcdefghijklmnopqrstuvwxyz''"

definition read_token :: "string option \<Rightarrow> string option" where
  "read_token file = (case file of None \<Rightarrow> None
   | Some t \<Rightarrow> if strip t = [] \<or> \<not> list_all token_char (strip t) then None else Some (strip t))"

text \<open>A missing token is formatted into the header like any other value.\<close>

definition recall_headers :: "string option \<Rightarrow> string \<Rightarrow> (string \<times> string) list" where
  "recall_headers token trace_id =
     [(''Authorization'', ''Bearer '' @ opt_or token ''None''), (''Content-Type'', ''application/json''),
      (''X-WeVibe-Trace-Id'', trace_id)]"

definition failed_recall :: "bool \<Rightarrow> string option \<Rightarrow> int \<Rightarrow> recall_result" where
  "failed_recall reachable reason http =
     \<lparr>rr_memories = [], rr_status = ''error'', rr_reason = reason, rr_reachable = reachable, rr_http_status = Some http\<rparr>"

definition result_of_answer :: "(pyval \<Rightarrow> string) \<Rightarrow> recall_config \<Rightarrow> (int \<times> pyval \<times> bool) option \<Rightarrow> recall_result" where
  "result_of_answer rp cfg answer = (case answer of
     None \<Rightarrow> failed_recall False None 0
   | Some (http, v, reachable) \<Rightarrow>
       (let response = dict_or_empty v in
        if \<not> reachable then failed_recall False None http
        else if http \<noteq> 200 then failed_recall True (to_str rp (dget response ''code'')) http
        else \<lparr>rr_memories = top_memories cfg (build_memories rp response),
              rr_status = (case dget response ''status'' of PStr t \<Rightarrow> if t = [] then ''ok'' else t | _ \<Rightarrow> ''ok''),
              rr_reason = to_str rp (dget response ''reason_code''), rr_reachable = True, rr_http_status = Some 200\<rparr>))"

text \<open>The request and its result; \<open>trace\<close> is the random suffix, \<open>primed\<close> the session the backend was primed with.\<close>

definition recall ::
  "(pyval \<Rightarrow> string) \<Rightarrow> recall_config \<Rightarrow> string option \<Rightarrow> string \<Rightarrow> string option
     \<Rightarrow> (string \<Rightarrow> (string \<times> string) list \<Rightarrow> pydict \<Rightarrow> (int \<times> pyval \<times> bool) option)
     \<Rightarrow> need_card \<Rightarrow> string option \<Rightarrow> recall_result" where
  "recall rp cfg token_file trace primed transport n org_id =
     (let trace_id = ''bench-'' @ trace; session = (if opt_or primed [] = [] then trace_id else opt_or primed []);
          org = (if opt_or org_id [] = [] then rk_org_id cfg else opt_or org_id []) in
      result_of_answer rp cfg
        (transport (rk_url cfg @ ''/v1/recall'') (recall_headers (read_token token_file) trace_id)
          (to_wire n cfg session (Some org))))"

definition verify_delivery :: "recall_result \<Rightarrow> verdict" where
  "verify_delivery r =
     (if \<not> rr_reachable r \<or> rr_status r = ''error'' \<or> rr_http_status r \<noteq> Some 200 then NO
      else if list_ex recalled_content (rr_memories r) then YES
      else if rr_reason r \<in> {Some ''decrypt_failed'', Some ''filtered_out''} then CALLED
      else NO)"

definition none_recall :: recall_result where
  "none_recall = \<lparr>rr_memories = [], rr_status = ''ok'', rr_reason = Some ''off_control'', rr_reachable = True,
     rr_http_status = None\<rparr>"

section \<open>What a delivery means\<close>

lemma failed_recall_is_no: "verify_delivery (failed_recall b c h) = NO"
  by (simp add: verify_delivery_def failed_recall_def)

text \<open>The control without memory is never a delivery.\<close>

lemma control_is_no: "verify_delivery none_recall = NO"
  by (simp add: verify_delivery_def none_recall_def)

lemma slice_to_subset: "set (slice_to n xs) \<subseteq> set xs"
  by (auto simp: slice_to_def dest: in_set_takeD)

lemma top_memories_subset: "set (top_memories cfg ms) \<subseteq> set ms"
  using slice_to_subset [of "rk_surface_budget cfg" "sort_key rank_key ms"] by (auto simp: top_memories_def)

text \<open>A recall counts as delivered exactly when the service was reached, answered 200 without a status of error and
  one of the memories that are kept has a decrypted text; every such memory is one the service returned.\<close>

theorem delivered_is_plaintext:
  "verify_delivery (result_of_answer rp cfg answer) = YES \<longleftrightarrow>
     (\<exists>v. answer = Some (200, v, True) \<and> dget (dict_or_empty v) ''status'' \<noteq> PStr ''error'' \<and>
        (\<exists>m \<in> set (top_memories cfg (build_memories rp (dict_or_empty v))).
           recalled_content m \<and> m \<in> set (build_memories rp (dict_or_empty v))))"
proof -
  have "(case v of PStr t \<Rightarrow> if t = [] then ''ok'' else t | _ \<Rightarrow> ''ok'') = ''error'' \<longleftrightarrow> v = PStr ''error''" for v
    by (auto split: pyval.splits)
  then show ?thesis
    using top_memories_subset [of cfg]
    by (auto simp: result_of_answer_def Let_def failed_recall_def verify_delivery_def list_ex_iff
        split: option.splits prod.splits if_splits)
qed

section \<open>The ranking is reproducible\<close>

lemma sort_key_distinct:
  assumes "mset xs = mset ys" "distinct (map f xs)"
  shows "sort_key f xs = sort_key f ys"
proof (rule properties_for_sort_key)
  show "mset (sort_key f ys) = mset xs" using assms(1) by simp
  have d: "distinct (map f ys)" using assms by (metis mset_eq_imp_distinct_iff mset_map)
  have one: "filter (\<lambda>x. f k = f x) zs = [k]" if "k \<in> set zs" "distinct (map f zs)" for k zs
    using that by (induction zs) (auto simp: filter_empty_conv image_iff)
  have set: "set xs = set ys" using assms(1) by (rule mset_eq_setD)
  have "mset (map f (sort_key f ys)) = mset (map f ys)" by simp
  then have ds: "distinct (map f (sort_key f ys))" using d mset_eq_imp_distinct_iff by blast
  show "filter (\<lambda>x. f k = f x) (sort_key f ys) = filter (\<lambda>x. f k = f x) xs" if "k \<in> set (sort_key f ys)" for k
    using one [of k xs] one [of k "sort_key f ys"] that assms(2) ds set by simp
qed (rule sorted_sort_key)


definition sample_memory :: "string \<Rightarrow> real \<Rightarrow> recalled" where
  "sample_memory cid x = \<lparr>rm_cid = Some cid, rm_score = Some x, rm_vector_score = None, rm_combined_score = None,
     rm_keyword_score = None, rm_keywords = [], rm_text = ''t''\<rparr>"

definition sample_recall :: recall_config where
  "sample_recall = \<lparr>rk_org_id = ''o'', rk_mc_version = 1, rk_tau = 1, rk_surface_budget = 1, rk_topn = True,
     rk_recall_limit = 64, rk_url = ''u''\<rparr>"


text \<open>Without a token the request is not sent without one: its header carries the word that stands for the missing
  value.\<close>

lemma missing_token_is_sent:
  "recall_headers (read_token None) t = [(''Authorization'', ''Bearer None''), (''Content-Type'', ''application/json''),
     (''X-WeVibe-Trace-Id'', t)]"
  by (simp add: recall_headers_def read_token_def)

text \<open>Stack, files, errors and the other harvested fields are no part of the dense query.\<close>

lemma digest_is_prose_only:
  "prompt_digest (n\<lparr>nd_language := l, nd_stack := s, nd_frameworks := f, nd_deps := d, nd_error_strings := e,
     nd_files := fs, nd_directory := dir, nd_project := p, nd_query := q\<rparr>) = prompt_digest n"
  by (simp add: prompt_digest_def)

end
