(* ===== verification/Delivery_Proof.thy ===== *)
theory Delivery_Proof
  imports Memory_Recall
begin

text \<open>
  The proof that stored memories are delivered: the authenticated client (\<open>wevibe_bench/lifecycle/mcp_rest.py\<close>) and
  \<open>prove_delivery\<close> of \<open>wevibe_bench/lifecycle/m2_proof.py\<close>.  \<open>fp\<close> is the fingerprint of a text, \<open>rp\<close> prints a value;
  a request is answered by the transport with a status, a value and whether the service was reached.
\<close>

section \<open>Requests\<close>

definition rest_token :: "string option \<Rightarrow> py_exc + string" where
  "rest_token file = (case file of
     None \<Rightarrow> Inl (PyRuntimeError ''session token unavailable'')
   | Some t \<Rightarrow>
       if strip t = [] then Inl (PyRuntimeError ''session token blank'')
       else if \<not> list_all token_char (strip t) then Inl (PyRuntimeError ''session token invalid format'')
       else Inr (strip t))"

type_synonym rest_transport = "string \<Rightarrow> (string \<times> string) list \<Rightarrow> pyval option \<Rightarrow> int \<times> pyval \<times> bool"

definition rest_request ::
  "rest_transport \<Rightarrow> string \<Rightarrow> string option \<Rightarrow> string \<Rightarrow> string \<Rightarrow> pyval option \<Rightarrow> py_exc + pyval" where
  "rest_request transport base token_file trace path body =
     bind_result (rest_token token_file) (\<lambda>token.
       case transport (rev (dropWhile (\<lambda>c. c = CHR ''/'') (rev base)) @ path)
              [(''Authorization'', ''Bearer '' @ token), (''Content-Type'', ''application/json''),
               (''X-WeVibe-Trace-Id'', trace)] body of
         (http, payload, reachable) \<Rightarrow>
           if \<not> reachable then Inl (PyRuntimeError (''mcp unreachable for '' @ path))
           else if http \<noteq> 200 then Inl (PyRuntimeError (''mcp request failed path='' @ path))
           else Inr payload)"

definition must_be_object :: "string \<Rightarrow> pyval \<Rightarrow> py_exc + pydict" where
  "must_be_object what v = (case v of PDict d \<Rightarrow> Inr d | _ \<Rightarrow> Inl (PyRuntimeError (what @ '' expected object'')))"

definition rest_recall ::
  "rest_transport \<Rightarrow> string \<Rightarrow> string option \<Rightarrow> string \<Rightarrow> string \<Rightarrow> string \<Rightarrow> pydict \<Rightarrow> py_exc + pydict" where
  "rest_recall transport base token_file trace query org_id kw =
     bind_result (rest_request transport base token_file trace ''/v1/recall''
         (Some (PDict (fold (\<lambda>(k, v) d. AList.update k v d) kw [(''query'', PStr query), (''org_id'', PStr org_id)]))))
       (must_be_object ''recall'')"

definition rest_identity_pubkeys :: "rest_transport \<Rightarrow> string \<Rightarrow> string option \<Rightarrow> string \<Rightarrow> py_exc + pydict" where
  "rest_identity_pubkeys transport base token_file trace =
     bind_result (rest_request transport base token_file trace ''/v1/identity/pubkeys'' None)
       (must_be_object ''identity pubkeys'')"

section \<open>Targets\<close>

definition MEMORY_FRAGMENT_LIMIT :: nat where "MEMORY_FRAGMENT_LIMIT = 64"

definition memory_fragment :: "string \<Rightarrow> string" where
  "memory_fragment t = take MEMORY_FRAGMENT_LIMIT (join '' '' (split_ws t))"

record target =
  tg_fragment :: string
  tg_cid :: "string option"

text \<open>A target is a fragment, a mapping, or a pair of fragment and identifier; a blank fragment is dropped.\<close>

definition target_sources :: "pyval \<Rightarrow> py_exc + pyval \<times> pyval" where
  "target_sources v = (case v of
     PStr t \<Rightarrow> Inr (PStr t, PNone)
   | PDict d \<Rightarrow> Inr (dget d ''fragment'', dget d ''cid'')
   | PList [a, b] \<Rightarrow> Inr (a, b)
   | _ \<Rightarrow> Inl (PyRuntimeError ''prove_delivery list items must be str, {fragment,cid} dict, or (fragment,cid) pair''))"

definition parse_target :: "(pyval \<Rightarrow> string) \<Rightarrow> pyval \<Rightarrow> py_exc + target option" where
  "parse_target rp v = bind_result (target_sources v) (\<lambda>(f, c).
     let fragment = memory_fragment (py_str rp (or_else f (PStr []))); cid = strip (py_str rp c) in
     Inr (if fragment = [] then None
          else Some \<lparr>tg_fragment = fragment, tg_cid = (if c = PNone \<or> cid = [] then None else Some cid)\<rparr>))"

definition raw_targets :: "pyval \<Rightarrow> py_exc + pyval list" where
  "raw_targets v = (case v of
     PList xs \<Rightarrow> Inr xs
   | PStr t \<Rightarrow> Inr (if strip t = [] then [] else [PStr t])
   | _ \<Rightarrow> Inl (PyRuntimeError ''prove_delivery expected a fragment string or list of strings/{fragment,cid} targets''))"

section \<open>One target\<close>

datatype delivery_mode = Matched | Unmatched | Twin_Of_Returned | Suppressed_Winner_Absent

record memory_entry =
  me_fragment_fp :: string
  me_cid :: "string option"
  me_matched :: bool
  me_delivered :: bool
  me_mode :: delivery_mode
  me_suppression :: "(string option \<times> string \<times> real option) option"

definition memory_items :: "pydict \<Rightarrow> pyval list" where
  "memory_items payload = (case dget payload ''memories'' of PList xs \<Rightarrow> xs | _ \<Rightarrow> [])"

definition returned_cids :: "pyval list \<Rightarrow> string list" where
  "returned_cids items = List.map_filter (\<lambda>v. case v of
     PDict d \<Rightarrow> (case dget d ''cid'' of PStr c \<Rightarrow> if strip c = [] then None else Some (strip c) | _ \<Rightarrow> None) | _ \<Rightarrow> None) items"

definition item_matches :: "string \<Rightarrow> pyval \<Rightarrow> bool" where
  "item_matches fragment v = (case v of
     PDict d \<Rightarrow> (case dget d ''text'' of PStr t \<Rightarrow> contains (lower t) (lower fragment) | _ \<Rightarrow> False) | _ \<Rightarrow> False)"

definition stripped_text :: "pyval \<Rightarrow> string" where
  "stripped_text v = (case v of PStr t \<Rightarrow> strip t | _ \<Rightarrow> [])"

definition gap_of :: "pyval \<Rightarrow> real option" where
  "gap_of v = (if is_number v then num v else None)"

definition judge_target :: "(string \<Rightarrow> string) \<Rightarrow> target \<Rightarrow> pydict \<Rightarrow> memory_entry" where
  "judge_target fp t payload =
     (let items = memory_items payload; matched = list_ex (item_matches (tg_fragment t)) items;
          base = \<lparr>me_fragment_fp = fp (tg_fragment t), me_cid = map_option fp (tg_cid t), me_matched = matched,
                  me_delivered = matched, me_mode = (if matched then Matched else Unmatched), me_suppression = None\<rparr> in
      case (matched, tg_cid t, dget payload ''suppression'') of
        (False, Some cid, PDict s) \<Rightarrow>
          (let dropped = stripped_text (dget s ''dropped_twin_cid''); winner = stripped_text (dget s ''winner_cid'') in
           if dropped = [] \<or> dropped \<noteq> cid then base
           else base\<lparr>
             me_suppression := Some (if winner = [] then None else Some (fp winner), fp dropped, gap_of (dget s ''score_gap'')),
             me_delivered := (winner \<noteq> [] \<and> winner \<in> set (returned_cids items)),
             me_mode := (if winner \<noteq> [] \<and> winner \<in> set (returned_cids items) then Twin_Of_Returned
                         else Suppressed_Winner_Absent)\<rparr>)
      | _ \<Rightarrow> base)"

record delivery_result =
  dr_delivery :: bool
  dr_matched :: bool
  dr_any_matched :: bool
  dr_per_memory :: "memory_entry list"

definition no_targets :: delivery_result where
  "no_targets = \<lparr>dr_delivery = False, dr_matched = False, dr_any_matched = False, dr_per_memory = []\<rparr>"

text \<open>\<open>ask\<close> recalls a fragment: the recall of the client with the organisation and nothing else.\<close>

definition prove_delivery ::
  "(pyval \<Rightarrow> string) \<Rightarrow> (string \<Rightarrow> string) \<Rightarrow> (string \<Rightarrow> py_exc + pydict) \<Rightarrow> pyval \<Rightarrow> py_exc + delivery_result" where
  "prove_delivery rp fp ask expected =
     bind_result (raw_targets expected) (\<lambda>raw.
     bind_result (map_result (parse_target rp) raw) (\<lambda>parsed.
       let targets = List.map_filter id parsed in
       if targets = [] then Inr no_targets
       else bind_result (map_result (\<lambda>t. bind_result (ask (tg_fragment t)) (\<lambda>p. Inr (judge_target fp t p))) targets) (\<lambda>es.
         Inr \<lparr>dr_delivery = list_all me_delivered es, dr_matched = list_all me_matched es,
              dr_any_matched = list_ex me_matched es, dr_per_memory = es\<rparr>)))"

section \<open>What is proved\<close>

lemma map_result_targets:
  "map_result (\<lambda>t. bind_result (ask (tg_fragment t)) (\<lambda>p. Inr (judge_target fp t p))) ts = Inr es \<Longrightarrow>
   list_all2 (\<lambda>t e. \<exists>p. ask (tg_fragment t) = Inr p \<and> e = judge_target fp t p) ts es"
  by (induction ts arbitrary: es) (auto simp: result_simps)

lemma judge_target_delivered:
  "me_delivered (judge_target fp t p) \<longleftrightarrow>
     (\<exists>v \<in> set (memory_items p). item_matches (tg_fragment t) v) \<or>
     (\<exists>c s w. tg_cid t = Some c \<and> c \<noteq> [] \<and> dget p ''suppression'' = PDict s \<and> stripped_text (dget s ''dropped_twin_cid'') = c \<and>
        w = stripped_text (dget s ''winner_cid'') \<and> w \<noteq> [] \<and> w \<in> set (returned_cids (memory_items p)))"
  by (auto simp: judge_target_def Let_def list_ex_iff split: option.splits pyval.splits bool.splits)

lemma parsed_fragment: "parse_target rp v = Inr (Some t) \<Longrightarrow> tg_fragment t \<noteq> []"
  by (auto simp: parse_target_def result_simps Let_def split: if_splits)

lemma parsed_fragments:
  "map_result (parse_target rp) xs = Inr ps \<Longrightarrow> list_all (\<lambda>u. \<forall>t. u = Some t \<longrightarrow> tg_fragment t \<noteq> []) ps"
  by (induction xs arbitrary: ps) (auto simp: result_simps parsed_fragment)

lemma judge_target_fp: "me_fragment_fp (judge_target fp t p) = fp (tg_fragment t)"
  by (auto simp: judge_target_def Let_def split: option.splits pyval.splits bool.splits)

text \<open>What speaks for a target in an answer: a memory with its fragment, or its memory dropped for one returned.\<close>

definition backed :: "target \<Rightarrow> pydict \<Rightarrow> bool" where
  "backed t p \<longleftrightarrow> (\<exists>v \<in> set (memory_items p). item_matches (tg_fragment t) v) \<or>
     (\<exists>s. dget p ''suppression'' = PDict s \<and> tg_cid t = Some (stripped_text (dget s ''dropped_twin_cid'')) \<and>
        stripped_text (dget s ''winner_cid'') \<in> set (returned_cids (memory_items p)))"

text \<open>Delivery is proved only by evidence: when it is reported, there was a target, and for every one the service
  returned a memory whose text has the fragment, or it said that the target's memory was dropped in favour of one
  that it did return.\<close>

theorem proved_delivery_has_evidence:
  assumes "prove_delivery rp fp ask expected = Inr r" and "dr_delivery r"
  shows "dr_per_memory r \<noteq> [] \<and>
     (\<exists>ts. list_all2 (\<lambda>t e. tg_fragment t \<noteq> [] \<and> me_fragment_fp e = fp (tg_fragment t) \<and>
        (\<exists>p. ask (tg_fragment t) = Inr p \<and> backed t p)) ts (dr_per_memory r))"
proof -
  obtain raw parsed where parsed: "map_result (parse_target rp) raw = Inr parsed"
    and r: "(let targets = List.map_filter id parsed in
       if targets = [] then Inr no_targets
       else bind_result (map_result (\<lambda>t. bind_result (ask (tg_fragment t)) (\<lambda>p. Inr (judge_target fp t p))) targets) (\<lambda>es.
         Inr \<lparr>dr_delivery = list_all me_delivered es, dr_matched = list_all me_matched es,
              dr_any_matched = list_ex me_matched es, dr_per_memory = es\<rparr>)) = Inr r"
    using assms(1) by (auto simp: prove_delivery_def result_simps)
  let ?ts = "List.map_filter id parsed"
  have ne: "?ts \<noteq> []" using r assms(2) by (auto simp: no_targets_def)
  then obtain es where es: "map_result (\<lambda>t. bind_result (ask (tg_fragment t)) (\<lambda>p. Inr (judge_target fp t p))) ?ts = Inr es"
    and re: "r = \<lparr>dr_delivery = list_all me_delivered es, dr_matched = list_all me_matched es,
              dr_any_matched = list_ex me_matched es, dr_per_memory = es\<rparr>"
    using r by (auto simp: result_simps Let_def)
  have frags: "\<And>t. t \<in> set ?ts \<Longrightarrow> tg_fragment t \<noteq> []"
    using parsed_fragments [OF parsed] by (auto simp: map_filter_def list_all_iff)
  have all: "list_all2 (\<lambda>t e. \<exists>p. ask (tg_fragment t) = Inr p \<and> e = judge_target fp t p) ?ts es"
    using map_result_targets [OF es] .
  have "list_all2 (\<lambda>t e. tg_fragment t \<noteq> [] \<and> me_fragment_fp e = fp (tg_fragment t) \<and>
        (\<exists>p. ask (tg_fragment t) = Inr p \<and> backed t p)) ?ts es"
  proof (rule list.rel_mono_strong [OF all])
    fix t e assume "t \<in> set ?ts" "e \<in> set es" and "\<exists>p. ask (tg_fragment t) = Inr p \<and> e = judge_target fp t p"
    then obtain p where p: "ask (tg_fragment t) = Inr p" "e = judge_target fp t p" by blast
    have "me_delivered e" using \<open>e \<in> set es\<close> assms(2) re by (simp add: list_all_iff)
    then have "backed t p" using judge_target_delivered [of fp t p] p(2) by (auto simp: backed_def)
    then show "tg_fragment t \<noteq> [] \<and> me_fragment_fp e = fp (tg_fragment t) \<and> (\<exists>p. ask (tg_fragment t) = Inr p \<and> backed t p)"
      using frags [OF \<open>t \<in> set ?ts\<close>] p judge_target_fp by auto
  qed
  moreover have "es \<noteq> []" using ne all by auto
  ultimately show ?thesis unfolding re by auto
qed

definition answer_with :: "string \<Rightarrow> string \<Rightarrow> py_exc + pydict" where
  "answer_with t q = Inr [(''memories'', PList [PDict [(''text'', PStr t)]])]"

lemma prove_one:
  assumes "strip t \<noteq> []" "memory_fragment t \<noteq> []"
  shows "prove_delivery rp fp (answer_with s) (PStr t) =
     Inr (let m = contains (lower s) (lower (memory_fragment t)) in
       \<lparr>dr_delivery = m, dr_matched = m, dr_any_matched = m, dr_per_memory =
          [\<lparr>me_fragment_fp = fp (memory_fragment t), me_cid = None, me_matched = m, me_delivered = m,
            me_mode = (if m then Matched else Unmatched), me_suppression = None\<rparr>]\<rparr>)"
proof -
  have "t \<noteq> []" using assms(1) by auto
  then show ?thesis
    using assms
    by (simp add: prove_delivery_def raw_targets_def parse_target_def target_sources_def or_else_def answer_with_def
        judge_target_def memory_items_def item_matches_def map_filter_def Let_def)
qed

theorem proved_delivery_has_evidence_witness:
  "\<exists>r. prove_delivery (\<lambda>_. []) id (answer_with ''ab'') (PStr ''ab'') = Inr r \<and> dr_per_memory r \<noteq> []"
proof -
  have p: "prove_delivery (\<lambda>_. []) id (answer_with ''ab'') (PStr ''ab'') =
      Inr (let m = contains (lower ''ab'') (lower (memory_fragment ''ab'')) in
       \<lparr>dr_delivery = m, dr_matched = m, dr_any_matched = m, dr_per_memory =
          [\<lparr>me_fragment_fp = id (memory_fragment ''ab''), me_cid = None, me_matched = m, me_delivered = m,
            me_mode = (if m then Matched else Unmatched), me_suppression = None\<rparr>]\<rparr>)"
    by (rule prove_one) (simp_all add: strip_def lstrip_def rstrip_def is_space_def char_code_def memory_fragment_def
        MEMORY_FRAGMENT_LIMIT_def split_ws_def)
  have "memory_fragment ''ab'' = ''ab''"
    by (simp add: memory_fragment_def MEMORY_FRAGMENT_LIMIT_def split_ws_def is_space_def char_code_def)
  then show ?thesis
    using proved_delivery_has_evidence [OF p] p by (auto simp: Let_def contains_iff intro: exI [of _ "[]"])
qed

section \<open>A memory of several lines is not found\<close>

lemma lower_char_blank: "lower_char c = CHR '' '' \<Longrightarrow> c = CHR '' ''"
proof -
  assume a: "lower_char c = CHR '' ''"
  show ?thesis
  proof (cases "65 \<le> char_code c \<and> char_code c \<le> 90")
    case True
    then have "char_of (char_code c + 32) = CHR '' ''" using a by (simp add: lower_char_def Let_def)
    then have "of_char (char_of (char_code c + 32) :: char) = (32 :: nat)" by simp
    then have "(char_code c + 32) mod 256 = 32" by (simp only: of_char_of)
    then show ?thesis using True by simp
  qed (use a in \<open>auto simp: lower_char_def Let_def\<close>)
qed

lemma contains_set: "contains s p \<Longrightarrow> set p \<subseteq> set s"
  by (auto simp: contains_iff)

text \<open>The fragment asked for has its white space collapsed, the memories it is looked up in do not: a memory whose
  words are set apart by line breaks or tabs only is reported as not delivered even when the service returns it
  word for word.\<close>

theorem wrapped_memory_is_not_found:
  assumes "CHR '' '' \<notin> set t" and "CHR '' '' \<in> set (memory_fragment t)" and "strip t \<noteq> []"
  shows "\<exists>r. prove_delivery rp fp (answer_with t) (PStr t) = Inr r \<and> \<not> dr_delivery r \<and> \<not> dr_any_matched r"
proof -
  have "CHR '' '' \<notin> set (lower t)" using assms(1) lower_char_blank by (force simp: lower_def)
  moreover have "lower_char (CHR '' '') = CHR '' ''" by (simp add: lower_char_def char_code_def)
  then have "CHR '' '' \<in> set (lower (memory_fragment t))" using assms(2) by (force simp: lower_def)
  ultimately have "\<not> contains (lower t) (lower (memory_fragment t))" using contains_set by blast
  moreover have "memory_fragment t \<noteq> []" using assms(2) by auto
  ultimately show ?thesis using prove_one [OF assms(3), of rp fp t] by (simp add: Let_def)
qed

theorem wrapped_memory_is_not_found_witness:
  "\<exists>r. prove_delivery (\<lambda>_. []) id (answer_with (''a'' @ [CHR 0x0A] @ ''b'')) (PStr (''a'' @ [CHR 0x0A] @ ''b'')) = Inr r \<and>
     \<not> dr_delivery r \<and> \<not> dr_any_matched r"
  by (rule wrapped_memory_is_not_found)
    (simp_all add: memory_fragment_def MEMORY_FRAGMENT_LIMIT_def split_ws_def is_space_def char_code_def strip_def
      lstrip_def rstrip_def)

end
