(* ===== verification/Bench_Env.thy ===== *)
theory Bench_Env
  imports Run_Context
begin

text \<open>
  The environment file of the bench: \<open>load_bench_env\<close> of \<open>wevibe_bench/benv.py\<close>.  The process environment is an
  association list; the file is its text, \<open>None\<close> when it is not there.
\<close>

text \<open>\<open>os.environ.setdefault\<close>.\<close>

definition set_default :: "string \<Rightarrow> string \<Rightarrow> (string \<times> string) list \<Rightarrow> (string \<times> string) list" where
  "set_default k v env = (if map_of env k = None then AList.update k v env else env)"

text \<open>A line: the values seen in the file so far and the environment.\<close>

definition bench_env_line ::
  "string \<Rightarrow> (string \<times> string) list \<times> (string \<times> string) list \<Rightarrow> (string \<times> string) list \<times> (string \<times> string) list" where
  "bench_env_line raw = (\<lambda>(vals, env).
     let line = strip raw in
     if line = [] \<or> starts_with line ''#'' then (vals, env)
     else case partition_char (CHR ''='') (unexported line) of
       (k, True, v) \<Rightarrow>
         (let key = strip k; val = expand (\<lambda>n. opt_or (map_of vals n) (opt_or (map_of env n) [])) (unquoted (strip v)) in
          (AList.update key val vals, set_default key val env))
     | _ \<Rightarrow> (vals, env))"

text \<open>The result says whether a file was loaded.\<close>

definition load_bench_env ::
  "string \<Rightarrow> string option \<Rightarrow> (string \<times> string) list \<Rightarrow> bool \<times> (string \<times> string) list" where
  "load_bench_env base file env = (case file of
     None \<Rightarrow> (False, env)
   | Some t \<Rightarrow> (True, snd (fold bench_env_line (splitlines t) ([], set_default ''WEVIBE_BENCH_WEVIBE_ROOT'' base env))))"

lemma set_default_keeps: "map_of env k = Some v \<Longrightarrow> map_of (set_default j w env) k = Some v"
  by (auto simp: set_default_def alist_simps)

lemma bench_env_line_keeps: "map_of (snd st) k = Some v \<Longrightarrow> map_of (snd (bench_env_line raw st)) k = Some v"
  by (auto simp: bench_env_line_def Let_def set_default_keeps split: prod.splits bool.splits)

lemma bench_env_fold_keeps:
  "map_of (snd st) k = Some v \<Longrightarrow> map_of (snd (fold bench_env_line ls st)) k = Some v"
  by (induction ls arbitrary: st) (simp_all add: bench_env_line_keeps)

text \<open>A variable that is set already keeps its value, whatever the file says and however often.\<close>

theorem exports_win:
  assumes "map_of env k = Some v"
  shows "map_of (snd (load_bench_env base file env)) k = Some v"
  using assms by (simp add: load_bench_env_def bench_env_fold_keeps set_default_keeps split: option.splits)

text \<open>The values built from it are not: a variable of the file stands for the file's value in later lines even
  where the environment has kept another one.\<close>

lemma file_values_shadow_exports:
  "snd (load_bench_env ''/w'' (Some (''R=/y'' @ [CHR 0x0A] @ ''D=$R/d'')) [(''R'', ''/x''), (''WEVIBE_BENCH_WEVIBE_ROOT'', ''/w'')]) =
     [(''R'', ''/x''), (''WEVIBE_BENCH_WEVIBE_ROOT'', ''/w''), (''D'', ''/y/d'')]"
proof -
  have lines: "splitlines (''R=/y'' @ [CHR 0x0A] @ ''D=$R/d'') = [''R=/y'', ''D=$R/d'']"
    by (simp add: splitlines_def line_end_def char_code_def)
  have 1: "bench_env_line ''R=/y'' ([], [(''R'', ''/x''), (''WEVIBE_BENCH_WEVIBE_ROOT'', ''/w'')]) =
      ([(''R'', ''/y'')], [(''R'', ''/x''), (''WEVIBE_BENCH_WEVIBE_ROOT'', ''/w'')])"
    by (simp add: bench_env_line_def strip_def lstrip_def rstrip_def is_space_def char_code_def unexported_def
        partition_char_def unquoted_def set_default_def Let_def)
  have 2: "bench_env_line ''D=$R/d'' ([(''R'', ''/y'')], [(''R'', ''/x''), (''WEVIBE_BENCH_WEVIBE_ROOT'', ''/w'')]) =
      ([(''R'', ''/y''), (''D'', ''/y/d'')], [(''R'', ''/x''), (''WEVIBE_BENCH_WEVIBE_ROOT'', ''/w''), (''D'', ''/y/d'')])"
    by (simp add: bench_env_line_def strip_def lstrip_def rstrip_def is_space_def char_code_def unexported_def
        partition_char_def unquoted_def set_default_def variable_at_def bare_name_def name_start_def name_char_def
        is_digit_def Let_def)
  show ?thesis
    by (simp only: load_bench_env_def option.case lines snd_conv fold_simps id_apply)
      (simp add: set_default_def 1 2)
qed

end
