(* ===== verification/Ops_Log.thy ===== *)
theory Ops_Log
  imports Cell_Telemetry Run_Context
begin

text \<open>
  The parsers of the run ledger: \<open>wevibe_bench/ledger/parsers.py\<close>.  A file is its text, \<open>None\<close> when it does not
  exist; \<open>loads\<close> decodes JSON.  The regular expressions are matchers on lists of characters: where a pattern could be
  matched in more than one way, the way that Python takes is written out.
\<close>

section \<open>Operation lines\<close>

record op_record =
  or_ts :: string
  or_level :: string
  or_op :: string
  or_fields :: "(string \<times> string) list"

definition field_char :: "char \<Rightarrow> bool" where
  "field_char c \<longleftrightarrow> word_char c \<or> c = CHR ''.'' \<or> c = CHR ''-''"

text \<open>A field: a name, an equals sign and what follows up to the next blank.\<close>

definition field_at :: "bool \<Rightarrow> string \<Rightarrow> ((string \<times> string) \<times> string) option" where
  "field_at w s =
     (let k = takeWhile field_char s; v = takeWhile (\<lambda>c. \<not> is_space c) (tl (dropWhile field_char s)) in
      if k = [] \<or> \<not> starts_with (dropWhile field_char s) ''='' \<or> v = [] then None
      else Some ((k, v), dropWhile (\<lambda>c. \<not> is_space c) (tl (dropWhile field_char s))))"

definition fields_of :: "string \<Rightarrow> (string \<times> string) list" where
  "fields_of rest = fold (\<lambda>(k, v) d. AList.update k v d) (find_all field_at rest) []"

definition level_of :: "string \<Rightarrow> string option" where
  "level_of t = (if t \<in> {''INFO'', ''WARN'', ''ERROR''} then Some t else None)"

definition op_line :: "string \<Rightarrow> op_record option" where
  "op_line line = (case match_pats [Word_Run, Spaces, Word_Run, Spaces, Lit ''op='', Word_Run] line of
     Some ([ts, level, op], rest) \<Rightarrow>
       if level_of level = None then None
       else Some \<lparr>or_ts = ts, or_level = level, or_op = op, or_fields = fields_of rest\<rparr>
   | _ \<Rightarrow> None)"

text \<open>The records and the number of lines that are none.\<close>

definition nonblank_lines :: "string \<Rightarrow> string list" where
  "nonblank_lines t = filter (\<lambda>l. l \<noteq> []) (map strip (splitlines t))"

definition parse_ops_log :: "string option \<Rightarrow> op_record list \<times> nat" where
  "parse_ops_log file = (case file of None \<Rightarrow> ([], 0)
   | Some t \<Rightarrow> (List.map_filter op_line (nonblank_lines t), count_if (\<lambda>l. op_line l = None) (nonblank_lines t)))"

section \<open>The spool\<close>

definition parse_spool_jsonl :: "(string \<Rightarrow> pyval option) \<Rightarrow> string option \<Rightarrow> pydict list \<times> bool" where
  "parse_spool_jsonl loads file = (case file of None \<Rightarrow> ([], False)
   | Some t \<Rightarrow>
       (let ls = map strip (splitlines t) in
        (List.map_filter (\<lambda>l. case loads l of Some (PDict d) \<Rightarrow> Some d | _ \<Rightarrow> None) (filter (\<lambda>l. l \<noteq> []) ls),
         ls \<noteq> [] \<and> List.last ls \<noteq> [] \<and> loads (List.last ls) = None)))"

section \<open>Extraction records\<close>

text \<open>The entries of such a record that the ledger reads; the other five are copies of the line's fields.\<close>

record extraction_row =
  xr_resolved :: "int option"
  xr_emitted :: "int option"
  xr_empty_reason :: "string option"
  xr_violation :: "bool option"

definition to_int_or_none :: "string option \<Rightarrow> int option" where
  "to_int_or_none v = (case v of None \<Rightarrow> None | Some t \<Rightarrow> if is_digit_string t then Some (int (digits_value t)) else None)"

definition extraction_integrity_records :: "op_record list \<Rightarrow> extraction_row list" where
  "extraction_integrity_records rs = map (\<lambda>r.
     \<lparr>xr_resolved = to_int_or_none (map_of (or_fields r) ''resolved_problem_count''),
      xr_emitted = to_int_or_none (map_of (or_fields r) ''emitted_memory_count''),
      xr_empty_reason = map_of (or_fields r) ''empty_reason'',
      xr_violation = map_option (\<lambda>t. lower t = ''true'') (map_of (or_fields r) ''invariant_violation'')\<rparr>)
     (filter (\<lambda>r. or_op r = ''extraction.integrity'') rs)"

section \<open>Decisions of the leader\<close>

record leader_decision =
  ld_trace :: string
  ld_decision :: string
  ld_message :: string
  ld_meta :: pydict

definition bracketed_level :: "string \<Rightarrow> bool" where
  "bracketed_level t \<longleftrightarrow> 3 \<le> length t \<and> hd t = CHR ''['' \<and> List.last t = CHR '']''
     \<and> list_all (\<lambda>c. 65 \<le> char_code c \<and> char_code c \<le> 90) (butlast (tl t))"

text \<open>The JSON object at the end of the line: from the first brace to the last character.\<close>

definition split_meta :: "(string \<Rightarrow> pyval option) \<Rightarrow> string \<Rightarrow> pydict \<times> string" where
  "split_meta loads rest =
     (let blob = dropWhile (\<lambda>c. c \<noteq> CHR ''{'') (rstrip rest) in
      if blob = [] \<or> List.last blob \<noteq> CHR ''}'' then ([], rest)
      else case loads blob of
        None \<Rightarrow> ([], rest)
      | Some v \<Rightarrow> (dict_or_empty v, strip (takeWhile (\<lambda>c. c \<noteq> CHR ''{'') rest)))"

definition decision_at :: "bool \<Rightarrow> string \<Rightarrow> (string \<times> string) option" where
  "decision_at w s =
     (if w then None
      else case filter (\<lambda>d. starts_with (lower s) d \<and> (drop (length d) s = [] \<or> \<not> word_char (hd (drop (length d) s))))
             [''approve'', ''deny'', ''commit'', ''verify''] of
        d # _ \<Rightarrow> Some (d, drop (length d) s) | [] \<Rightarrow> None)"

text \<open>A line that is no record is skipped and counted, one without a decision is passed over.\<close>

definition leader_line :: "string \<Rightarrow> (string \<times> string) option" where
  "leader_line line = (case match_pats [Word_Run, Spaces, Word_Run, Spaces, Lit ''trace='', Word_Run, Spaces] line of
     Some ([ts, level, trace], rest) \<Rightarrow> if bracketed_level level then Some (trace, rest) else None | _ \<Rightarrow> None)"

definition decision_of :: "(string \<Rightarrow> pyval option) \<Rightarrow> string \<times> string \<Rightarrow> leader_decision option" where
  "decision_of loads = (\<lambda>(trace, rest). case split_meta loads rest of (meta, message) \<Rightarrow>
     (case find_all decision_at message of
        [] \<Rightarrow> None
      | d # _ \<Rightarrow> Some \<lparr>ld_trace = trace, ld_decision = d, ld_message = message, ld_meta = meta\<rparr>))"

definition parse_leader_signer_log :: "(string \<Rightarrow> pyval option) \<Rightarrow> string option \<Rightarrow> leader_decision list \<times> nat" where
  "parse_leader_signer_log loads file = (case file of None \<Rightarrow> ([], 0)
   | Some t \<Rightarrow> (List.map_filter (decision_of loads) (List.map_filter leader_line (nonblank_lines t)),
               count_if (\<lambda>l. leader_line l = None) (nonblank_lines t)))"

section \<open>Serves and injections\<close>

text \<open>The rest behind the first place where a matcher succeeds.\<close>

fun seek :: "(bool \<Rightarrow> string \<Rightarrow> string option) \<Rightarrow> bool \<Rightarrow> string \<Rightarrow> string option" where
  "seek m w [] = None"
| "seek m w (c # s) = (case m w (c # s) of Some r \<Rightarrow> Some r | None \<Rightarrow> seek m (word_char c) s)"

definition ends_word :: "string \<Rightarrow> bool" where
  "ends_word r \<longleftrightarrow> r = [] \<or> \<not> word_char (hd r)"

definition token :: "string \<Rightarrow> bool \<Rightarrow> string \<Rightarrow> string option" where
  "token t w s = (if \<not> w \<and> starts_with s t \<and> ends_word (drop (length t) s) then Some (drop (length t) s) else None)"

definition number_field :: "string \<Rightarrow> bool \<Rightarrow> string \<Rightarrow> string option" where
  "number_field key w s =
     (let r = drop (length key) s; d = takeWhile is_digit r in
      if \<not> w \<and> starts_with s key \<and> d \<noteq> [] \<and> ends_word (dropWhile is_digit r) then Some (dropWhile is_digit r) else None)"

text \<open>A request for serves, with any status.\<close>

definition is_serve_line :: "string \<Rightarrow> bool" where
  "is_serve_line line \<longleftrightarrow> (case seek (token ''op=http.request'') False line of
     None \<Rightarrow> False
   | Some r \<Rightarrow> (case seek (token ''url=/v1/serves'') True r of
       None \<Rightarrow> False | Some r' \<Rightarrow> seek (number_field ''status='') True r' \<noteq> None))"

text \<open>The last such field behind the first mark of an injection.\<close>

fun last_number :: "string \<Rightarrow> bool \<Rightarrow> string \<Rightarrow> nat option" where
  "last_number key w [] = None"
| "last_number key w (c # s) = (case last_number key (word_char c) s of
     Some n \<Rightarrow> Some n
   | None \<Rightarrow> if number_field key w (c # s) = None then None
            else Some (digits_value (takeWhile is_digit (drop (length key) (c # s)))))"

definition behind_inject :: "string \<Rightarrow> string option" where
  "behind_inject line = seek (\<lambda>w s. if starts_with s ''[inject]'' then Some (drop 8 s) else None) False line"

definition inject_number :: "string \<Rightarrow> string \<Rightarrow> nat" where
  "inject_number key line = (case behind_inject line of None \<Rightarrow> 0 | Some r \<Rightarrow> opt_or (last_number key False r) 0)"

definition hex8 :: "string \<Rightarrow> string option" where
  "hex8 s = (let h = lower (take 8 s) in
     if length h = 8 \<and> list_all (\<lambda>c. is_digit c \<or> c \<in> set ''abcdef'') h then Some h else None)"

definition receipt_failure_at :: "bool \<Rightarrow> string \<Rightarrow> ((nat \<times> string) \<times> string) option" where
  "receipt_failure_at w s =
     (case match_pats [Lit ''[serve]'', Spaces, Lit ''receipt'', Spaces, Lit ''failed'', Spaces, Lit ''status='', Digits,
             Spaces, Lit ''reason='', Word_Run, Spaces, Lit ''cid_fp=''] s of
        Some (st # _, r) \<Rightarrow> map_option (\<lambda>h. ((digits_value st, h), drop 8 r)) (hex8 r) | _ \<Rightarrow> None)"

definition receipt_failure :: "string \<Rightarrow> (nat \<times> string) option" where
  "receipt_failure line = (case find_all receipt_failure_at line of [] \<Rightarrow> None | x # _ \<Rightarrow> Some x)"

record serve_inject =
  si_serves :: nat
  si_failures :: "(nat \<times> string) list"
  si_injections :: nat
  si_block_chars :: nat

definition parse_serve_inject_lines :: "string list \<Rightarrow> serve_inject" where
  "parse_serve_inject_lines lines =
     (let ls = filter (\<lambda>l. l \<noteq> []) (map strip lines) in
      \<lparr>si_serves = count_if is_serve_line ls, si_failures = List.map_filter receipt_failure ls,
       si_injections = sum_list (map (inject_number ''count='') ls),
       si_block_chars = sum_list (map (inject_number ''block_chars='') ls)\<rparr>)"

definition read_json_file :: "(string \<Rightarrow> pyval option) \<Rightarrow> string option \<Rightarrow> pydict option" where
  "read_json_file loads file = (case file of None \<Rightarrow> None
   | Some t \<Rightarrow> (case loads t of Some (PDict d) \<Rightarrow> Some d | _ \<Rightarrow> None))"

section \<open>Nothing is lost\<close>

text \<open>Every line of an operation log that is not blank is a record or is counted as skipped.\<close>

lemma ops_log_partitions:
  "parse_ops_log (Some t) = (rs, n) \<Longrightarrow> length rs + n = length (nonblank_lines t)"
proof -
  have "length (List.map_filter f xs) + count_if (\<lambda>x. f x = None) xs = length xs" for f :: "string \<Rightarrow> op_record option" and xs
    by (induction xs) (auto simp: map_filter_simps split: option.splits)
  then show "parse_ops_log (Some t) = (rs, n) \<Longrightarrow> length rs + n = length (nonblank_lines t)"
    by (auto simp: parse_ops_log_def)
qed

text \<open>A serve that the hub refused counts like one that it took.\<close>

lemma refused_serve_counts:
  "si_serves (parse_serve_inject_lines [''op=http.request url=/v1/serves status=500'']) = 1"
  by (simp add: parse_serve_inject_lines_def is_serve_line_def token_def number_field_def ends_word_def word_char_def
      lower_char_def is_digit_def char_code_def strip_def lstrip_def rstrip_def is_space_def Let_def)

end
