(* ===== verification/Run_Ledger.thy ===== *)
theory Run_Ledger
  imports Ops_Log
begin

text \<open>
  The ledger of a run, made from its logs only: \<open>wevibe_bench/ledger/model.py\<close> and \<open>generate_run_ledger\<close> of
  \<open>wevibe_bench/ledger/generate.py\<close>.  What is missing is left out and disclosed as a gap.  The schema validator is
  the parameter \<open>invalid\<close>, the message of its first error.
\<close>

section \<open>The model\<close>

record goal_entry =
  ge_goal_id :: string
  ge_seal_fp :: "string option"
  ge_closed :: bool
  ge_attempts_to_green :: "int option"
  ge_sessions :: int
  ge_links :: int
  ge_gaps :: int
  ge_red_boundaries :: "int option"
  ge_predicate_fps :: "string list"
  ge_negative_fps :: "string list"
  ge_unlock_fp :: "string option"
  ge_mode :: string

record problem_entry =
  pe_signal_key :: string
  pe_episode_id :: "string option"
  pe_diff_fp :: "string option"
  pe_candidate :: "string option"
  pe_decision :: "string option"
  pe_cid :: "string option"
  pe_overlap :: "bool option"

record cadence =
  cd_recalls :: int
  cd_gate_events :: int
  cd_injections :: int
  cd_serves :: int
  cd_unattributed :: int

record extraction =
  ex_resolved :: int
  ex_emitted :: int
  ex_empty_reason :: "string option"
  ex_violation :: bool

record run_ledger =
  rl_run_id :: string
  rl_generated_at :: string
  rl_mode :: string
  rl_goals :: "goal_entry list"
  rl_problems :: "problem_entry list"
  rl_cadence :: cadence
  rl_extraction :: extraction
  rl_pairs :: "((string \<times> string) \<times> real) list"
  rl_gaps :: "string list"
  rl_present :: "string list"
  rl_absent :: "string list"

abbreviation text_or_null :: "string option \<Rightarrow> pyval" where "text_or_null \<equiv> of_opt PStr"

definition strs :: "string list \<Rightarrow> pyval" where "strs xs = PList (map PStr xs)"

definition goal_to_dict :: "goal_entry \<Rightarrow> pyval" where
  "goal_to_dict g = PDict
     [(''goal_id'', PStr (ge_goal_id g)), (''seal_fp'', text_or_null (ge_seal_fp g)), (''closed'', PBool (ge_closed g)),
      (''attempts_to_green'', of_opt PInt (ge_attempts_to_green g)), (''sessions'', PInt (ge_sessions g)),
      (''links'', PInt (ge_links g)), (''gaps'', PInt (ge_gaps g)), (''red_boundaries'', of_opt PInt (ge_red_boundaries g)),
      (''receipts'', PDict [(''predicate_fps'', strs (ge_predicate_fps g)), (''negative_fps'', strs (ge_negative_fps g))]),
      (''unlock_fp'', text_or_null (ge_unlock_fp g)), (''signal_key_mode'', PStr (ge_mode g))]"

definition problem_to_dict :: "problem_entry \<Rightarrow> pyval" where
  "problem_to_dict p = PDict
     [(''signal_key'', PStr (pe_signal_key p)), (''episode_id'', text_or_null (pe_episode_id p)),
      (''attempt_diff_fp'', text_or_null (pe_diff_fp p)), (''candidate_hash'', text_or_null (pe_candidate p)),
      (''leader_decision'', text_or_null (pe_decision p)), (''committed_cid'', text_or_null (pe_cid p)),
      (''injected_memory_overlap'', of_opt PBool (pe_overlap p))]"

definition CADENCE_BASIS :: string where
  "CADENCE_BASIS = ''recalls:op contains 'recall'; gate_events:op=extraction.integrity; serves:op=http.request url=/v1/serves; injections:[inject] count=...; unattributed_vector_only:[serve] receipt failed status=...''"

definition cadence_to_dict :: "cadence \<Rightarrow> pyval" where
  "cadence_to_dict c = PDict
     [(''recalls'', PInt (cd_recalls c)), (''gate_events'', PInt (cd_gate_events c)), (''injections'', PInt (cd_injections c)),
      (''serves'', PInt (cd_serves c)), (''unattributed_vector_only'', PInt (cd_unattributed c)), (''basis'', PStr CADENCE_BASIS)]"

definition extraction_to_dict :: "extraction \<Rightarrow> pyval" where
  "extraction_to_dict e = PDict
     [(''resolved'', PInt (ex_resolved e)), (''emitted'', PInt (ex_emitted e)), (''empty_reason'', text_or_null (ex_empty_reason e)),
      (''invariant_violation'', PBool (ex_violation e))]"

definition pair_to_dict :: "(string \<times> string) \<times> real \<Rightarrow> pyval" where
  "pair_to_dict = (\<lambda>((m, d), x). PDict
     [(''memory_fp'', PStr m), (''attempt_diff_fp'', PStr d), (''similarity'', PFloat x)])"

definition proxy_to_dict :: "((string \<times> string) \<times> real) list \<Rightarrow> pyval" where
  "proxy_to_dict ps = PDict [(''label'', PStr ''proxy-not-scoreboard''), (''pairs'', PList (map pair_to_dict ps))]"

definition integrity_to_dict :: "run_ledger \<Rightarrow> pyval" where
  "integrity_to_dict l = PDict
     [(''ledger_source'', PStr ''logs-only''), (''gaps_disclosed'', strs (rl_gaps l)),
      (''ops_coverage'', PDict [(''present'', strs (rl_present l)), (''absent'', strs (rl_absent l))])]"

definition ledger_to_dict :: "run_ledger \<Rightarrow> pydict" where
  "ledger_to_dict l =
     [(''v'', PStr ''gstv-run-v1''), (''run_id'', PStr (rl_run_id l)), (''generated_at'', PStr (rl_generated_at l)),
      (''ledger_source'', PStr ''logs-only''), (''signal_key_mode'', PStr (rl_mode l)),
      (''goals'', PList (map goal_to_dict (rl_goals l))), (''problems'', PList (map problem_to_dict (rl_problems l))),
      (''cadence'', cadence_to_dict (rl_cadence l)), (''extraction'', extraction_to_dict (rl_extraction l)),
      (''utilization_proxy'', proxy_to_dict (rl_pairs l)), (''integrity'', integrity_to_dict l)]"

section \<open>Goals\<close>

record goal_row =
  gr_seal :: "string option"
  gr_closed :: bool
  gr_attempts :: "int option"
  gr_sessions :: int
  gr_links :: int
  gr_gaps :: int
  gr_red :: "int option"
  gr_predicates :: "string list"
  gr_negatives :: "string list"
  gr_unlock :: "string option"
  gr_modes :: "string list"

definition empty_row :: goal_row where
  "empty_row = \<lparr>gr_seal = None, gr_closed = False, gr_attempts = None, gr_sessions = 0, gr_links = 0, gr_gaps = 0,
     gr_red = None, gr_predicates = [], gr_negatives = [], gr_unlock = None, gr_modes = []\<rparr>"

record scan_state =
  sc_rows :: "(string \<times> goal_row) list"
  sc_goals :: "(string \<times> string) list"
  sc_open :: "op_record list"
  sc_close :: "op_record list"

definition truthy_field :: "op_record \<Rightarrow> string \<Rightarrow> string option" where
  "truthy_field r k = (case map_of (or_fields r) k of Some v \<Rightarrow> if v = [] then None else Some v | None \<Rightarrow> None)"

text \<open>\<open>goal_state(id)\<close> with a change to the row.\<close>

definition on_row :: "string \<Rightarrow> (goal_row \<Rightarrow> goal_row) \<Rightarrow> scan_state \<Rightarrow> scan_state" where
  "on_row g f s = s\<lparr>sc_rows := AList.update g (f (opt_or (map_of (sc_rows s) g) empty_row)) (sc_rows s)\<rparr>"

definition note_goal :: "op_record \<Rightarrow> scan_state \<Rightarrow> scan_state" where
  "note_goal r s = (case truthy_field r ''goal_id'' of
     None \<Rightarrow> s
   | Some g \<Rightarrow>
       (let s = on_row g id s in
        case truthy_field r ''trace'' of
          None \<Rightarrow> s
        | Some t \<Rightarrow> if map_of (sc_goals s) t = None then s\<lparr>sc_goals := AList.update t g (sc_goals s)\<rparr> else s))"

definition int_field :: "op_record \<Rightarrow> string \<Rightarrow> int option" where
  "int_field r k = to_int_or_none (map_of (or_fields r) k)"

definition close_row :: "op_record \<Rightarrow> goal_row \<Rightarrow> goal_row" where
  "close_row r w = w\<lparr>gr_closed := True, gr_attempts := int_field r ''attempts_to_green'',
     gr_sessions := opt_or (int_field r ''sessions'') 0, gr_links := opt_or (int_field r ''links'') 0,
     gr_gaps := opt_or (int_field r ''gaps'') 0, gr_red := int_field r ''red_boundaries''\<rparr>"

definition goal_op :: "op_record \<Rightarrow> goal_row \<Rightarrow> goal_row" where
  "goal_op r w =
     (if or_op r = ''gstv.seal'' then w\<lparr>gr_seal := map_of (or_fields r) ''seal_fp''\<rparr>
      else if or_op r = ''gstv.goal.close'' then close_row r w
      else if or_op r = ''gstv.extraction.unlock'' then w\<lparr>gr_unlock := map_of (or_fields r) ''unlock_fp''\<rparr>
      else (case truthy_field r ''receipt_fp'' of
          None \<Rightarrow> w
        | Some f \<Rightarrow>
            if or_op r = ''predicate.receipt'' then w\<lparr>gr_predicates := gr_predicates w @ [f]\<rparr>
            else if or_op r = ''negative.receipt'' then w\<lparr>gr_negatives := gr_negatives w @ [f]\<rparr>
            else w))"

definition scan_record :: "op_record \<Rightarrow> scan_state \<Rightarrow> scan_state" where
  "scan_record r s =
     (let s = note_goal r s in
      if or_op r = ''episode.open''
      then (let s = s\<lparr>sc_open := sc_open s @ [r]\<rparr>;
                g = (case truthy_field r ''trace'' of None \<Rightarrow> None | Some t \<Rightarrow> map_of (sc_goals s) t) in
            case (g, truthy_field r ''signal_key_mode'') of
              (Some g, Some m) \<Rightarrow> on_row g (\<lambda>w. w\<lparr>gr_modes := gr_modes w @ [m]\<rparr>) s
            | _ \<Rightarrow> s)
      else if or_op r = ''episode.close'' then s\<lparr>sc_close := sc_close s @ [r]\<rparr>
      else (case truthy_field r ''goal_id'' of None \<Rightarrow> s | Some g \<Rightarrow> on_row g (goal_op r) s))"

definition scan_records :: "op_record list \<Rightarrow> scan_state" where
  "scan_records rs = fold scan_record rs \<lparr>sc_rows = [], sc_goals = [], sc_open = [], sc_close = []\<rparr>"

definition aggregate_signal_key_mode :: "string list \<Rightarrow> string" where
  "aggregate_signal_key_mode ms =
     (let p = ''parsed'' \<in> set ms; r = ''raw'' \<in> set ms in
      if p \<and> r then ''mixed'' else if p then ''parsed'' else if r then ''raw'' else ''absent'')"

definition goal_of_row :: "string \<times> goal_row \<Rightarrow> goal_entry" where
  "goal_of_row = (\<lambda>(g, w). \<lparr>ge_goal_id = g, ge_seal_fp = gr_seal w, ge_closed = gr_closed w,
     ge_attempts_to_green = gr_attempts w, ge_sessions = gr_sessions w, ge_links = gr_links w, ge_gaps = gr_gaps w,
     ge_red_boundaries = gr_red w, ge_predicate_fps = sorted_set (gr_predicates w),
     ge_negative_fps = sorted_set (gr_negatives w), ge_unlock_fp = gr_unlock w,
     ge_mode = aggregate_signal_key_mode (gr_modes w)\<rparr>)"

definition goals_of :: "scan_state \<Rightarrow> goal_entry list" where
  "goals_of s = map goal_of_row (sort_key fst (sc_rows s))"

section \<open>Problems\<close>

definition first_field :: "op_record \<Rightarrow> string list \<Rightarrow> string option" where
  "first_field r ks = (case List.map_filter (truthy_field r) ks of [] \<Rightarrow> None | v # _ \<Rightarrow> Some v)"

text \<open>Candidate and committed memory of a trace; a later record with either replaces both.\<close>

definition extract_corr_by_trace :: "op_record list \<Rightarrow> (string \<times> string option \<times> string option) list" where
  "extract_corr_by_trace rs = fold (\<lambda>r d.
     if or_op r \<noteq> ''extraction.integrity'' then d
     else case truthy_field r ''trace'' of
       None \<Rightarrow> d
     | Some t \<Rightarrow>
         (let c = first_field r [''candidate_hash'', ''candidate_fp'', ''candidate''];
              m = map_option lower (first_field r [''committed_cid'', ''cid_fp'', ''memory_cid'']) in
          if c = None \<and> m = None then d else AList.update t (c, m) d)) rs []"

definition trace_at :: "bool \<Rightarrow> string \<Rightarrow> (string \<times> string) option" where
  "trace_at w s = (if w then None else case match_pats [Lit ''trace='', Word_Run] s of
     Some (t # _, r) \<Rightarrow> Some (t, r) | _ \<Rightarrow> None)"

definition cid_at :: "bool \<Rightarrow> string \<Rightarrow> (string \<times> string) option" where
  "cid_at w s = (if w \<or> \<not> starts_with s ''cid_fp='' then None
     else case hex8 (drop 7 s) of
       Some h \<Rightarrow> if ends_word (drop 15 s) then Some (h, drop 15 s) else None | None \<Rightarrow> None)"

definition first_match :: "(bool \<Rightarrow> string \<Rightarrow> (string \<times> string) option) \<Rightarrow> string \<Rightarrow> string option" where
  "first_match m s = (case find_all m s of [] \<Rightarrow> None | x # _ \<Rightarrow> Some x)"

text \<open>The memories named together with a trace, and those named in lines of injections.\<close>

definition serve_pairs :: "string list \<Rightarrow> (string \<times> string) list" where
  "serve_pairs ls = List.map_filter (\<lambda>l. case (first_match trace_at l, first_match cid_at l) of
     (Some t, Some c) \<Rightarrow> Some (t, c) | _ \<Rightarrow> None) ls"

definition cids_of_trace :: "string list \<Rightarrow> string \<Rightarrow> string list" where
  "cids_of_trace ls t = remdups (map snd (filter (\<lambda>p. fst p = t) (serve_pairs ls)))"

definition inject_cids :: "string list \<Rightarrow> string list" where
  "inject_cids ls = List.map_filter (\<lambda>l. if contains l ''[inject]'' then first_match cid_at l else None) ls"

definition problem_of ::
  "(string \<times> string option \<times> string option) list \<Rightarrow> (string \<times> string) list \<Rightarrow> string list \<Rightarrow> op_record \<Rightarrow> problem_entry" where
  "problem_of corr decisions serve_lines r =
     (let trace = truthy_field r ''trace'';
          (candidate, own) = (case trace of None \<Rightarrow> (None, None) | Some t \<Rightarrow> opt_or (map_of corr t) (None, None));
          cid = (if own \<noteq> None then own
                 else case trace of None \<Rightarrow> None
                 | Some t \<Rightarrow> (case cids_of_trace serve_lines t of [c] \<Rightarrow> Some c | _ \<Rightarrow> None)) in
      \<lparr>pe_signal_key = opt_or (truthy_field r ''signal_key'') ''missing/signal'',
       pe_episode_id = map_of (or_fields r) ''episode_id'',
       pe_diff_fp = (if map_of (or_fields r) ''attempt_diff_fp'' = Some ''-'' then None
                     else map_of (or_fields r) ''attempt_diff_fp''),
       pe_candidate = candidate,
       pe_decision = (case trace of None \<Rightarrow> None | Some t \<Rightarrow> map_of decisions t),
       pe_cid = cid,
       pe_overlap = (case cid of None \<Rightarrow> None
         | Some c \<Rightarrow> if inject_cids serve_lines = [] then None else Some (c \<in> set (inject_cids serve_lines)))\<rparr>)"

section \<open>Utilisation\<close>

definition token_char_low :: "char \<Rightarrow> bool" where
  "token_char_low c \<longleftrightarrow> is_digit c \<or> (97 \<le> char_code c \<and> char_code c \<le> 122)"

fun tokens_acc :: "string \<Rightarrow> string \<Rightarrow> string list" where
  "tokens_acc acc [] = (if acc = [] then [] else [rev acc])"
| "tokens_acc acc (c # s) =
     (if token_char_low c then tokens_acc (c # acc) s
      else if acc = [] then tokens_acc [] s else rev acc # tokens_acc [] s)"

definition tokens :: "string \<Rightarrow> string set" where
  "tokens t = set (tokens_acc [] (lower t))"

text \<open>\<open>round(x, 4)\<close>, a half to the even side.\<close>

definition round4 :: "real \<Rightarrow> real" where
  "round4 x = (let y = x * 10000; q = \<lfloor>y\<rfloor>; f = y - of_int q in
     of_int (if f < 1 / 2 then q else if 1 / 2 < f then q + 1 else if even q then q else q + 1) / 10000)"

definition jaccard :: "string \<Rightarrow> string \<Rightarrow> real" where
  "jaccard a b = (if tokens a \<union> tokens b = {} then 0
     else round4 (real (card (tokens a \<inter> tokens b)) / real (card (tokens a \<union> tokens b))))"

definition utilization_pairs ::
  "(string \<times> string) list \<Rightarrow> (string \<times> string) list \<Rightarrow> problem_entry list \<Rightarrow> ((string \<times> string) \<times> real) list" where
  "utilization_pairs memories patches ps =
     (let keys = List.map_filter (\<lambda>p. case (pe_cid p, pe_diff_fp p) of
            (Some c, Some d) \<Rightarrow> if c = [] \<or> d = [] \<or> map_of memories c = None \<or> map_of patches d = None then None else Some (c, d)
          | _ \<Rightarrow> None) ps in
      map (\<lambda>(c, d). ((c, d), jaccard (opt_or (map_of memories c) []) (opt_or (map_of patches d) []))) (sorted_set keys))"

section \<open>The ledger\<close>

text \<open>What the generator is given: files that may be missing, lists that may be absent or empty.\<close>

record ledger_inputs =
  li_ops :: "string list option"
  li_spool :: "string option option"
  li_leader :: "string option list option"
  li_serve :: "string option list option"
  li_memories :: "(string \<times> string) list option"
  li_diffs :: "(string \<times> string) list option"
  li_catalog :: "string list"
  li_now :: string

definition ops_records :: "ledger_inputs \<Rightarrow> op_record list" where
  "ops_records i = concat (map (\<lambda>t. fst (parse_ops_log (Some t))) (opt_or (li_ops i) []))"

definition serve_lines :: "ledger_inputs \<Rightarrow> string list" where
  "serve_lines i = concat (map splitlines (List.map_filter id (opt_or (li_serve i) [])))"

definition leader_decisions :: "(string \<Rightarrow> pyval option) \<Rightarrow> ledger_inputs \<Rightarrow> (string \<times> string) list" where
  "leader_decisions loads i = fold (\<lambda>d m. AList.update (ld_trace d) (ld_decision d) m)
     (concat (map (\<lambda>f. fst (parse_leader_signer_log loads f)) (opt_or (li_leader i) []))) []"

definition no_file :: "'a option list option \<Rightarrow> bool" where
  "no_file fs \<longleftrightarrow> list_all (\<lambda>f. f = None) (opt_or fs [])"

definition problem_gap :: "problem_entry list \<Rightarrow> bool" where
  "problem_gap ps \<longleftrightarrow> list_ex (\<lambda>p. pe_candidate p = None \<or> pe_cid p = None) ps"

definition gaps_of :: "(string \<Rightarrow> pyval option) \<Rightarrow> ledger_inputs \<Rightarrow> problem_entry list \<Rightarrow> string list" where
  "gaps_of loads i ps =
     (let rs = ops_records i; xs = extraction_integrity_records rs in
      map fst (filter snd
        [(''ops input absent'', opt_or (li_ops i) [] = []),
         (''spool input absent'', (case li_spool i of Some (Some _) \<Rightarrow> False | _ \<Rightarrow> True)),
         (''spool input truncated final line'', (case li_spool i of Some f \<Rightarrow> snd (parse_spool_jsonl loads f) | None \<Rightarrow> False)),
         (''leader input absent'', no_file (li_leader i)),
         (''serve/inject inputs absent'', no_file (li_serve i)),
         (''extraction.integrity input absent'', xs = []),
         (''problem candidate/commit correlation absent for one or more episode.close traces'', problem_gap ps),
         (''recall ops absent'', \<not> list_ex (\<lambda>r. contains (or_op r) ''recall'') rs),
         (''cadence gate events absent (no extraction.integrity records)'', xs = []),
         (''utilization_proxy inputs absent (side inputs not provided)'', li_memories i = None \<or> li_diffs i = None)]))"

definition extraction_of :: "extraction_row list \<Rightarrow> extraction" where
  "extraction_of xs =
     \<lparr>ex_resolved = sum_list (List.map_filter xr_resolved xs), ex_emitted = sum_list (List.map_filter xr_emitted xs),
      ex_empty_reason = (case rev (filter (\<lambda>t. t \<noteq> []) (List.map_filter xr_empty_reason xs)) of [] \<Rightarrow> None | t # _ \<Rightarrow> Some t),
      ex_violation = list_ex (\<lambda>x. xr_violation x = Some True) xs\<rparr>"

definition build_run_ledger :: "(string \<Rightarrow> pyval option) \<Rightarrow> string \<Rightarrow> ledger_inputs \<Rightarrow> run_ledger" where
  "build_run_ledger loads run_id i =
     (let rs = ops_records i; s = scan_records rs; ls = serve_lines i; si = parse_serve_inject_lines ls;
          xs = extraction_integrity_records rs;
          ps = map (problem_of (extract_corr_by_trace rs) (leader_decisions loads i) ls) (sc_close s) in
      \<lparr>rl_run_id = run_id, rl_generated_at = li_now i,
       rl_mode = aggregate_signal_key_mode (map (\<lambda>r. opt_or (map_of (or_fields r) ''signal_key_mode'') []) (sc_open s)),
       rl_goals = goals_of s, rl_problems = ps,
       rl_cadence = \<lparr>cd_recalls = int (count_if (\<lambda>r. contains (or_op r) ''recall'') rs), cd_gate_events = int (length xs),
         cd_injections = int (si_injections si), cd_serves = int (si_serves si),
         cd_unattributed = int (length (si_failures si))\<rparr>,
       rl_extraction = extraction_of xs,
       rl_pairs = (case (li_memories i, li_diffs i) of
          (Some m, Some d) \<Rightarrow> utilization_pairs m d ps | _ \<Rightarrow> []),
       rl_gaps = sorted_set (gaps_of loads i ps),
       rl_present = sorted_set (map or_op rs),
       rl_absent = sorted_set (filter (\<lambda>o'. o' \<notin> set (map or_op rs)) (li_catalog i))\<rparr>)"

definition generate_run_ledger ::
  "(string \<Rightarrow> pyval option) \<Rightarrow> (pydict \<Rightarrow> string option) \<Rightarrow> string \<Rightarrow> ledger_inputs \<Rightarrow> py_exc + pydict" where
  "generate_run_ledger loads invalid run_id i =
     (let d = ledger_to_dict (build_run_ledger loads run_id i) in
      case invalid d of None \<Rightarrow> Inr d | Some _ \<Rightarrow> Inl PyValueError)"

text \<open>The catalogue of operations; an entry without a name is passed over.\<close>

definition catalog_ops :: "pydict \<Rightarrow> string list" where
  "catalog_ops d = (case dget d ''ops'' of
     PList xs \<Rightarrow> List.map_filter (\<lambda>v. case v of PDict e \<Rightarrow> (case dget e ''op'' of PStr t \<Rightarrow> Some t | _ \<Rightarrow> None) | _ \<Rightarrow> None) xs
   | _ \<Rightarrow> [])"

definition coincidental_true :: "string option \<Rightarrow> bool" where
  "coincidental_true v \<longleftrightarrow> (case v of None \<Rightarrow> False | Some t \<Rightarrow> lower t \<in> {''1'', ''true'', ''yes''})"

definition summary_line :: "run_ledger \<Rightarrow> op_record list \<Rightarrow> string \<Rightarrow> string" where
  "summary_line l rs now =
     (let s = scan_records rs; n = (\<lambda>k. string_of_int (int k)) in
      join '' '' [now, ''INFO'', ''op=gstv.run_summary'', ''trace=ledger-'' @ rl_run_id l, ''run_id='' @ rl_run_id l,
        ''goals='' @ n (length (rl_goals l)), ''episodes_open='' @ n (length (sc_open s)),
        ''episodes_closed='' @ n (length (sc_close s)),
        ''coincidental='' @ n (count_if (\<lambda>r. coincidental_true (map_of (or_fields r) ''coincidental_flip'')) (sc_close s)),
        ''receipts_predicate='' @ n (count_if (\<lambda>r. or_op r = ''predicate.receipt'') rs),
        ''receipts_negative='' @ n (count_if (\<lambda>r. or_op r = ''negative.receipt'') rs),
        ''unattributed_vector_only='' @ string_of_int (cd_unattributed (rl_cadence l)),
        ''signal_key_mode='' @ rl_mode l, ''status=ok''])"

section \<open>A goal's entry comes from its own records\<close>

text \<open>What the invariant of the scan says: the rows are those of the goals named so far, and a trace stands for one
  of them.\<close>

definition named_goals :: "op_record list \<Rightarrow> string set" where
  "named_goals rs = {g. \<exists>r \<in> set rs. truthy_field r ''goal_id'' = Some g}"

definition own_records :: "string \<Rightarrow> op_record list \<Rightarrow> op_record list" where
  "own_records g rs = filter (\<lambda>r. truthy_field r ''goal_id'' = Some g \<and> or_op r \<noteq> ''episode.open''
     \<and> or_op r \<noteq> ''episode.close'') rs"

definition without_modes :: "goal_row \<Rightarrow> goal_row" where
  "without_modes w = w\<lparr>gr_modes := []\<rparr>"

definition scan_ok :: "op_record list \<Rightarrow> scan_state \<Rightarrow> bool" where
  "scan_ok rs s \<longleftrightarrow> distinct (map fst (sc_rows s)) \<and> set (map fst (sc_rows s)) = named_goals rs
     \<and> (\<forall>t g. map_of (sc_goals s) t = Some g \<longrightarrow> g \<in> named_goals rs)
     \<and> (\<forall>g. without_modes (opt_or (map_of (sc_rows s) g) empty_row) = fold goal_op (own_records g rs) empty_row)"

lemma map_of_alist_update: "map_of (AList.update k v xs) k' = (if k' = k then Some v else map_of xs k')"
  by (simp add: update_conv')

lemma without_modes_goal_op: "without_modes (goal_op r w) = goal_op r (without_modes w)"
  by (simp add: goal_op_def without_modes_def close_row_def split: option.split)

lemma without_modes_add: "without_modes (w\<lparr>gr_modes := ms\<rparr>) = without_modes w"
  by (simp add: without_modes_def)

lemma row_on_row:
  "opt_or (map_of (sc_rows (on_row g f s)) g') empty_row =
     (if g' = g then f (opt_or (map_of (sc_rows s) g) empty_row) else opt_or (map_of (sc_rows s) g') empty_row)"
  by (simp add: on_row_def map_of_alist_update)

lemma on_row_frame [simp]:
  "sc_goals (on_row g f s) = sc_goals s" "sc_open (on_row g f s) = sc_open s" "sc_close (on_row g f s) = sc_close s"
  by (simp_all add: on_row_def)

lemma keys_on_row: "set (map fst (sc_rows (on_row g f s))) = insert g (set (map fst (sc_rows s)))"
  by (simp add: on_row_def dom_update)

lemma distinct_on_row: "distinct (map fst (sc_rows s)) \<Longrightarrow> distinct (map fst (sc_rows (on_row g f s)))"
  by (simp add: on_row_def distinct_update)

abbreviation row_at :: "scan_state \<Rightarrow> string \<Rightarrow> goal_row" where
  "row_at s g \<equiv> opt_or (map_of (sc_rows s) g) empty_row"

lemma note_goal_row: "row_at (note_goal r s) g = row_at s g"
  by (auto simp: note_goal_def row_on_row Let_def split: option.split)

lemma note_goal_keys:
  "set (map fst (sc_rows (note_goal r s))) = {g. truthy_field r ''goal_id'' = Some g} \<union> set (map fst (sc_rows s))"
  by (auto simp: note_goal_def Let_def keys_on_row[simplified] split: option.split)

lemma note_goal_traces:
  assumes "map_of (sc_goals (note_goal r s)) t = Some g"
  shows "map_of (sc_goals s) t = Some g \<or> truthy_field r ''goal_id'' = Some g"
  using assms by (auto simp: note_goal_def Let_def map_of_alist_update split: option.splits if_splits)

lemma note_goal_distinct: "distinct (map fst (sc_rows s)) \<Longrightarrow> distinct (map fst (sc_rows (note_goal r s)))"
  by (auto simp: note_goal_def Let_def distinct_on_row split: option.split)

lemma scan_record_row:
  "without_modes (row_at (scan_record r s) g) =
     fold goal_op (own_records g [r]) (without_modes (row_at s g))"
  by (auto simp: scan_record_def Let_def row_on_row note_goal_row own_records_def without_modes_goal_op without_modes_add
      split: option.split)

lemma scan_record_goals: "sc_goals (scan_record r s) = sc_goals (note_goal r s)"
  by (auto simp: scan_record_def Let_def split: option.split)

lemma scan_record_distinct: "distinct (map fst (sc_rows s)) \<Longrightarrow> distinct (map fst (sc_rows (scan_record r s)))"
  by (auto simp: scan_record_def Let_def distinct_on_row note_goal_distinct split: option.split)

lemma scan_record_keys:
  assumes "\<And>t g. map_of (sc_goals (note_goal r s)) t = Some g \<Longrightarrow> g \<in> set (map fst (sc_rows (note_goal r s)))"
  shows "set (map fst (sc_rows (scan_record r s))) = set (map fst (sc_rows (note_goal r s)))"
proof -
  have "truthy_field r ''goal_id'' = Some g \<Longrightarrow> g \<in> set (map fst (sc_rows (note_goal r s)))" for g
    by (subst note_goal_keys) simp
  with assms show ?thesis
    by (auto simp: scan_record_def Let_def keys_on_row[simplified] split: option.splits)
qed

lemma scan_ok_step:
  assumes "scan_ok rs s"
  shows "scan_ok (rs @ [r]) (scan_record r s)"
proof -
  let ?n = "note_goal r s"
  have named: "named_goals (rs @ [r]) = named_goals rs \<union> {g. truthy_field r ''goal_id'' = Some g}"
    by (auto simp: named_goals_def)
  have traces: "map_of (sc_goals ?n) t = Some g \<Longrightarrow> g \<in> named_goals (rs @ [r])" for t g
    using assms note_goal_traces[of r s t g] by (auto simp: scan_ok_def named)
  have keys: "set (map fst (sc_rows ?n)) = named_goals (rs @ [r])"
    using assms by (subst note_goal_keys) (auto simp: scan_ok_def named)
  show ?thesis
    unfolding scan_ok_def scan_record_goals
  proof (intro conjI allI impI)
    show "distinct (map fst (sc_rows (scan_record r s)))"
      using assms scan_record_distinct by (simp add: scan_ok_def)
    show "set (map fst (sc_rows (scan_record r s))) = named_goals (rs @ [r])"
      using scan_record_keys[of r s] traces keys by simp
    show "without_modes (row_at (scan_record r s) g) = fold goal_op (own_records g (rs @ [r])) empty_row" for g
      using assms by (simp add: scan_record_row scan_ok_def own_records_def)
  qed (rule traces)
qed

lemma scan_ok_all: "scan_ok rs (scan_records rs)"
proof (induction rs rule: rev_induct)
  case Nil
  show ?case by (simp add: scan_ok_def scan_records_def named_goals_def own_records_def without_modes_def empty_row_def)
next
  case (snoc r rs)
  then show ?case using scan_ok_step[of rs _ r] by (simp add: scan_records_def)
qed

definition unmoded :: "goal_entry \<Rightarrow> goal_entry" where
  "unmoded e = e\<lparr>ge_mode := ''absent''\<rparr>"

text \<open>C35. The goals of a ledger are exactly the goals that a record names, in the order of their names, each once.  Apart
  from the mode of its signals, each entry is made from the records that name the goal alone: records of other goals,
  wherever they stand between them, change nothing of it.\<close>

theorem goals_come_from_their_own_records:
  "map unmoded (goals_of (scan_records rs)) =
     map (\<lambda>g. goal_of_row (g, fold goal_op (own_records g rs) empty_row)) (sorted_list_of_set (named_goals rs))"
proof -
  let ?s = "scan_records rs"
  have ok: "scan_ok rs ?s" by (rule scan_ok_all)
  then have d: "distinct (map fst (sc_rows ?s))" and k: "set (map fst (sc_rows ?s)) = named_goals rs"
    and w: "\<And>g. without_modes (row_at ?s g) = fold goal_op (own_records g rs) empty_row"
    by (simp_all add: scan_ok_def)
  let ?sorted = "sort_key fst (sc_rows ?s)"
  have "distinct (map fst ?sorted)"
    using d mset_eq_imp_distinct_iff[of "map fst ?sorted" "map fst (sc_rows ?s)"] by (simp add: mset_map)
  then have keys: "map fst ?sorted = sorted_list_of_set (named_goals rs)"
    using k by (metis list.set_map set_sort sorted_sort_key sorted_list_of_set.idem_if_sorted_distinct)
  have "unmoded (goal_of_row x) = goal_of_row (fst x, fold goal_op (own_records (fst x) rs) empty_row)"
    if "x \<in> set ?sorted" for x
  proof -
    from that have "x \<in> set (sc_rows ?s)" by simp
    then have "map_of (sc_rows ?s) (fst x) = Some (snd x)"
      using d by (intro map_of_is_SomeI) simp_all
    then have "row_at ?s (fst x) = snd x" by simp
    with w[of "fst x"] show ?thesis
      by (cases x) (auto simp: unmoded_def goal_of_row_def without_modes_def aggregate_signal_key_mode_def
          dest: sym)
  qed
  then have "map unmoded (goals_of ?s) =
      map (\<lambda>g. goal_of_row (g, fold goal_op (own_records g rs) empty_row)) (map fst ?sorted)"
    by (simp add: goals_of_def)
  with keys show ?thesis by simp
qed

section \<open>Nothing is passed over in silence\<close>

lemma note_goal_close [simp]: "sc_close (note_goal r s) = sc_close s"
  by (auto simp: note_goal_def Let_def split: option.split)

lemma scan_close: "sc_close (scan_records rs) = filter (\<lambda>r. or_op r = ''episode.close'') rs"
proof (induction rs rule: rev_induct)
  case Nil
  show ?case by (simp add: scan_records_def)
next
  case (snoc r rs)
  then show ?case by (auto simp: scan_records_def scan_record_def Let_def split: option.split)
qed

text \<open>A ledger that discloses no gap was made from every kind of source, and each of its problems, one for each closed
  episode, has a candidate and a committed memory.\<close>

theorem no_gap_is_complete:
  assumes "rl_gaps (build_run_ledger loads run_id i) = []"
  shows "length (rl_problems (build_run_ledger loads run_id i)) = count_if (\<lambda>r. or_op r = ''episode.close'') (ops_records i)
    \<and> (\<forall>p \<in> set (rl_problems (build_run_ledger loads run_id i)). pe_candidate p \<noteq> None \<and> pe_cid p \<noteq> None)
    \<and> 0 < cd_recalls (rl_cadence (build_run_ledger loads run_id i))
    \<and> 0 < cd_gate_events (rl_cadence (build_run_ledger loads run_id i))
    \<and> (\<exists>t. li_spool i = Some (Some t) \<and> \<not> snd (parse_spool_jsonl loads (Some t)))
    \<and> \<not> no_file (li_leader i) \<and> \<not> no_file (li_serve i)"
proof -
  define ps where "ps = rl_problems (build_run_ledger loads run_id i)"
  have "set (rl_gaps (build_run_ledger loads run_id i)) = set (gaps_of loads i ps)"
    by (simp add: ps_def build_run_ledger_def Let_def)
  with assms have none: "gaps_of loads i ps = []" by simp
  have gate: "cd_gate_events (rl_cadence (build_run_ledger loads run_id i)) = int (length (extraction_integrity_records (ops_records i)))"
    and recalls: "cd_recalls (rl_cadence (build_run_ledger loads run_id i)) = int (count_if (\<lambda>r. contains (or_op r) ''recall'') (ops_records i))"
    and closed: "length ps = count_if (\<lambda>r. or_op r = ''episode.close'') (ops_records i)"
    by (simp_all add: ps_def build_run_ledger_def Let_def scan_close count_if_def)
  from none have "\<not> problem_gap ps" "\<not> no_file (li_leader i)" "\<not> no_file (li_serve i)"
    "extraction_integrity_records (ops_records i) \<noteq> []" "list_ex (\<lambda>r. contains (or_op r) ''recall'') (ops_records i)"
    "\<exists>t. li_spool i = Some (Some t) \<and> \<not> snd (parse_spool_jsonl loads (Some t))"
    by (auto simp: gaps_of_def Let_def split: if_splits option.splits)
  then show ?thesis
    unfolding ps_def[symmetric] closed gate recalls
    by (auto simp: problem_gap_def list_ex_iff count_if_def filter_empty_conv)
qed

text \<open>A run with one recall, one extraction and one closed episode, whose candidate and memory are known.\<close>

definition complete_run :: ledger_inputs where
  "complete_run =
     \<lparr>li_ops = Some [''1 INFO op=recall'', ''1 INFO op=extraction.integrity trace=t candidate=c cid_fp=m'',
        ''1 INFO op=episode.close trace=t''], li_spool = Some (Some ''x''), li_leader = Some [Some []],
      li_serve = Some [Some []], li_memories = Some [], li_diffs = Some [], li_catalog = [], li_now = []\<rparr>"

lemma complete_run_ops: "ops_records complete_run =
    [\<lparr>or_ts = ''1'', or_level = ''INFO'', or_op = ''recall'', or_fields = []\<rparr>,
     \<lparr>or_ts = ''1'', or_level = ''INFO'', or_op = ''extraction.integrity'',
       or_fields = [(''trace'', ''t''), (''candidate'', ''c''), (''cid_fp'', ''m'')]\<rparr>,
     \<lparr>or_ts = ''1'', or_level = ''INFO'', or_op = ''episode.close'', or_fields = [(''trace'', ''t'')]\<rparr>]"
  by code_simp

theorem no_gap_is_complete_witness:
  "\<forall>p \<in> set (rl_problems (build_run_ledger (\<lambda>t. Some (PDict [])) [] complete_run)). pe_candidate p \<noteq> None \<and> pe_cid p \<noteq> None"
proof -
  let ?loads = "\<lambda>t. Some (PDict []) :: pyval option"
  define ps where "ps = rl_problems (build_run_ledger ?loads [] complete_run)"
  have "ps = map (problem_of (extract_corr_by_trace (ops_records complete_run)) (leader_decisions ?loads complete_run)
      (serve_lines complete_run)) (filter (\<lambda>r. or_op r = ''episode.close'') (ops_records complete_run))"
    by (simp add: ps_def build_run_ledger_def Let_def scan_close)
  then have "\<not> problem_gap ps"
    by (simp add: complete_run_ops extract_corr_by_trace_def problem_of_def truthy_field_def problem_gap_def first_field_def
        map_filter_simps)
  then have "gaps_of ?loads complete_run ps = []"
    by (simp add: gaps_of_def complete_run_ops extraction_integrity_records_def Let_def contains_def)
      (simp add: complete_run_def no_file_def parse_spool_jsonl_def)
  then have "rl_gaps (build_run_ledger ?loads [] complete_run) = []"
    by (simp add: ps_def build_run_ledger_def Let_def sorted_set_def)
  from no_gap_is_complete[OF this] show ?thesis by blast
qed

end
