(* ===== verification/Recall_Preflight.thy ===== *)
theory Recall_Preflight
  imports Run_Context Model_Selection Memory_Recall
begin

text \<open>
  \<open>wevibe_bench/preflight.py\<close>: the check of the two recall services, and the proof, by a short run of the worker's
  image, that the worker knows the model.  A request is its answer, the run of the image what the harness sees of it:
  one observation for each turn of the loop that watches its output, and what is left of the output when it ends.
  Texts are the bytes of their UTF-8 encoding.
\<close>

section \<open>What a line of the worker's output says\<close>

type_synonym detection = string

definition MODEL_REJECTION_MARKERS :: "string list" where
  "MODEL_REJECTION_MARKERS = [''ProviderModelNotFoundError'', ''Model not found'']"

definition MODEL_ACCEPTANCE_MARKERS :: "string list" where
  "MODEL_ACCEPTANCE_MARKERS = [''llm runtime selected'', ''llm.provider='', ''stream providerid='',
     ''build '' @ [CHR 0xC2, CHR 0xB7, CHR 0x20], ''ai_apicallerror'', ''ai_loadapikeyerror'', ''ai_retryerror'',
     ''cannot connect to api'']"

definition DOCKER_UNAVAILABLE_MARKERS :: "string list" where
  "DOCKER_UNAVAILABLE_MARKERS =
     [''cannot connect to the docker daemon'', ''is the docker daemon running'', ''error response from daemon'']"

definition IMAGE_MISSING_MARKERS :: "string list" where
  "IMAGE_MISSING_MARKERS = [''unable to find image'', ''no such image'', ''pull access denied'']"

definition match_probe_detection :: "string \<Rightarrow> detection option" where
  "match_probe_detection line =
     (let l = lower line in
      if list_ex (\<lambda>m. contains l (lower m)) MODEL_REJECTION_MARKERS then Some ''catalog-rejected''
      else if list_ex (contains l) MODEL_ACCEPTANCE_MARKERS then Some ''catalog-accepted''
      else if list_ex (contains l) DOCKER_UNAVAILABLE_MARKERS then Some ''docker-unavailable''
      else if list_ex (contains l) IMAGE_MISSING_MARKERS then Some ''image-missing''
      else None)"

fun first_detection :: "string list \<Rightarrow> (detection \<times> string) option" where
  "first_detection [] = None"
| "first_detection (l # ls) = (case match_probe_detection l of
     Some d \<Rightarrow> Some (d, take 240 l) | None \<Rightarrow> first_detection ls)"

definition output_lines :: "string \<Rightarrow> string list" where
  "output_lines t = filter (\<lambda>l. l \<noteq> []) (map strip (splitlines t))"

definition first_probe_detection_from_output :: "string \<Rightarrow> (detection \<times> string) option" where
  "first_probe_detection_from_output t = first_detection (output_lines t)"

definition first_probe_evidence_line :: "string \<Rightarrow> string" where
  "first_probe_evidence_line t = (case output_lines t of [] \<Rightarrow> ''none''
   | l # ls \<Rightarrow> take 240 (case filter (\<lambda>x. list_ex (contains (lower x)) [''error'', ''refused'', ''econn'']) (l # ls) of
       [] \<Rightarrow> l | x # _ \<Rightarrow> x))"

section \<open>The run of the image\<close>

text \<open>A turn of the loop: the deadline is over; nothing to read, and whether the process has ended; a line.\<close>

datatype turn = Late | Quiet bool | Line string

record probe_world =
  wp_dir :: string
  wp_container :: string
  wp_turns :: "turn list"
  wp_alive :: bool
  wp_tail :: "string option"
  wp_tail_after_kill :: "string option"
  wp_returncode :: "int option"

record probe_result =
  pb_exit_code :: int
  pb_output :: string
  pb_detection :: detection
  pb_line :: string

datatype probe_outcome = Probed probe_result | Probe_Timeout | Probe_Invalid

text \<open>The lines read, what decided, and whether the container has to be stopped; \<open>None\<close> while the loop goes on.\<close>

record watched =
  wd_lines :: "string list"
  wd_detection :: detection
  wd_line :: string
  wd_stop :: bool

fun watch :: "turn list \<Rightarrow> string list \<Rightarrow> watched option" where
  "watch [] ls = None"
| "watch (Late # ts) ls =
     Some \<lparr>wd_lines = ls, wd_detection = ''probe-timeout'', wd_line = ''deadline reached before decisive marker'', wd_stop = True\<rparr>"
| "watch (Quiet ended # ts) ls =
     (if ended then Some \<lparr>wd_lines = ls, wd_detection = ''unknown'', wd_line = ''none'', wd_stop = False\<rparr> else watch ts ls)"
| "watch (Line raw # ts) ls =
     (let l = strip raw in
      if l = [] then watch ts ls
      else case match_probe_detection l of
        Some d \<Rightarrow> Some \<lparr>wd_lines = ls @ [l], wd_detection = d, wd_line = take 240 l, wd_stop = True\<rparr>
      | None \<Rightarrow> watch ts (ls @ [l]))"

definition NL :: string where "NL = [CHR 0x0A]"

text \<open>The processes stopped at the end of the run: the client's, while it lives, and the container.\<close>

definition stop_commands :: "probe_world \<Rightarrow> watched \<Rightarrow> string list list" where
  "stop_commands w d = (if wd_stop d then (if wp_alive w then [[''terminate'']] else []) @ [[''docker'', ''kill'', wp_container w]]
     else [])"

text \<open>The command; its input is one line.\<close>

definition probe_command :: "probe_world \<Rightarrow> string \<Rightarrow> string \<Rightarrow> string list" where
  "probe_command w img model =
     [''docker'', ''run'', ''--rm'', ''-i'', ''--name'', wp_container w, ''--tmpfs'', ''/tmp:mode=1777'', ''-e'', ''HOME=/tmp'',
      ''-v'', wp_dir w @ '':/work:ro'', img, ''opencode'', ''run'', ''--model'', model, ''--dir'', ''/work'', ''--print-logs'']"

text \<open>What \<open>communicate\<close> returns, tried again after a kill; a second timeout is raised.\<close>

definition probe_tail :: "probe_world \<Rightarrow> string option" where
  "probe_tail w = (case wp_tail w of Some t \<Rightarrow> Some t | None \<Rightarrow> wp_tail_after_kill w)"

definition probe_result_of :: "probe_world \<Rightarrow> watched \<Rightarrow> string \<Rightarrow> probe_result" where
  "probe_result_of w d tail =
     (let out = join NL (wd_lines d @ output_lines tail);
          late = (if wd_detection d = ''unknown'' \<and> wp_returncode w \<noteq> None then first_probe_detection_from_output out else None);
          (det, line) = (case late of
             Some (x, l) \<Rightarrow> if x = ''catalog-rejected'' then (x, l) else (wd_detection d, wd_line d)
           | None \<Rightarrow> (wd_detection d, wd_line d)) in
      \<lparr>pb_exit_code = opt_or (wp_returncode w) (- 1), pb_output = out, pb_detection = det, pb_line = line\<rparr>)"

definition probe_config :: "string \<Rightarrow> py_exc + pydict" where
  "probe_config model = build_worker_opencode_config model None (Some ''http://127.0.0.1:9/api/v1'')
     ''/nonexistent-gates'' ''/nonexistent-golden'' None"

text \<open>\<open>None\<close> while the loop goes on, or else the outcome and the commands.\<close>

definition default_worker_model_probe ::
  "probe_world \<Rightarrow> string \<Rightarrow> string \<Rightarrow> (probe_outcome \<times> string list list) option" where
  "default_worker_model_probe w img model =
     (case probe_config model of
        Inl _ \<Rightarrow> Some (Probe_Invalid, [])
      | Inr _ \<Rightarrow> map_option (\<lambda>d. (case probe_tail w of
            None \<Rightarrow> Probe_Timeout | Some t \<Rightarrow> Probed (probe_result_of w d t), probe_command w img model # stop_commands w d)) (watch (wp_turns w) []))"

section \<open>The verdict\<close>

record acceptance_failure =
  af_model :: "string option"
  af_reason :: string
  af_evidence :: string

definition worker_models :: "string list \<Rightarrow> string list" where
  "worker_models models = rev (remdups (rev (filter (\<lambda>m. m \<noteq> []) (map strip models))))"

definition docker_words :: "string \<Rightarrow> bool" where
  "docker_words out \<longleftrightarrow> list_ex (contains (lower out)) DOCKER_UNAVAILABLE_MARKERS"

definition image_words :: "string \<Rightarrow> bool" where
  "image_words out \<longleftrightarrow> list_ex (contains (lower out)) IMAGE_MISSING_MARKERS"

text \<open>The reason to refuse a model, with the evidence; \<open>None\<close> accepts it.  The message of a configuration that
  cannot be built is not modelled.\<close>

definition judge_probe :: "probe_outcome \<Rightarrow> (string \<times> string) option" where
  "judge_probe p = (case p of
     Probe_Timeout \<Rightarrow> Some (''probe-timeout'', [])
   | Probe_Invalid \<Rightarrow> Some (''catalog-rejected'', [])
   | Probed r \<Rightarrow>
       (let evidence = (if pb_line r \<noteq> ''none'' then pb_line r else first_probe_evidence_line (pb_output r));
            (detection, evidence) = (if pb_detection r = ''unknown''
               then opt_or (first_probe_detection_from_output (pb_output r)) (''unknown'', evidence)
               else (pb_detection r, evidence)) in
        if detection = ''probe-timeout'' then Some (''probe-timeout'', [])
        else if detection = ''catalog-rejected'' then Some (''catalog-rejected'', evidence)
        else if detection = ''catalog-accepted'' then None
        else if detection = ''docker-unavailable'' \<or> docker_words (pb_output r) then Some (''docker-unavailable'', evidence)
        else if detection = ''image-missing'' \<or> image_words (pb_output r) then Some (''image-missing'', evidence)
        else None))"

fun probe_models :: "(string \<Rightarrow> probe_outcome) \<Rightarrow> string list \<Rightarrow> string list \<times> (acceptance_failure + unit)" where
  "probe_models probe [] = ([], Inr ())"
| "probe_models probe (m # ms) = (case judge_probe (probe m) of
     Some (reason, evidence) \<Rightarrow> ([m], Inl \<lparr>af_model = Some m, af_reason = reason, af_evidence = evidence\<rparr>)
   | None \<Rightarrow> (m # fst (probe_models probe ms), snd (probe_models probe ms)))"

text \<open>The models probed and the result; nothing is asked when there is no model.\<close>

definition verify_worker_model_acceptance ::
  "(string \<Rightarrow> probe_outcome) \<Rightarrow> cmd_result \<Rightarrow> cmd_result \<Rightarrow> string list \<Rightarrow> string list \<times> (acceptance_failure + unit)" where
  "verify_worker_model_acceptance probe version inspect models =
     (let ms = worker_models models in
      if ms = [] then ([], Inr ())
      else if \<not> fst (docker_available version)
      then ([], Inl \<lparr>af_model = None, af_reason = ''docker-unavailable'', af_evidence = snd (docker_available version)\<rparr>)
      else if \<not> image_exists inspect
      then ([], Inl \<lparr>af_model = None, af_reason = ''image-missing'', af_evidence = []\<rparr>)
      else probe_models probe ms)"

section \<open>The two tiers\<close>

datatype http_answer = Answered int "string option" | Refused int "string option" | Unreachable

text \<open>A payload that is not text is \<open>None\<close>; one that cannot be read behind an error counts as empty.\<close>

definition safe_json :: "(string \<Rightarrow> pyval option) \<Rightarrow> bool \<Rightarrow> string option \<Rightarrow> pyval" where
  "safe_json loads any payload = (case payload of None \<Rightarrow> PDict []
   | Some t \<Rightarrow> if t = [] then PDict [] else case loads t of
       None \<Rightarrow> PDict [] | Some v \<Rightarrow> if any then v else PDict (dict_or_empty v))"

definition http_get :: "(string \<Rightarrow> pyval option) \<Rightarrow> http_answer \<Rightarrow> int \<times> pydict \<times> bool" where
  "http_get loads a = (case a of
     Answered st p \<Rightarrow> (st, dict_or_empty (safe_json loads False p), True)
   | Refused st p \<Rightarrow> (st, dict_or_empty (safe_json loads False p), True)
   | Unreachable \<Rightarrow> (0, [], False))"

datatype tier_failure = Hub_Down | Hub_Unhealthy int pyval pyval | Mcp_Down | Mcp_Locked | Mcp_Unexpected int

definition trim_slashes :: "string \<Rightarrow> string" where
  "trim_slashes u = rev (dropWhile (\<lambda>c. c = CHR ''/'') (rev u))"

definition session_token :: "string option \<Rightarrow> string option" where
  "session_token f = (case f of None \<Rightarrow> None | Some t \<Rightarrow> if strip t = [] then None else Some (strip t))"

text \<open>The network answers a request by its address and its token.\<close>

definition hub_check :: "(string \<Rightarrow> pyval option) \<Rightarrow> (string \<Rightarrow> string option \<Rightarrow> http_answer) \<Rightarrow> string \<Rightarrow> tier_failure option" where
  "hub_check loads net hub_url =
     (case http_get loads (net (trim_slashes hub_url @ ''/health'') None) of (status, body, reachable) \<Rightarrow>
        if \<not> reachable then Some Hub_Down
        else if status \<noteq> 200 \<or> dget body ''status'' \<noteq> PStr ''ok'' \<or> dget body ''db'' \<noteq> PStr ''connected''
        then Some (Hub_Unhealthy status (dget body ''status'') (dget body ''db''))
        else None)"

definition mcp_check ::
  "(string \<Rightarrow> pyval option) \<Rightarrow> (string \<Rightarrow> string option \<Rightarrow> http_answer) \<Rightarrow> string option \<Rightarrow> string \<Rightarrow> tier_failure option" where
  "mcp_check loads net token_file url =
     (case http_get loads (net (trim_slashes url @ ''/v1/health'') (session_token token_file)) of (status, _, reachable) \<Rightarrow>
        if \<not> reachable then Some Mcp_Down
        else if status = 401 then Some Mcp_Locked
        else if status \<noteq> 200 then Some (Mcp_Unexpected status)
        else None)"

definition preflight ::
  "(string \<Rightarrow> pyval option) \<Rightarrow> (string \<Rightarrow> string option \<Rightarrow> http_answer) \<Rightarrow> string option \<Rightarrow> string \<Rightarrow> string option
    \<Rightarrow> tier_failure + unit" where
  "preflight loads net token_file hub_url mcp_url =
     (case hub_check loads net hub_url of
        Some e \<Rightarrow> Inl e
      | None \<Rightarrow> (case mcp_url of None \<Rightarrow> Inr ()
          | Some u \<Rightarrow> (case mcp_check loads net token_file u of Some e \<Rightarrow> Inl e | None \<Rightarrow> Inr ())))"

section \<open>Lines of a text\<close>

abbreviation one_line_text :: "string \<Rightarrow> bool" where
  "one_line_text l \<equiv> list_all (\<lambda>c. \<not> line_end c) l"

lemma splitlines_acc_prefix:
  "one_line_text l \<Longrightarrow> l \<noteq> [] \<Longrightarrow> splitlines_acc cr acc (l @ s) = splitlines_acc False (rev l @ acc) s"
proof (induction l arbitrary: cr acc)
  case (Cons c l)
  then have "\<not> line_end c" "c \<noteq> CHR 0x0A" by (auto simp: line_end_def char_code_def)
  with Cons show ?case by (cases "l = []") auto
qed simp

lemma splitlines_join:
  "list_all one_line_text ls \<Longrightarrow> [] \<notin> set ls \<Longrightarrow> splitlines_acc False [] (join NL ls) = ls"
proof (induction ls rule: induct_list012)
  case (2 l)
  then show ?case using splitlines_acc_prefix[of l False "[]" "[]"] by (simp add: NL_def)
next
  case (3 l l' ls)
  then have "one_line_text l" "l \<noteq> []" by auto
  then have "splitlines_acc False [] (l @ NL @ join NL (l' # ls)) = l # splitlines_acc False [] (join NL (l' # ls))"
    by (simp add: splitlines_acc_prefix NL_def line_end_def char_code_def)
  moreover have "splitlines_acc False [] (join NL (l' # ls)) = l' # ls" using 3 by simp
  ultimately show ?case by simp
qed (simp add: splitlines_acc.simps)

lemma output_lines_join:
  assumes "\<And>l. l \<in> set ls \<Longrightarrow> one_line_text l \<and> l \<noteq> [] \<and> strip l = l"
  shows "output_lines (join NL ls) = ls"
proof -
  have "splitlines (join NL ls) = ls"
    unfolding splitlines_def using assms by (intro splitlines_join) (auto simp: list_all_iff)
  moreover have "map strip ls = ls" using assms by (intro map_idI) auto
  moreover have "filter (\<lambda>l. l \<noteq> []) ls = ls" using assms by (intro filter_True) auto
  ultimately show ?thesis by (simp add: output_lines_def)
qed

lemma splitlines_acc_one_line:
  "l \<in> set (splitlines_acc cr acc s) \<Longrightarrow> one_line_text acc \<Longrightarrow> one_line_text l"
proof (induction s arbitrary: cr acc)
  case (Cons c s)
  consider (skip) "cr \<and> c = CHR 0x0A" | (cut) "\<not> (cr \<and> c = CHR 0x0A)" "line_end c"
    | (keep) "\<not> (cr \<and> c = CHR 0x0A)" "\<not> line_end c" by blast
  then show ?case
  proof cases
    case skip
    then have "l \<in> set (splitlines_acc False acc s)" using Cons.prems(1) by simp
    then show ?thesis using Cons.IH Cons.prems(2) by blast
  next
    case cut
    then have "l = rev acc \<or> l \<in> set (splitlines_acc (c = CHR 0x0D) [] s)"
      using Cons.prems(1) by (simp only: splitlines_acc.simps cut if_False if_True list.set insert_iff)
    then show ?thesis using Cons.IH[of _ "[]"] Cons.prems(2) by auto
  next
    case keep
    then have "l \<in> set (splitlines_acc False (c # acc) s)"
      using Cons.prems(1) by (simp only: splitlines_acc.simps keep if_False)
    then show ?thesis using Cons.IH[of False "c # acc"] Cons.prems(2) keep by simp
  qed
qed (auto split: if_splits)

lemma strip_subset: "set (strip s) \<subseteq> set s"
  unfolding strip_def lstrip_def rstrip_def by (metis set_dropWhileD set_rev subsetI)

lemma output_lines_clean:
  assumes "l \<in> set (output_lines t)"
  shows "one_line_text l \<and> l \<noteq> [] \<and> strip l = l"
proof -
  from assms obtain s where s: "s \<in> set (splitlines t)" "l = strip s" "l \<noteq> []"
    by (auto simp: output_lines_def)
  then have "one_line_text s"
    using splitlines_acc_one_line[of s False "[]" t] by (simp add: splitlines_def)
  with s strip_subset[of s] show ?thesis by (auto simp: list_all_iff)
qed

lemma infix_around:
  assumes "a @ m @ b = l @ c # r" "c \<notin> set m" "m \<noteq> []"
  shows "(\<exists>x y. l = x @ m @ y) \<or> (\<exists>x y. r = x @ m @ y)"
proof -
  from assms(1) consider (left) u where "a = l @ u" "u @ m @ b = c # r" | (right) u where "l = a @ u" "m @ b = u @ c # r"
    by (auto simp: append_eq_append_conv2)
  then show ?thesis
  proof cases
    case left
    with assms(2,3) show ?thesis by (cases u; cases m) auto
  next
    case right
    then obtain v where "(m = u @ v \<and> v @ b = c # r) \<or> (m @ v = u \<and> b = v @ c # r)"
      by (auto simp: append_eq_append_conv2)
    then have "\<exists>y. u = m @ y"
      using assms(2) by (cases v) (auto intro: exI[of _ "[]"])
    with right show ?thesis by auto
  qed
qed

lemma contains_join:
  assumes "contains (join NL ls) m" "CHR 0x0A \<notin> set m" "m \<noteq> []"
  shows "\<exists>l \<in> set ls. contains l m"
  using assms(1)
proof (induction ls rule: induct_list012)
  case (3 l l' ls)
  then obtain a b where "a @ m @ b = l @ CHR 0x0A # join NL (l' # ls)"
    by (auto simp: contains_iff NL_def) 
  from infix_around[OF this assms(2,3)] 3 show ?case
    by (auto simp: contains_iff)
qed (use assms in \<open>auto simp: contains_iff\<close>)

section \<open>The first decisive line decides\<close>

definition clean_line :: "string \<Rightarrow> bool" where
  "clean_line l \<longleftrightarrow> one_line_text l \<and> l \<noteq> [] \<and> strip l = l"

definition sound_world :: "probe_world \<Rightarrow> bool" where
  "sound_world w \<longleftrightarrow> wp_returncode w \<noteq> None \<and> (\<forall>raw. Line raw \<in> set (wp_turns w) \<longrightarrow> one_line_text (strip raw))"

lemma watch_lines:
  "watch ts ls = Some d \<Longrightarrow> \<forall>raw. Line raw \<in> set ts \<longrightarrow> one_line_text (strip raw) \<Longrightarrow>
    \<forall>l \<in> set ls. clean_line l \<Longrightarrow> \<forall>l \<in> set (wd_lines d). clean_line l"
proof (induction ts ls rule: watch.induct)
  case (4 raw ts ls)
  have clean: "strip raw \<noteq> [] \<Longrightarrow> clean_line (strip raw)" using 4 by (auto simp: clean_line_def)
  show ?case
  proof (cases "strip raw = []")
    case True
    then show ?thesis using 4 by simp
  next
    case False
    show ?thesis
    proof (cases "match_probe_detection (strip raw)")
      case None
      have "\<forall>l \<in> set (ls @ [strip raw]). clean_line l" using 4 False clean by auto
      then show ?thesis using 4 False None by simp
    next
      case (Some x)
      then show ?thesis using 4 False clean by (auto simp: Let_def)
    qed
  qed
qed (auto split: if_splits)

lemma first_detection_append:
  "first_detection (xs @ ys) = (case first_detection xs of None \<Rightarrow> first_detection ys | Some x \<Rightarrow> Some x)"
  by (induction xs) (auto split: option.split)

lemma watch_decides:
  "watch ts ls = Some d \<Longrightarrow> first_detection ls = None \<Longrightarrow>
    (wd_detection d = ''probe-timeout'') \<or>
    (wd_detection d = ''unknown'' \<and> wd_line d = ''none'' \<and> first_detection (wd_lines d) = None) \<or>
    (first_detection (wd_lines d) = Some (wd_detection d, wd_line d))"
proof (induction ts ls rule: watch.induct)
  case (4 raw ts ls)
  then show ?case
    by (cases "match_probe_detection (strip raw)")
      (auto simp: Let_def first_detection_append split: if_splits)
qed (auto split: if_splits)

lemma detections:
  "match_probe_detection l = Some x \<Longrightarrow> x \<in> {''catalog-rejected'', ''catalog-accepted'', ''docker-unavailable'', ''image-missing''}"
  by (auto simp: match_probe_detection_def Let_def split: if_splits)

lemma first_detections:
  "first_detection ls = Some (x, l) \<Longrightarrow> x \<in> {''catalog-rejected'', ''catalog-accepted'', ''docker-unavailable'', ''image-missing''}"
proof (induction ls)
  case (Cons k ls)
  show ?case
  proof (cases "match_probe_detection k")
    case None
    then show ?thesis using Cons by (simp only: first_detection.simps option.case)
  next
    case (Some y)
    then have "y = x" using Cons.prems by simp
    then show ?thesis using detections Some by blast
  qed
qed simp

lemma first_detection_None: "first_detection ls = None \<longleftrightarrow> (\<forall>l \<in> set ls. match_probe_detection l = None)"
  by (induction ls) (auto split: option.split)

lemma lower_join: "lower (join NL ls) = join NL (map lower ls)"
  by (induction ls rule: induct_list012) (simp_all add: lower_def NL_def lower_char_def char_code_def)

lemma no_marker_in_output:
  assumes "first_detection ls = None"
  shows "\<not> docker_words (join NL ls)" "\<not> image_words (join NL ls)"
proof -
  have none: "\<not> contains (lower (join NL ls)) m"
    if "m \<in> set (DOCKER_UNAVAILABLE_MARKERS @ IMAGE_MISSING_MARKERS)" for m
  proof
    assume c: "contains (lower (join NL ls)) m"
    from that have "CHR 0x0A \<notin> set m" "m \<noteq> []"
      by (auto simp: DOCKER_UNAVAILABLE_MARKERS_def IMAGE_MISSING_MARKERS_def)
    with contains_join[of "map lower ls" m] c obtain l where l: "l \<in> set ls" "contains (lower l) m"
      by (auto simp: lower_join)
    with that have "match_probe_detection l \<noteq> None"
      by (auto simp: match_probe_detection_def Let_def list_ex_iff)
    with assms l show False by (simp add: first_detection_None)
  qed
  then show "\<not> docker_words (join NL ls)" "\<not> image_words (join NL ls)"
    by (auto simp: docker_words_def image_words_def list_ex_iff)
qed

definition decisive :: "detection set" where
  "decisive = {''catalog-rejected'', ''catalog-accepted'', ''docker-unavailable'', ''image-missing''}"

lemma judge_decisive:
  "x \<in> decisive \<Longrightarrow> pb_detection r = x \<Longrightarrow> judge_probe (Probed r) = None \<longleftrightarrow> x = ''catalog-accepted''"
  unfolding decisive_def by (elim insertE) (simp_all add: judge_probe_def Let_def)

lemma judge_timeout: "pb_detection r = ''probe-timeout'' \<Longrightarrow> judge_probe (Probed r) \<noteq> None"
  by (simp add: judge_probe_def Let_def)

lemma judge_derived:
  "x \<in> decisive \<Longrightarrow> pb_detection r = ''unknown'' \<Longrightarrow> first_probe_detection_from_output (pb_output r) = Some (x, l) \<Longrightarrow>
    judge_probe (Probed r) = None \<longleftrightarrow> x = ''catalog-accepted''"
  unfolding decisive_def by (elim insertE) (simp_all add: judge_probe_def Let_def)

lemma judge_silent:
  "pb_detection r = ''unknown'' \<Longrightarrow> first_probe_detection_from_output (pb_output r) = None \<Longrightarrow>
    \<not> docker_words (pb_output r) \<Longrightarrow> \<not> image_words (pb_output r) \<Longrightarrow> judge_probe (Probed r) = None"
  by (simp add: judge_probe_def Let_def)

lemma decisive_known: "x \<in> decisive \<Longrightarrow> x \<noteq> ''unknown'' \<and> x \<noteq> ''probe-timeout''"
  by (auto simp: decisive_def)

lemma first_decisive: "first_detection ls = Some (x, l) \<Longrightarrow> x \<in> decisive"
  unfolding decisive_def by (rule first_detections)

text \<open>C36. When the image has run, its model is accepted exactly when the run was not cut by the deadline and the first
  line of its output that says anything decisive accepts the model, or no line does: silence is acceptance.\<close>

theorem first_decisive_line_decides:
  assumes "probe_config model = Inr c" "watch (wp_turns w) [] = Some d" "probe_tail w = Some t" "sound_world w"
  shows "\<exists>p. default_worker_model_probe w img model = Some (p, probe_command w img model # stop_commands w d) \<and>
    (judge_probe p = None \<longleftrightarrow> wd_detection d \<noteq> ''probe-timeout'' \<and>
       (case first_detection (wd_lines d @ output_lines t) of None \<Rightarrow> True | Some (x, _) \<Rightarrow> x = ''catalog-accepted''))"
proof -
  define ls where "ls = wd_lines d @ output_lines t"
  have "\<forall>l \<in> set (wd_lines d). clean_line l"
    by (rule watch_lines[OF assms(2)]) (use assms(4) in \<open>simp_all add: sound_world_def\<close>)
  moreover have "\<forall>l \<in> set (output_lines t). clean_line l"
    using output_lines_clean unfolding clean_line_def by blast
  ultimately have clean: "\<forall>l \<in> set ls. clean_line l" unfolding ls_def by (simp only: set_append ball_Un)
  have lines: "output_lines (join NL ls) = ls"
    by (rule output_lines_join) (use clean in \<open>unfold clean_line_def, blast\<close>)
  have first: "first_probe_detection_from_output (join NL ls) = first_detection ls"
    by (simp add: first_probe_detection_from_output_def lines)
  let ?r = "probe_result_of w d t"
  have r: "pb_output ?r = join NL ls" by (simp add: probe_result_of_def Let_def ls_def split: option.split)
  have "judge_probe (Probed ?r) = None \<longleftrightarrow> wd_detection d \<noteq> ''probe-timeout'' \<and>
      (case first_detection ls of None \<Rightarrow> True | Some (x, _) \<Rightarrow> x = ''catalog-accepted'')"
    using watch_decides[OF assms(2) first_detection.simps(1)]
  proof (elim disjE conjE)
    assume late: "wd_detection d = ''probe-timeout''"
    then have "pb_detection ?r = ''probe-timeout''" by (simp add: probe_result_of_def Let_def)
    with late judge_timeout[of ?r] show ?thesis by simp
  next
    assume seen: "first_detection (wd_lines d) = Some (wd_detection d, wd_line d)"
    then have x: "wd_detection d \<in> decisive" by (rule first_decisive)
    then have "pb_detection ?r = wd_detection d" using decisive_known by (simp add: probe_result_of_def Let_def)
    with judge_decisive[OF x] decisive_known[OF x] seen show ?thesis by (simp add: ls_def first_detection_append)
  next
    assume un: "wd_detection d = ''unknown''" and none: "wd_line d = ''none''"
    show ?thesis
    proof (cases "first_detection ls")
      case None
      then have "pb_detection ?r = ''unknown''" using un first by (simp add: probe_result_of_def Let_def flip: ls_def)
      with None judge_silent[of ?r] no_marker_in_output[OF None] first un show ?thesis by (simp add: r)
    next
      case (Some y)
      obtain x l where y: "first_detection ls = Some (x, l)" using Some by (cases y) simp
      have x: "x \<in> decisive" using y by (rule first_decisive)
      show ?thesis
      proof (cases "x = ''catalog-rejected''")
        case True
        then have "pb_detection ?r = x"
          using un first y assms(4) by (simp add: probe_result_of_def Let_def sound_world_def flip: ls_def)
        with judge_decisive[OF x] y un show ?thesis by simp
      next
        case False
        then have "pb_detection ?r = ''unknown''" using un first y by (simp add: probe_result_of_def Let_def flip: ls_def)
        with judge_derived[OF x this] first y un show ?thesis by (simp add: r)
      qed
    qed
  qed
  with assms show ?thesis
    by (auto simp: default_worker_model_probe_def ls_def)
qed

text \<open>An image that ends without a word, whatever its exit code.\<close>

definition silent_world :: probe_world where
  "silent_world = \<lparr>wp_dir = ''/tmp/probe'', wp_container = ''probe'', wp_turns = [Quiet True], wp_alive = False,
     wp_tail = Some [], wp_tail_after_kill = None, wp_returncode = Some 1\<rparr>"

theorem first_decisive_line_decides_witness:
  "\<exists>p. default_worker_model_probe silent_world ''worker'' ''openrouter/some-model'' =
     Some (p, [probe_command silent_world ''worker'' ''openrouter/some-model'']) \<and> judge_probe p = None"
proof -
  let ?d = "\<lparr>wd_lines = [], wd_detection = ''unknown'', wd_line = ''none'', wd_stop = False\<rparr>"
  obtain c where c: "probe_config ''openrouter/some-model'' = Inr c"
    by (simp add: probe_config_def build_worker_opencode_config_def partition_char_def Let_def)
  have "watch (wp_turns silent_world) [] = Some ?d" "probe_tail silent_world = Some []" "sound_world silent_world"
    by (simp_all add: silent_world_def probe_tail_def sound_world_def)
  from first_decisive_line_decides[OF c this] show ?thesis
    by (auto simp: output_lines_def splitlines_def stop_commands_def)
qed

section \<open>The models are tried in order until one is refused\<close>

lemma worker_models_distinct: "distinct (worker_models models)"
  by (simp add: worker_models_def)

lemma probe_models_stops:
  "probe_models probe ms = (tried, Inl f) \<Longrightarrow>
    \<exists>pre m rest. ms = pre @ m # rest \<and> tried = pre @ [m] \<and> (\<forall>x \<in> set pre. judge_probe (probe x) = None)
      \<and> af_model f = Some m \<and> judge_probe (probe m) = Some (af_reason f, af_evidence f)"
proof (induction ms arbitrary: tried)
  case (Cons a ms)
  show ?case
  proof (cases "judge_probe (probe a)")
    case None
    then obtain t where t: "probe_models probe ms = (t, Inl f)" "tried = a # t"
      using Cons.prems by (cases "probe_models probe ms") auto
    from Cons.IH[OF t(1)] obtain pre m rest where
      "ms = pre @ m # rest" "t = pre @ [m]" "\<forall>x \<in> set pre. judge_probe (probe x) = None"
      "af_model f = Some m" "judge_probe (probe m) = Some (af_reason f, af_evidence f)" by blast
    with None t(2) show ?thesis by (intro exI[of _ "a # pre"]) auto
  next
    case (Some y)
    then have "a # ms = [] @ a # ms" "tried = [] @ [a]" "af_model f = Some a"
      "judge_probe (probe a) = Some (af_reason f, af_evidence f)" using Cons.prems by (cases y; auto)+
    then show ?thesis by (intro exI[of _ "[]"] exI[of _ a] exI[of _ ms]) simp
  qed
qed simp

lemma probe_models_passes:
  "snd (probe_models probe ms) = Inr () \<longleftrightarrow> (\<forall>m \<in> set ms. judge_probe (probe m) = None)"
  by (induction ms) (auto split: option.splits)

text \<open>The preflight passes exactly when there is no model, or Docker and the image are there and no probe is refused; a
  refusal names the first model refused, and no model behind it was tried.\<close>

theorem acceptance_is_all_or_first_refusal:
  "(snd (verify_worker_model_acceptance probe version inspect models) = Inr () \<longleftrightarrow>
     worker_models models = [] \<or> (fst (docker_available version) \<and> image_exists inspect \<and>
       (\<forall>m \<in> set (worker_models models). judge_probe (probe m) = None)))
   \<and> (\<forall>tried f m. verify_worker_model_acceptance probe version inspect models = (tried, Inl f) \<and> af_model f = Some m \<longrightarrow>
       (\<exists>pre rest. worker_models models = pre @ m # rest \<and> tried = pre @ [m] \<and>
         (\<forall>x \<in> set pre. judge_probe (probe x) = None) \<and>
         judge_probe (probe m) = Some (af_reason f, af_evidence f)))"
proof (intro conjI allI impI)
  show "snd (verify_worker_model_acceptance probe version inspect models) = Inr () \<longleftrightarrow>
     worker_models models = [] \<or> (fst (docker_available version) \<and> image_exists inspect \<and>
       (\<forall>m \<in> set (worker_models models). judge_probe (probe m) = None))"
    using probe_models_passes[of probe "worker_models models"]
    by (auto simp: verify_worker_model_acceptance_def Let_def)
  fix tried f m
  assume a: "verify_worker_model_acceptance probe version inspect models = (tried, Inl f) \<and> af_model f = Some m"
  then have "probe_models probe (worker_models models) = (tried, Inl f)"
    by (auto simp: verify_worker_model_acceptance_def Let_def split: if_splits)
  from probe_models_stops[OF this] a
  show "\<exists>pre rest. worker_models models = pre @ m # rest \<and> tried = pre @ [m] \<and>
      (\<forall>x \<in> set pre. judge_probe (probe x) = None) \<and> judge_probe (probe m) = Some (af_reason f, af_evidence f)"
    by auto
qed

text \<open>A failure of the recall client is only reported when the hub answered and is healthy, and a client that answers
  is never reported as down.\<close>

lemma mcp_failure_has_healthy_hub:
  assumes "preflight loads net token_file hub_url mcp_url = Inl e" "e \<in> {Mcp_Down, Mcp_Locked} \<or> (\<exists>st. e = Mcp_Unexpected st)"
  shows "\<exists>u body. mcp_url = Some u \<and> http_get loads (net (trim_slashes hub_url @ ''/health'') None) = (200, body, True)
    \<and> dget body ''status'' = PStr ''ok'' \<and> dget body ''db'' = PStr ''connected''
    \<and> (e = Mcp_Down \<longrightarrow> net (trim_slashes u @ ''/v1/health'') (session_token token_file) = Unreachable)"
  using assms
  by (auto simp: preflight_def hub_check_def mcp_check_def http_get_def split: option.splits prod.splits if_splits http_answer.splits)

end
