(* ===== verification/Bench_Preflight.thy ===== *)
theory Bench_Preflight
  imports Recall_Preflight Delivery_Proof
begin

text \<open>
  \<open>scripts/bench_preflight.py\<close>: the checks before a cell is started and their verdict.  What a check asks of the
  machine is a field of \<open>machine\<close>; \<open>sha\<close> is the hexadecimal SHA-256 of a list of bytes.  The texts of the rows'
  details are not modelled.
\<close>

section \<open>Rows and verdict\<close>

record check_row =
  ck_name :: string
  ck_ok :: bool
  ck_blocking :: bool

definition blocking_failures :: "check_row list \<Rightarrow> check_row list" where
  "blocking_failures rows = filter (\<lambda>r. \<not> ck_ok r \<and> ck_blocking r) rows"

definition row_mark :: "check_row \<Rightarrow> string" where
  "row_mark r = (if ck_ok r then ''PASS'' else if ck_blocking r then ''FAIL'' else ''WARN'')"

definition hard :: "string \<Rightarrow> bool \<Rightarrow> check_row" where
  "hard name ok = \<lparr>ck_name = name, ck_ok = ok, ck_blocking = True\<rparr>"

section \<open>What the checks ask\<close>

record machine =
  mc_port_open :: "nat \<Rightarrow> bool"
  mc_leader_url :: string
  mc_client_ok :: bool
  mc_lib_sh :: "(int \<times> string) option"
  mc_pubkeys :: "py_exc + pydict"
  mc_docker :: bool
  mc_inspect :: "int \<times> string"
  mc_worker_files :: "(string \<times> real) list"
  mc_run_dir :: bool
  mc_free_bytes :: nat

definition FORBIDDEN_PORT :: string where "FORBIDDEN_PORT = ''4450''"

definition check_ports :: "machine \<Rightarrow> check_row list" where
  "check_ports m = map (\<lambda>(port, what). hard (''port '' @ string_of_int (int port) @ '' ('' @ what @ '')'') (mc_port_open m port))
     [(4545, ''local relay''), (4550, ''bench MCP''), (4440, ''hub'')]"

text \<open>\<open>None\<close>: the derivation raised.\<close>

definition expected_bench_ed_fp :: "machine \<Rightarrow> string option" where
  "expected_bench_ed_fp m = (case mc_lib_sh m of None \<Rightarrow> None
   | Some (rc, out) \<Rightarrow> if rc \<noteq> 0 \<or> strip out = [] then None else Some (strip out))"

definition hex_value :: "char \<Rightarrow> nat option" where
  "hex_value c = (if is_digit c then Some (char_code c - 48)
     else let l = char_code (lower_char c) in if 97 \<le> l \<and> l \<le> 102 then Some (l - 87) else None)"

text \<open>\<open>bytes.fromhex\<close>, with blanks between the bytes.\<close>

fun from_hex :: "string \<Rightarrow> nat list option" where
  "from_hex [] = Some []"
| "from_hex (a # s) =
     (if is_space a then from_hex s
      else case s of [] \<Rightarrow> None
       | b # s' \<Rightarrow> (case (hex_value a, hex_value b, from_hex s') of
           (Some x, Some y, Some r) \<Rightarrow> Some ((16 * x + y) # r) | _ \<Rightarrow> None))"

definition served_key :: "pydict \<Rightarrow> pyval" where
  "served_key d = or_else (dget d ''ed25519'') (or_else (dget d ''ed25519_pubkey'') (or_else (dget d ''edPubkey'') (PStr [])))"

text \<open>The fingerprint of the served key, empty when there is none; \<open>None\<close> when it is not the hexadecimal of bytes.\<close>

definition served_fp :: "(nat list \<Rightarrow> string) \<Rightarrow> pydict \<Rightarrow> string option" where
  "served_fp sha d = (if truthy (served_key d) then (case served_key d of
       PStr t \<Rightarrow> map_option (\<lambda>b. take 8 (sha b)) (from_hex t) | _ \<Rightarrow> None)
     else Some [])"

definition check_identity :: "(nat list \<Rightarrow> string) \<Rightarrow> machine \<Rightarrow> check_row" where
  "check_identity sha m =
     (if \<not> mc_client_ok m then hard ''identity assertion'' False
      else if contains (mc_leader_url m) ('':'' @ FORBIDDEN_PORT) then hard ''identity bench'' False
      else case expected_bench_ed_fp m of
        None \<Rightarrow> hard ''identity bench'' False
      | Some expected \<Rightarrow>
          (case mc_pubkeys m of
             Inl _ \<Rightarrow> hard ''identity bench'' False
           | Inr d \<Rightarrow> (case served_fp sha d of
               None \<Rightarrow> hard ''identity bench'' False
             | Some fp \<Rightarrow> hard ''identity bench'' (fp \<noteq> [] \<and> fp = expected))))"

text \<open>The newest file of the image's sources; \<open>ts\<close> reads the time at which the image was built.\<close>

definition newest_file :: "(string \<times> real) list \<Rightarrow> real" where
  "newest_file files = fold (\<lambda>(_, t) n. if n < t then t else n) files 0"

definition check_image :: "(string \<Rightarrow> real option) \<Rightarrow> machine \<Rightarrow> py_exc + check_row" where
  "check_image ts m =
     (if \<not> mc_docker m then Inr (hard ''worker image'' False)
      else if fst (mc_inspect m) \<noteq> 0 then Inr (hard ''worker image'' False)
      else case ts (strip (snd (mc_inspect m))) of
        None \<Rightarrow> Inl PyValueError
      | Some built \<Rightarrow> Inr (hard ''worker image'' (\<not> built < newest_file (mc_worker_files m))))"

definition check_run_dir :: "machine \<Rightarrow> check_row" where
  "check_run_dir m = hard ''runs/cumulative'' (\<not> mc_run_dir m)"

definition check_disk :: "machine \<Rightarrow> check_row" where
  "check_disk m = \<lparr>ck_name = ''disk free'', ck_ok = 10 * 10 ^ 9 < mc_free_bytes m, ck_blocking = False\<rparr>"

definition all_checks :: "(nat list \<Rightarrow> string) \<Rightarrow> (string \<Rightarrow> real option) \<Rightarrow> machine \<Rightarrow> py_exc + check_row list" where
  "all_checks sha ts m =
     bind_result (check_image ts m) (\<lambda>row. Inr (check_ports m @ [check_identity sha m, row, check_run_dir m, check_disk m]))"

definition bench_preflight :: "(nat list \<Rightarrow> string) \<Rightarrow> (string \<Rightarrow> real option) \<Rightarrow> machine \<Rightarrow> py_exc + nat" where
  "bench_preflight sha ts m = bind_result (all_checks sha ts m) (\<lambda>rows. Inr (if blocking_failures rows = [] then 0 else 1))"

definition on_flags :: "bool \<Rightarrow> string option \<Rightarrow> string" where
  "on_flags on org = (if on then '' --mode on --org '' @ (case org of Some t \<Rightarrow> if t = [] then ''<org>'' else t | None \<Rightarrow> ''<org>'')
     else '' --mode off'')"

section \<open>What GO means\<close>

lemma newest_file_bound: "newest_file files \<le> b \<longleftrightarrow> 0 \<le> b \<and> (\<forall>f \<in> set files. snd f \<le> b)"
proof -
  have "fold (\<lambda>(_, t) n. if n < t then t else n) files a \<le> b \<longleftrightarrow> a \<le> b \<and> (\<forall>f \<in> set files. snd f \<le> b)" for a
    by (induction files arbitrary: a) (auto split: prod.splits)
  then show ?thesis by (simp add: newest_file_def)
qed

text \<open>The verdict is GO exactly when the three ports answer, the identity that the service proves by its key is the one
  derived from the seed, and that service is not the operator's, the image was built after every file it is made from, and
  no earlier campaign occupies the place.  The disk never stops a run.\<close>

theorem go_iff:
  "bench_preflight sha ts m = Inr 0 \<longleftrightarrow>
     mc_port_open m 4545 \<and> mc_port_open m 4550 \<and> mc_port_open m 4440 \<and>
     mc_client_ok m \<and> \<not> contains (mc_leader_url m) '':4450'' \<and>
     (\<exists>fp d key bytes. expected_bench_ed_fp m = Some fp \<and> mc_pubkeys m = Inr d \<and> served_key d = PStr key \<and> key \<noteq> [] \<and>
        from_hex key = Some bytes \<and> fp = take 8 (sha bytes)) \<and>
     mc_docker m \<and> fst (mc_inspect m) = 0 \<and>
     (\<exists>built. ts (strip (snd (mc_inspect m))) = Some built \<and> 0 \<le> built \<and> (\<forall>f \<in> set (mc_worker_files m). snd f \<le> built)) \<and>
     \<not> mc_run_dir m"
proof -
  have expected: "expected_bench_ed_fp m = Some fp \<Longrightarrow> fp \<noteq> []" for fp
    by (auto simp: expected_bench_ed_fp_def split: option.splits prod.splits if_splits)
  have identity: "ck_ok (check_identity sha m) \<longleftrightarrow>
     mc_client_ok m \<and> \<not> contains (mc_leader_url m) '':4450'' \<and>
     (\<exists>fp d key bytes. expected_bench_ed_fp m = Some fp \<and> mc_pubkeys m = Inr d \<and> served_key d = PStr key \<and> key \<noteq> [] \<and>
        from_hex key = Some bytes \<and> fp = take 8 (sha bytes))"
    by (auto simp: check_identity_def FORBIDDEN_PORT_def hard_def served_fp_def dest: expected
        split: option.splits sum.splits pyval.splits if_splits)
  have hard_rows: "ck_blocking (check_identity sha m)" "check_image ts m = Inr row \<Longrightarrow> ck_blocking row" for row
    by (auto simp: check_identity_def check_image_def hard_def split: option.splits sum.splits if_splits)
  have image_row: "(\<exists>row. check_image ts m = Inr row \<and> ck_ok row) \<longleftrightarrow> mc_docker m \<and> fst (mc_inspect m) = 0 \<and>
     (\<exists>built. ts (strip (snd (mc_inspect m))) = Some built \<and> 0 \<le> built \<and> (\<forall>f \<in> set (mc_worker_files m). snd f \<le> built))"
    by (auto simp: check_image_def hard_def not_less newest_file_bound split: option.splits)
  have "bench_preflight sha ts m = Inr 0 \<longleftrightarrow>
      (\<exists>row. check_image ts m = Inr row \<and> ck_ok row) \<and> ck_ok (check_identity sha m) \<and>
      mc_port_open m 4545 \<and> mc_port_open m 4550 \<and> mc_port_open m 4440 \<and> \<not> mc_run_dir m"
    by (cases "check_image ts m") (auto simp: bench_preflight_def all_checks_def blocking_failures_def check_ports_def
        check_run_dir_def check_disk_def hard_rows hard_def)
  then show ?thesis unfolding identity image_row by blast
qed

end
