(* ===== verification/Swe_Texts.thy ===== *)
theory Swe_Texts
  imports Ops_Log Model_Selection Memory_Recall
begin

text \<open>
  The readers of the second benchmark: the pure functions of \<open>wevibe_bench/adapters/swecontextbench.py\<close> (test names,
  patches, commits, messages, token counts, the agent's status) and the report format of
  \<open>wevibe_bench/adapters/bench_report.py\<close>.  \<open>loads\<close> decodes JSON and \<open>rp\<close> prints a value.
\<close>

section \<open>The failing tests of a report\<close>

definition BENCH_REPORT_HEADER :: string where "BENCH_REPORT_HEADER = ''WEVIBE-BENCH-REPORT v1''"

text \<open>\<open>t.split("\\n")\<close>\<close>

fun split_nl :: "string \<Rightarrow> string \<Rightarrow> string list" where
  "split_nl acc [] = [rev acc]"
| "split_nl acc (c # s) = (if c = CHR 0x0A then rev acc # split_nl [] s else split_nl (c # acc) s)"

definition report_lines :: "string \<Rightarrow> string list" where
  "report_lines t = map strip (split_nl [] t)"

definition has_report_header :: "string \<Rightarrow> bool" where
  "has_report_header t \<longleftrightarrow> (case filter (\<lambda>l. l \<noteq> []) (report_lines t) of [] \<Rightarrow> False | l # _ \<Rightarrow> l = BENCH_REPORT_HEADER)"

definition parse_record :: "(string \<Rightarrow> pyval option) \<Rightarrow> string \<Rightarrow> (string \<times> string) option" where
  "parse_record loads line =
     (let l = strip line in
      if l = [] \<or> l = BENCH_REPORT_HEADER then None
      else case loads l of
        Some (PDict d) \<Rightarrow> (case (dget d ''test'', dget d ''status'') of
            (PStr t, PStr st) \<Rightarrow> if t = [] \<or> st \<notin> {''fail'', ''pass''} then None else Some (t, st)
          | _ \<Rightarrow> None)
      | _ \<Rightarrow> None)"

text \<open>The first occurrence of each.\<close>

definition first_wins :: "'a list \<Rightarrow> 'a list" where "first_wins xs = rev (remdups (rev xs))"

definition parse_failing_ids :: "(string \<Rightarrow> pyval option) \<Rightarrow> string \<Rightarrow> string list" where
  "parse_failing_ids loads t =
     (if \<not> has_report_header t then []
      else first_wins (map fst (filter (\<lambda>r. snd r = ''fail'') (List.map_filter (parse_record loads) (split_nl [] t)))))"

section \<open>Instances\<close>

definition normalize_fail_to_pass :: "(string \<Rightarrow> pyval option) \<Rightarrow> (pyval \<Rightarrow> string) \<Rightarrow> pyval \<Rightarrow> string list" where
  "normalize_fail_to_pass loads rp raw =
     (let values = (case raw of
          PList xs \<Rightarrow> xs
        | PStr t \<Rightarrow> if strip t = [] then [] else (case loads t of
            None \<Rightarrow> []
          | Some (PList xs) \<Rightarrow> xs
          | Some v \<Rightarrow> if v = PNone \<or> v = PStr [] then [] else [v])
        | _ \<Rightarrow> []) in
      filter (\<lambda>t. t \<noteq> []) (map (\<lambda>v. strip (py_str rp v)) values))"

text \<open>The rest behind the first \<open> b/\<close> that has something on both sides.\<close>

fun after_b :: "string \<Rightarrow> string option" where
  "after_b [] = None"
| "after_b (c # s) = (if starts_with s '' b/'' \<and> drop 3 s \<noteq> [] then Some (drop 3 s) else after_b s)"

definition diff_header_path :: "string \<Rightarrow> string option" where
  "diff_header_path line = (if starts_with line ''diff --git a/'' then after_b (drop 13 line) else None)"

definition paths_from_patch :: "string \<Rightarrow> string list" where
  "paths_from_patch patch = first_wins (filter (\<lambda>p. p \<noteq> []) (map strip (List.map_filter diff_header_path (splitlines patch))))"

definition repo_short_name :: "string \<Rightarrow> py_exc + string" where
  "repo_short_name repo = (case split_slash [] repo of
     [a, b] \<Rightarrow> if a = [] \<or> b = [] then Inl PyValueError else Inr b | _ \<Rightarrow> Inl PyValueError)"

text \<open>The data set: a list of objects with an identifier; a later one with the same identifier replaces it.\<close>

definition instance_of_row :: "pyval \<Rightarrow> py_exc + string \<times> pydict" where
  "instance_of_row row = (case row of
     PDict d \<Rightarrow> (case dget d ''instance_id'' of PStr t \<Rightarrow> if t = [] then Inl PyValueError else Inr (t, d) | _ \<Rightarrow> Inl PyValueError)
   | _ \<Rightarrow> Inl PyValueError)"

fun load_rows :: "pyval list \<Rightarrow> (string \<times> pydict) list \<Rightarrow> py_exc + (string \<times> pydict) list" where
  "load_rows [] acc = Inr acc"
| "load_rows (r # rs) acc = bind_result (instance_of_row r) (\<lambda>(k, d). load_rows rs (AList.update k d acc))"

definition load_instances :: "pyval \<Rightarrow> py_exc + (string \<times> pydict) list" where
  "load_instances payload = (case payload of PList rs \<Rightarrow> load_rows rs [] | _ \<Rightarrow> Inl PyValueError)"

definition instance_at :: "(string \<times> pydict) list \<Rightarrow> string \<Rightarrow> py_exc + pydict" where
  "instance_at instances k = (case map_of instances k of None \<Rightarrow> Inl (PyKeyError k) | Some d \<Rightarrow> Inr d)"

definition text_item :: "(pyval \<Rightarrow> string) \<Rightarrow> pydict \<Rightarrow> string \<Rightarrow> py_exc + string" where
  "text_item rp d k = bind_result (dget_item d k) (\<lambda>v. Inr (py_str rp v))"

definition build_swe_need_card ::
  "(string \<Rightarrow> pyval option) \<Rightarrow> (pyval \<Rightarrow> string) \<Rightarrow> (string \<times> pydict) list \<Rightarrow> string \<Rightarrow> py_exc + need_card" where
  "build_swe_need_card loads rp instances k =
     bind_result (instance_at instances k) (\<lambda>d.
     bind_result (bind_result (text_item rp d ''repo'') repo_short_name) (\<lambda>short.
     bind_result (text_item rp d ''problem_statement'') (\<lambda>problem.
       Inr (need_post_init
         \<lparr>nd_intent = ''fix'', nd_task = problem, nd_language = Some ''python'', nd_stack = [short, ''python''],
          nd_frameworks = [], nd_deps = [], nd_error_strings = normalize_fail_to_pass loads rp (dget d ''FAIL_TO_PASS''),
          nd_files = paths_from_patch (case dget d ''test_patch'' of PStr t \<Rightarrow> t | _ \<Rightarrow> []),
          nd_directory = None, nd_project = Some short, nd_query = []\<rparr>))))"

section \<open>Commits and patches\<close>

definition hex_digit :: "char \<Rightarrow> bool" where
  "hex_digit c \<longleftrightarrow> is_digit c \<or> lower_char c \<in> set ''abcdef''"

definition commit_at :: "bool \<Rightarrow> string \<Rightarrow> (string \<times> string) option" where
  "commit_at w s = (if \<not> w \<and> length (take 40 s) = 40 \<and> list_all hex_digit (take 40 s) \<and> ends_word (drop 40 s)
     then Some (take 40 s, drop 40 s) else None)"

definition extract_commit_hash :: "string \<Rightarrow> string" where
  "extract_commit_hash out = (case find_all commit_at out of
     [] \<Rightarrow> (case filter (\<lambda>l. l \<noteq> []) (map (\<lambda>l. lower (strip l)) (splitlines out)) of [] \<Rightarrow> [] | ls \<Rightarrow> List.last ls)
   | hs \<Rightarrow> lower (List.last hs))"

definition short_commit :: "string \<Rightarrow> string" where
  "short_commit c = (if strip c = [] then ''unknown'' else take 8 (strip c))"

text \<open>\<open>replace("\\r\\n", "\\n")\<close>, \<open>s[s.find(pat):]\<close> and \<open>rstrip("\\n")\<close>.\<close>

fun unix_lines :: "string \<Rightarrow> string" where
  "unix_lines [] = []"
| "unix_lines [c] = [c]"
| "unix_lines (c # d # s) = (if c = CHR 0x0D \<and> d = CHR 0x0A then d # unix_lines s else c # unix_lines (d # s))"

fun from_text :: "string \<Rightarrow> string \<Rightarrow> string option" where
  "from_text pat [] = (if pat = [] then Some [] else None)"
| "from_text pat (c # s) = (if starts_with (c # s) pat then Some (c # s) else from_text pat s)"

definition trim_newlines :: "string \<Rightarrow> string" where
  "trim_newlines t = rev (dropWhile (\<lambda>c. c = CHR 0x0A) (rev t))"

definition clean_patch_output :: "string \<Rightarrow> string" where
  "clean_patch_output out = (case from_text ''diff --git '' (unix_lines out) of
     None \<Rightarrow> [] | Some t \<Rightarrow> (let p = trim_newlines t in if p = [] then [] else p @ [CHR 0x0A]))"

definition PATCH_MARKERS :: "string list" where
  "PATCH_MARKERS = [''<WEVIBE_FORK'', ''</WEVIBE_FORK>'', ''<WEVIBE_INDEX'', ''</WEVIBE_INDEX>'']"

definition scan_patch_for_markers :: "string \<Rightarrow> bool" where
  "scan_patch_for_markers patch \<longleftrightarrow> \<not> list_ex (contains patch) PATCH_MARKERS"

definition first_patch_marker :: "string \<Rightarrow> string" where
  "first_patch_marker patch = (case filter (contains patch) PATCH_MARKERS of [] \<Rightarrow> [] | m # _ \<Rightarrow> m)"

section \<open>Messages\<close>

definition text_of_block :: "pyval \<Rightarrow> string option" where
  "text_of_block v = (case v of
     PDict d \<Rightarrow> (case dget d ''text'' of PStr t \<Rightarrow> Some t
       | _ \<Rightarrow> (case dget d ''content'' of PStr t \<Rightarrow> Some t | _ \<Rightarrow> None))
   | _ \<Rightarrow> None)"

definition message_content_as_text :: "(pyval \<Rightarrow> string) \<Rightarrow> pyval \<Rightarrow> string" where
  "message_content_as_text rp v = (case v of
     PStr t \<Rightarrow> t
   | PList bs \<Rightarrow> concat (List.map_filter (\<lambda>b. case b of PStr t \<Rightarrow> Some t | _ \<Rightarrow> text_of_block b) bs)
   | PNone \<Rightarrow> []
   | _ \<Rightarrow> (case text_of_block v of Some t \<Rightarrow> t | None \<Rightarrow> py_str rp v))"

definition message_role_and_content :: "(pyval \<Rightarrow> string) \<Rightarrow> pyval \<Rightarrow> string \<times> string" where
  "message_role_and_content rp m = (case m of
     PDict d \<Rightarrow> (if dget d ''role'' = PNone then ''unknown'' else py_str rp (dget d ''role''),
                message_content_as_text rp (dget d ''content''))
   | _ \<Rightarrow> (''unknown'', py_str rp m))"

definition swe_to_int :: "pyval \<Rightarrow> int" where
  "swe_to_int v = (case v of
     PInt i \<Rightarrow> i | PFloat x \<Rightarrow> trunc_real x
   | PStr t \<Rightarrow> (case float_of_string t of None \<Rightarrow> 0 | Some x \<Rightarrow> trunc_real x)
   | _ \<Rightarrow> 0)"

definition token_usage_of :: "pyval \<Rightarrow> pydict option" where
  "token_usage_of m = (case m of PDict d \<Rightarrow> (case dget d ''extra'' of PDict e \<Rightarrow> (case dget e ''response'' of PDict r \<Rightarrow>
     (case dget r ''usage'' of PDict u \<Rightarrow> Some u | _ \<Rightarrow> None) | _ \<Rightarrow> None) | _ \<Rightarrow> None) | _ \<Rightarrow> None)"

definition sum_token_usage :: "pyval list \<Rightarrow> int \<times> int" where
  "sum_token_usage ms = fold (\<lambda>m (i, j). case token_usage_of m of None \<Rightarrow> (i, j)
     | Some u \<Rightarrow> (i + swe_to_int (dget u ''prompt_tokens''), j + swe_to_int (dget u ''completion_tokens''))) ms (0, 0)"

definition transcript_rows :: "(pyval \<Rightarrow> string) \<Rightarrow> string \<Rightarrow> string \<Rightarrow> string \<Rightarrow> pyval list \<Rightarrow> pydict list" where
  "transcript_rows rp k fp model ms =
     [(''instance_id'', PStr k), (''type'', PStr ''meta''), (''producer_prompt_fp'', PStr fp), (''model'', PStr model)]
     # map (\<lambda>(n, m). case message_role_and_content rp m of (role, content) \<Rightarrow>
         [(''instance_id'', PStr k), (''role'', PStr role), (''content'', PStr content), (''turn'', PInt (int n))]) (enumerate 0 ms)"

definition normalize_agent_status :: "int \<Rightarrow> real \<Rightarrow> int \<Rightarrow> real \<Rightarrow> string \<Rightarrow> string option \<Rightarrow> string" where
  "normalize_agent_status step_limit cost_limit calls cost raw err = (case err of
     Some name \<Rightarrow> ''error:'' @ name
   | None \<Rightarrow>
       if raw = ''Submitted'' then ''completed''
       else if raw = ''LimitsExceeded'' then
         (if 0 < step_limit \<and> step_limit \<le> calls then ''step-limit''
          else if 0 < cost_limit \<and> cost_limit \<le> cost then ''cost-limit'' else ''limits-exceeded'')
       else if raw = ''TimeExceeded'' then ''time-limit''
       else if raw \<noteq> [] then lower (map (\<lambda>c. if c = CHR ''_'' \<or> c = CHR '' '' then CHR ''-'' else c) raw)
       else ''unknown'')"

definition write_prediction :: "string \<Rightarrow> string \<Rightarrow> string \<Rightarrow> pydict" where
  "write_prediction k model patch = [(k, PDict
     [(''model_name_or_path'', PStr model), (''instance_id'', PStr k), (''model_patch'', PStr patch)])]"

section \<open>What the readers guarantee\<close>

lemma first_wins_distinct: "distinct (first_wins xs)"
  by (simp add: first_wins_def)

lemma failing_ids_distinct: "distinct (parse_failing_ids loads t)"
  by (simp add: parse_failing_ids_def first_wins_distinct)

lemma failing_ids_need_header: "parse_failing_ids loads t \<noteq> [] \<Longrightarrow> has_report_header t"
  by (simp add: parse_failing_ids_def split: if_splits)

lemma unix_lines_id: "CHR 0x0D \<notin> set t \<Longrightarrow> unix_lines t = t"
  by (induction t rule: unix_lines.induct) auto

lemma trim_newlines_append: "p \<noteq> [] \<Longrightarrow> List.last p \<noteq> CHR 0x0A \<Longrightarrow> trim_newlines (p @ replicate n (CHR 0x0A)) = p"
proof -
  assume p: "p \<noteq> []" "List.last p \<noteq> CHR 0x0A"
  have drop: "dropWhile (\<lambda>c. c = CHR 0x0A) (replicate n (CHR 0x0A) @ xs) = dropWhile (\<lambda>c. c = CHR 0x0A) xs" for xs
    by (induction n) auto
  from p have "dropWhile (\<lambda>c. c = CHR 0x0A) (rev p) = rev p"
    by (cases p rule: rev_cases) auto
  with drop[of "rev p"] show ?thesis by (simp add: trim_newlines_def)
qed

lemma from_text_skips:
  "starts_with t pat \<Longrightarrow> t \<noteq> [] \<Longrightarrow> (\<And>a b. pre = a @ b \<Longrightarrow> b \<noteq> [] \<Longrightarrow> \<not> starts_with (b @ t) pat) \<Longrightarrow>
    from_text pat (pre @ t) = Some t"
proof (induction pre)
  case Nil
  then show ?case by (cases t) auto
next
  case (Cons c pre)
  have "\<not> starts_with ((c # pre) @ t) pat" using Cons.prems(3)[of "[]" "c # pre"] by simp
  moreover have "from_text pat (pre @ t) = Some t"
  proof (rule Cons.IH[OF Cons.prems(1,2)])
    show "\<not> starts_with (b @ t) pat" if "pre = a @ b" "b \<noteq> []" for a b
      using Cons.prems(3)[of "c # a" b] that by simp
  qed
  ultimately show ?case by simp
qed

text \<open>A patch without carriage returns is handed on as it is, up to the line feeds at its end: a last line that is one
  blank is kept, and what the shell printed before the patch is not.\<close>

theorem clean_patch_keeps_every_line:
  assumes "starts_with patch ''diff --git ''" "List.last patch \<noteq> CHR 0x0A" "CHR 0x0D \<notin> set (pre @ patch)"
    "\<And>a b. pre = a @ b \<Longrightarrow> b \<noteq> [] \<Longrightarrow> \<not> starts_with (b @ patch @ replicate n (CHR 0x0A)) ''diff --git ''"
  shows "clean_patch_output (pre @ patch @ replicate n (CHR 0x0A)) = patch @ [CHR 0x0A]"
proof -
  have nonempty: "patch \<noteq> []" using assms(1) by auto
  have "unix_lines (pre @ patch @ replicate n (CHR 0x0A)) = pre @ patch @ replicate n (CHR 0x0A)"
    using assms(3) by (intro unix_lines_id) (auto simp: char_code_def)
  moreover have "starts_with (patch @ replicate n (CHR 0x0A)) ''diff --git ''"
    using assms(1) by (auto simp: starts_with_iff)
  then have "from_text ''diff --git '' (pre @ patch @ replicate n (CHR 0x0A)) = Some (patch @ replicate n (CHR 0x0A))"
    using nonempty assms(4) by (intro from_text_skips) auto
  ultimately show ?thesis
    using trim_newlines_append[OF nonempty assms(2)] nonempty by (simp add: clean_patch_output_def)
qed

text \<open>A carriage return at the end of a line of the patch is lost, so that a patch of a file with such lines no longer
  fits it.\<close>

lemma crlf_context_is_lost:
  "clean_patch_output (''diff --git a/f b/f'' @ [CHR 0x0A] @ ''-x'' @ [CHR 0x0D, CHR 0x0A]) =
     ''diff --git a/f b/f'' @ [CHR 0x0A] @ ''-x'' @ [CHR 0x0A]"
  by (simp add: clean_patch_output_def trim_newlines_def)

end
