(* ===== verification/Swe_Runner.thy ===== *)
theory Swe_Runner
  imports Swe_Texts Feedback_Text
begin

text \<open>
  \<open>SWEContextBenchRunner\<close> of \<open>wevibe_bench/adapters/swecontextbench.py\<close>: one solve attempt, from the checkout to the
  patch.  The state is the sequence of steps taken so far, the variable \<open>OPENROUTER_API_KEY\<close> of the process and the
  runner's model; the environment answers a step by the steps before it.  The agent and its containers are those of
  mini-SWE-agent: starting one, a command in it, a run of the agent (with the key it sees) and the clean-up are steps.
  Interrupts and status lines are not modelled.
\<close>

section \<open>Steps and state\<close>

datatype swe_step =
    Git "string list" "string option"
  | Start_Env "string option"
  | In_Env string
  | Agent utext "string option"
  | Cleanup_Env
  | Make_Dir string
  | Make_Temp string
  | Remove_Tree string
  | Transcript string "pydict list"

record swe_state =
  ss_steps :: "swe_step list"
  ss_key :: "string option"
  ss_model :: string

record agent_run =
  ag_raised :: "string option"
  ag_payload :: pyval
  ag_messages :: "pyval list"
  ag_calls :: int
  ag_cost :: real

text \<open>Answers: exit code, standard output and error of a command; whether a directory is there; the directory made; the
  run of the agent; the key file.\<close>

record swe_world =
  sw_answer :: "swe_step list \<Rightarrow> swe_step \<Rightarrow> int \<times> string"
  sw_exists :: "swe_step list \<Rightarrow> string \<Rightarrow> bool"
  sw_temp :: "swe_step list \<Rightarrow> string"
  sw_agent :: "swe_step list \<Rightarrow> agent_run"
  sw_auth :: "string option"
  sw_seconds :: real
  sw_sha :: "string \<Rightarrow> string"
  sw_loads :: "string \<Rightarrow> pyval option"
  sw_print :: "pyval \<Rightarrow> string"
  sw_local_cleanup :: bool

record swe_config =
  sb_work_root :: "string option"
  sb_step_limit :: int
  sb_cost_limit :: real
  sb_cache :: "string option"
  sb_docker :: bool
  sb_system :: string
  sb_transcripts :: "string option"
  sb_keep :: bool
  sb_instances :: "(string \<times> pydict) list"

type_synonym 'a swe = "swe_state \<Rightarrow> (py_exc + 'a) \<times> swe_state"

definition done_with :: "'a \<Rightarrow> 'a swe" where "done_with x s = (Inr x, s)"

definition failed :: "py_exc \<Rightarrow> 'a swe" where "failed e s = (Inl e, s)"

definition lift_swe :: "py_exc + 'a \<Rightarrow> 'a swe" where "lift_swe r s = (r, s)"

definition after :: "'a swe \<Rightarrow> ('a \<Rightarrow> 'b swe) \<Rightarrow> 'b swe" where
  "after m f s = (case m s of (Inl e, s') \<Rightarrow> (Inl e, s') | (Inr x, s') \<Rightarrow> f x s')"

text \<open>\<open>try: m finally: f\<close>, for an \<open>f\<close> that does not raise.\<close>

definition finally_do :: "'a swe \<Rightarrow> (swe_state \<Rightarrow> swe_state) \<Rightarrow> 'a swe" where
  "finally_do m f s = (case m s of (r, s') \<Rightarrow> (r, f s'))"

definition take_step :: "swe_step \<Rightarrow> swe_state \<Rightarrow> swe_state" where
  "take_step x s = s\<lparr>ss_steps := ss_steps s @ [x]\<rparr>"

definition swe_act :: "swe_step \<Rightarrow> unit swe" where "swe_act x s = (Inr (), take_step x s)"

definition ask :: "swe_world \<Rightarrow> swe_step \<Rightarrow> (int \<times> string) swe" where
  "ask w x s = (Inr (sw_answer w (ss_steps s) x), take_step x s)"

section \<open>Git\<close>

definition run_git :: "swe_world \<Rightarrow> string list \<Rightarrow> string option \<Rightarrow> string swe" where
  "run_git w args cwd = after (ask w (Git args cwd)) (\<lambda>(rc, out).
     if rc \<noteq> 0 then failed (PyRuntimeError ''git command failed'') else done_with out)"

definition has_commit :: "swe_world \<Rightarrow> string \<Rightarrow> string \<Rightarrow> bool swe" where
  "has_commit w dir commit = after (ask w (Git [''cat-file'', ''-e'', commit @ ''^{commit}''] (Some dir))) (\<lambda>(rc, _). done_with (rc = 0))"

definition is_partial_clone :: "swe_world \<Rightarrow> string \<Rightarrow> bool swe" where
  "is_partial_clone w dir = after (ask w (Git [''config'', ''--bool'', ''--get'', ''remote.origin.promisor''] (Some dir)))
     (\<lambda>(rc, out). done_with (rc = 0 \<and> lower (strip out) = ''true''))"

definition clone :: "swe_world \<Rightarrow> string \<Rightarrow> string \<Rightarrow> string swe" where
  "clone w url dir = run_git w [''clone'', ''--no-tags'', url, dir] None"

definition cache_name :: "string \<Rightarrow> string" where
  "cache_name repo = concat (map (\<lambda>c. if c = CHR ''/'' then ''__'' else [c]) repo)"

text \<open>The cached clone is made, made again when it is a partial one, or brought up to date.\<close>

definition refresh_cache :: "swe_world \<Rightarrow> string \<Rightarrow> string \<Rightarrow> string swe" where
  "refresh_cache w url cache = (\<lambda>s.
     if sw_exists w (ss_steps s) cache
     then after (is_partial_clone w cache) (\<lambda>partial.
       if partial then after (swe_act (Remove_Tree cache)) (\<lambda>_. clone w url cache)
       else run_git w [''fetch'', ''--prune'', ''origin''] (Some cache)) s
     else clone w url cache s)"

definition fetch_sources :: "swe_world \<Rightarrow> swe_config \<Rightarrow> string \<Rightarrow> string \<Rightarrow> string swe" where
  "fetch_sources w cfg repo dir =
     (let url = ''https://github.com/'' @ repo @ ''.git'' in
      case sb_cache cfg of
        None \<Rightarrow> clone w url dir
      | Some base \<Rightarrow> after (swe_act (Make_Dir base)) (\<lambda>_.
          (let cache = base @ ''/'' @ cache_name repo in
           after (refresh_cache w url cache) (\<lambda>_. run_git w [''clone'', ''--local'', cache, dir] None))))"

definition checkout_repo :: "swe_world \<Rightarrow> swe_config \<Rightarrow> string \<Rightarrow> string \<Rightarrow> string \<Rightarrow> unit swe" where
  "checkout_repo w cfg repo commit dir =
     after (fetch_sources w cfg repo dir) (\<lambda>_.
     after (has_commit w dir commit) (\<lambda>known.
     after (if known then done_with [] else run_git w [''fetch'', ''--depth=1'', ''origin'', commit] (Some dir)) (\<lambda>_.
     after (run_git w [''checkout'', ''-f'', commit] (Some dir)) (\<lambda>_.
     after (run_git w [''reset'', ''--hard'', commit] (Some dir)) (\<lambda>_.
     after (run_git w [''clean'', ''-fdx''] (Some dir)) (\<lambda>_.
     after (run_git w [''rev-parse'', ''HEAD''] (Some dir)) (\<lambda>head.
     if strip head \<noteq> commit then failed (PyRuntimeError ''checkout mismatch'')
     else after (run_git w [''status'', ''--porcelain''] (Some dir)) (\<lambda>dirty.
     if strip dirty \<noteq> [] then failed (PyRuntimeError ''expected clean git tree'') else done_with ()))))))))"

section \<open>The container\<close>

definition docker_head_or_raise :: "swe_world \<Rightarrow> string swe" where
  "docker_head_or_raise w = after (ask w (In_Env ''cd /testbed && git rev-parse HEAD'')) (\<lambda>(rc, out).
     if rc \<noteq> 0 then failed (PyRuntimeError ''docker git rev-parse failed'')
     else if extract_commit_hash out = [] then failed (PyRuntimeError ''docker git rev-parse produced no commit hash'')
     else done_with (extract_commit_hash out))"

definition ensure_docker_repo_commit :: "swe_world \<Rightarrow> string \<Rightarrow> unit swe" where
  "ensure_docker_repo_commit w commit =
     (let expected = lower (strip commit) in
      after (docker_head_or_raise w) (\<lambda>head.
      after (if head = expected then done_with head
             else after (ask w (In_Env (''cd /testbed && git checkout -f '' @ commit))) (\<lambda>(rc, _).
               if rc \<noteq> 0 then failed (PyRuntimeError ''docker checkout failed'') else docker_head_or_raise w)) (\<lambda>head.
      if head \<noteq> expected then failed (PyRuntimeError ''docker checkout mismatch'') else done_with ())))"

fun dotted :: "string \<Rightarrow> string" where
  "dotted [] = []"
| "dotted [c] = [c]"
| "dotted (c # d # s) = (if c = CHR ''_'' \<and> d = CHR ''_'' then CHR ''.'' # dotted s else c # dotted (d # s))"

definition docker_image :: "string \<Rightarrow> string" where
  "docker_image k = ''jiayuanz3/swecontextbench:'' @ lower (dotted k)"

section \<open>One run of the agent\<close>

definition load_openrouter_key :: "swe_world \<Rightarrow> py_exc + string" where
  "load_openrouter_key w = (case sw_auth w of
     None \<Rightarrow> Inl PyFileNotFoundError
   | Some t \<Rightarrow> (case sw_loads w t of
       None \<Rightarrow> Inl PyValueError
     | Some (PDict d) \<Rightarrow> (case dget_default d ''openrouter'' (PDict []) of
         PDict o' \<Rightarrow> (case dget o' ''key'' of
            PStr key \<Rightarrow> if strip key = [] then Inl (PyRuntimeError ''missing openrouter key'') else Inr (strip key)
          | _ \<Rightarrow> Inl (PyRuntimeError ''missing openrouter key''))
       | _ \<Rightarrow> Inl PyAttributeError)
     | Some _ \<Rightarrow> Inl PyAttributeError))"

definition set_key :: "string option \<Rightarrow> unit swe" where
  "set_key k s = (Inr (), s\<lparr>ss_key := k\<rparr>)"

text \<open>\<open>agent.run\<close>: an exception is part of its outcome.\<close>

definition agent_step :: "swe_world \<Rightarrow> utext \<Rightarrow> agent_run swe" where
  "agent_step w task s = (let x = Agent task (ss_key s) in (Inr (sw_agent w (ss_steps s @ [x])), take_step x s))"

text \<open>The key is in the environment while the agent runs, and what was there before is put back.\<close>

definition run_with_key :: "swe_world \<Rightarrow> utext \<Rightarrow> agent_run swe" where
  "run_with_key w task =
     after (lift_swe (load_openrouter_key w)) (\<lambda>key s.
       let prior = ss_key s in
       finally_do (after (set_key (Some key)) (\<lambda>_. agent_step w task)) (\<lambda>s'. s'\<lparr>ss_key := prior\<rparr>) s)"

definition payload_of :: "agent_run \<Rightarrow> pyval" where
  "payload_of a = (case ag_raised a of
     None \<Rightarrow> ag_payload a
   | Some _ \<Rightarrow> (case ag_messages a of [] \<Rightarrow> PDict []
       | ms \<Rightarrow> (case List.last ms of PDict d \<Rightarrow> PDict (dict_or_empty (dget d ''extra'')) | _ \<Rightarrow> PDict [])))"

definition status_of_run :: "swe_world \<Rightarrow> swe_config \<Rightarrow> agent_run \<Rightarrow> string" where
  "status_of_run w cfg a =
     (let raw = (case payload_of a of PDict d \<Rightarrow> dget d ''exit_status'' | _ \<Rightarrow> PNone) in
      normalize_agent_status (sb_step_limit cfg) (sb_cost_limit cfg) (ag_calls a) (ag_cost a)
        (if truthy raw then py_str (sw_print w) raw else []) (ag_raised a))"

definition collect_patch :: "swe_world \<Rightarrow> swe_config \<Rightarrow> string \<Rightarrow> string \<Rightarrow> string swe" where
  "collect_patch w cfg dir commit =
     (if sb_docker cfg then
        after (ask w (In_Env (''cd /testbed && git diff --binary --no-ext-diff '' @ commit))) (\<lambda>(rc, out).
          if rc \<noteq> 0 then failed (PyRuntimeError ''docker git diff failed'') else done_with (clean_patch_output out))
      else run_git w [''diff'', ''--binary'', ''--no-ext-diff'', commit] (Some dir))"

text \<open>The container is started, brought to the commit and cleaned up whatever happens; one that did not start is not.\<close>

definition start_env :: "swe_world \<Rightarrow> swe_config \<Rightarrow> string \<Rightarrow> unit swe" where
  "start_env w cfg k = after (ask w (Start_Env (if sb_docker cfg then Some (docker_image k) else None))) (\<lambda>(rc, _).
     if rc \<noteq> 0 then failed (PyRuntimeError ''environment did not start'') else done_with ())"

definition cleanup_env :: "swe_world \<Rightarrow> swe_config \<Rightarrow> swe_state \<Rightarrow> swe_state" where
  "cleanup_env w cfg s = (if sb_docker cfg \<or> sw_local_cleanup w then take_step Cleanup_Env s else s)"

definition in_env :: "swe_world \<Rightarrow> swe_config \<Rightarrow> string \<Rightarrow> utext \<Rightarrow> string \<Rightarrow> (agent_run \<times> string) swe" where
  "in_env w cfg dir task commit =
     after (if sb_docker cfg then ensure_docker_repo_commit w commit else done_with ()) (\<lambda>_.
     after (run_with_key w task) (\<lambda>a.
     after (collect_patch w cfg dir commit) (\<lambda>patch. done_with (a, patch))))"

definition run_agent ::
  "swe_world \<Rightarrow> swe_config \<Rightarrow> string \<Rightarrow> string \<Rightarrow> utext \<Rightarrow> string \<Rightarrow> string \<Rightarrow> (string \<times> agent_run \<times> string) swe" where
  "run_agent w cfg dir model task k commit =
     (if \<not> starts_with model ''openrouter/'' then failed PyValueError
      else after (start_env w cfg k) (\<lambda>_.
        after (finally_do (in_env w cfg dir task commit) (cleanup_env w cfg)) (\<lambda>(a, patch).
          done_with (status_of_run w cfg a, a, patch))))"

section \<open>One attempt\<close>

record solve_result =
  sv_patch :: string
  sv_input :: int
  sv_output :: int
  sv_turns :: int
  sv_cost :: real
  sv_seconds :: real
  sv_model :: string
  sv_status :: string

definition temp_prefix :: "string \<Rightarrow> string" where
  "temp_prefix k = ''swecb-'' @ concat (map (\<lambda>c. if c = CHR ''/'' then ''__'' else [c]) k) @ ''-''"

definition new_work_dir :: "swe_world \<Rightarrow> swe_config \<Rightarrow> string \<Rightarrow> string swe" where
  "new_work_dir w cfg k =
     after (case sb_work_root cfg of None \<Rightarrow> done_with () | Some r \<Rightarrow> swe_act (Make_Dir r)) (\<lambda>_ s.
       let s' = take_step (Make_Temp (temp_prefix k)) s in (Inr (sw_temp w (ss_steps s')), s'))"

definition task_text :: "memory list \<Rightarrow> string \<Rightarrow> utext" where
  "task_text ms problem =
     (let blob = format_memory ms in
      if blob = [] then asc problem
      else asc ''## Relevant past experience (WeVibe recall)'' @ [NEWLINE] @ blob @ [NEWLINE, NEWLINE]
        @ asc ''## Task'' @ [NEWLINE] @ asc problem)"

definition capture_transcript :: "swe_world \<Rightarrow> swe_config \<Rightarrow> string \<Rightarrow> string \<Rightarrow> pyval list \<Rightarrow> unit swe" where
  "capture_transcript w cfg k model ms = (case sb_transcripts cfg of
     None \<Rightarrow> done_with ()
   | Some dir \<Rightarrow> after (swe_act (Make_Dir dir)) (\<lambda>_.
       swe_act (Transcript (dir @ ''/'' @ k @ ''.jsonl'') (transcript_rows (sw_print w) k (take 8 (sw_sha w (sb_system cfg))) model ms))))"

definition attempt_body ::
  "swe_world \<Rightarrow> swe_config \<Rightarrow> string \<Rightarrow> string \<Rightarrow> string \<Rightarrow> string \<Rightarrow> memory list \<Rightarrow> pydict \<Rightarrow> solve_result swe" where
  "attempt_body w cfg dir k repo commit ms d = (\<lambda>s.
     let model = ss_model s in
     after (if sb_docker cfg then done_with () else after (checkout_repo w cfg repo commit dir) (\<lambda>_.
         after (run_git w [''rev-parse'', ''HEAD''] (Some dir)) (\<lambda>_.
         after (run_git w [''status'', ''--porcelain''] (Some dir)) (\<lambda>_. done_with ())))) (\<lambda>_.
     after (lift_swe (text_item (sw_print w) d ''problem_statement'')) (\<lambda>problem.
     after (run_agent w cfg dir model (task_text ms problem) k commit) (\<lambda>(status, a, patch).
     after (capture_transcript w cfg k model (ag_messages a)) (\<lambda>_.
       done_with \<lparr>sv_patch = patch, sv_input = fst (sum_token_usage (ag_messages a)),
         sv_output = snd (sum_token_usage (ag_messages a)), sv_turns = ag_calls a, sv_cost = ag_cost a,
         sv_seconds = sw_seconds w, sv_model = model, sv_status = status\<rparr>)))) s)"

definition drop_work_dir :: "swe_config \<Rightarrow> string \<Rightarrow> swe_state \<Rightarrow> swe_state" where
  "drop_work_dir cfg work s = (if sb_keep cfg then s else take_step (Remove_Tree work) s)"

definition solve_instance :: "swe_world \<Rightarrow> swe_config \<Rightarrow> string \<Rightarrow> memory list \<Rightarrow> solve_result swe" where
  "solve_instance w cfg k ms =
     after (lift_swe (instance_at (sb_instances cfg) k)) (\<lambda>d.
     after (lift_swe (text_item (sw_print w) d ''repo'')) (\<lambda>repo.
     after (lift_swe (text_item (sw_print w) d ''base_commit'')) (\<lambda>commit.
     after (new_work_dir w cfg k) (\<lambda>work.
     after (lift_swe (repo_short_name repo)) (\<lambda>short.
       finally_do (attempt_body w cfg (work @ ''/'' @ short) k repo commit ms d) (drop_work_dir cfg work))))))"

record task_outcome =
  to_resolved :: bool
  to_input :: int
  to_output :: int
  to_turns :: int
  to_cost :: real
  to_seconds :: real

text \<open>Another model is the runner's for the time of the attempt; no attempt counts as resolved here.\<close>

definition with_model :: "string \<Rightarrow> 'a swe \<Rightarrow> 'a swe" where
  "with_model model m s =
     (let chosen = (if model = [] then ss_model s else model) in
      if chosen = ss_model s then m s
      else finally_do m (\<lambda>s'. s'\<lparr>ss_model := ss_model s\<rparr>) (s\<lparr>ss_model := chosen\<rparr>))"

definition run_swe_task :: "swe_world \<Rightarrow> swe_config \<Rightarrow> string \<Rightarrow> string \<Rightarrow> memory list \<Rightarrow> task_outcome swe" where
  "run_swe_task w cfg model k ms = after (with_model model (solve_instance w cfg k ms)) (\<lambda>v.
     done_with \<lparr>to_resolved = False, to_input = sv_input v, to_output = sv_output v, to_turns = sv_turns v,
       to_cost = sv_cost v, to_seconds = sv_seconds v\<rparr>)"

section \<open>The process is left as it was\<close>

definition restores :: "'a swe \<Rightarrow> bool" where
  "restores m \<longleftrightarrow> (\<forall>s. ss_key (snd (m s)) = ss_key s \<and> ss_model (snd (m s)) = ss_model s)"

named_theorems restores_intros

lemma restores_done [restores_intros]: "restores (done_with x)"
  by (simp add: restores_def done_with_def)

lemma restores_failed [restores_intros]: "restores (failed e)"
  by (simp add: restores_def failed_def)

lemma restores_lift [restores_intros]: "restores (lift_swe r)"
  by (simp add: restores_def lift_swe_def)

lemma restores_act [restores_intros]: "restores (swe_act x)"
  by (simp add: restores_def swe_act_def take_step_def)

lemma restores_ask [restores_intros]: "restores (ask w x)"
  by (simp add: restores_def ask_def take_step_def)

lemma restores_after [restores_intros]: "restores m \<Longrightarrow> (\<And>x. restores (f x)) \<Longrightarrow> restores (after m f)"
  by (auto simp: restores_def after_def split: prod.split sum.split) (metis snd_conv)+

lemma restores_finally [restores_intros]:
  "restores m \<Longrightarrow> (\<And>s. ss_key (f s) = ss_key s \<and> ss_model (f s) = ss_model s) \<Longrightarrow> restores (finally_do m f)"
  by (auto simp: restores_def finally_do_def split: prod.split) (metis snd_conv)+

lemma restores_if [restores_intros]: "restores m \<Longrightarrow> restores m' \<Longrightarrow> restores (if b then m else m')"
  by simp

lemma restores_case_prod [restores_intros]: "(\<And>x y. restores (f x y)) \<Longrightarrow> restores (case p of (x, y) \<Rightarrow> f x y)"
  by (cases p) simp

lemma restores_case_option [restores_intros]:
  "restores m \<Longrightarrow> (\<And>x. restores (f x)) \<Longrightarrow> restores (case v of None \<Rightarrow> m | Some x \<Rightarrow> f x)"
  by (cases v) simp_all

text \<open>A computation that first looks at the state.\<close>

lemma restores_look: "(\<And>s. restores (m s)) \<Longrightarrow> restores (\<lambda>s. m s s)"
  by (simp add: restores_def)

lemma restores_with_key: "restores (run_with_key w task)"
  by (auto simp: restores_def run_with_key_def after_def lift_swe_def finally_do_def set_key_def agent_step_def take_step_def
      Let_def split: sum.split)

lemma restores_git [restores_intros]: "restores (run_git w args cwd)"
  unfolding run_git_def by (intro restores_intros)

lemma restores_if_state: "restores m \<Longrightarrow> restores m' \<Longrightarrow> restores (\<lambda>s. if P s then m s else m' s)"
  by (simp add: restores_def)

lemma restores_cache [restores_intros]: "restores (refresh_cache w url cache)"
  unfolding refresh_cache_def is_partial_clone_def clone_def by (rule restores_if_state; intro restores_intros)

lemma restores_checkout [restores_intros]: "restores (checkout_repo w cfg repo commit dir)"
  unfolding checkout_repo_def fetch_sources_def has_commit_def clone_def Let_def by (intro restores_intros)

lemma restores_ensure [restores_intros]: "restores (ensure_docker_repo_commit w commit)"
  unfolding ensure_docker_repo_commit_def docker_head_or_raise_def Let_def by (intro restores_intros)

lemma restores_run_agent [restores_intros]: "restores (run_agent w cfg dir model task k commit)"
  unfolding run_agent_def start_env_def in_env_def collect_patch_def
  by (intro restores_intros restores_with_key) (simp add: cleanup_env_def take_step_def)

lemma restores_transcript [restores_intros]: "restores (capture_transcript w cfg k model ms)"
  unfolding capture_transcript_def by (intro restores_intros)

lemma restores_body [restores_intros]: "restores (attempt_body w cfg dir k repo commit ms d)"
  unfolding attempt_body_def Let_def by (rule restores_look, intro restores_intros)

lemma restores_temp [restores_intros]: "restores (new_work_dir w cfg k)"
  unfolding new_work_dir_def
  by (intro restores_intros) (auto simp: restores_def take_step_def Let_def)

lemma restores_solve: "restores (solve_instance w cfg k ms)"
  unfolding solve_instance_def by (intro restores_intros) (simp add: drop_work_dir_def take_step_def)

lemma with_model_restores: "restores m \<Longrightarrow> restores (with_model model m)"
  unfolding restores_def
proof
  fix s :: swe_state
  assume m: "\<forall>s. ss_key (snd (m s)) = ss_key s \<and> ss_model (snd (m s)) = ss_model s"
  let ?s = "s\<lparr>ss_model := (if model = [] then ss_model s else model)\<rparr>"
  have "ss_key (snd (m ?s)) = ss_key s" using m by simp
  with m show "ss_key (snd (with_model model m s)) = ss_key s \<and> ss_model (snd (with_model model m s)) = ss_model s"
    by (cases "m ?s") (simp add: with_model_def finally_do_def Let_def)
qed

text \<open>C38. Whatever the agent, the container, git and the files do, a task leaves the key in the environment and the runner's
  model as they were.\<close>

theorem task_leaves_key_and_model:
  "ss_key (snd (run_swe_task w cfg model k ms s)) = ss_key s \<and> ss_model (snd (run_swe_task w cfg model k ms s)) = ss_model s"
proof -
  have "restores (run_swe_task w cfg model k ms)"
    unfolding run_swe_task_def by (intro restores_intros with_model_restores restores_solve)
  then show ?thesis by (simp add: restores_def)
qed

section \<open>The patch is one of the asked commit\<close>

lemma after_Inr: "after m f s = (Inr y, s') \<longleftrightarrow> (\<exists>x s1. m s = (Inr x, s1) \<and> f x s1 = (Inr y, s'))"
  by (auto simp: after_def split: prod.splits sum.splits)

lemma ask_Inr: "ask w x s = (Inr y, s') \<longleftrightarrow> y = sw_answer w (ss_steps s) x \<and> s' = take_step x s"
  by (auto simp: ask_def)

lemma finally_Inr: "finally_do m f s = (Inr x, s') \<longleftrightarrow> (\<exists>s1. m s = (Inr x, s1) \<and> s' = f s1)"
  by (auto simp: finally_do_def split: prod.splits)

lemmas swe_steps = after_Inr finally_Inr ask_Inr done_with_def failed_def lift_swe_def

definition HEAD_COMMAND :: swe_step where "HEAD_COMMAND = In_Env ''cd /testbed && git rev-parse HEAD''"

definition head_is :: "swe_world \<Rightarrow> string \<Rightarrow> swe_step list \<Rightarrow> bool" where
  "head_is w commit pre \<longleftrightarrow> fst (sw_answer w pre HEAD_COMMAND) = 0
     \<and> extract_commit_hash (snd (sw_answer w pre HEAD_COMMAND)) = lower (strip commit)"

lemma docker_head_steps:
  "docker_head_or_raise w s = (Inr h, s') \<Longrightarrow> s' = take_step HEAD_COMMAND s \<and> fst (sw_answer w (ss_steps s) HEAD_COMMAND) = 0
    \<and> h = extract_commit_hash (snd (sw_answer w (ss_steps s) HEAD_COMMAND))"
  by (auto simp: docker_head_or_raise_def swe_steps HEAD_COMMAND_def split: if_splits prod.splits)

lemma ensure_ends_at_commit:
  assumes "ensure_docker_repo_commit w commit s = (Inr u, s')"
  shows "\<exists>pre. ss_steps s' = pre @ [HEAD_COMMAND] \<and> head_is w commit pre \<and> ss_key s' = ss_key s"
proof -
  from assms obtain h s1 h2 s2 where
    first: "docker_head_or_raise w s = (Inr h, s1)" and
    second: "(if h = lower (strip commit) then done_with h
       else after (ask w (In_Env (''cd /testbed && git checkout -f '' @ commit))) (\<lambda>(rc, _).
         if rc \<noteq> 0 then failed (PyRuntimeError ''docker checkout failed'') else docker_head_or_raise w)) s1 = (Inr h2, s2)" and
    third: "h2 = lower (strip commit)" "s' = s2"
    by (auto simp: ensure_docker_repo_commit_def Let_def swe_steps split: if_splits)
  from docker_head_steps[OF first] have s1: "s1 = take_step HEAD_COMMAND s" "fst (sw_answer w (ss_steps s) HEAD_COMMAND) = 0"
    "h = extract_commit_hash (snd (sw_answer w (ss_steps s) HEAD_COMMAND))" by simp_all
  show ?thesis
  proof (cases "h = lower (strip commit)")
    case True
    with second s1 third show ?thesis by (auto simp: done_with_def head_is_def take_step_def)
  next
    case False
    then obtain s3 where "s3 = take_step (In_Env (''cd /testbed && git checkout -f '' @ commit)) s1"
      "docker_head_or_raise w s3 = (Inr h2, s2)"
      using second by (auto simp: swe_steps split: prod.splits if_splits)
    with docker_head_steps third s1 show ?thesis by (fastforce simp: head_is_def take_step_def)
  qed
qed

text \<open>C37. A run in a container that returns has, right before the agent, asked the container for its commit and got the one
  that was asked for; the agent ran with the key of the file, and the patch is what the container's difference to that
  commit says right after it, cleaned of what is no patch.  Then the container is cleaned up.\<close>

theorem docker_patch_is_of_the_commit:
  assumes "run_agent w cfg dir model task k commit s = (Inr (status, a, patch), s')" "sb_docker cfg"
  shows "\<exists>pre key mid. load_openrouter_key w = Inr key \<and> mid = pre @ [HEAD_COMMAND, Agent task (Some key)] \<and>
    head_is w commit pre \<and> a = sw_agent w mid \<and>
    ss_steps s' = mid @ [In_Env (''cd /testbed && git diff --binary --no-ext-diff '' @ commit), Cleanup_Env] \<and>
    (\<exists>out. sw_answer w mid (In_Env (''cd /testbed && git diff --binary --no-ext-diff '' @ commit)) = (0, out)
       \<and> patch = clean_patch_output out)"
proof -
  from assms obtain s1 s2 where
    inner: "in_env w cfg dir task commit s1 = (Inr (a, patch), s2)" and s': "s' = cleanup_env w cfg s2"
    by (auto simp: run_agent_def swe_steps split: if_splits prod.splits)
  from inner assms(2) obtain s3 s4 where
    ens: "ensure_docker_repo_commit w commit s1 = (Inr (), s3)" and
    ag: "run_with_key w task s3 = (Inr a, s4)" and
    pat: "collect_patch w cfg dir commit s4 = (Inr patch, s2)"
    by (auto simp: in_env_def swe_steps)
  from ensure_ends_at_commit[OF ens] obtain pre where pre: "ss_steps s3 = pre @ [HEAD_COMMAND]" "head_is w commit pre" by blast
  from ag obtain key where key: "load_openrouter_key w = Inr key" "ss_steps s4 = ss_steps s3 @ [Agent task (Some key)]"
    "a = sw_agent w (ss_steps s3 @ [Agent task (Some key)])"
    by (auto simp: run_with_key_def swe_steps set_key_def agent_step_def take_step_def Let_def)
  have "ss_steps s2 = ss_steps s4 @ [In_Env (''cd /testbed && git diff --binary --no-ext-diff '' @ commit)]"
    "\<exists>out. sw_answer w (ss_steps s4) (In_Env (''cd /testbed && git diff --binary --no-ext-diff '' @ commit)) = (0, out)
       \<and> patch = clean_patch_output out"
    using pat assms(2) by (auto simp: collect_patch_def swe_steps take_step_def split: prod.splits if_splits)
  with pre key s' assms(2) show ?thesis by (simp add: cleanup_env_def take_step_def)
qed

definition sample_commit :: string where "sample_commit = replicate 40 (CHR ''a'')"

definition sample_swe_world :: swe_world where
  "sample_swe_world = \<lparr>sw_answer = (\<lambda>_ x. if x = HEAD_COMMAND then (0, sample_commit) else (0, ''diff --git a/f b/f'')),
     sw_exists = (\<lambda>_ _. False), sw_temp = (\<lambda>_. ''/tmp/swecb''),
     sw_agent = (\<lambda>_. \<lparr>ag_raised = None, ag_payload = PDict [(''exit_status'', PStr ''Submitted'')], ag_messages = [],
        ag_calls = 3, ag_cost = 1\<rparr>),
     sw_auth = Some [], sw_seconds = 1, sw_sha = id,
     sw_loads = (\<lambda>_. Some (PDict [(''openrouter'', PDict [(''key'', PStr ''k'')])])), sw_print = (\<lambda>_. []), sw_local_cleanup = False\<rparr>"

definition sample_swe_config :: swe_config where
  "sample_swe_config = \<lparr>sb_work_root = None, sb_step_limit = 40, sb_cost_limit = 1, sb_cache = None, sb_docker = True,
     sb_system = [], sb_transcripts = None, sb_keep = False, sb_instances = []\<rparr>"

definition sample_swe_run :: "(py_exc + string \<times> agent_run \<times> string) \<times> swe_state" where
  "sample_swe_run = run_agent sample_swe_world sample_swe_config ''/work'' ''openrouter/m'' [] ''a__b'' sample_commit
     \<lparr>ss_steps = [], ss_key = None, ss_model = ''openrouter/m''\<rparr>"

lemma sample_swe_run_returns:
  "fst sample_swe_run = Inr (''completed'', sw_agent sample_swe_world [], ''diff --git a/f b/f'' @ [CHR 0x0A])"
  by code_simp

theorem docker_patch_is_of_the_commit_witness:
  "\<exists>pre mid. mid = pre @ [HEAD_COMMAND, Agent [] (Some ''k'')] \<and> head_is sample_swe_world sample_commit pre \<and>
    ss_steps (snd sample_swe_run) = mid @ [In_Env (''cd /testbed && git diff --binary --no-ext-diff '' @ sample_commit), Cleanup_Env]"
proof -
  have "sample_swe_run = (Inr (''completed'', sw_agent sample_swe_world [], ''diff --git a/f b/f'' @ [CHR 0x0A]), snd sample_swe_run)"
    using sample_swe_run_returns by (intro prod_eqI) simp_all
  then have run: "run_agent sample_swe_world sample_swe_config ''/work'' ''openrouter/m'' [] ''a__b'' sample_commit
      \<lparr>ss_steps = [], ss_key = None, ss_model = ''openrouter/m''\<rparr> =
      (Inr (''completed'', sw_agent sample_swe_world [], ''diff --git a/f b/f'' @ [CHR 0x0A]), snd sample_swe_run)"
    by (simp only: sample_swe_run_def)
  have docker: "sb_docker sample_swe_config" by (simp add: sample_swe_config_def)
  have key: "load_openrouter_key sample_swe_world = Inr ''k''" by code_simp
  from docker_patch_is_of_the_commit[OF run docker] key show ?thesis by fastforce
qed

section \<open>The work directory\<close>

lemma finally_steps: "finally_do m f s = (fst (m s), f (snd (m s)))"
  by (simp add: finally_do_def split: prod.split)

text \<open>The directory of an attempt is removed at its end, unless it is to be kept.  It is left behind when the name of
  the repository is not of the form owner and name, which is only found after the directory was made.\<close>

theorem work_dir_is_removed:
  assumes "map_of (sb_instances cfg) k = Some d" "text_item (sw_print w) d ''repo'' = Inr repo"
    "text_item (sw_print w) d ''base_commit'' = Inr commit" "\<not> sb_keep cfg" "sb_work_root cfg = None"
  shows "case repo_short_name repo of
     Inr _ \<Rightarrow> List.last (ss_steps (snd (solve_instance w cfg k ms s))) =
         Remove_Tree (sw_temp w (ss_steps s @ [Make_Temp (temp_prefix k)]))
   | Inl _ \<Rightarrow> ss_steps (snd (solve_instance w cfg k ms s)) = ss_steps s @ [Make_Temp (temp_prefix k)]"
  using assms
  by (auto simp: solve_instance_def after_def lift_swe_def instance_at_def new_work_dir_def done_with_def take_step_def
      finally_steps drop_work_dir_def Let_def split: sum.split)

end
