(* ===== verification/Ladder.thy ===== *)
theory Ladder
  imports Run_Context Memory_Recall
begin

text \<open>
  \<open>scripts/backgammon_ladder.py\<close>: one session of the older driver with retries, a checkpoint of finished units and an
  escalation file.  \<open>loads\<close> decodes JSON, \<open>dumps\<close> encodes it, \<open>rp\<close> prints a value, \<open>shlex\<close> is \<open>shlex.split\<close> (\<open>None\<close>
  when it raises).  A unit is run by a process, which is its exit code and the lines it prints.  Clock readings are
  parameters; log lines are not modelled, nor are the details that a decoder adds to its error.
\<close>

section \<open>Names, flags and files\<close>

definition SESSION_RESULT_PREFIX :: string where "SESSION_RESULT_PREFIX = ''BACKGAMMON_RESULT_JSON ''"

definition alnum :: "char \<Rightarrow> bool" where
  "alnum c \<longleftrightarrow> is_digit c \<or> (97 \<le> char_code (lower_char c) \<and> char_code (lower_char c) \<le> 122)"

text \<open>Runs of other characters become one hyphen, hyphens at the ends are cut.\<close>

fun hyphenate :: "bool \<Rightarrow> string \<Rightarrow> string" where
  "hyphenate h [] = []"
| "hyphenate h (c # s) = (if alnum c then (if h then [CHR ''-'', c] else [c]) @ hyphenate False s else hyphenate True s)"

definition slugify_model :: "string \<Rightarrow> string" where
  "slugify_model model =
     (let slug = lower (hyphenate False (dropWhile (\<lambda>c. \<not> alnum c) model)) in if slug = [] then ''model'' else slug)"

definition split_extra_flags :: "(string \<Rightarrow> string list option) \<Rightarrow> string \<Rightarrow> string list option" where
  "split_extra_flags shlex raw = (if strip raw = [] then Some [] else shlex (strip raw))"

definition load_ladder_json :: "(string \<Rightarrow> pyval option) \<Rightarrow> string option \<Rightarrow> py_exc + pydict option" where
  "load_ladder_json loads f = (case f of
     None \<Rightarrow> Inr None
   | Some t \<Rightarrow> if strip t = [] then Inl (PyRuntimeError ''JSON file exists but is empty'')
       else (case loads t of
         None \<Rightarrow> Inl PyValueError
       | Some (PDict d) \<Rightarrow> Inr (Some d)
       | Some _ \<Rightarrow> Inl (PyRuntimeError ''JSON file must decode to an object'')))"

section \<open>The checkpoint\<close>

text \<open>The units that are objects; the checkpoint keeps these only.\<close>

definition checkpoint_units :: "pydict \<Rightarrow> py_exc + pydict list" where
  "checkpoint_units d = (case dget d ''units'' of
     PNone \<Rightarrow> Inr []
   | PList xs \<Rightarrow> Inr (List.map_filter (\<lambda>v. case v of PDict u \<Rightarrow> Some u | _ \<Rightarrow> None) xs)
   | _ \<Rightarrow> Inl (PyRuntimeError ''ladder checkpoint units must be an array''))"

definition with_units :: "pydict list \<Rightarrow> pydict \<Rightarrow> pydict" where
  "with_units us d = AList.update ''units'' (PList (map PDict us)) d"

definition load_ladder_checkpoint :: "(string \<Rightarrow> pyval option) \<Rightarrow> string option \<Rightarrow> py_exc + pydict" where
  "load_ladder_checkpoint loads f = bind_result (load_ladder_json loads f) (\<lambda>r. case r of
     None \<Rightarrow> Inr [(''units'', PList [])]
   | Some d \<Rightarrow> bind_result (checkpoint_units d) (\<lambda>us. Inr (with_units us d)))"

definition text_entry :: "(pyval \<Rightarrow> string) \<Rightarrow> pydict \<Rightarrow> string \<Rightarrow> string" where
  "text_entry rp d k = py_str rp (or_else (dget d k) (PStr []))"

definition same_unit :: "(pyval \<Rightarrow> string) \<Rightarrow> int \<Rightarrow> string \<Rightarrow> string \<Rightarrow> pydict \<Rightarrow> py_exc + bool" where
  "same_unit rp n model phase e = bind_result (py_int (dget_default e ''run_number'' (PInt (- 1)))) (\<lambda>i.
     Inr (i = n \<and> text_entry rp e ''model'' = model \<and> text_entry rp e ''phase'' = phase))"

fun first_unit :: "(pyval \<Rightarrow> string) \<Rightarrow> int \<Rightarrow> string \<Rightarrow> string \<Rightarrow> pydict list \<Rightarrow> py_exc + pydict option" where
  "first_unit rp n model phase [] = Inr None"
| "first_unit rp n model phase (u # us) = bind_result (same_unit rp n model phase u) (\<lambda>b.
     if b then Inr (Some u) else first_unit rp n model phase us)"

definition find_unit_entry :: "(pyval \<Rightarrow> string) \<Rightarrow> pydict \<Rightarrow> int \<Rightarrow> string \<Rightarrow> string \<Rightarrow> py_exc + pydict option" where
  "find_unit_entry rp d n model phase = bind_result (checkpoint_units d) (first_unit rp n model phase)"

fun put_unit :: "(pyval \<Rightarrow> string) \<Rightarrow> int \<Rightarrow> string \<Rightarrow> string \<Rightarrow> pydict \<Rightarrow> pydict list \<Rightarrow> py_exc + pydict list" where
  "put_unit rp n model phase e [] = Inr [e]"
| "put_unit rp n model phase e (u # us) = bind_result (same_unit rp n model phase u) (\<lambda>b.
     if b then Inr (e # us) else bind_result (put_unit rp n model phase e us) (\<lambda>r. Inr (u # r)))"

definition upsert_unit_entry :: "(pyval \<Rightarrow> string) \<Rightarrow> pydict \<Rightarrow> pydict \<Rightarrow> py_exc + pydict" where
  "upsert_unit_entry rp e d =
     bind_result (py_int (dget_default e ''run_number'' (PInt (- 1)))) (\<lambda>n.
       let model = text_entry rp e ''model''; phase = text_entry rp e ''phase'' in
       if n < 0 \<or> model = [] \<or> phase = [] then Inl (PyRuntimeError ''invalid checkpoint unit entry'')
       else bind_result (checkpoint_units d) (\<lambda>us. bind_result (put_unit rp n model phase e us) (\<lambda>us'. Inr (with_units us' d))))"

section \<open>One unit\<close>

record unit_process =
  up_exit :: int
  up_lines :: "string list"

record unit_detail =
  ud_exit :: int
  ud_status :: string
  ud_error :: string
  ud_payload :: "pydict option"

text \<open>The last line with the prefix decides.\<close>

definition parse_result_payload :: "(string \<Rightarrow> pyval option) \<Rightarrow> string \<Rightarrow> pydict option \<times> string" where
  "parse_result_payload loads stdout =
     (case filter (\<lambda>l. starts_with l SESSION_RESULT_PREFIX) (map strip (rev (splitlines stdout))) of
        [] \<Rightarrow> (None, ''missing result JSON line (BACKGAMMON_RESULT_JSON)'')
      | l # _ \<Rightarrow> (case loads (strip (drop (length SESSION_RESULT_PREFIX) l)) of
          None \<Rightarrow> (None, ''invalid result JSON (BACKGAMMON_RESULT_JSON)'')
        | Some (PDict d) \<Rightarrow> (Some d, [])
        | Some _ \<Rightarrow> (None, ''invalid result JSON (BACKGAMMON_RESULT_JSON): payload must be object'')))"

definition last_lines :: "nat \<Rightarrow> 'a list \<Rightarrow> 'a list" where
  "last_lines n xs = drop (length xs - n) xs"

definition error_parts :: "(pyval \<Rightarrow> string) \<Rightarrow> unit_process \<Rightarrow> pydict option \<Rightarrow> string \<Rightarrow> string \<Rightarrow> bool \<Rightarrow> string list" where
  "error_parts rp p payload parse_error status ok =
     (let tail = strip (concat (last_lines 20 (up_lines p)));
          parts = (if up_exit p \<noteq> 0 then [''exit='' @ string_of_int (up_exit p)] else [])
            @ (if parse_error \<noteq> [] then [parse_error] else [])
            @ (if status \<noteq> [] \<and> status \<noteq> ''ok'' then [''status='' @ status] else [])
            @ (case payload of None \<Rightarrow> []
               | Some d \<Rightarrow> if truthy (dget d ''error'') then [''error='' @ py_str rp (dget d ''error'')] else [])
            @ (if \<not> ok \<and> tail \<noteq> [] then [''output_tail='' @ tail] else []) in
      if \<not> ok \<and> parts = [] then [''unknown failure''] else parts)"

definition run_unit :: "(string \<Rightarrow> pyval option) \<Rightarrow> (pyval \<Rightarrow> string) \<Rightarrow> unit_process \<Rightarrow> bool \<Rightarrow> bool \<times> unit_detail" where
  "run_unit loads rp p dry_run =
     (if dry_run
      then (True, \<lparr>ud_exit = 0, ud_status = ''ok'', ud_error = [], ud_payload = Some [(''status'', PStr ''ok'')]\<rparr>)
      else
       (let (payload, parse_error) = parse_result_payload loads (concat (up_lines p));
            status = (case payload of None \<Rightarrow> [] | Some d \<Rightarrow> strip (text_entry rp d ''status''));
            ok = (up_exit p = 0 \<and> status = ''ok'') in
        (ok, \<lparr>ud_exit = up_exit p, ud_status = status,
              ud_error = join ''; '' (error_parts rp p payload parse_error status ok), ud_payload = payload\<rparr>)))"

section \<open>The ladder\<close>

record ladder_args =
  la_model :: string
  la_run_number :: int
  la_run_label :: "string option"
  la_memory_modes :: string
  la_max_retries :: int
  la_mock :: string
  la_session_id :: string
  la_dry_run :: bool
  la_resume :: bool
  la_runs_dir :: string
  la_extra_flags :: string

definition ladder_args_ok :: "(string \<Rightarrow> string list option) \<Rightarrow> ladder_args \<Rightarrow> bool" where
  "ladder_args_ok shlex a \<longleftrightarrow> 0 \<le> la_run_number a \<and> 1 \<le> la_max_retries a \<and> split_extra_flags shlex (la_extra_flags a) \<noteq> None"

definition ladder_label :: "ladder_args \<Rightarrow> string" where
  "ladder_label a = (case la_run_label a of
     None \<Rightarrow> ''run'' @ string_of_int (la_run_number a) @ ''-'' @ slugify_model (la_model a)
   | Some l \<Rightarrow> if l = [] then ''run'' @ string_of_int (la_run_number a) @ ''-'' @ slugify_model (la_model a) else strip l)"

definition build_session_cmd :: "(string \<Rightarrow> string list option) \<Rightarrow> string \<Rightarrow> string \<Rightarrow> ladder_args \<Rightarrow> string list" where
  "build_session_cmd shlex python_exe scripts_dir a =
     [python_exe, scripts_dir @ ''/run_backgammon.py'', ''--model'', la_model a, ''--memory-modes'', la_memory_modes a,
      ''--run-label'', ladder_label a, ''--mock'', la_mock a, ''--runs-dir'', la_runs_dir a, ''--session-id'', la_session_id a]
     @ (if la_resume a then [''--resume''] else []) @ opt_or (split_extra_flags shlex (la_extra_flags a)) []"

definition step_log :: "(nat \<Rightarrow> string) \<Rightarrow> ladder_args \<Rightarrow> nat \<Rightarrow> string" where
  "step_log stamp a k = la_runs_dir a @ ''/'' @ stamp k @ ''-r'' @ string_of_int (la_run_number a) @ ''-''
     @ slugify_model (la_model a) @ ''-session-attempt'' @ string_of_int (int k) @ ''.log''"

text \<open>Attempts from \<open>k\<close> on, \<open>n\<close> of them at most: the first that succeeds, or else the last and its error.\<close>

fun try_from :: "(nat \<Rightarrow> bool \<times> unit_detail) \<Rightarrow> nat \<Rightarrow> nat \<Rightarrow> string \<Rightarrow> (nat \<times> string) + nat" where
  "try_from attempt k 0 err = Inl (k - 1, err)"
| "try_from attempt k (Suc n) err = (case attempt k of (ok, d) \<Rightarrow>
     if ok then Inr k else try_from attempt (Suc k) n (if ud_error d = [] then ''unit failed'' else ud_error d))"

record ladder_world =
  lw_checkpoint :: "string option"
  lw_process :: "nat \<Rightarrow> unit_process"
  lw_stamp :: "nat \<Rightarrow> string"
  lw_now :: string
  lw_trace :: string
  lw_is_file :: "string \<Rightarrow> bool"
  lw_driver_log :: "string option"

record ladder_result =
  lr_exit :: int
  lr_attempts :: nat
  lr_saved :: "pydict option"
  lr_escalation :: "pydict option"
  lr_removed :: "string list"
  lr_payload :: pydict

definition unit_entry :: "ladder_world \<Rightarrow> ladder_args \<Rightarrow> nat \<Rightarrow> pydict" where
  "unit_entry w a k =
     [(''run_number'', PInt (la_run_number a)), (''model'', PStr (la_model a)), (''phase'', PStr ''session''),
      (''status'', PStr ''ok''), (''attempts'', PInt (int k)), (''completed_at'', PStr (lw_now w)),
      (''logfiles'', PList (map (\<lambda>i. PStr (step_log (lw_stamp w) a i)) [1..<Suc k]))]"

definition escalation :: "ladder_world \<Rightarrow> ladder_args \<Rightarrow> nat \<Rightarrow> string \<Rightarrow> pydict" where
  "escalation w a k err =
     [(''status'', PStr ''aborted''), (''run_number'', PInt (la_run_number a)), (''model'', PStr (la_model a)),
      (''phase'', PStr ''session''), (''attempts'', PInt (int k)), (''last_error'', PStr err),
      (''logfiles'', PList (map (\<lambda>i. PStr (step_log (lw_stamp w) a i)) [1..<Suc k])), (''ts'', PStr (lw_now w)),
      (''run_label'', PStr (ladder_label a)), (''trace'', PStr (lw_trace w))]"

definition ladder_payload :: "ladder_world \<Rightarrow> ladder_args \<Rightarrow> int \<Rightarrow> bool \<Rightarrow> pydict" where
  "ladder_payload w a attempts skipped =
     [(''status'', PStr ''ok''), (''run_number'', PInt (la_run_number a)), (''model'', PStr (la_model a)),
      (''run_label'', PStr (ladder_label a)), (''phase'', PStr ''session''),
      (''units'', PList [PDict [(''phase'', PStr ''session''), (''status'', PStr ''ok''), (''attempts'', PInt attempts),
         (''skipped'', PBool skipped)]]),
      (''trace'', PStr (lw_trace w)), (''checkpoint_path'', PStr (la_runs_dir a @ ''/ladder-checkpoint.json'')),
      (''dry_run'', PBool (la_dry_run a))]"

text \<open>After a success that is no dry run the logs of the attempts and the driver's own, when it is in the directory of the
  runs, are removed.\<close>

definition removed_logs :: "ladder_world \<Rightarrow> ladder_args \<Rightarrow> nat \<Rightarrow> string list" where
  "removed_logs w a k =
     (if la_dry_run a then []
      else filter (lw_is_file w) (map (step_log (lw_stamp w) a) [1..<Suc k])
        @ (case lw_driver_log w of Some l \<Rightarrow> if lw_is_file w l then [l] else [] | None \<Rightarrow> []))"

definition ladder_attempts ::
  "(string \<Rightarrow> pyval option) \<Rightarrow> (pyval \<Rightarrow> string) \<Rightarrow> ladder_world \<Rightarrow> ladder_args \<Rightarrow> pydict \<Rightarrow> py_exc + ladder_result" where
  "ladder_attempts loads rp w a cp =
     (case try_from (\<lambda>k. run_unit loads rp (lw_process w k) (la_dry_run a)) 1 (nat (la_max_retries a)) [] of
        Inr k \<Rightarrow> bind_result (upsert_unit_entry rp (unit_entry w a k) cp) (\<lambda>cp'.
          Inr \<lparr>lr_exit = 0, lr_attempts = k, lr_saved = Some cp', lr_escalation = None, lr_removed = removed_logs w a k,
               lr_payload = ladder_payload w a (int k) False\<rparr>)
      | Inl (k, err) \<Rightarrow>
          Inr \<lparr>lr_exit = 3, lr_attempts = k, lr_saved = None, lr_escalation = Some (escalation w a k err), lr_removed = [],
               lr_payload = escalation w a k err\<rparr>)"

text \<open>A prior unit of the checkpoint that ended well is skipped when the run is a resumption.\<close>

definition ladder_main ::
  "(string \<Rightarrow> pyval option) \<Rightarrow> (pyval \<Rightarrow> string) \<Rightarrow> ladder_world \<Rightarrow> ladder_args \<Rightarrow> py_exc + ladder_result" where
  "ladder_main loads rp w a =
     bind_result (load_ladder_checkpoint loads (lw_checkpoint w)) (\<lambda>cp.
     bind_result (find_unit_entry rp cp (la_run_number a) (la_model a) ''session'') (\<lambda>prior.
       case prior of
         Some e \<Rightarrow>
           if la_resume a \<and> text_entry rp e ''status'' = ''ok''
           then bind_result (py_int (or_else (dget e ''attempts'') (PInt 0))) (\<lambda>n.
             Inr \<lparr>lr_exit = 0, lr_attempts = 0, lr_saved = None, lr_escalation = None, lr_removed = removed_logs w a 0,
                  lr_payload = ladder_payload w a n True\<rparr>)
           else ladder_attempts loads rp w a cp
       | None \<Rightarrow> ladder_attempts loads rp w a cp))"

section \<open>The first success ends the ladder\<close>

lemma try_from_spec:
  "case try_from attempt k n err of
     Inr j \<Rightarrow> k \<le> j \<and> j < k + n \<and> fst (attempt j) \<and> (\<forall>i. k \<le> i \<and> i < j \<longrightarrow> \<not> fst (attempt i))
   | Inl (j, _) \<Rightarrow> j = k + n - 1 \<and> (\<forall>i. k \<le> i \<and> i < k + n \<longrightarrow> \<not> fst (attempt i))"
proof (induction n arbitrary: k err)
  case (Suc n)
  obtain ok d where a: "attempt k = (ok, d)" by (cases "attempt k")
  show ?case
  proof (cases ok)
    case True
    with a show ?thesis by auto
  next
    case False
    define e where "e = (if ud_error d = [] then ''unit failed'' else ud_error d)"
    have start: "k \<le> i \<longleftrightarrow> i = k \<or> Suc k \<le> i" for i by auto
    have no: "\<not> fst (attempt k)" using a False by simp
    have "try_from attempt k (Suc n) err = try_from attempt (Suc k) n e" using a False by (simp add: e_def)
    moreover from Suc.IH[of "Suc k" e]
    have "case try_from attempt (Suc k) n e of
       Inr j \<Rightarrow> k \<le> j \<and> j < k + Suc n \<and> fst (attempt j) \<and> (\<forall>i. k \<le> i \<and> i < j \<longrightarrow> \<not> fst (attempt i))
     | Inl (j, _) \<Rightarrow> j = k + Suc n - 1 \<and> (\<forall>i. k \<le> i \<and> i < k + Suc n \<longrightarrow> \<not> fst (attempt i))"
      using no by (cases "try_from attempt (Suc k) n e") (auto simp: start)
    ultimately show ?thesis by simp
  qed
qed auto

text \<open>A run of the ladder that is not skipped tries the unit until it succeeds for the first time and no more often than
  allowed.  It ends well exactly when some attempt does, and then records the unit and nothing else; otherwise every
  attempt was made, an escalation is written and the checkpoint is left alone.\<close>

theorem ladder_stops_at_first_success:
  assumes "ladder_attempts loads rp w a cp = Inr r" "1 \<le> la_max_retries a"
  defines "good \<equiv> \<lambda>k. fst (run_unit loads rp (lw_process w k) (la_dry_run a))"
  shows "(lr_exit r = 0 \<and> 1 \<le> lr_attempts r \<and> int (lr_attempts r) \<le> la_max_retries a \<and> good (lr_attempts r) \<and>
      (\<forall>k. 1 \<le> k \<and> k < lr_attempts r \<longrightarrow> \<not> good k) \<and> lr_escalation r = None \<and>
      map_option Inr (lr_saved r) = Some (upsert_unit_entry rp (unit_entry w a (lr_attempts r)) cp)) \<or>
    (lr_exit r = 3 \<and> int (lr_attempts r) = la_max_retries a \<and> (\<forall>k. 1 \<le> k \<and> int k \<le> la_max_retries a \<longrightarrow> \<not> good k) \<and>
      lr_escalation r \<noteq> None \<and> lr_saved r = None)"
proof -
  let ?t = "try_from (\<lambda>k. run_unit loads rp (lw_process w k) (la_dry_run a)) 1 (nat (la_max_retries a)) []"
  have spec: "case ?t of
     Inr j \<Rightarrow> 1 \<le> j \<and> j < 1 + nat (la_max_retries a) \<and> good j \<and> (\<forall>i. 1 \<le> i \<and> i < j \<longrightarrow> \<not> good i)
   | Inl (j, _) \<Rightarrow> j = 1 + nat (la_max_retries a) - 1 \<and> (\<forall>i. 1 \<le> i \<and> i < 1 + nat (la_max_retries a) \<longrightarrow> \<not> good i)"
    unfolding good_def by (rule try_from_spec)
  show ?thesis
  proof (cases ?t)
    case (Inl p)
    with assms(1) have r: "lr_exit r = 3" "lr_attempts r = fst p" "lr_escalation r \<noteq> None" "lr_saved r = None"
      by (auto simp: ladder_attempts_def split: prod.splits)
    have "fst p = nat (la_max_retries a)" "\<forall>i. 1 \<le> i \<and> i < 1 + nat (la_max_retries a) \<longrightarrow> \<not> good i"
      using spec Inl by (auto split: prod.splits)
    then have "int (fst p) = la_max_retries a" "\<forall>k. 1 \<le> k \<and> int k \<le> la_max_retries a \<longrightarrow> \<not> good k"
      using assms(2) by auto
    with r show ?thesis by simp
  next
    case (Inr j)
    with assms(1) obtain cp' where cp: "upsert_unit_entry rp (unit_entry w a j) cp = Inr cp'" and
      r: "lr_exit r = 0" "lr_attempts r = j" "lr_escalation r = None" "lr_saved r = Some cp'"
      by (cases "upsert_unit_entry rp (unit_entry w a j) cp") (auto simp: ladder_attempts_def)
    have "1 \<le> j" "int j \<le> la_max_retries a" "good j" "\<forall>i. 1 \<le> i \<and> i < j \<longrightarrow> \<not> good i"
      using spec Inr assms(2) by auto
    with cp r show ?thesis by simp
  qed
qed

section \<open>A finished unit is found again\<close>

lemma checkpoint_units_with [simp]: "checkpoint_units (with_units us d) = Inr us"
proof -
  have "List.map_filter (\<lambda>v. case v of PDict u \<Rightarrow> Some u | _ \<Rightarrow> None) (map PDict us) = us"
    by (induction us) (simp_all add: map_filter_simps)
  then show ?thesis by (simp add: checkpoint_units_def with_units_def dget_def update_conv')
qed

lemma put_then_first:
  "put_unit rp n model phase e us = Inr us' \<Longrightarrow> same_unit rp n model phase e = Inr True \<Longrightarrow>
    first_unit rp n model phase us' = Inr (Some e)"
proof (induction us arbitrary: us')
  case (Cons u us)
  then show ?case
    by (cases "same_unit rp n model phase u"; cases "put_unit rp n model phase e us") (auto split: if_splits)
qed auto

lemma unit_entry_same: "same_unit rp (la_run_number a) (la_model a) ''session'' (unit_entry w a k) = Inr True"
  by (simp add: same_unit_def unit_entry_def text_entry_def or_else_def dget_def dget_default_def)

lemma upserted_unit_is_found:
  assumes "upsert_unit_entry rp (unit_entry w a k) cp = Inr cp'"
  shows "find_unit_entry rp cp' (la_run_number a) (la_model a) ''session'' = Inr (Some (unit_entry w a k))"
    and "\<exists>us. cp' = with_units us cp"
proof -
  have entry: "dget_default (unit_entry w a k) ''run_number'' (PInt (- 1)) = PInt (la_run_number a)"
    "text_entry rp (unit_entry w a k) ''model'' = la_model a" "text_entry rp (unit_entry w a k) ''phase'' = ''session''"
    by (simp_all add: unit_entry_def dget_default_def dget_def text_entry_def or_else_def)
  from assms obtain us us' where "put_unit rp (la_run_number a) (la_model a) ''session'' (unit_entry w a k) us = Inr us'"
    "cp' = with_units us' cp"
    by (cases "checkpoint_units cp"; fastforce simp: upsert_unit_entry_def entry Let_def bind_result_def split: if_splits sum.splits)
  with put_then_first[OF _ unit_entry_same] show
    "find_unit_entry rp cp' (la_run_number a) (la_model a) ''session'' = Inr (Some (unit_entry w a k))"
    "\<exists>us. cp' = with_units us cp"
    by (auto simp: find_unit_entry_def)
qed

text \<open>Whatever the ladder recorded, a later run for the same unit that reads it back and resumes does not run it again.  A
  dry run records the unit as well, after an attempt that started nothing: the real run that resumes is skipped.\<close>

theorem recorded_unit_is_skipped:
  assumes "ladder_attempts loads rp w a cp = Inr r" "lr_saved r = Some cp'"
    "loads t = Some (PDict cp')" "strip t \<noteq> []" "la_resume a'" "la_run_number a' = la_run_number a" "la_model a' = la_model a"
    "lw_checkpoint w' = Some t"
  shows "\<exists>r'. ladder_main loads rp w' a' = Inr r' \<and> lr_exit r' = 0 \<and> lr_attempts r' = 0 \<and> lr_saved r' = None"
proof -
  from assms(1,2) obtain k where up: "upsert_unit_entry rp (unit_entry w a k) cp = Inr cp'"
    by (auto simp: ladder_attempts_def bind_result_def split: sum.splits prod.splits)
  obtain us where us: "cp' = with_units us cp" using upserted_unit_is_found(2)[OF up] by blast
  have again: "with_units us cp' = cp'" by (simp add: us with_units_def)
  then have load: "load_ladder_checkpoint loads (lw_checkpoint w') = Inr cp'"
    using assms(3,4,8) us by (simp add: load_ladder_checkpoint_def load_ladder_json_def)
  have found: "find_unit_entry rp cp' (la_run_number a') (la_model a') ''session'' = Inr (Some (unit_entry w a k))"
    using upserted_unit_is_found(1)[OF up] assms(6,7) by simp
  have "text_entry rp (unit_entry w a k) ''status'' = ''ok''"
    "\<exists>n. py_int (or_else (dget (unit_entry w a k) ''attempts'') (PInt 0)) = Inr n"
    by (auto simp: unit_entry_def text_entry_def or_else_def dget_def)
  with load found assms(5) show ?thesis by (auto simp: ladder_main_def)
qed

lemma dry_run_records_the_unit:
  assumes "la_dry_run a" "1 \<le> la_max_retries a" "upsert_unit_entry rp (unit_entry w a 1) cp = Inr cp'"
  shows "\<exists>r. ladder_attempts loads rp w a cp = Inr r \<and> lr_saved r = Some cp' \<and> lr_attempts r = 1"
proof -
  obtain n where "nat (la_max_retries a) = Suc n" using assms(2) by (cases "nat (la_max_retries a)") auto
  with assms show ?thesis by (simp add: ladder_attempts_def run_unit_def)
qed

definition sample_ladder :: ladder_args where
  "sample_ladder = \<lparr>la_model = ''m'', la_run_number = 1, la_run_label = None, la_memory_modes = ''off'', la_max_retries = 5,
     la_mock = ''none'', la_session_id = [], la_dry_run = True, la_resume = False, la_runs_dir = ''/runs'', la_extra_flags = []\<rparr>"

definition sample_ladder_world :: "string option \<Rightarrow> ladder_world" where
  "sample_ladder_world cp = \<lparr>lw_checkpoint = cp, lw_process = (\<lambda>_. \<lparr>up_exit = 0, up_lines = []\<rparr>), lw_stamp = (\<lambda>_. ''t''),
     lw_now = ''now'', lw_trace = ''x'', lw_is_file = (\<lambda>_. False), lw_driver_log = None\<rparr>"

text \<open>A dry run, and the real run after it.\<close>

theorem recorded_unit_is_skipped_witness:
  "\<exists>cp r'. ladder_main (\<lambda>t. Some (PDict cp)) (\<lambda>_. []) (sample_ladder_world (Some ''x''))
      (sample_ladder\<lparr>la_dry_run := False, la_resume := True\<rparr>) = Inr r' \<and> lr_exit r' = 0 \<and> lr_attempts r' = 0"
proof -
  let ?w = "sample_ladder_world None"
  obtain cp' where up: "upsert_unit_entry (\<lambda>_. []) (unit_entry ?w sample_ladder 1) [(''units'', PList [])] = Inr cp'"
    by (simp add: upsert_unit_entry_def unit_entry_def dget_def dget_default_def text_entry_def or_else_def sample_ladder_def
        checkpoint_units_def map_filter_simps Let_def)
  have "la_dry_run sample_ladder" "1 \<le> la_max_retries sample_ladder" by (simp_all add: sample_ladder_def)
  from dry_run_records_the_unit[OF this up, of "\<lambda>t. Some (PDict cp')"] obtain r where
    "ladder_attempts (\<lambda>t. Some (PDict cp')) (\<lambda>_. []) ?w sample_ladder [(''units'', PList [])] = Inr r" "lr_saved r = Some cp'" by blast
  from recorded_unit_is_skipped[OF this, of "''x''" "sample_ladder\<lparr>la_dry_run := False, la_resume := True\<rparr>"
      "sample_ladder_world (Some ''x'')"]
  show ?thesis by (auto simp: sample_ladder_world_def strip_def lstrip_def rstrip_def is_space_def char_code_def)
qed

end
