(* ===== verification/Solo_Run.thy ===== *)
theory Solo_Run
  imports Session_Runner Ablation_Scorecard Ladder Recall_Preflight
begin

text \<open>
  \<open>scripts/run_backgammon.py\<close>: the driver that the ladder starts.  It runs one cell for each memory mode, records each in
  a checkpoint as it ends, can resume from that, and makes a scorecard of all.  The cell's runner is a function from the
  mode to its result or the exception it raises, the meter one to its answer; \<open>loads\<close> decodes JSON and \<open>rp\<close> prints a
  value.  Clock readings and log lines are not modelled.
\<close>

section \<open>Arguments\<close>

record solo_args =
  so_model :: string
  so_memory_modes :: string
  so_run_label :: string
  so_mock :: string
  so_max_attempts :: int
  so_token_cap :: int
  so_cost_limit :: "real option"
  so_cost_target :: "real option"
  so_max_output_tokens :: "int option"
  so_max_steps :: "int option"
  so_output_price :: "real option"
  so_run_timeout :: int
  so_proxy_token :: "string option"
  so_session_id :: "string option"
  so_resume :: bool
  so_runs_dir :: string

fun split_commas :: "string \<Rightarrow> string \<Rightarrow> string list" where
  "split_commas acc [] = [rev acc]"
| "split_commas acc (c # s) = (if c = CHR '','' then rev acc # split_commas [] s else split_commas (c # acc) s)"

fun add_modes :: "string list \<Rightarrow> string list \<Rightarrow> py_exc + string list" where
  "add_modes out [] = Inr out"
| "add_modes out (part # parts) =
     (let mode = lower (strip part) in
      if mode = [] then add_modes out parts
      else if mode \<notin> {''off'', ''on''} then Inl PyValueError
      else add_modes (if mode \<in> set out then out else out @ [mode]) parts)"

definition parse_memory_modes :: "string \<Rightarrow> py_exc + string list" where
  "parse_memory_modes raw = bind_result (add_modes [] (split_commas [] raw)) (\<lambda>out. if out = [] then Inl PyValueError else Inr out)"

definition blank_to_none :: "string option \<Rightarrow> string option" where
  "blank_to_none v = (case v of None \<Rightarrow> None | Some t \<Rightarrow> if strip t = [] then None else Some (strip t))"

definition positive :: "'a::{zero,linorder} option \<Rightarrow> bool" where
  "positive v = (case v of None \<Rightarrow> True | Some x \<Rightarrow> 0 < x)"

definition solo_args_ok :: "solo_args \<Rightarrow> bool" where
  "solo_args_ok a \<longleftrightarrow> positive (so_cost_limit a) \<and> positive (so_cost_target a) \<and> positive (so_max_output_tokens a)
     \<and> positive (so_max_steps a) \<and> positive (so_output_price a)
     \<and> (case (so_cost_limit a, so_cost_target a) of (Some l, Some t) \<Rightarrow> t < l | _ \<Rightarrow> True)"

section \<open>The checkpoint\<close>

definition as_int_or_zero :: "pyval \<Rightarrow> int" where
  "as_int_or_zero v = (if v = PNone then 0 else case py_int v of Inr i \<Rightarrow> i | Inl _ \<Rightarrow> 0)"

definition as_float_or_zero :: "pyval \<Rightarrow> real" where
  "as_float_or_zero v = (if v = PNone then 0 else case py_float v of Inr x \<Rightarrow> x | Inl _ \<Rightarrow> 0)"

definition as_texts :: "(pyval \<Rightarrow> string) \<Rightarrow> pyval \<Rightarrow> string list" where
  "as_texts rp v = (case v of PList xs \<Rightarrow> filter (\<lambda>t. t \<noteq> []) (map (\<lambda>x. strip (py_str rp x)) xs) | _ \<Rightarrow> [])"

definition solo_new_checkpoint :: "string \<Rightarrow> string \<Rightarrow> string \<Rightarrow> pydict" where
  "solo_new_checkpoint now label model =
     [(''run_label'', PStr label), (''model'', PStr model), (''created_at'', PStr now), (''cells'', PList [])]"

definition mode_of_cell :: "(pyval \<Rightarrow> string) \<Rightarrow> pydict \<Rightarrow> string" where
  "mode_of_cell rp d = lower (strip (py_str rp (dget_default d ''memory_mode'' (PStr []))))"

definition cell_has_mode :: "(pyval \<Rightarrow> string) \<Rightarrow> string \<Rightarrow> pyval \<Rightarrow> bool" where
  "cell_has_mode rp mode v \<longleftrightarrow> (case v of PDict d \<Rightarrow> mode_of_cell rp d = mode | _ \<Rightarrow> False)"

text \<open>The last cell of each mode.\<close>

definition checkpoint_cells_by_mode :: "(pyval \<Rightarrow> string) \<Rightarrow> pydict \<Rightarrow> py_exc + (string \<times> pydict) list" where
  "checkpoint_cells_by_mode rp cp = (case dget cp ''cells'' of
     PList xs \<Rightarrow> Inr (fold (\<lambda>v acc. case v of
         PDict d \<Rightarrow> if mode_of_cell rp d = [] then acc else AList.update (mode_of_cell rp d) d acc | _ \<Rightarrow> acc) xs [])
   | _ \<Rightarrow> Inl (PyRuntimeError ''checkpoint.cells must be an array''))"

fun put_cell :: "(pyval \<Rightarrow> string) \<Rightarrow> string \<Rightarrow> pydict \<Rightarrow> pyval list \<Rightarrow> pyval list" where
  "put_cell rp mode c [] = [PDict c]"
| "put_cell rp mode c (v # vs) = (if cell_has_mode rp mode v then PDict c # vs else v # put_cell rp mode c vs)"

definition upsert_checkpoint_cell :: "(pyval \<Rightarrow> string) \<Rightarrow> pydict \<Rightarrow> pydict \<Rightarrow> py_exc + pydict" where
  "upsert_checkpoint_cell rp c cp =
     (let xs = (case dget cp ''cells'' of PList xs \<Rightarrow> xs | _ \<Rightarrow> []) in
      if mode_of_cell rp c = [] then Inl (PyRuntimeError ''checkpoint cell is missing memory_mode'')
      else Inr (AList.update ''cells'' (PList (put_cell rp (mode_of_cell rp c) c xs)) cp))"

text \<open>The checkpoint of a run: a new one, or when resuming the one of the same label and model.\<close>

definition solo_checkpoint ::
  "(string \<Rightarrow> pyval option) \<Rightarrow> (pyval \<Rightarrow> string) \<Rightarrow> string \<Rightarrow> solo_args \<Rightarrow> string option \<Rightarrow> py_exc + pydict" where
  "solo_checkpoint loads rp now a f =
     (let new = solo_new_checkpoint now (so_run_label a) (so_model a) in
      bind_result (if so_resume a then bind_result (load_ladder_json loads f) (\<lambda>r. Inr (case r of
          None \<Rightarrow> new | Some d \<Rightarrow> if d = [] then new else d)) else Inr new) (\<lambda>cp.
      if py_str rp (dget_default cp ''run_label'' (PStr [])) \<noteq> so_run_label a
      then Inl (PyRuntimeError ''checkpoint run_label mismatch'')
      else if py_str rp (dget_default cp ''model'' (PStr [])) \<noteq> so_model a
      then Inl (PyRuntimeError ''checkpoint model mismatch'')
      else Inr (if is_list (dget cp ''cells'') then cp else AList.update ''cells'' (PList []) cp)))"

section \<open>The cells\<close>

text \<open>What the driver takes from a cell beside its result.\<close>

record solo_cell =
  sl_result :: cell_result
  sl_seconds :: real
  sl_delivery :: string
  sl_failed_gates :: pyval
  sl_problems :: nat
  sl_reports :: "pyval list"
  sl_worktree :: string

definition solo_near_timeout :: "real \<Rightarrow> int \<Rightarrow> bool" where
  "solo_near_timeout wall limit \<longleftrightarrow> 98 / 100 * of_int limit \<le> wall"

definition solo_contention :: "py_exc + meter_row option \<Rightarrow> int \<Rightarrow> solo_cell \<Rightarrow> py_exc + covariates" where
  "solo_contention row limit c = contention_covariates row (of_opt PStr (cr_session_id (sl_result c)))
     (cr_zero_tool_resumes (sl_result c)) (Some (sl_seconds c)) (solo_near_timeout (sl_seconds c) limit)"

definition checkpoint_cell :: "(pyval \<Rightarrow> string) \<Rightarrow> string \<Rightarrow> solo_cell \<Rightarrow> covariates \<Rightarrow> pydict" where
  "checkpoint_cell rp mode c v =
     [(''memory_mode'', PStr mode), (''verdict'', PStr (cr_verdict (sl_result c))),
      (''attempts_to_green'', cr_attempts_to_green (sl_result c)), (''input_tokens'', PInt (cr_input_tokens (sl_result c))),
      (''output_tokens'', PInt (cr_output_tokens (sl_result c))), (''turns'', PInt (cr_turns (sl_result c))),
      (''wall_cost_usd'', PFloat (cr_wall_cost_usd (sl_result c))), (''wall_seconds'', PFloat (sl_seconds c)),
      (''conformed'', PBool (cr_conformed (sl_result c))),
      (''failed_gates'', PList (map PStr (as_texts rp (sl_failed_gates c)))),
      (''http_429_count'', PInt (cv_http_429_count v)), (''http_402_count'', PInt (cv_http_402_count v)),
      (''retry_count'', PInt (cv_retry_count v)), (''upstream_error_count'', PInt (cv_upstream_error_count v)),
      (''max_request_ms'', of_opt PInt (cv_max_request_ms v)), (''median_request_ms'', of_opt PInt (cv_median_request_ms v)),
      (''wall_near_timeout'', PBool (cv_wall_near_timeout v)), (''scorecard_path'', PStr [])]"

text \<open>The state of the loop: the checkpoint, the last one written to the disk and the cells executed.\<close>

record solo_state =
  st_checkpoint :: pydict
  st_saved :: "pydict option"
  st_executed :: "(string \<times> solo_cell) list"

record solo_world =
  wo_cell :: "string \<Rightarrow> py_exc + solo_cell"
  wo_meter :: "string \<Rightarrow> py_exc + meter_row option"

definition run_mode :: "(pyval \<Rightarrow> string) \<Rightarrow> solo_world \<Rightarrow> solo_args \<Rightarrow> string \<Rightarrow> pydict \<Rightarrow> py_exc + solo_cell \<times> pydict" where
  "run_mode rp w a mode cp =
     bind_result (wo_cell w mode) (\<lambda>c.
     bind_result (solo_contention (wo_meter w mode) (so_run_timeout a) c) (\<lambda>v.
     bind_result (upsert_checkpoint_cell rp (checkpoint_cell rp mode c v) cp) (\<lambda>cp'. Inr (c, cp'))))"

text \<open>The state after each mode, also when an exception ends the loop.\<close>

fun solo_loop :: "(pyval \<Rightarrow> string) \<Rightarrow> solo_world \<Rightarrow> solo_args \<Rightarrow> string list \<Rightarrow> solo_state \<Rightarrow> solo_state \<times> py_exc option" where
  "solo_loop rp w a [] s = (s, None)"
| "solo_loop rp w a (mode # modes) s =
     (case checkpoint_cells_by_mode rp (st_checkpoint s) of
        Inl e \<Rightarrow> (s, Some e)
      | Inr prior \<Rightarrow>
          if so_resume a \<and> map_of prior mode \<noteq> None then solo_loop rp w a modes s
          else (case run_mode rp w a mode (st_checkpoint s) of
              Inl e \<Rightarrow> (s, Some e)
            | Inr (c, cp) \<Rightarrow> solo_loop rp w a modes
                \<lparr>st_checkpoint = cp, st_saved = Some cp, st_executed = st_executed s @ [(mode, c)]\<rparr>))"

definition solo_cells ::
  "(string \<Rightarrow> pyval option) \<Rightarrow> (pyval \<Rightarrow> string) \<Rightarrow> string \<Rightarrow> solo_world \<Rightarrow> solo_args \<Rightarrow> string list \<Rightarrow> string option \<Rightarrow>
    py_exc + solo_state \<times> py_exc option" where
  "solo_cells loads rp now w a modes f = bind_result (solo_checkpoint loads rp now a f) (\<lambda>cp.
     Inr (solo_loop rp w a modes \<lparr>st_checkpoint = cp, st_saved = None, st_executed = []\<rparr>))"

section \<open>The results\<close>

definition upper_char :: "char \<Rightarrow> char" where
  "upper_char c = (let n = char_code c in if 97 \<le> n \<and> n \<le> 122 then char_of (n - 32) else c)"

definition opt_int_entry :: "pydict \<Rightarrow> string \<Rightarrow> int option" where
  "opt_int_entry d k = (if dget d k = PNone then None else Some (as_int_or_zero (dget d k)))"

definition solo_ablation_cell :: "(pyval \<Rightarrow> string) \<Rightarrow> solo_args \<Rightarrow> string \<Rightarrow> pydict \<Rightarrow> solo_cell option \<Rightarrow> ablation_cell" where
  "solo_ablation_cell rp a mode d run =
     \<lparr>ab_model = so_model a, ab_task_id = ''backgammon'', ab_condition = map upper_char mode,
      ab_resolved = (py_str rp (dget_default d ''verdict'' (PStr ''FAIL'')) = ''PASS''),
      ab_input_tokens = as_int_or_zero (dget d ''input_tokens''), ab_output_tokens = as_int_or_zero (dget d ''output_tokens''),
      ab_turns = as_int_or_zero (dget d ''turns''),
      ab_wall_cost_usd = (case run of Some c \<Rightarrow> cr_wall_cost_usd (sl_result c) | None \<Rightarrow> as_float_or_zero (dget d ''wall_cost_usd'')),
      ab_wall_seconds = as_float_or_zero (dget d ''wall_seconds''),
      ab_delivery = (case run of Some c \<Rightarrow> sl_delivery c | None \<Rightarrow> ''N/A''), ab_scored = True, ab_not_scored_reason = None,
      ab_pattern_position = None, ab_run_block = None, ab_injection_count = None, ab_injected_block_chars = None,
      ab_injected_block_est_tokens = None, ab_memory_mode = None, ab_keyword_match_rate = None, ab_keyword_matched_count = None,
      ab_keyword_served_count = None, ab_vector_only_serve_count = None,
      ab_http_429_count = Some (as_int_or_zero (dget d ''http_429_count'')),
      ab_http_402_count = Some (as_int_or_zero (dget d ''http_402_count'')),
      ab_retry_count = Some (as_int_or_zero (dget d ''retry_count'')),
      ab_upstream_error_count = Some (as_int_or_zero (dget d ''upstream_error_count'')),
      ab_max_request_ms = opt_int_entry d ''max_request_ms'', ab_median_request_ms = opt_int_entry d ''median_request_ms'',
      ab_wall_near_timeout = truthy (dget_default d ''wall_near_timeout'' (PBool False))\<rparr>"

definition solo_result_cell :: "(pyval \<Rightarrow> string) \<Rightarrow> string \<Rightarrow> pydict \<Rightarrow> solo_cell option \<Rightarrow> pyval" where
  "solo_result_cell rp mode d run = PDict
     [(''memory_mode'', PStr mode), (''verdict'', PStr (py_str rp (dget_default d ''verdict'' (PStr ''FAIL'')))),
      (''attempts_to_green'', dget d ''attempts_to_green''),
      (''total_tokens'', PInt (as_int_or_zero (dget d ''input_tokens'') + as_int_or_zero (dget d ''output_tokens''))),
      (''turns'', PInt (as_int_or_zero (dget d ''turns''))), (''wall_seconds'', PFloat (as_float_or_zero (dget d ''wall_seconds''))),
      (''delivery'', PStr (case run of Some c \<Rightarrow> sl_delivery c | None \<Rightarrow> ''N/A'')),
      (''n_failed_gates'', PInt (int (length (as_texts rp (dget d ''failed_gates'')))))]"

definition solo_detail_cell :: "(pyval \<Rightarrow> string) \<Rightarrow> string \<Rightarrow> pydict \<Rightarrow> solo_cell option \<Rightarrow> pyval" where
  "solo_detail_cell rp mode d run = PDict
     [(''memory_mode'', PStr mode), (''attempts_to_green'', dget d ''attempts_to_green''),
      (''conformed'', PBool (truthy (dget_default d ''conformed'' (PBool False)))),
      (''failed_gates'', PList (map PStr (as_texts rp (dget d ''failed_gates'')))),
      (''n_problems'', PInt (case run of Some c \<Rightarrow> int (sl_problems c) | None \<Rightarrow> 0)),
      (''attempt_reports'', PList (case run of Some c \<Rightarrow> sl_reports c | None \<Rightarrow> [])),
      (''worktree'', PStr (case run of Some c \<Rightarrow> sl_worktree c | None \<Rightarrow> [])),
      (''session_id'', case run of Some c \<Rightarrow> of_opt PStr (cr_session_id (sl_result c)) | None \<Rightarrow> PNone)]"

definition stamp_scorecard :: "string \<Rightarrow> pydict \<Rightarrow> pydict" where
  "stamp_scorecard path cp = (case dget cp ''cells'' of
     PList xs \<Rightarrow> AList.update ''cells'' (PList (map (\<lambda>v. case v of
        PDict d \<Rightarrow> PDict (AList.update ''scorecard_path'' (PStr path) d) | _ \<Rightarrow> v) xs)) cp
   | _ \<Rightarrow> cp)"

record solo_output =
  sr_exit :: int
  sr_saved :: "pydict option"
  sr_cells :: "ablation_cell list"
  sr_detail :: "pyval list"
  sr_payload :: pydict

definition solo_results ::
  "(pyval \<Rightarrow> string) \<Rightarrow> string \<Rightarrow> string \<Rightarrow> string \<Rightarrow> solo_args \<Rightarrow> string list \<Rightarrow> solo_state \<Rightarrow> py_exc + solo_output" where
  "solo_results rp scorecard_path detail_path logfile a modes s =
     bind_result (checkpoint_cells_by_mode rp (st_checkpoint s)) (\<lambda>by.
       if \<not> list_all (\<lambda>m. map_of by m \<noteq> None) modes then Inl (PyRuntimeError ''missing checkpoint cells for requested modes'')
       else (let cell_of = (\<lambda>m. opt_or (map_of by m) []); run_of = map_of (st_executed s) in
         Inr \<lparr>sr_exit = 0, sr_saved = Some (stamp_scorecard scorecard_path (st_checkpoint s)),
              sr_cells = map (\<lambda>m. solo_ablation_cell rp a m (cell_of m) (run_of m)) modes,
              sr_detail = map (\<lambda>m. solo_detail_cell rp m (cell_of m) (run_of m)) modes,
              sr_payload = [(''status'', PStr ''ok''), (''run_label'', PStr (so_run_label a)),
                (''cells'', PList (map (\<lambda>m. solo_result_cell rp m (cell_of m) (run_of m)) modes)),
                (''scorecard_path'', PStr scorecard_path), (''detail_path'', PStr detail_path), (''logfile'', PStr logfile)]\<rparr>))"

text \<open>The whole run; \<open>tiers\<close> is the outcome of the preflight of the hub and the recall client.\<close>

definition solo_main ::
  "(string \<Rightarrow> pyval option) \<Rightarrow> (pyval \<Rightarrow> string) \<Rightarrow> string \<Rightarrow> string \<Rightarrow> string \<Rightarrow> string \<Rightarrow> solo_world \<Rightarrow>
    tier_failure + unit \<Rightarrow> string option \<Rightarrow> solo_args \<Rightarrow> py_exc + solo_output" where
  "solo_main loads rp now scorecard_path detail_path logfile w tiers f a =
     bind_result (parse_memory_modes (so_memory_modes a)) (\<lambda>modes.
       if \<not> solo_args_ok a then Inl PyValueError
       else case tiers of
         Inl _ \<Rightarrow> Inr \<lparr>sr_exit = 2, sr_saved = None, sr_cells = [], sr_detail = [],
                      sr_payload = [(''status'', PStr ''preflight_failed'')]\<rparr>
       | Inr _ \<Rightarrow> bind_result (solo_cells loads rp now w a modes f) (\<lambda>(s, err). case err of
           Some e \<Rightarrow> Inl e | None \<Rightarrow> solo_results rp scorecard_path detail_path logfile a modes s))"

section \<open>No mode is run twice and none is left out\<close>

lemma add_modes_spec:
  "add_modes out parts = Inr ms \<Longrightarrow> distinct out \<Longrightarrow> set out \<subseteq> {''off'', ''on''} \<Longrightarrow> distinct ms \<and> set ms \<subseteq> {''off'', ''on''}"
proof (induction out parts rule: add_modes.induct)
  case (2 out part parts)
  then show ?case by (auto simp: Let_def split: if_splits)
qed auto

lemma parsed_modes:
  assumes "parse_memory_modes raw = Inr ms"
  shows "distinct ms" "set ms \<subseteq> {''off'', ''on''}" "ms \<noteq> []"
  using assms add_modes_spec[of "[]" "split_commas [] raw" ms]
  by (cases "add_modes [] (split_commas [] raw)"; auto simp: parse_memory_modes_def split: if_splits)+

definition modes_in :: "(pyval \<Rightarrow> string) \<Rightarrow> pydict \<Rightarrow> string set" where
  "modes_in rp cp = (case dget cp ''cells'' of
     PList xs \<Rightarrow> {m. m \<noteq> [] \<and> (\<exists>d. PDict d \<in> set xs \<and> mode_of_cell rp d = m)} | _ \<Rightarrow> {})"

lemma by_mode_dom:
  assumes "dget cp ''cells'' = PList xs"
  shows "\<exists>by. checkpoint_cells_by_mode rp cp = Inr by \<and> dom (map_of by) = modes_in rp cp"
proof -
  let ?f = "\<lambda>v acc. case v of PDict d \<Rightarrow> if mode_of_cell rp d = [] then acc else AList.update (mode_of_cell rp d) d acc | _ \<Rightarrow> acc"
  have "dom (map_of (fold ?f xs acc)) =
      dom (map_of acc) \<union> {m. m \<noteq> [] \<and> (\<exists>d. PDict d \<in> set xs \<and> mode_of_cell rp d = m)}" for acc
    by (induction xs arbitrary: acc) (auto simp: update_conv' split: pyval.splits)
  from this[of "[]"] assms show ?thesis by (simp add: checkpoint_cells_by_mode_def modes_in_def)
qed

lemma put_cell_modes:
  "mode \<noteq> [] \<Longrightarrow> mode_of_cell rp c = mode \<Longrightarrow>
    {m. m \<noteq> [] \<and> (\<exists>d. PDict d \<in> set (put_cell rp mode c xs) \<and> mode_of_cell rp d = m)} =
    insert mode {m. m \<noteq> [] \<and> (\<exists>d. PDict d \<in> set xs \<and> mode_of_cell rp d = m)}"
  by (induction xs) (auto simp: cell_has_mode_def split: pyval.splits)

lemma checkpoint_cell_mode: "mode \<in> {''off'', ''on''} \<Longrightarrow> mode_of_cell rp (checkpoint_cell rp mode c v) = mode"
  by (auto simp: mode_of_cell_def checkpoint_cell_def dget_default_def strip_def lstrip_def rstrip_def is_space_def
      char_code_def lower_def lower_char_def)

lemma run_mode_modes:
  assumes "run_mode rp w a mode cp = Inr (c, cp')" "mode \<in> {''off'', ''on''}" "dget cp ''cells'' = PList xs"
  shows "modes_in rp cp' = insert mode (modes_in rp cp)" "\<exists>xs'. dget cp' ''cells'' = PList xs'"
proof -
  from assms obtain v where "cp' = AList.update ''cells'' (PList (put_cell rp mode (checkpoint_cell rp mode c v) xs)) cp"
    using checkpoint_cell_mode[OF assms(2)]
    by (auto simp: run_mode_def bind_result_def upsert_checkpoint_cell_def Let_def split: sum.splits if_splits)
  moreover have "mode \<noteq> []" using assms(2) by auto
  ultimately show "modes_in rp cp' = insert mode (modes_in rp cp)" "\<exists>xs'. dget cp' ''cells'' = PList xs'"
    using put_cell_modes checkpoint_cell_mode[OF assms(2)] assms(3)
    by (simp_all add: modes_in_def dget_def update_conv')
qed

definition todo :: "(pyval \<Rightarrow> string) \<Rightarrow> solo_args \<Rightarrow> string list \<Rightarrow> pydict \<Rightarrow> string list" where
  "todo rp a modes cp = filter (\<lambda>m. \<not> (so_resume a \<and> m \<in> modes_in rp cp)) modes"

definition label_and_model :: "pydict \<Rightarrow> pyval \<times> pyval" where
  "label_and_model cp = (dget_default cp ''run_label'' (PStr []), dget_default cp ''model'' (PStr []))"

text \<open>What a loop that started in one state and ended in another has done: cells, in order, from the front of the list.\<close>

definition went_on :: "(pyval \<Rightarrow> string) \<Rightarrow> string list \<Rightarrow> solo_state \<Rightarrow> solo_state \<times> py_exc option \<Rightarrow> bool" where
  "went_on rp modes s r \<longleftrightarrow> (\<exists>ex rest. modes = map fst ex @ rest \<and> (snd r = None \<longrightarrow> rest = []) \<and>
     st_executed (fst r) = st_executed s @ ex \<and>
     modes_in rp (st_checkpoint (fst r)) = modes_in rp (st_checkpoint s) \<union> set (map fst ex) \<and>
     is_list (dget (st_checkpoint (fst r)) ''cells'') \<and>
     label_and_model (st_checkpoint (fst r)) = label_and_model (st_checkpoint s) \<and>
     (if ex = [] then st_checkpoint (fst r) = st_checkpoint s \<and> st_saved (fst r) = st_saved s
      else st_saved (fst r) = Some (st_checkpoint (fst r))))"

lemma went_on_Cons:
  assumes "went_on rp ms s1 r" "st_executed s1 = st_executed s @ [(m, c)]"
    "modes_in rp (st_checkpoint s1) = insert m (modes_in rp (st_checkpoint s))"
    "label_and_model (st_checkpoint s1) = label_and_model (st_checkpoint s)" "st_saved s1 = Some (st_checkpoint s1)"
  shows "went_on rp (m # ms) s r"
proof -
  from assms(1) obtain ex rest where r: "ms = map fst ex @ rest" "snd r = None \<longrightarrow> rest = []"
    "st_executed (fst r) = st_executed s1 @ ex"
    "modes_in rp (st_checkpoint (fst r)) = modes_in rp (st_checkpoint s1) \<union> set (map fst ex)"
    "is_list (dget (st_checkpoint (fst r)) ''cells'')"
    "label_and_model (st_checkpoint (fst r)) = label_and_model (st_checkpoint s1)"
    "if ex = [] then st_checkpoint (fst r) = st_checkpoint s1 \<and> st_saved (fst r) = st_saved s1
      else st_saved (fst r) = Some (st_checkpoint (fst r))"
    unfolding went_on_def by (elim exE conjE) (rule that)
  have saved: "st_saved (fst r) = Some (st_checkpoint (fst r))" using r(7) assms(5) by (cases "ex = []") simp_all
  show ?thesis
    unfolding went_on_def
  proof (intro exI[of _ "(m, c) # ex"] exI[of _ rest] conjI)
    show "st_executed (fst r) = st_executed s @ (m, c) # ex" by (simp only: r(3) assms(2) append_assoc append_Cons append_Nil)
    show "modes_in rp (st_checkpoint (fst r)) = modes_in rp (st_checkpoint s) \<union> set (map fst ((m, c) # ex))"
      by (simp only: r(4) assms(3)) auto
    show "label_and_model (st_checkpoint (fst r)) = label_and_model (st_checkpoint s)" by (simp only: r(6) assms(4))
  qed (use r(1,2,5) saved in simp_all)
qed

lemma is_list_cells: "is_list v \<longleftrightarrow> (\<exists>xs. v = PList xs)"
  by (cases v) simp_all

lemma run_mode_label: "run_mode rp w a mode cp = Inr (c, cp') \<Longrightarrow> label_and_model cp' = label_and_model cp"
  by (auto simp: run_mode_def bind_result_def upsert_checkpoint_cell_def Let_def label_and_model_def dget_default_def
      update_conv' split: sum.splits if_splits)

lemma solo_loop_went_on:
  "set modes \<subseteq> {''off'', ''on''} \<Longrightarrow> distinct modes \<Longrightarrow> is_list (dget (st_checkpoint s) ''cells'') \<Longrightarrow>
    went_on rp (todo rp a modes (st_checkpoint s)) s (solo_loop rp w a modes s)"
proof (induction modes arbitrary: s)
  case Nil
  then show ?case by (simp add: went_on_def todo_def)
next
  case (Cons mode modes)
  from Cons.prems(3) obtain xs where xs: "dget (st_checkpoint s) ''cells'' = PList xs" by (auto simp: is_list_cells)
  obtain by' where b: "checkpoint_cells_by_mode rp (st_checkpoint s) = Inr by'" "dom (map_of by') = modes_in rp (st_checkpoint s)"
    using by_mode_dom[OF xs] by blast
  then have known: "map_of by' mode \<noteq> None \<longleftrightarrow> mode \<in> modes_in rp (st_checkpoint s)" by (auto simp: domIff)
  show ?case
  proof (cases "so_resume a \<and> mode \<in> modes_in rp (st_checkpoint s)")
    case True
    then have "solo_loop rp w a (mode # modes) s = solo_loop rp w a modes s" using b known by simp
    moreover have "todo rp a (mode # modes) (st_checkpoint s) = todo rp a modes (st_checkpoint s)"
      using True by (simp add: todo_def)
    ultimately show ?thesis using Cons by simp
  next
    case False
    then have todo: "todo rp a (mode # modes) (st_checkpoint s) = mode # todo rp a modes (st_checkpoint s)"
      by (auto simp: todo_def)
    have skip: "\<not> (so_resume a \<and> map_of by' mode \<noteq> None)" using False known by simp
    show ?thesis
    proof (cases "run_mode rp w a mode (st_checkpoint s)")
      case (Inl e)
      then have "solo_loop rp w a (mode # modes) s = (s, Some e)" by (simp only: solo_loop.simps b(1) skip Inl sum.case if_False)
      then show ?thesis using Cons.prems(3) by (auto simp: went_on_def)
    next
      case (Inr p)
      obtain c cp where p: "run_mode rp w a mode (st_checkpoint s) = Inr (c, cp)" using Inr by (cases p) simp
      define s1 where "s1 = \<lparr>st_checkpoint = cp, st_saved = Some cp, st_executed = st_executed s @ [(mode, c)]\<rparr>"
      have loop: "solo_loop rp w a (mode # modes) s = solo_loop rp w a modes s1"
        by (simp only: solo_loop.simps b(1) skip p sum.case prod.case if_False s1_def)
      have m: "mode \<in> {''off'', ''on''}" using Cons.prems(1) by simp
      have new: "modes_in rp cp = insert mode (modes_in rp (st_checkpoint s))" "is_list (dget cp ''cells'')"
        using run_mode_modes[OF p m xs] by (auto simp: is_list_cells)
      have "went_on rp (todo rp a modes cp) s1 (solo_loop rp w a modes s1)"
        using Cons.IH[of s1] Cons.prems new by (simp add: s1_def)
      moreover have "todo rp a modes cp = todo rp a modes (st_checkpoint s)"
        unfolding todo_def by (rule filter_cong) (use new Cons.prems(2) in auto)
      ultimately show ?thesis
        unfolding loop todo using new(1) run_mode_label[OF p] by (intro went_on_Cons[of rp _ s1]) (simp_all add: s1_def)
    qed
  qed
qed

lemma solo_checkpoint_fresh:
  assumes "\<not> so_resume a" "solo_checkpoint loads rp now a f = Inr cp"
  shows "is_list (dget cp ''cells'')" "modes_in rp cp = {}"
    "py_str rp (dget_default cp ''run_label'' (PStr [])) = so_run_label a"
    "py_str rp (dget_default cp ''model'' (PStr [])) = so_model a"
  using assms
  by (auto simp: solo_checkpoint_def solo_new_checkpoint_def Let_def dget_def dget_default_def modes_in_def split: if_splits)

lemma solo_checkpoint_resume:
  assumes "so_resume a" "loads t = Some (PDict cp)" "strip t \<noteq> []" "is_list (dget cp ''cells'')"
    "py_str rp (dget_default cp ''run_label'' (PStr [])) = so_run_label a"
    "py_str rp (dget_default cp ''model'' (PStr [])) = so_model a"
  shows "solo_checkpoint loads rp now a (Some t) = Inr cp"
proof -
  have "cp \<noteq> []" using assms(4) by (auto simp: dget_def)
  with assms show ?thesis by (simp add: solo_checkpoint_def load_ladder_json_def Let_def)
qed


definition sample_solo :: solo_args where
  "sample_solo = \<lparr>so_model = ''m'', so_memory_modes = ''off,on'', so_run_label = ''r'', so_mock = ''none'', so_max_attempts = 3,
     so_token_cap = 1, so_cost_limit = None, so_cost_target = None, so_max_output_tokens = None, so_max_steps = None,
     so_output_price = None, so_run_timeout = 10, so_proxy_token = None, so_session_id = None, so_resume = False,
     so_runs_dir = ''/runs''\<rparr>"

lemma run_mode_returns:
  assumes "wo_cell w mode = Inr c" "wo_meter w mode = Inr None" "mode \<in> {''off'', ''on''}"
  shows "\<exists>cp'. run_mode rp w a mode cp = Inr (c, cp')"
  using assms(1,2) checkpoint_cell_mode[OF assms(3), of rp c] assms(3)
  by (auto simp: run_mode_def solo_contention_def contention_covariates_def upsert_checkpoint_cell_def Let_def)


text \<open>A cell whose meter cannot be read is lost with everything it cost: the exception comes before the checkpoint.\<close>

lemma meter_failure_loses_the_cell:
  assumes "wo_cell w mode = Inr c" "wo_meter w mode = Inl e" "cr_session_id (sl_result c) = Some (x # xs)"
    "is_list (dget (st_checkpoint s) ''cells'')" "mode \<notin> modes_in rp (st_checkpoint s)"
  shows "solo_loop rp w a (mode # modes) s = (s, Some e)"
proof -
  obtain xs' where "dget (st_checkpoint s) ''cells'' = PList xs'" using assms(4) by (auto simp: is_list_cells)
  from by_mode_dom[OF this, of rp] obtain by' where
    b: "checkpoint_cells_by_mode rp (st_checkpoint s) = Inr by'" "dom (map_of by') = modes_in rp (st_checkpoint s)" by blast
  then have "map_of by' mode = None" using assms(5) by (metis domIff)
  with b assms(1,2,3) show ?thesis by (simp add: run_mode_def solo_contention_def contention_covariates_def)
qed

end
