(* ===== verification/Serve_Requests.thy ===== *)
theory Serve_Requests
  imports Serve_Client
begin

text \<open>
  The writing side of \<open>wevibe_bench/serve_client.py\<close>: sessions are created, prompted, aborted and summarised by one
  request each.  A request is its method, its address and its body; the serve answers with a status, or a decoded body
  for the creation, and \<open>None\<close> is any failure of the transport.  Texts are the bytes of their UTF-8 encoding.
\<close>

section \<open>Addresses\<close>

definition unreserved :: "char \<Rightarrow> bool" where
  "unreserved c \<longleftrightarrow> is_digit c \<or> lower_char c \<in> set ''abcdefghijklmnopqrstuvwxyz'' \<or> c \<in> set ''_.-~''"

definition hex_of :: "nat \<Rightarrow> char" where
  "hex_of n = ''0123456789ABCDEF'' ! n"

text \<open>\<open>urllib.parse.quote(s, safe='')\<close>\<close>

definition quote_char :: "char \<Rightarrow> string" where
  "quote_char c = (if unreserved c then [c] else [CHR ''%'', hex_of (char_code c div 16), hex_of (char_code c mod 16)])"

definition quote :: "string \<Rightarrow> string" where
  "quote s = concat (map quote_char s)"

definition base_url_of :: "string \<Rightarrow> string" where
  "base_url_of u = rev (dropWhile (\<lambda>c. c = CHR ''/'') (rev u))"

definition session_url :: "string \<Rightarrow> string \<Rightarrow> string \<Rightarrow> string" where
  "session_url base session_id action = base_url_of base @ ''/session/'' @ quote session_id @ action"

section \<open>Requests\<close>

record serve_request =
  sq_method :: string
  sq_url :: string
  sq_body :: "pydict option"

definition build_prompt_body :: "string \<Rightarrow> pydict" where
  "build_prompt_body prompt = [(''parts'', PList [PDict [(''type'', PStr ''text''), (''text'', PStr prompt)]])]"

definition post :: "string \<Rightarrow> pydict option \<Rightarrow> serve_request" where
  "post url body = \<lparr>sq_method = ''POST'', sq_url = url, sq_body = body\<rparr>"

definition create_request :: "string \<Rightarrow> string option \<Rightarrow> serve_request" where
  "create_request base title = post (base_url_of base @ ''/session'')
     (Some (case title of None \<Rightarrow> [] | Some t \<Rightarrow> [(''title'', PStr t)]))"

text \<open>The created session is whatever the answer calls its \<open>id\<close>.\<close>

definition create_session :: "(serve_request \<Rightarrow> http_outcome) \<Rightarrow> string \<Rightarrow> string option \<Rightarrow> serve_error + pyval" where
  "create_session http base title = (case http (create_request base title) of
     Answer (PDict d) \<Rightarrow> if truthy (dget d ''id'') then Inr (dget d ''id'') else Inl ServeClientError
   | Undecodable \<Rightarrow> Inl (Other_Error PyValueError)
   | _ \<Rightarrow> Inl ServeClientError)"

definition expect_status :: "(int \<Rightarrow> bool) \<Rightarrow> int option \<Rightarrow> serve_error + unit" where
  "expect_status good st = (case st of None \<Rightarrow> Inl ServeClientError | Some n \<Rightarrow> if good n then Inr () else Inl ServeClientError)"

definition is_2xx :: "int \<Rightarrow> bool" where "is_2xx n \<longleftrightarrow> 200 \<le> n \<and> n < 300"

definition send_prompt :: "(serve_request \<Rightarrow> int option) \<Rightarrow> string \<Rightarrow> string \<Rightarrow> string \<Rightarrow> serve_error + unit" where
  "send_prompt http base session_id prompt =
     expect_status (\<lambda>n. n = 204) (http (post (session_url base session_id ''/prompt_async'') (Some (build_prompt_body prompt))))"

definition abort_session :: "(serve_request \<Rightarrow> int option) \<Rightarrow> string \<Rightarrow> string \<Rightarrow> serve_error + unit" where
  "abort_session http base session_id = expect_status is_2xx (http (post (session_url base session_id ''/abort'') None))"

definition summarize_session ::
  "(serve_request \<Rightarrow> int option) \<Rightarrow> string \<Rightarrow> string \<Rightarrow> string \<Rightarrow> string \<Rightarrow> bool \<Rightarrow> serve_error + unit" where
  "summarize_session http base session_id provider_id model_id auto' =
     expect_status is_2xx (http (post (session_url base session_id ''/summarize'')
       (Some [(''providerID'', PStr provider_id), (''modelID'', PStr model_id), (''auto'', PBool auto')])))"

definition founder_attach_command :: "int \<Rightarrow> string option \<Rightarrow> string" where
  "founder_attach_command port session_id = ''opencode attach http://127.0.0.1:'' @ string_of_int port
     @ (case session_id of None \<Rightarrow> [] | Some s \<Rightarrow> if s = [] then [] else '' --session '' @ s)"

section \<open>A session's requests stay with the session\<close>

definition code_of_hex :: "char \<Rightarrow> nat" where
  "code_of_hex c = (if is_digit c then char_code c - 48 else char_code c - 55)"

text \<open>The inverse of the encoding, as the server applies it.\<close>

fun unquote :: "string \<Rightarrow> string" where
  "unquote (c # a # b # s) = (if c = CHR ''%'' then char_of (16 * code_of_hex a + code_of_hex b) # unquote s else c # unquote (a # b # s))"
| "unquote s = s"

lemma unquote_plain: "c \<noteq> CHR ''%'' \<Longrightarrow> unquote (c # s) = c # unquote s"
  by (cases s rule: unquote.cases) auto

lemma hex_table: "\<forall>n \<in> set [0..<16]. code_of_hex (hex_of n) = n \<and> hex_of n \<noteq> CHR ''/''"
  by code_simp

lemma hex_of_code: "n < 16 \<Longrightarrow> code_of_hex (hex_of n) = n"
  and hex_of_plain: "n < 16 \<Longrightarrow> hex_of n \<noteq> CHR ''/''"
  using hex_table by simp_all

lemma char_code_bound: "char_code c < 256"
  by (simp add: char_code_def)

lemma unquote_quote: "unquote (quote s @ r) = s @ unquote r"
proof (induction s)
  case (Cons c s)
  show ?case
  proof (cases "unreserved c")
    case True
    then have "c \<noteq> CHR ''%''" by (auto simp: unreserved_def is_digit_def lower_char_def char_code_def)
    with True Cons show ?thesis by (simp add: quote_def quote_char_def unquote_plain)
  next
    case False
    have "code_of_hex (hex_of (char_code c div 16)) = char_code c div 16" "code_of_hex (hex_of (char_code c mod 16)) = char_code c mod 16"
      using char_code_bound[of c] by (auto intro!: hex_of_code)
    then have "char_of (16 * code_of_hex (hex_of (char_code c div 16)) + code_of_hex (hex_of (char_code c mod 16))) = c"
      by (simp add: char_code_def)
    with False Cons show ?thesis by (simp add: quote_def quote_char_def)
  qed
qed (simp add: quote_def)

lemma quote_no_slash: "CHR ''/'' \<notin> set (quote s)"
proof -
  have "CHR ''/'' \<notin> set (quote_char c)" for c
  proof (cases "unreserved c")
    case True
    then have "c \<noteq> CHR ''/''" by (auto simp: unreserved_def is_digit_def lower_char_def char_code_def)
    with True show ?thesis by (simp add: quote_char_def)
  next
    case False
    have "hex_of (char_code c div 16) \<noteq> CHR ''/''" "hex_of (char_code c mod 16) \<noteq> CHR ''/''"
      using char_code_bound[of c] by (auto intro!: hex_of_plain)
    with False show ?thesis by (auto simp: quote_char_def)
  qed
  then show ?thesis by (auto simp: quote_def)
qed

text \<open>Whatever characters a session's name has, it is one segment of the address of each of its requests and is read back
  from it: no name reaches another session or another action.\<close>

theorem session_name_is_one_segment:
  "\<exists>seg. session_url base s action = base_url_of base @ ''/session/'' @ seg @ action \<and> CHR ''/'' \<notin> set seg \<and> unquote seg = s"
proof (intro exI conjI)
  show "session_url base s action = base_url_of base @ ''/session/'' @ quote s @ action" by (simp add: session_url_def)
  show "CHR ''/'' \<notin> set (quote s)" by (rule quote_no_slash)
  show "unquote (quote s) = s" using unquote_quote[of s "[]"] by simp
qed

end
