(* ===== verification/Spend_Meter.thy ===== *)
theory Spend_Meter
  imports Session_Runner
begin

text \<open>
  The rest of \<open>wevibe_bench/proxy_meter.py\<close>: the spend of a session and the models its requests were answered by.  The
  database is its answer to the query: a row or none, or \<open>None\<close> when it cannot be reached.
\<close>

record run_spend =
  rs_calls :: int
  rs_true_usd :: real
  rs_benchmark_usd :: real
  rs_uncached :: int
  rs_cached :: int
  rs_output :: int
  rs_reasoning :: int
  rs_unmetered :: int
  rs_last_call :: "string option"

definition no_spend :: run_spend where
  "no_spend = \<lparr>rs_calls = 0, rs_true_usd = 0, rs_benchmark_usd = 0, rs_uncached = 0, rs_cached = 0, rs_output = 0,
     rs_reasoning = 0, rs_unmetered = 0, rs_last_call = None\<rparr>"

text \<open>A meter that cannot be reached reads like a session without requests.\<close>

definition meter_run_spend :: "run_spend option option \<Rightarrow> run_spend" where
  "meter_run_spend answer = (case answer of None \<Rightarrow> no_spend | Some None \<Rightarrow> no_spend | Some (Some row) \<Rightarrow> row)"

record model_identity =
  mi_model :: string
  mi_upstream :: "string option"
  mi_calls :: int

definition basename :: "string option \<Rightarrow> string" where
  "basename m = (case m of None \<Rightarrow> [] | Some t \<Rightarrow> (let v = strip t in rev (takeWhile (\<lambda>c. c \<noteq> CHR ''/'') (rev v))))"

definition is_mismatch :: "model_identity \<Rightarrow> bool" where
  "is_mismatch i \<longleftrightarrow> opt_or (mi_upstream i) [] = [] \<or> basename (mi_upstream i) \<noteq> basename (Some (mi_model i))"

definition model_identity_mismatches :: "py_exc + model_identity list \<Rightarrow> py_exc + model_identity list" where
  "model_identity_mismatches rows = bind_result rows (\<lambda>is. Inr (filter is_mismatch is))"

lemma takeWhile_rev_prefix:
  "CHR ''/'' \<notin> set b \<Longrightarrow> rev (takeWhile (\<lambda>c. c \<noteq> CHR ''/'') (rev (a @ CHR ''/'' # b))) = b"
proof -
  assume "CHR ''/'' \<notin> set b"
  then have "takeWhile (\<lambda>c. c \<noteq> CHR ''/'') (rev b @ CHR ''/'' # rev a) = rev b"
    by (subst takeWhile_append2) auto
  then show ?thesis by simp
qed

text \<open>Routers may put any prefix before the model's name; a request is reported exactly when no model is named or the
  names behind the last slash differ.\<close>

lemma prefix_is_no_mismatch:
  assumes "CHR ''/'' \<notin> set m" "strip (p @ CHR ''/'' # m) = p @ CHR ''/'' # m" "strip (q @ CHR ''/'' # m) = q @ CHR ''/'' # m"
  shows "\<not> is_mismatch \<lparr>mi_model = p @ CHR ''/'' # m, mi_upstream = Some (q @ CHR ''/'' # m), mi_calls = n\<rparr>"
  using assms by (simp add: is_mismatch_def basename_def Let_def takeWhile_rev_prefix del: rev_append rev.simps)

end
