(* ===== verification/Episode_Duration.thy ===== *)
theory Episode_Duration
  imports Run_Context
begin

text \<open>
  \<open>scripts/measure_episode_duration.py\<close>: the distribution of the episodes' durations and the verdict on the target
  rate.  Numbers are exact reals.  The database is its answer to the two queries, \<open>None\<close> when it fails; \<open>env\<close> is the
  environment and \<open>dot\<close> a dotenv file as it is read.  Log lines are not modelled.
\<close>

section \<open>Percentiles\<close>

definition TARGET_RHO :: real where "TARGET_RHO = 8 / 10"

definition interpolate :: "real list \<Rightarrow> real \<Rightarrow> real" where
  "interpolate xs pos = (let k = nat \<lfloor>pos\<rfloor>; u = min (k + 1) (length xs - 1) in
     xs ! k + (xs ! u - xs ! k) * (pos - of_nat k))"

definition duration_percentile :: "real list \<Rightarrow> real \<Rightarrow> py_exc + real option" where
  "duration_percentile xs q =
     (if xs = [] then Inr None
      else if q < 0 \<or> 100 < q then Inl PyValueError
      else if length xs = 1 then Inr (Some (hd (sort xs)))
      else Inr (Some (interpolate (sort xs) (real (length xs - 1) * (q / 100)))))"

record duration_stats =
  du_n :: nat
  du_min :: "real option"
  du_p50 :: "real option"
  du_p90 :: "real option"
  du_p95 :: "real option"
  du_max :: "real option"
  du_within :: nat
  du_fraction :: "real option"
  du_verdict :: string

definition rho_verdict :: "real option \<Rightarrow> nat \<Rightarrow> string" where
  "rho_verdict fraction n = (case fraction of
     None \<Rightarrow> ''UNDETERMINED-INSUFFICIENT-DATA''
   | Some x \<Rightarrow> if n = 0 then ''UNDETERMINED-INSUFFICIENT-DATA''
       else if TARGET_RHO \<le> x then ''ACHIEVABLE'' else ''NOT ACHIEVABLE'')"

definition percentile_of :: "real list \<Rightarrow> real \<Rightarrow> real option" where
  "percentile_of xs q = (case duration_percentile xs q of Inr v \<Rightarrow> v | Inl _ \<Rightarrow> None)"

definition compute_duration_stats :: "real list \<Rightarrow> real \<Rightarrow> py_exc + duration_stats" where
  "compute_duration_stats xs window =
     (if window \<le> 0 then Inl PyValueError
      else if xs = []
      then Inr \<lparr>du_n = 0, du_min = None, du_p50 = None, du_p90 = None, du_p95 = None, du_max = None, du_within = 0,
                du_fraction = None, du_verdict = ''UNDETERMINED-INSUFFICIENT-DATA''\<rparr>
      else
       (let inside = count_if (\<lambda>d. d \<le> window) xs; fraction = real inside / real (length xs) in
        Inr \<lparr>du_n = length xs, du_min = Some (Min (set xs)), du_p50 = percentile_of xs 50, du_p90 = percentile_of xs 90,
             du_p95 = percentile_of xs 95, du_max = Some (Max (set xs)), du_within = inside, du_fraction = Some fraction,
             du_verdict = rho_verdict (Some fraction) (length xs)\<rparr>))"

section \<open>The run\<close>

definition DSN_KEYS :: "string list" where
  "DSN_KEYS = [''WEVIBE_BENCH_HUB_DB_DSN'', ''WEVIBE_HUB_DATABASE_URL'', ''DATABASE_URL'']"

definition first_value :: "(string \<Rightarrow> string option) \<Rightarrow> string list \<Rightarrow> (string \<times> string) option" where
  "first_value get ks = (case filter (\<lambda>k. strip (opt_or (get k) []) \<noteq> []) ks of
     [] \<Rightarrow> None | k # _ \<Rightarrow> Some (strip (opt_or (get k) []), k))"

text \<open>The environment, then the dotenv files in order, then the address of the local hub.\<close>

fun dotenv_value :: "(string \<times> (string \<Rightarrow> string option)) list \<Rightarrow> (string \<times> string) option" where
  "dotenv_value [] = None"
| "dotenv_value ((path, dot) # files) = (case first_value dot DSN_KEYS of
     Some (v, k) \<Rightarrow> Some (v, ''dotenv:'' @ path @ '':'' @ k) | None \<Rightarrow> dotenv_value files)"

definition resolve_hub_dsn ::
  "(string \<Rightarrow> string option) \<Rightarrow> (string \<times> (string \<Rightarrow> string option)) list \<Rightarrow> string \<Rightarrow> string \<times> string" where
  "resolve_hub_dsn env files local = (case first_value env DSN_KEYS of
     Some (v, k) \<Rightarrow> (v, ''env:'' @ k)
   | None \<Rightarrow> (case dotenv_value files of Some r \<Rightarrow> r
       | None \<Rightarrow> (local, ''docker-compose default wevibe-server:127.0.0.1:5433/wevibe_hub'')))"

definition duration_run :: "(real list \<times> int) option \<Rightarrow> real \<Rightarrow> py_exc + int \<times> string" where
  "duration_run answer window = (case answer of
     None \<Rightarrow> Inr (2, ''UNDETERMINED-INSUFFICIENT-DATA'')
   | Some (durations, _) \<Rightarrow> bind_result (compute_duration_stats durations window) (\<lambda>s.
       Inr (if du_n s = 0 then 1 else 0, du_verdict s)))"

lemma sort_ends:
  assumes "xs \<noteq> []"
  shows "sort xs ! 0 = Min (set (xs :: real list))" "sort xs ! (length xs - 1) = Max (set xs)"
proof -
  have first: "sort xs ! 0 \<in> set xs" and final: "sort xs ! (length xs - 1) \<in> set xs"
    using assms nth_mem[of 0 "sort xs"] nth_mem[of "length xs - 1" "sort xs"] by auto
  have all: "sort xs ! 0 \<le> x \<and> x \<le> sort xs ! (length xs - 1)" if x: "x \<in> set xs" for x
  proof -
    have "x \<in> set (sort xs)" using x by simp
    then obtain i where i: "i < length (sort xs)" "sort xs ! i = x" unfolding in_set_conv_nth by blast
    then have "sort xs ! 0 \<le> sort xs ! i" "sort xs ! i \<le> sort xs ! (length xs - 1)"
      by (auto intro!: sorted_nth_mono)
    with i show ?thesis by simp
  qed
  show "sort xs ! 0 = Min (set xs)" by (rule sym, rule Min_eqI) (use first all in auto)
  show "sort xs ! (length xs - 1) = Max (set xs)" by (rule sym, rule Max_eqI) (use final all in auto)
qed

section \<open>Percentiles grow with their rank and stay between the extremes\<close>

lemma interpolate_bounds:
  assumes "sorted xs" "2 \<le> length xs" "0 \<le> pos" "pos \<le> real (length xs - 1)"
  shows "xs ! nat \<lfloor>pos\<rfloor> \<le> interpolate xs pos" "interpolate xs pos \<le> xs ! min (nat \<lfloor>pos\<rfloor> + 1) (length xs - 1)"
proof -
  let ?k = "nat \<lfloor>pos\<rfloor>" and ?u = "min (nat \<lfloor>pos\<rfloor> + 1) (length xs - 1)"
  have k: "?k \<le> length xs - 1" using assms(3,4) by linarith
  have frac: "0 \<le> pos - real ?k" "pos - real ?k \<le> 1" using assms(3) by linarith+
  have mono: "xs ! ?k \<le> xs ! ?u" using assms(1,2) k by (intro sorted_nth_mono) auto
  then show "xs ! ?k \<le> interpolate xs pos" using frac by (simp add: interpolate_def Let_def)
  have "(xs ! ?u - xs ! ?k) * (pos - real ?k) \<le> (xs ! ?u - xs ! ?k) * 1"
    using mono frac by (intro mult_left_mono) auto
  then show "interpolate xs pos \<le> xs ! ?u" by (simp add: interpolate_def Let_def)
qed

lemma interpolate_mono:
  assumes "sorted xs" "2 \<le> length xs" "0 \<le> p" "p \<le> q" "q \<le> real (length xs - 1)"
  shows "interpolate xs p \<le> interpolate xs q"
proof (cases "nat \<lfloor>p\<rfloor> = nat \<lfloor>q\<rfloor>")
  case True
  let ?k = "nat \<lfloor>q\<rfloor>" and ?u = "min (nat \<lfloor>q\<rfloor> + 1) (length xs - 1)"
  have "?k \<le> length xs - 1" using assms by linarith
  then have "xs ! ?k \<le> xs ! ?u" using assms(1,2) by (intro sorted_nth_mono) auto
  then have "(xs ! ?u - xs ! ?k) * (p - real ?k) \<le> (xs ! ?u - xs ! ?k) * (q - real ?k)"
    using assms(4) by (intro mult_left_mono) auto
  then show ?thesis using True by (simp add: interpolate_def Let_def)
next
  case False
  then have less: "nat \<lfloor>p\<rfloor> + 1 \<le> nat \<lfloor>q\<rfloor>" using assms(3,4) by linarith
  have q: "nat \<lfloor>q\<rfloor> \<le> length xs - 1" using assms by linarith
  have "interpolate xs p \<le> xs ! min (nat \<lfloor>p\<rfloor> + 1) (length xs - 1)"
    by (rule interpolate_bounds(2)) (use assms in auto)
  also have "\<dots> \<le> xs ! nat \<lfloor>q\<rfloor>" using assms(1,2) less q by (intro sorted_nth_mono) auto
  also have "\<dots> \<le> interpolate xs q" by (rule interpolate_bounds(1)) (use assms in auto)
  finally show ?thesis .
qed

lemma percentile_some:
  assumes "xs \<noteq> []" "0 \<le> q" "q \<le> 100"
  shows "duration_percentile xs q = Inr (Some (if length xs = 1 then hd xs else interpolate (sort xs) (real (length xs - 1) * (q / 100))))"
proof -
  have "hd (sort xs) = hd xs" if "length xs = 1" using that by (cases xs) auto
  with assms show ?thesis by (simp add: duration_percentile_def)
qed

text \<open>The median of the durations is at most the ninth decile, that at most the 95th percentile, and all lie between the
  shortest and the longest; the fraction within the window is that of the counts, and it alone decides.\<close>

theorem percentiles_are_ordered:
  assumes "xs \<noteq> []" "0 < window"
  shows "\<exists>s a b c. compute_duration_stats xs window = Inr s \<and> du_p50 s = Some a \<and> du_p90 s = Some b \<and> du_p95 s = Some c \<and>
    du_min s = Some (Min (set xs)) \<and> du_max s = Some (Max (set xs)) \<and>
    Min (set xs) \<le> a \<and> a \<le> b \<and> b \<le> c \<and> c \<le> Max (set xs) \<and>
    (du_verdict s = ''ACHIEVABLE'' \<longleftrightarrow> 8 * length xs \<le> 10 * count_if (\<lambda>d. d \<le> window) xs) \<and>
    (du_verdict s = ''NOT ACHIEVABLE'' \<longleftrightarrow> 10 * count_if (\<lambda>d. d \<le> window) xs < 8 * length xs)"
proof -
  define v where "v q = (if length xs = 1 then hd xs else interpolate (sort xs) (real (length xs - 1) * (q / 100)))" for q :: real
  have p: "percentile_of xs q = Some (v q)" if "0 \<le> q" "q \<le> 100" for q
    using percentile_some[OF assms(1) that] by (simp add: percentile_of_def v_def)
  have mono: "v q \<le> v r" if "0 \<le> q" "q \<le> r" "r \<le> 100" for q r
  proof (cases "length xs = 1")
    case False
    then have "2 \<le> length (sort xs)" using assms(1) by (cases xs rule: remdups_adj.cases) auto
    moreover have "real (length xs - 1) * (r / 100) \<le> real (length xs - 1)"
      using that mult_left_mono[of "r / 100" 1 "real (length xs - 1)"] by simp
    ultimately show ?thesis
      using that False unfolding v_def by (auto intro!: interpolate_mono mult_left_mono)
  qed (simp add: v_def)
  have ends: "v 0 = Min (set xs)" "v 100 = Max (set xs)"
  proof -
    have "interpolate (sort xs) 0 = Min (set xs)" "interpolate (sort xs) (real (length xs - 1)) = Max (set xs)"
      using sort_ends[OF assms(1)] by (simp_all add: interpolate_def Let_def)
    moreover have "Min (set xs) = hd xs" "Max (set xs) = hd xs" if "length xs = 1" using that by (cases xs; auto)+
    ultimately show "v 0 = Min (set xs)" "v 100 = Max (set xs)" by (auto simp: v_def)
  qed
  have "8 / 10 \<le> real m / real (length xs) \<longleftrightarrow> 8 * length xs \<le> 10 * m" for m
  proof -
    have "8 / 10 \<le> real m / real (length xs) \<longleftrightarrow> 8 / 10 * real (length xs) \<le> real m"
      using assms(1) by (simp add: pos_le_divide_eq)
    also have "\<dots> \<longleftrightarrow> 8 * length xs \<le> 10 * m" by linarith
    finally show ?thesis .
  qed
  with p mono[of 0 50] mono[of 50 90] mono[of 90 95] mono[of 95 100] ends assms show ?thesis
    by (auto simp: compute_duration_stats_def Let_def rho_verdict_def TARGET_RHO_def)
qed

end
