(* ===== verification/Match_Rate.thy ===== *)
theory Match_Rate
  imports Ops_Log Memory_Recall
begin

text \<open>
  \<open>scripts/keyword_match_rate.py\<close>: how many served memories were found by keywords, from the artifacts of a run.  \<open>loads\<close>
  decodes JSON, \<open>literal\<close> is \<open>ast.literal_eval\<close>, \<open>rp\<close> prints a value and \<open>float\<close> reads a number's text; a file is its
  path and its text, a directory the list of its files in the order of the search.
\<close>

section \<open>Served memories\<close>

record served_memory =
  sm_cid :: "string option"
  sm_keywords :: "string list"
  sm_keyword :: "real option"
  sm_vector :: "real option"
  sm_combined :: "real option"

definition looks_served :: "pyval \<Rightarrow> bool" where
  "looks_served v \<longleftrightarrow> (case v of
     PList (PDict d # _) \<Rightarrow> list_ex (\<lambda>k. map_of d k \<noteq> None)
       [''matched_keywords'', ''keyword_score'', ''vector_score'', ''combined_score'', ''cid'']
   | _ \<Rightarrow> False)"

definition items_of :: "pyval \<Rightarrow> pyval list" where
  "items_of v = (case v of PList xs \<Rightarrow> xs | _ \<Rightarrow> [])"

text \<open>One of three lists by name, or else the first list that looks like one.\<close>

definition extract_telemetry_list :: "pyval \<Rightarrow> py_exc + pyval list" where
  "extract_telemetry_list v = (case v of
     PList xs \<Rightarrow> Inr xs
   | PDict d \<Rightarrow>
       (case filter (\<lambda>k. is_list (dget d k)) [''precision_dilution'', ''memories'', ''injected''] of
          k # _ \<Rightarrow> Inr (items_of (dget d k))
        | [] \<Rightarrow> (case filter looks_served (map snd d) of x # _ \<Rightarrow> Inr (items_of x) | [] \<Rightarrow> Inl PyValueError))
   | _ \<Rightarrow> Inl PyValueError)"

definition served_of_item :: "(pyval \<Rightarrow> string) \<Rightarrow> pydict \<Rightarrow> served_memory" where
  "served_of_item rp d =
     \<lparr>sm_cid = (if dget d ''cid'' = PNone then None else Some (py_str rp (dget d ''cid''))),
      sm_keywords = List.map_filter (\<lambda>v. case v of PStr t \<Rightarrow> Some t | _ \<Rightarrow> None) (items_of (dget d ''matched_keywords'')),
      sm_keyword = num (dget d ''keyword_score''), sm_vector = num (dget d ''vector_score''),
      sm_combined = num (dget d ''combined_score'')\<rparr>"

definition parse_telemetry_json :: "(string \<Rightarrow> pyval option) \<Rightarrow> (pyval \<Rightarrow> string) \<Rightarrow> string \<Rightarrow> py_exc + served_memory list" where
  "parse_telemetry_json loads rp t = (case loads t of
     None \<Rightarrow> Inl PyValueError
   | Some v \<Rightarrow> bind_result (extract_telemetry_list v) (\<lambda>xs.
       Inr (List.map_filter (\<lambda>x. case x of PDict d \<Rightarrow> Some (served_of_item rp d) | _ \<Rightarrow> None) xs)))"

section \<open>The logs\<close>

text \<open>All texts in a value, in order; the second function is for the entries of a mapping.\<close>

fun flatten_keyword_channel :: "pyval \<Rightarrow> string list" and flatten_entries :: "pydict \<Rightarrow> string list" and
  flatten_items :: "pyval list \<Rightarrow> string list" where
  "flatten_keyword_channel (PStr t) = [t]"
| "flatten_keyword_channel (PDict d) = flatten_entries d"
| "flatten_keyword_channel (PList xs) = flatten_items xs"
| "flatten_keyword_channel PNone = []"
| "flatten_keyword_channel (PBool b) = []"
| "flatten_keyword_channel (PInt i) = []"
| "flatten_keyword_channel (PFloat x) = []"
| "flatten_entries [] = []"
| "flatten_entries ((k, v) # d) = flatten_keyword_channel v @ flatten_entries d"
| "flatten_items [] = []"
| "flatten_items (v # vs) = flatten_keyword_channel v @ flatten_items vs"

text \<open>The value of the first field of that name.\<close>

definition field_value :: "string \<Rightarrow> string \<Rightarrow> string option" where
  "field_value key line = (case find_all (at_word [Lit (key @ ''=''), Word_Run]) line of
     [v] # _ \<Rightarrow> Some v | _ \<Rightarrow> None)"

definition field_number :: "string \<Rightarrow> string \<Rightarrow> real option" where
  "field_number key line = (case field_value key line of None \<Rightarrow> None | Some t \<Rightarrow> float_of_string t)"

definition is_memory_line :: "string \<Rightarrow> bool" where
  "is_memory_line l \<longleftrightarrow> contains l ''memory['' \<and> contains l '' cid='' \<and> contains l '' keyword=''"

definition memory_of_line :: "string \<Rightarrow> served_memory" where
  "memory_of_line l = \<lparr>sm_cid = field_value ''cid'' l, sm_keywords = [], sm_keyword = field_number ''keyword'' l,
     sm_vector = field_number ''vector'' l, sm_combined = field_number ''combined'' l\<rparr>"

text \<open>What follows the first occurrence of a text.\<close>

fun behind :: "string \<Rightarrow> string \<Rightarrow> string option" where
  "behind pat [] = (if pat = [] then Some [] else None)"
| "behind pat (c # s) = (if starts_with (c # s) pat then Some (drop (length pat) (c # s)) else behind pat s)"

definition channel_of_line :: "(string \<Rightarrow> pyval option) \<Rightarrow> string \<Rightarrow> string list" where
  "channel_of_line literal l = (case behind ''keyword_channel='' l of
     None \<Rightarrow> []
   | Some r \<Rightarrow> if strip r = [] then [] else (case literal (strip r) of None \<Rightarrow> [] | Some v \<Rightarrow> flatten_keyword_channel v))"

definition stripped_lines :: "string \<Rightarrow> string list" where "stripped_lines t = map strip (splitlines t)"

definition parse_recall_smoke_log :: "(string \<Rightarrow> pyval option) \<Rightarrow> string \<Rightarrow> served_memory list \<times> string list" where
  "parse_recall_smoke_log literal t =
     (map memory_of_line (filter is_memory_line (stripped_lines t)),
      concat (map (channel_of_line literal) (filter (\<lambda>l. \<not> is_memory_line l) (stripped_lines t))))"

text \<open>A memory in a line of injections: an identifier, a bracket, a score.\<close>

definition hex_char :: "char \<Rightarrow> bool" where
  "hex_char c \<longleftrightarrow> is_digit c \<or> lower_char c \<in> set ''abcdef''"

definition injected_at :: "bool \<Rightarrow> string \<Rightarrow> ((string \<times> string) \<times> string) option" where
  "injected_at w s =
     (let cid = takeWhile hex_char s; r = dropWhile hex_char s in
      if cid = [] \<or> \<not> starts_with r ''(score='' then None
      else (let q = drop 7 r; whole = takeWhile is_digit q; q1 = dropWhile is_digit q; frac = takeWhile is_digit (tl q1) in
        if whole = [] then None
        else if starts_with q1 ''.'' \<and> frac \<noteq> [] then Some ((cid, whole @ ''.'' @ frac), dropWhile is_digit (tl q1))
        else Some ((cid, whole), q1)))"

definition parse_plugin_log :: "string \<Rightarrow> served_memory list" where
  "parse_plugin_log t = concat (map (\<lambda>l. if contains l ''[inject]''
       then map (\<lambda>(cid, score). \<lparr>sm_cid = Some cid, sm_keywords = [], sm_keyword = None, sm_vector = None,
          sm_combined = float_of_string score\<rparr>) (find_all injected_at l) else []) (stripped_lines t))"

section \<open>The report\<close>

definition above_zero :: "real option \<Rightarrow> bool" where
  "above_zero x = (case x of None \<Rightarrow> False | Some r \<Rightarrow> 0 < r)"

definition is_matched :: "served_memory \<Rightarrow> bool" where
  "is_matched m \<longleftrightarrow> sm_keywords m \<noteq> [] \<or> above_zero (sm_keyword m)"

definition is_vector_only :: "served_memory \<Rightarrow> bool" where
  "is_vector_only m \<longleftrightarrow> sm_keywords m = [] \<and> (sm_keyword m = None \<or> sm_keyword m = Some 0)
     \<and> (above_zero (sm_vector m) \<or> above_zero (sm_combined m))"

record match_report =
  mt_source :: "(string \<times> string) list"
  mt_served :: nat
  mt_matched :: nat
  mt_rate :: "real option"
  mt_vector_only :: nat
  mt_instances :: nat
  mt_unmatched :: "string list option"
  mt_memories :: "(served_memory \<times> bool) list"

definition completeness :: "served_memory list \<Rightarrow> string" where
  "completeness ms = (if list_ex (\<lambda>m. sm_keywords m \<noteq> [] \<or> sm_keyword m \<noteq> None) ms then ''full'' else ''served_only'')"

definition report_source :: "served_memory list \<Rightarrow> (string \<times> string) list option \<Rightarrow> (string \<times> string) list" where
  "report_source ms src = (case src of
     None \<Rightarrow> [(''artifact'', ''<unknown>''), (''kind'', ''unknown''), (''data_completeness'', completeness ms)]
   | Some d \<Rightarrow> if map_of d ''data_completeness'' = None then d @ [(''data_completeness'', completeness ms)] else d)"

definition unmatched_keywords :: "served_memory list \<Rightarrow> string list \<Rightarrow> string list" where
  "unmatched_keywords ms qs =
     filter (\<lambda>k. \<not> list_ex (\<lambda>m. k \<in> set (sm_keywords m)) ms) (rev (remdups (rev qs)))"

definition compute_report ::
  "served_memory list \<Rightarrow> string list option \<Rightarrow> (string \<times> string) list option \<Rightarrow> match_report" where
  "compute_report ms qs src =
     \<lparr>mt_source = report_source ms src, mt_served = length ms, mt_matched = count_if is_matched ms,
      mt_rate = (if ms = [] then None else Some (real (count_if is_matched ms) / real (length ms))),
      mt_vector_only = count_if is_vector_only ms, mt_instances = sum_list (map (length \<circ> sm_keywords) ms),
      mt_unmatched = (case qs of None \<Rightarrow> None
        | Some q \<Rightarrow> if list_ex (\<lambda>m. sm_keywords m \<noteq> []) ms then Some (unmatched_keywords ms q) else None),
      mt_memories = map (\<lambda>m. (m, is_vector_only m)) ms\<rparr>"

definition source_of :: "string \<Rightarrow> string \<Rightarrow> string \<Rightarrow> (string \<times> string) list option" where
  "source_of artifact kind extent = Some [(''artifact'', artifact), (''kind'', kind), (''data_completeness'', extent)]"

datatype match_target = One_File string string | Files "(string \<times> string) list" "(string \<times> string) list" | Nothing_There

text \<open>A file is tried in three ways, a directory first for its telemetry (all of it together), then for the first log of
  either kind.\<close>

definition build_report_for_input ::
  "(string \<Rightarrow> pyval option) \<Rightarrow> (string \<Rightarrow> pyval option) \<Rightarrow> (pyval \<Rightarrow> string) \<Rightarrow> match_target \<Rightarrow> py_exc + match_report" where
  "build_report_for_input loads literal rp target = (case target of
     One_File path t \<Rightarrow>
       (case parse_telemetry_json loads rp t of
          Inr ms \<Rightarrow> Inr (compute_report ms None (source_of path ''telemetry_json'' ''full''))
        | Inl _ \<Rightarrow>
            (case parse_recall_smoke_log literal t of (ms, qs) \<Rightarrow>
               if ms \<noteq> [] then Inr (compute_report ms (Some qs) (source_of path ''recall_smoke_log'' ''full''))
               else if parse_plugin_log t \<noteq> []
               then Inr (compute_report (parse_plugin_log t) None (source_of path ''plugin_log'' ''served_only''))
               else Inl PyValueError))
   | Files jsons logs \<Rightarrow>
       (let good = List.map_filter (\<lambda>(p, t). case parse_telemetry_json loads rp t of Inr ms \<Rightarrow> Some (p, ms) | Inl _ \<Rightarrow> None) jsons in
        if good \<noteq> [] then Inr (compute_report (concat (map snd good)) None
            (source_of (join '','' (map fst good)) ''telemetry_json'' ''full''))
        else (case filter (\<lambda>(p, t). fst (parse_recall_smoke_log literal t) \<noteq> []) logs of
           (p, t) # _ \<Rightarrow> (case parse_recall_smoke_log literal t of (ms, qs) \<Rightarrow>
              Inr (compute_report ms (Some qs) (source_of p ''recall_smoke_log'' ''full'')))
         | [] \<Rightarrow> (case filter (\<lambda>(p, t). parse_plugin_log t \<noteq> []) logs of
             (p, t) # _ \<Rightarrow> Inr (compute_report (parse_plugin_log t) None (source_of p ''plugin_log'' ''served_only''))
           | [] \<Rightarrow> Inl PyValueError)))
   | Nothing_There \<Rightarrow> Inl PyValueError)"

section \<open>The counts\<close>

text \<open>No memory counts both as matched and as found by its vector alone, so that the two counts fit into the number
  served; the rate is the share of the first, and a keyword is unmatched exactly when a query named it and no served
  memory did.\<close>

theorem report_counts:
  fixes ms qs src
  defines "r \<equiv> compute_report ms qs src"
  shows "mt_matched r + mt_vector_only r \<le> mt_served r \<and>
    (\<forall>x. mt_rate r = Some x \<longrightarrow> 0 \<le> x \<and> x \<le> 1 \<and> x * real (mt_served r) = real (mt_matched r)) \<and>
    (\<forall>ks k. mt_unmatched r = Some ks \<longrightarrow> distinct ks \<and>
       (k \<in> set ks \<longleftrightarrow> k \<in> set (opt_or qs []) \<and> (\<forall>m \<in> set ms. k \<notin> set (sm_keywords m))))"
proof (intro conjI allI impI)
  have "count_if is_matched ms + count_if is_vector_only ms \<le> length ms"
    by (induction ms) (auto simp: is_matched_def is_vector_only_def above_zero_def)
  then show "mt_matched r + mt_vector_only r \<le> mt_served r" by (simp add: r_def compute_report_def)
  show "0 \<le> x" "x \<le> 1" "x * real (mt_served r) = real (mt_matched r)" if "mt_rate r = Some x" for x
    using that count_if_le[of is_matched ms] by (auto simp: r_def compute_report_def split: if_splits)
  show "distinct ks" "k \<in> set ks \<longleftrightarrow> k \<in> set (opt_or qs []) \<and> (\<forall>m \<in> set ms. k \<notin> set (sm_keywords m))"
    if "mt_unmatched r = Some ks" for ks k
    using that by (auto simp: r_def compute_report_def unmatched_keywords_def list_ex_iff split: option.splits if_splits)
qed

end
