(* ===== verification/Spec2Isabelle.thy ===== *)
theory Spec2Isabelle
  imports Proxy_Startup Proxy_Concurrency Cumulative_Sequencer Run_Artifacts Serve_Chunks Session_Runner
    Process_Reaper Paired_Stats Ablation_Scorecard Oracle_Scan Recall_Gold Model_Selection
    Feedback_Text Cell_Delivery Gate_Run Cell_Setup Hold_Review Run_Context Session_Db
    Delivery_Proof Bench_Env Run_Ledger Bench_Preflight Swe_Runner Solo_Run
    Serve_Requests Spend_Meter Episode_Duration Match_Rate
begin

text \<open>
  A verification development for the WeVibe benchmark harness.  The program measures how well a coding
  model builds a backgammon application: a campaign is a fixed sequence of sessions; each session runs one
  cell, in which a worker process inside a Docker container works for up to eight attempts on one task; after
  every attempt a gate process judges the result and its report is fed back to the worker.  All paid requests
  of the worker pass through a local proxy that enforces a hard budget.  When the campaign is over (and while
  it runs) its append-only record stream is turned into a scorecard, and the arms with and without memory are
  compared statistically.

  \<^bold>\<open>Layers and how they interact.\<close>  From the outside in:

  \<^item> the campaign: \<open>Cumulative_Sequencer\<close> (\<open>cumulative/sequencer.py\<close>) steps a manifest of sessions through
    their phases and checkpoints after each step; it calls a session runner, whose contract is a locale there;
    \<open>Session_Runner\<close> (\<open>RealSessionRunner\<close> of \<open>scripts/run_cumulative.py\<close>) is the provider that is really used and
    interprets that contract.  \<open>Cumulative_Types\<close> and \<open>Progress_Vector\<close> (\<open>cumulative/types.py\<close>,
    \<open>cumulative/progress.py\<close>) hold the records and their JSON forms, \<open>Cumulative_Manifest\<close>
    (\<open>cumulative/ordering.py\<close>, \<open>cumulative/manifest.py\<close>) the schedule and the durable manifest with its drift
    checks, \<open>Run_Artifacts\<close> (\<open>cumulative/run_artifacts.py\<close>) the write-once run manifest, the record stream and the
    scorecard, \<open>Convergence_Trend\<close> (\<open>cumulative/convergence.py\<close>) the trend derived from the progress.
    \<open>Model_Catalog\<close> and \<open>Model_Selection\<close> (\<open>config.py\<close>, the selection functions of \<open>run_cumulative.py\<close> and
    \<open>build_worker_opencode_config\<close>) decide which model is measured and what the worker is told of it.

  \<^item> the cell: \<open>Cell_Attempts\<close> (\<open>BackgammonRunner._run_cell_impl\<close> of \<open>adapters/backgammon.py\<close>) is the attempt loop
    with its budget gate, verdicts and totals; its worker runs come from \<open>Worker_Events\<close> (the metering of one
    process, \<open>_run_opencode\<close>) or, over a persistent serve, from \<open>Serve_Drive\<close> (one phase,
    \<open>_run_opencode_serve\<close>) and \<open>Serve_Chunks\<close> (the chunked first pass and compaction); \<open>Serve_Client\<close>
    (\<open>serve_client.py\<close>) is the reading side they use.  \<open>Harness_Budget\<close> is the budget decision before an attempt,
    made from the proxy's checkpoint.  \<open>Oracle_Scan\<close> (\<open>adapters/cheat_detector.py\<close>) looks for a worker that read
    the hidden gates.

  \<^item> around the attempts: \<open>Cell_Setup\<close> prepares the worktree and the container's configuration, \<open>Cell_Delivery\<close>
    (\<open>_run_cell_attempt\<close>) chooses between the serve and a process for each message and says which of them writes
    the event log, \<open>Gate_Run\<close> (\<open>_run_gate_report\<close>) runs the gates under a watchdog, \<open>Feedback_Text\<close> composes every
    message the model is sent, \<open>Cell_Telemetry\<close> reads the cell's files back, \<open>Hold_Review\<close> keeps the stack for a
    review by the operator.

  \<^item> the container: \<open>Docker_Cell\<close> (\<open>adapters/docker_worker.py\<close>) starts, feeds and removes it, \<open>Process_Reaper\<close>
    (\<open>process_reaper.py\<close> and the exit path of \<open>run_cumulative.py\<close>) cleans up after a run.

  \<^item> the proxy: \<open>Proxy_Policy\<close> and \<open>Pricing_Gate\<close> (\<open>adapters/openrouter_proxy.py\<close>: profiles, pricing, request
    rewriting, the live price check), \<open>Budget_Ledger\<close> (its ledger with reservations and checkpoint),
    \<open>Proxy_Server\<close> (\<open>adapters/openrouter_proxy_server.py\<close>: the handler, sequentially), \<open>Proxy_Concurrency\<close>
    (the same handler as interleaved steps), \<open>Proxy_Startup\<close> (configuration and start-up).

  \<^item> the memory arm: \<open>Memory_Recall\<close> (\<open>backends/\<close>, \<open>adapters/_memory_format.py\<close>) asks the recall service, selects
    the memories and says whether any was delivered, \<open>Delivery_Proof\<close> (\<open>lifecycle/\<close>) proves the delivery of expected
    memories, \<open>Serve_Requests\<close> (the writing side of \<open>serve_client.py\<close>) builds the requests to the serve.

  \<^item> before a run: \<open>Run_Context\<close> (\<open>cumulative/run_context.py\<close>, \<open>spend_key.py\<close>) records what a campaign ran with and
    refuses drift, and finds the operator's key; \<open>Bench_Env\<close> (\<open>benv.py\<close>) reads the environment file;
    \<open>Recall_Preflight\<close> and \<open>Bench_Preflight\<close> (\<open>preflight.py\<close>, \<open>scripts/bench_preflight.py\<close>) probe the services and
    the worker.

  \<^item> other drivers: \<open>Swe_Texts\<close> and \<open>Swe_Runner\<close> (\<open>adapters/swecontextbench.py\<close>, \<open>adapters/bench_report.py\<close>,
    \<open>runner.py\<close>) are the second benchmark, \<open>Solo_Run\<close> (\<open>scripts/run_backgammon.py\<close>) runs the modes of one
    task with a checkpoint, \<open>Ladder\<close> (\<open>scripts/backgammon_ladder.py\<close>) repeats it until it succeeds.

  \<^item> the analysis: \<open>Ablation_Scorecard\<close> (\<open>scorecard.py\<close>, \<open>seeding.py\<close>), \<open>Paired_Stats\<close> (\<open>stats.py\<close>),
    \<open>Recall_Gold\<close> (\<open>recall_gold.py\<close>), \<open>Ops_Log\<close> and \<open>Run_Ledger\<close> (\<open>ledger/\<close>: the account of a run made from its
    logs), \<open>Spend_Meter\<close> (\<open>proxy_meter.py\<close>), \<open>Session_Db\<close> (\<open>session_db_integrity.py\<close>,
    \<open>scripts/session_db_poll.py\<close>), \<open>Episode_Duration\<close> and \<open>Match_Rate\<close> (\<open>scripts/measure_episode_duration.py\<close>,
    \<open>scripts/keyword_match_rate.py\<close>).

  \<^bold>\<open>The library.\<close>  \<open>Bench_Prelude\<close> has the vocabulary all components share: decoded JSON values with Python's
  coercions and truth, strings, the result type \<open>py_exc + 'a\<close> of code that may raise, association lists,
  counting.  Two interfaces are locales: \<open>Budget_Interface\<close> (a budget authority that holds and settles
  amounts under request ids; interpreted by the ledger, used by the concurrent proxy) and \<open>Checkpoint_Codec\<close> (an
  encoder and decoder that round-trip; interpreted for every record that is checkpointed).  A third, in
  \<open>Cumulative_Sequencer\<close>, states what the sequencer needs of a session runner, and is interpreted by the model
  of the real one.

  \<^bold>\<open>How code becomes definitions.\<close>  Classes are records, enumerations datatypes, a raise is \<open>Inl\<close> of an exception
  or a raised outcome, and state is passed explicitly.  Python integers are \<open>int\<close>; floats are exact reals, so no
  statement is about rounding.  Time, the answers of daemons and files are arguments: functions from the commands
  sent (\<open>docker_env\<close>), lists of replies read in order, or options for files that may be missing.  Bounds are
  those of the source: eight attempts, four tries per read, two hundred rounds of the bisection for the beta
  quantile and one hundred and twenty for the critical value, three probes per port.  Loops whose end depends
  on the outside world are \<open>partial_function\<close> (the nudging of a phase) or \<open>function\<close> with a measure; where
  they return is a theorem.  Interleavings are the inductive step relations \<open>proxy_step\<close> (handler threads) and the
  crash histories of the sequencer.

  \<^bold>\<open>What is proved.\<close>  For the money: the ledger never exceeds the cap in any interleaving, every admitted
  request is settled once, a restart recovers every hold, reservations cover the bills, the harness asks before
  each attempt and agrees with the ledger.  For the campaign: it ends within a bounded number of steps, its
  checkpoints are exact and guarded, finished sessions are never run again whatever crashes, and the real runner
  meets the contract that these theorems assume.  For the cell: its verdict is that of its last gate report, its
  totals are the sums of its runs, its meters are exactly those of the event stream or the transcript; what the model
  is told of a failed attempt has a fixed form, names no gate and no path, and carries evidence only for a gate that
  fails again.  For the
  container: it is torn down on every path, the key is on no command line, a cell without memory does not
  depend on the memory settings.  For the memory arm: the selection of memories does not depend on the order of the
  answer, and a reported delivery has its evidence.  For the other drivers: a solo run that broke off and
  the run that resumes it execute each mode once, and a task of the second benchmark leaves no key behind
  and takes its patch against the commit it started from.  For the analysis: the scan, the split, the tests, the gold
  resolution and the run ledger do exactly what they are documented to.  Where the code departs from its documentation, the theorem states
  what it does; these theorems are of kind error, and PROJECT.json lists them as findings.

  \<^bold>\<open>Parameters.\<close>  Outside the model, and arguments of it: SHA-256, the JSON printer and parser (\<open>dumps\<close>, \<open>loads\<close>), the
  printed form of a Python value (\<open>rp\<close>), the clock, the Docker daemon, the operating system, the seeded random
  generator, the logarithm of the gamma function, and the upstream model service.

  \<^bold>\<open>Not modelled.\<close>  Sockets, SQL, log lines and console output; the text of reports for people; the gate programs
  (JavaScript, judged by their report); argument parsing and the wiring of the objects in \<open>run_cumulative.py\<close>;
  the configuration and logging of \<open>lifecycle/\<close>; and three scripts that are input and output throughout (the transport
  smoke test, the clean-up of data, the launcher of the proxy).  PROJECT.json lists every part with its
  status.
\<close>

end
